(* ===== verification/Prelude.thy ===== *)
theory Prelude
  imports Main "HOL-Library.Word" "HOL-Library.Char_ord" "HOL-Library.List_Lexorder"
    "HOL-Library.Sublist"
begin

text \<open>
  The shared vocabulary of the development.

  \<^item> Go's \<^verbatim>\<open>[]byte\<close> and \<^verbatim>\<open>string\<close> are both byte sequences, so both are \<open>bytes\<close> (a list of
    8-bit \<open>char\<close>s); \<^verbatim>\<open>uint64\<close> is \<open>uint64\<close>; a \<^verbatim>\<open>time.Time\<close> is the number of nanoseconds
    since the Unix epoch.
  \<^item> A Go function that returns \<^verbatim>\<open>(value, error)\<close> is an \<open>option\<close> when only the presence of the
    error matters, and a sum (\<open>Inl\<close> the error) when callers look at the error. \<open>bindR\<close>,
    \<open>guardR\<close> and \<open>optR\<close> are the early return \<^verbatim>\<open>if err != nil { return err }\<close>, \<open>mapR\<close> and
    \<open>foldR\<close> the loops over a slice that stop at the first error.
  \<^item> The named collections gather the facts the component proofs share.
\<close>

named_theorems result_simps \<open>inversion of the error monad\<close>
named_theorems codec_simps \<open>round trips of the byte-level codecs\<close>
named_theorems sql_simps \<open>reading a well-typed cell back\<close>

type_synonym bytes = string
type_synonym uint64 = "64 word"
type_synonym time = int

section \<open>The error monad\<close>

definition bindR :: "'e + 'a \<Rightarrow> ('a \<Rightarrow> 'e + 'b) \<Rightarrow> 'e + 'b" where
  "bindR r f = (case r of Inl e \<Rightarrow> Inl e | Inr x \<Rightarrow> f x)"

definition guardR :: "bool \<Rightarrow> 'e \<Rightarrow> 'e + unit" where
  "guardR b e = (if b then Inr () else Inl e)"

definition optR :: "'e \<Rightarrow> 'a option \<Rightarrow> 'e + 'a" where
  "optR e x = (case x of None \<Rightarrow> Inl e | Some v \<Rightarrow> Inr v)"

fun mapR :: "('a \<Rightarrow> 'e + 'b) \<Rightarrow> 'a list \<Rightarrow> 'e + 'b list" where
  "mapR f [] = Inr []"
| "mapR f (x # xs) = bindR (f x) (\<lambda>y. bindR (mapR f xs) (\<lambda>ys. Inr (y # ys)))"

fun foldR :: "('s \<Rightarrow> 'a \<Rightarrow> 'e + 's) \<Rightarrow> 's \<Rightarrow> 'a list \<Rightarrow> 'e + 's" where
  "foldR f s [] = Inr s"
| "foldR f s (x # xs) = bindR (f s x) (\<lambda>s'. foldR f s' xs)"

lemma bindR_Inl [simp]: "bindR (Inl e) f = Inl e"
  and bindR_Inr [simp]: "bindR (Inr x) f = f x"
  by (simp_all add: bindR_def)

lemma bindR_eq_Inr [result_simps]: "bindR r f = Inr y \<longleftrightarrow> (\<exists>x. r = Inr x \<and> f x = Inr y)"
  by (cases r) auto

lemma bindR_eq_Inl [result_simps]:
  "bindR r f = Inl e \<longleftrightarrow> r = Inl e \<or> (\<exists>x. r = Inr x \<and> f x = Inl e)"
  by (cases r) auto

lemma bindR_InrE [elim]:
  assumes "bindR r f = Inr y"
  obtains x where "r = Inr x" and "f x = Inr y"
  using assms by (auto simp: bindR_eq_Inr)

lemma guardR_simps [simp]: "guardR True e = Inr ()" "guardR False e = Inl e"
  by (simp_all add: guardR_def)

lemma guardR_eq_Inr [result_simps]: "guardR b e = Inr u \<longleftrightarrow> b"
  by (simp add: guardR_def)

lemma guardR_eq_Inl [result_simps]: "guardR b e = Inl e' \<longleftrightarrow> \<not> b \<and> e' = e"
  by (auto simp: guardR_def)

lemma optR_simps [simp]: "optR e None = Inl e" "optR e (Some v) = Inr v"
  by (simp_all add: optR_def)

lemma optR_eq_Inr [result_simps]: "optR e x = Inr v \<longleftrightarrow> x = Some v"
  by (cases x) auto

lemma optR_eq_Inl [result_simps]: "optR e x = Inl e' \<longleftrightarrow> x = None \<and> e' = e"
  by (cases x) auto

lemma mapR_eq_Inr [result_simps]:
  "mapR f xs = Inr ys \<longleftrightarrow> list_all2 (\<lambda>x y. f x = Inr y) xs ys"
proof (induction xs arbitrary: ys)
  case Nil
  then show ?case by auto
next
  case (Cons x xs)
  then show ?case by (cases ys) (auto simp: bindR_eq_Inr)
qed

lemma mapR_length: "mapR f xs = Inr ys \<Longrightarrow> length ys = length xs"
  by (simp add: mapR_eq_Inr list_all2_lengthD)

lemma foldR_append: "foldR f s (xs @ ys) = bindR (foldR f s xs) (\<lambda>s'. foldR f s' ys)"
proof (induction xs arbitrary: s)
  case Nil
  then show ?case by simp
next
  case (Cons x xs)
  then show ?case by (cases "f s x") auto
qed

text \<open>The invariant rule of the loops: what every iteration keeps holds of the final state.\<close>

lemma foldR_invariant:
  assumes "foldR f s xs = Inr s'" and "P s"
    and "\<And>s x s'. x \<in> set xs \<Longrightarrow> P s \<Longrightarrow> f s x = Inr s' \<Longrightarrow> P s'"
  shows "P s'"
  using assms
proof (induction xs arbitrary: s)
  case Nil
  then show ?case by simp
next
  case (Cons x xs)
  from Cons.prems(1) obtain t where t: "f s x = Inr t" "foldR f t xs = Inr s'"
    by (auto simp: bindR_eq_Inr)
  from Cons.prems(3)[of x s t] Cons.prems(2) t(1) have "P t" by simp
  with t(2) show ?case by (rule Cons.IH) (use Cons.prems(3) in auto)
qed

section \<open>Lists and maps\<close>

lemma sorted_wrt_snoc: "sorted_wrt R (xs @ [x]) \<longleftrightarrow> sorted_wrt R xs \<and> (\<forall>y\<in>set xs. R y x)"
  by (simp add: sorted_wrt_append)

lemma filter_id: "(\<And>x. x \<in> set xs \<Longrightarrow> P x) \<Longrightarrow> filter P xs = xs"
  by (induction xs) auto

lemma length_filter_le: "(\<And>x. x \<in> set xs \<Longrightarrow> P x \<Longrightarrow> Q x) \<Longrightarrow> length (filter P xs) \<le> length (filter Q xs)"
  by (induction xs) (auto simp: le_SucI)

lemma find_SomeD: "find P xs = Some x \<Longrightarrow> P x \<and> x \<in> set xs"
  by (induction xs) (auto split: if_splits)

lemma of_char_less_256: "(of_char c :: nat) < 256"
  by (metis nat_of_char_less_256)

lemma of_char_le_255: "(of_char c :: nat) \<le> 255"
  using of_char_less_256[of c] by linarith

lemma of_char_inj [simp]: "(of_char c :: nat) = of_char d \<longleftrightarrow> c = d"
  by simp

section \<open>Successors of 64-bit counters\<close>

lemma unat_succ: "(p :: uint64) \<noteq> - 1 \<Longrightarrow> unat (p + 1) = Suc (unat p)"
  using unatSuc[of p] by (metis add.commute add_eq_0_iff)

lemma less_succ_iff: "(p :: uint64) \<noteq> - 1 \<Longrightarrow> p < c \<longleftrightarrow> p + 1 \<le> c"
  by (simp add: word_less_nat_alt word_le_nat_alt unat_succ Suc_le_eq)

end
