(* ===== verification/Bytes.thy ===== *)
theory Bytes
  imports Prelude
begin

text \<open>
  The byte-level codecs of the store: the eight-byte big-endian form of a \<^verbatim>\<open>uint64\<close> that
  every cursor, counter and generation column holds (\<^verbatim>\<open>EncodeUint64\<close>, \<^verbatim>\<open>DecodeUint64\<close> of
  \<^verbatim>\<open>store.go\<close>), its canonical decimal text on the wire (\<^verbatim>\<open>parseUint64\<close> of \<^verbatim>\<open>models.go\<close>,
  \<^verbatim>\<open>encodeUint64Text\<close> of \<^verbatim>\<open>enrollment.go\<close>) and unpadded base64url (\<^verbatim>\<open>decodeBase64\<close> of
  \<^verbatim>\<open>models.go\<close>). Each codec is shown to be a bijection onto its canonical forms, and the
  big-endian form to preserve the order, which is what lets SQL compare cursors as blobs.
\<close>

section \<open>Big-endian integers\<close>

fun be_bytes :: "nat \<Rightarrow> nat \<Rightarrow> bytes" where
  "be_bytes 0 v = []"
| "be_bytes (Suc k) v = be_bytes k (v div 256) @ [char_of v]"

fun be_acc :: "nat \<Rightarrow> bytes \<Rightarrow> nat" where
  "be_acc a [] = a"
| "be_acc a (c # cs) = be_acc (a * 256 + of_char c) cs"

definition be_nat :: "bytes \<Rightarrow> nat" where
  "be_nat bs = be_acc 0 bs"

definition EncodeUint64 :: "uint64 \<Rightarrow> bytes" where
  "EncodeUint64 value = be_bytes 8 (unat value)"

definition DecodeUint64 :: "bytes \<Rightarrow> uint64 option" where
  "DecodeUint64 value = (if length value \<noteq> 8 then None else Some (word_of_nat (be_nat value)))"

lemma length_be_bytes [simp]: "length (be_bytes k v) = k"
  by (induction k arbitrary: v) auto

lemma length_EncodeUint64 [simp]: "length (EncodeUint64 v) = 8"
  by (simp add: EncodeUint64_def)

lemma be_acc_append: "be_acc a (xs @ ys) = be_acc (be_acc a xs) ys"
  by (induction xs arbitrary: a) auto

lemma be_acc_eq: "be_acc a xs = a * 256 ^ length xs + be_nat xs"
proof (induction xs arbitrary: a)
  case Nil
  then show ?case by (simp add: be_nat_def)
next
  case (Cons c cs)
  show ?case
    using Cons.IH[of "a * 256 + of_char c"] Cons.IH[of "of_char c"]
    by (simp add: be_nat_def algebra_simps)
qed

lemma be_nat_Nil [simp]: "be_nat [] = 0"
  by (simp add: be_nat_def)

lemma be_nat_Cons: "be_nat (c # cs) = of_char c * 256 ^ length cs + be_nat cs"
  using be_acc_eq[of "of_char c" cs] by (simp add: be_nat_def)

lemma be_nat_snoc: "be_nat (cs @ [c]) = be_nat cs * 256 + of_char c"
  by (simp add: be_nat_def be_acc_append)

lemma be_nat_less: "be_nat bs < 256 ^ length bs"
proof (induction bs)
  case Nil
  then show ?case by simp
next
  case (Cons c cs)
  have "(of_char c :: nat) * 256 ^ length cs \<le> 255 * 256 ^ length cs"
    by (intro mult_right_mono of_char_le_255) simp
  with Cons have "be_nat (c # cs) < 255 * 256 ^ length cs + 256 ^ length cs"
    unfolding be_nat_Cons by linarith
  then show ?case by simp
qed

lemma be_nat_be_bytes [codec_simps]: "be_nat (be_bytes k v) = v mod 256 ^ k"
proof (induction k arbitrary: v)
  case 0
  then show ?case by simp
next
  case (Suc k)
  have "v mod 256 ^ Suc k = v mod 256 + 256 * (v div 256 mod 256 ^ k)"
    by (simp add: mod_mult2_eq)
  with Suc show ?case by (simp add: be_nat_snoc of_char_of)
qed

lemma be_bytes_be_nat [codec_simps]: "be_bytes (length bs) (be_nat bs) = bs"
proof (induction bs rule: rev_induct)
  case Nil
  then show ?case by simp
next
  case (snoc c cs)
  have "(be_nat cs * 256 + of_char c) div 256 = be_nat cs"
    using of_char_less_256[of c] by simp
  moreover have "char_of (be_nat cs * 256 + of_char c) = c"
    by (metis char_of_char char_of_mod_256 mod_mult_self3 of_char_mod_256)
  ultimately show ?case using snoc by (simp add: be_nat_snoc)
qed

text \<open>Byte strings of one length compare as the integers they encode.\<close>

lemma be_nat_less_iff: "length xs = length ys \<Longrightarrow> be_nat xs < be_nat ys \<longleftrightarrow> xs < ys"
proof (induction xs ys rule: list_induct2)
  case Nil
  then show ?case by simp
next
  case (Cons x xs y ys)
  let ?n = "256 ^ length xs :: nat"
  have b: "be_nat xs < ?n" "be_nat ys < ?n"
    using be_nat_less[of xs] be_nat_less[of ys] Cons.hyps by simp_all
  consider "(of_char x :: nat) < of_char y" | "x = y" | "(of_char y :: nat) < of_char x"
    by (metis linorder_less_linear of_char_inj)
  then show ?case
  proof cases
    case 1
    have "(of_char x + 1) * ?n \<le> of_char y * ?n"
      using 1 by (intro mult_right_mono) auto
    with b 1 Cons.hyps show ?thesis by (simp add: be_nat_Cons less_char_def)
  next
    case 2
    with Cons show ?thesis by (simp add: be_nat_Cons)
  next
    case 3
    have "(of_char y + 1) * ?n \<le> of_char x * ?n"
      using 3 by (intro mult_right_mono) auto
    with b 3 Cons.hyps show ?thesis by (auto simp: be_nat_Cons less_char_def)
  qed
qed

lemma DecodeUint64_EncodeUint64 [simp, codec_simps]: "DecodeUint64 (EncodeUint64 v) = Some v"
proof -
  have "unat v < 256 ^ 8" using unsigned_less[of v] by simp
  then show ?thesis by (simp add: DecodeUint64_def EncodeUint64_def be_nat_be_bytes)
qed

lemma DecodeUint64_eq_Some: "DecodeUint64 b = Some v \<longleftrightarrow> b = EncodeUint64 v"
proof
  assume a: "DecodeUint64 b = Some v"
  then have l: "length b = 8" and v: "v = word_of_nat (be_nat b)"
    by (auto simp: DecodeUint64_def split: if_splits)
  have "be_nat b < 2 ^ 64" using be_nat_less[of b] l by simp
  then have "unat v = be_nat b" by (simp add: v unat_of_nat take_bit_nat_eq_self)
  then show "b = EncodeUint64 v" using l be_bytes_be_nat[of b] by (simp add: EncodeUint64_def)
qed simp

lemma EncodeUint64_inj [simp]: "EncodeUint64 a = EncodeUint64 b \<longleftrightarrow> a = b"
  by (metis DecodeUint64_EncodeUint64 option.inject)

lemma EncodeUint64_less_iff: "EncodeUint64 a < EncodeUint64 b \<longleftrightarrow> a < b"
proof -
  have "be_nat (EncodeUint64 x) = unat x" for x :: uint64
  proof -
    have "unat x < 256 ^ 8" using unsigned_less[of x] by simp
    then show ?thesis by (simp add: EncodeUint64_def be_nat_be_bytes)
  qed
  then show ?thesis
    using be_nat_less_iff[of "EncodeUint64 a" "EncodeUint64 b"] by (simp add: word_less_nat_alt)
qed

lemma EncodeUint64_le_iff: "EncodeUint64 a \<le> EncodeUint64 b \<longleftrightarrow> a \<le> b"
  using EncodeUint64_less_iff[of b a] by (simp add: linorder_not_less [symmetric])

section \<open>Decimal text\<close>

definition digit_char :: "nat \<Rightarrow> char" where
  "digit_char d = char_of (48 + d)"

fun FormatUint :: "nat \<Rightarrow> bytes" where
  "FormatUint n = (if n < 10 then [digit_char n] else FormatUint (n div 10) @ [digit_char (n mod 10)])"

declare FormatUint.simps [simp del]

definition is_digit :: "char \<Rightarrow> bool" where
  "is_digit c \<longleftrightarrow> 48 \<le> (of_char c :: nat) \<and> (of_char c :: nat) \<le> 57"

definition digit_val :: "char \<Rightarrow> nat" where
  "digit_val c = of_char c - 48"

fun dec_acc :: "nat \<Rightarrow> bytes \<Rightarrow> nat" where
  "dec_acc a [] = a"
| "dec_acc a (c # cs) = dec_acc (a * 10 + digit_val c) cs"

text \<open>\<^verbatim>\<open>strconv.ParseUint(value, 10, 64)\<close>: a non-empty run of digits below \<open>2 ^ 64\<close>.\<close>

definition ParseUint :: "bytes \<Rightarrow> uint64 option" where
  "ParseUint value =
     (if value = [] \<or> \<not> list_all is_digit value \<or> 2 ^ 64 \<le> dec_acc 0 value then None
      else Some (word_of_nat (dec_acc 0 value)))"

definition encodeUint64Text :: "uint64 \<Rightarrow> bytes" where
  "encodeUint64Text value = FormatUint (unat value)"

definition parseUint64 :: "bytes \<Rightarrow> uint64 option" where
  "parseUint64 value =
     (case ParseUint value of
        None \<Rightarrow> None
      | Some parsed \<Rightarrow> if FormatUint (unat parsed) \<noteq> value then None else Some parsed)"

lemma of_char_digit_char: "d < 10 \<Longrightarrow> of_char (digit_char d) = 48 + d"
  by (simp add: digit_char_def of_char_of)

lemma is_digit_digit_char [simp]: "d < 10 \<Longrightarrow> is_digit (digit_char d)"
  by (simp add: is_digit_def of_char_digit_char)

lemma digit_val_digit_char [simp]: "d < 10 \<Longrightarrow> digit_val (digit_char d) = d"
  by (simp add: digit_val_def of_char_digit_char)

lemma FormatUint_nonempty [simp]: "FormatUint n \<noteq> []"
  by (subst FormatUint.simps) simp

lemma FormatUint_digits: "list_all is_digit (FormatUint n)"
proof (induction n rule: FormatUint.induct)
  case (1 n)
  then show ?case by (subst FormatUint.simps) simp
qed

lemma dec_acc_append: "dec_acc a (xs @ ys) = dec_acc (dec_acc a xs) ys"
  by (induction xs arbitrary: a) auto

lemma dec_acc_FormatUint: "dec_acc 0 (FormatUint n) = n"
proof (induction n rule: FormatUint.induct)
  case (1 n)
  then show ?case by (subst FormatUint.simps) (simp add: dec_acc_append)
qed

lemma FormatUint_inj [simp]: "FormatUint a = FormatUint b \<longleftrightarrow> a = b"
  by (metis dec_acc_FormatUint)

lemma encodeUint64Text_inj [simp]: "encodeUint64Text a = encodeUint64Text b \<longleftrightarrow> a = b"
  by (simp add: encodeUint64Text_def word_unat_eq_iff)

lemma parseUint64_encodeUint64Text [simp, codec_simps]: "parseUint64 (encodeUint64Text v) = Some v"
proof -
  have "unat v < 2 ^ 64" using unsigned_less[of v] by simp
  then show ?thesis
    by (simp add: parseUint64_def ParseUint_def encodeUint64Text_def FormatUint_digits
        dec_acc_FormatUint)
qed

lemma parseUint64_eq_Some: "parseUint64 s = Some v \<longleftrightarrow> s = encodeUint64Text v"
proof
  assume "parseUint64 s = Some v"
  then show "s = encodeUint64Text v"
    by (simp add: parseUint64_def encodeUint64Text_def split: option.splits if_splits)
qed simp

section \<open>Unpadded base64url\<close>

definition b64_char :: "nat \<Rightarrow> char" where
  "b64_char v =
     (if v < 26 then char_of (65 + v)
      else if v < 52 then char_of (97 + (v - 26))
      else if v < 62 then char_of (48 + (v - 52))
      else if v = 62 then CHR ''-'' else CHR ''_'')"

definition b64_val :: "char \<Rightarrow> nat option" where
  "b64_val c =
     (let n = (of_char c :: nat) in
      if 65 \<le> n \<and> n \<le> 90 then Some (n - 65)
      else if 97 \<le> n \<and> n \<le> 122 then Some (n - 97 + 26)
      else if 48 \<le> n \<and> n \<le> 57 then Some (n - 48 + 52)
      else if n = 45 then Some 62
      else if n = 95 then Some 63 else None)"

fun EncodeToString :: "bytes \<Rightarrow> bytes" where
  "EncodeToString [] = []"
| "EncodeToString [a] =
     (let n = of_char a * 16 in [b64_char (n div 64), b64_char (n mod 64)])"
| "EncodeToString [a, b] =
     (let n = (of_char a * 256 + of_char b) * 4
      in [b64_char (n div 4096), b64_char (n div 64 mod 64), b64_char (n mod 64)])"
| "EncodeToString (a # b # c # r) =
     (let n = of_char a * 65536 + of_char b * 256 + of_char c
      in b64_char (n div 262144) # b64_char (n div 4096 mod 64) # b64_char (n div 64 mod 64)
         # b64_char (n mod 64) # EncodeToString r)"

text \<open>
  \<^verbatim>\<open>base64.RawURLEncoding.Strict().DecodeString\<close>: carriage returns and newlines are skipped,
  every other character must be in the alphabet, a final group of one character is an error,
  and in strict mode so are non-zero trailing bits.
\<close>

fun b64_groups :: "nat list \<Rightarrow> bytes option" where
  "b64_groups [] = Some []"
| "b64_groups [x] = None"
| "b64_groups [x, y] =
     (let n = x * 64 + y in if n mod 16 \<noteq> 0 then None else Some [char_of (n div 16)])"
| "b64_groups [x, y, z] =
     (let n = x * 4096 + y * 64 + z
      in if n mod 4 \<noteq> 0 then None else Some [char_of (n div 1024), char_of (n div 4)])"
| "b64_groups (x # y # z # w # r) =
     (let n = x * 262144 + y * 4096 + z * 64 + w
      in map_option (\<lambda>t. char_of (n div 65536) # char_of (n div 256) # char_of n # t) (b64_groups r))"

definition DecodeString :: "bytes \<Rightarrow> bytes option" where
  "DecodeString s =
     (let vs = map b64_val (filter (\<lambda>c. c \<noteq> CHR 10 \<and> c \<noteq> CHR 13) s)
      in if None \<in> set vs then None else b64_groups (map the vs))"

definition decodeBase64 :: "bytes \<Rightarrow> int \<Rightarrow> int \<Rightarrow> int \<Rightarrow> bytes option" where
  "decodeBase64 value exactBytes minimumBytes maximumBytes =
     (case DecodeString value of
        None \<Rightarrow> None
      | Some decoded \<Rightarrow>
          if EncodeToString decoded \<noteq> value then None
          else if 0 \<le> exactBytes \<and> int (length decoded) \<noteq> exactBytes then None
          else if exactBytes < 0 \<and>
            (int (length decoded) < minimumBytes \<or> maximumBytes < int (length decoded)) then None
          else Some decoded)"

text \<open>The six-bit groups of a byte string, which both directions of the codec go through.\<close>

fun sextets :: "bytes \<Rightarrow> nat list" where
  "sextets [] = []"
| "sextets [a] = (let n = of_char a * 16 in [n div 64, n mod 64])"
| "sextets [a, b] =
     (let n = (of_char a * 256 + of_char b) * 4 in [n div 4096, n div 64 mod 64, n mod 64])"
| "sextets (a # b # c # r) =
     (let n = of_char a * 65536 + of_char b * 256 + of_char c
      in n div 262144 # n div 4096 mod 64 # n div 64 mod 64 # n mod 64 # sextets r)"

lemma EncodeToString_sextets: "EncodeToString b = map b64_char (sextets b)"
  by (induction b rule: EncodeToString.induct) (simp_all add: Let_def)

lemma top_sextet_less:
  fixes x y z :: nat
  assumes "x \<le> 255" and "y \<le> 255" and "z \<le> 255"
  shows "x div 4 < 64" and "(x * 256 + y) * 4 div 4096 < 64"
    and "(x * 65536 + y * 256 + z) div 262144 < 64"
proof -
  have "x < 256" "(x * 256 + y) * 4 < 262144" "x * 65536 + y * 256 + z < 16777216"
    using assms by simp_all
  then show "x div 4 < 64" and "(x * 256 + y) * 4 div 4096 < 64"
    and "(x * 65536 + y * 256 + z) div 262144 < 64"
    by (simp_all add: div_less_iff_less_mult)
qed

lemma sextets_less: "v \<in> set (sextets b) \<Longrightarrow> v < 64"
proof (induction b rule: sextets.induct)
  case (2 a)
  then show ?case
    using top_sextet_less(1)[OF of_char_le_255[of a] of_char_le_255[of a] of_char_le_255[of a]]
    by (auto simp: Let_def)
next
  case (3 a b)
  then show ?case
    using top_sextet_less(2)[OF of_char_le_255[of a] of_char_le_255[of b] of_char_le_255[of b]]
    by (auto simp: Let_def)
next
  case (4 a b c r)
  then show ?case
    using top_sextet_less(3)[OF of_char_le_255[of a] of_char_le_255[of b] of_char_le_255[of c]]
    by (auto simp: Let_def)
qed simp

lemma b64_val_b64_char: "v < 64 \<Longrightarrow> b64_val (b64_char v) = Some v"
  by (auto simp: b64_val_def b64_char_def of_char_of Let_def)

lemma b64_char_not_newline: "b64_char v \<noteq> CHR 10 \<and> b64_char v \<noteq> CHR 13"
proof -
  have "(of_char (b64_char v) :: nat) \<noteq> 10 \<and> (of_char (b64_char v) :: nat) \<noteq> 13"
    by (auto simp: b64_char_def of_char_of)
  then show ?thesis by auto
qed

lemma sextet_sum2: "n div 4 * 64 + n * 16 mod 64 = n * (16 :: nat)"
proof -
  have "n div 4 * 64 + n mod 4 * 16 = (n div 4 * 4 + n mod 4) * 16"
    unfolding add_mult_distrib mult.assoc by simp
  also have "\<dots> = n * 16" by (simp only: div_mult_mod_eq)
  finally show ?thesis using mult_mod_left[of n 4 16] by simp
qed

lemma sextet_sum3: "a div 4096 * 4096 + a div 64 mod 64 * 64 + a mod 64 = (a :: nat)"
proof -
  have "a div 4096 = a div 64 div 64" by (simp flip: div_mult2_eq)
  moreover have "a div 64 div 64 * 4096 + a div 64 mod 64 * 64
      = (a div 64 div 64 * 64 + a div 64 mod 64) * 64"
    unfolding add_mult_distrib mult.assoc by simp
  ultimately show ?thesis by (simp only: div_mult_mod_eq)
qed

lemma sextet_sum4:
  "a div 262144 * 262144 + a div 4096 mod 64 * 4096 + a div 64 mod 64 * 64 + a mod 64 = (a :: nat)"
proof -
  have "a div 262144 = a div 4096 div 64" by (simp flip: div_mult2_eq)
  moreover have "a div 4096 div 64 * 262144 + a div 4096 mod 64 * 4096
      = (a div 4096 div 64 * 64 + a div 4096 mod 64) * 4096"
    unfolding add_mult_distrib mult.assoc by simp
  ultimately show ?thesis by (simp only: div_mult_mod_eq sextet_sum3)
qed

lemma div_high_bytes:
  fixes x y z :: nat
  assumes "y \<le> 255" and "z \<le> 255"
  shows "(x * 65536 + y * 256 + z) div 65536 = x" and "(x * 65536 + y * 256 + z) div 256 = x * 256 + y"
  using assms by (auto intro!: div_nat_eqI)

lemma b64_groups_sextets: "b64_groups (sextets b) = Some b"
proof (induction b rule: sextets.induct)
  case (2 a)
  show ?case by (simp add: Let_def sextet_sum2)
next
  case (3 a b)
  define n :: nat where "n = of_char a * 256 + of_char b"
  have "n * 4 div 4096 * 4096 + n * 4 div 64 mod 64 * 64 + n * 4 mod 64 = n * 4"
    by (rule sextet_sum3)
  moreover have "n * 4 div 1024 = of_char a" "n * 4 div 4 = n"
    using of_char_less_256[of b] by (simp_all add: n_def)
  moreover have "char_of n = b" unfolding n_def
    by (metis char_of_char char_of_mod_256 mod_mult_self3 of_char_mod_256)
  ultimately show ?case by (simp add: Let_def flip: n_def)
next
  case (4 a b c r)
  define n :: nat where "n = of_char a * 65536 + of_char b * 256 + of_char c"
  have s: "n div 262144 * 262144 + n div 4096 mod 64 * 4096 + n div 64 mod 64 * 64 + n mod 64 = n"
    by (rule sextet_sum4)
  have "n div 65536 = of_char a" "n div 256 = of_char a * 256 + of_char b"
    unfolding n_def by (rule div_high_bytes[OF of_char_le_255 of_char_le_255])+
  moreover have "n = (of_char a * 256 + of_char b) * 256 + of_char c" by (simp add: n_def)
  then have "char_of n = c"
    by (metis char_of_char char_of_mod_256 mod_mult_self3 of_char_mod_256)
  moreover have "char_of (of_char a * 256 + of_char b :: nat) = b"
    by (metis char_of_char char_of_mod_256 mod_mult_self3 of_char_mod_256)
  ultimately show ?case using 4 by (simp add: Let_def s flip: n_def)
qed simp

lemma DecodeString_EncodeToString [simp, codec_simps]: "DecodeString (EncodeToString b) = Some b"
proof -
  have f: "filter (\<lambda>c. c \<noteq> CHR 10 \<and> c \<noteq> CHR 13) (EncodeToString b) = EncodeToString b"
    by (rule filter_id) (auto simp: EncodeToString_sextets b64_char_not_newline)
  have m: "map b64_val (EncodeToString b) = map Some (sextets b)"
    by (auto simp: EncodeToString_sextets b64_val_b64_char dest: sextets_less)
  show ?thesis
    by (simp add: DecodeString_def f m b64_groups_sextets Let_def comp_def)
qed

lemma decodeBase64_exact:
  "decodeBase64 s (int n) lo hi = Some b \<longleftrightarrow> s = EncodeToString b \<and> length b = n"
  by (auto simp: decodeBase64_def split: option.splits)

lemma decodeBase64_range:
  "decodeBase64 s (-1) lo hi = Some b
     \<longleftrightarrow> s = EncodeToString b \<and> lo \<le> int (length b) \<and> int (length b) \<le> hi"
  by (auto simp: decodeBase64_def split: option.splits)

lemma EncodeToString_inj [simp]: "EncodeToString a = EncodeToString b \<longleftrightarrow> a = b"
  by (metis DecodeString_EncodeToString option.inject)

end
