(* ===== verification/Uuid.thy ===== *)
theory Uuid
  imports Bytes
begin

unbundle bit_operations_syntax

text \<open>
  \<^verbatim>\<open>runtime/internal/uuidv4\<close>: the exact lowercase UUIDv4 text. \<open>Parse\<close> accepts precisely the
  texts \<open>Format\<close> produces from sixteen bytes with version 4 and the RFC variant, \<open>New\<close> only
  produces such bytes, and the text order of identifiers is the order of their bytes (which is
  why the vector check on bytes and SQL's ordering of the text column agree).
\<close>

section \<open>Hexadecimal\<close>

definition hex_char :: "nat \<Rightarrow> char" where
  "hex_char d = (if d < 10 then char_of (48 + d) else char_of (87 + d))"

definition hex_val :: "char \<Rightarrow> nat option" where
  "hex_val c =
     (let n = (of_char c :: nat) in
      if 48 \<le> n \<and> n \<le> 57 then Some (n - 48)
      else if 97 \<le> n \<and> n \<le> 102 then Some (n - 87)
      else if 65 \<le> n \<and> n \<le> 70 then Some (n - 55) else None)"

fun hexEncode :: "bytes \<Rightarrow> bytes" where
  "hexEncode [] = []"
| "hexEncode (b # bs) = hex_char (of_char b div 16) # hex_char (of_char b mod 16) # hexEncode bs"

fun hexDecode :: "bytes \<Rightarrow> bytes option" where
  "hexDecode [] = Some []"
| "hexDecode [h] = None"
| "hexDecode (h # l # r) =
     (case (hex_val h, hex_val l, hexDecode r) of
        (Some x, Some y, Some bs) \<Rightarrow> Some (char_of (x * 16 + y) # bs)
      | _ \<Rightarrow> None)"

section \<open>Format, Parse and New\<close>

definition Format :: "bytes \<Rightarrow> bytes" where
  "Format value =
     hexEncode (take 4 value) @ ''-'' @ hexEncode (take 2 (drop 4 value)) @ ''-''
     @ hexEncode (take 2 (drop 6 value)) @ ''-'' @ hexEncode (take 2 (drop 8 value)) @ ''-''
     @ hexEncode (take 6 (drop 10 value))"

definition compact :: "bytes \<Rightarrow> bytes" where
  "compact value = take 8 value @ take 4 (drop 9 value) @ take 4 (drop 14 value)
     @ take 4 (drop 19 value) @ drop 24 value"

definition v4_bits :: "bytes \<Rightarrow> bool" where
  "v4_bits d \<longleftrightarrow> of_char (d ! 6) div 16 = (4 :: nat) \<and> of_char (d ! 8) div 64 = (2 :: nat)"

definition Parse :: "bytes \<Rightarrow> bytes option" where
  "Parse value =
     (if length value \<noteq> 36 \<or> value ! 8 \<noteq> CHR ''-'' \<or> value ! 13 \<noteq> CHR ''-''
        \<or> value ! 18 \<noteq> CHR ''-'' \<or> value ! 23 \<noteq> CHR ''-'' then None
      else case hexDecode (compact value) of
        None \<Rightarrow> None
      | Some decoded \<Rightarrow> if Format decoded \<noteq> value \<or> \<not> v4_bits decoded then None else Some decoded)"

definition New :: "bytes \<Rightarrow> bytes" where
  "New random =
     (let value = random[6 := char_of ((of_char (random ! 6) AND (15 :: nat)) OR 64)];
          value = value[8 := char_of ((of_char (value ! 8) AND (63 :: nat)) OR 128)]
      in Format value)"

definition validateUUID :: "bytes \<Rightarrow> bool" where
  "validateUUID value \<longleftrightarrow> Parse value \<noteq> None"

section \<open>Round trip\<close>

lemma length_hexEncode [simp]: "length (hexEncode bs) = 2 * length bs"
  by (induction bs) auto

lemma hexEncode_append: "hexEncode (xs @ ys) = hexEncode xs @ hexEncode ys"
  by (induction xs) auto

lemma hex_val_hex_char: "d < 16 \<Longrightarrow> hex_val (hex_char d) = Some d"
  by (auto simp: hex_val_def hex_char_def of_char_of Let_def)

lemma hexDecode_hexEncode [simp, codec_simps]: "hexDecode (hexEncode bs) = Some bs"
proof (induction bs)
  case (Cons b bs)
  have "(of_char b :: nat) div 16 < 16"
    using of_char_less_256[of b] by (simp add: div_less_iff_less_mult)
  with Cons show ?case by (simp add: hex_val_hex_char)
qed simp

lemma length_hexDecode: "hexDecode hs = Some bs \<Longrightarrow> length hs = 2 * length bs"
  by (induction hs arbitrary: bs rule: hexDecode.induct) (auto split: option.splits)

lemma length_Format: "length b = 16 \<Longrightarrow> length (Format b) = 36"
  by (simp add: Format_def)

lemma compact_Format: "length b = 16 \<Longrightarrow> compact (Format b) = hexEncode b"
proof -
  assume l: "length b = 16"
  have "b = take 4 b @ take 2 (drop 4 b) @ take 2 (drop 6 b) @ take 2 (drop 8 b) @ take 6 (drop 10 b)"
    using l by (intro nth_equalityI) (auto simp: nth_append)
  then have "hexEncode b = hexEncode (take 4 b) @ hexEncode (take 2 (drop 4 b))
      @ hexEncode (take 2 (drop 6 b)) @ hexEncode (take 2 (drop 8 b)) @ hexEncode (take 6 (drop 10 b))"
    by (metis hexEncode_append)
  with l show ?thesis by (simp add: compact_def Format_def)
qed

lemma Format_dashes:
  "length b = 16 \<Longrightarrow> Format b ! 8 = CHR ''-'' \<and> Format b ! 13 = CHR ''-''
     \<and> Format b ! 18 = CHR ''-'' \<and> Format b ! 23 = CHR ''-''"
  by (simp add: Format_def nth_append)

lemma Parse_Format: "length b = 16 \<Longrightarrow> v4_bits b \<Longrightarrow> Parse (Format b) = Some b"
  by (simp add: Parse_def length_Format Format_dashes compact_Format)

lemma Parse_length: "Parse s = Some b \<Longrightarrow> length s = 36 \<and> length b = 16"
  by (auto simp: Parse_def compact_def split: if_splits option.splits dest!: length_hexDecode)

lemma Parse_eq_Some:
  "Parse s = Some b \<longleftrightarrow> length b = 16 \<and> v4_bits b \<and> s = Format b"
proof
  assume p: "Parse s = Some b"
  then have "Format b = s \<and> v4_bits b"
    by (auto simp: Parse_def split: if_splits option.splits)
  with Parse_length[OF p] show "length b = 16 \<and> v4_bits b \<and> s = Format b" by simp
qed (simp add: Parse_Format)

lemma validateUUID_length: "validateUUID s \<Longrightarrow> length s = 36"
  by (auto simp: validateUUID_def dest: Parse_length)

lemma Format_inj: "length a = 16 \<Longrightarrow> length b = 16 \<Longrightarrow> Format a = Format b \<longleftrightarrow> a = b"
  by (metis compact_Format hexDecode_hexEncode option.inject)

lemma Parse_inj: "Parse s = Some b \<Longrightarrow> Parse t = Some b \<Longrightarrow> s = t"
  by (simp add: Parse_eq_Some)

section \<open>Fresh identifiers\<close>

lemma version_bits: "((n AND 15) OR 64) div 16 = (4 :: nat)" "((n AND 15) OR 64) < (256 :: nat)"
proof -
  have "drop_bit 4 ((n AND 15) OR 64) = (4 :: nat)" "drop_bit 8 ((n AND 15) OR 64) = (0 :: nat)"
    by (simp_all add: drop_bit_and drop_bit_or)
  then show "((n AND 15) OR 64) div 16 = (4 :: nat)" "((n AND 15) OR 64) < (256 :: nat)"
    by (simp_all add: drop_bit_eq_div)
qed

lemma variant_bits: "((n AND 63) OR 128) div 64 = (2 :: nat)" "((n AND 63) OR 128) < (256 :: nat)"
proof -
  have "drop_bit 6 ((n AND 63) OR 128) = (2 :: nat)" "drop_bit 8 ((n AND 63) OR 128) = (0 :: nat)"
    by (simp_all add: drop_bit_and drop_bit_or)
  then show "((n AND 63) OR 128) div 64 = (2 :: nat)" "((n AND 63) OR 128) < (256 :: nat)"
    by (simp_all add: drop_bit_eq_div)
qed

lemma validateUUID_New: "length r = 16 \<Longrightarrow> validateUUID (New r)"
proof -
  assume l: "length r = 16"
  define a where "a = char_of ((of_char (r ! 6) AND (15 :: nat)) OR 64)"
  define b where "b = char_of ((of_char (r ! 8) AND (63 :: nat)) OR 128)"
  have "of_char a div 16 = (4 :: nat)" "of_char b div 64 = (2 :: nat)"
    by (simp_all add: a_def b_def of_char_of version_bits variant_bits)
  then have "v4_bits (r[6 := a, 8 := b])" using l by (simp add: v4_bits_def)
  moreover have "New r = Format (r[6 := a, 8 := b])" using l by (simp add: New_def a_def b_def Let_def)
  ultimately show ?thesis using l by (simp add: validateUUID_def Parse_Format)
qed

section \<open>Order\<close>

lemma hex_char_less: "x < 16 \<Longrightarrow> y < 16 \<Longrightarrow> hex_char x < hex_char y \<longleftrightarrow> x < y"
  by (auto simp: hex_char_def less_char_def of_char_of)

lemma append_same_length_less:
  fixes a b c d :: bytes
  shows "length a = length b \<Longrightarrow> a @ c < b @ d \<longleftrightarrow> a < b \<or> a = b \<and> c < d"
  by (induction a b rule: list_induct2) auto

lemma hexEncode_inj [simp]: "hexEncode a = hexEncode b \<longleftrightarrow> a = b"
  by (metis hexDecode_hexEncode option.inject)

lemma hexEncode_less: "length a = length b \<Longrightarrow> hexEncode a < hexEncode b \<longleftrightarrow> a < b"
proof (induction a b rule: list_induct2)
  case (Cons x xs y ys)
  let ?x = "of_char x :: nat" and ?y = "of_char y :: nat"
  have d: "?x div 16 < 16" "?y div 16 < 16"
    using of_char_less_256[of x] of_char_less_256[of y] by (simp_all add: div_less_iff_less_mult)
  have eq: "hex_char u = hex_char v \<longleftrightarrow> u = v" if "u < 16" "v < 16" for u v
    using that by (metis hex_val_hex_char option.inject)
  have "x < y \<longleftrightarrow> ?x div 16 < ?y div 16 \<or> ?x div 16 = ?y div 16 \<and> ?x mod 16 < ?y mod 16"
    using div_mult_mod_eq[of ?x 16] div_mult_mod_eq[of ?y 16] mod_less_divisor[of 16 ?x]
      mod_less_divisor[of 16 ?y] unfolding less_char_def by linarith
  moreover have "x = y \<longleftrightarrow> ?x div 16 = ?y div 16 \<and> ?x mod 16 = ?y mod 16"
    by (metis div_mult_mod_eq of_char_inj)
  ultimately show ?case
    using Cons.IH d by (auto simp: hex_char_less eq)
qed simp

lemma Format_less:
  assumes "length a = 16" and "length b = 16"
  shows "Format a < Format b \<longleftrightarrow> a < b"
proof -
  have split: "x = take 4 x @ take 2 (drop 4 x) @ take 2 (drop 6 x) @ take 2 (drop 8 x)
      @ take 6 (drop 10 x)" if "length x = 16" for x :: bytes
    using that by (intro nth_equalityI) (auto simp: nth_append)
  have "a < b \<longleftrightarrow> take 4 a @ take 2 (drop 4 a) @ take 2 (drop 6 a) @ take 2 (drop 8 a) @ take 6 (drop 10 a)
      < take 4 b @ take 2 (drop 4 b) @ take 2 (drop 6 b) @ take 2 (drop 8 b) @ take 6 (drop 10 b)"
    using split[OF assms(1)] split[OF assms(2)] by simp
  with assms show ?thesis
    by (simp add: Format_def append_same_length_less hexEncode_less)
qed

lemma Parse_less: "Parse s = Some a \<Longrightarrow> Parse t = Some b \<Longrightarrow> a < b \<longleftrightarrow> s < t"
  by (auto simp: Parse_eq_Some Format_less)

text \<open>The last character is a hexadecimal digit, so its successor is again one byte.\<close>

lemma validateUUID_snoc:
  assumes "validateUUID s"
  obtains t c where "s = t @ [c]" and "(of_char c :: nat) < 255"
proof -
  from assms obtain b where b: "Parse s = Some b" by (auto simp: validateUUID_def)
  then have l: "length b = 16" and f: "s = Format b" by (simp_all add: Parse_eq_Some)
  have lt: "take 6 (drop 10 b) = take 5 (drop 10 b) @ [b ! 15]"
    using l take_Suc_conv_app_nth[of 5 "drop 10 b"] by (simp add: numeral_eq_Suc)
  have "of_char (hex_char d) < (255 :: nat)" if "d < 16" for d
    using that by (auto simp: hex_char_def of_char_of)
  then have "of_char (hex_char (of_char (b ! 15) mod 16)) < (255 :: nat)" by simp
  moreover have "\<exists>t. s = t @ [hex_char (of_char (b ! 15) mod 16)]"
    by (simp add: f Format_def lt hexEncode_append)
  ultimately show ?thesis using that by blast
qed

end
