(* ===== verification/Json.thy ===== *)
theory Json
  imports Uuid
begin

text \<open>
  The JSON layer: \<^verbatim>\<open>decodeStrict\<close>, \<^verbatim>\<open>validateJSONValue\<close>, \<^verbatim>\<open>validateRequiredJSON\<close>,
  \<^verbatim>\<open>marshalJSON\<close> and \<^verbatim>\<open>decodeStoredCanonical\<close> of \<^verbatim>\<open>store/models.go\<close>, over a model of what they
  use of Go's \<^verbatim>\<open>encoding/json\<close>.

  The source works by reflection on struct types. The model has the same two layers: \<open>jtype\<close> is
  the reflected type of a destination (its exported fields with their JSON names, in order),
  \<open>gval\<close> a Go value of such a type. \<open>parse_json\<close> is the syntax, \<open>unmarshal\<close> the assignment of a
  syntax tree to a Go value field by field (with the library's case-insensitive matching of field
  names), and \<open>marshal\<close> the encoder with its HTML-safe escaping.
\<close>

section \<open>Syntax trees, Go types and Go values\<close>

datatype json = JNull | JBool bool | JNum bytes | JStr bytes | JArr "json list" | JObj "(bytes \<times> json) list"

datatype jtype = TString | TBool | TInt | TUint | TPtr jtype | TSlice jtype | TStruct "(bytes \<times> jtype) list"

datatype gval = GString bytes | GBool bool | GInt int | GPtr "gval option"
  | GSlice "gval list option" | GStruct "(bytes \<times> gval) list"

section \<open>UTF-8\<close>

definition byte_in :: "nat \<Rightarrow> nat \<Rightarrow> char \<Rightarrow> bool" where
  "byte_in lo hi c \<longleftrightarrow> lo \<le> (of_char c :: nat) \<and> (of_char c :: nat) \<le> hi"

abbreviation cont_byte :: "char \<Rightarrow> bool" where
  "cont_byte \<equiv> byte_in 128 191"

text \<open>The size of the encoded rune at the front, \<open>0\<close> when there is none (\<^verbatim>\<open>utf8.DecodeRune\<close>).\<close>

definition rune2 :: "char \<Rightarrow> char \<Rightarrow> bool" where
  "rune2 a b \<longleftrightarrow> byte_in 194 223 a \<and> cont_byte b"

definition rune3 :: "char \<Rightarrow> char \<Rightarrow> char \<Rightarrow> bool" where
  "rune3 a b c \<longleftrightarrow> cont_byte c \<and>
     (byte_in 224 224 a \<and> byte_in 160 191 b \<or> byte_in 225 236 a \<and> cont_byte b
      \<or> byte_in 237 237 a \<and> byte_in 128 159 b \<or> byte_in 238 239 a \<and> cont_byte b)"

definition rune4 :: "char \<Rightarrow> char \<Rightarrow> char \<Rightarrow> char \<Rightarrow> bool" where
  "rune4 a b c d \<longleftrightarrow> cont_byte c \<and> cont_byte d \<and>
     (byte_in 240 240 a \<and> byte_in 144 191 b \<or> byte_in 241 243 a \<and> cont_byte b
      \<or> byte_in 244 244 a \<and> byte_in 128 143 b)"

definition rune_size :: "bytes \<Rightarrow> nat" where
  "rune_size s = (case s of
      [] \<Rightarrow> 0
    | a # r \<Rightarrow>
       if byte_in 0 127 a then 1
       else (case r of
           [] \<Rightarrow> 0
         | b # r2 \<Rightarrow>
            if rune2 a b then 2
            else (case r2 of
                [] \<Rightarrow> 0
              | c # r3 \<Rightarrow>
                 if rune3 a b c then 3
                 else (case r3 of [] \<Rightarrow> 0 | d # _ \<Rightarrow> if rune4 a b c d then 4 else 0))))"

function utf8_Valid :: "bytes \<Rightarrow> bool" where
  "utf8_Valid s =
     (if s = [] then True
      else if rune_size s = 0 then False else utf8_Valid (drop (rune_size s) s))"
  by pat_completeness auto
termination
  by (relation "measure length") auto

declare utf8_Valid.simps [simp del]

text \<open>The encoding of a code point below \<open>0x110000\<close> (\<^verbatim>\<open>utf8.AppendRune\<close>).\<close>

definition utf8_rune :: "nat \<Rightarrow> bytes" where
  "utf8_rune u =
     (if u < 128 then [char_of u]
      else if u < 2048 then [char_of (192 + u div 64), char_of (128 + u mod 64)]
      else if u < 65536 then
        [char_of (224 + u div 4096), char_of (128 + u div 64 mod 64), char_of (128 + u mod 64)]
      else [char_of (240 + u div 262144), char_of (128 + u div 4096 mod 64),
            char_of (128 + u div 64 mod 64), char_of (128 + u mod 64)])"

definition rune_error :: bytes where
  "rune_error = utf8_rune 65533"

section \<open>Parsing\<close>

definition is_ws :: "char \<Rightarrow> bool" where
  "is_ws c \<longleftrightarrow> c = CHR '' '' \<or> c = CHR 0x09 \<or> c = CHR 0x0A \<or> c = CHR 0x0D"

definition skip_ws :: "bytes \<Rightarrow> bytes" where
  "skip_ws s = dropWhile is_ws s"

text \<open>\<^verbatim>\<open>getu4\<close>: the code unit of four hexadecimal digits.\<close>

fun hex4 :: "bytes \<Rightarrow> nat option" where
  "hex4 [a, b, c, d] =
     (case (hex_val a, hex_val b, hex_val c, hex_val d) of
        (Some w, Some x, Some y, Some z) \<Rightarrow> Some (((w * 16 + x) * 16 + y) * 16 + z)
      | _ \<Rightarrow> None)"
| "hex4 _ = None"

definition simple_escape :: "char \<Rightarrow> char option" where
  "simple_escape e =
     (if e = CHR 0x22 \<or> e = CHR 0x5C \<or> e = CHR ''/'' then Some e
      else if e = CHR ''b'' then Some (CHR 0x08)
      else if e = CHR ''f'' then Some (CHR 0x0C)
      else if e = CHR ''n'' then Some (CHR 0x0A)
      else if e = CHR ''r'' then Some (CHR 0x0D)
      else if e = CHR ''t'' then Some (CHR 0x09) else None)"

text \<open>
  The decoded text of a \<^verbatim>\<open>\u\<close> escape whose digits are read, and what follows it: a high surrogate
  joins a following escaped low surrogate, a lone surrogate becomes the replacement rune.
\<close>

definition unicode_escape :: "nat \<Rightarrow> bytes \<Rightarrow> bytes \<times> bytes" where
  "unicode_escape u r =
     (if 55296 \<le> u \<and> u < 57344 then
        (case (take 2 r = [CHR 0x5C, CHR ''u''], hex4 (take 4 (drop 2 r))) of
           (True, Some l) \<Rightarrow>
             if u < 56320 \<and> 56320 \<le> l \<and> l < 57344
             then (utf8_rune (65536 + (u - 55296) * 1024 + (l - 56320)), drop 6 r)
             else (rune_error, r)
         | _ \<Rightarrow> (rune_error, r))
      else (utf8_rune u, r))"

lemma unicode_escape_shorter: "length (snd (unicode_escape u r)) \<le> length r"
  by (auto simp: unicode_escape_def split: bool.splits option.splits)

text \<open>The text of a string literal after its opening quote, and what follows the closing quote.\<close>

function parse_string :: "bytes \<Rightarrow> (bytes \<times> bytes) option" where
  "parse_string s =
     (case s of
        [] \<Rightarrow> None
      | c # cs \<Rightarrow>
         if c = CHR 0x22 then Some ([], cs)
         else if c = CHR 0x5C then
           (case cs of
              [] \<Rightarrow> None
            | e # r \<Rightarrow>
               if e = CHR ''u'' then
                 (case hex4 (take 4 r) of
                    None \<Rightarrow> None
                  | Some u \<Rightarrow>
                     map_option (apfst ((@) (fst (unicode_escape u (drop 4 r)))))
                       (parse_string (snd (unicode_escape u (drop 4 r)))))
               else (case simple_escape e of
                  None \<Rightarrow> None
                | Some x \<Rightarrow> map_option (apfst ((#) x)) (parse_string r)))
         else if byte_in 0 31 c then None
         else if rune_size s = 0 then map_option (apfst ((@) rune_error)) (parse_string cs)
         else map_option (apfst ((@) (take (rune_size s) s))) (parse_string (drop (rune_size s) s)))"
  by pat_completeness auto
termination
proof (relation "measure length", goal_cases)
  case (2 s c cs e r u)
  then show ?case using unicode_escape_shorter[of u "drop 4 r"] by simp
next
  case (5 s c cs)
  then show ?case by (cases "rune_size (c # cs)") auto
qed auto

declare parse_string.simps [simp del]

text \<open>A number literal: an optional sign, an integer part, an optional fraction and exponent.\<close>

definition span_digits :: "bytes \<Rightarrow> bytes \<times> bytes" where
  "span_digits s = (takeWhile is_digit s, dropWhile is_digit s)"

definition parse_int_part :: "bytes \<Rightarrow> (bytes \<times> bytes) option" where
  "parse_int_part s =
     (case s of
        [] \<Rightarrow> None
      | c # cs \<Rightarrow>
         if c = CHR ''0'' then Some ([c], cs)
         else if is_digit c then Some (span_digits s) else None)"

definition parse_frac :: "bytes \<Rightarrow> (bytes \<times> bytes) option" where
  "parse_frac s =
     (case s of
        c # cs \<Rightarrow>
          if c = CHR ''.'' then
            (if fst (span_digits cs) = [] then None
             else Some (c # fst (span_digits cs), snd (span_digits cs)))
          else Some ([], s)
      | [] \<Rightarrow> Some ([], s))"

definition parse_exp :: "bytes \<Rightarrow> (bytes \<times> bytes) option" where
  "parse_exp s =
     (case s of
        c # cs \<Rightarrow>
          if c = CHR ''e'' \<or> c = CHR ''E'' then
            (let sgn = takeWhile (\<lambda>x. x = CHR ''+'' \<or> x = CHR ''-'') (take 1 cs);
                 rest = drop (length sgn) cs
             in if fst (span_digits rest) = [] then None
                else Some (c # sgn @ fst (span_digits rest), snd (span_digits rest)))
          else Some ([], s)
      | [] \<Rightarrow> Some ([], s))"

definition parse_number :: "bytes \<Rightarrow> (bytes \<times> bytes) option" where
  "parse_number s =
     (let sgn = takeWhile (\<lambda>x. x = CHR ''-'') (take 1 s)
      in case parse_int_part (drop (length sgn) s) of
           None \<Rightarrow> None
         | Some (i, s1) \<Rightarrow>
            (case parse_frac s1 of
               None \<Rightarrow> None
             | Some (f, s2) \<Rightarrow>
                (case parse_exp s2 of
                   None \<Rightarrow> None
                 | Some (e, s3) \<Rightarrow> Some (sgn @ i @ f @ e, s3))))"

definition parse_lit :: "bytes \<Rightarrow> json \<Rightarrow> bytes \<Rightarrow> (json \<times> bytes) option" where
  "parse_lit w v s = (if take (length w) s = w then Some (v, drop (length w) s) else None)"

text \<open>
  The fuel bounds the nesting of calls: an object or a list of members is called on a shorter text, a
  list of elements calls a value on the same text once, so \<open>2 * length s + 2\<close> is enough for the text
  \<open>s\<close> and more never changes the result (\<open>parse_value_fuel\<close>).
\<close>

fun parse_value :: "nat \<Rightarrow> bytes \<Rightarrow> (json \<times> bytes) option"
  and parse_members :: "nat \<Rightarrow> bytes \<Rightarrow> ((bytes \<times> json) list \<times> bytes) option"
  and parse_elements :: "nat \<Rightarrow> bytes \<Rightarrow> (json list \<times> bytes) option" where
  "parse_value 0 s = None"
| "parse_value (Suc n) s =
     (case skip_ws s of
        [] \<Rightarrow> None
      | c # r \<Rightarrow>
         if c = CHR ''{'' then
           (case skip_ws r of
              [] \<Rightarrow> None
            | d # t \<Rightarrow> if d = CHR ''}'' then Some (JObj [], t)
                else map_option (apfst JObj) (parse_members n (d # t)))
         else if c = CHR ''['' then
           (case skip_ws r of
              [] \<Rightarrow> None
            | d # t \<Rightarrow> if d = CHR '']'' then Some (JArr [], t)
                else map_option (apfst JArr) (parse_elements n (d # t)))
         else if c = CHR 0x22 then map_option (apfst JStr) (parse_string r)
         else if c = CHR ''t'' then parse_lit ''true'' (JBool True) (c # r)
         else if c = CHR ''f'' then parse_lit ''false'' (JBool False) (c # r)
         else if c = CHR ''n'' then parse_lit ''null'' JNull (c # r)
         else map_option (apfst JNum) (parse_number (c # r)))"
| "parse_members 0 s = None"
| "parse_members (Suc n) s =
     (case s of
        [] \<Rightarrow> None
      | q # r \<Rightarrow>
         if q \<noteq> CHR 0x22 then None
         else (case parse_string r of
            None \<Rightarrow> None
          | Some (k, t) \<Rightarrow>
             (case skip_ws t of
                [] \<Rightarrow> None
              | c # t1 \<Rightarrow>
                 if c \<noteq> CHR '':'' then None
                 else (case parse_value n t1 of
                    None \<Rightarrow> None
                  | Some (v, t2) \<Rightarrow>
                     (case skip_ws t2 of
                        [] \<Rightarrow> None
                      | d # t3 \<Rightarrow>
                         if d = CHR ''}'' then Some ([(k, v)], t3)
                         else if d = CHR '','' then
                           map_option (apfst ((#) (k, v))) (parse_members n (skip_ws t3))
                         else None)))))"
| "parse_elements 0 s = None"
| "parse_elements (Suc n) s =
     (case parse_value n s of
        None \<Rightarrow> None
      | Some (v, t) \<Rightarrow>
         (case skip_ws t of
            [] \<Rightarrow> None
          | d # t1 \<Rightarrow>
             if d = CHR '']'' then Some ([v], t1)
             else if d = CHR '','' then map_option (apfst ((#) v)) (parse_elements n (skip_ws t1))
             else None))"

definition parse_json :: "bytes \<Rightarrow> json option" where
  "parse_json s =
     (case parse_value (2 * length s + 2) s of
        Some (j, r) \<Rightarrow> if skip_ws r = [] then Some j else None
      | None \<Rightarrow> None)"

section \<open>Structural validation\<close>

function validateJSONValue :: "json \<Rightarrow> nat \<Rightarrow> bool" where
  "validateJSONValue j depth =
     (if 32 < depth then False
      else case j of
        JObj kvs \<Rightarrow> distinct (map fst kvs) \<and> list_all (\<lambda>kv. validateJSONValue (snd kv) (depth + 1)) kvs
      | JArr vs \<Rightarrow> list_all (\<lambda>v. validateJSONValue v (depth + 1)) vs
      | _ \<Rightarrow> True)"
  by pat_completeness auto
termination
  by (relation "measure (\<lambda>(j, depth). 33 - depth)") auto

declare validateJSONValue.simps [simp del]

fun validateRequiredJSON :: "json \<Rightarrow> jtype \<Rightarrow> bool"
  and validateRequiredFields :: "(bytes \<times> json) list \<Rightarrow> (bytes \<times> jtype) list \<Rightarrow> bool" where
  "validateRequiredJSON j (TPtr t) = (j = JNull \<or> validateRequiredJSON j t)"
| "validateRequiredJSON j (TStruct fs) =
     (case j of JObj kvs \<Rightarrow> validateRequiredFields kvs fs | _ \<Rightarrow> False)"
| "validateRequiredJSON j (TSlice t) =
     (case j of JArr vs \<Rightarrow> list_all (\<lambda>v. validateRequiredJSON v t) vs | _ \<Rightarrow> False)"
| "validateRequiredJSON j t = (j \<noteq> JNull)"
| "validateRequiredFields kvs [] = True"
| "validateRequiredFields kvs ((n, t) # fs) =
     (case map_of kvs n of
        None \<Rightarrow> False
      | Some v \<Rightarrow> validateRequiredJSON v t \<and> validateRequiredFields kvs fs)"

section \<open>Unmarshalling\<close>

fun zero_value :: "jtype \<Rightarrow> gval" where
  "zero_value TString = GString []"
| "zero_value TBool = GBool False"
| "zero_value TInt = GInt 0"
| "zero_value TUint = GInt 0"
| "zero_value (TPtr t) = GPtr None"
| "zero_value (TSlice t) = GSlice None"
| "zero_value (TStruct fs) = GStruct (map (\<lambda>(n, t). (n, zero_value t)) fs)"

text \<open>
  \<^verbatim>\<open>foldName\<close>: names match up to ASCII case; the Kelvin sign and the long s fold to \<^verbatim>\<open>K\<close> and
  \<^verbatim>\<open>S\<close>. Field names are ASCII, so other runes never match and are kept as they are.
\<close>

fun foldName :: "bytes \<Rightarrow> bytes" where
  "foldName [] = []"
| "foldName (a # r) =
     (if byte_in 97 122 a then char_of ((of_char a :: nat) - 32) # foldName r
      else if a = CHR 0xC5 \<and> take 1 r = [CHR 0xBF] then CHR ''S'' # foldName (drop 1 r)
      else if a = CHR 0xE2 \<and> take 2 r = [CHR 0x84, CHR 0xAA] then CHR ''K'' # foldName (drop 2 r)
      else a # foldName r)"

definition find_field :: "(bytes \<times> jtype) list \<Rightarrow> bytes \<Rightarrow> (bytes \<times> jtype) option" where
  "find_field fs k =
     (case find (\<lambda>f. fst f = k) fs of
        Some f \<Rightarrow> Some f
      | None \<Rightarrow> find (\<lambda>f. foldName (fst f) = foldName k) fs)"

text \<open>\<^verbatim>\<open>strconv.ParseInt\<close> of a number literal: no fraction, no exponent, in range.\<close>

definition parse_int_lit :: "bytes \<Rightarrow> int option" where
  "parse_int_lit s =
     (let neg = take 1 s = ''-''; ds = (if neg then drop 1 s else s);
          v = (if neg then - int (dec_acc 0 ds) else int (dec_acc 0 ds))
      in if ds = [] \<or> \<not> list_all is_digit ds \<or> v < - (2 ^ 63) \<or> 2 ^ 63 \<le> v then None else Some v)"

text \<open>\<^verbatim>\<open>strconv.ParseUint\<close> for a field of type \<^verbatim>\<open>uint64\<close>.\<close>

definition parse_uint_lit :: "bytes \<Rightarrow> int option" where
  "parse_uint_lit s =
     (if s = [] \<or> \<not> list_all is_digit s \<or> 2 ^ 64 \<le> int (dec_acc 0 s) then None else Some (int (dec_acc 0 s)))"

fun set_field :: "bytes \<Rightarrow> gval \<Rightarrow> (bytes \<times> gval) list \<Rightarrow> (bytes \<times> gval) list" where
  "set_field n v [] = []"
| "set_field n v ((m, w) # r) = (if m = n then (n, v) # r else (m, w) # set_field n v r)"

definition get_field :: "bytes \<Rightarrow> (bytes \<times> gval) list \<Rightarrow> gval" where
  "get_field n fs = (case map_of fs n of Some v \<Rightarrow> v | None \<Rightarrow> GPtr None)"

text \<open>
  \<open>unmarshal strict t old j\<close> assigns the tree \<open>j\<close> to a variable of type \<open>t\<close> that holds \<open>old\<close>; \<open>strict\<close>
  is \<^verbatim>\<open>DisallowUnknownFields\<close>. The members of an object are assigned in the order of the text, so a
  later member that matches the same field wins; the elements of an array are assigned over the
  elements the slice already has.
\<close>

fun unmarshal :: "bool \<Rightarrow> jtype \<Rightarrow> gval \<Rightarrow> json \<Rightarrow> gval option"
  and unmarshal_members ::
    "bool \<Rightarrow> (bytes \<times> jtype) list \<Rightarrow> (bytes \<times> gval) list \<Rightarrow> (bytes \<times> json) list \<Rightarrow> (bytes \<times> gval) list option"
  and unmarshal_elements :: "bool \<Rightarrow> jtype \<Rightarrow> gval list \<Rightarrow> json list \<Rightarrow> gval list option" where
  "unmarshal strict t old JNull =
     (case t of TPtr _ \<Rightarrow> Some (GPtr None) | TSlice _ \<Rightarrow> Some (GSlice None) | _ \<Rightarrow> Some old)"
| "unmarshal strict t old (JBool b) =
     (case t of
        TBool \<Rightarrow> Some (GBool b)
      | TPtr TBool \<Rightarrow> Some (GPtr (Some (GBool b)))
      | _ \<Rightarrow> None)"
| "unmarshal strict t old (JNum l) =
     (case t of
        TInt \<Rightarrow> map_option GInt (parse_int_lit l)
      | TUint \<Rightarrow> map_option GInt (parse_uint_lit l)
      | TPtr TInt \<Rightarrow> map_option (\<lambda>i. GPtr (Some (GInt i))) (parse_int_lit l)
      | TPtr TUint \<Rightarrow> map_option (\<lambda>i. GPtr (Some (GInt i))) (parse_uint_lit l)
      | _ \<Rightarrow> None)"
| "unmarshal strict t old (JStr s) =
     (case t of
        TString \<Rightarrow> Some (GString s)
      | TPtr TString \<Rightarrow> Some (GPtr (Some (GString s)))
      | _ \<Rightarrow> None)"
| "unmarshal strict t old (JArr vs) =
     (case t of
        TSlice e \<Rightarrow>
          map_option (\<lambda>xs. GSlice (Some xs))
            (unmarshal_elements strict e (case old of GSlice (Some xs) \<Rightarrow> xs | _ \<Rightarrow> []) vs)
      | _ \<Rightarrow> None)"
| "unmarshal strict t old (JObj kvs) =
     (case t of
        TStruct fs \<Rightarrow>
          map_option GStruct
            (unmarshal_members strict fs (case old of GStruct xs \<Rightarrow> xs | _ \<Rightarrow> []) kvs)
      | TPtr (TStruct fs) \<Rightarrow>
          map_option (\<lambda>xs. GPtr (Some (GStruct xs)))
            (unmarshal_members strict fs
               (case old of GPtr (Some (GStruct xs)) \<Rightarrow> xs
                | _ \<Rightarrow> map (\<lambda>(n, t). (n, zero_value t)) fs) kvs)
      | _ \<Rightarrow> None)"
| "unmarshal_members strict fs cur [] = Some cur"
| "unmarshal_members strict fs cur ((k, v) # kvs) =
     (case find_field fs k of
        None \<Rightarrow> if strict then None else unmarshal_members strict fs cur kvs
      | Some (n, t) \<Rightarrow>
         (case unmarshal strict t (get_field n cur) v of
            None \<Rightarrow> None
          | Some w \<Rightarrow> unmarshal_members strict fs (set_field n w cur) kvs))"
| "unmarshal_elements strict e old [] = Some []"
| "unmarshal_elements strict e old (v # vs) =
     (case unmarshal strict e (case old of x # _ \<Rightarrow> x | [] \<Rightarrow> zero_value e) v of
        None \<Rightarrow> None
      | Some w \<Rightarrow> map_option ((#) w) (unmarshal_elements strict e (drop 1 old) vs))"

text \<open>\<^verbatim>\<open>json.Unmarshal\<close> into a fresh variable: unknown members are ignored, missing ones stay zero.\<close>

definition json_Unmarshal :: "jtype \<Rightarrow> bytes \<Rightarrow> gval option" where
  "json_Unmarshal t body =
     (case parse_json body of None \<Rightarrow> None | Some j \<Rightarrow> unmarshal False t (zero_value t) j)"

definition decodeStrict :: "jtype \<Rightarrow> bytes \<Rightarrow> gval option" where
  "decodeStrict destinationType body =
     (if body = [] \<or> \<not> utf8_Valid body then None
      else case parse_json body of
        None \<Rightarrow> None
      | Some j \<Rightarrow>
         if \<not> validateJSONValue j 1 then None
         else if \<not> validateRequiredJSON j destinationType then None
         else unmarshal True destinationType (zero_value destinationType) j)"

section \<open>Marshalling\<close>

definition html_safe :: "char \<Rightarrow> bool" where
  "html_safe c \<longleftrightarrow> byte_in 32 127 c \<and> c \<noteq> CHR 0x22 \<and> c \<noteq> CHR 0x5C
     \<and> c \<noteq> CHR ''<'' \<and> c \<noteq> CHR ''>'' \<and> c \<noteq> CHR ''&''"

definition escape_byte :: "char \<Rightarrow> bytes" where
  "escape_byte c =
     (if html_safe c then [c]
      else if c = CHR 0x22 \<or> c = CHR 0x5C then [CHR 0x5C, c]
      else if c = CHR 0x08 then [CHR 0x5C, CHR ''b'']
      else if c = CHR 0x0C then [CHR 0x5C, CHR ''f'']
      else if c = CHR 0x0A then [CHR 0x5C, CHR ''n'']
      else if c = CHR 0x0D then [CHR 0x5C, CHR ''r'']
      else if c = CHR 0x09 then [CHR 0x5C, CHR ''t'']
      else [CHR 0x5C, CHR ''u'', CHR ''0'', CHR ''0'', hex_char (of_char c div 16), hex_char (of_char c mod 16)])"

function escape_string :: "bytes \<Rightarrow> bytes" where
  "escape_string s =
     (case s of
        [] \<Rightarrow> []
      | c # cs \<Rightarrow>
         if byte_in 0 127 c then escape_byte c @ escape_string cs
         else if rune_size s = 0 then CHR 0x5C # ''ufffd'' @ escape_string cs
         else if take 3 s = utf8_rune 8232 then CHR 0x5C # ''u2028'' @ escape_string (drop 3 s)
         else if take 3 s = utf8_rune 8233 then CHR 0x5C # ''u2029'' @ escape_string (drop 3 s)
         else take (rune_size s) s @ escape_string (drop (rune_size s) s))"
  by pat_completeness auto
termination
proof (relation "measure length", goal_cases)
  case (6 s c cs)
  then show ?case by (cases "rune_size (c # cs)") auto
qed auto

declare escape_string.simps [simp del]

definition quote_string :: "bytes \<Rightarrow> bytes" where
  "quote_string s = CHR 0x22 # escape_string s @ [CHR 0x22]"

definition FormatInt :: "int \<Rightarrow> bytes" where
  "FormatInt i = (if i < 0 then CHR ''-'' # FormatUint (nat (- i)) else FormatUint (nat i))"

fun comma_sep :: "bytes list \<Rightarrow> bytes" where
  "comma_sep [] = []"
| "comma_sep [x] = x"
| "comma_sep (x # y # r) = x @ CHR '','' # comma_sep (y # r)"

fun marshal :: "gval \<Rightarrow> bytes" where
  "marshal (GString s) = quote_string s"
| "marshal (GBool b) = (if b then ''true'' else ''false'')"
| "marshal (GInt i) = FormatInt i"
| "marshal (GPtr None) = ''null''"
| "marshal (GPtr (Some v)) = marshal v"
| "marshal (GSlice None) = ''null''"
| "marshal (GSlice (Some vs)) = CHR ''['' # comma_sep (map marshal vs) @ [CHR '']'']"
| "marshal (GStruct fs) =
     CHR ''{'' # comma_sep (map (\<lambda>(n, v). quote_string n @ CHR '':'' # marshal v) fs) @ [CHR ''}'']"

definition marshalJSON :: "gval \<Rightarrow> bytes option" where
  "marshalJSON v = Some (marshal v)"

definition maxBodyBytes :: nat where
  "maxBodyBytes = 4 * 1024 * 1024"

definition decodeStoredCanonical :: "jtype \<Rightarrow> bytes \<Rightarrow> gval option" where
  "decodeStoredCanonical destinationType body =
     (if body = [] \<or> maxBodyBytes < length body then None
      else case decodeStrict destinationType body of
        None \<Rightarrow> None
      | Some v \<Rightarrow> (case marshalJSON v of
          None \<Rightarrow> None
        | Some canonical \<Rightarrow> if canonical \<noteq> body then None else Some v))"

end
