(* ===== verification/JsonLaws.thy ===== *)
theory JsonLaws
  imports Json
begin

text \<open>
  The laws of the JSON layer. \<open>json_of\<close> is the syntax tree of a Go value, \<open>has_type\<close> the values a
  variable of a reflected type can hold without nil slices, \<open>text_ok\<close> that every string of a value is
  valid UTF-8, \<open>type_ok\<close> and \<open>type_depth\<close> what the message types of the protocol satisfy.

  The chain of lemmas follows the code: a string literal reads back (\<open>parse_escape_string\<close>), a
  marshalled value parses to its tree (\<open>parse_json_marshal\<close>), the tree of a typed value passes the two
  validations and unmarshals to the value (\<open>unmarshal_json_of\<close>), so \<^verbatim>\<open>decodeStrict\<close> undoes
  \<^verbatim>\<open>marshalJSON\<close> (\<open>decodeStrict_marshal\<close>). \<open>parse_value_fuel\<close> shows that the fuel of \<open>parse_json\<close> is
  enough: more never changes the result.
\<close>

section \<open>Typed values and their syntax trees\<close>

fun json_of :: "gval \<Rightarrow> json" where
  "json_of (GString s) = JStr s"
| "json_of (GBool b) = JBool b"
| "json_of (GInt i) = JNum (FormatInt i)"
| "json_of (GPtr None) = JNull"
| "json_of (GPtr (Some v)) = json_of v"
| "json_of (GSlice None) = JNull"
| "json_of (GSlice (Some vs)) = JArr (map json_of vs)"
| "json_of (GStruct fs) = JObj (map (\<lambda>(n, v). (n, json_of v)) fs)"

fun text_ok :: "gval \<Rightarrow> bool" where
  "text_ok (GString s) = utf8_Valid s"
| "text_ok (GPtr (Some v)) = text_ok v"
| "text_ok (GSlice (Some vs)) = list_all text_ok vs"
| "text_ok (GStruct fs) = list_all (\<lambda>(n, v). utf8_Valid n \<and> text_ok v) fs"
| "text_ok _ = True"

definition ends_value :: "bytes \<Rightarrow> bool" where
  "ends_value r \<longleftrightarrow> (case r of [] \<Rightarrow> True | c # _ \<Rightarrow> c = CHR '','' \<or> c = CHR '']'' \<or> c = CHR ''}'' \<or> c = CHR 0x0A)"

definition value_rt :: "gval \<Rightarrow> bool" where
  "value_rt v \<longleftrightarrow> (\<forall>n r. 2 * length (marshal v) + 1 \<le> n \<longrightarrow> ends_value r \<longrightarrow>
     parse_value n (marshal v @ r) = Some (json_of v, r))"

fun has_type :: "jtype \<Rightarrow> gval \<Rightarrow> bool"
  and has_fields :: "(bytes \<times> jtype) list \<Rightarrow> (bytes \<times> gval) list \<Rightarrow> bool" where
  "has_type TString v = (case v of GString _ \<Rightarrow> True | _ \<Rightarrow> False)"
| "has_type TBool v = (case v of GBool _ \<Rightarrow> True | _ \<Rightarrow> False)"
| "has_type TInt v = (case v of GInt i \<Rightarrow> - (2 ^ 63) \<le> i \<and> i < 2 ^ 63 | _ \<Rightarrow> False)"
| "has_type TUint v = (case v of GInt i \<Rightarrow> 0 \<le> i \<and> i < 2 ^ 64 | _ \<Rightarrow> False)"
| "has_type (TPtr t) v = (case v of GPtr None \<Rightarrow> True | GPtr (Some w) \<Rightarrow> has_type t w | _ \<Rightarrow> False)"
| "has_type (TSlice t) v = (case v of GSlice (Some vs) \<Rightarrow> list_all (has_type t) vs | _ \<Rightarrow> False)"
| "has_type (TStruct fs) v = (case v of GStruct gs \<Rightarrow> has_fields fs gs | _ \<Rightarrow> False)"
| "has_fields [] gs = (gs = [])"
| "has_fields ((n, t) # fs) gs =
     (case gs of (m, v) # hs \<Rightarrow> m = n \<and> has_type t v \<and> has_fields fs hs | [] \<Rightarrow> False)"

fun type_ok :: "jtype \<Rightarrow> bool" where
  "type_ok (TPtr t) = (type_ok t \<and> (case t of TPtr _ \<Rightarrow> False | TSlice _ \<Rightarrow> False | _ \<Rightarrow> True))"
| "type_ok (TSlice t) = type_ok t"
| "type_ok (TStruct fs) = (distinct (map fst fs) \<and> list_all (\<lambda>(n, t). utf8_Valid n \<and> type_ok t) fs)"
| "type_ok _ = True"

fun type_depth :: "jtype \<Rightarrow> nat" where
  "type_depth (TPtr t) = type_depth t"
| "type_depth (TSlice t) = Suc (type_depth t)"
| "type_depth (TStruct fs) = Suc (fold max (map (\<lambda>(n, t). type_depth t) fs) 0)"
| "type_depth _ = 1"

section \<open>Strings\<close>

lemma rune_size_le: "rune_size s \<le> length s"
  by (simp add: rune_size_def split: list.split)

lemma rune_size_cases:
  assumes "rune_size s \<noteq> 0"
  obtains (one) a r where "s = a # r" "byte_in 0 127 a" "\<And>t. rune_size (a # t) = 1"
    | (two) a b r where "s = a # b # r" "\<And>t. rune_size (a # b # t) = 2"
    | (three) a b c r where "s = a # b # c # r" "\<And>t. rune_size (a # b # c # t) = 3"
    | (four) a b c d r where "s = a # b # c # d # r" "\<And>t. rune_size (a # b # c # d # t) = 4"
proof (cases s)
  case Nil
  with assms show ?thesis by (simp add: rune_size_def)
next
  case (Cons a r)
  show ?thesis
  proof (cases "byte_in 0 127 a")
    case True
    with Cons one show ?thesis by (simp add: rune_size_def)
  next
    case na: False
    then obtain b r2 where r: "r = b # r2" using assms Cons by (cases r) (auto simp: rune_size_def)
    show ?thesis
    proof (cases "rune2 a b")
      case True
      with Cons r two na show ?thesis by (simp add: rune_size_def)
    next
      case n2: False
      then obtain c r3 where r2: "r2 = c # r3" using assms Cons r na by (cases r2) (auto simp: rune_size_def)
      show ?thesis
      proof (cases "rune3 a b c")
        case True
        with Cons r r2 three na n2 show ?thesis by (simp add: rune_size_def)
      next
        case n3: False
        then obtain d r4 where "r3 = d # r4" "rune4 a b c d"
          using assms Cons r r2 na n2 by (cases r3) (auto simp: rune_size_def split: if_splits)
        with Cons r r2 four na n2 n3 show ?thesis by (simp add: rune_size_def)
      qed
    qed
  qed
qed

lemma rune_size_take:
  assumes "rune_size s \<noteq> 0"
  shows "rune_size (take (rune_size s) s @ t) = rune_size s"
  using assms by (cases s rule: rune_size_cases) auto

lemma utf8_rune_separators:
  "utf8_rune 8232 = [CHR 0xE2, CHR 0x80, CHR 0xA8]" "utf8_rune 8233 = [CHR 0xE2, CHR 0x80, CHR 0xA9]"
  by (simp_all add: utf8_rune_def char_of_def bit_Suc_0_iff bit_0)

lemma rune_size_separators:
  "rune_size (CHR 0xE2 # CHR 0x80 # CHR 0xA8 # r) = 3" "rune_size (CHR 0xE2 # CHR 0x80 # CHR 0xA9 # r) = 3"
  by (simp_all add: rune_size_def rune2_def rune3_def byte_in_def)

lemma separator_size:
  assumes "take 3 s = utf8_rune 8232 \<or> take 3 s = utf8_rune 8233"
  shows "rune_size s = 3"
  using assms append_take_drop_id[of 3 s] utf8_rune_separators rune_size_separators
  by (metis append_Cons append_Nil)

lemma map_option_id_apfst: "map_option (apfst ((@) [c])) = map_option (apfst ((#) c))"
  by (rule arg_cong[where f = "\<lambda>g. map_option (apfst g)"]) auto

lemma hex4_byte:
  assumes "n < 256"
  shows "hex4 [CHR ''0'', CHR ''0'', hex_char (n div 16), hex_char (n mod 16)] = Some n"
proof -
  have "n div 16 < 16" using assms by (simp add: div_less_iff_less_mult)
  moreover have "hex_val (CHR ''0'') = Some 0" by (simp add: hex_val_def)
  ultimately show ?thesis by (simp add: hex_val_hex_char)
qed

lemma take_drop_exact: "length a = n \<Longrightarrow> take n (a @ b) = a" "length a = n \<Longrightarrow> drop n (a @ b) = b"
  by auto

lemma parse_string_plain:
  assumes "rune_size s \<noteq> 0" "s = c # r" "\<not> byte_in 0 127 c"
  shows "parse_string s = map_option (apfst ((@) (take (rune_size s) s))) (parse_string (drop (rune_size s) s))"
proof -
  have "c \<noteq> CHR 0x22" "c \<noteq> CHR 0x5C" "\<not> byte_in 0 31 c" using assms(3) by (auto simp: byte_in_def)
  with assms(1,2) show ?thesis by (subst parse_string.simps) simp
qed

lemma parse_string_u:
  assumes "hex4 (take 4 r) = Some u"
  shows "parse_string (CHR 0x5C # CHR ''u'' # r)
    = map_option (apfst ((@) (fst (unicode_escape u (drop 4 r))))) (parse_string (snd (unicode_escape u (drop 4 r))))"
  using assms by (subst parse_string.simps) simp

lemma parse_string_simple:
  assumes "simple_escape e = Some x"
  shows "parse_string (CHR 0x5C # e # r) = map_option (apfst ((#) x)) (parse_string r)"
  using assms by (subst parse_string.simps) (auto simp: simple_escape_def)

lemma escape_byte_parse:
  assumes "byte_in 0 127 c"
  shows "parse_string (escape_byte c @ r) = map_option (apfst ((@) [c])) (parse_string r)"
proof (cases "html_safe c")
  case True
  then have "rune_size (c # r) = 1" "\<not> byte_in 0 31 c"
    using assms by (auto simp: rune_size_def html_safe_def byte_in_def)
  with True show ?thesis
    by (subst parse_string.simps) (simp add: escape_byte_def html_safe_def)
next
  case False
  let ?simple = "c \<in> {CHR 0x22, CHR 0x5C, CHR 0x08, CHR 0x0C, CHR 0x0A, CHR 0x0D, CHR 0x09}"
  show ?thesis
  proof (cases ?simple)
    case True
    then show ?thesis
      by (elim insertE emptyE)
        (simp_all add: escape_byte_def html_safe_def byte_in_def parse_string_simple simple_escape_def map_option_id_apfst)
  next
    case u: False
    have n: "(of_char c :: nat) < 128" using assms by (simp add: byte_in_def)
    have "escape_byte c = CHR 0x5C # CHR ''u'' # [CHR ''0'', CHR ''0'', hex_char (of_char c div 16), hex_char (of_char c mod 16)]"
      using u False by (simp add: escape_byte_def)
    then show ?thesis using n hex4_byte[OF of_char_less_256[of c]]
      by (simp add: parse_string_u unicode_escape_def utf8_rune_def del: hex4.simps)
  qed
qed

lemma parse_escape_string:
  "utf8_Valid s \<Longrightarrow> parse_string (escape_string s @ CHR 0x22 # r) = Some (s, r)"
proof (induction s rule: escape_string.induct)
  case (1 s)
  show ?case
  proof (cases s)
    case Nil
    then show ?thesis by (simp add: escape_string.simps[of "[]"] parse_string.simps[of "CHR 0x22 # r"])
  next
    case (Cons c cs)
    have nz: "rune_size s \<noteq> 0" and val: "utf8_Valid (drop (rune_size s) s)"
      using "1.prems" Cons by (subst (asm) utf8_Valid.simps; simp split: if_splits)+
    show ?thesis
    proof (cases "byte_in 0 127 c")
      case True
      then have "rune_size s = 1" using Cons by (simp add: rune_size_def)
      with True "1.IH"(1)[OF Cons True] val Cons show ?thesis
        by (subst escape_string.simps) (simp add: escape_byte_parse)
    next
      case False
      have take3: "s = utf8_rune u @ drop 3 s" if "take 3 s = utf8_rune u" for u
        using that by (metis append_take_drop_id)
      consider (ls) "take 3 s = utf8_rune 8232" | (ps) "take 3 s \<noteq> utf8_rune 8232" "take 3 s = utf8_rune 8233"
        | (plain) "take 3 s \<noteq> utf8_rune 8232" "take 3 s \<noteq> utf8_rune 8233" by blast
      then show ?thesis
      proof cases
        case ls
        have h: "hex4 ''2028'' = Some 8232" by (simp add: hex_val_def)
        have "escape_string s = CHR 0x5C # CHR ''u'' # ''2028'' @ escape_string (drop 3 s)"
          using Cons False nz ls by (subst escape_string.simps) simp
        with h "1.IH"(3)[OF Cons False nz ls] val separator_size[of s] ls take3[OF ls] show ?thesis
          by (simp add: parse_string_u unicode_escape_def del: hex4.simps)
      next
        case ps
        have h: "hex4 ''2029'' = Some 8233" by (simp add: hex_val_def)
        have "escape_string s = CHR 0x5C # CHR ''u'' # ''2029'' @ escape_string (drop 3 s)"
          using Cons False nz ps by (subst escape_string.simps) simp
        with h "1.IH"(4)[OF Cons False nz ps] val separator_size[of s] ps take3[OF ps(2)] show ?thesis
          by (simp add: parse_string_u unicode_escape_def del: hex4.simps)
      next
        case plain
        let ?t = "take (rune_size s) s" and ?d = "escape_string (drop (rune_size s) s) @ CHR 0x22 # r"
        have e: "escape_string s = ?t @ escape_string (drop (rune_size s) s)"
          using Cons False nz plain by (subst escape_string.simps) simp
        have rt: "rune_size (?t @ ?d) = rune_size s"
          by (rule rune_size_take[OF nz])
        have hd: "?t @ ?d = c # (drop 1 ?t @ ?d)" using Cons nz by (cases "rune_size s") auto
        have len: "length ?t = rune_size s" using rune_size_le[of s] by simp
        have "parse_string (?t @ ?d) = map_option (apfst ((@) ?t)) (parse_string ?d)"
          using parse_string_plain[OF _ hd False] rt nz len by (simp del: take_append drop_append add: take_drop_exact)
        with e "1.IH"(5)[OF Cons False nz plain] val show ?thesis by simp
      qed
    qed
  qed
qed

section \<open>Values\<close>

lemma ends_value_Cons [simp]:
  "ends_value []" "ends_value (CHR '','' # r)" "ends_value (CHR '']'' # r)" "ends_value (CHR ''}'' # r)" "ends_value (CHR 0x0A # r)"
  by (simp_all add: ends_value_def)

lemma not_is_digit_end: "ends_value r \<Longrightarrow> takeWhile is_digit (ds @ r) = takeWhile is_digit ds"
  "ends_value r \<Longrightarrow> list_all is_digit ds \<Longrightarrow> dropWhile is_digit (ds @ r) = r"
proof -
  assume e: "ends_value r"
  then have r: "takeWhile is_digit r = [] \<and> dropWhile is_digit r = r"
    by (cases r) (auto simp: ends_value_def is_digit_def)
  show "takeWhile is_digit (ds @ r) = takeWhile is_digit ds"
    using r by (induction ds) auto
  show "dropWhile is_digit (ds @ r) = r" if "list_all is_digit ds"
    using that r by (induction ds) auto
qed

lemma FormatUint_zero: "FormatUint n = CHR ''0'' # cs \<Longrightarrow> cs = []"
proof (induction n arbitrary: cs rule: FormatUint.induct)
  case (1 n)
  show ?case
  proof (cases "n < 10")
    case True
    with 1(2) show ?thesis by (subst (asm) FormatUint.simps) simp
  next
    case False
    then have eq: "FormatUint n = FormatUint (n div 10) @ [digit_char (n mod 10)]" by (subst FormatUint.simps) simp
    obtain d ds where d: "FormatUint (n div 10) = d # ds" by (cases "FormatUint (n div 10)") auto
    with eq 1(2) have "d = CHR ''0''" by simp
    with d 1(1)[OF False, of ds] have "FormatUint (n div 10) = [CHR ''0'']" by simp
    then have "dec_acc 0 (FormatUint (n div 10)) = 0" by (simp add: digit_val_def)
    then show ?thesis using False by (simp add: dec_acc_FormatUint)
  qed
qed

lemma digits_head: "FormatUint n = c # cs \<Longrightarrow> is_digit c"
  using FormatUint_digits[of n] by simp

lemma parse_int_part_FormatUint:
  assumes "ends_value r"
  shows "parse_int_part (FormatUint n @ r) = Some (FormatUint n, r)"
proof -
  obtain c cs where f: "FormatUint n = c # cs" by (cases "FormatUint n") auto
  show ?thesis
  proof (cases "c = CHR ''0''")
    case True
    then show ?thesis using FormatUint_zero[of n cs] f by (simp add: parse_int_part_def)
  next
    case False
    have "takeWhile is_digit (c # cs) = c # cs"
      using FormatUint_digits[of n] f by (simp add: list_all_iff)
    then show ?thesis using False digits_head[OF f] f not_is_digit_end[OF assms, of "c # cs"] FormatUint_digits[of n]
      by (simp add: parse_int_part_def span_digits_def)
  qed
qed

lemma parse_number_FormatInt:
  assumes "ends_value r"
  shows "parse_number (FormatInt i @ r) = Some (FormatInt i, r)"
proof -
  have fe: "parse_frac r = Some ([], r)" "parse_exp r = Some ([], r)"
    using assms by (auto simp: parse_frac_def parse_exp_def ends_value_def split: list.splits)
  show ?thesis
  proof (cases "i < 0")
    case True
    then show ?thesis using fe parse_int_part_FormatUint[OF assms]
      by (simp add: parse_number_def FormatInt_def Let_def)
  next
    case False
    obtain c cs where f: "FormatUint (nat i) = c # cs" by (cases "FormatUint (nat i)") auto
    then have "c \<noteq> CHR ''-''" using digits_head[OF f] by (auto simp: is_digit_def)
    then show ?thesis using False fe f parse_int_part_FormatUint[OF assms, of "nat i"]
      by (simp add: parse_number_def FormatInt_def Let_def)
  qed
qed

lemma parse_int_lit_FormatInt: "- (2 ^ 63) \<le> i \<Longrightarrow> i < 2 ^ 63 \<Longrightarrow> parse_int_lit (FormatInt i) = Some i"
proof (cases "i < 0")
  case False
  obtain c cs where f: "FormatUint (nat i) = c # cs" by (cases "FormatUint (nat i)") auto
  then have "c \<noteq> CHR ''-''" using digits_head[OF f] by (auto simp: is_digit_def)
  moreover assume "- (2 ^ 63) \<le> i" "i < 2 ^ 63"
  ultimately show ?thesis using False f FormatUint_digits[of "nat i"] dec_acc_FormatUint[of "nat i"]
    by (simp add: parse_int_lit_def FormatInt_def)
qed (simp add: parse_int_lit_def FormatInt_def FormatUint_digits dec_acc_FormatUint)

lemma parse_uint_lit_FormatInt: "0 \<le> i \<Longrightarrow> i < 2 ^ 64 \<Longrightarrow> parse_uint_lit (FormatInt i) = Some i"
  by (simp add: parse_uint_lit_def FormatInt_def FormatUint_digits dec_acc_FormatUint)

lemma FormatInt_head:
  obtains c cs where "FormatInt i = c # cs" "is_digit c \<or> c = CHR ''-''"
proof -
  obtain c cs where f: "FormatUint (nat i) = c # cs" by (cases "FormatUint (nat i)") auto
  show ?thesis using that f digits_head[OF f] by (cases "i < 0") (auto simp: FormatInt_def)
qed

lemma marshal_head:
  obtains c cs where "marshal v = c # cs" "\<not> is_ws c" "c \<noteq> CHR '']'' "  "c \<noteq> CHR ''}''" "c \<noteq> CHR '',''"
proof (induction v rule: marshal.induct)
  case (2 b)
  then show ?case by (cases b) (auto simp: is_ws_def)
next
  case (3 i)
  obtain c cs where "FormatInt i = c # cs" "is_digit c \<or> c = CHR ''-''" by (rule FormatInt_head)
  moreover from this(2) have "\<not> is_ws c" "c \<noteq> CHR '']''" "c \<noteq> CHR ''}''" "c \<noteq> CHR '',''"
    by (auto simp: is_ws_def is_digit_def)
  ultimately show ?case using 3[of c cs] by simp
qed (auto simp: quote_string_def is_ws_def split: if_splits)

lemma skip_ws_id [simp]: "\<not> is_ws c \<Longrightarrow> skip_ws (c # r) = c # r"
  by (simp add: skip_ws_def)

lemma not_ws [simp]: "\<not> is_ws (CHR 0x22)" "\<not> is_ws (CHR ''{'')" "\<not> is_ws (CHR ''['')" "\<not> is_ws (CHR '']'')"
  "\<not> is_ws (CHR ''}'')" "\<not> is_ws (CHR '','')" "\<not> is_ws (CHR '':'')" "\<not> is_ws (CHR ''t'')"  "\<not> is_ws (CHR ''f'')" "\<not> is_ws (CHR ''n'')"
  by (simp_all add: is_ws_def)

lemma parse_value_number:
  assumes "ends_value r" "0 < n"
  shows "parse_value n (FormatInt i @ r) = Some (JNum (FormatInt i), r)"
proof -
  obtain c cs where f: "FormatInt i = c # cs" "is_digit c \<or> c = CHR ''-''" by (rule FormatInt_head)
  obtain m where n: "n = Suc m" using assms(2) by (cases n) auto
  have c: "\<not> is_ws c" "c \<noteq> CHR ''{''" "c \<noteq> CHR ''[''" "c \<noteq> CHR 0x22" "c \<noteq> CHR ''t''" "c \<noteq> CHR ''f''" "c \<noteq> CHR ''n''"
    using f(2) by (auto simp: is_ws_def is_digit_def)
  show ?thesis using parse_number_FormatInt[OF assms(1), of i] c by (simp add: n f(1))
qed

lemma parse_elements_marshal:
  assumes "\<And>v. v \<in> set vs \<Longrightarrow> value_rt v" "vs \<noteq> []" "2 * length (comma_sep (map marshal vs)) + 2 \<le> n"
  shows "parse_elements n (comma_sep (map marshal vs) @ CHR '']'' # r) = Some (map json_of vs, r)"
  using assms
proof (induction vs arbitrary: n)
  case (Cons v vs)
  obtain m where n: "n = Suc m" using Cons.prems(3) by (cases n) auto
  have v: "value_rt v" using Cons.prems(1) by simp
  show ?case
  proof (cases vs)
    case Nil
    with v Cons.prems(3) show ?thesis by (simp add: n value_rt_def)
  next
    case (Cons w ws)
    obtain c cs where c: "marshal w = c # cs" "\<not> is_ws c" by (rule marshal_head)
    have ws: "skip_ws (comma_sep (map marshal vs) @ t) = comma_sep (map marshal vs) @ t" for t
      using c by (cases ws) (simp_all add: Cons)
    have "parse_elements m (comma_sep (map marshal vs) @ CHR '']'' # r) = Some (map json_of vs, r)"
      using Cons.IH[of m] Cons.prems Cons n by auto
    with v Cons.prems(3) ws show ?thesis by (simp add: n value_rt_def Cons)
  qed
qed simp

lemma parse_members_marshal:
  assumes "\<And>k v. (k, v) \<in> set fs \<Longrightarrow> value_rt v \<and> utf8_Valid k" "fs \<noteq> []"
    "2 * length (comma_sep (map (\<lambda>(n, v). quote_string n @ CHR '':'' # marshal v) fs)) + 1 \<le> n"
  shows "parse_members n (comma_sep (map (\<lambda>(n, v). quote_string n @ CHR '':'' # marshal v) fs) @ CHR ''}'' # r)
    = Some (map (\<lambda>(n, v). (n, json_of v)) fs, r)"
  using assms
proof (induction fs arbitrary: n)
  case (Cons f fs)
  obtain k v where f: "f = (k, v)" by (cases f)
  obtain m where n: "n = Suc m" using Cons.prems(3) by (cases n) auto
  have v: "value_rt v" "utf8_Valid k" using Cons.prems(1)[of k v] f by simp_all
  show ?case
  proof (cases fs)
    case Nil
    with v Cons.prems(3) show ?thesis by (simp add: n f value_rt_def quote_string_def parse_escape_string)
  next
    case (Cons w ws)
    have "parse_members m (comma_sep (map (\<lambda>(n, v). quote_string n @ CHR '':'' # marshal v) fs) @ CHR ''}'' # r)
      = Some (map (\<lambda>(n, v). (n, json_of v)) fs, r)"
      using Cons.IH[of m] Cons.prems Cons n f by auto
    moreover have ws: "skip_ws (comma_sep (map (\<lambda>(n, v). quote_string n @ CHR '':'' # marshal v) fs) @ t) = comma_sep (map (\<lambda>(n, v). quote_string n @ CHR '':'' # marshal v) fs) @ t" for t
      by (cases ws; cases w) (simp_all add: Cons quote_string_def)
    ultimately show ?thesis using v Cons.prems(3) 
      by (simp add: n f value_rt_def Cons quote_string_def parse_escape_string split: prod.splits)
  qed
qed simp

lemma value_rt_marshal: "text_ok v \<Longrightarrow> value_rt v"
proof (induction v rule: marshal.induct)
  case (1 s)
  show ?case unfolding value_rt_def
  proof (intro allI impI)
    fix n r assume "2 * length (marshal (GString s)) + 1 \<le> n"
    then obtain m where "n = Suc m" by (cases n) auto
    then show "parse_value n (marshal (GString s) @ r) = Some (json_of (GString s), r)"
      using 1 by (simp add: quote_string_def parse_escape_string)
  qed
next
  case (2 b)
  show ?case unfolding value_rt_def
  proof (intro allI impI)
    fix n r assume "2 * length (marshal (GBool b)) + 1 \<le> n"
    then obtain m where "n = Suc m" by (cases n) auto
    then show "parse_value n (marshal (GBool b) @ r) = Some (json_of (GBool b), r)"
      by (simp add: parse_lit_def)
  qed
next
  case (3 i)
  then show ?case by (simp add: value_rt_def parse_value_number)
next
  case 4
  show ?case unfolding value_rt_def
  proof (intro allI impI)
    fix n r assume "2 * length (marshal (GPtr None)) + 1 \<le> n"
    then obtain m where "n = Suc m" by (cases n) auto
    then show "parse_value n (marshal (GPtr None) @ r) = Some (json_of (GPtr None), r)"
      by (simp add: parse_lit_def)
  qed
next
  case (5 v)
  then show ?case by (simp add: value_rt_def)
next
  case 6
  show ?case unfolding value_rt_def
  proof (intro allI impI)
    fix n r assume "2 * length (marshal (GSlice None)) + 1 \<le> n"
    then obtain m where "n = Suc m" by (cases n) auto
    then show "parse_value n (marshal (GSlice None) @ r) = Some (json_of (GSlice None), r)"
      by (simp add: parse_lit_def)
  qed
next
  case (7 vs)
  show ?case unfolding value_rt_def
  proof (intro allI impI)
    fix n r assume n: "2 * length (marshal (GSlice (Some vs))) + 1 \<le> n"
    then obtain m where m: "n = Suc m" by (cases n) auto
    show "parse_value n (marshal (GSlice (Some vs)) @ r) = Some (json_of (GSlice (Some vs)), r)"
    proof (cases vs)
      case Nil
      then show ?thesis by (simp add: m)
    next
      case (Cons w ws)
      obtain c cs where c: "marshal w = c # cs" "\<not> is_ws c" "c \<noteq> CHR '']''" by (rule marshal_head)
      obtain t where t: "comma_sep (map marshal vs) = c # t" using c by (cases ws) (simp_all add: Cons)
      have "parse_elements m (comma_sep (map marshal vs) @ CHR '']'' # r) = Some (map json_of vs, r)"
        using 7 n m Cons by (intro parse_elements_marshal) (auto simp: list_all_iff)
      with c t show ?thesis by (simp add: m)
    qed
  qed
next
  case (8 fs)
  have fs: "value_rt v \<and> utf8_Valid k" if "(k, v) \<in> set fs" for k v
    using 8(1)[OF that refl] 8(2) that by (auto simp: list_all_iff)
  show ?case unfolding value_rt_def
  proof (intro allI impI)
    fix n r assume n: "2 * length (marshal (GStruct fs)) + 1 \<le> n"
    then obtain m where m: "n = Suc m" by (cases n) auto
    let ?ms = "comma_sep (map (\<lambda>(n, v). quote_string n @ CHR '':'' # marshal v) fs)"
    show "parse_value n (marshal (GStruct fs) @ r) = Some (json_of (GStruct fs), r)"
    proof (cases fs)
      case Nil
      then show ?thesis by (simp add: m)
    next
      case (Cons w ws)
      obtain t where t: "?ms = CHR 0x22 # t" by (cases ws; cases w) (simp_all add: Cons quote_string_def)
      have "parse_members m (?ms @ CHR ''}'' # r) = Some (map (\<lambda>(n, v). (n, json_of v)) fs, r)"
        using fs n m Cons by (intro parse_members_marshal) auto
      with t show ?thesis by (simp add: m)
    qed
  qed
qed

lemma value_rtD:
  "value_rt v \<Longrightarrow> 2 * length (marshal v) + 1 \<le> n \<Longrightarrow> ends_value r \<Longrightarrow> parse_value n (marshal v @ r) = Some (json_of v, r)"
  by (simp add: value_rt_def)

theorem parse_json_marshal: "text_ok v \<Longrightarrow> parse_json (marshal v) = Some (json_of v)"
  using value_rtD[OF value_rt_marshal, of v "2 * length (marshal v) + 2" "[]"]
  by (simp add: parse_json_def skip_ws_def del: parse_value.simps)

lemma has_fields_names: "has_fields fs gs \<Longrightarrow> map fst gs = map fst fs"
  by (induction fs arbitrary: gs) (auto split: list.splits)

lemma has_fields_type: "has_fields fs gs \<Longrightarrow> (n, w) \<in> set gs \<Longrightarrow> \<exists>t. (n, t) \<in> set fs \<and> has_type t w"
  by (induction fs arbitrary: gs) (fastforce split: list.splits)+

lemma has_fields_value: "has_fields fs gs \<Longrightarrow> (n, t) \<in> set fs \<Longrightarrow> \<exists>w. (n, w) \<in> set gs \<and> has_type t w"
  by (induction fs arbitrary: gs) (fastforce split: list.splits)+

lemma type_depth_pos: "1 \<le> type_depth t"
  by (induction t rule: type_depth.induct) auto

lemma fold_max_le: "x \<in> set xs \<Longrightarrow> x \<le> fold max xs (a::nat)"
proof -
  have "fold max xs a = Max (insert a (set xs))"
    by (metis Max.set_eq_fold list.simps(15))
  then show "x \<in> set xs \<Longrightarrow> x \<le> fold max xs (a::nat)" by simp
qed

lemma json_of_not_null: "has_type t v \<Longrightarrow> type_ok t \<Longrightarrow> (\<forall>u. t \<noteq> TPtr u) \<Longrightarrow> json_of v \<noteq> JNull"
  by (cases t) (auto split: gval.splits option.splits)

lemma validateJSONValue_json_of:
  "has_type t v \<Longrightarrow> type_ok t \<Longrightarrow> d + type_depth t \<le> 33 \<Longrightarrow> validateJSONValue (json_of v) d"
proof (induction t arbitrary: v d rule: type_ok.induct)
  case (1 t)
  show ?case
  proof (cases "v = GPtr None")
    case True
    with type_depth_pos[of t] 1 show ?thesis by (simp add: validateJSONValue.simps)
  qed (use 1 in \<open>auto split: gval.splits option.splits\<close>)
next
  case (2 t)
  then obtain vs where v: "v = GSlice (Some vs)" "list_all (has_type t) vs" by (auto split: gval.splits option.splits)
  with type_depth_pos[of t] 2 show ?case by (subst validateJSONValue.simps) (auto simp: list_all_iff)
next
  case (3 fs)
  then obtain gs where v: "v = GStruct gs" "has_fields fs gs" by (auto split: gval.splits)
  have "validateJSONValue (json_of w) (d + 1)" if w: "(n, w) \<in> set gs" for n w
  proof -
    from v(2) w obtain t where t: "(n, t) \<in> set fs" "has_type t w"
      using has_fields_type by blast
    have "type_depth t \<le> fold max (map (\<lambda>(n, t). type_depth t) fs) 0"
      using t(1) by (intro fold_max_le) force
    with 3(1)[OF t(1) refl t(2)] 3(3,4) t(1) show ?thesis by (auto simp: list_all_iff)
  qed
  moreover have "map fst (map (\<lambda>(n, v). (n, json_of v)) gs) = map fst gs" by (induction gs) auto
  ultimately show ?case using v 3(3,4) has_fields_names[OF v(2)]
    by (subst validateJSONValue.simps) (auto simp: list_all_iff)
qed (subst validateJSONValue.simps; auto split: gval.splits)+

lemma validateRequiredJSON_json_of:
  "has_type t v \<Longrightarrow> type_ok t \<Longrightarrow> validateRequiredJSON (json_of v) t"
proof (induction t arbitrary: v rule: type_ok.induct)
  case (3 fs)
  then obtain gs where v: "v = GStruct gs" "has_fields fs gs" by (auto split: gval.splits)
  have "validateRequiredFields kvs fs'" if "\<And>n t. (n, t) \<in> set fs' \<Longrightarrow> \<exists>j. map_of kvs n = Some j \<and> validateRequiredJSON j t" for kvs fs'
    using that
  proof (induction fs')
    case (Cons f fs')
    obtain n t where f: "f = (n, t)" by (cases f)
    from Cons.prems[of n t] f obtain j where "map_of kvs n = Some j" "validateRequiredJSON j t" by auto
    with Cons f show ?case by auto
  qed simp
  moreover have "\<exists>j. map_of (map (\<lambda>(n, v). (n, json_of v)) gs) n = Some j \<and> validateRequiredJSON j t" if t: "(n, t) \<in> set fs" for n t
  proof -
    from v(2) t obtain w where w: "(n, w) \<in> set gs" "has_type t w"
      using has_fields_value by blast
    have "distinct (map fst gs)" using has_fields_names[OF v(2)] 3(3) by simp
    then have "map_of gs n = Some w" using w(1) by simp
    then have "map_of (map (\<lambda>(n, v). (n, json_of v)) gs) n = Some (json_of w)"
      by (simp add: map_of_map)
    with 3(1)[OF t refl w(2)] 3(3) t show ?thesis by (auto simp: list_all_iff)
  qed
  ultimately show ?case using v by simp
qed (auto split: gval.splits option.splits simp: list_all_iff)

lemma get_field_skip: "n \<notin> set (map fst done) \<Longrightarrow> get_field n (done @ (n, v) # r) = v"
  by (induction "done") (auto simp: get_field_def map_of_append split: option.splits)

lemma set_field_skip: "n \<notin> set (map fst done) \<Longrightarrow> set_field n w (done @ (n, v) # r) = done @ (n, w) # r"
  by (induction "done") auto

lemma find_field_mem:
  assumes "(n, t) \<in> set fs" "distinct (map fst fs)"
  shows "find_field fs n = Some (n, t)"
proof -
  have "find (\<lambda>f. fst f = n) fs = Some (n, t)"
    using assms by (induction fs) force+
  then show ?thesis by (simp add: find_field_def)
qed

lemma unmarshal_members_json_of:
  assumes "\<And>n t v. (n, t) \<in> set todo \<Longrightarrow> has_type t v \<Longrightarrow> unmarshal strict t (zero_value t) (json_of v) = Some v"
    and "distinct (map fst all)" "set todo \<subseteq> set all"
    and "has_fields todo gs" "distinct (map fst done @ map fst todo)"
  shows "unmarshal_members strict all (done @ map (\<lambda>(n, t). (n, zero_value t)) todo) (map (\<lambda>(n, v). (n, json_of v)) gs)
    = Some (done @ gs)"
  using assms
proof (induction todo arbitrary: gs "done")
  case (Cons f todo)
  obtain n t where f: "f = (n, t)" by (cases f)
  obtain v hs where gs: "gs = (n, v) # hs" "has_type t v" "has_fields todo hs"
    using Cons.prems(4) f by (auto split: list.splits)
  have n: "n \<notin> set (map fst done)" using Cons.prems(5) f by auto
  have "find_field all n = Some (n, t)" using Cons.prems(2,3) f by (intro find_field_mem) auto
  moreover have "unmarshal strict t (zero_value t) (json_of v) = Some v" using Cons.prems(1) f gs(2) by auto
  moreover have "unmarshal_members strict all ((done @ [(n, v)]) @ map (\<lambda>(n, t). (n, zero_value t)) todo) (map (\<lambda>(n, v). (n, json_of v)) hs)
    = Some ((done @ [(n, v)]) @ hs)"
    using Cons.prems f gs(3) by (intro Cons.IH) auto
  ultimately show ?case using n gs(1) f by (simp add: get_field_skip set_field_skip)
qed simp

lemma unmarshal_elements_json_of:
  assumes "\<And>v. v \<in> set vs \<Longrightarrow> unmarshal strict t (zero_value t) (json_of v) = Some v"
  shows "unmarshal_elements strict t [] (map json_of vs) = Some vs"
  using assms by (induction vs) auto

lemma unmarshal_json_of:
  "has_type t v \<Longrightarrow> type_ok t \<Longrightarrow> unmarshal strict t (zero_value t) (json_of v) = Some v"
proof (induction t arbitrary: v rule: type_ok.induct)
  case (1 t)
  show ?case
  proof (cases "v = GPtr None")
    case False
    then obtain w where w: "v = GPtr (Some w)" "has_type t w" using 1(2) by (auto split: gval.splits option.splits)
    from 1(1)[OF w(2)] 1(3) have IH: "unmarshal strict t (zero_value t) (json_of w) = Some w" by simp
    show ?thesis
    proof (cases t)
      case (TStruct fs)
      then obtain gs where "w = GStruct gs" using w(2) by (auto split: gval.splits)
      with IH w TStruct show ?thesis by auto
    qed (use IH w 1(3) in \<open>auto split: gval.splits\<close>)
  qed simp
next
  case (2 t)
  then obtain vs where v: "v = GSlice (Some vs)" "list_all (has_type t) vs" by (auto split: gval.splits option.splits)
  then show ?case using 2 unmarshal_elements_json_of[of vs strict t] by (auto simp: list_all_iff)
next
  case (3 fs)
  then obtain gs where v: "v = GStruct gs" "has_fields fs gs" by (auto split: gval.splits)
  have "unmarshal_members strict fs ([] @ map (\<lambda>(n, t). (n, zero_value t)) fs) (map (\<lambda>(n, v). (n, json_of v)) gs) = Some ([] @ gs)"
    using 3 v by (intro unmarshal_members_json_of) (auto simp: list_all_iff)
  with v show ?case by simp
qed (auto split: gval.splits simp: parse_int_lit_FormatInt parse_uint_lit_FormatInt)

lemma utf8_Valid_append: "utf8_Valid a \<Longrightarrow> utf8_Valid (a @ b) = utf8_Valid b"
proof (induction a rule: utf8_Valid.induct)
  case (1 s)
  show ?case
  proof (cases "s = []")
    case False
    then have nz: "rune_size s \<noteq> 0" and v: "utf8_Valid (drop (rune_size s) s)"
      using 1(2) by (subst (asm) utf8_Valid.simps; simp split: if_splits)+
    have r: "rune_size (s @ b) = rune_size s"
      using rune_size_take[OF nz, of "drop (rune_size s) s @ b"] by (metis append.assoc append_take_drop_id)
    show ?thesis using 1(1)[OF False nz v] False nz r rune_size_le[of s]
      by (subst utf8_Valid.simps) simp
  qed simp
qed

lemma utf8_Valid_ascii: "list_all (byte_in 0 127) s \<Longrightarrow> utf8_Valid s"
proof (induction s)
  case (Cons c s)
  then show ?case by (subst utf8_Valid.simps) (simp add: rune_size_def)
qed (simp add: utf8_Valid.simps)

lemma utf8_Valid_rune: "rune_size s \<noteq> 0 \<Longrightarrow> utf8_Valid (take (rune_size s) s @ x) = utf8_Valid x"
  using rune_size_take[of s x] rune_size_le[of s]
  by (subst utf8_Valid.simps) (auto simp: take_drop_exact)

lemma hex_char_ascii: "d < 16 \<Longrightarrow> byte_in 0 127 (hex_char d)"
  by (simp add: byte_in_def hex_char_def of_char_of)

lemma escape_byte_ascii:
  assumes "byte_in 0 127 c"
  shows "list_all (byte_in 0 127) (escape_byte c)"
proof -
  have "(of_char c :: nat) div 16 < 16" using of_char_less_256[of c] by (simp add: div_less_iff_less_mult)
  with hex_char_ascii[of "of_char c div 16"] hex_char_ascii[of "of_char c mod 16"] assms
  show ?thesis by (simp add: escape_byte_def byte_in_def)
qed

lemma utf8_Valid_escape_string: "utf8_Valid s \<Longrightarrow> utf8_Valid (escape_string s)"
proof (induction s rule: escape_string.induct)
  case (1 s)
  show ?case
  proof (cases s)
    case Nil
    then show ?thesis by (simp add: escape_string.simps[of "[]"] utf8_Valid.simps)
  next
    case (Cons c cs)
    have nz: "rune_size s \<noteq> 0" and val: "utf8_Valid (drop (rune_size s) s)"
      using "1.prems" Cons by (subst (asm) utf8_Valid.simps; simp split: if_splits)+
    show ?thesis
    proof (cases "byte_in 0 127 c")
      case True
      then have "rune_size s = 1" using Cons by (simp add: rune_size_def)
      with True "1.IH"(1)[OF Cons True] val Cons escape_byte_ascii[OF True] show ?thesis
        by (subst escape_string.simps) (simp add: utf8_Valid_append utf8_Valid_ascii)
    next
      case False
      have esc: "utf8_Valid (CHR 0x5C # CHR ''u'' # CHR ''2'' # CHR ''0'' # CHR ''2'' # d # x) = utf8_Valid x" if "byte_in 0 127 d" for d x
        using utf8_Valid_append[OF utf8_Valid_ascii, of "[CHR 0x5C, CHR ''u'', CHR ''2'', CHR ''0'', CHR ''2'', d]" x] that
        by (simp add: byte_in_def)
      consider (ls) "take 3 s = utf8_rune 8232" | (ps) "take 3 s \<noteq> utf8_rune 8232" "take 3 s = utf8_rune 8233"
        | (plain) "take 3 s \<noteq> utf8_rune 8232" "take 3 s \<noteq> utf8_rune 8233" by blast
      then show ?thesis
      proof cases
        case ls
        with "1.IH"(3)[OF Cons False nz ls] val separator_size[of s] Cons False nz show ?thesis
          by (subst escape_string.simps) (simp add: esc byte_in_def)
      next
        case ps
        with "1.IH"(4)[OF Cons False nz ps] val separator_size[of s] Cons False nz show ?thesis
          by (subst escape_string.simps) (simp add: esc byte_in_def)
      next
        case plain
        with "1.IH"(5)[OF Cons False nz plain] val Cons False nz show ?thesis
          by (subst escape_string.simps) (simp add: utf8_Valid_rune)
      qed
    qed
  qed
qed

lemma utf8_Valid_comma_sep: "list_all utf8_Valid xs \<Longrightarrow> utf8_Valid (comma_sep xs)"
proof (induction xs rule: comma_sep.induct)
  case (3 x y r)
  then have "utf8_Valid ('','' @ comma_sep (y # r))"
    using utf8_Valid_append[OF utf8_Valid_ascii, of "'',''"] by (simp add: byte_in_def)
  with 3 show ?case by (simp add: utf8_Valid_append)
qed (simp_all add: utf8_Valid_ascii)

lemma utf8_Valid_quote_string: "utf8_Valid s \<Longrightarrow> utf8_Valid (quote_string s)"
  using utf8_Valid_append[OF utf8_Valid_ascii, of "[CHR 0x22]" "escape_string s @ [CHR 0x22]"]
  by (simp add: quote_string_def byte_in_def utf8_Valid_append utf8_Valid_escape_string utf8_Valid_ascii)

lemma utf8_Valid_FormatInt: "utf8_Valid (FormatInt i)"
proof -
  have "list_all (byte_in 0 127) (FormatUint n)" for n
    using FormatUint_digits[of n] by (auto simp: list_all_iff is_digit_def byte_in_def)
  then show ?thesis by (intro utf8_Valid_ascii) (simp add: FormatInt_def byte_in_def)
qed

lemma utf8_Valid_bracket:
  assumes "utf8_Valid s" "byte_in 0 127 a" "byte_in 0 127 b"
  shows "utf8_Valid (a # s @ [b])"
  using utf8_Valid_append[OF utf8_Valid_ascii, of "[a]" "s @ [b]"] assms
  by (simp add: utf8_Valid_append utf8_Valid_ascii)

lemma utf8_Valid_marshal: "text_ok v \<Longrightarrow> utf8_Valid (marshal v)"
proof (induction v rule: marshal.induct)
  case (7 vs)
  then show ?case by (auto intro!: utf8_Valid_bracket utf8_Valid_comma_sep simp: list_all_iff byte_in_def)
next
  case (8 fs)
  have "utf8_Valid (quote_string n @ CHR '':'' # marshal v)" if "(n, v) \<in> set fs" for n v
  proof -
    have v: "utf8_Valid n" "utf8_Valid (marshal v)" using 8(1)[OF that refl] 8(2) that by (auto simp: list_all_iff)
    then have "utf8_Valid ('':'' @ marshal v)"
      using utf8_Valid_append[OF utf8_Valid_ascii, of "'':''"] by (simp add: byte_in_def)
    with v show ?thesis by (simp add: utf8_Valid_append utf8_Valid_quote_string)
  qed
  then show ?case by (auto intro!: utf8_Valid_bracket utf8_Valid_comma_sep simp: list_all_iff byte_in_def)
qed (auto simp: utf8_Valid_quote_string utf8_Valid_FormatInt byte_in_def intro!: utf8_Valid_ascii)

lemma marshal_nonempty [simp]: "marshal v \<noteq> []"
  by (rule marshal_head[of v]) simp

theorem decodeStrict_marshal:
  assumes "has_type t v" "text_ok v" "type_ok t" "type_depth t \<le> 32"
  shows "decodeStrict t (marshal v) = Some v"
  using assms
  by (simp add: decodeStrict_def utf8_Valid_marshal parse_json_marshal validateJSONValue_json_of
      validateRequiredJSON_json_of unmarshal_json_of)

section \<open>The fuel of the parser\<close>

lemma skip_ws_length: "length (skip_ws s) \<le> length s"
  by (simp add: skip_ws_def length_dropWhile_le)

lemma skip_ws_shorter: "skip_ws s = c # r \<Longrightarrow> length r < length s"
  using skip_ws_length[of s] by simp

lemma parse_string_shorter: "parse_string s = Some (x, r) \<Longrightarrow> length r < length s"
proof (induction s arbitrary: x r rule: parse_string.induct)
  case (1 s)
  show ?case
  proof (cases s)
    case Nil
    then show ?thesis using "1.prems" by (simp add: parse_string.simps)
  next
    case (Cons c cs)
    consider (quote) "c = CHR 0x22" | (esc) "c = CHR 0x5C" | (ctl) "c \<noteq> CHR 0x22" "c \<noteq> CHR 0x5C" "byte_in 0 31 c"
      | (bad) "c \<noteq> CHR 0x22" "c \<noteq> CHR 0x5C" "\<not> byte_in 0 31 c" "rune_size s = 0"
      | (rune) "c \<noteq> CHR 0x22" "c \<noteq> CHR 0x5C" "\<not> byte_in 0 31 c" "rune_size s \<noteq> 0" by blast
    then show ?thesis
    proof cases
      case quote
      then show ?thesis using "1.prems" Cons by (simp add: parse_string.simps)
    next
      case esc
      then have c22: "c \<noteq> CHR 0x22" by simp
      show ?thesis
      proof (cases cs)
        case Nil
        then show ?thesis using esc Cons "1.prems" by (simp add: parse_string.simps)
      next
        case cs: (Cons e t)
        show ?thesis
        proof (cases "e = CHR ''u''")
          case True
          then obtain u where u: "hex4 (take 4 t) = Some u"
            using esc Cons cs "1.prems" by (subst (asm) parse_string.simps) (auto split: option.splits)
          then obtain y where "parse_string (snd (unicode_escape u (drop 4 t))) = Some (y, r)"
            using True esc Cons cs "1.prems" by (auto simp: parse_string_u)
          from "1.IH"(1)[OF Cons c22 esc cs True u this] show ?thesis
            using unicode_escape_shorter[of u "drop 4 t"] Cons cs by simp
        next
          case False
          then obtain z where z: "simple_escape e = Some z"
            using esc Cons cs "1.prems" by (subst (asm) parse_string.simps) (auto split: option.splits)
          then obtain y where "parse_string t = Some (y, r)"
            using esc Cons cs "1.prems" by (auto simp: parse_string_simple)
          from "1.IH"(2)[OF Cons c22 esc cs False z this] show ?thesis using Cons cs by simp
        qed
      qed
    next
      case ctl
      then show ?thesis using "1.prems" Cons by (simp add: parse_string.simps)
    next
      case bad
      then obtain y where "parse_string cs = Some (y, r)" using "1.prems" Cons by (subst (asm) parse_string.simps) auto
      from "1.IH"(3)[OF Cons bad this] show ?thesis using Cons by simp
    next
      case rune
      then obtain y where "parse_string (drop (rune_size s) s) = Some (y, r)"
        using "1.prems" Cons by (subst (asm) parse_string.simps) auto
      from "1.IH"(4)[OF Cons rune this] show ?thesis using Cons by simp
    qed
  qed
qed

lemma parse_int_part_shorter: "parse_int_part s = Some (i, r) \<Longrightarrow> length r < length s"
proof (cases s)
  case (Cons c cs)
  have "length (dropWhile is_digit cs) \<le> length cs" by (rule length_dropWhile_le)
  then show "parse_int_part s = Some (i, r) \<Longrightarrow> ?thesis"
    using Cons by (auto simp: parse_int_part_def span_digits_def less_Suc_eq_le split: if_splits)
qed (simp add: parse_int_part_def)

lemma parse_number_shorter: "parse_number s = Some (x, r) \<Longrightarrow> length r < length s"
proof -
  assume p: "parse_number s = Some (x, r)"
  define sg where "sg = takeWhile (\<lambda>x. x = CHR ''-'') (take 1 s)"
  from p obtain i s1 f s2 e where i: "parse_int_part (drop (length sg) s) = Some (i, s1)"
    and f: "parse_frac s1 = Some (f, s2)" and e: "parse_exp s2 = Some (e, r)"
    by (auto simp: parse_number_def sg_def Let_def split: option.splits)
  have d: "length (dropWhile is_digit t) \<le> length t" for t by (rule length_dropWhile_le)
  have "length s1 < length (drop (length sg) s)" using i by (rule parse_int_part_shorter)
  moreover have "length s2 \<le> length s1"
    using f d by (auto simp: parse_frac_def span_digits_def le_SucI split: list.splits if_splits)
  moreover have "length r \<le> length s2"
  proof (cases s2)
    case Nil
    then show ?thesis using e by (simp add: parse_exp_def)
  next
    case (Cons c cs)
    have "length (dropWhile is_digit (drop n cs)) \<le> length cs" for n using d[of "drop n cs"] by simp
    then show ?thesis using e Cons by (auto simp: parse_exp_def span_digits_def Let_def le_SucI split: if_splits)
  qed
  ultimately show "length r < length s" by simp
qed

lemma parse_lit_shorter: "parse_lit w v s = Some (x, r) \<Longrightarrow> w \<noteq> [] \<Longrightarrow> length r < length s"
  by (cases s; cases w) (auto simp: parse_lit_def split: if_splits)

lemma parse_shorter:
  "parse_value n s = Some (j, r) \<Longrightarrow> length r < length s"
  "parse_members n s = Some (ms, r) \<Longrightarrow> length r < length s"
  "parse_elements n s = Some (es, r) \<Longrightarrow> length r < length s"
proof (induction n s and n s and n s arbitrary: j r and ms r and es r rule: parse_value_parse_members_parse_elements.induct)
  case (2 n s)
  obtain c t where c: "skip_ws s = c # t" using 2 by (auto split: list.splits)
  have ct: "length (c # t) \<le> length s" using skip_ws_length[of s] c by simp
  have "length r < length (c # t)"
  proof (cases "c = CHR ''{'' \<or> c = CHR ''[''")
    case True
    then obtain d u where d: "skip_ws t = d # u"
      using 2(3) c by (auto split: list.splits)
    have "r = u \<or> length r < length (d # u)"
      using True 2(1)[OF c _ d] 2(2)[OF c _ _ d] 2(3) c d by (auto split: if_splits)
    then show ?thesis using skip_ws_length[of t] d by auto
  next
    case False
    then show ?thesis
      using 2(3) c parse_string_shorter[of t _ r] parse_lit_shorter[of _ _ "c # t" _ r] parse_number_shorter[of "c # t" _ r]
      by (auto split: if_splits)
  qed
  with ct show ?case by simp
next
  case (4 n s)
  then obtain q t k u c t1 v t2 d t3 where
    "s = q # t" "q = CHR 0x22" "parse_string t = Some (k, u)" "skip_ws u = c # t1" "c = CHR '':''"
    "parse_value n t1 = Some (v, t2)" "skip_ws t2 = d # t3"
    "d = CHR ''}'' \<and> r = t3 \<or> d \<noteq> CHR ''}'' \<and> d = CHR '','' \<and> (\<exists>ms'. parse_members n (skip_ws t3) = Some (ms', r))"
    by (auto split: option.splits list.splits if_splits)
  note st = this
  have "length t2 < length t1" using 4(1)[OF st(1) _ st(3) refl st(4) _ st(6)] st(2,5) by simp
  then have t3: "length t3 < length s"
    using st(1) parse_string_shorter[OF st(3)] skip_ws_shorter[OF st(4)] skip_ws_shorter[OF st(7)] by simp
  show ?case using st(8) 4(2)[OF st(1) _ st(3) refl st(4) _ st(6) refl st(7)] st(2,5) skip_ws_length[of t3] t3 by fastforce
next
  case (6 n s)
  then obtain v t d t1 where v: "parse_value n s = Some (v, t)" "skip_ws t = d # t1"
    and d: "d = CHR '']'' \<and> r = t1 \<or> d \<noteq> CHR '']'' \<and> d = CHR '','' \<and> (\<exists>es'. parse_elements n (skip_ws t1) = Some (es', r))"
    by (auto split: option.splits list.splits if_splits)
  have "length t < length s" using 6(1)[OF v(1)] .
  then have t1: "length t1 < length s" using skip_ws_shorter[OF v(2)] by simp
  show ?case using d 6(2)[OF v(1) refl v(2)] skip_ws_length[of t1] t1 by fastforce
qed simp_all

lemma parse_fuel_step:
  "2 * length s + 1 \<le> n \<Longrightarrow> parse_value (Suc n) s = parse_value n s"
  "2 * length s + 1 \<le> n \<Longrightarrow> parse_members (Suc n) s = parse_members n s"
  "2 * length s + 2 \<le> n \<Longrightarrow> parse_elements (Suc n) s = parse_elements n s"
proof (induction n arbitrary: s)
  case (Suc n)
  { case 1
    show ?case
    proof (cases "skip_ws s")
      case (Cons c t)
      have m: "parse_members (Suc n) (d # u) = parse_members n (d # u)"
        and e: "parse_elements (Suc n) (d # u) = parse_elements n (d # u)" if "skip_ws t = d # u" for d u
      proof -
        have "length (d # u) < length s" using skip_ws_shorter[OF Cons] skip_ws_length[of t] that by simp
        then show "parse_members (Suc n) (d # u) = parse_members n (d # u)" "parse_elements (Suc n) (d # u) = parse_elements n (d # u)"
          using 1 by (intro Suc.IH; simp)+
      qed
      show ?thesis unfolding parse_value.simps(2)[of "Suc n" s] parse_value.simps(2)[of n s]
        using Cons m e by (auto split: list.splits simp del: parse_members.simps parse_elements.simps parse_value.simps)
    qed simp
  next
    case 2
    have v: "parse_value (Suc n) t1 = parse_value n t1"
      and m: "parse_value n t1 = Some (x, t2) \<Longrightarrow> skip_ws t2 = d # t3 \<Longrightarrow>
        parse_members (Suc n) (skip_ws t3) = parse_members n (skip_ws t3)"
      if "s = q # t" "parse_string t = Some (k, u)" "skip_ws u = c # t1" for q t k u c t1 x t2 d t3
    proof -
      have l: "length t1 < length s" using that(1) parse_string_shorter[OF that(2)] skip_ws_shorter[OF that(3)] by simp
      then show "parse_value (Suc n) t1 = parse_value n t1" using 2 by (intro Suc.IH) simp
      assume a: "parse_value n t1 = Some (x, t2)" "skip_ws t2 = d # t3"
      show "parse_members (Suc n) (skip_ws t3) = parse_members n (skip_ws t3)"
        using 2 l parse_shorter(1)[OF a(1)] skip_ws_shorter[OF a(2)] skip_ws_length[of t3] by (intro Suc.IH) simp
    qed
    show ?case unfolding parse_members.simps(2)[of "Suc n" s] parse_members.simps(2)[of n s]
      using v m by (auto split: list.splits option.splits simp del: parse_members.simps parse_elements.simps parse_value.simps)
  next
    case 3
    then have v: "parse_value (Suc n) s = parse_value n s" by (intro Suc.IH) simp
    have e: "parse_elements (Suc n) (skip_ws t1) = parse_elements n (skip_ws t1)"
      if "parse_value n s = Some (x, t)" "skip_ws t = d # t1" for x t d t1
      using 3 parse_shorter(1)[OF that(1)] skip_ws_shorter[OF that(2)] skip_ws_length[of t1]
      by (intro Suc.IH) simp
    show ?case unfolding parse_elements.simps(2)[of "Suc n" s] parse_elements.simps(2)[of n s]
      using v e by (auto split: list.splits option.splits simp del: parse_members.simps parse_elements.simps parse_value.simps)
  }
qed simp_all

lemma parse_value_fuel:
  assumes "2 * length s + 1 \<le> m" "m \<le> n"
  shows "parse_value n s = parse_value m s"
  using assms(2)
proof (induction rule: dec_induct)
  case (step k)
  then show ?case using parse_fuel_step(1)[of s k] assms(1) by (simp del: parse_value.simps)
qed simp

end
