(* ===== verification/Messages.thy ===== *)
theory Messages
  imports JsonLaws
begin

text \<open>
  The message types of \<^verbatim>\<open>store/models.go\<close>. Each Go struct is a \<open>record\<close> with the same fields in the same
  order; \<open>T_s\<close> is what \<^verbatim>\<open>reflect\<close> sees of the struct \<open>s\<close> (the JSON names of its tags), \<open>to_s\<close> the Go value
  the encoder walks and \<open>of_s\<close> the fields of a decoded value. A nil slice and an empty one are the same
  list; the places where the code tells them apart work on the Go value.

  The locale \<open>message_codec\<close> is what a message type promises to the handlers; it is interpreted for
  every type, so that a body written by \<^verbatim>\<open>marshalJSON\<close> is read back by \<^verbatim>\<open>decodeStrict\<close> and passes
  \<^verbatim>\<open>decodeStoredCanonical\<close>.
\<close>

section \<open>Reading fields\<close>

fun g_field :: "bytes \<Rightarrow> gval \<Rightarrow> gval" where
  "g_field n (GStruct fs) = get_field n fs"
| "g_field n _ = GPtr None"

fun g_string :: "gval \<Rightarrow> bytes" where
  "g_string (GString s) = s"
| "g_string _ = []"

fun g_bool :: "gval \<Rightarrow> bool" where
  "g_bool (GBool b) = b"
| "g_bool _ = False"

fun g_int :: "gval \<Rightarrow> int" where
  "g_int (GInt i) = i"
| "g_int _ = 0"

fun g_ptr :: "(gval \<Rightarrow> 'a) \<Rightarrow> gval \<Rightarrow> 'a option" where
  "g_ptr f (GPtr (Some v)) = Some (f v)"
| "g_ptr f _ = None"

fun g_slice :: "(gval \<Rightarrow> 'a) \<Rightarrow> gval \<Rightarrow> 'a list" where
  "g_slice f (GSlice (Some vs)) = map f vs"
| "g_slice f _ = []"

section \<open>The structs\<close>

record vectorEntry =
  ve_DeviceID :: bytes
  ve_Counter :: bytes

definition T_vectorEntry :: jtype where
  "T_vectorEntry = TStruct [
     (''device_id'', TString),
     (''counter'', TString)]"

definition to_vectorEntry :: "vectorEntry \<Rightarrow> gval" where
  "to_vectorEntry x = GStruct [
     (''device_id'', GString (ve_DeviceID x)),
     (''counter'', GString (ve_Counter x))]"

definition of_vectorEntry :: "gval \<Rightarrow> vectorEntry" where
  "of_vectorEntry g = \<lparr>
     ve_DeviceID = g_string (g_field ''device_id'' g),
     ve_Counter = g_string (g_field ''counter'' g)\<rparr>"

record recordRevision =
  rr_RecordID :: bytes
  rr_RevisionID :: bytes
  rr_AuthorDeviceID :: bytes
  rr_AuthorCounter :: bytes
  rr_VersionVector :: "vectorEntry list"
  rr_CollectionWitnessAuthenticator :: "bytes option"
  rr_PayloadSchema :: bytes
  rr_CryptoSuite :: bytes
  rr_Tombstone :: bool
  rr_Nonce :: bytes
  rr_Ciphertext :: bytes

definition T_recordRevision :: jtype where
  "T_recordRevision = TStruct [
     (''record_id'', TString),
     (''revision_id'', TString),
     (''author_device_id'', TString),
     (''author_counter'', TString),
     (''version_vector'', TSlice T_vectorEntry),
     (''collection_witness_authenticator'', TPtr TString),
     (''payload_schema'', TString),
     (''crypto_suite'', TString),
     (''tombstone'', TBool),
     (''nonce'', TString),
     (''ciphertext'', TString)]"

definition to_recordRevision :: "recordRevision \<Rightarrow> gval" where
  "to_recordRevision x = GStruct [
     (''record_id'', GString (rr_RecordID x)),
     (''revision_id'', GString (rr_RevisionID x)),
     (''author_device_id'', GString (rr_AuthorDeviceID x)),
     (''author_counter'', GString (rr_AuthorCounter x)),
     (''version_vector'', GSlice (Some (map to_vectorEntry (rr_VersionVector x)))),
     (''collection_witness_authenticator'', GPtr (map_option GString (rr_CollectionWitnessAuthenticator x))),
     (''payload_schema'', GString (rr_PayloadSchema x)),
     (''crypto_suite'', GString (rr_CryptoSuite x)),
     (''tombstone'', GBool (rr_Tombstone x)),
     (''nonce'', GString (rr_Nonce x)),
     (''ciphertext'', GString (rr_Ciphertext x))]"

definition of_recordRevision :: "gval \<Rightarrow> recordRevision" where
  "of_recordRevision g = \<lparr>
     rr_RecordID = g_string (g_field ''record_id'' g),
     rr_RevisionID = g_string (g_field ''revision_id'' g),
     rr_AuthorDeviceID = g_string (g_field ''author_device_id'' g),
     rr_AuthorCounter = g_string (g_field ''author_counter'' g),
     rr_VersionVector = g_slice of_vectorEntry (g_field ''version_vector'' g),
     rr_CollectionWitnessAuthenticator = g_ptr g_string (g_field ''collection_witness_authenticator'' g),
     rr_PayloadSchema = g_string (g_field ''payload_schema'' g),
     rr_CryptoSuite = g_string (g_field ''crypto_suite'' g),
     rr_Tombstone = g_bool (g_field ''tombstone'' g),
     rr_Nonce = g_string (g_field ''nonce'' g),
     rr_Ciphertext = g_string (g_field ''ciphertext'' g)\<rparr>"

record argon2Parameters =
  ap_Version :: int
  ap_Salt :: bytes
  ap_MemoryKiB :: int
  ap_Iterations :: int
  ap_Parallelism :: int
  ap_OutputLength :: int

definition T_argon2Parameters :: jtype where
  "T_argon2Parameters = TStruct [
     (''version'', TInt),
     (''salt'', TString),
     (''memory_kib'', TInt),
     (''iterations'', TInt),
     (''parallelism'', TInt),
     (''output_length'', TInt)]"

definition to_argon2Parameters :: "argon2Parameters \<Rightarrow> gval" where
  "to_argon2Parameters x = GStruct [
     (''version'', GInt (ap_Version x)),
     (''salt'', GString (ap_Salt x)),
     (''memory_kib'', GInt (ap_MemoryKiB x)),
     (''iterations'', GInt (ap_Iterations x)),
     (''parallelism'', GInt (ap_Parallelism x)),
     (''output_length'', GInt (ap_OutputLength x))]"

definition of_argon2Parameters :: "gval \<Rightarrow> argon2Parameters" where
  "of_argon2Parameters g = \<lparr>
     ap_Version = g_int (g_field ''version'' g),
     ap_Salt = g_string (g_field ''salt'' g),
     ap_MemoryKiB = g_int (g_field ''memory_kib'' g),
     ap_Iterations = g_int (g_field ''iterations'' g),
     ap_Parallelism = g_int (g_field ''parallelism'' g),
     ap_OutputLength = g_int (g_field ''output_length'' g)\<rparr>"

record vaultEnvelope =
  env_ProtocolVersion :: bytes
  env_CryptoSuite :: bytes
  env_InstanceID :: bytes
  env_VaultID :: bytes
  env_EnvelopeGeneration :: bytes
  env_InstanceSecretGeneration :: bytes
  env_Mode :: bytes
  env_HKDFSalt :: bytes
  env_Argon2 :: "argon2Parameters option"
  env_Nonce :: bytes
  env_WrappedVMK :: bytes

definition T_vaultEnvelope :: jtype where
  "T_vaultEnvelope = TStruct [
     (''protocol_version'', TString),
     (''crypto_suite'', TString),
     (''instance_id'', TString),
     (''vault_id'', TString),
     (''envelope_generation'', TString),
     (''instance_secret_generation'', TString),
     (''mode'', TString),
     (''hkdf_salt'', TString),
     (''argon2'', TPtr T_argon2Parameters),
     (''nonce'', TString),
     (''wrapped_vmk'', TString)]"

definition to_vaultEnvelope :: "vaultEnvelope \<Rightarrow> gval" where
  "to_vaultEnvelope x = GStruct [
     (''protocol_version'', GString (env_ProtocolVersion x)),
     (''crypto_suite'', GString (env_CryptoSuite x)),
     (''instance_id'', GString (env_InstanceID x)),
     (''vault_id'', GString (env_VaultID x)),
     (''envelope_generation'', GString (env_EnvelopeGeneration x)),
     (''instance_secret_generation'', GString (env_InstanceSecretGeneration x)),
     (''mode'', GString (env_Mode x)),
     (''hkdf_salt'', GString (env_HKDFSalt x)),
     (''argon2'', GPtr (map_option to_argon2Parameters (env_Argon2 x))),
     (''nonce'', GString (env_Nonce x)),
     (''wrapped_vmk'', GString (env_WrappedVMK x))]"

definition of_vaultEnvelope :: "gval \<Rightarrow> vaultEnvelope" where
  "of_vaultEnvelope g = \<lparr>
     env_ProtocolVersion = g_string (g_field ''protocol_version'' g),
     env_CryptoSuite = g_string (g_field ''crypto_suite'' g),
     env_InstanceID = g_string (g_field ''instance_id'' g),
     env_VaultID = g_string (g_field ''vault_id'' g),
     env_EnvelopeGeneration = g_string (g_field ''envelope_generation'' g),
     env_InstanceSecretGeneration = g_string (g_field ''instance_secret_generation'' g),
     env_Mode = g_string (g_field ''mode'' g),
     env_HKDFSalt = g_string (g_field ''hkdf_salt'' g),
     env_Argon2 = g_ptr of_argon2Parameters (g_field ''argon2'' g),
     env_Nonce = g_string (g_field ''nonce'' g),
     env_WrappedVMK = g_string (g_field ''wrapped_vmk'' g)\<rparr>"

record device =
  dv_DeviceID :: bytes
  dv_Scopes :: "bytes list"
  dv_Status :: bytes
  dv_CreatedAt :: bytes
  dv_RevokedAt :: "bytes option"
  dv_LastSyncAt :: "bytes option"
  dv_AckCursor :: bytes
  dv_MaxAuthorCounter :: bytes

definition T_device :: jtype where
  "T_device = TStruct [
     (''device_id'', TString),
     (''scopes'', TSlice TString),
     (''status'', TString),
     (''created_at'', TString),
     (''revoked_at'', TPtr TString),
     (''last_sync_at'', TPtr TString),
     (''ack_cursor'', TString),
     (''max_author_counter'', TString)]"

definition to_device :: "device \<Rightarrow> gval" where
  "to_device x = GStruct [
     (''device_id'', GString (dv_DeviceID x)),
     (''scopes'', GSlice (Some (map GString (dv_Scopes x)))),
     (''status'', GString (dv_Status x)),
     (''created_at'', GString (dv_CreatedAt x)),
     (''revoked_at'', GPtr (map_option GString (dv_RevokedAt x))),
     (''last_sync_at'', GPtr (map_option GString (dv_LastSyncAt x))),
     (''ack_cursor'', GString (dv_AckCursor x)),
     (''max_author_counter'', GString (dv_MaxAuthorCounter x))]"

definition of_device :: "gval \<Rightarrow> device" where
  "of_device g = \<lparr>
     dv_DeviceID = g_string (g_field ''device_id'' g),
     dv_Scopes = g_slice g_string (g_field ''scopes'' g),
     dv_Status = g_string (g_field ''status'' g),
     dv_CreatedAt = g_string (g_field ''created_at'' g),
     dv_RevokedAt = g_ptr g_string (g_field ''revoked_at'' g),
     dv_LastSyncAt = g_ptr g_string (g_field ''last_sync_at'' g),
     dv_AckCursor = g_string (g_field ''ack_cursor'' g),
     dv_MaxAuthorCounter = g_string (g_field ''max_author_counter'' g)\<rparr>"

record collectionMarker =
  cm_RecordID :: bytes
  cm_WitnessRevisionID :: bytes
  cm_Frontier :: "vectorEntry list"
  cm_CollectionWitnessAuthenticator :: bytes
  cm_BarrierCursor :: bytes

definition T_collectionMarker :: jtype where
  "T_collectionMarker = TStruct [
     (''record_id'', TString),
     (''witness_revision_id'', TString),
     (''frontier'', TSlice T_vectorEntry),
     (''collection_witness_authenticator'', TString),
     (''barrier_cursor'', TString)]"

definition to_collectionMarker :: "collectionMarker \<Rightarrow> gval" where
  "to_collectionMarker x = GStruct [
     (''record_id'', GString (cm_RecordID x)),
     (''witness_revision_id'', GString (cm_WitnessRevisionID x)),
     (''frontier'', GSlice (Some (map to_vectorEntry (cm_Frontier x)))),
     (''collection_witness_authenticator'', GString (cm_CollectionWitnessAuthenticator x)),
     (''barrier_cursor'', GString (cm_BarrierCursor x))]"

definition of_collectionMarker :: "gval \<Rightarrow> collectionMarker" where
  "of_collectionMarker g = \<lparr>
     cm_RecordID = g_string (g_field ''record_id'' g),
     cm_WitnessRevisionID = g_string (g_field ''witness_revision_id'' g),
     cm_Frontier = g_slice of_vectorEntry (g_field ''frontier'' g),
     cm_CollectionWitnessAuthenticator = g_string (g_field ''collection_witness_authenticator'' g),
     cm_BarrierCursor = g_string (g_field ''barrier_cursor'' g)\<rparr>"

record change =
  ch_Cursor :: bytes
  ch_Kind :: bytes
  ch_ReceivedAt :: bytes
  ch_RecordRevision :: "recordRevision option"
  ch_CollectionMarker :: "collectionMarker option"

definition T_change :: jtype where
  "T_change = TStruct [
     (''cursor'', TString),
     (''kind'', TString),
     (''received_at'', TString),
     (''record_revision'', TPtr T_recordRevision),
     (''collection_marker'', TPtr T_collectionMarker)]"

definition to_change :: "change \<Rightarrow> gval" where
  "to_change x = GStruct [
     (''cursor'', GString (ch_Cursor x)),
     (''kind'', GString (ch_Kind x)),
     (''received_at'', GString (ch_ReceivedAt x)),
     (''record_revision'', GPtr (map_option to_recordRevision (ch_RecordRevision x))),
     (''collection_marker'', GPtr (map_option to_collectionMarker (ch_CollectionMarker x)))]"

definition of_change :: "gval \<Rightarrow> change" where
  "of_change g = \<lparr>
     ch_Cursor = g_string (g_field ''cursor'' g),
     ch_Kind = g_string (g_field ''kind'' g),
     ch_ReceivedAt = g_string (g_field ''received_at'' g),
     ch_RecordRevision = g_ptr of_recordRevision (g_field ''record_revision'' g),
     ch_CollectionMarker = g_ptr of_collectionMarker (g_field ''collection_marker'' g)\<rparr>"

record enrollmentRequest =
  erq_ProtocolVersion :: bytes
  erq_EnrollmentID :: bytes
  erq_DeviceID :: bytes
  erq_DeviceToken :: bytes
  erq_Scopes :: "bytes list"

definition T_enrollmentRequest :: jtype where
  "T_enrollmentRequest = TStruct [
     (''protocol_version'', TString),
     (''enrollment_id'', TString),
     (''device_id'', TString),
     (''device_token'', TString),
     (''scopes'', TSlice TString)]"

definition to_enrollmentRequest :: "enrollmentRequest \<Rightarrow> gval" where
  "to_enrollmentRequest x = GStruct [
     (''protocol_version'', GString (erq_ProtocolVersion x)),
     (''enrollment_id'', GString (erq_EnrollmentID x)),
     (''device_id'', GString (erq_DeviceID x)),
     (''device_token'', GString (erq_DeviceToken x)),
     (''scopes'', GSlice (Some (map GString (erq_Scopes x))))]"

definition of_enrollmentRequest :: "gval \<Rightarrow> enrollmentRequest" where
  "of_enrollmentRequest g = \<lparr>
     erq_ProtocolVersion = g_string (g_field ''protocol_version'' g),
     erq_EnrollmentID = g_string (g_field ''enrollment_id'' g),
     erq_DeviceID = g_string (g_field ''device_id'' g),
     erq_DeviceToken = g_string (g_field ''device_token'' g),
     erq_Scopes = g_slice g_string (g_field ''scopes'' g)\<rparr>"

record enrollmentResponse =
  ers_ProtocolVersion :: bytes
  ers_InstanceID :: bytes
  ers_VaultID :: bytes
  ers_Device :: device
  ers_EnvelopeGeneration :: bytes
  ers_BecameFirstActiveDevice :: bool

definition T_enrollmentResponse :: jtype where
  "T_enrollmentResponse = TStruct [
     (''protocol_version'', TString),
     (''instance_id'', TString),
     (''vault_id'', TString),
     (''device'', T_device),
     (''envelope_generation'', TString),
     (''became_first_active_device'', TBool)]"

definition to_enrollmentResponse :: "enrollmentResponse \<Rightarrow> gval" where
  "to_enrollmentResponse x = GStruct [
     (''protocol_version'', GString (ers_ProtocolVersion x)),
     (''instance_id'', GString (ers_InstanceID x)),
     (''vault_id'', GString (ers_VaultID x)),
     (''device'', to_device (ers_Device x)),
     (''envelope_generation'', GString (ers_EnvelopeGeneration x)),
     (''became_first_active_device'', GBool (ers_BecameFirstActiveDevice x))]"

definition of_enrollmentResponse :: "gval \<Rightarrow> enrollmentResponse" where
  "of_enrollmentResponse g = \<lparr>
     ers_ProtocolVersion = g_string (g_field ''protocol_version'' g),
     ers_InstanceID = g_string (g_field ''instance_id'' g),
     ers_VaultID = g_string (g_field ''vault_id'' g),
     ers_Device = of_device (g_field ''device'' g),
     ers_EnvelopeGeneration = g_string (g_field ''envelope_generation'' g),
     ers_BecameFirstActiveDevice = g_bool (g_field ''became_first_active_device'' g)\<rparr>"

record putEnvelopeRequest =
  peq_ExpectedGeneration :: bytes
  peq_NewGeneration :: bytes
  peq_Envelope :: vaultEnvelope

definition T_putEnvelopeRequest :: jtype where
  "T_putEnvelopeRequest = TStruct [
     (''expected_generation'', TString),
     (''new_generation'', TString),
     (''envelope'', T_vaultEnvelope)]"

definition to_putEnvelopeRequest :: "putEnvelopeRequest \<Rightarrow> gval" where
  "to_putEnvelopeRequest x = GStruct [
     (''expected_generation'', GString (peq_ExpectedGeneration x)),
     (''new_generation'', GString (peq_NewGeneration x)),
     (''envelope'', to_vaultEnvelope (peq_Envelope x))]"

definition of_putEnvelopeRequest :: "gval \<Rightarrow> putEnvelopeRequest" where
  "of_putEnvelopeRequest g = \<lparr>
     peq_ExpectedGeneration = g_string (g_field ''expected_generation'' g),
     peq_NewGeneration = g_string (g_field ''new_generation'' g),
     peq_Envelope = of_vaultEnvelope (g_field ''envelope'' g)\<rparr>"

record syncRequest =
  syq_ProtocolVersion :: bytes
  syq_DeviceID :: bytes
  syq_RequestID :: bytes
  syq_AfterCursor :: bytes
  syq_AckCursor :: bytes
  syq_Mutations :: "recordRevision list"

definition T_syncRequest :: jtype where
  "T_syncRequest = TStruct [
     (''protocol_version'', TString),
     (''device_id'', TString),
     (''request_id'', TString),
     (''after_cursor'', TString),
     (''ack_cursor'', TString),
     (''mutations'', TSlice T_recordRevision)]"

definition to_syncRequest :: "syncRequest \<Rightarrow> gval" where
  "to_syncRequest x = GStruct [
     (''protocol_version'', GString (syq_ProtocolVersion x)),
     (''device_id'', GString (syq_DeviceID x)),
     (''request_id'', GString (syq_RequestID x)),
     (''after_cursor'', GString (syq_AfterCursor x)),
     (''ack_cursor'', GString (syq_AckCursor x)),
     (''mutations'', GSlice (Some (map to_recordRevision (syq_Mutations x))))]"

definition of_syncRequest :: "gval \<Rightarrow> syncRequest" where
  "of_syncRequest g = \<lparr>
     syq_ProtocolVersion = g_string (g_field ''protocol_version'' g),
     syq_DeviceID = g_string (g_field ''device_id'' g),
     syq_RequestID = g_string (g_field ''request_id'' g),
     syq_AfterCursor = g_string (g_field ''after_cursor'' g),
     syq_AckCursor = g_string (g_field ''ack_cursor'' g),
     syq_Mutations = g_slice of_recordRevision (g_field ''mutations'' g)\<rparr>"

record syncResponse =
  sys_ProtocolVersion :: bytes
  sys_ServerCursor :: bytes
  sys_NextCursor :: bytes
  sys_HasMore :: bool
  sys_EnvelopeGeneration :: bytes
  sys_Changes :: "change list"

definition T_syncResponse :: jtype where
  "T_syncResponse = TStruct [
     (''protocol_version'', TString),
     (''server_cursor'', TString),
     (''next_cursor'', TString),
     (''has_more'', TBool),
     (''envelope_generation'', TString),
     (''changes'', TSlice T_change)]"

definition to_syncResponse :: "syncResponse \<Rightarrow> gval" where
  "to_syncResponse x = GStruct [
     (''protocol_version'', GString (sys_ProtocolVersion x)),
     (''server_cursor'', GString (sys_ServerCursor x)),
     (''next_cursor'', GString (sys_NextCursor x)),
     (''has_more'', GBool (sys_HasMore x)),
     (''envelope_generation'', GString (sys_EnvelopeGeneration x)),
     (''changes'', GSlice (Some (map to_change (sys_Changes x))))]"

definition of_syncResponse :: "gval \<Rightarrow> syncResponse" where
  "of_syncResponse g = \<lparr>
     sys_ProtocolVersion = g_string (g_field ''protocol_version'' g),
     sys_ServerCursor = g_string (g_field ''server_cursor'' g),
     sys_NextCursor = g_string (g_field ''next_cursor'' g),
     sys_HasMore = g_bool (g_field ''has_more'' g),
     sys_EnvelopeGeneration = g_string (g_field ''envelope_generation'' g),
     sys_Changes = g_slice of_change (g_field ''changes'' g)\<rparr>"

record snapshotCreateRequest =
  scq_ProtocolVersion :: bytes
  scq_DeviceID :: bytes
  scq_RequestID :: bytes
  scq_RequiredCapabilities :: "bytes list"

definition T_snapshotCreateRequest :: jtype where
  "T_snapshotCreateRequest = TStruct [
     (''protocol_version'', TString),
     (''device_id'', TString),
     (''request_id'', TString),
     (''required_capabilities'', TSlice TString)]"

definition to_snapshotCreateRequest :: "snapshotCreateRequest \<Rightarrow> gval" where
  "to_snapshotCreateRequest x = GStruct [
     (''protocol_version'', GString (scq_ProtocolVersion x)),
     (''device_id'', GString (scq_DeviceID x)),
     (''request_id'', GString (scq_RequestID x)),
     (''required_capabilities'', GSlice (Some (map GString (scq_RequiredCapabilities x))))]"

definition of_snapshotCreateRequest :: "gval \<Rightarrow> snapshotCreateRequest" where
  "of_snapshotCreateRequest g = \<lparr>
     scq_ProtocolVersion = g_string (g_field ''protocol_version'' g),
     scq_DeviceID = g_string (g_field ''device_id'' g),
     scq_RequestID = g_string (g_field ''request_id'' g),
     scq_RequiredCapabilities = g_slice g_string (g_field ''required_capabilities'' g)\<rparr>"

record snapshotCreateResponse =
  scs_ProtocolVersion :: bytes
  scs_SnapshotID :: bytes
  scs_CutCursor :: bytes
  scs_EnvelopeGeneration :: bytes
  scs_Envelope :: vaultEnvelope
  scs_ExpiresAt :: bytes
  scs_FirstPageToken :: bytes

definition T_snapshotCreateResponse :: jtype where
  "T_snapshotCreateResponse = TStruct [
     (''protocol_version'', TString),
     (''snapshot_id'', TString),
     (''cut_cursor'', TString),
     (''envelope_generation'', TString),
     (''envelope'', T_vaultEnvelope),
     (''expires_at'', TString),
     (''first_page_token'', TString)]"

definition to_snapshotCreateResponse :: "snapshotCreateResponse \<Rightarrow> gval" where
  "to_snapshotCreateResponse x = GStruct [
     (''protocol_version'', GString (scs_ProtocolVersion x)),
     (''snapshot_id'', GString (scs_SnapshotID x)),
     (''cut_cursor'', GString (scs_CutCursor x)),
     (''envelope_generation'', GString (scs_EnvelopeGeneration x)),
     (''envelope'', to_vaultEnvelope (scs_Envelope x)),
     (''expires_at'', GString (scs_ExpiresAt x)),
     (''first_page_token'', GString (scs_FirstPageToken x))]"

definition of_snapshotCreateResponse :: "gval \<Rightarrow> snapshotCreateResponse" where
  "of_snapshotCreateResponse g = \<lparr>
     scs_ProtocolVersion = g_string (g_field ''protocol_version'' g),
     scs_SnapshotID = g_string (g_field ''snapshot_id'' g),
     scs_CutCursor = g_string (g_field ''cut_cursor'' g),
     scs_EnvelopeGeneration = g_string (g_field ''envelope_generation'' g),
     scs_Envelope = of_vaultEnvelope (g_field ''envelope'' g),
     scs_ExpiresAt = g_string (g_field ''expires_at'' g),
     scs_FirstPageToken = g_string (g_field ''first_page_token'' g)\<rparr>"

record snapshotPageRequest =
  spq_ProtocolVersion :: bytes
  spq_DeviceID :: bytes
  spq_PageToken :: bytes

definition T_snapshotPageRequest :: jtype where
  "T_snapshotPageRequest = TStruct [
     (''protocol_version'', TString),
     (''device_id'', TString),
     (''page_token'', TString)]"

definition to_snapshotPageRequest :: "snapshotPageRequest \<Rightarrow> gval" where
  "to_snapshotPageRequest x = GStruct [
     (''protocol_version'', GString (spq_ProtocolVersion x)),
     (''device_id'', GString (spq_DeviceID x)),
     (''page_token'', GString (spq_PageToken x))]"

definition of_snapshotPageRequest :: "gval \<Rightarrow> snapshotPageRequest" where
  "of_snapshotPageRequest g = \<lparr>
     spq_ProtocolVersion = g_string (g_field ''protocol_version'' g),
     spq_DeviceID = g_string (g_field ''device_id'' g),
     spq_PageToken = g_string (g_field ''page_token'' g)\<rparr>"

record sourceDevice =
  sd_DeviceID :: bytes
  sd_MaxAuthorCounter :: bytes

definition T_sourceDevice :: jtype where
  "T_sourceDevice = TStruct [
     (''device_id'', TString),
     (''max_author_counter'', TString)]"

definition to_sourceDevice :: "sourceDevice \<Rightarrow> gval" where
  "to_sourceDevice x = GStruct [
     (''device_id'', GString (sd_DeviceID x)),
     (''max_author_counter'', GString (sd_MaxAuthorCounter x))]"

definition of_sourceDevice :: "gval \<Rightarrow> sourceDevice" where
  "of_sourceDevice g = \<lparr>
     sd_DeviceID = g_string (g_field ''device_id'' g),
     sd_MaxAuthorCounter = g_string (g_field ''max_author_counter'' g)\<rparr>"

record snapshotPageResponse =
  sps_ProtocolVersion :: bytes
  sps_SnapshotID :: bytes
  sps_CutCursor :: bytes
  sps_EnvelopeGeneration :: bytes
  sps_Revisions :: "recordRevision list"
  sps_CollectionMarkers :: "collectionMarker list"
  sps_SourceDevices :: "sourceDevice list"
  sps_NextPageToken :: "bytes option"
  sps_HasMore :: bool

definition T_snapshotPageResponse :: jtype where
  "T_snapshotPageResponse = TStruct [
     (''protocol_version'', TString),
     (''snapshot_id'', TString),
     (''cut_cursor'', TString),
     (''envelope_generation'', TString),
     (''revisions'', TSlice T_recordRevision),
     (''collection_markers'', TSlice T_collectionMarker),
     (''source_devices'', TSlice T_sourceDevice),
     (''next_page_token'', TPtr TString),
     (''has_more'', TBool)]"

definition to_snapshotPageResponse :: "snapshotPageResponse \<Rightarrow> gval" where
  "to_snapshotPageResponse x = GStruct [
     (''protocol_version'', GString (sps_ProtocolVersion x)),
     (''snapshot_id'', GString (sps_SnapshotID x)),
     (''cut_cursor'', GString (sps_CutCursor x)),
     (''envelope_generation'', GString (sps_EnvelopeGeneration x)),
     (''revisions'', GSlice (Some (map to_recordRevision (sps_Revisions x)))),
     (''collection_markers'', GSlice (Some (map to_collectionMarker (sps_CollectionMarkers x)))),
     (''source_devices'', GSlice (Some (map to_sourceDevice (sps_SourceDevices x)))),
     (''next_page_token'', GPtr (map_option GString (sps_NextPageToken x))),
     (''has_more'', GBool (sps_HasMore x))]"

definition of_snapshotPageResponse :: "gval \<Rightarrow> snapshotPageResponse" where
  "of_snapshotPageResponse g = \<lparr>
     sps_ProtocolVersion = g_string (g_field ''protocol_version'' g),
     sps_SnapshotID = g_string (g_field ''snapshot_id'' g),
     sps_CutCursor = g_string (g_field ''cut_cursor'' g),
     sps_EnvelopeGeneration = g_string (g_field ''envelope_generation'' g),
     sps_Revisions = g_slice of_recordRevision (g_field ''revisions'' g),
     sps_CollectionMarkers = g_slice of_collectionMarker (g_field ''collection_markers'' g),
     sps_SourceDevices = g_slice of_sourceDevice (g_field ''source_devices'' g),
     sps_NextPageToken = g_ptr g_string (g_field ''next_page_token'' g),
     sps_HasMore = g_bool (g_field ''has_more'' g)\<rparr>"

record revokeDeviceRequest =
  rdq_RequestID :: bytes
  rdq_AllowZeroActive :: bool

definition T_revokeDeviceRequest :: jtype where
  "T_revokeDeviceRequest = TStruct [
     (''request_id'', TString),
     (''allow_zero_active'', TBool)]"

definition to_revokeDeviceRequest :: "revokeDeviceRequest \<Rightarrow> gval" where
  "to_revokeDeviceRequest x = GStruct [
     (''request_id'', GString (rdq_RequestID x)),
     (''allow_zero_active'', GBool (rdq_AllowZeroActive x))]"

definition of_revokeDeviceRequest :: "gval \<Rightarrow> revokeDeviceRequest" where
  "of_revokeDeviceRequest g = \<lparr>
     rdq_RequestID = g_string (g_field ''request_id'' g),
     rdq_AllowZeroActive = g_bool (g_field ''allow_zero_active'' g)\<rparr>"

record tokenRotationRequest =
  trq_RotationID :: bytes
  trq_DeviceID :: bytes
  trq_NewDeviceToken :: bytes

definition T_tokenRotationRequest :: jtype where
  "T_tokenRotationRequest = TStruct [
     (''rotation_id'', TString),
     (''device_id'', TString),
     (''new_device_token'', TString)]"

definition to_tokenRotationRequest :: "tokenRotationRequest \<Rightarrow> gval" where
  "to_tokenRotationRequest x = GStruct [
     (''rotation_id'', GString (trq_RotationID x)),
     (''device_id'', GString (trq_DeviceID x)),
     (''new_device_token'', GString (trq_NewDeviceToken x))]"

definition of_tokenRotationRequest :: "gval \<Rightarrow> tokenRotationRequest" where
  "of_tokenRotationRequest g = \<lparr>
     trq_RotationID = g_string (g_field ''rotation_id'' g),
     trq_DeviceID = g_string (g_field ''device_id'' g),
     trq_NewDeviceToken = g_string (g_field ''new_device_token'' g)\<rparr>"

section \<open>What a message type promises\<close>

lemmas type_rules = utf8_Valid_ascii byte_in_def

lemma g_ptr_map [simp]: "(\<And>x. get (put x) = x) \<Longrightarrow> g_ptr get (GPtr (map_option put p)) = p"
  by (cases p) simp_all

lemma has_type_ptr [simp]: "has_type (TPtr t) (GPtr (map_option put p)) = (case p of None \<Rightarrow> True | Some x \<Rightarrow> has_type t (put x))"
  by (cases p) simp_all

lemma map_get_put [simp]: "(\<And>x. get (put x) = x) \<Longrightarrow> map (get \<circ> put) xs = xs"
  by (induction xs) simp_all

locale message_codec =
  fixes T :: jtype and put :: "'a \<Rightarrow> gval" and get :: "gval \<Rightarrow> 'a" and bounded :: "'a \<Rightarrow> bool"
  assumes get_put: "get (put x) = x"
    and typed: "bounded x \<Longrightarrow> has_type T (put x)"
    and shape: "type_ok T" "type_depth T \<le> 32"
begin

lemma decode_encode:
  "bounded x \<Longrightarrow> text_ok (put x) \<Longrightarrow> decodeStrict T (marshal (put x)) = Some (put x)"
  by (intro decodeStrict_marshal typed shape)

lemma stored_canonical:
  "bounded x \<Longrightarrow> text_ok (put x) \<Longrightarrow> length (marshal (put x)) \<le> maxBodyBytes \<Longrightarrow>
     decodeStoredCanonical T (marshal (put x)) = Some (put x)"
  using decode_encode[of x] by (simp add: decodeStoredCanonical_def marshalJSON_def)

lemma encode_inj: "text_ok (put x) \<Longrightarrow> text_ok (put y) \<Longrightarrow> bounded x \<Longrightarrow> bounded y \<Longrightarrow>
    marshal (put x) = marshal (put y) \<longleftrightarrow> x = y"
  by (metis decode_encode get_put option.inject)

end

definition int64 :: "int \<Rightarrow> bool" where
  "int64 i \<longleftrightarrow> - (2 ^ 63) \<le> i \<and> i < 2 ^ 63"

definition argon2_bounded :: "argon2Parameters \<Rightarrow> bool" where
  "argon2_bounded a \<longleftrightarrow> int64 (ap_Version a) \<and> int64 (ap_MemoryKiB a) \<and> int64 (ap_Iterations a)
     \<and> int64 (ap_Parallelism a) \<and> int64 (ap_OutputLength a)"

definition envelope_bounded :: "vaultEnvelope \<Rightarrow> bool" where
  "envelope_bounded e \<longleftrightarrow> (case env_Argon2 e of None \<Rightarrow> True | Some a \<Rightarrow> argon2_bounded a)"

interpretation vectorEntry_codec: message_codec T_vectorEntry to_vectorEntry of_vectorEntry "(\<lambda>_. True)"
proof
  show "of_vectorEntry (to_vectorEntry x) = x" for x
    by (simp add: of_vectorEntry_def to_vectorEntry_def get_field_def)
  show "has_type T_vectorEntry (to_vectorEntry x)" if "((\<lambda>_. True)) x" for x
    using that by (simp add: T_vectorEntry_def to_vectorEntry_def list_all_iff split: option.splits)
  show "type_ok T_vectorEntry"
    by (simp add: T_vectorEntry_def type_rules)
  show "type_depth T_vectorEntry \<le> 32"
    by (simp add: T_vectorEntry_def)
qed

interpretation recordRevision_codec: message_codec T_recordRevision to_recordRevision of_recordRevision "(\<lambda>_. True)"
proof
  show "of_recordRevision (to_recordRevision x) = x" for x
    by (simp add: of_recordRevision_def to_recordRevision_def get_field_def vectorEntry_codec.get_put)
  show "has_type T_recordRevision (to_recordRevision x)" if "((\<lambda>_. True)) x" for x
    using that by (simp add: T_recordRevision_def to_recordRevision_def vectorEntry_codec.typed vectorEntry_codec.shape list_all_iff split: option.splits)
  show "type_ok T_recordRevision"
    by (simp add: T_recordRevision_def type_rules vectorEntry_codec.shape(1))
  show "type_depth T_recordRevision \<le> 32"
    by (simp add: T_recordRevision_def T_vectorEntry_def)
qed

interpretation argon2Parameters_codec: message_codec T_argon2Parameters to_argon2Parameters of_argon2Parameters "argon2_bounded"
proof
  show "of_argon2Parameters (to_argon2Parameters x) = x" for x
    by (simp add: of_argon2Parameters_def to_argon2Parameters_def get_field_def)
  show "has_type T_argon2Parameters (to_argon2Parameters x)" if "(argon2_bounded) x" for x
    using that by (simp add: T_argon2Parameters_def to_argon2Parameters_def argon2_bounded_def int64_def list_all_iff split: option.splits)
  show "type_ok T_argon2Parameters"
    by (simp add: T_argon2Parameters_def type_rules)
  show "type_depth T_argon2Parameters \<le> 32"
    by (simp add: T_argon2Parameters_def)
qed

interpretation vaultEnvelope_codec: message_codec T_vaultEnvelope to_vaultEnvelope of_vaultEnvelope "envelope_bounded"
proof
  show "of_vaultEnvelope (to_vaultEnvelope x) = x" for x
    by (simp add: of_vaultEnvelope_def to_vaultEnvelope_def get_field_def argon2Parameters_codec.get_put)
  show "has_type T_vaultEnvelope (to_vaultEnvelope x)" if "(envelope_bounded) x" for x
    using that by (simp add: T_vaultEnvelope_def to_vaultEnvelope_def envelope_bounded_def argon2Parameters_codec.typed argon2Parameters_codec.shape list_all_iff split: option.splits)
  show "type_ok T_vaultEnvelope"
    by (simp add: T_vaultEnvelope_def type_rules argon2Parameters_codec.shape(1), simp add: T_argon2Parameters_def)
  show "type_depth T_vaultEnvelope \<le> 32"
    by (simp add: T_vaultEnvelope_def T_argon2Parameters_def)
qed

interpretation device_codec: message_codec T_device to_device of_device "(\<lambda>_. True)"
proof
  show "of_device (to_device x) = x" for x
    by (simp add: of_device_def to_device_def get_field_def)
  show "has_type T_device (to_device x)" if "((\<lambda>_. True)) x" for x
    using that by (simp add: T_device_def to_device_def list_all_iff split: option.splits)
  show "type_ok T_device"
    by (simp add: T_device_def type_rules)
  show "type_depth T_device \<le> 32"
    by (simp add: T_device_def)
qed

interpretation collectionMarker_codec: message_codec T_collectionMarker to_collectionMarker of_collectionMarker "(\<lambda>_. True)"
proof
  show "of_collectionMarker (to_collectionMarker x) = x" for x
    by (simp add: of_collectionMarker_def to_collectionMarker_def get_field_def vectorEntry_codec.get_put)
  show "has_type T_collectionMarker (to_collectionMarker x)" if "((\<lambda>_. True)) x" for x
    using that by (simp add: T_collectionMarker_def to_collectionMarker_def vectorEntry_codec.typed vectorEntry_codec.shape list_all_iff split: option.splits)
  show "type_ok T_collectionMarker"
    by (simp add: T_collectionMarker_def type_rules vectorEntry_codec.shape(1))
  show "type_depth T_collectionMarker \<le> 32"
    by (simp add: T_collectionMarker_def T_vectorEntry_def)
qed

interpretation change_codec: message_codec T_change to_change of_change "(\<lambda>_. True)"
proof
  show "of_change (to_change x) = x" for x
    by (simp add: of_change_def to_change_def get_field_def recordRevision_codec.get_put collectionMarker_codec.get_put)
  show "has_type T_change (to_change x)" if "((\<lambda>_. True)) x" for x
    using that by (simp add: T_change_def to_change_def recordRevision_codec.typed recordRevision_codec.shape collectionMarker_codec.typed collectionMarker_codec.shape list_all_iff split: option.splits)
  show "type_ok T_change"
    by (simp add: T_change_def type_rules recordRevision_codec.shape(1) collectionMarker_codec.shape(1),
        simp add: T_recordRevision_def T_collectionMarker_def)
  show "type_depth T_change \<le> 32"
    by (simp add: T_change_def T_recordRevision_def T_vectorEntry_def T_collectionMarker_def)
qed

interpretation enrollmentRequest_codec: message_codec T_enrollmentRequest to_enrollmentRequest of_enrollmentRequest "(\<lambda>_. True)"
proof
  show "of_enrollmentRequest (to_enrollmentRequest x) = x" for x
    by (simp add: of_enrollmentRequest_def to_enrollmentRequest_def get_field_def)
  show "has_type T_enrollmentRequest (to_enrollmentRequest x)" if "((\<lambda>_. True)) x" for x
    using that by (simp add: T_enrollmentRequest_def to_enrollmentRequest_def list_all_iff split: option.splits)
  show "type_ok T_enrollmentRequest"
    by (simp add: T_enrollmentRequest_def type_rules)
  show "type_depth T_enrollmentRequest \<le> 32"
    by (simp add: T_enrollmentRequest_def)
qed

interpretation enrollmentResponse_codec: message_codec T_enrollmentResponse to_enrollmentResponse of_enrollmentResponse "(\<lambda>_. True)"
proof
  show "of_enrollmentResponse (to_enrollmentResponse x) = x" for x
    by (simp add: of_enrollmentResponse_def to_enrollmentResponse_def get_field_def device_codec.get_put)
  show "has_type T_enrollmentResponse (to_enrollmentResponse x)" if "((\<lambda>_. True)) x" for x
    using that by (simp add: T_enrollmentResponse_def to_enrollmentResponse_def device_codec.typed device_codec.shape list_all_iff split: option.splits)
  show "type_ok T_enrollmentResponse"
    by (simp add: T_enrollmentResponse_def type_rules device_codec.shape(1))
  show "type_depth T_enrollmentResponse \<le> 32"
    by (simp add: T_enrollmentResponse_def T_device_def)
qed

interpretation putEnvelopeRequest_codec: message_codec T_putEnvelopeRequest to_putEnvelopeRequest of_putEnvelopeRequest "(envelope_bounded \<circ> peq_Envelope)"
proof
  show "of_putEnvelopeRequest (to_putEnvelopeRequest x) = x" for x
    by (simp add: of_putEnvelopeRequest_def to_putEnvelopeRequest_def get_field_def vaultEnvelope_codec.get_put)
  show "has_type T_putEnvelopeRequest (to_putEnvelopeRequest x)" if "((envelope_bounded \<circ> peq_Envelope)) x" for x
    using that by (simp add: T_putEnvelopeRequest_def to_putEnvelopeRequest_def vaultEnvelope_codec.typed vaultEnvelope_codec.shape list_all_iff split: option.splits)
  show "type_ok T_putEnvelopeRequest"
    by (simp add: T_putEnvelopeRequest_def type_rules vaultEnvelope_codec.shape(1))
  show "type_depth T_putEnvelopeRequest \<le> 32"
    by (simp add: T_putEnvelopeRequest_def T_vaultEnvelope_def T_argon2Parameters_def)
qed

interpretation syncRequest_codec: message_codec T_syncRequest to_syncRequest of_syncRequest "(\<lambda>_. True)"
proof
  show "of_syncRequest (to_syncRequest x) = x" for x
    by (simp add: of_syncRequest_def to_syncRequest_def get_field_def recordRevision_codec.get_put)
  show "has_type T_syncRequest (to_syncRequest x)" if "((\<lambda>_. True)) x" for x
    using that by (simp add: T_syncRequest_def to_syncRequest_def recordRevision_codec.typed recordRevision_codec.shape list_all_iff split: option.splits)
  show "type_ok T_syncRequest"
    by (simp add: T_syncRequest_def type_rules recordRevision_codec.shape(1))
  show "type_depth T_syncRequest \<le> 32"
    by (simp add: T_syncRequest_def T_recordRevision_def T_vectorEntry_def)
qed

interpretation syncResponse_codec: message_codec T_syncResponse to_syncResponse of_syncResponse "(\<lambda>_. True)"
proof
  show "of_syncResponse (to_syncResponse x) = x" for x
    by (simp add: of_syncResponse_def to_syncResponse_def get_field_def change_codec.get_put)
  show "has_type T_syncResponse (to_syncResponse x)" if "((\<lambda>_. True)) x" for x
    using that by (simp add: T_syncResponse_def to_syncResponse_def change_codec.typed change_codec.shape list_all_iff split: option.splits)
  show "type_ok T_syncResponse"
    by (simp add: T_syncResponse_def type_rules change_codec.shape(1))
  show "type_depth T_syncResponse \<le> 32"
    by (simp add: T_syncResponse_def T_change_def T_recordRevision_def T_vectorEntry_def T_collectionMarker_def)
qed

interpretation snapshotCreateRequest_codec: message_codec T_snapshotCreateRequest to_snapshotCreateRequest of_snapshotCreateRequest "(\<lambda>_. True)"
proof
  show "of_snapshotCreateRequest (to_snapshotCreateRequest x) = x" for x
    by (simp add: of_snapshotCreateRequest_def to_snapshotCreateRequest_def get_field_def)
  show "has_type T_snapshotCreateRequest (to_snapshotCreateRequest x)" if "((\<lambda>_. True)) x" for x
    using that by (simp add: T_snapshotCreateRequest_def to_snapshotCreateRequest_def list_all_iff split: option.splits)
  show "type_ok T_snapshotCreateRequest"
    by (simp add: T_snapshotCreateRequest_def type_rules)
  show "type_depth T_snapshotCreateRequest \<le> 32"
    by (simp add: T_snapshotCreateRequest_def)
qed

interpretation snapshotCreateResponse_codec: message_codec T_snapshotCreateResponse to_snapshotCreateResponse of_snapshotCreateResponse "(envelope_bounded \<circ> scs_Envelope)"
proof
  show "of_snapshotCreateResponse (to_snapshotCreateResponse x) = x" for x
    by (simp add: of_snapshotCreateResponse_def to_snapshotCreateResponse_def get_field_def vaultEnvelope_codec.get_put)
  show "has_type T_snapshotCreateResponse (to_snapshotCreateResponse x)" if "((envelope_bounded \<circ> scs_Envelope)) x" for x
    using that by (simp add: T_snapshotCreateResponse_def to_snapshotCreateResponse_def vaultEnvelope_codec.typed vaultEnvelope_codec.shape list_all_iff split: option.splits)
  show "type_ok T_snapshotCreateResponse"
    by (simp add: T_snapshotCreateResponse_def type_rules vaultEnvelope_codec.shape(1))
  show "type_depth T_snapshotCreateResponse \<le> 32"
    by (simp add: T_snapshotCreateResponse_def T_vaultEnvelope_def T_argon2Parameters_def)
qed

interpretation snapshotPageRequest_codec: message_codec T_snapshotPageRequest to_snapshotPageRequest of_snapshotPageRequest "(\<lambda>_. True)"
proof
  show "of_snapshotPageRequest (to_snapshotPageRequest x) = x" for x
    by (simp add: of_snapshotPageRequest_def to_snapshotPageRequest_def get_field_def)
  show "has_type T_snapshotPageRequest (to_snapshotPageRequest x)" if "((\<lambda>_. True)) x" for x
    using that by (simp add: T_snapshotPageRequest_def to_snapshotPageRequest_def list_all_iff split: option.splits)
  show "type_ok T_snapshotPageRequest"
    by (simp add: T_snapshotPageRequest_def type_rules)
  show "type_depth T_snapshotPageRequest \<le> 32"
    by (simp add: T_snapshotPageRequest_def)
qed

interpretation sourceDevice_codec: message_codec T_sourceDevice to_sourceDevice of_sourceDevice "(\<lambda>_. True)"
proof
  show "of_sourceDevice (to_sourceDevice x) = x" for x
    by (simp add: of_sourceDevice_def to_sourceDevice_def get_field_def)
  show "has_type T_sourceDevice (to_sourceDevice x)" if "((\<lambda>_. True)) x" for x
    using that by (simp add: T_sourceDevice_def to_sourceDevice_def list_all_iff split: option.splits)
  show "type_ok T_sourceDevice"
    by (simp add: T_sourceDevice_def type_rules)
  show "type_depth T_sourceDevice \<le> 32"
    by (simp add: T_sourceDevice_def)
qed

interpretation snapshotPageResponse_codec: message_codec T_snapshotPageResponse to_snapshotPageResponse of_snapshotPageResponse "(\<lambda>_. True)"
proof
  show "of_snapshotPageResponse (to_snapshotPageResponse x) = x" for x
    by (simp add: of_snapshotPageResponse_def to_snapshotPageResponse_def get_field_def recordRevision_codec.get_put collectionMarker_codec.get_put sourceDevice_codec.get_put)
  show "has_type T_snapshotPageResponse (to_snapshotPageResponse x)" if "((\<lambda>_. True)) x" for x
    using that by (simp add: T_snapshotPageResponse_def to_snapshotPageResponse_def recordRevision_codec.typed recordRevision_codec.shape collectionMarker_codec.typed collectionMarker_codec.shape sourceDevice_codec.typed sourceDevice_codec.shape list_all_iff split: option.splits)
  show "type_ok T_snapshotPageResponse"
    by (simp add: T_snapshotPageResponse_def type_rules recordRevision_codec.shape(1) collectionMarker_codec.shape(1) sourceDevice_codec.shape(1))
  show "type_depth T_snapshotPageResponse \<le> 32"
    by (simp add: T_snapshotPageResponse_def T_recordRevision_def T_vectorEntry_def T_collectionMarker_def T_sourceDevice_def)
qed

interpretation revokeDeviceRequest_codec: message_codec T_revokeDeviceRequest to_revokeDeviceRequest of_revokeDeviceRequest "(\<lambda>_. True)"
proof
  show "of_revokeDeviceRequest (to_revokeDeviceRequest x) = x" for x
    by (simp add: of_revokeDeviceRequest_def to_revokeDeviceRequest_def get_field_def)
  show "has_type T_revokeDeviceRequest (to_revokeDeviceRequest x)" if "((\<lambda>_. True)) x" for x
    using that by (simp add: T_revokeDeviceRequest_def to_revokeDeviceRequest_def list_all_iff split: option.splits)
  show "type_ok T_revokeDeviceRequest"
    by (simp add: T_revokeDeviceRequest_def type_rules)
  show "type_depth T_revokeDeviceRequest \<le> 32"
    by (simp add: T_revokeDeviceRequest_def)
qed

interpretation tokenRotationRequest_codec: message_codec T_tokenRotationRequest to_tokenRotationRequest of_tokenRotationRequest "(\<lambda>_. True)"
proof
  show "of_tokenRotationRequest (to_tokenRotationRequest x) = x" for x
    by (simp add: of_tokenRotationRequest_def to_tokenRotationRequest_def get_field_def)
  show "has_type T_tokenRotationRequest (to_tokenRotationRequest x)" if "((\<lambda>_. True)) x" for x
    using that by (simp add: T_tokenRotationRequest_def to_tokenRotationRequest_def list_all_iff split: option.splits)
  show "type_ok T_tokenRotationRequest"
    by (simp add: T_tokenRotationRequest_def type_rules)
  show "type_depth T_tokenRotationRequest \<le> 32"
    by (simp add: T_tokenRotationRequest_def)
qed

end
