(* ===== verification/Timestamp.thy ===== *)
theory Timestamp
  imports Bytes
begin

text \<open>
  Timestamps of the protocol: \<^verbatim>\<open>formatTimestamp\<close> and \<^verbatim>\<open>validateTimestamp\<close> of \<^verbatim>\<open>store/models.go\<close>.
  Both use Go's \<^verbatim>\<open>time\<close> package with the layout \<^verbatim>\<open>2006-01-02T15:04:05.000Z\<close> in UTC. The civil
  calendar is modelled by walking over whole years from 1970 (in either direction) and then over the
  months of the year; a day count is read back by a closed formula.

  \<^verbatim>\<open>validateTimestamp\<close> accepts a text that \<^verbatim>\<open>time.Parse\<close> reads and \<^verbatim>\<open>Format\<close> prints back unchanged.
  What \<^verbatim>\<open>time.Parse\<close> accepts besides the exact 24-character shape (a one-digit hour, a comma before
  the fraction) never prints back, so the model parses that shape only.
\<close>

section \<open>The calendar\<close>

definition is_leap :: "int \<Rightarrow> bool" where
  "is_leap y \<longleftrightarrow> y mod 4 = 0 \<and> (y mod 100 \<noteq> 0 \<or> y mod 400 = 0)"

definition year_len :: "int \<Rightarrow> int" where
  "year_len y = (if is_leap y then 366 else 365)"

definition month_lens :: "int \<Rightarrow> int list" where
  "month_lens y = [31, if is_leap y then 29 else 28, 31, 30, 31, 30, 31, 31, 30, 31, 30, 31]"

text \<open>The year that holds day \<open>d\<close> counted from the first day of year \<open>y\<close>, and the day within it.\<close>

function year_of :: "int \<Rightarrow> int \<Rightarrow> int \<times> int" where
  "year_of y d =
     (if d < 0 then year_of (y - 1) (d + year_len (y - 1))
      else if d < year_len y then (y, d)
      else year_of (y + 1) (d - year_len y))"
  by pat_completeness auto
termination
  by (relation "measure (\<lambda>(y, d). nat (if d < 0 then 400 - d else d))") (auto simp: year_len_def split: if_splits)

declare year_of.simps [simp del]

fun month_of :: "int list \<Rightarrow> int \<Rightarrow> int \<times> int" where
  "month_of [] d = (1, d + 1)"
| "month_of (l # ls) d = (if d < l then (1, d + 1) else apfst ((+) 1) (month_of ls (d - l)))"

text \<open>The first day of a year, counted from 1 January 1970.\<close>

definition leaps :: "int \<Rightarrow> int" where
  "leaps y = y div 4 - y div 100 + y div 400"

definition year_start :: "int \<Rightarrow> int" where
  "year_start y = 365 * (y - 1970) + leaps (y - 1) - 477"

section \<open>Printing and reading\<close>

fun pad :: "nat \<Rightarrow> nat \<Rightarrow> bytes" where
  "pad 0 n = []"
| "pad (Suc w) n = pad w (n div 10) @ [digit_char (n mod 10)]"

definition format_year :: "int \<Rightarrow> bytes" where
  "format_year y =
     (let a = nat \<bar>y\<bar>; s = (if a < 10000 then pad 4 a else FormatUint a)
      in if y < 0 then CHR ''-'' # s else s)"

definition format_fields :: "int \<Rightarrow> nat \<Rightarrow> nat \<Rightarrow> nat \<Rightarrow> nat \<Rightarrow> nat \<Rightarrow> nat \<Rightarrow> bytes" where
  "format_fields y mo d h mi s ms =
     format_year y @ ''-'' @ pad 2 mo @ ''-'' @ pad 2 d @ ''T'' @ pad 2 h @ '':'' @ pad 2 mi @ '':''
       @ pad 2 s @ ''.'' @ pad 3 ms @ ''Z''"

definition formatTimestamp :: "int \<Rightarrow> bytes" where
  "formatTimestamp milliseconds =
     (let (y, yd) = year_of 1970 (milliseconds div 86400000);
          (mo, d) = month_of (month_lens y) yd;
          t = nat (milliseconds mod 86400000)
      in format_fields y (nat mo) (nat d) (t div 3600000) (t div 60000 mod 60) (t div 1000 mod 60) (t mod 1000))"

definition read_num :: "bytes \<Rightarrow> nat option" where
  "read_num s = (if list_all is_digit s then Some (dec_acc 0 s) else None)"

text \<open>\<^verbatim>\<open>time.Parse\<close> on the exact shape, with its range checks; the result is in milliseconds.\<close>

definition parseTimestamp :: "bytes \<Rightarrow> int option" where
  "parseTimestamp value =
     (if length value \<noteq> 24 \<or> value ! 4 \<noteq> CHR ''-'' \<or> value ! 7 \<noteq> CHR ''-'' \<or> value ! 10 \<noteq> CHR ''T''
         \<or> value ! 13 \<noteq> CHR '':'' \<or> value ! 16 \<noteq> CHR '':'' \<or> value ! 19 \<noteq> CHR ''.'' \<or> value ! 23 \<noteq> CHR ''Z''
      then None
      else case (read_num (take 4 value), read_num (take 2 (drop 5 value)), read_num (take 2 (drop 8 value)),
                 read_num (take 2 (drop 11 value)), read_num (take 2 (drop 14 value)),
                 read_num (take 2 (drop 17 value)), read_num (take 3 (drop 20 value))) of
        (Some y, Some mo, Some d, Some h, Some mi, Some s, Some ms) \<Rightarrow>
          if mo < 1 \<or> 12 < mo \<or> d < 1 \<or> month_lens (int y) ! (mo - 1) < int d \<or> 24 \<le> h \<or> 60 \<le> mi \<or> 60 \<le> s
          then None
          else Some ((year_start (int y) + sum_list (take (mo - 1) (month_lens (int y))) + int d - 1) * 86400000
                     + int (((h * 60 + mi) * 60 + s) * 1000 + ms))
      | _ \<Rightarrow> None)"

definition validateTimestamp :: "bytes \<Rightarrow> bool" where
  "validateTimestamp value =
     (case parseTimestamp value of None \<Rightarrow> False | Some ms \<Rightarrow> formatTimestamp ms = value)"

section \<open>The calendar round trip\<close>

lemma div_step: "0 < k \<Longrightarrow> (y :: int) div k - (y - 1) div k = (if y mod k = 0 then 1 else 0)"
proof -
  assume k: "0 < k"
  have y: "y = k * (y div k) + y mod k" by simp
  have m: "0 \<le> y mod k" "y mod k < k" using k by simp_all
  show ?thesis
  proof (cases "y mod k = 0")
    case True
    have "y - 1 = k * (y div k - 1) + (k - 1)" using y True by (simp add: algebra_simps)
    then have "(y - 1) div k = y div k - 1" by (rule int_div_pos_eq) (use k in auto)
    then show ?thesis using True by simp
  next
    case False
    have "y - 1 = k * (y div k) + (y mod k - 1)" using y by linarith
    moreover have "0 \<le> y mod k - 1" "y mod k - 1 < k" using False m by linarith+
    ultimately have "(y - 1) div k = y div k" by (rule int_div_pos_eq)
    then show ?thesis using False by simp
  qed
qed

lemma leap_iff:
  "(if is_leap y then 1 else 0 :: int) =
     (if y mod 4 = 0 then 1 else 0) - (if y mod 100 = 0 then 1 else 0) + (if y mod 400 = 0 then 1 else 0)"
proof -
  have m4: "y mod 100 = 0 \<Longrightarrow> y mod 4 = 0" using mod_mod_cancel[of 4 100 y] by simp
  have m100: "y mod 400 = 0 \<Longrightarrow> y mod 100 = 0" using mod_mod_cancel[of 100 400 y] by simp
  consider "y mod 400 = 0" | "y mod 400 \<noteq> 0" "y mod 100 = 0" | "y mod 100 \<noteq> 0" by blast
  then show ?thesis
    by cases (use m4 m100 in \<open>auto simp: is_leap_def\<close>)
qed

lemma year_start_step: "year_start (y + 1) = year_start y + year_len y"
proof -
  have diff: "a - a' = p \<Longrightarrow> b - b' = q \<Longrightarrow> c - c' = r \<Longrightarrow> (a - b + c) - (a' - b' + c') = p - q + r"
    for a a' b b' c c' p q r :: int by simp
  have "leaps y - leaps (y - 1) = (if is_leap y then 1 else 0)"
    unfolding leaps_def leap_iff by (intro diff div_step) simp_all
  moreover have "year_len y = 365 + (if is_leap y then 1 else 0)" by (simp add: year_len_def)
  moreover have "year_start (y + 1) = 365 * (y - 1970) + 365 + leaps y - 477" by (simp add: year_start_def)
  ultimately show ?thesis unfolding year_start_def by linarith
qed

lemma year_start_1970: "year_start 1970 = 0"
  by (simp add: year_start_def leaps_def)

lemma year_of_spec:
  "year_of y d = (y', d') \<Longrightarrow> 0 \<le> d' \<and> d' < year_len y' \<and> year_start y' + d' = year_start y + d"
proof (induction y d rule: year_of.induct)
  case (1 y d)
  show ?case
  proof (cases "d < 0")
    case True
    with 1(3) have "year_of (y - 1) (d + year_len (y - 1)) = (y', d')" by (simp add: year_of.simps[of y d])
    from 1(1)[OF True this] year_start_step[of "y - 1"] show ?thesis by simp
  next
    case False
    show ?thesis
    proof (cases "d < year_len y")
      case True
      with 1(3) False show ?thesis by (simp add: year_of.simps[of y d])
    next
      case nl: False
      with 1(3) False have "year_of (y + 1) (d - year_len y) = (y', d')" by (simp add: year_of.simps[of y d])
      from 1(2)[OF False nl this] year_start_step[of y] show ?thesis by simp
    qed
  qed
qed

lemma year_start_less: "y < y' \<Longrightarrow> year_start y + year_len y \<le> year_start y'"
proof (induction rule: int_gr_induct)
  case base
  then show ?case by (simp add: year_start_step)
next
  case (step i)
  then show ?case using year_start_step[of i] by (simp add: year_len_def split: if_splits)
qed

lemma month_of_spec:
  assumes "0 \<le> d" "d < sum_list ls" "month_of ls d = (m, e)"
  shows "1 \<le> m \<and> m \<le> int (length ls) \<and> 1 \<le> e \<and> e \<le> ls ! nat (m - 1) \<and> sum_list (take (nat (m - 1)) ls) + e - 1 = d"
  using assms
proof (induction ls arbitrary: d m e)
  case (Cons l ls)
  show ?case
  proof (cases "d < l")
    case True
    with Cons.prems show ?thesis by auto
  next
    case False
    obtain m' where m': "month_of ls (d - l) = (m', e)" "m = 1 + m'"
      using Cons.prems(3) False by (cases "month_of ls (d - l)") auto
    have IH: "1 \<le> m' \<and> m' \<le> int (length ls) \<and> 1 \<le> e \<and> e \<le> ls ! nat (m' - 1) \<and> sum_list (take (nat (m' - 1)) ls) + e - 1 = d - l"
      using Cons.prems False m' by (intro Cons.IH) auto
    then have "nat (m - 1) = Suc (nat (m' - 1))" using m'(2) by linarith
    with IH m'(2) show ?thesis by simp
  qed
qed simp

lemma month_lens_sum: "sum_list (month_lens y) = year_len y"
  by (simp add: month_lens_def year_len_def)

section \<open>The text round trip\<close>

lemma length_pad [simp]: "length (pad w n) = w"
  by (induction w arbitrary: n) auto

lemma pad_digits: "list_all is_digit (pad w n)"
  by (induction w arbitrary: n) auto

lemma dec_acc_pad: "n < 10 ^ w \<Longrightarrow> dec_acc 0 (pad w n) = n"
proof (induction w arbitrary: n)
  case (Suc w)
  have "n div 10 < 10 ^ w" using Suc.prems by (simp add: div_less_iff_less_mult mult.commute)
  with Suc.IH show ?case by (simp add: dec_acc_append)
qed simp

lemma read_num_pad: "n < 10 ^ w \<Longrightarrow> read_num (pad w n) = Some n"
  by (simp add: read_num_def pad_digits dec_acc_pad)

lemma parse_format_fields:
  assumes "0 \<le> y" "y < 10000" "1 \<le> mo" "mo \<le> 12" "1 \<le> d" "int d \<le> month_lens y ! (mo - 1)"
    and "h < 24" "mi < 60" "s < 60" "ms < 1000"
  shows "parseTimestamp (format_fields y mo d h mi s ms) =
    Some ((year_start y + sum_list (take (mo - 1) (month_lens y)) + int d - 1) * 86400000
          + int (((h * 60 + mi) * 60 + s) * 1000 + ms))"
proof -
  have "month_lens y ! (mo - 1) \<le> 31"
  proof -
    have "\<forall>l\<in>set (month_lens y). l \<le> 31" by (simp add: month_lens_def)
    moreover have "mo - 1 < length (month_lens y)" using assms(3,4) by (simp add: month_lens_def)
    ultimately show ?thesis using nth_mem by blast
  qed
  then have d: "d < 100" using assms(6) by linarith
  have ny: "nat y < 10000" using assms(2) by simp
  define py pm pd ph pn ps pf where p: "py = pad 4 (nat y)" "pm = pad 2 mo" "pd = pad 2 d" "ph = pad 2 h"
    "pn = pad 2 mi" "ps = pad 2 s" "pf = pad 3 ms"
  have l: "length py = 4" "length pm = 2" "length pd = 2" "length ph = 2" "length pn = 2" "length ps = 2" "length pf = 3"
    unfolding p by simp_all
  have r: "read_num py = Some (nat y)" "read_num pm = Some mo" "read_num pd = Some d" "read_num ph = Some h"
    "read_num pn = Some mi" "read_num ps = Some s" "read_num pf = Some ms"
    unfolding p using assms d by (intro read_num_pad; simp)+
  have f: "format_fields y mo d h mi s ms = py @ CHR ''-'' # pm @ CHR ''-'' # pd @ CHR ''T'' # ph @ CHR '':'' # pn
      @ CHR '':'' # ps @ CHR ''.'' # pf @ [CHR ''Z'']"
    using assms(1) ny by (simp add: format_fields_def format_year_def p Let_def)
  show ?thesis using assms l r unfolding f parseTimestamp_def
    by (simp add: nth_append take_append drop_append nth_Cons' take_Cons' drop_Cons')
qed

lemma format_year_range:
  assumes "year_of 1970 (t div 86400000) = (y, yd)" "- 719528 * 86400000 \<le> t" "t < 2932897 * 86400000"
  shows "0 \<le> y" "y < 10000"
proof -
  have s: "0 \<le> yd" "yd < year_len y" "year_start y + yd = t div 86400000"
    using year_of_spec[OF assms(1)] year_start_1970 by auto
  have t: "- 719528 \<le> t div 86400000" "t div 86400000 < 2932897" using assms(2,3) by auto
  have e: "year_start 0 = - 719528" "year_start 10000 = 2932897" by (simp_all add: year_start_def leaps_def)
  show "0 \<le> y" using year_start_less[of y 0] s t(1) e by linarith
  have "10000 < y \<Longrightarrow> 2932897 \<le> year_start y" using year_start_less[of 10000 y] e by (simp add: year_len_def split: if_splits)
  then show "y < 10000" using s t(2) e by (cases "y = 10000"; cases "10000 < y") auto
qed

text \<open>Every instant of the years 0 to 9999 prints to a text that reads back to it.\<close>

lemma parseTimestamp_formatTimestamp:
  assumes "- 719528 * 86400000 \<le> t" "t < 2932897 * 86400000"
  shows "parseTimestamp (formatTimestamp t) = Some t"
proof -
  obtain y yd where y: "year_of 1970 (t div 86400000) = (y, yd)" by fastforce
  obtain mo d where m: "month_of (month_lens y) yd = (mo, d)" by fastforce
  define n where "n = nat (t mod 86400000)"
  have yd: "0 \<le> yd" "yd < year_len y" "year_start y + yd = t div 86400000"
    using year_of_spec[OF y] year_start_1970 by auto
  have md: "1 \<le> mo \<and> mo \<le> 12 \<and> 1 \<le> d \<and> d \<le> month_lens y ! nat (mo - 1) \<and> sum_list (take (nat (mo - 1)) (month_lens y)) + d - 1 = yd"
    using month_of_spec[OF yd(1) _ m] yd(2) month_lens_sum[of y] by (simp add: month_lens_def)
  have n: "int n = t mod 86400000" "n < 86400000" by (auto simp: n_def nat_less_iff)
  have mo: "nat mo - 1 = nat (mo - 1)" "int (nat d) = d" using md by auto
  have b: "n div 3600000 < 24" "n div 60000 mod 60 < 60" "n div 1000 mod 60 < 60" "n mod 1000 < 1000"
    using n(2) by (auto simp: div_less_iff_less_mult)
  have h: "((n div 3600000 * 60 + n div 60000 mod 60) * 60 + n div 1000 mod 60) * 1000 + n mod 1000 = n"
  proof -
    have "n div 1000 div 60 div 60 = n div 3600000" "n div 1000 div 60 = n div 60000" by (simp_all add: div_mult2_eq[symmetric])
    moreover have "n div 1000 div 60 div 60 * 60 + n div 1000 div 60 mod 60 = n div 1000 div 60"
      "n div 1000 div 60 * 60 + n div 1000 mod 60 = n div 1000" "n div 1000 * 1000 + n mod 1000 = n" by simp_all
    ultimately show ?thesis by metis
  qed
  have "parseTimestamp (format_fields y (nat mo) (nat d) (n div 3600000) (n div 60000 mod 60) (n div 1000 mod 60) (n mod 1000))
    = Some ((t div 86400000) * 86400000 + int n)"
    using parse_format_fields[OF format_year_range[OF y assms], of "nat mo" "nat d" "n div 3600000" "n div 60000 mod 60" "n div 1000 mod 60" "n mod 1000"]
      md mo b h yd(3) by (simp add: add_diff_eq nat_le_iff le_nat_iff)
  then show ?thesis using n by (simp add: formatTimestamp_def y m Let_def n_def)
qed

lemma validateTimestamp_formatTimestamp:
  assumes "- 719528 * 86400000 \<le> t" "t < 2932897 * 86400000"
  shows "validateTimestamp (formatTimestamp t)"
  using parseTimestamp_formatTimestamp[OF assms] by (simp add: validateTimestamp_def)

end
