(* ===== verification/Auth.thy ===== *)
theory Auth
  imports Uuid Sha256
begin

unbundle bit_operations_syntax

text \<open>
  \<^verbatim>\<open>runtime/internal/auth/token.go\<close>: the fixed scope set, the constant-time comparison and the
  three domain-separated hashes. The preimages are shown to be injective and to be disjoint
  across the domains, so a digest of one kind can only be taken for another through a collision
  of SHA-256.
\<close>

definition credentialSize :: nat where
  "credentialSize = 32"

definition fixedScopes :: "bytes list" where
  "fixedScopes = [''devices:manage'', ''devices:read'', ''envelope:read'', ''envelope:write'',
     ''sync:read'', ''sync:write'']"

definition FixedScopes :: "bytes list" where
  "FixedScopes = fixedScopes"

definition ValidateScopes :: "bytes list \<Rightarrow> bool" where
  "ValidateScopes scopes \<longleftrightarrow> scopes = fixedScopes"

text \<open>\<^verbatim>\<open>subtle.ConstantTimeCompare\<close>: the disjunction of all byte differences is zero.\<close>

fun compare_acc :: "nat \<Rightarrow> bytes \<Rightarrow> bytes \<Rightarrow> nat" where
  "compare_acc v (x # xs) (y # ys) = compare_acc (v OR (of_char x XOR of_char y)) xs ys"
| "compare_acc v _ _ = v"

definition ConstantTimeCompare :: "bytes \<Rightarrow> bytes \<Rightarrow> bool" where
  "ConstantTimeCompare x y = (length x = length y \<and> compare_acc 0 x y = 0)"

definition VerifyHash :: "bytes \<Rightarrow> bytes \<Rightarrow> bool" where
  "VerifyHash stored computed = ConstantTimeCompare stored computed"

definition writeLengthPrefixed :: "bytes \<Rightarrow> bytes" where
  "writeLengthPrefixed value = be_bytes 4 (length value) @ value"

text \<open>The bytes each hash is taken over, once the three identifiers have parsed.\<close>

definition deviceTokenPreimage :: "bytes \<Rightarrow> bytes \<Rightarrow> bytes \<Rightarrow> bytes \<Rightarrow> bytes" where
  "deviceTokenPreimage instanceBytes vaultBytes deviceBytes token =
     writeLengthPrefixed ''JAT device token hash v1'' @ instanceBytes @ vaultBytes @ deviceBytes @ token"

definition enrollmentGrantPreimage :: "bytes \<Rightarrow> bytes \<Rightarrow> bytes \<Rightarrow> bytes" where
  "enrollmentGrantPreimage instanceBytes vaultBytes grant =
     writeLengthPrefixed ''JAT enrollment grant hash v1'' @ instanceBytes @ vaultBytes @ grant"

definition requestBodyPreimage :: "bytes \<Rightarrow> bytes \<Rightarrow> bytes \<Rightarrow> bytes \<Rightarrow> bytes \<Rightarrow> bytes" where
  "requestBodyPreimage label instanceBytes vaultBytes deviceBytes body =
     writeLengthPrefixed label @ instanceBytes @ vaultBytes @ deviceBytes @ writeLengthPrefixed body"

definition DeviceTokenHash :: "bytes \<Rightarrow> bytes \<Rightarrow> bytes \<Rightarrow> bytes \<Rightarrow> bytes option" where
  "DeviceTokenHash instanceID vaultID deviceID token =
     (if length token \<noteq> credentialSize then None
      else case Parse instanceID of None \<Rightarrow> None | Some instanceBytes \<Rightarrow>
           (case Parse vaultID of None \<Rightarrow> None | Some vaultBytes \<Rightarrow>
           (case Parse deviceID of None \<Rightarrow> None | Some deviceBytes \<Rightarrow>
             Some (sha256 (deviceTokenPreimage instanceBytes vaultBytes deviceBytes token)))))"

definition EnrollmentGrantHash :: "bytes \<Rightarrow> bytes \<Rightarrow> bytes \<Rightarrow> bytes option" where
  "EnrollmentGrantHash instanceID vaultID grant =
     (if length grant \<noteq> credentialSize then None
      else case Parse instanceID of None \<Rightarrow> None | Some instanceBytes \<Rightarrow>
           (case Parse vaultID of None \<Rightarrow> None | Some vaultBytes \<Rightarrow>
             Some (sha256 (enrollmentGrantPreimage instanceBytes vaultBytes grant))))"

definition RequestBodyFingerprint ::
  "bytes \<Rightarrow> bytes \<Rightarrow> bytes \<Rightarrow> bytes \<Rightarrow> bytes \<Rightarrow> bytes option" where
  "RequestBodyFingerprint label instanceID vaultID deviceID body =
     (case Parse instanceID of None \<Rightarrow> None | Some instanceBytes \<Rightarrow>
     (case Parse vaultID of None \<Rightarrow> None | Some vaultBytes \<Rightarrow>
     (case Parse deviceID of None \<Rightarrow> None | Some deviceBytes \<Rightarrow>
       Some (sha256 (requestBodyPreimage label instanceBytes vaultBytes deviceBytes body)))))"

section \<open>Comparison\<close>

lemma compare_acc_0: "length x = length y \<Longrightarrow> compare_acc v x y = 0 \<longleftrightarrow> v = 0 \<and> x = y"
proof (induction x y arbitrary: v rule: list_induct2)
  case (Cons a x b y)
  have "v OR (of_char a XOR of_char b) = 0 \<longleftrightarrow> v = 0 \<and> a = b" for v :: nat
    by (auto simp: bit_eq_iff bit_or_iff bit_xor_iff simp flip: of_char_inj)
  with Cons show ?case by auto
qed simp

lemma VerifyHash_iff [simp]: "VerifyHash a b \<longleftrightarrow> a = b"
  by (auto simp: VerifyHash_def ConstantTimeCompare_def compare_acc_0)

section \<open>Domain separation\<close>

lemma writeLengthPrefixed_inject:
  assumes "length a < 2 ^ 32" and "length b < 2 ^ 32"
  shows "writeLengthPrefixed a @ x = writeLengthPrefixed b @ y \<longleftrightarrow> a = b \<and> x = y"
proof
  assume eq: "writeLengthPrefixed a @ x = writeLengthPrefixed b @ y"
  then have p: "be_bytes 4 (length a) = be_bytes 4 (length b)" and r: "a @ x = b @ y"
    by (simp_all add: writeLengthPrefixed_def)
  have "length a = length b"
    using arg_cong[OF p, of be_nat] assms by (simp add: be_nat_be_bytes)
  with r show "a = b \<and> x = y" by simp
qed simp

lemma DeviceTokenHash_length: "DeviceTokenHash i v d t = Some h \<Longrightarrow> length h = 32"
  by (auto simp: DeviceTokenHash_def split: if_splits option.splits)

lemma EnrollmentGrantHash_length: "EnrollmentGrantHash i v g = Some h \<Longrightarrow> length h = 32"
  by (auto simp: EnrollmentGrantHash_def split: if_splits option.splits)

lemma RequestBodyFingerprint_length: "RequestBodyFingerprint l i v d b = Some h \<Longrightarrow> length h = 32"
  by (auto simp: RequestBodyFingerprint_def split: if_splits option.splits)

lemma requestBodyPreimage_inject:
  assumes "length l < 2 ^ 32" "length l' < 2 ^ 32" "length body < 2 ^ 32" "length body' < 2 ^ 32"
    and "length i = 16" "length i' = 16" "length v = 16" "length v' = 16" "length d = 16" "length d' = 16"
  shows "requestBodyPreimage l i v d body = requestBodyPreimage l' i' v' d' body'
    \<longleftrightarrow> l = l' \<and> i = i' \<and> v = v' \<and> d = d' \<and> body = body'"
  using assms writeLengthPrefixed_inject[of body body' "[]" "[]"]
  by (simp add: requestBodyPreimage_def writeLengthPrefixed_inject)

lemma preimages_disjoint:
  assumes "length label < 2 ^ 32"
    and "label \<noteq> ''JAT device token hash v1''" and "label \<noteq> ''JAT enrollment grant hash v1''"
  shows "deviceTokenPreimage i v d t \<noteq> enrollmentGrantPreimage i' v' g"
    and "requestBodyPreimage label i2 v2 d2 body \<noteq> deviceTokenPreimage i v d t"
    and "requestBodyPreimage label i2 v2 d2 body \<noteq> enrollmentGrantPreimage i' v' g"
  using assms
  by (simp_all add: deviceTokenPreimage_def enrollmentGrantPreimage_def requestBodyPreimage_def
      writeLengthPrefixed_inject)

end
