(* ===== verification/ModelLaws.thy ===== *)
theory ModelLaws
  imports Models
begin

text \<open>
  Laws of the validators. A vector is valid exactly when it is the canonical text of strictly ordered
  identifiers with nonzero counters (\<open>validateVector_eq_Some\<close>), and \<^verbatim>\<open>vectorDominates\<close> is the strict
  pointwise order (\<open>vectorDominates_iff\<close>). The locale \<open>causal_order\<close> is the interface the sync engine
  relies on: a strict partial order on the well-formed elements of a carrier, with the lemmas on
  frontiers (antichains of maximal elements) proved once and interpreted on vectors.
\<close>

section \<open>Valid vectors\<close>

definition entry_of :: "bytes \<times> uint64 \<Rightarrow> vectorEntry" where
  "entry_of p = \<lparr>ve_DeviceID = fst p, ve_Counter = encodeUint64Text (snd p)\<rparr>"

definition vector_ok :: "vector \<Rightarrow> bool" where
  "vector_ok m \<longleftrightarrow> sorted_wrt (<) (map fst m) \<and> (\<forall>(d, c)\<in>set m. validateUUID d \<and> c \<noteq> 0)"

lemma vector_ok_distinct: "vector_ok m \<Longrightarrow> distinct (map fst m)"
  unfolding vector_ok_def by (metis strict_sorted_iff)

lemma AList_update_new: "k \<notin> fst ` set m \<Longrightarrow> AList.update k v m = m @ [(k, v)]"
  by (induction m) auto

lemma validateVector_loop_eq:
  assumes "vector_ok m" "prev = (if m = [] then None else Parse (fst (last m)))"
  shows "validateVector_loop prev m vs = Some r \<longleftrightarrow> (\<exists>t. vs = map entry_of t \<and> r = m @ t \<and> vector_ok r)"
  using assms
proof (induction vs arbitrary: prev m)
  case Nil
  then show ?case by auto
next
  case (Cons e vs)
  show ?case
  proof (cases "\<exists>b c. Parse (ve_DeviceID e) = Some b \<and> parseUint64 (ve_Counter e) = Some c \<and> c \<noteq> 0
      \<and> (case prev of None \<Rightarrow> True | Some p \<Rightarrow> p < b)")
    case True
    then obtain b c where b: "Parse (ve_DeviceID e) = Some b" "parseUint64 (ve_Counter e) = Some c" "c \<noteq> 0"
      "case prev of None \<Rightarrow> True | Some p \<Rightarrow> p < b" by blast
    let ?m = "m @ [(ve_DeviceID e, c)]"
    have e: "e = entry_of (ve_DeviceID e, c)" using b(2) by (simp add: entry_of_def parseUint64_eq_Some)
    have less: "d < ve_DeviceID e" if d: "d \<in> fst ` set m" for d
    proof -
      obtain m0 d1 c1 where m: "m = m0 @ [(d1, c1)]" using d by (cases m rule: rev_cases) auto
      then obtain p where p: "Parse d1 = Some p" using Cons.prems(1) by (auto simp: vector_ok_def validateUUID_def)
      then have "d1 < ve_DeviceID e" using b(1,4) Cons.prems(2) m Parse_less[OF p b(1)] by auto
      moreover have "d \<le> d1" using d m Cons.prems(1) by (auto simp: vector_ok_def sorted_wrt_append)
      ultimately show ?thesis by simp
    qed
    then have "ve_DeviceID e \<notin> fst ` set m" by blast
    then have u: "AList.update (ve_DeviceID e) c m = ?m" by (rule AList_update_new)
    have ok: "vector_ok ?m" using Cons.prems(1) less b by (auto simp: vector_ok_def sorted_wrt_append validateUUID_def)
    have "validateVector_loop prev m (e # vs) = validateVector_loop (Some b) ?m vs"
      using b u by (auto split: option.splits)
    also have "\<dots> = Some r \<longleftrightarrow> (\<exists>t. vs = map entry_of t \<and> r = ?m @ t \<and> vector_ok r)"
      using ok b(1) by (intro Cons.IH) (auto split: list.splits)
    also have "\<dots> \<longleftrightarrow> (\<exists>t. e # vs = map entry_of t \<and> r = m @ t \<and> vector_ok r)"
    proof
      assume "\<exists>t. vs = map entry_of t \<and> r = ?m @ t \<and> vector_ok r"
      then obtain t where "vs = map entry_of t" "r = ?m @ t" "vector_ok r" by blast
      then show "\<exists>t. e # vs = map entry_of t \<and> r = m @ t \<and> vector_ok r"
        using e by (intro exI[of _ "(ve_DeviceID e, c) # t"]) simp
    next
      assume "\<exists>t. e # vs = map entry_of t \<and> r = m @ t \<and> vector_ok r"
      then obtain p t where "e = entry_of p" "vs = map entry_of t" "r = m @ p # t" "vector_ok r" by auto
      moreover have "p = (ve_DeviceID e, c)" using \<open>e = entry_of p\<close> e by (cases p) (auto simp: entry_of_def)
      ultimately show "\<exists>t. vs = map entry_of t \<and> r = ?m @ t \<and> vector_ok r" by auto
    qed
    finally show ?thesis .
  next
    case False
    then have "validateVector_loop prev m (e # vs) = None"
      by (auto split: option.splits)
    moreover have "\<not> (\<exists>t. e # vs = map entry_of t \<and> r = m @ t \<and> vector_ok r)"
    proof
      assume "\<exists>t. e # vs = map entry_of t \<and> r = m @ t \<and> vector_ok r"
      then obtain d c t where t: "e = entry_of (d, c)" "vector_ok (m @ (d, c) # t)" by auto
      then obtain b where b: "Parse d = Some b" "c \<noteq> 0" by (auto simp: vector_ok_def validateUUID_def)
      have "case prev of None \<Rightarrow> True | Some p \<Rightarrow> p < b"
      proof (cases m rule: rev_cases)
        case Nil
        then show ?thesis using Cons.prems(2) by simp
      next
        case (snoc m0 x)
        then have "fst x < d" using t(2) by (auto simp: vector_ok_def sorted_wrt_append)
        then show ?thesis using Cons.prems(2) snoc Parse_less[of "fst x" _ d b] b(1)
          by (auto split: option.splits)
      qed
      with False b t(1) show False by (auto simp: entry_of_def)
    qed
    ultimately show ?thesis by simp
  qed
qed

lemma validateVector_eq_Some:
  "validateVector vs = Some m \<longleftrightarrow>
     m \<noteq> [] \<and> length m \<le> maxVectorEntries \<and> vector_ok m \<and> vs = map entry_of m"
  using validateVector_loop_eq[of "[]" None vs m]
  by (auto simp: validateVector_def vector_ok_def)

section \<open>Domination\<close>

lemma dominates_scan_eq:
  "dominates_scan l r s = (if \<exists>(d, c)\<in>set r. vget l d < c then None
     else Some (s \<or> (\<exists>(d, c)\<in>set r. c < vget l d)))"
  by (induction r arbitrary: s) (auto simp: Let_def)

lemma vget_mem: "distinct (map fst v) \<Longrightarrow> (d, c) \<in> set v \<Longrightarrow> vget v d = c"
  by (simp add: vget_def)

lemma vget_cases: "vget v d = 0 \<and> map_of v d = None \<or> (d, vget v d) \<in> set v"
  by (cases "map_of v d") (auto simp: vget_def dest: map_of_SomeD)

lemma vectorDominates_iff:
  assumes "distinct (map fst l)" "distinct (map fst r)"
  shows "vectorDominates l r \<longleftrightarrow> (\<forall>d. vget r d \<le> vget l d) \<and> (\<exists>d. vget r d < vget l d)"
proof -
  have ge: "(\<exists>(d, c)\<in>set r. vget l d < c) \<longleftrightarrow> \<not> (\<forall>d. vget r d \<le> vget l d)"
  proof
    assume "\<exists>(d, c)\<in>set r. vget l d < c"
    then obtain d c where "(d, c) \<in> set r" "vget l d < c" by blast
    then show "\<not> (\<forall>d. vget r d \<le> vget l d)" using vget_mem[OF assms(2), of d c] by (metis not_le)
  next
    assume "\<not> (\<forall>d. vget r d \<le> vget l d)"
    then obtain d where d: "vget l d < vget r d" by (auto simp: not_le)
    then have "(d, vget r d) \<in> set r" using vget_cases[of r d] by auto
    with d show "\<exists>(d, c)\<in>set r. vget l d < c" by blast
  qed
  have gt: "((\<exists>(d, c)\<in>set r. c < vget l d) \<or> list_ex (\<lambda>(d, c). map_of r d = None \<and> 0 < c) l) \<longleftrightarrow> (\<exists>d. vget r d < vget l d)"
  proof
    assume "(\<exists>(d, c)\<in>set r. c < vget l d) \<or> list_ex (\<lambda>(d, c). map_of r d = None \<and> 0 < c) l"
    then show "\<exists>d. vget r d < vget l d"
    proof
      assume "\<exists>(d, c)\<in>set r. c < vget l d"
      then obtain d c where "(d, c) \<in> set r" "c < vget l d" by blast
      then show ?thesis using vget_mem[OF assms(2), of d c] by metis
    next
      assume "list_ex (\<lambda>(d, c). map_of r d = None \<and> 0 < c) l"
      then obtain d c where "(d, c) \<in> set l" "map_of r d = None" "0 < c" by (auto simp: list_ex_iff)
      then have "vget r d < vget l d" using vget_mem[OF assms(1)] by (simp add: vget_def)
      then show ?thesis ..
    qed
  next
    assume "\<exists>d. vget r d < vget l d"
    then obtain d where d: "vget r d < vget l d" ..
    show "(\<exists>(d, c)\<in>set r. c < vget l d) \<or> list_ex (\<lambda>(d, c). map_of r d = None \<and> 0 < c) l"
    proof (cases "map_of r d")
      case None
      then have "vget r d = 0" by (simp add: vget_def)
      with d None have "(d, vget l d) \<in> set l" "0 < vget l d" using vget_cases[of l d] by auto
      with None show ?thesis by (auto simp: list_ex_iff)
    next
      case (Some c)
      then have "(d, vget r d) \<in> set r" using vget_cases[of r d] by simp
      with d show ?thesis by blast
    qed
  qed
  show ?thesis unfolding vectorDominates_def dominates_scan_eq
    using ge gt by (simp only: simp_thms option.case if_splits split: if_splits) auto
qed

lemma vget_ext:
  assumes "vector_ok a" "vector_ok b" "\<And>d. vget a d = vget b d"
  shows "a = b"
proof -
  have pos: "vector_ok v \<Longrightarrow> (d, c) \<in> set v \<longleftrightarrow> c \<noteq> 0 \<and> vget v d = c" for v d c
    using vget_mem[of v d c, OF vector_ok_distinct] vget_cases[of v d] by (auto simp: vector_ok_def)
  have "set a = set b" using pos[OF assms(1)] pos[OF assms(2)] assms(3) by auto
  moreover have "sorted (map fst a)" "sorted (map fst b)"
    using assms(1,2) by (auto simp: vector_ok_def strict_sorted_iff)
  ultimately show ?thesis
    using map_sorted_distinct_set_unique[of fst a b] vector_ok_distinct assms(1,2)
    by (metis distinct_map inj_on_Un sup.idem)
qed

section \<open>Strict partial orders and frontiers\<close>

locale causal_order =
  fixes wf :: "'a \<Rightarrow> bool" and above :: "'a \<Rightarrow> 'a \<Rightarrow> bool"
  assumes irrefl: "wf x \<Longrightarrow> \<not> above x x"
    and trans: "wf x \<Longrightarrow> wf y \<Longrightarrow> wf z \<Longrightarrow> above x y \<Longrightarrow> above y z \<Longrightarrow> above x z"
begin

lemma asym: "wf x \<Longrightarrow> wf y \<Longrightarrow> above x y \<Longrightarrow> \<not> above y x"
  using irrefl trans by blast

definition antichain :: "'a list \<Rightarrow> bool" where
  "antichain xs \<longleftrightarrow> (\<forall>x\<in>set xs. \<forall>y\<in>set xs. \<not> above x y)"

text \<open>
  The frontier step: a new element replaces the ones it is above. When nothing is above it, the result
  is again an antichain, and everything that was covered stays covered.
\<close>

lemma antichain_step:
  assumes "antichain xs" "\<forall>x\<in>set xs. wf x" "wf n" "\<forall>x\<in>set xs. \<not> above x n"
  shows "antichain (filter (\<lambda>x. \<not> above n x) xs @ [n])"
  using assms irrefl[of n] by (auto simp: antichain_def)

lemma step_covers:
  assumes "x \<in> set xs"
  shows "x \<in> set (filter (\<lambda>x. \<not> above n x) xs @ [n]) \<or> above n x"
  using assms by auto

lemma covered_step:
  assumes "x \<in> set xs" "above x y" "wf x" "wf y" "wf n"
  shows "\<exists>z\<in>set (filter (\<lambda>x. \<not> above n x) xs @ [n]). above z y"
  using assms trans[of n x y] by auto

end

interpretation vectors: causal_order vector_ok vectorDominates
proof
  show "\<not> vectorDominates x x" if "vector_ok x" for x
    using that by (simp add: vectorDominates_iff vector_ok_distinct)
  show "vectorDominates x z"
    if "vector_ok x" "vector_ok y" "vector_ok z" "vectorDominates x y" "vectorDominates y z" for x y z
    using that(4,5) unfolding vectorDominates_iff[OF vector_ok_distinct[OF that(1)] vector_ok_distinct[OF that(2)]]
      vectorDominates_iff[OF vector_ok_distinct[OF that(2)] vector_ok_distinct[OF that(3)]]
      vectorDominates_iff[OF vector_ok_distinct[OF that(1)] vector_ok_distinct[OF that(3)]]
    by (meson order.trans less_le_trans)
qed

end
