(* ===== verification/Api.thy ===== *)
theory Api
  imports Bytes
begin

text \<open>
  \<^verbatim>\<open>runtime/internal/api/api.go\<close>: the boundary between the HTTP transport and the data
  plane, that is requests, responses and the protocol errors with their status and message
  tables.
\<close>

record api_request =
  rq_Method :: bytes
  rq_Path :: bytes
  rq_RequestID :: bytes
  rq_Authorization :: bytes
  rq_Body :: bytes
  rq_Now :: time

type_synonym api_header = "bytes \<times> bytes"

record api_response =
  rs_Status :: nat
  rs_Body :: bytes
  rs_Headers :: "api_header list"

datatype api_error = ApiError (Code: bytes) (Retryable: bool)

type_synonym 'a api_result = "api_error + 'a"

definition NewError :: "bytes \<Rightarrow> bool \<Rightarrow> api_error" where
  "NewError code retryable = ApiError code retryable"

definition V1ResponseHeaders :: "bytes \<Rightarrow> nat \<Rightarrow> api_header list" where
  "V1ResponseHeaders requestID bodyLength =
     [(''Content-Type'', ''application/json; charset=utf-8''),
      (''JAT-Protocol-Version'', ''1''),
      (''JAT-Request-ID'', requestID),
      (''Content-Length'', FormatUint bodyLength)]"

definition errorStatuses :: "(bytes \<times> nat) list" where
  "errorStatuses = [
     (''invalid_request'', 400),
     (''unsupported_protocol'', 426),
     (''unsupported_capability'', 426),
     (''unauthorized'', 401),
     (''token_revoked'', 401),
     (''scope_denied'', 403),
     (''authenticated_device_mismatch'', 403),
     (''rate_limited'', 429),
     (''grant_expired'', 410),
     (''grant_consumed'', 410),
     (''enrollment_replay_mismatch'', 409),
     (''request_id_reused'', 409),
     (''generation_conflict'', 409),
     (''generation_exhausted'', 409),
     (''counter_conflict'', 409),
     (''counter_exhausted'', 409),
     (''revision_equivocation'', 409),
     (''too_many_siblings'', 409),
     (''limit_exceeded'', 413),
     (''cursor_expired'', 410),
     (''envelope_missing'', 404),
     (''device_not_found'', 404),
     (''snapshot_not_found'', 404),
     (''snapshot_expired'', 410),
     (''stale_after_collection'', 409),
     (''zero_active_confirmation_required'', 409),
     (''instance_mismatch'', 409),
     (''server_cursor_exhausted'', 507),
     (''internal_error'', 500)]"

definition errorMessages :: "(bytes \<times> bytes) list" where
  "errorMessages = [
     (''invalid_request'',
      ''The request did not match protocol version 1.''),
     (''unsupported_protocol'',
      ''The requested protocol version is not supported.''),
     (''unsupported_capability'',
      ''A required protocol capability is unavailable.''),
     (''unauthorized'',
      ''The supplied credential was not accepted.''),
     (''token_revoked'',
      ''The device token has been revoked.''),
     (''scope_denied'',
      ''The device token lacks the required scope.''),
     (''authenticated_device_mismatch'',
      ''The request device does not match the authenticated device.''),
     (''rate_limited'',
      ''The operation exceeded its rate limit.''),
     (''grant_expired'',
      ''The enrollment grant has expired.''),
     (''grant_consumed'',
      ''The enrollment grant has already been consumed.''),
     (''enrollment_replay_mismatch'',
      ''The enrollment retry did not match the recorded enrollment.''),
     (''request_id_reused'',
      ''The request identifier was reused with different bytes.''),
     (''generation_conflict'',
      ''The requested generation does not match the stored generation.''),
     (''generation_exhausted'',
      ''The generation has no valid successor.''),
     (''counter_conflict'',
      ''The author counter did not advance exactly once.''),
     (''counter_exhausted'',
      ''The author counter has no valid successor.''),
     (''revision_equivocation'',
      ''A revision identifier or vector was reused with different bytes.''),
     (''too_many_siblings'',
      ''The record has too many undominated siblings.''),
     (''limit_exceeded'',
      ''The request exceeded a protocol limit.''),
     (''cursor_expired'',
      ''The requested cursor is no longer retained.''),
     (''envelope_missing'',
      ''The vault envelope is unavailable.''),
     (''device_not_found'',
      ''The requested device does not exist.''),
     (''snapshot_not_found'',
      ''The requested snapshot does not exist.''),
     (''snapshot_expired'',
      ''The requested snapshot has expired.''),
     (''stale_after_collection'',
      ''The mutation does not dominate the retained collection frontier.''),
     (''zero_active_confirmation_required'',
      ''Revoking the last active device requires explicit confirmation.''),
     (''instance_mismatch'',
      ''The request identity does not match this server instance.''),
     (''server_cursor_exhausted'',
      ''The server change cursor has no remaining capacity.''),
     (''internal_error'',
      ''The service could not complete the request.'')]"

definition Status :: "api_error \<Rightarrow> nat" where
  "Status err = (case map_of errorStatuses (Code err) of Some s \<Rightarrow> s | None \<Rightarrow> 500)"

definition Message :: "api_error \<Rightarrow> bytes" where
  "Message err =
     (case map_of errorMessages (Code err) of
        Some m \<Rightarrow> m
      | None \<Rightarrow> (case map_of errorMessages ''internal_error'' of Some m \<Rightarrow> m | None \<Rightarrow> []))"

text \<open>The errors the data plane returns.\<close>

abbreviation invalid_request :: api_error where
  "invalid_request \<equiv> NewError ''invalid_request'' False"

abbreviation unauthorized :: api_error where
  "unauthorized \<equiv> NewError ''unauthorized'' False"

abbreviation internal_error :: api_error where
  "internal_error \<equiv> NewError ''internal_error'' True"

text \<open>Both tables have exactly the same codes, so no protocol error falls back to the default message.\<close>

lemma error_tables_agree: "map fst errorStatuses = map fst errorMessages"
  by (simp add: errorStatuses_def errorMessages_def)

lemma Message_known: "map_of errorStatuses (Code e) \<noteq> None \<longleftrightarrow> map_of errorMessages (Code e) \<noteq> None"
  by (simp add: map_of_eq_None_iff flip: set_map) (metis error_tables_agree set_map)

lemma NewError_inject [simp]: "NewError a b = NewError c d \<longleftrightarrow> a = c \<and> b = d"
  by (simp add: NewError_def)

lemma Code_NewError [simp]: "Code (NewError a b) = a" "Retryable (NewError a b) = b"
  by (simp_all add: NewError_def)

end
