(* ===== verification/Sql.thy ===== *)
theory Sql
  imports ModelLaws Api "HOL-Library.Product_Lexorder"
begin

text \<open>
  What the store uses of SQLite. A value of a column is a \<open>cell\<close> with SQLite's order of storage classes
  (NULL, integers, text, blobs; bytes compared lexicographically), a table a list of rows. A read of a
  column in the code is a pair \<^verbatim>\<open>octet_length(c)\<close>, \<^verbatim>\<open>CASE WHEN typeof(c) = ... THEN c END\<close> checked with
  the functions of \<^verbatim>\<open>store/bounds.go\<close>; the \<open>scan\<close> functions are those pairs, and their lemmas say which
  cells they accept. Statements that change a table check its constraints (\<open>sql_insert\<close>,
  \<open>sql_update\<close>) and fail where SQLite raises.

  A transaction is a function from the database to an error or to a value with the changed database;
  \<open>bindT\<close> is sequencing with early return. The locale \<open>tx_relation\<close> carries every proof that some
  relation between the database before and after holds for a composite transaction when it holds for
  its statements.
\<close>

section \<open>Cells\<close>

datatype cell = CNull | CInt int | CText bytes | CBlob bytes

fun cell_key :: "cell \<Rightarrow> nat \<times> int \<times> bytes" where
  "cell_key CNull = (0, 0, [])"
| "cell_key (CInt i) = (1, i, [])"
| "cell_key (CText s) = (2, 0, s)"
| "cell_key (CBlob s) = (3, 0, s)"

lemma cell_key_inj: "cell_key a = cell_key b \<longleftrightarrow> a = b"
  by (cases a; cases b) auto

instantiation cell :: linorder
begin

definition less_eq_cell :: "cell \<Rightarrow> cell \<Rightarrow> bool" where
  "less_eq_cell a b \<longleftrightarrow> cell_key a \<le> cell_key b"

definition less_cell :: "cell \<Rightarrow> cell \<Rightarrow> bool" where
  "less_cell a b \<longleftrightarrow> cell_key a < cell_key b"

instance
  by standard (auto simp: less_eq_cell_def less_cell_def less_le_not_le cell_key_inj)

end

lemma cell_less_simps [simp]:
  "CText a < CText b \<longleftrightarrow> a < b" "CBlob a < CBlob b \<longleftrightarrow> a < b" "CText a < CBlob b" "\<not> CBlob a < CText b"
  "CText a \<le> CText b \<longleftrightarrow> a \<le> b" "CBlob a \<le> CBlob b \<longleftrightarrow> a \<le> b" "CText a \<le> CBlob b" "\<not> CBlob a \<le> CText b"
  by (simp_all add: less_cell_def less_eq_cell_def)

fun octet_length :: "cell \<Rightarrow> int option" where
  "octet_length CNull = None"
| "octet_length (CInt i) = Some (int (length (FormatInt i)))"
| "octet_length (CText s) = Some (int (length s))"
| "octet_length (CBlob s) = Some (int (length s))"

text \<open>\<^verbatim>\<open>length\<close> counts the bytes of a blob and the characters of a text up to its first NUL.\<close>

definition text_chars :: "bytes \<Rightarrow> nat" where
  "text_chars s = length (filter (\<lambda>c. \<not> byte_in 128 191 c) (takeWhile (\<lambda>c. c \<noteq> CHR 0x00) s))"

fun sql_length :: "cell \<Rightarrow> int option" where
  "sql_length CNull = None"
| "sql_length (CInt i) = Some (int (length (FormatInt i)))"
| "sql_length (CText s) = Some (int (text_chars s))"
| "sql_length (CBlob s) = Some (int (length s))"

fun is_text :: "cell \<Rightarrow> bool" where
  "is_text (CText _) = True"
| "is_text _ = False"

fun is_blob :: "cell \<Rightarrow> bool" where
  "is_blob (CBlob _) = True"
| "is_blob _ = False"

text \<open>The bytes the driver hands over for a column, nil for NULL.\<close>

fun cell_bytes :: "cell \<Rightarrow> bytes option" where
  "cell_bytes CNull = None"
| "cell_bytes (CInt i) = Some (FormatInt i)"
| "cell_bytes (CText s) = Some s"
| "cell_bytes (CBlob s) = Some s"

section \<open>Bounds of scanned values\<close>

definition value_length :: "bytes option \<Rightarrow> int" where
  "value_length v = (case v of None \<Rightarrow> 0 | Some b \<Rightarrow> int (length b))"

definition boundedRequiredBytes :: "int \<Rightarrow> bytes option \<Rightarrow> int \<Rightarrow> bool" where
  "boundedRequiredBytes len value maximum \<longleftrightarrow> 0 < len \<and> len \<le> maximum \<and> value_length value = len"

definition boundedOptionalBytes :: "int option \<Rightarrow> bytes option \<Rightarrow> int \<Rightarrow> bool" where
  "boundedOptionalBytes len value maximum =
     (case len of None \<Rightarrow> value = None | Some l \<Rightarrow> boundedRequiredBytes l value maximum)"

definition boundedRequiredText :: "int \<Rightarrow> bytes option \<Rightarrow> int \<Rightarrow> bool" where
  "boundedRequiredText len value maximum \<longleftrightarrow>
     value \<noteq> None \<and> 0 < len \<and> len \<le> maximum \<and> value_length value = len"

definition boundedOptionalText :: "int option \<Rightarrow> bytes option \<Rightarrow> int \<Rightarrow> bool" where
  "boundedOptionalText len value maximum =
     (case len of None \<Rightarrow> value = None | Some l \<Rightarrow> boundedRequiredText l value maximum)"

section \<open>Scanning columns\<close>

text \<open>\<^verbatim>\<open>octet_length(c), CASE WHEN typeof(c) = 'text' AND octet_length(c) = n THEN c END\<close>.\<close>

definition scan_text :: "nat \<Rightarrow> cell \<Rightarrow> bytes option" where
  "scan_text n c =
     (case octet_length c of
        None \<Rightarrow> None
      | Some len \<Rightarrow>
         let value = (if is_text c \<and> len = int n then cell_bytes c else None)
         in if len \<noteq> int n \<or> \<not> boundedRequiredText len value (int n) then None else value)"

definition scan_blob :: "nat \<Rightarrow> cell \<Rightarrow> bytes option" where
  "scan_blob n c =
     (case octet_length c of
        None \<Rightarrow> None
      | Some len \<Rightarrow>
         let value = (if is_blob c \<and> len = int n then cell_bytes c else None)
         in if len \<noteq> int n \<or> \<not> boundedRequiredBytes len value (int n) then None else value)"

text \<open>The optional variants: NULL is accepted.\<close>

definition scan_opt_text :: "nat \<Rightarrow> cell \<Rightarrow> bytes option option" where
  "scan_opt_text n c =
     (let len = octet_length c;
          value = (if is_text c \<and> len = Some (int n) then cell_bytes c else None)
      in if \<not> boundedOptionalText len value (int n) \<or> len \<noteq> None \<and> len \<noteq> Some (int n) then None else Some value)"

definition scan_opt_blob :: "nat \<Rightarrow> cell \<Rightarrow> bytes option option" where
  "scan_opt_blob n c =
     (let len = octet_length c;
          value = (if is_blob c \<and> len = Some (int n) then cell_bytes c else None)
      in if \<not> boundedOptionalBytes len value (int n) \<or> len \<noteq> None \<and> len \<noteq> Some (int n) then None else Some value)"

text \<open>\<^verbatim>\<open>length(c), CASE WHEN length(c) BETWEEN 1 AND maximum THEN c END\<close>.\<close>

definition scan_body :: "nat \<Rightarrow> cell \<Rightarrow> bytes option" where
  "scan_body maximum c =
     (case sql_length c of
        None \<Rightarrow> None
      | Some len \<Rightarrow>
         let value = (if 1 \<le> len \<and> len \<le> int maximum then cell_bytes c else None)
         in if boundedRequiredBytes len value (int maximum) then value else None)"

definition scan_opt_body :: "nat \<Rightarrow> cell \<Rightarrow> bytes option option" where
  "scan_opt_body maximum c =
     (let len = sql_length c;
          value = (case len of None \<Rightarrow> None
                   | Some l \<Rightarrow> if 1 \<le> l \<and> l \<le> int maximum then cell_bytes c else None)
      in if boundedOptionalBytes len value (int maximum) then Some value else None)"

definition scan_uuid :: "cell \<Rightarrow> bytes option" where
  "scan_uuid c = (case scan_text maxUUIDBytes c of None \<Rightarrow> None | Some s \<Rightarrow> if validateUUID s then Some s else None)"

definition scan_uint64 :: "cell \<Rightarrow> uint64 option" where
  "scan_uint64 c = (case scan_blob 8 c of None \<Rightarrow> None | Some b \<Rightarrow> DecodeUint64 b)"

abbreviation uint64_cell :: "uint64 \<Rightarrow> cell" where
  "uint64_cell v \<equiv> CBlob (EncodeUint64 v)"

lemma scan_text_eq [sql_simps]: "0 < n \<Longrightarrow> scan_text n c = Some s \<longleftrightarrow> c = CText s \<and> length s = n"
  by (cases c) (auto simp: scan_text_def boundedRequiredText_def value_length_def Let_def split: if_splits)

lemma scan_blob_eq [sql_simps]: "0 < n \<Longrightarrow> scan_blob n c = Some s \<longleftrightarrow> c = CBlob s \<and> length s = n"
  by (cases c) (auto simp: scan_blob_def boundedRequiredBytes_def value_length_def Let_def split: if_splits)

lemma scan_opt_text_eq [sql_simps]:
  "0 < n \<Longrightarrow> scan_opt_text n c = Some v \<longleftrightarrow>
     c = CNull \<and> v = None \<or> (\<exists>s. c = CText s \<and> length s = n \<and> v = Some s)"
  by (cases c) (auto simp: scan_opt_text_def boundedOptionalText_def boundedRequiredText_def value_length_def Let_def split: if_splits)

lemma scan_opt_blob_eq [sql_simps]:
  "0 < n \<Longrightarrow> scan_opt_blob n c = Some v \<longleftrightarrow>
     c = CNull \<and> v = None \<or> (\<exists>s. c = CBlob s \<and> length s = n \<and> v = Some s)"
  by (cases c) (auto simp: scan_opt_blob_def boundedOptionalBytes_def boundedRequiredBytes_def value_length_def Let_def split: if_splits)

lemma scan_body_blob [sql_simps]: "scan_body m (CBlob b) = Some s \<longleftrightarrow> s = b \<and> 1 \<le> length b \<and> length b \<le> m"
  by (auto simp: scan_body_def boundedRequiredBytes_def value_length_def Let_def)

lemma scan_body_bounds: "scan_body m c = Some s \<Longrightarrow> 1 \<le> length s \<and> length s \<le> m \<and> cell_bytes c = Some s"
  by (auto simp: scan_body_def boundedRequiredBytes_def value_length_def Let_def split: option.splits if_splits)

lemma scan_text_CText: "0 < n \<Longrightarrow> scan_text n (CText s) = (if length s = n then Some s else None)"
  by (simp add: scan_text_def boundedRequiredText_def value_length_def Let_def)

lemma scan_blob_CBlob: "0 < n \<Longrightarrow> scan_blob n (CBlob s) = (if length s = n then Some s else None)"
  by (simp add: scan_blob_def boundedRequiredBytes_def value_length_def Let_def)

lemma scan_uuid_eq [sql_simps]: "scan_uuid c = Some s \<longleftrightarrow> c = CText s \<and> validateUUID s"
  using validateUUID_length[of s]
  by (auto simp: scan_uuid_def scan_text_eq scan_text_CText maxUUIDBytes_def split: option.splits if_splits)

lemma scan_uint64_eq [sql_simps]: "scan_uint64 c = Some v \<longleftrightarrow> c = uint64_cell v"
  by (auto simp: scan_uint64_def scan_blob_eq scan_blob_CBlob DecodeUint64_eq_Some length_EncodeUint64 split: option.splits)

lemma scan_uint64_cell [simp]: "scan_uint64 (uint64_cell v) = Some v"
  by (simp add: scan_uint64_eq)

section \<open>Statements\<close>

definition sql_insert :: "('r \<Rightarrow> bool) \<Rightarrow> ('r \<Rightarrow> 'r \<Rightarrow> bool) \<Rightarrow> 'r \<Rightarrow> 'r list \<Rightarrow> 'r list option" where
  "sql_insert check clash row rows =
     (if check row \<and> \<not> list_ex (clash row) rows then Some (rows @ [row]) else None)"

definition sql_set :: "('r \<Rightarrow> bool) \<Rightarrow> ('r \<Rightarrow> 'r) \<Rightarrow> 'r list \<Rightarrow> 'r list" where
  "sql_set p f rows = map (\<lambda>r. if p r then f r else r) rows"

definition sql_update ::
  "('r \<Rightarrow> bool) \<Rightarrow> ('r \<Rightarrow> 'r \<Rightarrow> bool) \<Rightarrow> ('r \<Rightarrow> bool) \<Rightarrow> ('r \<Rightarrow> 'r) \<Rightarrow> 'r list \<Rightarrow> 'r list option" where
  "sql_update check clash p f rows =
     (if list_all (\<lambda>r. \<not> p r \<or> check (f r)) rows \<and> sorted_wrt (\<lambda>a b. \<not> clash a b) (sql_set p f rows)
      then Some (sql_set p f rows) else None)"

definition sql_delete :: "('r \<Rightarrow> bool) \<Rightarrow> 'r list \<Rightarrow> 'r list" where
  "sql_delete p rows = filter (\<lambda>r. \<not> p r) rows"

text \<open>\<^verbatim>\<open>ORDER BY key LIMIT n\<close> and the first row of a query (\<^verbatim>\<open>QueryRow\<close>).\<close>

definition sql_query :: "('r \<Rightarrow> 'k :: linorder) \<Rightarrow> ('r \<Rightarrow> bool) \<Rightarrow> 'r list \<Rightarrow> 'r list" where
  "sql_query key p rows = sort_key key (filter p rows)"

lemma sql_insert_eq_Some [sql_simps]:
  "sql_insert check clash row rows = Some rows' \<longleftrightarrow>
     check row \<and> (\<forall>r\<in>set rows. \<not> clash row r) \<and> rows' = rows @ [row]"
  by (auto simp: sql_insert_def list_ex_iff)

lemma set_sql_set: "set (sql_set p f rows) = f ` {r \<in> set rows. p r} \<union> {r \<in> set rows. \<not> p r}"
  by (auto simp: sql_set_def)

lemma set_sql_delete [simp]: "set (sql_delete p rows) = {r \<in> set rows. \<not> p r}"
  by (auto simp: sql_delete_def)

lemma set_sql_query [simp]: "set (sql_query key p rows) = {r \<in> set rows. p r}"
  by (auto simp: sql_query_def)

lemma sorted_sql_query [simp]: "sorted (map key (sql_query key p rows))"
  by (simp add: sql_query_def)

section \<open>Key ranges\<close>

text \<open>\<^verbatim>\<open>receiptKeyPrefixBounds\<close>: the upper bound increments the last byte of the key.\<close>

definition prefix_upper :: "bytes \<Rightarrow> bytes" where
  "prefix_upper value = butlast value @ [char_of ((of_char (last value) + 1) mod 256 :: nat)]"

lemma bytes_prefix_range:
  fixes t s :: bytes
  assumes "(of_char c :: nat) < 255"
  shows "t @ [c] \<le> s \<and> s < t @ [char_of (of_char c + 1 :: nat)] \<longleftrightarrow> prefix (t @ [c]) s"
proof (induction t arbitrary: s)
  case Nil
  have succ: "c < d \<longrightarrow> \<not> d < char_of (of_char c + 1 :: nat)" for d
    using assms by (auto simp: less_char_def of_char_of)
  have lt: "c < char_of (of_char c + 1 :: nat)"
    using assms by (simp add: less_char_def of_char_of)
  show ?case
  proof (cases s)
    case (Cons d ds)
    then show ?thesis using succ[of d] lt by (cases ds) (auto simp: le_less)
  qed simp
next
  case (Cons x t)
  show ?case
  proof (cases s)
    case (Cons d ds)
    then show ?thesis using Cons.IH[of ds] by (auto simp: less_le_not_le)
  qed simp
qed

lemma prefix_range_iff:
  assumes "validateUUID k"
  shows "k \<le> s \<and> s < prefix_upper k \<longleftrightarrow> prefix k s"
proof -
  obtain t c where k: "k = t @ [c]" "(of_char c :: nat) < 255" using assms by (rule validateUUID_snoc)
  then have "prefix_upper k = t @ [char_of (of_char c + 1 :: nat)]" by (simp add: prefix_upper_def)
  with bytes_prefix_range[OF k(2), of t s] k(1) show ?thesis by simp
qed

section \<open>Transactions\<close>

definition bindT :: "('s \<Rightarrow> 'e + ('a \<times> 's)) \<Rightarrow> ('a \<Rightarrow> 's \<Rightarrow> 'e + ('b \<times> 's)) \<Rightarrow> 's \<Rightarrow> 'e + ('b \<times> 's)" where
  "bindT m f s = (case m s of Inl e \<Rightarrow> Inl e | Inr (x, s') \<Rightarrow> f x s')"

definition returnT :: "'a \<Rightarrow> 's \<Rightarrow> 'e + ('a \<times> 's)" where
  "returnT x s = Inr (x, s)"

definition failT :: "'e \<Rightarrow> 's \<Rightarrow> 'e + ('a \<times> 's)" where
  "failT e s = Inl e"

definition guardT :: "bool \<Rightarrow> 'e \<Rightarrow> 's \<Rightarrow> 'e + (unit \<times> 's)" where
  "guardT b e s = (if b then Inr ((), s) else Inl e)"

text \<open>A read of the database, and a statement that changes it or raises.\<close>

definition readT :: "('s \<Rightarrow> 'e + 'a) \<Rightarrow> 's \<Rightarrow> 'e + ('a \<times> 's)" where
  "readT q s = (case q s of Inl e \<Rightarrow> Inl e | Inr x \<Rightarrow> Inr (x, s))"

definition execT :: "'e \<Rightarrow> ('s \<Rightarrow> 's option) \<Rightarrow> 's \<Rightarrow> 'e + (unit \<times> 's)" where
  "execT e f s = (case f s of None \<Rightarrow> Inl e | Some s' \<Rightarrow> Inr ((), s'))"

fun forT :: "('a \<Rightarrow> 's \<Rightarrow> 'e + (unit \<times> 's)) \<Rightarrow> 'a list \<Rightarrow> 's \<Rightarrow> 'e + (unit \<times> 's)" where
  "forT f [] = returnT ()"
| "forT f (x # xs) = bindT (f x) (\<lambda>_. forT f xs)"

lemma bindT_eq_Inr [result_simps]:
  "bindT m f s = Inr r \<longleftrightarrow> (\<exists>x s'. m s = Inr (x, s') \<and> f x s' = Inr r)"
  by (auto simp: bindT_def split: sum.splits prod.splits)

lemma returnT_eq_Inr [result_simps]: "returnT x s = Inr r \<longleftrightarrow> r = (x, s)"
  by (auto simp: returnT_def)

lemma failT_eq_Inr [result_simps]: "failT e s = Inr r \<longleftrightarrow> False"
  by (simp add: failT_def)

lemma guardT_eq_Inr [result_simps]: "guardT b e s = Inr r \<longleftrightarrow> b \<and> r = ((), s)"
  by (auto simp: guardT_def)

lemma readT_eq_Inr [result_simps]: "readT q s = Inr r \<longleftrightarrow> (\<exists>x. q s = Inr x \<and> r = (x, s))"
  by (auto simp: readT_def split: sum.splits)

lemma execT_eq_Inr [result_simps]: "execT e f s = Inr r \<longleftrightarrow> (\<exists>s'. f s = Some s' \<and> r = ((), s'))"
  by (auto simp: execT_def split: option.splits)

definition tx_rel :: "('s \<Rightarrow> 's \<Rightarrow> bool) \<Rightarrow> ('s \<Rightarrow> 'e + ('a \<times> 's)) \<Rightarrow> bool" where
  "tx_rel R m \<longleftrightarrow> (\<forall>s x s'. m s = Inr (x, s') \<longrightarrow> R s s')"

lemma tx_relD: "tx_rel R m \<Longrightarrow> m s = Inr (x, s') \<Longrightarrow> R s s'"
  by (auto simp: tx_rel_def)

locale tx_relation =
  fixes R :: "'s \<Rightarrow> 's \<Rightarrow> bool"
  assumes refl_rel: "R s s"
    and trans_rel: "R s t \<Longrightarrow> R t u \<Longrightarrow> R s u"
begin

lemma rel_bindT: "tx_rel R m \<Longrightarrow> (\<And>x. tx_rel R (f x)) \<Longrightarrow> tx_rel R (bindT m f)"
  unfolding tx_rel_def by (fastforce simp: bindT_eq_Inr intro: trans_rel)

lemma rel_pure: "tx_rel R (returnT x)" "tx_rel R (failT e)" "tx_rel R (guardT b e)" "tx_rel R (readT q)"
  by (auto simp: tx_rel_def refl_rel result_simps)

lemma rel_if: "(b \<Longrightarrow> tx_rel R m) \<Longrightarrow> (\<not> b \<Longrightarrow> tx_rel R n) \<Longrightarrow> tx_rel R (if b then m else n)"
  by simp

lemma rel_option: "tx_rel R m \<Longrightarrow> (\<And>x. tx_rel R (f x)) \<Longrightarrow> tx_rel R (case v of None \<Rightarrow> m | Some x \<Rightarrow> f x)"
  by (cases v) simp_all

lemma rel_prod: "(\<And>a b. tx_rel R (f a b)) \<Longrightarrow> tx_rel R (case p of (a, b) \<Rightarrow> f a b)"
  by (cases p) simp

lemma rel_forT: "(\<And>x. tx_rel R (f x)) \<Longrightarrow> tx_rel R (forT f xs)"
  by (induction xs) (auto intro: rel_bindT rel_pure)

lemma rel_execT: "(\<And>s s'. f s = Some s' \<Longrightarrow> R s s') \<Longrightarrow> tx_rel R (execT e f)"
  by (auto simp: tx_rel_def result_simps)

lemmas rel_rules = rel_bindT rel_pure rel_if rel_option rel_prod rel_forT

end

end
