(* ===== verification/Schema.thy ===== *)
theory Schema
  imports Sql
begin

text \<open>
  The tables of \<^verbatim>\<open>store/schema.go\<close>: one row record per \<^verbatim>\<open>CREATE TABLE\<close> statement, its \<^verbatim>\<open>CHECK\<close>,
  \<^verbatim>\<open>NOT NULL\<close> and \<^verbatim>\<open>STRICT\<close> typing constraints as \<open>check_t\<close> and its \<^verbatim>\<open>PRIMARY KEY\<close> and \<^verbatim>\<open>UNIQUE\<close>
  constraints as \<open>clash_t\<close> (two rows that cannot both be stored; NULL is never equal to anything).
  The singleton tables \<^verbatim>\<open>runtime_state\<close> and \<^verbatim>\<open>vault_envelope\<close> are a row and an optional row. The record
  \<open>db\<close> holds all tables; each \<open>insert_t\<close> is the \<^verbatim>\<open>INSERT\<close> into one table with its foreign keys checked.
  \<^verbatim>\<open>instance_metadata\<close> is the \<open>Identity\<close> the store keeps in memory.
\<close>

definition text_col :: "nat \<Rightarrow> cell \<Rightarrow> bool" where
  "text_col n c \<longleftrightarrow> is_text c \<and> sql_length c = Some (int n)"

definition blob_col :: "nat \<Rightarrow> cell \<Rightarrow> bool" where
  "blob_col n c \<longleftrightarrow> is_blob c \<and> sql_length c = Some (int n)"

definition opt_col :: "(cell \<Rightarrow> bool) \<Rightarrow> cell \<Rightarrow> bool" where
  "opt_col p c \<longleftrightarrow> c = CNull \<or> p c"

definition same :: "cell \<Rightarrow> cell \<Rightarrow> bool" where
  "same a b \<longleftrightarrow> a = b \<and> a \<noteq> CNull"

definition change_kinds :: "cell set" where
  "change_kinds = {CText ''record_revision'', CText ''collection_marker'', CText ''envelope_changed'', CText ''device_changed''}"

section \<open>Tables\<close>

record devices_row =
  d_device_id :: cell
  d_token_hash :: cell
  d_scopes_json :: cell
  d_created_at_ms :: int
  d_revoked_at_ms :: "int option"
  d_last_sync_at_ms :: "int option"
  d_last_ack_cursor :: cell
  d_max_author_counter :: cell

definition check_devices :: "devices_row \<Rightarrow> bool" where
  "check_devices r \<longleftrightarrow>
     text_col 36 (d_device_id r)
     \<and> blob_col 32 (d_token_hash r)
     \<and> is_text (d_scopes_json r)
     \<and> blob_col 8 (d_last_ack_cursor r)
     \<and> blob_col 8 (d_max_author_counter r)
     \<and> (case d_revoked_at_ms r of None \<Rightarrow> True | Some t \<Rightarrow> d_created_at_ms r \<le> t)
     \<and> (case d_last_sync_at_ms r of None \<Rightarrow> True | Some t \<Rightarrow> d_created_at_ms r \<le> t)"

definition clash_devices :: "devices_row \<Rightarrow> devices_row \<Rightarrow> bool" where
  "clash_devices r s \<longleftrightarrow>
     same (d_device_id r) (d_device_id s)
     \<or> same (d_token_hash r) (d_token_hash s)"

record device_origins_row =
  do_device_id :: cell
  do_origin_kind :: cell
  do_created_cursor :: cell
  do_revoked_cursor :: cell
  do_baseline_revoked :: int

definition check_device_origins :: "device_origins_row \<Rightarrow> bool" where
  "check_device_origins r \<longleftrightarrow>
     is_text (do_device_id r)
     \<and> do_origin_kind r \<in> {CText ''baseline'', CText ''enrolled''}
     \<and> opt_col (blob_col 8) (do_created_cursor r)
     \<and> opt_col (blob_col 8) (do_revoked_cursor r)
     \<and> do_baseline_revoked r \<in> {0, 1}
     \<and> ((do_origin_kind r = CText ''enrolled'') = (do_created_cursor r \<noteq> CNull))
     \<and> (do_origin_kind r = CText ''baseline'' \<or> do_baseline_revoked r = 0)
     \<and> (do_baseline_revoked r = 0 \<or> do_revoked_cursor r = CNull)
     \<and> (do_revoked_cursor r = CNull \<or> do_created_cursor r = CNull \<or> do_revoked_cursor r \<noteq> do_created_cursor r)"

definition clash_device_origins :: "device_origins_row \<Rightarrow> device_origins_row \<Rightarrow> bool" where
  "clash_device_origins r s \<longleftrightarrow>
     same (do_device_id r) (do_device_id s)
     \<or> same (do_created_cursor r) (do_created_cursor s)
     \<or> same (do_revoked_cursor r) (do_revoked_cursor s)"

record runtime_state_row =
  rt_server_cursor :: cell
  rt_cursor_floor :: cell
  rt_envelope_generation :: cell
  rt_instance_secret_generation :: cell
  rt_collection_generation :: cell
  rt_accumulated_uptime_ms :: cell
  rt_active_boot_id :: cell
  rt_collection_scan_after_record_id :: cell

definition check_runtime_state :: "runtime_state_row \<Rightarrow> bool" where
  "check_runtime_state r \<longleftrightarrow>
     blob_col 8 (rt_server_cursor r)
     \<and> blob_col 8 (rt_cursor_floor r)
     \<and> blob_col 8 (rt_envelope_generation r)
     \<and> blob_col 8 (rt_instance_secret_generation r)
     \<and> blob_col 8 (rt_collection_generation r)
     \<and> blob_col 8 (rt_accumulated_uptime_ms r)
     \<and> opt_col (blob_col 16) (rt_active_boot_id r)
     \<and> (rt_collection_scan_after_record_id r = CText [] \<or> text_col 36 (rt_collection_scan_after_record_id r))"

record device_sync_state_row =
  ds_device_id :: cell
  ds_max_returned_cursor :: cell

definition check_device_sync_state :: "device_sync_state_row \<Rightarrow> bool" where
  "check_device_sync_state r \<longleftrightarrow>
     is_text (ds_device_id r)
     \<and> blob_col 8 (ds_max_returned_cursor r)"

definition clash_device_sync_state :: "device_sync_state_row \<Rightarrow> device_sync_state_row \<Rightarrow> bool" where
  "clash_device_sync_state r s \<longleftrightarrow>
     same (ds_device_id r) (ds_device_id s)"

record enrollment_grants_row =
  eg_grant_hash :: cell
  eg_boot_id :: cell
  eg_expires_at_ms :: int
  eg_consumed_enrollment_id :: cell

definition check_enrollment_grants :: "enrollment_grants_row \<Rightarrow> bool" where
  "check_enrollment_grants r \<longleftrightarrow>
     blob_col 32 (eg_grant_hash r)
     \<and> blob_col 16 (eg_boot_id r)
     \<and> opt_col is_text (eg_consumed_enrollment_id r)"

definition clash_enrollment_grants :: "enrollment_grants_row \<Rightarrow> enrollment_grants_row \<Rightarrow> bool" where
  "clash_enrollment_grants r s \<longleftrightarrow>
     same (eg_grant_hash r) (eg_grant_hash s)"

record enrollments_row =
  en_enrollment_id :: cell
  en_device_id :: cell
  en_created_cursor :: cell
  en_token_hash :: cell
  en_scopes_json :: cell
  en_request_fingerprint :: cell
  en_response_json :: cell
  en_created_status :: int

definition check_enrollments :: "enrollments_row \<Rightarrow> bool" where
  "check_enrollments r \<longleftrightarrow>
     text_col 36 (en_enrollment_id r)
     \<and> is_text (en_device_id r)
     \<and> blob_col 8 (en_created_cursor r)
     \<and> blob_col 32 (en_token_hash r)
     \<and> is_text (en_scopes_json r)
     \<and> blob_col 32 (en_request_fingerprint r)
     \<and> is_blob (en_response_json r)
     \<and> (en_created_status r = 201)"

definition clash_enrollments :: "enrollments_row \<Rightarrow> enrollments_row \<Rightarrow> bool" where
  "clash_enrollments r s \<longleftrightarrow>
     same (en_enrollment_id r) (en_enrollment_id s)
     \<or> same (en_device_id r) (en_device_id s)
     \<or> same (en_created_cursor r) (en_created_cursor s)"

record vault_envelope_row =
  vb_generation :: cell
  vb_envelope_json :: cell

definition check_vault_envelope :: "vault_envelope_row \<Rightarrow> bool" where
  "check_vault_envelope r \<longleftrightarrow>
     blob_col 8 (vb_generation r)
     \<and> is_blob (vb_envelope_json r)"

record revision_objects_row =
  ro_content_hash :: cell
  ro_revision_json :: cell

definition check_revision_objects :: "revision_objects_row \<Rightarrow> bool" where
  "check_revision_objects r \<longleftrightarrow>
     blob_col 32 (ro_content_hash r)
     \<and> is_blob (ro_revision_json r)
     \<and> ro_revision_json r \<noteq> CBlob []"

definition clash_revision_objects :: "revision_objects_row \<Rightarrow> revision_objects_row \<Rightarrow> bool" where
  "clash_revision_objects r s \<longleftrightarrow>
     same (ro_content_hash r) (ro_content_hash s)"

record record_revisions_row =
  rv_revision_id :: cell
  rv_record_id :: cell
  rv_author_device_id :: cell
  rv_author_counter :: cell
  rv_vector_json :: cell
  rv_collection_witness_authenticator :: cell
  rv_tombstone :: int
  rv_content_hash :: cell
  rv_received_at_ms :: int
  rv_accepted_uptime_ms :: cell
  rv_change_cursor :: cell
  rv_collected_generation :: cell
  rv_retained :: int
  rv_undominated :: int

definition check_record_revisions :: "record_revisions_row \<Rightarrow> bool" where
  "check_record_revisions r \<longleftrightarrow>
     text_col 36 (rv_revision_id r)
     \<and> text_col 36 (rv_record_id r)
     \<and> text_col 36 (rv_author_device_id r)
     \<and> blob_col 8 (rv_author_counter r)
     \<and> is_blob (rv_vector_json r)
     \<and> opt_col is_blob (rv_collection_witness_authenticator r)
     \<and> rv_tombstone r \<in> {0, 1}
     \<and> blob_col 32 (rv_content_hash r)
     \<and> blob_col 8 (rv_accepted_uptime_ms r)
     \<and> blob_col 8 (rv_change_cursor r)
     \<and> opt_col (blob_col 8) (rv_collected_generation r)
     \<and> rv_retained r \<in> {0, 1}
     \<and> rv_undominated r \<in> {0, 1}
     \<and> (rv_retained r = 1 \<or> rv_undominated r = 0)
     \<and> ((rv_retained r = 0) = (rv_collected_generation r \<noteq> CNull))"

definition clash_record_revisions :: "record_revisions_row \<Rightarrow> record_revisions_row \<Rightarrow> bool" where
  "clash_record_revisions r s \<longleftrightarrow>
     same (rv_revision_id r) (rv_revision_id s)
     \<or> same (rv_change_cursor r) (rv_change_cursor s)
     \<or> same (rv_author_device_id r) (rv_author_device_id s) \<and> same (rv_author_counter r) (rv_author_counter s)
     \<or> same (rv_record_id r) (rv_record_id s) \<and> same (rv_revision_id r) (rv_revision_id s)"

record revision_acceptance_origins_row =
  ao_revision_id :: cell
  ao_accepted_uptime_ms :: cell

definition check_revision_acceptance_origins :: "revision_acceptance_origins_row \<Rightarrow> bool" where
  "check_revision_acceptance_origins r \<longleftrightarrow>
     text_col 36 (ao_revision_id r)
     \<and> blob_col 8 (ao_accepted_uptime_ms r)"

definition clash_revision_acceptance_origins :: "revision_acceptance_origins_row \<Rightarrow> revision_acceptance_origins_row \<Rightarrow> bool" where
  "clash_revision_acceptance_origins r s \<longleftrightarrow>
     same (ao_revision_id r) (ao_revision_id s)"

record collection_records_row =
  cr_record_id :: cell
  cr_barrier_cursor :: cell

definition check_collection_records :: "collection_records_row \<Rightarrow> bool" where
  "check_collection_records r \<longleftrightarrow>
     text_col 36 (cr_record_id r)
     \<and> blob_col 8 (cr_barrier_cursor r)"

definition clash_collection_records :: "collection_records_row \<Rightarrow> collection_records_row \<Rightarrow> bool" where
  "clash_collection_records r s \<longleftrightarrow>
     same (cr_record_id r) (cr_record_id s)"

record record_heads_row =
  rh_record_id :: cell
  rh_revision_id :: cell

definition check_record_heads :: "record_heads_row \<Rightarrow> bool" where
  "check_record_heads r \<longleftrightarrow>
     text_col 36 (rh_record_id r)
     \<and> text_col 36 (rh_revision_id r)"

definition clash_record_heads :: "record_heads_row \<Rightarrow> record_heads_row \<Rightarrow> bool" where
  "clash_record_heads r s \<longleftrightarrow>
     same (rh_record_id r) (rh_record_id s) \<and> same (rh_revision_id r) (rh_revision_id s)"

record record_vector_index_row =
  vi_record_id :: cell
  vi_vector_hash :: cell
  vi_revision_id :: cell

definition check_record_vector_index :: "record_vector_index_row \<Rightarrow> bool" where
  "check_record_vector_index r \<longleftrightarrow>
     text_col 36 (vi_record_id r)
     \<and> blob_col 32 (vi_vector_hash r)
     \<and> text_col 36 (vi_revision_id r)"

definition clash_record_vector_index :: "record_vector_index_row \<Rightarrow> record_vector_index_row \<Rightarrow> bool" where
  "clash_record_vector_index r s \<longleftrightarrow>
     same (vi_record_id r) (vi_record_id s) \<and> same (vi_vector_hash r) (vi_vector_hash s) \<and> same (vi_revision_id r) (vi_revision_id s)"

record collection_candidates_row =
  cc_record_id :: cell
  cc_accepted_uptime_ms :: cell
  cc_revision_id :: cell

definition check_collection_candidates :: "collection_candidates_row \<Rightarrow> bool" where
  "check_collection_candidates r \<longleftrightarrow>
     text_col 36 (cc_record_id r)
     \<and> blob_col 8 (cc_accepted_uptime_ms r)
     \<and> text_col 36 (cc_revision_id r)"

definition clash_collection_candidates :: "collection_candidates_row \<Rightarrow> collection_candidates_row \<Rightarrow> bool" where
  "clash_collection_candidates r s \<longleftrightarrow>
     same (cc_record_id r) (cc_record_id s) \<and> same (cc_accepted_uptime_ms r) (cc_accepted_uptime_ms s) \<and> same (cc_revision_id r) (cc_revision_id s)"

record collection_markers_row =
  mk_record_id :: cell
  mk_witness_revision_id :: cell
  mk_frontier_json :: cell
  mk_collection_witness_authenticator :: cell
  mk_barrier_cursor :: cell
  mk_marker_json :: cell
  mk_change_cursor :: cell
  mk_received_at_ms :: int

definition check_collection_markers :: "collection_markers_row \<Rightarrow> bool" where
  "check_collection_markers r \<longleftrightarrow>
     text_col 36 (mk_record_id r)
     \<and> text_col 36 (mk_witness_revision_id r)
     \<and> is_blob (mk_frontier_json r)
     \<and> blob_col 32 (mk_collection_witness_authenticator r)
     \<and> blob_col 8 (mk_barrier_cursor r)
     \<and> is_blob (mk_marker_json r)
     \<and> blob_col 8 (mk_change_cursor r)"

definition clash_collection_markers :: "collection_markers_row \<Rightarrow> collection_markers_row \<Rightarrow> bool" where
  "clash_collection_markers r s \<longleftrightarrow>
     same (mk_record_id r) (mk_record_id s)
     \<or> same (mk_change_cursor r) (mk_change_cursor s)"

record change_origins_row =
  co_cursor :: cell
  co_kind :: cell
  co_envelope_generation :: cell

definition check_change_origins :: "change_origins_row \<Rightarrow> bool" where
  "check_change_origins r \<longleftrightarrow>
     blob_col 8 (co_cursor r)
     \<and> co_kind r \<in> change_kinds
     \<and> opt_col (blob_col 8) (co_envelope_generation r)
     \<and> ((co_kind r = CText ''envelope_changed'') = (co_envelope_generation r \<noteq> CNull))"

definition clash_change_origins :: "change_origins_row \<Rightarrow> change_origins_row \<Rightarrow> bool" where
  "clash_change_origins r s \<longleftrightarrow>
     same (co_cursor r) (co_cursor s)
     \<or> same (co_envelope_generation r) (co_envelope_generation s)
     \<or> same (co_cursor r) (co_cursor s) \<and> same (co_kind r) (co_kind s)"

record changes_row =
  cg_cursor :: cell
  cg_kind :: cell
  cg_received_at_ms :: int
  cg_record_revision_id :: cell
  cg_collection_marker_record_id :: cell
  cg_collection_marker_json :: cell
  cg_device_changed_id :: cell
  cg_device_change_kind :: cell

definition check_changes :: "changes_row \<Rightarrow> bool" where
  "check_changes r \<longleftrightarrow>
     blob_col 8 (cg_cursor r)
     \<and> cg_kind r \<in> change_kinds
     \<and> opt_col is_text (cg_record_revision_id r)
     \<and> opt_col is_text (cg_collection_marker_record_id r)
     \<and> opt_col is_blob (cg_collection_marker_json r)
     \<and> opt_col is_text (cg_device_changed_id r)
     \<and> cg_device_change_kind r \<in> {CNull, CText ''enrolled'', CText ''revoked''}
     \<and> ((cg_kind r = CText ''record_revision'') = (cg_record_revision_id r \<noteq> CNull))
     \<and> ((cg_kind r = CText ''collection_marker'') = (cg_collection_marker_record_id r \<noteq> CNull))
     \<and> ((cg_kind r = CText ''collection_marker'') = (cg_collection_marker_json r \<noteq> CNull))
     \<and> ((cg_kind r = CText ''device_changed'') = (cg_device_changed_id r \<noteq> CNull))
     \<and> ((cg_kind r = CText ''device_changed'') = (cg_device_change_kind r \<noteq> CNull))
     \<and> opt_col (text_col 36) (cg_device_changed_id r)"

definition clash_changes :: "changes_row \<Rightarrow> changes_row \<Rightarrow> bool" where
  "clash_changes r s \<longleftrightarrow>
     same (cg_cursor r) (cg_cursor s)"

record operation_receipts_row =
  or_receipt_sequence :: int
  or_device_id :: cell
  or_operation :: cell
  or_request_id :: cell
  or_request_fingerprint :: cell
  or_response_status :: int
  or_response_json :: cell
  or_created_at_ms :: int
  or_created_uptime_ms :: cell

definition check_operation_receipts :: "operation_receipts_row \<Rightarrow> bool" where
  "check_operation_receipts r \<longleftrightarrow>
     text_col 36 (or_device_id r)
     \<and> is_text (or_operation r)
     \<and> text_col 36 (or_request_id r)
     \<and> blob_col 32 (or_request_fingerprint r)
     \<and> (or_response_status r = 200)
     \<and> is_blob (or_response_json r)
     \<and> blob_col 8 (or_created_uptime_ms r)"

definition clash_operation_receipts :: "operation_receipts_row \<Rightarrow> operation_receipts_row \<Rightarrow> bool" where
  "clash_operation_receipts r s \<longleftrightarrow>
     or_receipt_sequence r = or_receipt_sequence s
     \<or> same (or_device_id r) (or_device_id s) \<and> same (or_operation r) (or_operation s) \<and> same (or_request_id r) (or_request_id s)"

record operation_receipt_retention_row =
  ot_device_id :: cell
  ot_receipt_class :: cell
  ot_receipt_sequence :: int
  ot_created_uptime_ms :: cell

definition check_operation_receipt_retention :: "operation_receipt_retention_row \<Rightarrow> bool" where
  "check_operation_receipt_retention r \<longleftrightarrow>
     text_col 36 (ot_device_id r)
     \<and> ot_receipt_class r \<in> {CText ''sync'', CText ''other''}
     \<and> blob_col 8 (ot_created_uptime_ms r)"

definition clash_operation_receipt_retention :: "operation_receipt_retention_row \<Rightarrow> operation_receipt_retention_row \<Rightarrow> bool" where
  "clash_operation_receipt_retention r s \<longleftrightarrow>
     same (ot_device_id r) (ot_device_id s) \<and> same (ot_receipt_class r) (ot_receipt_class s) \<and> ot_receipt_sequence r = ot_receipt_sequence s
     \<or> ot_receipt_sequence r = ot_receipt_sequence s"

record token_rotations_row =
  tr_rotation_id :: cell
  tr_device_id :: cell
  tr_old_token_hash :: cell
  tr_new_token_hash :: cell
  tr_request_fingerprint :: cell
  tr_response_json :: cell
  tr_created_at_ms :: int

definition check_token_rotations :: "token_rotations_row \<Rightarrow> bool" where
  "check_token_rotations r \<longleftrightarrow>
     text_col 36 (tr_rotation_id r)
     \<and> text_col 36 (tr_device_id r)
     \<and> blob_col 32 (tr_old_token_hash r)
     \<and> blob_col 32 (tr_new_token_hash r)
     \<and> blob_col 32 (tr_request_fingerprint r)
     \<and> is_blob (tr_response_json r)"

definition clash_token_rotations :: "token_rotations_row \<Rightarrow> token_rotations_row \<Rightarrow> bool" where
  "clash_token_rotations r s \<longleftrightarrow>
     same (tr_rotation_id r) (tr_rotation_id s)"

record self_revocation_receipts_row =
  sv_device_id :: cell
  sv_request_id :: cell
  sv_body_fingerprint :: cell
  sv_pre_revocation_token_hash :: cell
  sv_response_status :: int
  sv_response_headers_json :: cell
  sv_response_json :: cell

definition check_self_revocation_receipts :: "self_revocation_receipts_row \<Rightarrow> bool" where
  "check_self_revocation_receipts r \<longleftrightarrow>
     text_col 36 (sv_device_id r)
     \<and> text_col 36 (sv_request_id r)
     \<and> blob_col 32 (sv_body_fingerprint r)
     \<and> blob_col 32 (sv_pre_revocation_token_hash r)
     \<and> (sv_response_status r = 200)
     \<and> is_blob (sv_response_headers_json r)
     \<and> is_blob (sv_response_json r)"

definition clash_self_revocation_receipts :: "self_revocation_receipts_row \<Rightarrow> self_revocation_receipts_row \<Rightarrow> bool" where
  "clash_self_revocation_receipts r s \<longleftrightarrow>
     same (sv_device_id r) (sv_device_id s)"

record snapshots_row =
  sn_snapshot_id :: cell
  sn_owner_device_id :: cell
  sn_request_id :: cell
  sn_request_fingerprint :: cell
  sn_cut_cursor :: cell
  sn_envelope_generation :: cell
  sn_collection_generation :: cell
  sn_expires_at_ms :: int
  sn_metadata_bytes :: int
  sn_create_response_json :: cell

definition check_snapshots :: "snapshots_row \<Rightarrow> bool" where
  "check_snapshots r \<longleftrightarrow>
     text_col 36 (sn_snapshot_id r)
     \<and> text_col 36 (sn_owner_device_id r)
     \<and> text_col 36 (sn_request_id r)
     \<and> blob_col 32 (sn_request_fingerprint r)
     \<and> blob_col 8 (sn_cut_cursor r)
     \<and> blob_col 8 (sn_envelope_generation r)
     \<and> blob_col 8 (sn_collection_generation r)
     \<and> 0 \<le> sn_metadata_bytes r
     \<and> is_blob (sn_create_response_json r)"

definition clash_snapshots :: "snapshots_row \<Rightarrow> snapshots_row \<Rightarrow> bool" where
  "clash_snapshots r s \<longleftrightarrow>
     same (sn_snapshot_id r) (sn_snapshot_id s)
     \<or> same (sn_owner_device_id r) (sn_owner_device_id s) \<and> same (sn_request_id r) (sn_request_id s)"

record snapshot_pages_row =
  sg_snapshot_id :: cell
  sg_page_index :: int
  sg_page_token :: cell
  sg_response_json :: cell

definition check_snapshot_pages :: "snapshot_pages_row \<Rightarrow> bool" where
  "check_snapshot_pages r \<longleftrightarrow>
     is_text (sg_snapshot_id r)
     \<and> 0 \<le> sg_page_index r
     \<and> text_col 43 (sg_page_token r)
     \<and> is_blob (sg_response_json r)"

definition clash_snapshot_pages :: "snapshot_pages_row \<Rightarrow> snapshot_pages_row \<Rightarrow> bool" where
  "clash_snapshot_pages r s \<longleftrightarrow>
     same (sg_page_token r) (sg_page_token s)
     \<or> same (sg_snapshot_id r) (sg_snapshot_id s) \<and> sg_page_index r = sg_page_index s"

record snapshot_revision_refs_row =
  sf_snapshot_id :: cell
  sf_revision_id :: cell
  sf_content_hash :: cell

definition check_snapshot_revision_refs :: "snapshot_revision_refs_row \<Rightarrow> bool" where
  "check_snapshot_revision_refs r \<longleftrightarrow>
     is_text (sf_snapshot_id r)
     \<and> text_col 36 (sf_revision_id r)
     \<and> blob_col 32 (sf_content_hash r)"

definition clash_snapshot_revision_refs :: "snapshot_revision_refs_row \<Rightarrow> snapshot_revision_refs_row \<Rightarrow> bool" where
  "clash_snapshot_revision_refs r s \<longleftrightarrow>
     same (sf_snapshot_id r) (sf_snapshot_id s) \<and> same (sf_revision_id r) (sf_revision_id s)"

section \<open>The database\<close>

record db =
  t_devices :: "devices_row list"
  t_device_origins :: "device_origins_row list"
  t_runtime_state :: runtime_state_row
  t_device_sync_state :: "device_sync_state_row list"
  t_enrollment_grants :: "enrollment_grants_row list"
  t_enrollments :: "enrollments_row list"
  t_vault_envelope :: "vault_envelope_row option"
  t_revision_objects :: "revision_objects_row list"
  t_record_revisions :: "record_revisions_row list"
  t_revision_acceptance_origins :: "revision_acceptance_origins_row list"
  t_collection_records :: "collection_records_row list"
  t_record_heads :: "record_heads_row list"
  t_record_vector_index :: "record_vector_index_row list"
  t_collection_candidates :: "collection_candidates_row list"
  t_collection_markers :: "collection_markers_row list"
  t_change_origins :: "change_origins_row list"
  t_changes :: "changes_row list"
  t_operation_receipts :: "operation_receipts_row list"
  t_operation_receipt_retention :: "operation_receipt_retention_row list"
  t_token_rotations :: "token_rotations_row list"
  t_self_revocation_receipts :: "self_revocation_receipts_row list"
  t_snapshots :: "snapshots_row list"
  t_snapshot_pages :: "snapshot_pages_row list"
  t_snapshot_revision_refs :: "snapshot_revision_refs_row list"

definition insert_devices :: "devices_row \<Rightarrow> db \<Rightarrow> db option" where
  "insert_devices r s = map_option (\<lambda>rows. s\<lparr>t_devices := rows\<rparr>) (sql_insert check_devices clash_devices r (t_devices s))"

definition insert_device_origins :: "device_origins_row \<Rightarrow> db \<Rightarrow> db option" where
  "insert_device_origins r s =
     (if list_ex (\<lambda>d. d_device_id d = do_device_id r) (t_devices s)
      then map_option (\<lambda>rows. s\<lparr>t_device_origins := rows\<rparr>) (sql_insert check_device_origins clash_device_origins r (t_device_origins s)) else None)"

definition insert_device_sync_state :: "device_sync_state_row \<Rightarrow> db \<Rightarrow> db option" where
  "insert_device_sync_state r s =
     (if list_ex (\<lambda>d. d_device_id d = ds_device_id r) (t_devices s)
      then map_option (\<lambda>rows. s\<lparr>t_device_sync_state := rows\<rparr>) (sql_insert check_device_sync_state clash_device_sync_state r (t_device_sync_state s)) else None)"

definition insert_enrollment_grants :: "enrollment_grants_row \<Rightarrow> db \<Rightarrow> db option" where
  "insert_enrollment_grants r s = map_option (\<lambda>rows. s\<lparr>t_enrollment_grants := rows\<rparr>) (sql_insert check_enrollment_grants clash_enrollment_grants r (t_enrollment_grants s))"

definition insert_enrollments :: "enrollments_row \<Rightarrow> db \<Rightarrow> db option" where
  "insert_enrollments r s =
     (if list_ex (\<lambda>d. d_device_id d = en_device_id r) (t_devices s)
      then map_option (\<lambda>rows. s\<lparr>t_enrollments := rows\<rparr>) (sql_insert check_enrollments clash_enrollments r (t_enrollments s)) else None)"

definition insert_revision_objects :: "revision_objects_row \<Rightarrow> db \<Rightarrow> db option" where
  "insert_revision_objects r s = map_option (\<lambda>rows. s\<lparr>t_revision_objects := rows\<rparr>) (sql_insert check_revision_objects clash_revision_objects r (t_revision_objects s))"

definition insert_record_revisions :: "record_revisions_row \<Rightarrow> db \<Rightarrow> db option" where
  "insert_record_revisions r s = map_option (\<lambda>rows. s\<lparr>t_record_revisions := rows\<rparr>) (sql_insert check_record_revisions clash_record_revisions r (t_record_revisions s))"

definition insert_revision_acceptance_origins :: "revision_acceptance_origins_row \<Rightarrow> db \<Rightarrow> db option" where
  "insert_revision_acceptance_origins r s = map_option (\<lambda>rows. s\<lparr>t_revision_acceptance_origins := rows\<rparr>) (sql_insert check_revision_acceptance_origins clash_revision_acceptance_origins r (t_revision_acceptance_origins s))"

definition insert_collection_records :: "collection_records_row \<Rightarrow> db \<Rightarrow> db option" where
  "insert_collection_records r s = map_option (\<lambda>rows. s\<lparr>t_collection_records := rows\<rparr>) (sql_insert check_collection_records clash_collection_records r (t_collection_records s))"

definition insert_record_heads :: "record_heads_row \<Rightarrow> db \<Rightarrow> db option" where
  "insert_record_heads r s = map_option (\<lambda>rows. s\<lparr>t_record_heads := rows\<rparr>) (sql_insert check_record_heads clash_record_heads r (t_record_heads s))"

definition insert_record_vector_index :: "record_vector_index_row \<Rightarrow> db \<Rightarrow> db option" where
  "insert_record_vector_index r s = map_option (\<lambda>rows. s\<lparr>t_record_vector_index := rows\<rparr>) (sql_insert check_record_vector_index clash_record_vector_index r (t_record_vector_index s))"

definition insert_collection_candidates :: "collection_candidates_row \<Rightarrow> db \<Rightarrow> db option" where
  "insert_collection_candidates r s = map_option (\<lambda>rows. s\<lparr>t_collection_candidates := rows\<rparr>) (sql_insert check_collection_candidates clash_collection_candidates r (t_collection_candidates s))"

definition insert_collection_markers :: "collection_markers_row \<Rightarrow> db \<Rightarrow> db option" where
  "insert_collection_markers r s = map_option (\<lambda>rows. s\<lparr>t_collection_markers := rows\<rparr>) (sql_insert check_collection_markers clash_collection_markers r (t_collection_markers s))"

definition insert_change_origins :: "change_origins_row \<Rightarrow> db \<Rightarrow> db option" where
  "insert_change_origins r s = map_option (\<lambda>rows. s\<lparr>t_change_origins := rows\<rparr>) (sql_insert check_change_origins clash_change_origins r (t_change_origins s))"

definition insert_changes :: "changes_row \<Rightarrow> db \<Rightarrow> db option" where
  "insert_changes r s =
     (if list_ex (\<lambda>og. co_cursor og = cg_cursor r \<and> co_kind og = cg_kind r) (t_change_origins s)
      then map_option (\<lambda>rows. s\<lparr>t_changes := rows\<rparr>) (sql_insert check_changes clash_changes r (t_changes s)) else None)"

definition insert_operation_receipts :: "operation_receipts_row \<Rightarrow> db \<Rightarrow> db option" where
  "insert_operation_receipts r s = map_option (\<lambda>rows. s\<lparr>t_operation_receipts := rows\<rparr>) (sql_insert check_operation_receipts clash_operation_receipts r (t_operation_receipts s))"

definition insert_operation_receipt_retention :: "operation_receipt_retention_row \<Rightarrow> db \<Rightarrow> db option" where
  "insert_operation_receipt_retention r s = map_option (\<lambda>rows. s\<lparr>t_operation_receipt_retention := rows\<rparr>) (sql_insert check_operation_receipt_retention clash_operation_receipt_retention r (t_operation_receipt_retention s))"

definition insert_token_rotations :: "token_rotations_row \<Rightarrow> db \<Rightarrow> db option" where
  "insert_token_rotations r s = map_option (\<lambda>rows. s\<lparr>t_token_rotations := rows\<rparr>) (sql_insert check_token_rotations clash_token_rotations r (t_token_rotations s))"

definition insert_self_revocation_receipts :: "self_revocation_receipts_row \<Rightarrow> db \<Rightarrow> db option" where
  "insert_self_revocation_receipts r s = map_option (\<lambda>rows. s\<lparr>t_self_revocation_receipts := rows\<rparr>) (sql_insert check_self_revocation_receipts clash_self_revocation_receipts r (t_self_revocation_receipts s))"

definition insert_snapshots :: "snapshots_row \<Rightarrow> db \<Rightarrow> db option" where
  "insert_snapshots r s = map_option (\<lambda>rows. s\<lparr>t_snapshots := rows\<rparr>) (sql_insert check_snapshots clash_snapshots r (t_snapshots s))"

definition insert_snapshot_pages :: "snapshot_pages_row \<Rightarrow> db \<Rightarrow> db option" where
  "insert_snapshot_pages r s =
     (if list_ex (\<lambda>n. sn_snapshot_id n = sg_snapshot_id r) (t_snapshots s)
      then map_option (\<lambda>rows. s\<lparr>t_snapshot_pages := rows\<rparr>) (sql_insert check_snapshot_pages clash_snapshot_pages r (t_snapshot_pages s)) else None)"

definition insert_snapshot_revision_refs :: "snapshot_revision_refs_row \<Rightarrow> db \<Rightarrow> db option" where
  "insert_snapshot_revision_refs r s =
     (if list_ex (\<lambda>n. sn_snapshot_id n = sf_snapshot_id r) (t_snapshots s)
          \<and> list_ex (\<lambda>ob. ro_content_hash ob = sf_content_hash r) (t_revision_objects s)
      then map_option (\<lambda>rows. s\<lparr>t_snapshot_revision_refs := rows\<rparr>) (sql_insert check_snapshot_revision_refs clash_snapshot_revision_refs r (t_snapshot_revision_refs s)) else None)"

end
