(* ===== verification/Dataplane.thy ===== *)
theory Dataplane
  imports Schema
begin

text \<open>
  The shared part of the data plane (\<^verbatim>\<open>store/dataplane.go\<close> and the uptime clock of
  \<^verbatim>\<open>store/collection.go\<close>): the store and its ephemeral state, transactions, authentication, idempotency
  receipts, the runtime counters and the change log.

  The Go store serialises requests on one connection, so a handler is a function from the store to a
  result and the store afterwards. Everything a request cannot determine itself is in the record \<open>io\<close>:
  whether the driver could begin and commit, and the random bytes it was given. A driver failure in the
  middle of a transaction has the effect of a failed commit: \<^verbatim>\<open>internal_error\<close> and a rollback.
\<close>

section \<open>State\<close>

record ephemeralState =
  bootID :: bytes
  booted :: bool
  uptimeCheckpoint :: time
  grantDeadlines :: "(bytes \<times> time) list"
  enrollmentAttempts :: "time list"
  snapshotAttempts :: "(bytes \<times> time list) list"
  snapshotDeadlines :: "(bytes \<times> time) list"

record Store =
  st_db :: db
  st_identity :: Identity
  st_ephemeral :: ephemeralState

record io =
  io_begin :: bool
  io_commit :: bool
  io_rand :: "nat \<Rightarrow> bytes"
  io_now :: time

definition Second :: int where "Second = 1000000000"
definition Minute :: int where "Minute = 60 * Second"
definition Millisecond :: int where "Millisecond = 1000000"
definition Hour :: int where "Hour = 60 * Minute"

definition enrollmentGrantLifetime :: int where "enrollmentGrantLifetime = 5 * Minute"
definition snapshotLifetime :: int where "snapshotLifetime = 15 * Minute"
definition receiptMinimumUptime :: int where "receiptMinimumUptime = 30 * 24 * Hour"
definition receiptMinimumCount :: nat where "receiptMinimumCount = 10000"

definition UnixMilli :: "time \<Rightarrow> int" where
  "UnixMilli t = t div Millisecond"

section \<open>Transactions\<close>

text \<open>
  How a handler ends: it returns a response and lets the deferred rollback run, or it commits, possibly
  moving the uptime checkpoint.
\<close>

datatype outcome = Rollback api_response | Commit api_response "time option"

definition finishTx :: "io \<Rightarrow> Store \<Rightarrow> api_error + (outcome \<times> db) \<Rightarrow> api_response api_result \<times> Store" where
  "finishTx io store r =
     (case r of
        Inl e \<Rightarrow> (Inl e, store)
      | Inr (Rollback resp, _) \<Rightarrow> (Inr resp, store)
      | Inr (Commit resp cp, db) \<Rightarrow>
         if \<not> io_commit io then (Inl internal_error, store)
         else (Inr resp, store\<lparr>st_db := db,
           st_ephemeral := (case cp of
              None \<Rightarrow> st_ephemeral store
            | Some next \<Rightarrow>
                if uptimeCheckpoint (st_ephemeral store) < next
                then (st_ephemeral store)\<lparr>uptimeCheckpoint := next\<rparr> else st_ephemeral store)\<rparr>))"

definition runTx :: "io \<Rightarrow> Store \<Rightarrow> (db \<Rightarrow> api_error + (outcome \<times> db)) \<Rightarrow> api_response api_result \<times> Store" where
  "runTx io store tx =
     (if \<not> io_begin io then (Inl internal_error, store) else finishTx io store (tx (st_db store)))"

abbreviation failed :: "'s \<Rightarrow> api_error + ('a \<times> 's)" where
  "failed \<equiv> failT internal_error"

definition execDB :: "(db \<Rightarrow> db option) \<Rightarrow> db \<Rightarrow> api_error + (unit \<times> db)" where
  "execDB f = execT internal_error f"

definition updateDB :: "(db \<Rightarrow> db) \<Rightarrow> db \<Rightarrow> api_error + (unit \<times> db)" where
  "updateDB f = execT internal_error (\<lambda>s. Some (f s))"

lemma execDB_eq_Inr [result_simps]: "execDB f s = Inr r \<longleftrightarrow> (\<exists>s'. f s = Some s' \<and> r = ((), s'))"
  by (simp add: execDB_def execT_eq_Inr)

lemma updateDB_eq_Inr [result_simps]: "updateDB f s = Inr r \<longleftrightarrow> r = ((), f s)"
  by (auto simp: updateDB_def execT_eq_Inr)

section \<open>Authorization\<close>

record deviceAuth =
  da_DeviceID :: bytes
  da_Hash :: bytes
  da_Scopes :: "bytes list"
  da_Revoked :: bool

definition is_space :: "char \<Rightarrow> bool" where
  "is_space c \<longleftrightarrow> c = CHR '' '' \<or> byte_in 9 13 c"

definition parseAuthorization :: "bytes \<Rightarrow> bytes \<Rightarrow> bytes option" where
  "parseAuthorization value scheme =
     (let pre = scheme @ '' ''; rest = drop (length pre) value
      in if \<not> prefix pre value \<or> is_space (hd value) \<or> is_space (last value) \<or> CHR '' '' \<in> set rest then None
         else decodeBase64 rest 32 0 0)"

definition wantScopes :: bytes where
  "wantScopes = marshal (GSlice (Some (map GString FixedScopes)))"

text \<open>One row of the scan: the credential it stores, with every column checked.\<close>

definition authRow :: "Identity \<Rightarrow> bytes \<Rightarrow> deviceAuth option \<Rightarrow> devices_row \<Rightarrow> deviceAuth option api_result" where
  "authRow identity token matched row =
     (case (scan_uuid (d_device_id row), scan_blob 32 (d_token_hash row), scan_text (length wantScopes) (d_scopes_json row)) of
        (Some deviceID, Some stored, Some scopesJSON) \<Rightarrow>
          if scopesJSON \<noteq> wantScopes then Inl internal_error
          else (case DeviceTokenHash (id_InstanceID identity) (id_VaultID identity) deviceID token of
             None \<Rightarrow> Inl internal_error
           | Some computed \<Rightarrow>
              if \<not> VerifyHash stored computed then Inr matched
              else (case json_Unmarshal (TSlice TString) scopesJSON of
                 None \<Rightarrow> Inl internal_error
               | Some g \<Rightarrow>
                  if \<not> ValidateScopes (g_slice g_string g) then Inl internal_error
                  else Inr (Some \<lparr>da_DeviceID = deviceID, da_Hash = stored, da_Scopes = g_slice g_string g,
                                  da_Revoked = (d_revoked_at_ms row \<noteq> None)\<rparr>)))
      | _ \<Rightarrow> Inl internal_error)"

definition authenticate :: "Identity \<Rightarrow> bytes \<Rightarrow> bytes \<Rightarrow> db \<Rightarrow> deviceAuth api_result" where
  "authenticate identity authorization requiredScope s =
     (case parseAuthorization authorization ''Bearer'' of
        None \<Rightarrow> Inl unauthorized
      | Some token \<Rightarrow>
         let rows = take 65 (sql_query d_device_id (\<lambda>_. True) (t_devices s))
         in bindR (foldR (authRow identity token) None rows) (\<lambda>matched.
            if 64 < length rows then Inl internal_error
            else case matched of
              None \<Rightarrow> Inl unauthorized
            | Some a \<Rightarrow>
               if da_Revoked a then Inl (NewError ''token_revoked'' False)
               else if requiredScope \<noteq> [] \<and> requiredScope \<notin> set (da_Scopes a) then Inl (NewError ''scope_denied'' False)
               else Inr a))"

definition requestFingerprint :: "Identity \<Rightarrow> bytes \<Rightarrow> bytes \<Rightarrow> bytes \<Rightarrow> bytes api_result" where
  "requestFingerprint identity label deviceID body =
     optR internal_error (RequestBodyFingerprint label (id_InstanceID identity) (id_VaultID identity) deviceID body)"

section \<open>Key probes\<close>

text \<open>The rows of a column whose key starts with \<open>k\<close>, as text or as a blob.\<close>

definition text_range :: "bytes \<Rightarrow> cell \<Rightarrow> bool" where
  "text_range k c \<longleftrightarrow> CText k \<le> c \<and> c < CText (prefix_upper k)"

definition blob_range :: "bytes \<Rightarrow> cell \<Rightarrow> bool" where
  "blob_range k c \<longleftrightarrow> CBlob k \<le> c \<and> c < CBlob (prefix_upper k)"

definition probe_rows :: "('r \<Rightarrow> cell) \<Rightarrow> bytes \<Rightarrow> 'r list \<Rightarrow> 'r list" where
  "probe_rows key k rows = filter (\<lambda>r. text_range k (key r)) rows @ filter (\<lambda>r. blob_range k (key r)) rows"

text \<open>
  The probes that precede an insert or a lookup by a permanent key: every row in the two ranges must be
  the canonical key itself, at most once. The result says whether the key is present.
\<close>

definition probe_key :: "('r \<Rightarrow> cell) \<Rightarrow> bytes \<Rightarrow> 'r list \<Rightarrow> bool api_result" where
  "probe_key key k rows =
     (if \<not> validateUUID k then Inl internal_error
      else let found = take 2 (probe_rows key k rows)
      in if list_ex (\<lambda>r. scan_uuid (key r) \<noteq> Some k) found \<or> 1 < length found then Inl internal_error
         else Inr (length found = 1))"

text \<open>The alias probes: the canonical text key is excluded, everything else in the ranges is corrupt.\<close>

definition alias_exists :: "('r \<Rightarrow> cell) \<Rightarrow> bytes \<Rightarrow> 'r list \<Rightarrow> bool" where
  "alias_exists key k rows \<longleftrightarrow>
     list_ex (\<lambda>r. CText k < key r \<and> key r < CText (prefix_upper k)) rows \<or> list_ex (\<lambda>r. blob_range k (key r)) rows"

end
