(* ===== verification/Receipts.thy ===== *)
theory Receipts
  imports Dataplane
begin

text \<open>
  The runtime counters, the change log and the idempotency receipts of \<^verbatim>\<open>store/dataplane.go\<close>, and the
  uptime clock of \<^verbatim>\<open>store/collection.go\<close>. Reads are functions of the database, statements are
  transactions.
\<close>

section \<open>Runtime state\<close>

definition readRuntimeState :: "db \<Rightarrow> (uint64 \<times> uint64 \<times> uint64 \<times> uint64) api_result" where
  "readRuntimeState s =
     (let r = t_runtime_state s
      in case (scan_uint64 (rt_server_cursor r), scan_uint64 (rt_envelope_generation r),
               scan_uint64 (rt_instance_secret_generation r), scan_uint64 (rt_collection_generation r)) of
        (Some cursor, Some envelopeGeneration, Some secretGeneration, Some collectionGeneration) \<Rightarrow>
          Inr (cursor, envelopeGeneration, secretGeneration, collectionGeneration)
      | _ \<Rightarrow> Inl internal_error)"

definition readCursorFloor :: "db \<Rightarrow> uint64 api_result" where
  "readCursorFloor s = optR internal_error (scan_uint64 (rt_cursor_floor (t_runtime_state s)))"

definition reserveCursors :: "uint64 \<Rightarrow> db \<Rightarrow> uint64 api_result" where
  "reserveCursors count s =
     bindR (readRuntimeState s) (\<lambda>(cursor, _, _, _).
       if (- 1) - cursor < count then Inl (NewError ''server_cursor_exhausted'' False)
       else Inr (cursor + count))"

definition setServerCursor :: "uint64 \<Rightarrow> db \<Rightarrow> api_error + (unit \<times> db)" where
  "setServerCursor value = updateDB (\<lambda>s. s\<lparr>t_runtime_state := (t_runtime_state s)\<lparr>rt_server_cursor := uint64_cell value\<rparr>\<rparr>)"

section \<open>The change log\<close>

definition text_or_null :: "bytes \<Rightarrow> cell" where
  "text_or_null v = (if v = [] then CNull else CText v)"

definition insertChangeOrigin :: "uint64 \<Rightarrow> bytes \<Rightarrow> uint64 \<Rightarrow> db \<Rightarrow> api_error + (unit \<times> db)" where
  "insertChangeOrigin cursor kind envelopeGeneration =
     execDB (insert_change_origins \<lparr>co_cursor = uint64_cell cursor, co_kind = CText kind,
       co_envelope_generation = (if envelopeGeneration \<noteq> 0 then uint64_cell envelopeGeneration else CNull)\<rparr>)"

definition insertChange ::
  "uint64 \<Rightarrow> bytes \<Rightarrow> bytes \<Rightarrow> bytes \<Rightarrow> bytes \<Rightarrow> bytes \<Rightarrow> uint64 \<Rightarrow> time \<Rightarrow> db \<Rightarrow> api_error + (unit \<times> db)" where
  "insertChange cursor kind revisionID markerRecordID deviceID deviceChangeKind envelopeGeneration now =
     bindT (insertChangeOrigin cursor kind envelopeGeneration) (\<lambda>_.
       execDB (insert_changes \<lparr>cg_cursor = uint64_cell cursor, cg_kind = CText kind, cg_received_at_ms = UnixMilli now,
         cg_record_revision_id = text_or_null revisionID, cg_collection_marker_record_id = text_or_null markerRecordID,
         cg_collection_marker_json = CNull, cg_device_changed_id = text_or_null deviceID,
         cg_device_change_kind = text_or_null deviceChangeKind\<rparr>))"

section \<open>The uptime clock\<close>

definition sat64 :: "int \<Rightarrow> int" where
  "sat64 x = max (- (2 ^ 63)) (min (2 ^ 63 - 1) x)"

definition Milliseconds :: "int \<Rightarrow> int" where
  "Milliseconds d = (if d < 0 then - ((- d) div Millisecond) else d div Millisecond)"

definition elapsedMilliseconds :: "ephemeralState \<Rightarrow> time \<Rightarrow> int" where
  "elapsedMilliseconds e now = Milliseconds (sat64 (now - uptimeCheckpoint e))"

definition checkpointUptimeTx :: "ephemeralState \<Rightarrow> time \<Rightarrow> db \<Rightarrow> api_error + ((uint64 \<times> time) \<times> db)" where
  "checkpointUptimeTx e now =
     (if \<not> booted e then failed
      else let elapsed = elapsedMilliseconds e now;
               nextCheckpoint = (if 0 < elapsed then uptimeCheckpoint e + elapsed * Millisecond else uptimeCheckpoint e)
      in bindT (readT (\<lambda>s. optR internal_error (scan_uint64 (rt_accumulated_uptime_ms (t_runtime_state s))))) (\<lambda>accumulated.
           if elapsed \<le> 0 then returnT (accumulated, nextCheckpoint)
           else let delta = word_of_int elapsed;
                    total = (if (- 1) - accumulated < delta then - 1 else accumulated + delta)
                in bindT (updateDB (\<lambda>s. s\<lparr>t_runtime_state := (t_runtime_state s)\<lparr>rt_accumulated_uptime_ms := uint64_cell total\<rparr>\<rparr>))
                     (\<lambda>_. returnT (total, nextCheckpoint))))"

definition CheckpointUptime :: "io \<Rightarrow> time \<Rightarrow> Store \<Rightarrow> api_response api_result \<times> Store" where
  "CheckpointUptime io now store =
     runTx io store (bindT (checkpointUptimeTx (st_ephemeral store) now) (\<lambda>(_, checkpoint).
       returnT (Commit \<lparr>rs_Status = 0, rs_Body = [], rs_Headers = []\<rparr> (Some checkpoint))))"

section \<open>Receipts\<close>

definition validOperationReceiptKey :: "bytes \<Rightarrow> bool" where
  "validOperationReceiptKey operation \<longleftrightarrow>
     operation = ''sync'' \<or> operation = ''vault-envelope''
     \<or> prefix ''device-revocation/'' operation \<and> validateUUID (drop (length ''device-revocation/'') operation)"

definition receiptClass :: "bytes \<Rightarrow> bytes" where
  "receiptClass operation = (if operation = ''sync'' then ''sync'' else ''other'')"

text \<open>The candidate queries, each with its limit.\<close>

definition receiptDeviceRequestCandidates :: "bytes \<Rightarrow> bytes \<Rightarrow> db \<Rightarrow> int list" where
  "receiptDeviceRequestCandidates deviceID requestID s =
     take 4 (map or_receipt_sequence
       (probe_rows or_request_id requestID (filter (\<lambda>r. or_device_id r = CText deviceID) (t_operation_receipts s))))"

definition receiptRequestDeviceCandidates :: "bytes \<Rightarrow> bytes \<Rightarrow> db \<Rightarrow> int list" where
  "receiptRequestDeviceCandidates requestID deviceID s =
     take 4 (map or_receipt_sequence
       (probe_rows or_device_id deviceID (filter (\<lambda>r. or_request_id r = CText requestID) (t_operation_receipts s))))"

definition receiptFingerprintCandidates :: "bytes \<Rightarrow> db \<Rightarrow> int list" where
  "receiptFingerprintCandidates fingerprint s =
     take 2 (map or_receipt_sequence (filter (\<lambda>r. or_request_fingerprint r = CBlob fingerprint) (t_operation_receipts s)))"

definition collectReceiptKeyCandidates :: "nat \<Rightarrow> int list \<Rightarrow> int list api_result" where
  "collectReceiptKeyCandidates limit found =
     (if list_ex (\<lambda>n. n \<le> 0) found \<or> limit \<le> length found then Inl internal_error else Inr found)"

definition receiptJoin :: "int \<Rightarrow> db \<Rightarrow> (operation_receipts_row \<times> operation_receipt_retention_row option) list" where
  "receiptJoin n s =
     concat (map (\<lambda>r. let qs = filter (\<lambda>q. ot_receipt_sequence q = n) (t_operation_receipt_retention s)
                       in if qs = [] then [(r, None)] else map (\<lambda>q. (r, Some q)) qs)
       (filter (\<lambda>r. or_receipt_sequence r = n) (t_operation_receipts s)))"

definition receiptCandidateRow ::
  "bool \<Rightarrow> bytes \<Rightarrow> bytes \<Rightarrow> bytes \<Rightarrow> operation_receipts_row \<times> operation_receipt_retention_row option \<Rightarrow> bool" where
  "receiptCandidateRow logical deviceID currentOperation requestID p =
     (case (snd p, scan_uuid (or_device_id (fst p)), or_operation (fst p), scan_uuid (or_request_id (fst p)),
            scan_blob 8 (or_created_uptime_ms (fst p))) of
        (Some q, Some receiptDeviceID, CText operation, Some storedRequestID, Some receiptUptime) \<Rightarrow>
          receiptDeviceID = deviceID
          \<and> 0 < length operation \<and> length operation \<le> maxOperationBytes \<and> validOperationReceiptKey operation
          \<and> (storedRequestID = requestID
              \<or> \<not> logical \<and> currentOperation = ''vault-envelope'' \<and> operation = ''vault-envelope'')
          \<and> scan_uuid (ot_device_id q) = Some receiptDeviceID
          \<and> (ot_receipt_class q = CText ''sync'' \<or> ot_receipt_class q = CText ''other'')
          \<and> (operation = ''sync'') = (ot_receipt_class q = CText ''sync'')
          \<and> scan_blob 8 (ot_created_uptime_ms q) = Some receiptUptime
      | _ \<Rightarrow> False)"

definition validateReceiptKeyCandidate ::
  "bytes \<Rightarrow> bytes \<Rightarrow> bytes \<Rightarrow> db \<Rightarrow> bool \<times> int \<Rightarrow> unit api_result" where
  "validateReceiptKeyCandidate deviceID currentOperation requestID s candidate =
     (let rows = take 2 (receiptJoin (snd candidate) s)
      in guardR (list_all (receiptCandidateRow (fst candidate) deviceID currentOperation requestID) rows \<and> length rows = 1)
           internal_error)"

definition preflightOperationReceiptKeys :: "bytes \<Rightarrow> bytes \<Rightarrow> bytes \<Rightarrow> bytes \<Rightarrow> db \<Rightarrow> unit api_result" where
  "preflightOperationReceiptKeys deviceID operation requestID fingerprint s =
     (if \<not> validateUUID deviceID \<or> \<not> validOperationReceiptKey operation \<or> \<not> validateUUID requestID then Inl internal_error
      else if alias_exists or_device_id deviceID (t_operation_receipts s) then Inl internal_error
      else if alias_exists or_request_id requestID (t_operation_receipts s) then Inl internal_error
      else
        bindR (collectReceiptKeyCandidates 4 (receiptDeviceRequestCandidates deviceID requestID s)) (\<lambda>c1.
        bindR (collectReceiptKeyCandidates 4 (receiptRequestDeviceCandidates requestID deviceID s)) (\<lambda>c2.
        bindR (collectReceiptKeyCandidates 2 (receiptFingerprintCandidates fingerprint s)) (\<lambda>c3.
        bindR (mapR (validateReceiptKeyCandidate deviceID operation requestID s)
                 (map (\<lambda>n. (n \<in> set c1 \<union> set c2, n)) (remdups (c1 @ c2 @ c3)))) (\<lambda>_. Inr ())))))"

definition lookupReceipt ::
  "Identity \<Rightarrow> bytes \<Rightarrow> bytes \<Rightarrow> bytes \<Rightarrow> bytes \<Rightarrow> db \<Rightarrow> api_response option api_result" where
  "lookupReceipt identity deviceID operation requestID fingerprint s =
     (case filter (\<lambda>r. or_device_id r = CText deviceID \<and> or_operation r = CText operation
                        \<and> or_request_id r = CText requestID) (t_operation_receipts s) of
        [] \<Rightarrow> bindR (preflightOperationReceiptKeys deviceID operation requestID fingerprint s) (\<lambda>_. Inr None)
      | r # _ \<Rightarrow>
         (case (scan_blob 32 (or_request_fingerprint r), scan_body maxBodyBytes (or_response_json r)) of
            (Some stored, Some body) \<Rightarrow>
              if \<not> validateStoredOperationResponse operation (or_response_status r) body identity then Inl internal_error
              else if \<not> VerifyHash stored fingerprint then Inl (NewError ''request_id_reused'' False)
              else Inr (Some \<lparr>rs_Status = nat (or_response_status r), rs_Body = body, rs_Headers = []\<rparr>)
          | _ \<Rightarrow> Inl internal_error))"

definition next_sequence :: "operation_receipts_row list \<Rightarrow> int" where
  "next_sequence rows = fold max (map or_receipt_sequence rows) 0 + 1"

text \<open>
  \<^verbatim>\<open>pruneOperationReceipts\<close>: of the receipts of one device and class, the newest \<open>retainCount\<close> and
  those younger than \<open>minimumAge\<close> are protected; at most 256 of the others are removed per call.
\<close>

definition classReceipts :: "bytes \<Rightarrow> bytes \<Rightarrow> db \<Rightarrow> operation_receipt_retention_row list" where
  "classReceipts deviceID cls s =
     filter (\<lambda>q. ot_device_id q = CText deviceID \<and> ot_receipt_class q = CText cls) (t_operation_receipt_retention s)"

definition protectedBoundary :: "bytes \<Rightarrow> bytes \<Rightarrow> nat \<Rightarrow> db \<Rightarrow> int option" where
  "protectedBoundary deviceID cls retainCount s =
     (let seqs = rev (sort (map ot_receipt_sequence (classReceipts deviceID cls s)))
      in if retainCount - 1 < length seqs then Some (seqs ! (retainCount - 1)) else None)"

definition expiredReceipts :: "bytes \<Rightarrow> bytes \<Rightarrow> int \<Rightarrow> uint64 \<Rightarrow> db \<Rightarrow> int list" where
  "expiredReceipts deviceID cls boundary cutoff s =
     take 256 (sort (map ot_receipt_sequence
       (filter (\<lambda>q. ot_receipt_sequence q < boundary \<and> ot_created_uptime_ms q \<le> uint64_cell cutoff)
          (classReceipts deviceID cls s))))"

definition deleteReceipt :: "bytes \<Rightarrow> bytes \<Rightarrow> int \<Rightarrow> db \<Rightarrow> api_error + (unit \<times> db)" where
  "deleteReceipt deviceID cls n =
     bindT (updateDB (\<lambda>s. s\<lparr>t_operation_receipts := sql_delete (\<lambda>r. or_receipt_sequence r = n) (t_operation_receipts s)\<rparr>)) (\<lambda>_.
       updateDB (\<lambda>s. s\<lparr>t_operation_receipt_retention :=
         sql_delete (\<lambda>q. ot_device_id q = CText deviceID \<and> ot_receipt_class q = CText cls \<and> ot_receipt_sequence q = n)
           (t_operation_receipt_retention s)\<rparr>))"

definition pruneOperationReceipts :: "bytes \<Rightarrow> bytes \<Rightarrow> uint64 \<Rightarrow> nat \<Rightarrow> int \<Rightarrow> db \<Rightarrow> api_error + (unit \<times> db)" where
  "pruneOperationReceipts deviceID operation accumulatedUptimeMS retainCount minimumAge =
     (if retainCount < 1 \<or> minimumAge < 0 then failed
      else let minimumAgeMS = word_of_int (minimumAge div Millisecond); cls = receiptClass operation
      in if accumulatedUptimeMS < minimumAgeMS then returnT ()
         else bindT (readT (\<lambda>s. Inr (protectedBoundary deviceID cls retainCount s))) (\<lambda>boundary.
           case boundary of
             None \<Rightarrow> returnT ()
           | Some b \<Rightarrow>
              if b \<le> 0 then failed
              else bindT (readT (\<lambda>s. Inr (expiredReceipts deviceID cls b (accumulatedUptimeMS - minimumAgeMS) s))) (\<lambda>expired.
                if list_ex (\<lambda>n. n \<le> 0) expired then failed
                else forT (deleteReceipt deviceID cls) expired)))"

definition storeReceiptAtUptime ::
  "bytes \<Rightarrow> bytes \<Rightarrow> bytes \<Rightarrow> bytes \<Rightarrow> api_response \<Rightarrow> time \<Rightarrow> uint64 \<Rightarrow> db \<Rightarrow> api_error + (unit \<times> db)" where
  "storeReceiptAtUptime deviceID operation requestID fingerprint response now accumulatedUptimeMS =
     bindT (readT (\<lambda>s. Inr (next_sequence (t_operation_receipts s)))) (\<lambda>receiptSequence.
     bindT (execDB (insert_operation_receipts \<lparr>or_receipt_sequence = receiptSequence, or_device_id = CText deviceID,
       or_operation = CText operation, or_request_id = CText requestID, or_request_fingerprint = CBlob fingerprint,
       or_response_status = int (rs_Status response), or_response_json = CBlob (rs_Body response),
       or_created_at_ms = UnixMilli now, or_created_uptime_ms = uint64_cell accumulatedUptimeMS\<rparr>)) (\<lambda>_.
     if receiptSequence \<le> 0 then failed
     else bindT (execDB (insert_operation_receipt_retention \<lparr>ot_device_id = CText deviceID,
       ot_receipt_class = CText (receiptClass operation), ot_receipt_sequence = receiptSequence,
       ot_created_uptime_ms = uint64_cell accumulatedUptimeMS\<rparr>)) (\<lambda>_.
     pruneOperationReceipts deviceID operation accumulatedUptimeMS receiptMinimumCount receiptMinimumUptime)))"

definition storeReceipt ::
  "ephemeralState \<Rightarrow> bytes \<Rightarrow> bytes \<Rightarrow> bytes \<Rightarrow> bytes \<Rightarrow> api_response \<Rightarrow> time \<Rightarrow> db \<Rightarrow> api_error + (time \<times> db)" where
  "storeReceipt e deviceID operation requestID fingerprint response now =
     bindT (checkpointUptimeTx e now) (\<lambda>(accumulatedUptimeMS, checkpoint).
     bindT (storeReceiptAtUptime deviceID operation requestID fingerprint response now accumulatedUptimeMS) (\<lambda>_.
     returnT checkpoint))"

section \<open>Generated identifiers\<close>

definition encodeRandomBase64 :: "bytes \<Rightarrow> bytes" where
  "encodeRandomBase64 random = EncodeToString random"

definition generateUUID :: "bytes \<Rightarrow> bytes" where
  "generateUUID random = New random"

end
