(* ===== verification/ChangeOrigins.thy ===== *)
theory ChangeOrigins
  imports Receipts
begin

text \<open>
  \<^verbatim>\<open>validatePersistentEnvelope\<close> and \<^verbatim>\<open>validatePersistentChangeOrigins\<close> of \<^verbatim>\<open>store/validation.go\<close>, which an
  envelope write runs before it assigns a cursor. Every assigned cursor has one permanent origin; the
  origins must be contiguous from 1 to the server cursor, each with the durable row that owns it. The
  query joins the origin with the rows that refer to its cursor; those columns are unique, so a join
  finds at most one row.
\<close>

section \<open>The envelope row\<close>

definition validatePersistentEnvelope :: "Identity \<Rightarrow> uint64 \<Rightarrow> uint64 \<Rightarrow> db \<Rightarrow> bool" where
  "validatePersistentEnvelope identity runtimeGeneration secretGeneration s =
     (case t_vault_envelope s of
        None \<Rightarrow> runtimeGeneration = 0
      | Some row \<Rightarrow>
         (case (scan_uint64 (vb_generation row), scan_body maxBodyBytes (vb_envelope_json row)) of
            (Some generation, Some body) \<Rightarrow>
              (case decodeStoredCanonical T_vaultEnvelope body of
                 None \<Rightarrow> False
               | Some g \<Rightarrow>
                  (case validateEnvelope (of_vaultEnvelope g) identity of
                     None \<Rightarrow> False
                   | Some (bodyGeneration, bodySecret) \<Rightarrow>
                      generation = runtimeGeneration \<and> bodyGeneration = generation \<and> bodySecret = secretGeneration))
          | _ \<Rightarrow> False))"

section \<open>Owners of cursors\<close>

text \<open>The reverse direction: every change and every durable owner has an origin of its cursor and kind.\<close>

definition durable_owners :: "db \<Rightarrow> (cell \<times> bytes) list" where
  "durable_owners s =
     map (\<lambda>r. (rv_change_cursor r, ''record_revision'')) (t_record_revisions s)
     @ map (\<lambda>d. (do_created_cursor d, ''device_changed'')) (filter (\<lambda>d. do_created_cursor d \<noteq> CNull) (t_device_origins s))
     @ map (\<lambda>d. (do_revoked_cursor d, ''device_changed'')) (filter (\<lambda>d. do_revoked_cursor d \<noteq> CNull) (t_device_origins s))
     @ map (\<lambda>e. (en_created_cursor e, ''device_changed'')) (t_enrollments s)
     @ map (\<lambda>m. (mk_change_cursor m, ''collection_marker'')) (t_collection_markers s)"

definition has_origin :: "db \<Rightarrow> cell \<Rightarrow> cell \<Rightarrow> bool" where
  "has_origin s cursor kind \<longleftrightarrow> list_ex (\<lambda>og. same (co_cursor og) cursor \<and> same (co_kind og) kind) (t_change_origins s)"

definition no_orphans :: "db \<Rightarrow> bool" where
  "no_orphans s \<longleftrightarrow>
     list_all (\<lambda>c. has_origin s (cg_cursor c) (cg_kind c)) (t_changes s)
     \<and> list_all (\<lambda>(cursor, kind). has_origin s cursor (CText kind)) (durable_owners s)"

definition joined :: "('r \<Rightarrow> cell) \<Rightarrow> 'r option \<Rightarrow> cell" where
  "joined col x = (case x of None \<Rightarrow> CNull | Some r \<Rightarrow> col r)"

definition join_on :: "('r \<Rightarrow> cell) \<Rightarrow> cell \<Rightarrow> 'r list \<Rightarrow> 'r option" where
  "join_on col key rows = find (\<lambda>r. same (col r) key) rows"

definition scan_opt_uuid :: "cell \<Rightarrow> bytes option option" where
  "scan_opt_uuid c =
     (case scan_opt_text maxUUIDBytes c of
        None \<Rightarrow> None
      | Some None \<Rightarrow> Some None
      | Some (Some v) \<Rightarrow> if validateUUID v then Some (Some v) else None)"

text \<open>\<^verbatim>\<open>octet_length(c), CASE WHEN typeof(c) = 'blob' AND octet_length(c) BETWEEN 1 AND maximum THEN c END\<close>.\<close>

definition scan_opt_blob_body :: "nat \<Rightarrow> cell \<Rightarrow> bytes option option" where
  "scan_opt_blob_body maximum c =
     (let len = octet_length c;
          value = (case len of
             None \<Rightarrow> None
           | Some l \<Rightarrow> if is_blob c \<and> 1 \<le> l \<and> l \<le> int maximum then cell_bytes c else None)
      in if boundedOptionalBytes len value (int maximum) then Some value else None)"

definition scan_device_change_kind :: "cell \<Rightarrow> bytes option option" where
  "scan_device_change_kind c =
     (let len = octet_length c;
          value = (if c = CText ''enrolled'' \<or> c = CText ''revoked'' then cell_bytes c else None)
      in if \<not> boundedOptionalText len value 8 then None
         else (case len of
            None \<Rightarrow> Some None
          | Some l \<Rightarrow> if l < 7 \<or> 8 < l \<or> value = None then None else Some value))"

section \<open>One origin\<close>

record originScan =
  og_cursor :: uint64
  og_kind :: bytes
  og_generation :: "uint64 option"
  og_change :: bool
  og_changeRevisionID :: "bytes option"
  og_changeMarkerRecordID :: "bytes option"
  og_changeMarkerBody :: "bytes option"
  og_changedDeviceID :: "bytes option"
  og_deviceChangeKind :: "bytes option"
  og_revision :: "(bytes \<times> bool) option"
  og_markerRecordID :: "bytes option"
  og_markerCursor :: "bytes option"
  og_markerBody :: "bytes option"
  og_markerOriginRecordID :: "bytes option"
  og_markerOriginBody :: "bytes option"
  og_originDeviceID :: "bytes option"
  og_enrollmentDeviceID :: "bytes option"
  og_revokedDeviceID :: "bytes option"

definition scan_kind :: "cell \<Rightarrow> bytes option" where
  "scan_kind c = (case c of CText k \<Rightarrow> if c \<in> change_kinds then Some k else None | _ \<Rightarrow> None)"

definition scan_revision_owner :: "record_revisions_row option \<Rightarrow> (bytes \<times> bool) option option" where
  "scan_revision_owner r =
     (case r of
        None \<Rightarrow> Some None
      | Some v \<Rightarrow>
         (case scan_uuid (rv_revision_id v) of
            None \<Rightarrow> None
          | Some i \<Rightarrow> if rv_retained v = 0 \<or> rv_retained v = 1 then Some (Some (i, rv_retained v = 1)) else None))"

definition scanOrigin :: "db \<Rightarrow> change_origins_row \<Rightarrow> originScan option" where
  "scanOrigin s og =
     (let c = join_on cg_cursor (co_cursor og) (t_changes s);
          r = join_on rv_change_cursor (co_cursor og) (t_record_revisions s);
          m = join_on mk_record_id (joined cg_collection_marker_record_id c) (t_collection_markers s);
          mo = join_on mk_change_cursor (co_cursor og) (t_collection_markers s);
          d = join_on do_created_cursor (co_cursor og) (t_device_origins s);
          e = join_on en_created_cursor (co_cursor og) (t_enrollments s);
          rd = join_on do_revoked_cursor (co_cursor og) (t_device_origins s)
      in
        case (scan_uint64 (co_cursor og), scan_kind (co_kind og), scan_opt_blob 8 (co_envelope_generation og)) of
          (Some cursor, Some kind, Some generation) \<Rightarrow>
            if c \<noteq> None \<and> joined cg_kind c \<noteq> co_kind og then None
            else
        (case (scan_opt_uuid (joined cg_record_revision_id c), scan_opt_uuid (joined cg_collection_marker_record_id c),
               scan_opt_blob_body maxBodyBytes (joined cg_collection_marker_json c),
               scan_opt_uuid (joined cg_device_changed_id c), scan_device_change_kind (joined cg_device_change_kind c)) of
          (Some changeRevisionID, Some changeMarkerRecordID, Some changeMarkerBody, Some changedDeviceID, Some deviceChangeKind) \<Rightarrow>
        (case (scan_revision_owner r, scan_opt_uuid (joined mk_record_id m), scan_opt_blob 8 (joined mk_change_cursor m),
               scan_opt_blob_body maxBodyBytes (joined mk_marker_json m)) of
          (Some revision, Some markerRecordID, Some markerCursor, Some markerBody) \<Rightarrow>
        (case (scan_opt_uuid (joined mk_record_id mo), scan_opt_blob_body maxBodyBytes (joined mk_marker_json mo),
               scan_opt_uuid (joined do_device_id d), scan_opt_uuid (joined en_device_id e), scan_opt_uuid (joined do_device_id rd)) of
          (Some markerOriginRecordID, Some markerOriginBody, Some originDeviceID, Some enrollmentDeviceID, Some revokedDeviceID) \<Rightarrow>
            if (markerOriginRecordID = None) \<noteq> (markerOriginBody = None) \<or> originDeviceID \<noteq> enrollmentDeviceID then None
            else Some \<lparr>og_cursor = cursor, og_kind = kind,
                 og_generation = (case generation of None \<Rightarrow> None | Some b \<Rightarrow> DecodeUint64 b),
                 og_change = (c \<noteq> None), og_changeRevisionID = changeRevisionID,
                 og_changeMarkerRecordID = changeMarkerRecordID, og_changeMarkerBody = changeMarkerBody,
                 og_changedDeviceID = changedDeviceID, og_deviceChangeKind = deviceChangeKind,
                 og_revision = revision, og_markerRecordID = markerRecordID, og_markerCursor = markerCursor,
                 og_markerBody = markerBody, og_markerOriginRecordID = markerOriginRecordID,
                 og_markerOriginBody = markerOriginBody, og_originDeviceID = originDeviceID,
                 og_enrollmentDeviceID = enrollmentDeviceID, og_revokedDeviceID = revokedDeviceID\<rparr>
        | _ \<Rightarrow> None) | _ \<Rightarrow> None) | _ \<Rightarrow> None) | _ \<Rightarrow> None)"

text \<open>The \<^verbatim>\<open>switch\<close> on the kind of the origin.\<close>

definition marker_origin_ok :: "originScan \<Rightarrow> bool" where
  "marker_origin_ok x =
     (case (og_changeMarkerBody x, og_markerBody x, og_markerCursor x, og_changeMarkerRecordID x, og_markerRecordID x) of
        (Some changeMarkerBody, Some markerBody, Some markerCursorBytes, Some changeMarkerRecordID, Some markerRecordID) \<Rightarrow>
          (case (decodeStoredCollectionMarker changeMarkerBody, decodeStoredCollectionMarker markerBody, DecodeUint64 markerCursorBytes) of
             (Some changeMarker, Some currentMarker, Some currentMarkerCursor) \<Rightarrow>
               let ownerAtOrigin = (og_markerOriginRecordID x \<noteq> None)
               in changeMarkerRecordID = markerRecordID
                  \<and> cm_RecordID changeMarker = changeMarkerRecordID \<and> cm_RecordID currentMarker = markerRecordID
                  \<and> og_cursor x \<le> currentMarkerCursor \<and> ownerAtOrigin = (currentMarkerCursor = og_cursor x)
                  \<and> (\<not> ownerAtOrigin \<or> og_markerOriginRecordID x = Some changeMarkerRecordID
                                        \<and> og_markerOriginBody x = Some changeMarkerBody)
                  \<and> (currentMarkerCursor \<noteq> og_cursor x \<or> changeMarkerBody = markerBody)
           | _ \<Rightarrow> False)
      | _ \<Rightarrow> False)"

definition origin_ok :: "uint64 \<Rightarrow> originScan \<Rightarrow> bool" where
  "origin_ok envelopeGeneration x =
     (if og_kind x = ''record_revision'' then
        og_generation x = None \<and> og_markerRecordID x = None \<and> og_markerOriginRecordID x = None
        \<and> og_originDeviceID x = None \<and> og_revokedDeviceID x = None \<and> og_changeMarkerRecordID x = None
        \<and> og_changeMarkerBody x = None \<and> og_changedDeviceID x = None \<and> og_deviceChangeKind x = None
        \<and> (case og_revision x of
             None \<Rightarrow> False
           | Some (i, retained) \<Rightarrow>
               if retained then og_change x \<and> og_changeRevisionID x = Some i
               else \<not> og_change x \<and> og_changeRevisionID x = None)
      else if og_kind x = ''collection_marker'' then
        og_generation x = None \<and> og_revision x = None \<and> og_change x \<and> og_originDeviceID x = None
        \<and> og_revokedDeviceID x = None \<and> og_changeRevisionID x = None \<and> og_changedDeviceID x = None
        \<and> og_deviceChangeKind x = None \<and> marker_origin_ok x
      else if og_kind x = ''device_changed'' then
        (let enrollmentOwner = (og_originDeviceID x \<noteq> None); revocationOwner = (og_revokedDeviceID x \<noteq> None)
         in og_generation x = None \<and> og_revision x = None \<and> og_change x \<and> og_markerRecordID x = None
            \<and> og_markerOriginRecordID x = None \<and> og_changeRevisionID x = None \<and> og_changeMarkerRecordID x = None
            \<and> og_changeMarkerBody x = None \<and> og_changedDeviceID x \<noteq> None \<and> og_deviceChangeKind x \<noteq> None
            \<and> enrollmentOwner \<noteq> revocationOwner
            \<and> (\<not> enrollmentOwner \<or> og_changedDeviceID x = og_originDeviceID x \<and> og_deviceChangeKind x = Some ''enrolled'')
            \<and> (\<not> revocationOwner \<or> og_changedDeviceID x = og_revokedDeviceID x \<and> og_deviceChangeKind x = Some ''revoked''))
      else if og_kind x = ''envelope_changed'' then
        envelopeGeneration \<noteq> - 1 \<and> og_generation x = Some (envelopeGeneration + 1) \<and> og_revision x = None \<and> og_change x
        \<and> og_markerRecordID x = None \<and> og_markerOriginRecordID x = None \<and> og_originDeviceID x = None
        \<and> og_revokedDeviceID x = None \<and> og_changeRevisionID x = None \<and> og_changeMarkerRecordID x = None
        \<and> og_changeMarkerBody x = None \<and> og_changedDeviceID x = None \<and> og_deviceChangeKind x = None
      else False)"

section \<open>The walk over the origins\<close>

fun walkOrigins ::
  "db \<Rightarrow> uint64 \<Rightarrow> uint64 \<Rightarrow> uint64 \<Rightarrow> (uint64 \<times> uint64) list \<Rightarrow> change_origins_row list
     \<Rightarrow> (uint64 \<times> uint64 \<times> (uint64 \<times> uint64) list) option" where
  "walkOrigins s serverCursor previous envelopeGeneration cuts [] = Some (previous, envelopeGeneration, cuts)"
| "walkOrigins s serverCursor previous envelopeGeneration cuts (og # rest) =
     (case scanOrigin s og of
        None \<Rightarrow> None
      | Some x \<Rightarrow>
         if og_cursor x = 0 \<or> previous = - 1 \<or> og_cursor x \<noteq> previous + 1 \<or> serverCursor < og_cursor x then None
         else if \<not> origin_ok envelopeGeneration x then None
         else if og_kind x = ''envelope_changed'' then
           walkOrigins s serverCursor (og_cursor x) (envelopeGeneration + 1)
             (map (\<lambda>(cut, g). if og_cursor x \<le> cut then (cut, envelopeGeneration + 1) else (cut, g)) cuts) rest
         else walkOrigins s serverCursor (og_cursor x) envelopeGeneration cuts rest)"

definition validatePersistentChangeOrigins ::
  "uint64 \<Rightarrow> uint64 \<Rightarrow> uint64 list \<Rightarrow> db \<Rightarrow> (uint64 \<times> uint64) list option" where
  "validatePersistentChangeOrigins serverCursor runtimeEnvelopeGeneration snapshotCuts s =
     (if 8 < length snapshotCuts then None
      else if list_ex (\<lambda>cut. serverCursor < cut) snapshotCuts then None
      else if \<not> no_orphans s then None
      else case walkOrigins s serverCursor 0 0 (map (\<lambda>cut. (cut, 0)) (remdups snapshotCuts))
                  (sql_query co_cursor (\<lambda>_. True) (t_change_origins s)) of
        None \<Rightarrow> None
      | Some (previous, envelopeGeneration, cuts) \<Rightarrow>
         if previous \<noteq> serverCursor \<or> envelopeGeneration \<noteq> runtimeEnvelopeGeneration then None else Some cuts)"

section \<open>What the walk establishes\<close>

text \<open>The cursors of the origins, when they are well formed, are exactly the ones assigned so far.\<close>

definition origins_contiguous :: "db \<Rightarrow> uint64 \<Rightarrow> bool" where
  "origins_contiguous s cursor \<longleftrightarrow> set (map co_cursor (t_change_origins s)) = uint64_cell ` {c. 0 < c \<and> c \<le> cursor}"

lemma walkOrigins_set:
  assumes "walkOrigins s serverCursor p g cuts ogs = Some (q, h, cuts')"
  shows "p \<le> q \<and> map co_cursor ogs = map uint64_cell (map (\<lambda>i. word_of_nat i) [Suc (unat p)..<Suc (unat q)])"
  using assms
proof (induction ogs arbitrary: p g cuts)
  case Nil
  then show ?case by simp
next
  case (Cons og ogs)
  from Cons.prems obtain x where x: "scanOrigin s og = Some x" "p \<noteq> - 1" "og_cursor x = p + 1"
    by (auto split: option.splits if_splits)
  have rest: "\<exists>g' cuts''. walkOrigins s serverCursor (p + 1) g' cuts'' ogs = Some (q, h, cuts')"
    using Cons.prems x by (auto split: option.splits if_splits)
  then obtain g' cuts'' where "walkOrigins s serverCursor (p + 1) g' cuts'' ogs = Some (q, h, cuts')" by blast
  from Cons.IH[OF this] have IH: "p + 1 \<le> q"
    "map co_cursor ogs = map uint64_cell (map (\<lambda>i. word_of_nat i) [Suc (unat (p + 1))..<Suc (unat q)])" by auto
  have c: "co_cursor og = uint64_cell (p + 1)"
    using x by (auto simp: scanOrigin_def Let_def scan_uint64_eq split: option.splits if_splits)
  have u: "unat (p + 1) = Suc (unat p)" using x(2) by (rule unat_succ)
  have le: "Suc (unat p) \<le> unat q" using IH(1) u by (simp add: word_le_nat_alt)
  have "[Suc (unat p)..<Suc (unat q)] = Suc (unat p) # [Suc (Suc (unat p))..<Suc (unat q)]"
    using le by (simp add: upt_conv_Cons)
  moreover have "word_of_nat (Suc (unat p)) = p + 1" by simp
  ultimately show ?case using IH c u le
    by (simp add: word_le_nat_alt del: upt_Suc)
qed

lemma validatePersistentChangeOrigins_contiguous:
  assumes "validatePersistentChangeOrigins serverCursor g cuts s = Some r"
  shows "origins_contiguous s serverCursor"
proof -
  from assms obtain q h cuts' where w:
    "walkOrigins s serverCursor 0 0 (map (\<lambda>cut. (cut, 0)) (remdups cuts))
       (sql_query co_cursor (\<lambda>_. True) (t_change_origins s)) = Some (q, h, cuts')" "q = serverCursor"
    by (auto simp: validatePersistentChangeOrigins_def split: option.splits if_splits)
  have "set (map co_cursor (t_change_origins s)) = set (map co_cursor (sql_query co_cursor (\<lambda>_. True) (t_change_origins s)))"
    by simp
  also have "\<dots> = set (map uint64_cell (map (\<lambda>i. word_of_nat i) [Suc 0..<Suc (unat serverCursor)]))"
    using walkOrigins_set[OF w(1)] w(2) by (simp only: unat_0)
  also have "\<dots> = uint64_cell ` {c. 0 < c \<and> c \<le> serverCursor}"
  proof -
    have "(\<lambda>i. word_of_nat i :: uint64) ` {Suc 0..<Suc (unat serverCursor)} = {c. 0 < c \<and> c \<le> serverCursor}"
    proof (intro equalityI subsetI)
      fix c :: uint64 assume "c \<in> {c. 0 < c \<and> c \<le> serverCursor}"
      then have "unat c \<in> {Suc 0..<Suc (unat serverCursor)}"
        by (auto simp: word_le_nat_alt word_less_nat_alt)
      then show "c \<in> (\<lambda>i. word_of_nat i) ` {Suc 0..<Suc (unat serverCursor)}"
        by (intro image_eqI[of _ _ "unat c"]) auto
    next
      fix c :: uint64 assume "c \<in> (\<lambda>i. word_of_nat i) ` {Suc 0..<Suc (unat serverCursor)}"
      then obtain i where i: "c = word_of_nat i" "0 < i" "i \<le> unat serverCursor" by auto
      moreover have "unat serverCursor < 2 ^ 64" using unsigned_less[of serverCursor, where ?'a = nat] by simp
      ultimately have "unat c = i" by (simp add: unat_of_nat)
      with i show "c \<in> {c. 0 < c \<and> c \<le> serverCursor}" by (simp add: word_le_nat_alt word_less_nat_alt)
    qed
    then show ?thesis by (simp only: set_map set_upt)
  qed
  finally show ?thesis by (simp add: origins_contiguous_def)
qed

end
