(* ===== verification/Envelope.thy ===== *)
theory Envelope
  imports ChangeOrigins
begin

text \<open>
  The vault envelope (\<^verbatim>\<open>store/envelope.go\<close>): one row, replaced under an optimistic generation check.
  \<open>handlePutEnvelope\<close> is the compare-and-swap; it assigns the next cursor, logs the change, stores the
  receipt and commits in one transaction.
\<close>

section \<open>Reading\<close>

definition envelopeBody :: "Identity \<Rightarrow> uint64 \<Rightarrow> uint64 \<Rightarrow> vault_envelope_row \<Rightarrow> bytes api_result" where
  "envelopeBody identity runtimeGeneration secretGeneration row =
     (case (scan_uint64 (vb_generation row), scan_body maxBodyBytes (vb_envelope_json row)) of
        (Some storedGeneration, Some body) \<Rightarrow>
          if storedGeneration \<noteq> runtimeGeneration then Inl internal_error
          else (case json_Unmarshal T_vaultEnvelope body of
             None \<Rightarrow> Inl internal_error
           | Some g \<Rightarrow>
              (case validateEnvelope (of_vaultEnvelope g) identity of
                 None \<Rightarrow> Inl internal_error
               | Some (envelopeGeneration, envelopeSecretGeneration) \<Rightarrow>
                  if envelopeGeneration \<noteq> runtimeGeneration \<or> envelopeSecretGeneration \<noteq> secretGeneration
                     \<or> marshalJSON g \<noteq> Some body then Inl internal_error
                  else Inr body))
      | _ \<Rightarrow> Inl internal_error)"

definition handleGetEnvelope :: "io \<Rightarrow> api_request \<Rightarrow> Store \<Rightarrow> api_response api_result \<times> Store" where
  "handleGetEnvelope io call store =
     (if rq_Body call \<noteq> [] then (Inl invalid_request, store)
      else runTx io store
        (bindT (readT (authenticate (st_identity store) (rq_Authorization call) ''envelope:read'')) (\<lambda>_.
         bindT (readT readRuntimeState) (\<lambda>(_, runtimeGeneration, secretGeneration, _).
         bindT (readT (\<lambda>s. case t_vault_envelope s of
             None \<Rightarrow> if runtimeGeneration \<noteq> 0 then Inl internal_error else Inl (NewError ''envelope_missing'' False)
           | Some row \<Rightarrow> envelopeBody (st_identity store) runtimeGeneration secretGeneration row)) (\<lambda>body.
         returnT (Rollback \<lparr>rs_Status = 200, rs_Body = body, rs_Headers = []\<rparr>))))))"

section \<open>Writing\<close>

text \<open>The checks between the receipt lookup and the first statement.\<close>

definition admitEnvelope ::
  "Identity \<Rightarrow> uint64 \<Rightarrow> putEnvelopeRequest \<Rightarrow> db \<Rightarrow> (uint64 \<times> uint64) api_result" where
  "admitEnvelope identity expected request s =
     bindR (readRuntimeState s) (\<lambda>(cursor, storedGeneration, secretGeneration, _).
     bindR (guardR (validatePersistentEnvelope identity storedGeneration secretGeneration s) internal_error) (\<lambda>_.
     bindR (guardR (validatePersistentChangeOrigins cursor storedGeneration [] s \<noteq> None) internal_error) (\<lambda>_.
     bindR (guardR (expected = storedGeneration) (NewError ''generation_conflict'' True)) (\<lambda>_.
     bindR (guardR (storedGeneration \<noteq> - 1) (NewError ''generation_exhausted'' False)) (\<lambda>_.
     bindR (optR invalid_request (parseUint64 (peq_NewGeneration request))) (\<lambda>newGeneration.
     bindR (guardR (newGeneration = storedGeneration + 1) invalid_request) (\<lambda>_.
     bindR (guardR (cursor \<noteq> - 1) (NewError ''server_cursor_exhausted'' False)) (\<lambda>_.
     bindR (guardR (validateEnvelope (peq_Envelope request) identity = Some (newGeneration, secretGeneration)) invalid_request) (\<lambda>_.
     Inr (cursor + 1, newGeneration))))))))))"

definition writeEnvelope :: "uint64 \<Rightarrow> bytes \<Rightarrow> db \<Rightarrow> api_error + (unit \<times> db)" where
  "writeEnvelope newGeneration responseBody =
     bindT (updateDB (\<lambda>s. s\<lparr>t_vault_envelope := Some \<lparr>vb_generation = uint64_cell newGeneration, vb_envelope_json = CBlob responseBody\<rparr>\<rparr>)) (\<lambda>_.
     updateDB (\<lambda>s. s\<lparr>t_runtime_state := (t_runtime_state s)\<lparr>rt_envelope_generation := uint64_cell newGeneration\<rparr>\<rparr>))"

definition putEnvelopeTx ::
  "Identity \<Rightarrow> ephemeralState \<Rightarrow> api_request \<Rightarrow> uint64 \<Rightarrow> putEnvelopeRequest \<Rightarrow> db \<Rightarrow> api_error + (outcome \<times> db)" where
  "putEnvelopeTx identity e call expected request =
     bindT (readT (authenticate identity (rq_Authorization call) ''envelope:write'')) (\<lambda>authenticated.
     bindT (readT (\<lambda>_. requestFingerprint identity ''JAT vault envelope request fingerprint v1'' (da_DeviceID authenticated) (rq_Body call))) (\<lambda>fingerprint.
     bindT (readT (lookupReceipt identity (da_DeviceID authenticated) ''vault-envelope'' (rq_RequestID call) fingerprint)) (\<lambda>found.
     case found of
       Some response \<Rightarrow> returnT (Rollback response)
     | None \<Rightarrow>
        bindT (readT (admitEnvelope identity expected request)) (\<lambda>(newCursor, newGeneration).
        bindT (readT (\<lambda>_. optR internal_error (marshalJSON (to_vaultEnvelope (peq_Envelope request))))) (\<lambda>responseBody.
        bindT (writeEnvelope newGeneration responseBody) (\<lambda>_.
        bindT (insertChange newCursor ''envelope_changed'' [] [] [] [] newGeneration (rq_Now call)) (\<lambda>_.
        let response = \<lparr>rs_Status = 200, rs_Body = responseBody, rs_Headers = []\<rparr>
        in bindT (storeReceipt e (da_DeviceID authenticated) ''vault-envelope'' (rq_RequestID call) fingerprint response (rq_Now call)) (\<lambda>checkpoint.
           bindT (setServerCursor newCursor) (\<lambda>_.
           returnT (Commit response (Some checkpoint)))))))))))"

definition handlePutEnvelope :: "io \<Rightarrow> api_request \<Rightarrow> Store \<Rightarrow> api_response api_result \<times> Store" where
  "handlePutEnvelope io call store =
     (case decodeStrict T_putEnvelopeRequest (rq_Body call) of
        None \<Rightarrow> (Inl invalid_request, store)
      | Some g \<Rightarrow>
         (case parseUint64 (peq_ExpectedGeneration (of_putEnvelopeRequest g)) of
            None \<Rightarrow> (Inl invalid_request, store)
          | Some expected \<Rightarrow>
             runTx io store (putEnvelopeTx (st_identity store) (st_ephemeral store) call expected (of_putEnvelopeRequest g))))"

end
