(* ===== verification/Leases.thy ===== *)
theory Leases
  imports Envelope
begin

text \<open>
  Snapshot leases and the release of content objects: \<^verbatim>\<open>deleteUnreferencedRevisionObject\<close>
  (\<^verbatim>\<open>store/collection.go\<close>), \<^verbatim>\<open>deleteSnapshotAndReleaseObjects\<close>, \<^verbatim>\<open>pruneExpiredSnapshots\<close>
  (\<^verbatim>\<open>store/snapshot.go\<close>), and the daemon boot and enrollment grants of \<^verbatim>\<open>store/dataplane.go\<close>.

  A request can change the ephemeral state in the middle of a transaction that later fails (an expired
  lease is forgotten, an attempt is counted). Such handlers are written in phases: \<open>runPhase\<close> runs a first
  transaction part, whose result is either an early outcome or the data for the rest.
\<close>

section \<open>Phases\<close>

definition runPhase ::
  "io \<Rightarrow> Store \<Rightarrow> (db \<Rightarrow> api_error + ((outcome + 'x) \<times> db)) \<Rightarrow>
     ('x \<Rightarrow> db \<Rightarrow> api_response api_result \<times> Store) \<Rightarrow> api_response api_result \<times> Store" where
  "runPhase io store tx rest =
     (if \<not> io_begin io then (Inl internal_error, store)
      else case tx (st_db store) of
        Inl e \<Rightarrow> (Inl e, store)
      | Inr (Inl outcome, s) \<Rightarrow> finishTx io store (Inr (outcome, s))
      | Inr (Inr x, s) \<Rightarrow> rest x s)"

section \<open>Releasing content objects\<close>

definition snapshotIdentifiers :: "db \<Rightarrow> bytes list api_result" where
  "snapshotIdentifiers s =
     bindR (mapR (\<lambda>n. optR internal_error (scan_uuid (sn_snapshot_id n)))
              (take 9 (sql_query sn_snapshot_id (\<lambda>_. True) (t_snapshots s)))) (\<lambda>ids.
       if 8 < length ids then Inl internal_error else Inr ids)"

definition deleteRevisionObject :: "bytes \<Rightarrow> db \<Rightarrow> db option" where
  "deleteRevisionObject hash s =
     (if list_ex (\<lambda>ob. ro_content_hash ob = CBlob hash) (t_revision_objects s)
         \<and> list_ex (\<lambda>f. sf_content_hash f = CBlob hash) (t_snapshot_revision_refs s) then None
      else Some (s\<lparr>t_revision_objects := sql_delete (\<lambda>ob. ro_content_hash ob = CBlob hash) (t_revision_objects s)\<rparr>))"

definition deleteUnreferencedRevisionObject :: "bytes \<Rightarrow> bytes \<Rightarrow> db \<Rightarrow> api_error + (unit \<times> db)" where
  "deleteUnreferencedRevisionObject hash revisionID =
     bindT (readT (\<lambda>s. case find (\<lambda>r. rv_revision_id r = CText revisionID) (t_record_revisions s) of
         None \<Rightarrow> Inl internal_error
       | Some r \<Rightarrow> if scan_blob 32 (rv_content_hash r) \<noteq> Some hash then Inl internal_error else Inr (rv_retained r))) (\<lambda>retained.
     if retained = 1 then returnT ()
     else bindT (readT snapshotIdentifiers) (\<lambda>snapshotIDs.
       bindT (readT (\<lambda>s. Inr (list_ex (\<lambda>i. list_ex (\<lambda>f. sf_snapshot_id f = CText i \<and> sf_revision_id f = CText revisionID)
                (t_snapshot_revision_refs s)) snapshotIDs))) (\<lambda>referenced.
       if referenced then returnT () else execDB (deleteRevisionObject hash))))"

definition deleteSnapshot :: "bytes \<Rightarrow> db \<Rightarrow> db" where
  "deleteSnapshot snapshotID s = s\<lparr>
     t_snapshots := sql_delete (\<lambda>n. sn_snapshot_id n = CText snapshotID) (t_snapshots s),
     t_snapshot_pages := sql_delete (\<lambda>g. sg_snapshot_id g = CText snapshotID) (t_snapshot_pages s),
     t_snapshot_revision_refs := sql_delete (\<lambda>f. sf_snapshot_id f = CText snapshotID) (t_snapshot_revision_refs s)\<rparr>"

definition snapshotReferences :: "bytes \<Rightarrow> db \<Rightarrow> (bytes \<times> bytes) list api_result" where
  "snapshotReferences snapshotID s =
     mapR (\<lambda>f. case (scan_uuid (sf_revision_id f), scan_blob 32 (sf_content_hash f)) of
         (Some revisionID, Some hash) \<Rightarrow> Inr (revisionID, hash)
       | _ \<Rightarrow> Inl internal_error)
       (sql_query sf_revision_id (\<lambda>f. sf_snapshot_id f = CText snapshotID) (t_snapshot_revision_refs s))"

definition deleteSnapshotAndReleaseObjects :: "bytes \<Rightarrow> db \<Rightarrow> api_error + (unit \<times> db)" where
  "deleteSnapshotAndReleaseObjects snapshotID =
     bindT (readT (snapshotReferences snapshotID)) (\<lambda>references.
     bindT (updateDB (deleteSnapshot snapshotID)) (\<lambda>_.
     forT (\<lambda>(revisionID, hash). deleteUnreferencedRevisionObject hash revisionID) references))"

text \<open>
  \<^verbatim>\<open>pruneExpiredSnapshots\<close>: the identifiers whose lease is over (or unknown), the ephemeral state
  without their deadlines, and the statements that delete them.
\<close>

definition expiredSnapshots :: "ephemeralState \<Rightarrow> time \<Rightarrow> db \<Rightarrow> bytes list api_result" where
  "expiredSnapshots e now s =
     bindR (snapshotIdentifiers s) (\<lambda>ids.
       Inr (filter (\<lambda>i. case map_of (snapshotDeadlines e) i of None \<Rightarrow> True | Some deadline \<Rightarrow> deadline \<le> now) ids))"

definition forgetDeadlines :: "bytes list \<Rightarrow> ephemeralState \<Rightarrow> ephemeralState" where
  "forgetDeadlines ids e = e\<lparr>snapshotDeadlines := filter (\<lambda>(i, _). i \<notin> set ids) (snapshotDeadlines e)\<rparr>"

definition pruneExpiredSnapshots :: "bytes list \<Rightarrow> db \<Rightarrow> api_error + (unit \<times> db)" where
  "pruneExpiredSnapshots expired = forT deleteSnapshotAndReleaseObjects expired"

section \<open>Boot and grants\<close>

definition StartBoot :: "io \<Rightarrow> Store \<Rightarrow> unit api_result \<times> Store" where
  "StartBoot io store =
     (let bootID' = io_rand io 0;
          tx = bindT (updateDB (\<lambda>s. s\<lparr>t_runtime_state := (t_runtime_state s)\<lparr>rt_active_boot_id := CBlob bootID'\<rparr>,
                                      t_enrollment_grants := []\<rparr>)) (\<lambda>_.
               bindT (readT snapshotIdentifiers) (\<lambda>snapshotIDs.
               forT deleteSnapshotAndReleaseObjects snapshotIDs))
      in if \<not> io_begin io then (Inl internal_error, store)
         else case tx (st_db store) of
           Inl e \<Rightarrow> (Inl e, store)
         | Inr (_, s) \<Rightarrow>
            if \<not> io_commit io then (Inl internal_error, store)
            else (Inr (), store\<lparr>st_db := s, st_ephemeral := \<lparr>bootID = bootID', booted = True, uptimeCheckpoint = io_now io,
                   grantDeadlines = [], enrollmentAttempts = [], snapshotAttempts = [], snapshotDeadlines = []\<rparr>\<rparr>))"

definition CreateEnrollmentGrant :: "io \<Rightarrow> time \<Rightarrow> Store \<Rightarrow> (bytes \<times> time) option \<times> Store" where
  "CreateEnrollmentGrant io now store =
     (let e = st_ephemeral store;
          expiredHashes = map fst (filter (\<lambda>(_, deadline). deadline \<le> now) (grantDeadlines e));
          grant = io_rand io 0; deadline = now + enrollmentGrantLifetime
      in if \<not> booted e then (None, store)
         else case EnrollmentGrantHash (id_InstanceID (st_identity store)) (id_VaultID (st_identity store)) grant of
           None \<Rightarrow> (None, store)
         | Some hash \<Rightarrow>
            if \<not> io_begin io then (None, store)
            else let pruned = (st_db store)\<lparr>t_enrollment_grants :=
                       sql_delete (\<lambda>g. \<exists>h\<in>set expiredHashes. eg_grant_hash g = CBlob h \<and> eg_boot_id g = CBlob (bootID e))
                         (t_enrollment_grants (st_db store))\<rparr>
            in case insert_enrollment_grants \<lparr>eg_grant_hash = CBlob hash, eg_boot_id = CBlob (bootID e),
                      eg_expires_at_ms = UnixMilli deadline, eg_consumed_enrollment_id = CNull\<rparr> pruned of
                 None \<Rightarrow> (None, store)
               | Some s \<Rightarrow>
                  if \<not> io_commit io then (None, store)
                  else (Some (grant, deadline), store\<lparr>st_db := s, st_ephemeral := e\<lparr>grantDeadlines :=
                         filter (\<lambda>(h, _). h \<notin> set expiredHashes) (grantDeadlines e) @ [(hash, deadline)]\<rparr>\<rparr>))"

end
