(* ===== verification/Enrollment.thy ===== *)
theory Enrollment
  imports Leases
begin

text \<open>
  Enrollment of devices (\<^verbatim>\<open>store/enrollment.go\<close>): a one-time grant of the running daemon admits one new
  device; a replay of the exact request returns the stored response. Attempts that reach the admission
  check are limited to five per minute, whether or not the transaction commits, so the handler has two
  phases around \<^verbatim>\<open>admitEnrollmentAttempt\<close>.
\<close>

section \<open>Device values\<close>

definition deviceFromValues :: "bytes \<Rightarrow> int \<Rightarrow> int option \<Rightarrow> int option \<Rightarrow> uint64 \<Rightarrow> uint64 \<Rightarrow> device" where
  "deviceFromValues deviceID createdAt revokedAt lastSyncAt ackCursor maxAuthorCounter =
     \<lparr>dv_DeviceID = deviceID, dv_Scopes = FixedScopes,
      dv_Status = (case revokedAt of None \<Rightarrow> ''active'' | Some _ \<Rightarrow> ''revoked''),
      dv_CreatedAt = formatTimestamp createdAt,
      dv_RevokedAt = map_option formatTimestamp revokedAt,
      dv_LastSyncAt = map_option formatTimestamp lastSyncAt,
      dv_AckCursor = encodeUint64Text ackCursor,
      dv_MaxAuthorCounter = encodeUint64Text maxAuthorCounter\<rparr>"

section \<open>Grants and stored enrollments\<close>

definition grantRow :: "bytes \<Rightarrow> bytes option option \<Rightarrow> enrollment_grants_row \<Rightarrow> bytes option option api_result" where
  "grantRow presented matched row =
     (case (scan_blob 32 (eg_grant_hash row), scan_opt_uuid (eg_consumed_enrollment_id row)) of
        (Some candidate, Some consumed) \<Rightarrow> Inr (if VerifyHash candidate presented then Some consumed else matched)
      | _ \<Rightarrow> Inl internal_error)"

definition grantDeadline :: "bytes \<Rightarrow> (bytes \<times> time) list \<Rightarrow> time option" where
  "grantDeadline presented deadlines =
     fold (\<lambda>(hash, deadline) found. if VerifyHash hash presented then Some deadline else found) deadlines None"

definition lookupGrant :: "ephemeralState \<Rightarrow> bytes \<Rightarrow> time \<Rightarrow> db \<Rightarrow> bytes option api_result" where
  "lookupGrant e presented now s =
     (if \<not> booted e then Inl (NewError ''grant_expired'' False)
      else bindR (foldR (grantRow presented) None
              (sql_query eg_grant_hash (\<lambda>g. eg_boot_id g = CBlob (bootID e)) (t_enrollment_grants s))) (\<lambda>matched.
        case matched of
          None \<Rightarrow> Inl unauthorized
        | Some consumed \<Rightarrow>
           (case grantDeadline presented (grantDeadlines e) of
              None \<Rightarrow> Inl (NewError ''grant_expired'' False)
            | Some deadline \<Rightarrow> if deadline \<le> now then Inl (NewError ''grant_expired'' False) else Inr consumed)))"

definition preflightEnrollmentKey :: "bytes \<Rightarrow> db \<Rightarrow> bool api_result" where
  "preflightEnrollmentKey enrollmentID s = probe_key en_enrollment_id enrollmentID (t_enrollments s)"

text \<open>The four ranges of the collision probe, two per table, with its limit of four rows.\<close>

definition preflightEnrollmentDeviceCollision :: "bytes \<Rightarrow> db \<Rightarrow> bool api_result" where
  "preflightEnrollmentDeviceCollision deviceID s =
     (if \<not> validateUUID deviceID then Inl internal_error
      else let found = take 4 (map (\<lambda>r. (1 :: nat, en_device_id r)) (probe_rows en_device_id deviceID (t_enrollments s))
                               @ map (\<lambda>r. (2, d_device_id r)) (probe_rows d_device_id deviceID (t_devices s)))
      in if list_ex (\<lambda>p. scan_uuid (snd p) \<noteq> Some deviceID) found \<or> \<not> distinct (map fst found) then Inl internal_error
         else Inr (found \<noteq> []))"

definition lookupEnrollment ::
  "Identity \<Rightarrow> bytes \<Rightarrow> enrollmentRequest \<Rightarrow> bytes \<Rightarrow> bytes \<Rightarrow> db \<Rightarrow> bytes option api_result" where
  "lookupEnrollment identity enrollmentID request tokenHash fingerprint s =
     bindR (preflightEnrollmentKey enrollmentID s) (\<lambda>present.
       if \<not> present then Inr None
       else case find (\<lambda>r. en_enrollment_id r = CText enrollmentID) (t_enrollments s) of
         None \<Rightarrow> Inl internal_error
       | Some r \<Rightarrow>
          (case (scan_uuid (en_device_id r), scan_blob 32 (en_token_hash r), scan_text (length wantScopes) (en_scopes_json r),
                 scan_blob 32 (en_request_fingerprint r), scan_body maxBodyBytes (en_response_json r)) of
             (Some deviceID, Some recordedToken, Some scopesJSON, Some recordedFingerprint, Some response) \<Rightarrow>
               if scopesJSON \<noteq> wantScopes \<or> en_created_status r \<noteq> 201
                  \<or> \<not> validateStoredEnrollmentResponse response identity deviceID then Inl internal_error
               else if enrollmentID = erq_EnrollmentID request \<and> deviceID = erq_DeviceID request
                  \<and> VerifyHash recordedToken tokenHash \<and> VerifyHash recordedFingerprint fingerprint
               then Inr (Some response)
               else Inl (NewError ''enrollment_replay_mismatch'' False)
           | _ \<Rightarrow> Inl internal_error))"

section \<open>Rate limit\<close>

text \<open>
  The window shared by the two rate limits: attempts of the last minute are kept, and the sixth one in
  a minute is refused. The result is the kept attempts, with the new one when it is admitted.
\<close>

definition admitAttempt :: "time list \<Rightarrow> time \<Rightarrow> bool \<times> time list" where
  "admitAttempt attempts now =
     (let retained = filter (\<lambda>a. now - Minute < a) attempts
      in if 5 \<le> length retained then (False, retained) else (True, retained @ [now]))"

definition admitEnrollmentAttempt :: "time \<Rightarrow> ephemeralState \<Rightarrow> unit api_result \<times> ephemeralState" where
  "admitEnrollmentAttempt now e =
     (if \<not> booted e then (Inl (NewError ''grant_expired'' False), e)
      else let (ok, attempts) = admitAttempt (enrollmentAttempts e) now
      in (guardR ok (NewError ''rate_limited'' False), e\<lparr>enrollmentAttempts := attempts\<rparr>))"

section \<open>The handler\<close>

definition consumeGrant :: "bytes \<Rightarrow> bytes \<Rightarrow> db \<Rightarrow> db" where
  "consumeGrant grantHash enrollmentID s =
     s\<lparr>t_enrollment_grants := sql_set (\<lambda>g. eg_grant_hash g = CBlob grantHash)
         (\<lambda>g. g\<lparr>eg_consumed_enrollment_id := CText enrollmentID\<rparr>) (t_enrollment_grants s)\<rparr>"

definition response200 :: "bytes \<Rightarrow> api_response" where
  "response200 body = \<lparr>rs_Status = 200, rs_Body = body, rs_Headers = []\<rparr>"

definition enrollmentLookupTx ::
  "Identity \<Rightarrow> ephemeralState \<Rightarrow> enrollmentRequest \<Rightarrow> bytes \<Rightarrow> bytes \<Rightarrow> bytes \<Rightarrow> time \<Rightarrow> db
     \<Rightarrow> api_error + ((outcome + unit) \<times> db)" where
  "enrollmentLookupTx identity e request grantHash tokenHash fingerprint now =
     bindT (readT (lookupGrant e grantHash now)) (\<lambda>consumed.
     case consumed of
       Some consumedEnrollmentID \<Rightarrow>
         bindT (readT (lookupEnrollment identity consumedEnrollmentID request tokenHash fingerprint)) (\<lambda>found.
         case found of
           None \<Rightarrow> failT (NewError ''grant_consumed'' False)
         | Some response \<Rightarrow> returnT (Inl (Rollback (response200 response))))
     | None \<Rightarrow>
         bindT (readT (lookupEnrollment identity (erq_EnrollmentID request) request tokenHash fingerprint)) (\<lambda>found.
         case found of
           Some response \<Rightarrow>
             bindT (updateDB (consumeGrant grantHash (erq_EnrollmentID request))) (\<lambda>_.
             returnT (Inl (Commit (response200 response) None)))
         | None \<Rightarrow>
             bindT (readT (preflightEnrollmentDeviceCollision (erq_DeviceID request))) (\<lambda>collision.
             if collision then failT (NewError ''enrollment_replay_mismatch'' False)
             else bindT (readT (\<lambda>s. Inr (list_ex (\<lambda>d. d_token_hash d = CBlob tokenHash) (t_devices s)))) (\<lambda>clash.
               if clash then failT (NewError ''enrollment_replay_mismatch'' False) else returnT (Inr ())))))"

definition deviceCounts :: "db \<Rightarrow> nat \<times> nat" where
  "deviceCounts s = (let rows = take 65 (t_devices s) in (length rows, length (filter (\<lambda>d. d_revoked_at_ms d = None) rows)))"

definition insertDeviceRows :: "bytes \<Rightarrow> bytes \<Rightarrow> int \<Rightarrow> uint64 \<Rightarrow> db \<Rightarrow> api_error + (unit \<times> db)" where
  "insertDeviceRows deviceID tokenHash createdAtMS newCursor =
     bindT (execDB (insert_devices \<lparr>d_device_id = CText deviceID, d_token_hash = CBlob tokenHash, d_scopes_json = CText wantScopes,
       d_created_at_ms = createdAtMS, d_revoked_at_ms = None, d_last_sync_at_ms = None, d_last_ack_cursor = uint64_cell 0,
       d_max_author_counter = uint64_cell 0\<rparr>)) (\<lambda>_.
     bindT (execDB (insert_device_origins \<lparr>do_device_id = CText deviceID, do_origin_kind = CText ''enrolled'',
       do_created_cursor = uint64_cell newCursor, do_revoked_cursor = CNull, do_baseline_revoked = 0\<rparr>)) (\<lambda>_.
     execDB (insert_device_sync_state \<lparr>ds_device_id = CText deviceID, ds_max_returned_cursor = uint64_cell 0\<rparr>)))"

definition enrollTx ::
  "Identity \<Rightarrow> enrollmentRequest \<Rightarrow> bytes \<Rightarrow> bytes \<Rightarrow> bytes \<Rightarrow> time \<Rightarrow> db \<Rightarrow> api_error + (outcome \<times> db)" where
  "enrollTx identity request grantHash tokenHash fingerprint now =
     bindT (readT (\<lambda>s. Inr (deviceCounts s))) (\<lambda>(deviceCount, activeCount).
     bindT (guardT (deviceCount \<le> 64) internal_error) (\<lambda>_.
     bindT (guardT (deviceCount < 64) (NewError ''limit_exceeded'' False)) (\<lambda>_.
     bindT (readT (reserveCursors 1)) (\<lambda>newCursor.
     bindT (readT readRuntimeState) (\<lambda>(_, envelopeGeneration, _, _).
     let createdAtMS = UnixMilli now in
     bindT (insertDeviceRows (erq_DeviceID request) tokenHash createdAtMS newCursor) (\<lambda>_.
     let responseValue = \<lparr>ers_ProtocolVersion = ''1'', ers_InstanceID = id_InstanceID identity, ers_VaultID = id_VaultID identity,
           ers_Device = deviceFromValues (erq_DeviceID request) createdAtMS None None 0 0,
           ers_EnvelopeGeneration = encodeUint64Text envelopeGeneration, ers_BecameFirstActiveDevice = (activeCount = 0)\<rparr>
     in
     bindT (readT (\<lambda>_. optR internal_error (marshalJSON (to_enrollmentResponse responseValue)))) (\<lambda>responseBody.
     bindT (execDB (insert_enrollments \<lparr>en_enrollment_id = CText (erq_EnrollmentID request), en_device_id = CText (erq_DeviceID request),
       en_created_cursor = uint64_cell newCursor, en_token_hash = CBlob tokenHash, en_scopes_json = CText wantScopes,
       en_request_fingerprint = CBlob fingerprint, en_response_json = CBlob responseBody, en_created_status = 201\<rparr>)) (\<lambda>_.
     bindT (updateDB (consumeGrant grantHash (erq_EnrollmentID request))) (\<lambda>_.
     bindT (insertChange newCursor ''device_changed'' [] [] (erq_DeviceID request) ''enrolled'' 0 now) (\<lambda>_.
     bindT (setServerCursor newCursor) (\<lambda>_.
     returnT (Commit \<lparr>rs_Status = 201, rs_Body = responseBody, rs_Headers = []\<rparr> None))))))))))))"

definition handleEnrollment :: "io \<Rightarrow> api_request \<Rightarrow> Store \<Rightarrow> api_response api_result \<times> Store" where
  "handleEnrollment io call store =
     (let identity = st_identity store; e = st_ephemeral store in
      case decodeStrict T_enrollmentRequest (rq_Body call) of
        None \<Rightarrow> (Inl invalid_request, store)
      | Some g \<Rightarrow> let request = of_enrollmentRequest g in
     (case validateEnrollmentRequest request of
        None \<Rightarrow> (Inl invalid_request, store)
      | Some token \<Rightarrow>
     (case parseAuthorization (rq_Authorization call) ''JAT-Enrollment'' of
        None \<Rightarrow> (Inl unauthorized, store)
      | Some grant \<Rightarrow>
     (case EnrollmentGrantHash (id_InstanceID identity) (id_VaultID identity) grant of
        None \<Rightarrow> (Inl unauthorized, store)
      | Some grantHash \<Rightarrow>
     (case DeviceTokenHash (id_InstanceID identity) (id_VaultID identity) (erq_DeviceID request) token of
        None \<Rightarrow> (Inl invalid_request, store)
      | Some tokenHash \<Rightarrow>
     (case requestFingerprint identity ''JAT enrollment request fingerprint v1'' (erq_DeviceID request) (rq_Body call) of
        Inl err \<Rightarrow> (Inl err, store)
      | Inr fingerprint \<Rightarrow>
     runPhase io store (enrollmentLookupTx identity e request grantHash tokenHash fingerprint (rq_Now call)) (\<lambda>_ s.
       case admitEnrollmentAttempt (rq_Now call) e of
         (Inl err, e') \<Rightarrow> (Inl err, store\<lparr>st_ephemeral := e'\<rparr>)
       | (Inr _, e') \<Rightarrow>
          finishTx io (store\<lparr>st_ephemeral := e'\<rparr>)
            (enrollTx identity request grantHash tokenHash fingerprint (rq_Now call) s))))))))"

end
