(* ===== verification/Devices.thy ===== *)
theory Devices
  imports Enrollment
begin

text \<open>
  Device management (\<^verbatim>\<open>store/devices.go\<close>): listing, revocation (with the receipt that lets a device that
  revoked itself replay exactly that one request) and token rotation (with the rotation record that lets
  either the old or the new token replay it).
\<close>

section \<open>Reading devices\<close>

definition readDevice :: "bytes \<Rightarrow> db \<Rightarrow> (device \<times> bytes) api_result" where
  "readDevice deviceID s =
     (case find (\<lambda>d. d_device_id d = CText deviceID) (t_devices s) of
        None \<Rightarrow> Inl (NewError ''device_not_found'' False)
      | Some d \<Rightarrow>
         (case (scan_blob 32 (d_token_hash d), scan_uint64 (d_last_ack_cursor d), scan_uint64 (d_max_author_counter d),
                scan_text (length wantScopes) (d_scopes_json d)) of
            (Some tokenHash, Some ackCursor, Some maxCounter, Some scopesJSON) \<Rightarrow>
              if scopesJSON \<noteq> wantScopes then Inl internal_error
              else (case json_Unmarshal (TSlice TString) scopesJSON of
                 None \<Rightarrow> Inl internal_error
               | Some g \<Rightarrow>
                  if \<not> ValidateScopes (g_slice g_string g) then Inl internal_error
                  else Inr (deviceFromValues deviceID (d_created_at_ms d) (d_revoked_at_ms d) (d_last_sync_at_ms d) ackCursor maxCounter,
                            tokenHash))
          | _ \<Rightarrow> Inl internal_error))"

definition listDevices :: "db \<Rightarrow> device list api_result" where
  "listDevices s =
     bindR (mapR (\<lambda>d. optR internal_error (scan_uuid (d_device_id d)))
              (take 65 (sql_query d_device_id (\<lambda>_. True) (t_devices s)))) (\<lambda>identifiers.
     if 64 < length identifiers then Inl internal_error
     else mapR (\<lambda>i. bindR (readDevice i s) (\<lambda>p. Inr (fst p))) identifiers)"

definition handleListDevices :: "io \<Rightarrow> api_request \<Rightarrow> Store \<Rightarrow> api_response api_result \<times> Store" where
  "handleListDevices io call store =
     (if rq_Body call \<noteq> [] then (Inl invalid_request, store)
      else runTx io store
        (bindT (readT (authenticate (st_identity store) (rq_Authorization call) ''devices:read'')) (\<lambda>_.
         bindT (readT listDevices) (\<lambda>devices.
         bindT (readT (\<lambda>_. optR internal_error (marshalJSON (GStruct [(''devices'', GSlice (Some (map to_device devices)))])))) (\<lambda>body.
         returnT (Rollback (response200 body)))))))"

section \<open>Retired devices\<close>

definition T_headers :: jtype where
  "T_headers = TSlice (TStruct [(''name'', TString), (''value'', TString)])"

definition to_headers :: "api_header list \<Rightarrow> gval" where
  "to_headers hs = GSlice (Some (map (\<lambda>(n, v). GStruct [(''name'', GString n), (''value'', GString v)]) hs))"

definition of_headers :: "gval \<Rightarrow> api_header list" where
  "of_headers g = g_slice (\<lambda>h. (g_string (g_field ''name'' h), g_string (g_field ''value'' h))) g"

record retiredSelfRevocationReceipt =
  rt_deviceID :: bytes
  rt_requestID :: bytes
  rt_fingerprint :: bytes
  rt_status :: nat
  rt_headers :: "api_header list"
  rt_body :: bytes

definition retiredRow :: "Identity \<Rightarrow> bytes option \<Rightarrow> self_revocation_receipts_row \<Rightarrow> bytes option api_result" where
  "retiredRow identity presentedToken row =
     (case (scan_uuid (sv_device_id row), scan_blob 32 (sv_pre_revocation_token_hash row)) of
        (Some deviceID, Some stored) \<Rightarrow>
          (case DeviceTokenHash (id_InstanceID identity) (id_VaultID identity) deviceID
                  (case presentedToken of None \<Rightarrow> replicate 32 (CHR 0x00) | Some t \<Rightarrow> t) of
             None \<Rightarrow> Inl internal_error
           | Some computed \<Rightarrow> Inr (if presentedToken \<noteq> None \<and> VerifyHash stored computed then Some deviceID else None))
      | _ \<Rightarrow> Inl internal_error)"

definition retiredReceipt :: "bytes \<Rightarrow> db \<Rightarrow> retiredSelfRevocationReceipt api_result" where
  "retiredReceipt matchedDeviceID s =
     (case find (\<lambda>r. sv_device_id r = CText matchedDeviceID) (t_self_revocation_receipts s) of
        None \<Rightarrow> Inl internal_error
      | Some r \<Rightarrow>
         (case (scan_uuid (sv_request_id r), scan_blob 32 (sv_body_fingerprint r),
                scan_body maxBodyBytes (sv_response_headers_json r), scan_body maxBodyBytes (sv_response_json r)) of
            (Some requestID, Some fingerprint, Some headersBody, Some body) \<Rightarrow>
              (case json_Unmarshal T_headers headersBody of
                 None \<Rightarrow> Inl internal_error
               | Some g \<Rightarrow>
                  if marshalJSON g \<noteq> Some headersBody \<or> sv_response_status r \<noteq> 200
                     \<or> of_headers g \<noteq> V1ResponseHeaders requestID (length body) then Inl internal_error
                  else (case decodeStoredCanonical T_device body of
                     None \<Rightarrow> Inl internal_error
                   | Some v \<Rightarrow>
                      if \<not> validateDevice (of_device v) \<or> dv_DeviceID (of_device v) \<noteq> matchedDeviceID
                         \<or> dv_Status (of_device v) \<noteq> ''revoked'' then Inl internal_error
                      else Inr \<lparr>rt_deviceID = matchedDeviceID, rt_requestID = requestID, rt_fingerprint = fingerprint,
                                rt_status = nat (sv_response_status r), rt_headers = of_headers g, rt_body = body\<rparr>))
          | _ \<Rightarrow> Inl internal_error))"

definition lookupRetiredSelfRevocationReceipt ::
  "Identity \<Rightarrow> bytes option \<Rightarrow> db \<Rightarrow> retiredSelfRevocationReceipt option api_result" where
  "lookupRetiredSelfRevocationReceipt identity presentedToken s =
     (let rows = take 65 (sql_query sv_device_id (\<lambda>_. True) (t_self_revocation_receipts s))
      in bindR (mapR (retiredRow identity presentedToken) rows) (\<lambda>results.
         let matched = List.map_filter id results
         in if 64 < length rows \<or> 1 < length matched then Inl internal_error
            else case matched of
              [] \<Rightarrow> Inr None
            | deviceID # _ \<Rightarrow> bindR (retiredReceipt deviceID s) (\<lambda>r. Inr (Some r))))"

section \<open>Revocation\<close>

definition ascii_lower :: "char \<Rightarrow> char" where
  "ascii_lower c = (if byte_in 65 90 c then char_of (of_char c + 32 :: nat) else c)"

text \<open>\<^verbatim>\<open>operation LIKE 'device-revocation/%' AND operation <> ?\<close> within one device and request.\<close>

definition crossTargetReuse :: "bytes \<Rightarrow> bytes \<Rightarrow> bytes \<Rightarrow> db \<Rightarrow> bool" where
  "crossTargetReuse deviceID requestID operation s \<longleftrightarrow>
     list_ex (\<lambda>r. or_device_id r = CText deviceID \<and> or_request_id r = CText requestID
        \<and> (case cell_bytes (or_operation r) of None \<Rightarrow> False | Some b \<Rightarrow> prefix ''device-revocation/'' (map ascii_lower b))
        \<and> or_operation r \<noteq> CText operation) (t_operation_receipts s)"

definition retiredReplay :: "Identity \<Rightarrow> api_request \<Rightarrow> bytes \<Rightarrow> retiredSelfRevocationReceipt \<Rightarrow> outcome api_result" where
  "retiredReplay identity call targetDeviceID r =
     (if rt_deviceID r \<noteq> targetDeviceID then Inl (NewError ''token_revoked'' False)
      else case decodeStrict T_revokeDeviceRequest (rq_Body call) of
        None \<Rightarrow> Inl (NewError ''token_revoked'' False)
      | Some g \<Rightarrow>
         if rdq_RequestID (of_revokeDeviceRequest g) \<noteq> rq_RequestID call \<or> \<not> validateUUID (rdq_RequestID (of_revokeDeviceRequest g))
         then Inl (NewError ''token_revoked'' False)
         else bindR (requestFingerprint identity ''JAT self revocation body fingerprint v1'' targetDeviceID (rq_Body call)) (\<lambda>selfFingerprint.
           if rt_requestID r = rq_RequestID call \<and> VerifyHash (rt_fingerprint r) selfFingerprint
           then Inr (Rollback \<lparr>rs_Status = rt_status r, rs_Body = rt_body r, rs_Headers = rt_headers r\<rparr>)
           else Inl (NewError ''token_revoked'' False)))"

definition activeCount :: "db \<Rightarrow> nat" where
  "activeCount s = length (take 65 (filter (\<lambda>d. d_revoked_at_ms d = None) (t_devices s)))"

definition markRevoked :: "bytes \<Rightarrow> int \<Rightarrow> uint64 \<Rightarrow> db \<Rightarrow> api_error + (unit \<times> db)" where
  "markRevoked targetDeviceID revokedAt newCursor =
     bindT (updateDB (\<lambda>s. s\<lparr>t_devices := sql_set (\<lambda>d. d_device_id d = CText targetDeviceID \<and> d_revoked_at_ms d = None)
              (\<lambda>d. d\<lparr>d_revoked_at_ms := Some (max revokedAt (d_created_at_ms d))\<rparr>) (t_devices s)\<rparr>)) (\<lambda>_.
     let eligible = (\<lambda>og. do_device_id og = CText targetDeviceID \<and> do_baseline_revoked og = 0 \<and> do_revoked_cursor og = CNull) in
     bindT (readT (\<lambda>s. Inr (length (filter eligible (t_device_origins s))))) (\<lambda>affected.
     bindT (execDB (\<lambda>s. map_option (\<lambda>rows. s\<lparr>t_device_origins := rows\<rparr>)
              (sql_update check_device_origins clash_device_origins eligible
                 (\<lambda>og. og\<lparr>do_revoked_cursor := uint64_cell newCursor\<rparr>) (t_device_origins s)))) (\<lambda>_.
     guardT (affected = 1) internal_error)))"

definition selfReceiptTx :: "Identity \<Rightarrow> api_request \<Rightarrow> bytes \<Rightarrow> bytes \<Rightarrow> bytes \<Rightarrow> db \<Rightarrow> api_error + (api_header list \<times> db)" where
  "selfReceiptTx identity call targetDeviceID targetHash body =
     bindT (readT (\<lambda>_. requestFingerprint identity ''JAT self revocation body fingerprint v1'' targetDeviceID (rq_Body call))) (\<lambda>selfFingerprint.
     let headers = V1ResponseHeaders (rq_RequestID call) (length body) in
     bindT (execDB (insert_self_revocation_receipts \<lparr>sv_device_id = CText targetDeviceID, sv_request_id = CText (rq_RequestID call),
       sv_body_fingerprint = CBlob selfFingerprint, sv_pre_revocation_token_hash = CBlob targetHash, sv_response_status = 200,
       sv_response_headers_json = CBlob (marshal (to_headers headers)), sv_response_json = CBlob body\<rparr>)) (\<lambda>_.
     returnT headers))"

definition revokeActiveTx ::
  "Identity \<Rightarrow> ephemeralState \<Rightarrow> api_request \<Rightarrow> bytes \<Rightarrow> revokeDeviceRequest \<Rightarrow> deviceAuth \<Rightarrow> bytes \<Rightarrow> db
     \<Rightarrow> api_error + (outcome \<times> db)" where
  "revokeActiveTx identity e call targetDeviceID request authenticated fingerprint =
     bindT (readT (\<lambda>s. Inr (activeCount s))) (\<lambda>active.
     bindT (guardT (active \<le> 64) internal_error) (\<lambda>_.
     bindT (guardT (active \<noteq> 1 \<or> rdq_AllowZeroActive request) (NewError ''zero_active_confirmation_required'' False)) (\<lambda>_.
     bindT (readT (reserveCursors 1)) (\<lambda>newCursor.
     bindT (markRevoked targetDeviceID (UnixMilli (rq_Now call)) newCursor) (\<lambda>_.
     bindT (readT (readDevice targetDeviceID)) (\<lambda>(target, targetHash).
     bindT (readT (\<lambda>_. optR internal_error (case dv_RevokedAt target of None \<Rightarrow> None | Some t \<Rightarrow> parseTimestamp t))) (\<lambda>changeTimeMS.
     let body = marshal (to_device target) in
     bindT (if da_DeviceID authenticated = targetDeviceID
            then selfReceiptTx identity call targetDeviceID targetHash body else returnT []) (\<lambda>headers.
     bindT (insertChange newCursor ''device_changed'' [] [] targetDeviceID ''revoked'' 0 (changeTimeMS * Millisecond)) (\<lambda>_.
     let response = \<lparr>rs_Status = 200, rs_Body = body, rs_Headers = headers\<rparr> in
     bindT (storeReceipt e (da_DeviceID authenticated) (''device-revocation/'' @ targetDeviceID) (rq_RequestID call) fingerprint response (rq_Now call)) (\<lambda>checkpoint.
     bindT (setServerCursor newCursor) (\<lambda>_.
     returnT (Commit response (Some checkpoint)))))))))))))"

definition revokeTx ::
  "Identity \<Rightarrow> ephemeralState \<Rightarrow> api_request \<Rightarrow> bytes \<Rightarrow> revokeDeviceRequest \<Rightarrow> db \<Rightarrow> api_error + (outcome \<times> db)" where
  "revokeTx identity e call targetDeviceID request =
     bindT (readT (authenticate identity (rq_Authorization call) ''devices:manage'')) (\<lambda>authenticated.
     bindT (readT (\<lambda>_. requestFingerprint identity ''JAT device revocation request fingerprint v1'' (da_DeviceID authenticated) (rq_Body call))) (\<lambda>fingerprint.
     let operation = ''device-revocation/'' @ targetDeviceID in
     bindT (readT (lookupReceipt identity (da_DeviceID authenticated) operation (rq_RequestID call) fingerprint)) (\<lambda>found.
     case found of
       Some response \<Rightarrow> returnT (Rollback response)
     | None \<Rightarrow>
        bindT (readT (\<lambda>s. guardR (\<not> crossTargetReuse (da_DeviceID authenticated) (rq_RequestID call) operation s) (NewError ''request_id_reused'' False))) (\<lambda>_.
        bindT (readT (readDevice targetDeviceID)) (\<lambda>(target, _).
        if dv_Status target = ''revoked'' then
          let response = response200 (marshal (to_device target)) in
          bindT (storeReceipt e (da_DeviceID authenticated) operation (rq_RequestID call) fingerprint response (rq_Now call)) (\<lambda>checkpoint.
          returnT (Commit response (Some checkpoint)))
        else revokeActiveTx identity e call targetDeviceID request authenticated fingerprint)))))"

definition handleRevokeDevice :: "io \<Rightarrow> api_request \<Rightarrow> bytes \<Rightarrow> Store \<Rightarrow> api_response api_result \<times> Store" where
  "handleRevokeDevice io call targetDeviceID store =
     (let presentedToken = parseAuthorization (rq_Authorization call) ''Bearer''
      in runTx io store
        (bindT (readT (lookupRetiredSelfRevocationReceipt (st_identity store) presentedToken)) (\<lambda>retiredMatch.
         case retiredMatch of
           Some r \<Rightarrow> readT (\<lambda>_. retiredReplay (st_identity store) call targetDeviceID r)
         | None \<Rightarrow>
            bindT (readT (\<lambda>_. optR invalid_request (decodeStrict T_revokeDeviceRequest (rq_Body call)))) (\<lambda>g.
            let request = of_revokeDeviceRequest g in
            bindT (guardT (rdq_RequestID request = rq_RequestID call \<and> validateUUID (rdq_RequestID request)) invalid_request) (\<lambda>_.
            bindT (guardT (presentedToken \<noteq> None) unauthorized) (\<lambda>_.
            revokeTx (st_identity store) (st_ephemeral store) call targetDeviceID request))))))"

section \<open>Token rotation\<close>

definition preflightTokenRotationKey :: "bytes \<Rightarrow> db \<Rightarrow> bool api_result" where
  "preflightTokenRotationKey rotationID s = probe_key tr_rotation_id rotationID (t_token_rotations s)"

definition rotationReplay ::
  "Identity \<Rightarrow> tokenRotationRequest \<Rightarrow> bytes \<Rightarrow> bytes \<Rightarrow> bytes \<Rightarrow> db \<Rightarrow> outcome api_result" where
  "rotationReplay identity request presentedToken newHash fingerprint s =
     (case find (\<lambda>r. tr_rotation_id r = CText (trq_RotationID request)) (t_token_rotations s) of
        None \<Rightarrow> Inl internal_error
      | Some r \<Rightarrow>
         (case (scan_uuid (tr_device_id r), scan_blob 32 (tr_old_token_hash r), scan_blob 32 (tr_new_token_hash r),
                scan_blob 32 (tr_request_fingerprint r), scan_body maxBodyBytes (tr_response_json r)) of
            (Some storedDeviceID, Some oldHash, Some recordedNewHash, Some recordedFingerprint, Some responseBody) \<Rightarrow>
              (case decodeStoredCanonical T_device responseBody of
                 None \<Rightarrow> Inl internal_error
               | Some g \<Rightarrow>
                  if \<not> validateDevice (of_device g) \<or> dv_DeviceID (of_device g) \<noteq> storedDeviceID then Inl internal_error
                  else (case DeviceTokenHash (id_InstanceID identity) (id_VaultID identity) storedDeviceID presentedToken of
                     None \<Rightarrow> Inl internal_error
                   | Some presentedStoredHash \<Rightarrow>
                      if \<not> VerifyHash oldHash presentedStoredHash \<and> \<not> VerifyHash recordedNewHash presentedStoredHash
                      then Inl unauthorized
                      else (case find (\<lambda>d. d_device_id d = CText storedDeviceID) (t_devices s) of
                         None \<Rightarrow> Inl internal_error
                       | Some d \<Rightarrow>
                          if d_revoked_at_ms d \<noteq> None then Inl (NewError ''token_revoked'' False)
                          else if storedDeviceID \<noteq> trq_DeviceID request then Inl (NewError ''authenticated_device_mismatch'' False)
                          else if \<not> VerifyHash recordedNewHash newHash \<or> \<not> VerifyHash recordedFingerprint fingerprint
                          then Inl (NewError ''request_id_reused'' False)
                          else Inr (Rollback (response200 responseBody)))))
          | _ \<Rightarrow> Inl internal_error))"

definition rotateTx ::
  "tokenRotationRequest \<Rightarrow> bytes \<Rightarrow> bytes \<Rightarrow> bytes \<Rightarrow> time \<Rightarrow> db \<Rightarrow> api_error + (outcome \<times> db)" where
  "rotateTx request presentedHash newHash fingerprint now =
     bindT (readT (readDevice (trq_DeviceID request))) (\<lambda>(current, currentHash).
     bindT (guardT (dv_Status current \<noteq> ''revoked'') (NewError ''token_revoked'' False)) (\<lambda>_.
     bindT (guardT (VerifyHash currentHash presentedHash) unauthorized) (\<lambda>_.
     bindT (execDB (\<lambda>s. map_option (\<lambda>rows. s\<lparr>t_devices := rows\<rparr>)
              (sql_update check_devices clash_devices (\<lambda>d. d_device_id d = CText (trq_DeviceID request))
                 (\<lambda>d. d\<lparr>d_token_hash := CBlob newHash\<rparr>) (t_devices s)))) (\<lambda>_.
     bindT (readT (readDevice (trq_DeviceID request))) (\<lambda>(updated, _).
     let responseBody = marshal (to_device updated) in
     bindT (execT (NewError ''request_id_reused'' False) (insert_token_rotations \<lparr>tr_rotation_id = CText (trq_RotationID request),
       tr_device_id = CText (trq_DeviceID request), tr_old_token_hash = CBlob currentHash, tr_new_token_hash = CBlob newHash,
       tr_request_fingerprint = CBlob fingerprint, tr_response_json = CBlob responseBody, tr_created_at_ms = UnixMilli now\<rparr>)) (\<lambda>_.
     returnT (Commit (response200 responseBody) None)))))))"

definition rotationTx ::
  "Identity \<Rightarrow> api_request \<Rightarrow> tokenRotationRequest \<Rightarrow> bytes \<Rightarrow> bytes \<Rightarrow> bytes \<Rightarrow> bytes \<Rightarrow> db \<Rightarrow> api_error + (outcome \<times> db)" where
  "rotationTx identity call request presentedToken presentedHash newHash fingerprint =
     bindT (readT (\<lambda>s. Inr (authenticate identity (rq_Authorization call) [] s))) (\<lambda>auth.
     bindT (readT (\<lambda>_. case auth of
         Inr authenticated \<Rightarrow> guardR (da_DeviceID authenticated = trq_DeviceID request) (NewError ''authenticated_device_mismatch'' False)
       | Inl err \<Rightarrow> if Code err = ''token_revoked'' then Inl err else Inr ())) (\<lambda>_.
     bindT (readT (preflightTokenRotationKey (trq_RotationID request))) (\<lambda>present.
     if present then readT (rotationReplay identity request presentedToken newHash fingerprint)
     else case auth of
       Inl err \<Rightarrow> failT err
     | Inr _ \<Rightarrow> rotateTx request presentedHash newHash fingerprint (rq_Now call))))"

definition handleTokenRotation :: "io \<Rightarrow> api_request \<Rightarrow> Store \<Rightarrow> api_response api_result \<times> Store" where
  "handleTokenRotation io call store =
     (let identity = st_identity store;
          hash = DeviceTokenHash (id_InstanceID identity) (id_VaultID identity) in
      case decodeStrict T_tokenRotationRequest (rq_Body call) of
        None \<Rightarrow> (Inl invalid_request, store)
      | Some g \<Rightarrow> let request = of_tokenRotationRequest g in
     (if \<not> validateUUID (trq_RotationID request) \<or> \<not> validateUUID (trq_DeviceID request) then (Inl invalid_request, store)
      else case decodeBase64 (trq_NewDeviceToken request) 32 0 0 of
        None \<Rightarrow> (Inl invalid_request, store)
      | Some newToken \<Rightarrow>
     (case parseAuthorization (rq_Authorization call) ''Bearer'' of
        None \<Rightarrow> (Inl unauthorized, store)
      | Some presentedToken \<Rightarrow>
     (case hash (trq_DeviceID request) presentedToken of
        None \<Rightarrow> (Inl unauthorized, store)
      | Some presentedHash \<Rightarrow>
     (case hash (trq_DeviceID request) newToken of
        None \<Rightarrow> (Inl invalid_request, store)
      | Some newHash \<Rightarrow>
     (case requestFingerprint identity ''JAT token rotation request fingerprint v1'' (trq_DeviceID request) (rq_Body call) of
        Inl err \<Rightarrow> (Inl err, store)
      | Inr fingerprint \<Rightarrow>
     runTx io store (rotationTx identity call request presentedToken presentedHash newHash fingerprint)))))))"

end
