(* ===== verification/Collection.thy ===== *)
theory Collection
  imports Devices
begin

text \<open>
  Garbage collection of superseded revisions (\<^verbatim>\<open>store/collection.go\<close>). A revision is collected when it
  has been accepted for at least 90 days of daemon uptime, every active device has acknowledged the
  record's barrier, and an authenticated witness head (or the marker an earlier witness left) dominates it.
\<close>

section \<open>Loaded rows\<close>

definition minimumRetentionUptime :: int where "minimumRetentionUptime = 90 * 24 * Hour"
definition collectionRecordBatch :: nat where "collectionRecordBatch = 32"
definition collectionCandidateBatch :: nat where "collectionCandidateBatch = 256"

record collectionRevision =
  cv_revisionID :: bytes
  cv_recordID :: bytes
  cv_vectorEntries :: "vectorEntry list"
  cv_vector :: vector
  cv_authenticator :: "bytes option"
  cv_contentHash :: bytes
  cv_tombstone :: bool
  cv_acceptedUptimeMS :: uint64
  cv_changeCursor :: uint64

record storedCollectionMarker =
  sm_present :: bool
  sm_witnessRevisionID :: bytes
  sm_frontier :: vector
  sm_authenticator :: bytes
  sm_body :: bytes

definition unmarshalVector :: "bytes \<Rightarrow> vectorEntry list option" where
  "unmarshalVector body = map_option (g_slice of_vectorEntry) (json_Unmarshal (TSlice T_vectorEntry) body)"

definition vectorsEqual :: "vector \<Rightarrow> vector \<Rightarrow> bool" where
  "vectorsEqual left right \<longleftrightarrow> length left = length right \<and> list_all (\<lambda>(key, value). vget right key = value) left"

text \<open>One joined row: the revision, its indexed acceptance time and its acceptance origin.\<close>

definition loadCollectionRevision :: "cell \<Rightarrow> record_revisions_row \<Rightarrow> db \<Rightarrow> collectionRevision api_result" where
  "loadCollectionRevision indexedAccepted r s =
     (let a = find (\<lambda>a. ao_revision_id a = rv_revision_id r) (t_revision_acceptance_origins s) in
      case (scan_uuid (rv_revision_id r), scan_uuid (rv_record_id r), scan_blob 32 (rv_content_hash r),
            scan_body maxVectorBytes (rv_vector_json r), scan_opt_blob 32 (rv_collection_witness_authenticator r)) of
        (Some revisionID, Some recordID, Some contentHash, Some vectorBody, Some authenticator) \<Rightarrow>
     (case (scan_blob 8 indexedAccepted, scan_blob 8 (rv_accepted_uptime_ms r), scan_blob 8 (joined ao_accepted_uptime_ms a),
            scan_blob 8 (rv_change_cursor r)) of
        (Some indexed, Some accepted, Some origin, Some cursorBytes) \<Rightarrow>
          if indexed \<noteq> accepted \<or> accepted \<noteq> origin \<or> rv_tombstone r \<notin> {0, 1} then Inl internal_error
          else (case unmarshalVector vectorBody of
             None \<Rightarrow> Inl internal_error
           | Some entries \<Rightarrow>
              (case (validateVector entries, DecodeUint64 origin, DecodeUint64 cursorBytes) of
                 (Some vec, Some acceptedUptimeMS, Some changeCursor) \<Rightarrow>
                   Inr \<lparr>cv_revisionID = revisionID, cv_recordID = recordID, cv_vectorEntries = entries, cv_vector = vec,
                        cv_authenticator = authenticator, cv_contentHash = contentHash, cv_tombstone = (rv_tombstone r = 1),
                        cv_acceptedUptimeMS = acceptedUptimeMS, cv_changeCursor = changeCursor\<rparr>
               | _ \<Rightarrow> Inl internal_error))
      | _ \<Rightarrow> Inl internal_error)
      | _ \<Rightarrow> Inl internal_error)"

definition collectionHeads :: "bytes \<Rightarrow> db \<Rightarrow> record_revisions_row list" where
  "collectionHeads recordID s =
     take 33 (List.map_filter (\<lambda>h. find (\<lambda>r. rv_revision_id r = rh_revision_id h) (t_record_revisions s))
       (sql_query rh_revision_id (\<lambda>h. rh_record_id h = CText recordID) (t_record_heads s)))"

definition collectionCandidates :: "bytes \<Rightarrow> uint64 \<Rightarrow> db \<Rightarrow> (cell \<times> record_revisions_row) list" where
  "collectionCandidates recordID cutoff s =
     take collectionCandidateBatch (List.map_filter
       (\<lambda>q. map_option (\<lambda>r. (cc_accepted_uptime_ms q, r))
          (find (\<lambda>r. rv_revision_id r = cc_revision_id q \<and> rv_record_id r = cc_record_id q \<and> rv_retained r = 1) (t_record_revisions s)))
       (sql_query (\<lambda>q. (cc_accepted_uptime_ms q, cc_revision_id q))
          (\<lambda>q. cc_record_id q = CText recordID \<and> cc_accepted_uptime_ms q \<le> uint64_cell cutoff) (t_collection_candidates s)))"

definition loadActiveAcknowledgements :: "db \<Rightarrow> uint64 list api_result" where
  "loadActiveAcknowledgements s =
     bindR (mapR (\<lambda>d. optR internal_error (scan_uint64 (d_last_ack_cursor d)))
              (take 65 (sql_query d_device_id (\<lambda>d. d_revoked_at_ms d = None) (t_devices s)))) (\<lambda>acks.
       if 64 < length acks then Inl internal_error else Inr acks)"

definition boundedEmptyOrUUIDText :: "cell \<Rightarrow> bytes option" where
  "boundedEmptyOrUUIDText c =
     (case c of
        CText v \<Rightarrow> if v = [] \<or> length v = maxUUIDBytes \<and> validateUUID v then Some v else None
      | _ \<Rightarrow> None)"

definition loadCollectionRecordBatch :: "db \<Rightarrow> (bytes list \<times> bytes) api_result" where
  "loadCollectionRecordBatch s =
     (case boundedEmptyOrUUIDText (rt_collection_scan_after_record_id (t_runtime_state s)) of
        None \<Rightarrow> Inl internal_error
      | Some scanAfter \<Rightarrow>
         bindR (mapR (\<lambda>r. optR internal_error (scan_uuid (cr_record_id r)))
                  (take collectionRecordBatch (sql_query cr_record_id (\<lambda>r. CText scanAfter < cr_record_id r) (t_collection_records s))))
           (\<lambda>ids. Inr (ids, scanAfter)))"

definition loadCollectionRecordWork ::
  "bytes \<Rightarrow> uint64 \<Rightarrow> db \<Rightarrow> (uint64 \<times> collectionRevision list \<times> collectionRevision list) api_result" where
  "loadCollectionRecordWork recordID accumulatedUptimeMS s =
     (case find (\<lambda>r. cr_record_id r = CText recordID) (t_collection_records s) of
        None \<Rightarrow> Inl internal_error
      | Some r \<Rightarrow>
         (case scan_uint64 (cr_barrier_cursor r) of
            None \<Rightarrow> Inl internal_error
          | Some barrier \<Rightarrow>
             if barrier = 0 then Inl internal_error
             else bindR (mapR (\<lambda>r. loadCollectionRevision (rv_accepted_uptime_ms r) r s) (collectionHeads recordID s)) (\<lambda>heads.
               if 32 < length heads then Inl internal_error
               else let minimumMS = word_of_int (minimumRetentionUptime div Millisecond)
               in if accumulatedUptimeMS < minimumMS then Inr (barrier, heads, [])
                  else bindR (mapR (\<lambda>(q, r). loadCollectionRevision q r s)
                                (collectionCandidates recordID (accumulatedUptimeMS - minimumMS) s)) (\<lambda>candidates.
                    Inr (barrier, heads, candidates)))))"

section \<open>Markers and witnesses\<close>

definition preflightCollectionMarkerKey :: "bytes \<Rightarrow> db \<Rightarrow> bool api_result" where
  "preflightCollectionMarkerKey recordID s = probe_key mk_record_id recordID (t_collection_markers s)"

definition noMarker :: storedCollectionMarker where
  "noMarker = \<lparr>sm_present = False, sm_witnessRevisionID = [], sm_frontier = [], sm_authenticator = [], sm_body = []\<rparr>"

definition readCollectionMarker :: "bytes \<Rightarrow> collection_markers_row \<Rightarrow> storedCollectionMarker api_result" where
  "readCollectionMarker recordID m =
     (case (scan_uuid (mk_witness_revision_id m), scan_body maxVectorBytes (mk_frontier_json m),
            scan_blob 32 (mk_collection_witness_authenticator m), scan_uint64 (mk_barrier_cursor m), scan_body maxBodyBytes (mk_marker_json m)) of
        (Some witnessRevisionID, Some frontierBody, Some authenticator, Some barrier, Some body) \<Rightarrow>
          (case unmarshalVector frontierBody of
             None \<Rightarrow> Inl internal_error
           | Some entries \<Rightarrow>
              (case (validateVector entries, decodeStoredCollectionMarker body) of
                 (Some frontier, Some bodyMarker) \<Rightarrow>
                   (case validateCollectionMarker bodyMarker of
                      None \<Rightarrow> Inl internal_error
                    | Some (bodyFrontier, bodyBarrier, bodyAuthenticator) \<Rightarrow>
                       if cm_RecordID bodyMarker \<noteq> recordID \<or> cm_WitnessRevisionID bodyMarker \<noteq> witnessRevisionID
                          \<or> \<not> vectorsEqual bodyFrontier frontier \<or> bodyBarrier \<noteq> barrier
                          \<or> \<not> VerifyHash authenticator bodyAuthenticator then Inl internal_error
                       else Inr \<lparr>sm_present = True, sm_witnessRevisionID = witnessRevisionID, sm_frontier = frontier,
                                 sm_authenticator = authenticator, sm_body = body\<rparr>)
               | _ \<Rightarrow> Inl internal_error))
      | _ \<Rightarrow> Inl internal_error)"

definition loadCollectionMarker :: "bytes \<Rightarrow> db \<Rightarrow> storedCollectionMarker api_result" where
  "loadCollectionMarker recordID s =
     bindR (preflightCollectionMarkerKey recordID s) (\<lambda>present.
       if \<not> present then Inr noMarker
       else case find (\<lambda>m. mk_record_id m = CText recordID) (t_collection_markers s) of
         None \<Rightarrow> Inl internal_error
       | Some m \<Rightarrow> readCollectionMarker recordID m)"

text \<open>The head at \<open>index\<close> dominates every other head.\<close>

definition dominatesAllOthers :: "collectionRevision list \<Rightarrow> nat \<Rightarrow> bool" where
  "dominatesAllOthers heads index \<longleftrightarrow>
     list_all (\<lambda>other. other = index \<or> vectorDominates (cv_vector (heads ! index)) (cv_vector (heads ! other))) [0..<length heads]"

definition selectAdvancingWitness :: "collectionRevision list \<Rightarrow> storedCollectionMarker \<Rightarrow> collectionRevision option" where
  "selectAdvancingWitness heads marker =
     map_option (\<lambda>index. heads ! index)
       (find (\<lambda>index. let witness = heads ! index in
            (case cv_authenticator witness of None \<Rightarrow> False | Some a \<Rightarrow> length a = 32)
            \<and> (\<not> sm_present marker \<or> vectorDominates (cv_vector witness) (sm_frontier marker))
            \<and> dominatesAllOthers heads index) [0..<length heads])"

definition selectWitnessCoveredCandidates :: "collectionRevision list \<Rightarrow> collectionRevision option \<Rightarrow> collectionRevision list" where
  "selectWitnessCoveredCandidates revisions witness =
     (case witness of
        None \<Rightarrow> []
      | Some w \<Rightarrow> filter (\<lambda>candidate.
          if cv_revisionID candidate = cv_revisionID w \<and> vectorsEqual (cv_vector candidate) (cv_vector w) then cv_tombstone w
          else vectorDominates (cv_vector w) (cv_vector candidate)) revisions)"

definition selectMarkerCoveredCandidates :: "collectionRevision list \<Rightarrow> storedCollectionMarker \<Rightarrow> collectionRevision list" where
  "selectMarkerCoveredCandidates revisions marker =
     (if \<not> sm_present marker \<or> length (sm_authenticator marker) \<noteq> 32 then []
      else filter (\<lambda>candidate.
          if cv_revisionID candidate = sm_witnessRevisionID marker \<and> vectorsEqual (cv_vector candidate) (sm_frontier marker)
          then cv_tombstone candidate
          else vectorDominates (sm_frontier marker) (cv_vector candidate)) revisions)"

definition allAcknowledged :: "uint64 list \<Rightarrow> uint64 \<Rightarrow> bool" where
  "allAcknowledged acknowledgements barrier = list_all (\<lambda>a. barrier \<le> a) acknowledgements"

section \<open>Writing a marker\<close>

definition upsertMarker :: "collection_markers_row \<Rightarrow> db \<Rightarrow> db option" where
  "upsertMarker row s =
     (if list_ex (\<lambda>m. mk_record_id m = mk_record_id row) (t_collection_markers s)
      then map_option (\<lambda>rows. s\<lparr>t_collection_markers := rows\<rparr>)
             (sql_update check_collection_markers clash_collection_markers (\<lambda>m. mk_record_id m = mk_record_id row) (\<lambda>_. row)
                (t_collection_markers s))
      else insert_collection_markers row s)"

definition writeCollectionMarker ::
  "collectionRevision \<Rightarrow> uint64 \<Rightarrow> uint64 \<Rightarrow> time \<Rightarrow> db \<Rightarrow> api_error + (bytes \<times> db)" where
  "writeCollectionMarker witness barrier cursor now =
     (let authenticator = (case cv_authenticator witness of None \<Rightarrow> [] | Some a \<Rightarrow> a);
          marker = \<lparr>cm_RecordID = cv_recordID witness, cm_WitnessRevisionID = cv_revisionID witness,
                    cm_Frontier = cv_vectorEntries witness,
                    cm_CollectionWitnessAuthenticator = EncodeToString authenticator,
                    cm_BarrierCursor = encodeUint64Text barrier\<rparr>;
          body = marshal (to_collectionMarker marker);
          frontierBody = marshal (GSlice (Some (map to_vectorEntry (cv_vectorEntries witness))))
      in bindT (execDB (upsertMarker \<lparr>mk_record_id = CText (cv_recordID witness), mk_witness_revision_id = CText (cv_revisionID witness),
           mk_frontier_json = CBlob frontierBody, mk_collection_witness_authenticator = CBlob authenticator,
           mk_barrier_cursor = uint64_cell barrier, mk_marker_json = CBlob body, mk_change_cursor = uint64_cell cursor,
           mk_received_at_ms = UnixMilli now\<rparr>)) (\<lambda>_. returnT body))"

definition insertMarkerChange :: "uint64 \<Rightarrow> bytes \<Rightarrow> bytes \<Rightarrow> time \<Rightarrow> db \<Rightarrow> api_error + (unit \<times> db)" where
  "insertMarkerChange cursor recordID markerBody now =
     bindT (insertChangeOrigin cursor ''collection_marker'' 0) (\<lambda>_.
     execDB (insert_changes \<lparr>cg_cursor = uint64_cell cursor, cg_kind = CText ''collection_marker'', cg_received_at_ms = UnixMilli now,
       cg_record_revision_id = CNull, cg_collection_marker_record_id = CText recordID, cg_collection_marker_json = CBlob markerBody,
       cg_device_changed_id = CNull, cg_device_change_kind = CNull\<rparr>))"

section \<open>Collecting\<close>

definition collectRevision :: "uint64 \<Rightarrow> collectionRevision \<Rightarrow> db \<Rightarrow> api_error + (unit \<times> db)" where
  "collectRevision collectionGeneration candidate =
     bindT (updateDB (\<lambda>s. s\<lparr>
        t_record_revisions := sql_set (\<lambda>r. rv_revision_id r = CText (cv_revisionID candidate) \<and> rv_retained r = 1)
          (\<lambda>r. r\<lparr>rv_retained := 0, rv_undominated := 0, rv_collected_generation := uint64_cell collectionGeneration\<rparr>) (t_record_revisions s),
        t_record_heads := sql_delete (\<lambda>h. rh_record_id h = CText (cv_recordID candidate) \<and> rh_revision_id h = CText (cv_revisionID candidate))
          (t_record_heads s),
        t_changes := sql_delete (\<lambda>c. cg_cursor c = uint64_cell (cv_changeCursor candidate)
          \<and> cg_record_revision_id c = CText (cv_revisionID candidate)) (t_changes s),
        t_collection_candidates := sql_delete (\<lambda>q. cc_record_id q = CText (cv_recordID candidate)
          \<and> cc_accepted_uptime_ms q = uint64_cell (cv_acceptedUptimeMS candidate)
          \<and> cc_revision_id q = CText (cv_revisionID candidate)) (t_collection_candidates s)\<rparr>)) (\<lambda>_.
     deleteUnreferencedRevisionObject (cv_contentHash candidate) (cv_revisionID candidate))"

record collectState =
  cs_serverCursor :: uint64
  cs_generation :: uint64
  cs_advanced :: bool
  cs_floor :: uint64

text \<open>The statements for one record once something is selected; \<open>advancing\<close> is the witness of a new marker.\<close>

definition collectSelected ::
  "time \<Rightarrow> bytes \<Rightarrow> collectionRevision option \<Rightarrow> uint64 \<Rightarrow> uint64 \<Rightarrow> uint64 \<Rightarrow> collectionRevision list \<Rightarrow> db
     \<Rightarrow> api_error + (unit \<times> db)" where
  "collectSelected now recordID advancing barrier cursor generation selected =
     bindT (case advancing of
              None \<Rightarrow> returnT ()
            | Some w \<Rightarrow> bindT (writeCollectionMarker w barrier cursor now) (\<lambda>body. insertMarkerChange cursor recordID body now)) (\<lambda>_.
     bindT (forT (collectRevision generation) selected) (\<lambda>_.
     updateDB (\<lambda>s. s\<lparr>t_collection_records := sql_delete (\<lambda>r. cr_record_id r = CText recordID
              \<and> \<not> list_ex (\<lambda>q. cc_record_id q = CText recordID) (t_collection_candidates s)) (t_collection_records s)\<rparr>)))"

text \<open>The body of the loop over the records of a batch.\<close>

definition collectRecord ::
  "uint64 list \<Rightarrow> uint64 \<Rightarrow> time \<Rightarrow> collectState \<Rightarrow> bytes \<Rightarrow> db \<Rightarrow> api_error + (collectState \<times> db)" where
  "collectRecord activeAcks accumulatedUptimeMS now st recordID =
     bindT (readT (loadCollectionRecordWork recordID accumulatedUptimeMS)) (\<lambda>(barrier, heads, candidates).
     if \<not> allAcknowledged activeAcks barrier then returnT st
     else bindT (readT (loadCollectionMarker recordID)) (\<lambda>marker.
     let witness = selectAdvancingWitness heads marker;
         covered = selectWitnessCoveredCandidates candidates witness;
         advancing = (if covered \<noteq> [] \<and> cs_serverCursor st \<noteq> - 1 then witness else None);
         selected = (if advancing \<noteq> None then covered else selectMarkerCoveredCandidates candidates marker);
         st' = \<lparr>cs_serverCursor = (if advancing \<noteq> None then cs_serverCursor st + 1 else cs_serverCursor st),
                cs_generation = (if cs_advanced st then cs_generation st else cs_generation st + 1), cs_advanced = True,
                cs_floor = fold max (map cv_changeCursor selected) (cs_floor st)\<rparr>
     in if selected = [] then returnT st
        else bindT (collectSelected now recordID advancing barrier (cs_serverCursor st') (cs_generation st') selected) (\<lambda>_. returnT st')))"

fun collectRecords ::
  "uint64 list \<Rightarrow> uint64 \<Rightarrow> time \<Rightarrow> bytes list \<Rightarrow> collectState \<Rightarrow> db \<Rightarrow> api_error + (collectState \<times> db)" where
  "collectRecords activeAcks uptime now [] st = returnT st"
| "collectRecords activeAcks uptime now (recordID # rest) st =
     bindT (collectRecord activeAcks uptime now st recordID) (\<lambda>st'. collectRecords activeAcks uptime now rest st')"

definition resetScan :: "db \<Rightarrow> db" where
  "resetScan s = s\<lparr>t_runtime_state := (t_runtime_state s)\<lparr>rt_collection_scan_after_record_id := CText []\<rparr>\<rparr>"

definition nextBatch :: "db \<Rightarrow> api_error + (bytes list \<times> db)" where
  "nextBatch =
     bindT (readT loadCollectionRecordBatch) (\<lambda>(recordIDs, scanAfter).
     if recordIDs = [] \<and> scanAfter \<noteq> [] then
       bindT (updateDB resetScan) (\<lambda>_.
       bindT (readT loadCollectionRecordBatch) (\<lambda>(ids, _). returnT ids))
     else returnT recordIDs)"

definition collectEligible :: "time \<Rightarrow> uint64 \<Rightarrow> uint64 \<Rightarrow> db \<Rightarrow> api_error + (uint64 \<times> db)" where
  "collectEligible now accumulatedUptimeMS serverCursor =
     bindT (readT (\<lambda>s. optR internal_error (scan_uint64 (rt_collection_generation (t_runtime_state s))))) (\<lambda>collectionGeneration.
     if collectionGeneration = - 1 then returnT serverCursor
     else bindT (readT loadActiveAcknowledgements) (\<lambda>activeAcks.
     if activeAcks = [] then returnT serverCursor
     else bindT nextBatch (\<lambda>recordIDs.
     if recordIDs = [] then returnT serverCursor
     else bindT (readT readCursorFloor) (\<lambda>cursorFloor.
     bindT (collectRecords activeAcks accumulatedUptimeMS now recordIDs
              \<lparr>cs_serverCursor = serverCursor, cs_generation = collectionGeneration, cs_advanced = False, cs_floor = cursorFloor\<rparr>) (\<lambda>st.
     bindT (updateDB (\<lambda>s. s\<lparr>t_runtime_state := (t_runtime_state s)\<lparr>rt_cursor_floor := uint64_cell (cs_floor st),
              rt_server_cursor := uint64_cell (cs_serverCursor st), rt_collection_generation := uint64_cell (cs_generation st),
              rt_collection_scan_after_record_id := CText (last recordIDs)\<rparr>\<rparr>)) (\<lambda>_.
     returnT (cs_serverCursor st)))))))"

end
