(* ===== verification/Sync.thy ===== *)
theory Sync
  imports Collection
begin

text \<open>
  The sync operation (\<^verbatim>\<open>store/sync.go\<close>): validation of the pushed revisions against the stored history,
  their acceptance in cursor order, and the page of changes returned. The handler prunes expired
  snapshot leases in the middle of its transaction, which forgets their deadlines even if the
  transaction fails afterwards, so it is written in two phases.

  Go iterates over the counters of a vector in an unspecified order; \<open>validateVectorRegistry\<close> takes them
  in the order of the vector, which fixes which of several errors is reported and nothing else
  (\<open>validateVectorRegistry_ok\<close>).
\<close>

section \<open>Scopes\<close>

text \<open>\<^verbatim>\<open>sort.Search\<close>: the binary search of the standard library.\<close>

function sort_Search :: "(nat \<Rightarrow> bool) \<Rightarrow> nat \<Rightarrow> nat \<Rightarrow> nat" where
  "sort_Search f i j =
     (if i < j then (let h = (i + j) div 2 in if \<not> f h then sort_Search f (h + 1) j else sort_Search f i h) else i)"
  by pat_completeness auto
termination by (relation "measure (\<lambda>(f, i, j). j - i)") auto

declare sort_Search.simps [simp del]

definition hasScope :: "bytes list \<Rightarrow> bytes \<Rightarrow> bool" where
  "hasScope scopes required =
     (let index = sort_Search (\<lambda>i. required \<le> scopes ! i) 0 (length scopes)
      in index < length scopes \<and> scopes ! index = required)"

definition boolToInt :: "bool \<Rightarrow> int" where
  "boolToInt value = (if value then 1 else 0)"

section \<open>The stored frontier\<close>

record pendingRevision =
  pn_revision :: recordRevision
  pn_canonical :: bytes
  pn_contentHash :: bytes
  pn_authorCounter :: uint64
  pn_vector :: vector
  pn_isNew :: bool

definition headRows :: "bytes \<Rightarrow> db \<Rightarrow> record_revisions_row list" where
  "headRows recordID s =
     List.map_filter (\<lambda>h. find (\<lambda>r. rv_revision_id r = rh_revision_id h) (t_record_revisions s))
       (sql_query rh_revision_id (\<lambda>h. rh_record_id h = CText recordID) (t_record_heads s))"

text \<open>The identifier and the vector of a revision row, both checked.\<close>

definition scanVector :: "record_revisions_row \<Rightarrow> (bytes \<times> vector) api_result" where
  "scanVector r =
     (case (scan_uuid (rv_revision_id r), scan_body maxVectorBytes (rv_vector_json r)) of
        (Some revisionID, Some body) \<Rightarrow>
          (case unmarshalVector body of
             None \<Rightarrow> Inl internal_error
           | Some entries \<Rightarrow> (case validateVector entries of None \<Rightarrow> Inl internal_error | Some vec \<Rightarrow> Inr (revisionID, vec)))
      | _ \<Rightarrow> Inl internal_error)"

definition classifyRevisionFrontier :: "bytes \<Rightarrow> vector \<Rightarrow> db \<Rightarrow> (bool \<times> bytes list) api_result" where
  "classifyRevisionFrontier recordID candidate s =
     bindR (mapR scanVector (take 33 (headRows recordID s))) (\<lambda>heads.
       if 32 < length heads then Inl internal_error
       else Inr (\<not> list_ex (\<lambda>(_, vec). vectorDominates vec candidate) heads,
                 map fst (filter (\<lambda>(_, vec). vectorDominates candidate vec) heads)))"

section \<open>Validating mutations\<close>

definition mutationKeyLess :: "recordRevision \<Rightarrow> recordRevision \<Rightarrow> bool" where
  "mutationKeyLess left right =
     (case (parseUint64 (rr_AuthorCounter left), parseUint64 (rr_AuthorCounter right)) of
        (Some leftCounter, Some rightCounter) \<Rightarrow>
          if leftCounter \<noteq> rightCounter then leftCounter < rightCounter
          else if rr_RecordID left \<noteq> rr_RecordID right then rr_RecordID left < rr_RecordID right
          else rr_RevisionID left < rr_RevisionID right
      | _ \<Rightarrow> False)"

fun validateMutationShapes :: "bytes \<Rightarrow> recordRevision option \<Rightarrow> recordRevision list \<Rightarrow> unit api_result" where
  "validateMutationShapes deviceID previous [] = Inr ()"
| "validateMutationShapes deviceID previous (revision # rest) =
     (if validateRevision revision = None \<or> rr_AuthorDeviceID revision \<noteq> deviceID then Inl invalid_request
      else if (case previous of None \<Rightarrow> False | Some p \<Rightarrow> \<not> mutationKeyLess p revision) then Inl invalid_request
      else validateMutationShapes deviceID (Some revision) rest)"

definition preflightRevisionKeyAbsence :: "bytes \<Rightarrow> db \<Rightarrow> unit api_result" where
  "preflightRevisionKeyAbsence revisionID s =
     guardR (validateUUID revisionID \<and> probe_rows rv_revision_id revisionID (t_record_revisions s) = []) internal_error"

definition preflightRecordKeyAliases :: "bytes \<Rightarrow> db \<Rightarrow> unit api_result" where
  "preflightRecordKeyAliases recordID s =
     guardR (validateUUID recordID
       \<and> \<not> alias_exists rv_record_id recordID (t_record_revisions s)
       \<and> \<not> alias_exists vi_record_id recordID (t_record_vector_index s)
       \<and> \<not> alias_exists rh_record_id recordID (t_record_heads s)
       \<and> \<not> alias_exists cc_record_id recordID (t_collection_candidates s)
       \<and> \<not> alias_exists cr_record_id recordID (t_collection_records s)) internal_error"

definition revisionEquivocation :: "api_error" where
  "revisionEquivocation = NewError ''revision_equivocation'' False"

text \<open>Another revision of the record carries the same vector.\<close>

definition equivocates :: "bytes \<Rightarrow> vector \<Rightarrow> bytes \<times> vector \<Rightarrow> bool" where
  "equivocates revisionID candidate p \<longleftrightarrow> fst p \<noteq> revisionID \<and> vectorsEqual candidate (snd p)"

definition checkStored :: "bytes \<Rightarrow> vector \<Rightarrow> record_revisions_row \<Rightarrow> (bytes \<times> vector) api_result" where
  "checkStored revisionID candidate r =
     bindR (scanVector r) (\<lambda>p. if equivocates revisionID candidate p then Inl revisionEquivocation else Inr p)"

definition pendingVectors :: "pendingRevision list \<Rightarrow> (bytes \<times> vector) list" where
  "pendingVectors items = map (\<lambda>p. (rr_RevisionID (pn_revision p), pn_vector p)) items"

definition validateEqualVectorEquivocation ::
  "bytes \<Rightarrow> bytes \<Rightarrow> bytes \<Rightarrow> vector \<Rightarrow> pendingRevision list \<Rightarrow> db \<Rightarrow> unit api_result" where
  "validateEqualVectorEquivocation recordID revisionID vectorHash candidate items s =
     (if list_ex (equivocates revisionID candidate) (pendingVectors items) then Inl revisionEquivocation
      else bindR (mapR (checkStored revisionID candidate)
             (List.map_filter (\<lambda>i. find (\<lambda>r. rv_revision_id r = vi_revision_id i) (t_record_revisions s))
               (sql_query vi_revision_id (\<lambda>i. vi_record_id i = CText recordID \<and> vi_vector_hash i = CBlob vectorHash)
                  (t_record_vector_index s)))) (\<lambda>_. Inr ()))"

definition registryEntry :: "bytes \<Rightarrow> uint64 \<Rightarrow> db \<Rightarrow> bytes \<times> uint64 \<Rightarrow> unit api_result" where
  "registryEntry authorDeviceID authorCounter s p =
     (if fst p = authorDeviceID then guardR (snd p = authorCounter) invalid_request
      else case find (\<lambda>d. d_device_id d = CText (fst p)) (t_devices s) of
        None \<Rightarrow> Inl invalid_request
      | Some d \<Rightarrow>
         (case scan_uint64 (d_max_author_counter d) of
            None \<Rightarrow> Inl internal_error
          | Some maximum \<Rightarrow> guardR (snd p \<le> maximum) (NewError ''counter_conflict'' False)))"

definition validateVectorRegistry :: "bytes \<Rightarrow> uint64 \<Rightarrow> vector \<Rightarrow> db \<Rightarrow> unit api_result" where
  "validateVectorRegistry authorDeviceID authorCounter vec s =
     bindR (mapR (registryEntry authorDeviceID authorCounter s) vec) (\<lambda>_. Inr ())"

text \<open>The number of vectors that no vector at another position dominates.\<close>

definition undominatedCount :: "vector list \<Rightarrow> nat" where
  "undominatedCount vectors =
     length (filter (\<lambda>left. \<not> list_ex (\<lambda>right. left \<noteq> right \<and> vectorDominates (vectors ! right) (vectors ! left))
       [0..<length vectors]) [0..<length vectors])"

definition markerAdmits :: "bytes \<Rightarrow> vector \<Rightarrow> db \<Rightarrow> unit api_result" where
  "markerAdmits recordID candidate s =
     bindR (preflightCollectionMarkerKey recordID s) (\<lambda>markerPresent.
       if \<not> markerPresent then Inr ()
       else case find (\<lambda>m. mk_record_id m = CText recordID) (t_collection_markers s) of
         None \<Rightarrow> Inl internal_error
       | Some m \<Rightarrow>
          (case scan_body maxVectorBytes (mk_frontier_json m) of
             None \<Rightarrow> Inl internal_error
           | Some body \<Rightarrow>
              (case unmarshalVector body of
                 None \<Rightarrow> Inl internal_error
               | Some entries \<Rightarrow>
                  (case validateVector entries of
                     None \<Rightarrow> Inl internal_error
                   | Some frontier \<Rightarrow>
                      guardR (vectorDominates candidate frontier) (NewError ''stale_after_collection'' False)))))"

definition validateRecordCausality ::
  "bytes \<Rightarrow> bytes \<Rightarrow> vector \<Rightarrow> pendingRevision list \<Rightarrow> db \<Rightarrow> unit api_result" where
  "validateRecordCausality recordID revisionID candidate items s =
     bindR (markerAdmits recordID candidate s) (\<lambda>_.
       if list_ex (equivocates revisionID candidate) (pendingVectors items) then Inl revisionEquivocation
       else bindR (mapR (checkStored revisionID candidate) (headRows recordID s)) (\<lambda>stored.
         guardR (undominatedCount (candidate # map snd (pendingVectors items) @ map snd stored) \<le> 32)
           (NewError ''too_many_siblings'' False)))"

text \<open>
  The loop of \<^verbatim>\<open>validateMutations\<close>. The maps \<^verbatim>\<open>pendingByRecord\<close> and \<^verbatim>\<open>pendingByRevisionID\<close> hold exactly the
  new items, so they are read off the list of pending items.
\<close>

record mutationState =
  ms_previous :: "recordRevision option"
  ms_pending :: "pendingRevision list"
  ms_lastCounter :: uint64
  ms_newCount :: nat

definition pendingByRecord :: "mutationState \<Rightarrow> bytes \<Rightarrow> pendingRevision list" where
  "pendingByRecord st recordID = filter (\<lambda>p. pn_isNew p \<and> rr_RecordID (pn_revision p) = recordID) (ms_pending st)"

definition pendingByRevisionID :: "mutationState \<Rightarrow> bytes \<Rightarrow> pendingRevision option" where
  "pendingByRevisionID st revisionID = find (\<lambda>p. pn_isNew p \<and> rr_RevisionID (pn_revision p) = revisionID) (ms_pending st)"

definition vectorJSON :: "recordRevision \<Rightarrow> bytes" where
  "vectorJSON revision = marshal (GSlice (Some (map to_vectorEntry (rr_VersionVector revision))))"

definition admitNewRevision ::
  "bytes \<Rightarrow> db \<Rightarrow> mutationState \<Rightarrow> recordRevision \<Rightarrow> uint64 \<Rightarrow> vector \<Rightarrow> unit api_result" where
  "admitNewRevision deviceID s st revision authorCounter vec =
     (let items = pendingByRecord st (rr_RecordID revision) in
      bindR (preflightRevisionKeyAbsence (rr_RevisionID revision) s) (\<lambda>_.
      bindR (preflightRecordKeyAliases (rr_RecordID revision) s) (\<lambda>_.
      bindR (validateEqualVectorEquivocation (rr_RecordID revision) (rr_RevisionID revision) (sha256 (vectorJSON revision)) vec items s) (\<lambda>_.
      bindR (guardR (ms_lastCounter st \<noteq> - 1) (NewError ''counter_exhausted'' False)) (\<lambda>_.
      bindR (guardR (authorCounter = ms_lastCounter st + 1) (NewError ''counter_conflict'' False)) (\<lambda>_.
      bindR (validateVectorRegistry deviceID authorCounter vec s) (\<lambda>_.
      validateRecordCausality (rr_RecordID revision) (rr_RevisionID revision) vec items s)))))))"

definition validateMutation :: "bytes \<Rightarrow> db \<Rightarrow> mutationState \<Rightarrow> recordRevision \<Rightarrow> mutationState api_result" where
  "validateMutation deviceID s st revision =
     (case validateRevision revision of
        None \<Rightarrow> Inl invalid_request
      | Some (authorCounter, vec) \<Rightarrow>
         if rr_AuthorDeviceID revision \<noteq> deviceID
            \<or> (case ms_previous st of None \<Rightarrow> False | Some p \<Rightarrow> \<not> mutationKeyLess p revision) then Inl invalid_request
         else let canonical = marshal (to_recordRevision revision); contentHash = sha256 canonical;
                  item = \<lparr>pn_revision = revision, pn_canonical = canonical, pn_contentHash = contentHash,
                          pn_authorCounter = authorCounter, pn_vector = vec, pn_isNew = False\<rparr>;
                  st' = st\<lparr>ms_previous := Some revision\<rparr>
         in case find (\<lambda>r. rv_revision_id r = CText (rr_RevisionID revision)) (t_record_revisions s) of
              Some r \<Rightarrow>
                (case scan_blob 32 (rv_content_hash r) of
                   None \<Rightarrow> Inl internal_error
                 | Some recorded \<Rightarrow>
                    if recorded \<noteq> contentHash then Inl revisionEquivocation
                    else Inr (st'\<lparr>ms_pending := ms_pending st @ [item]\<rparr>))
            | None \<Rightarrow>
                (case pendingByRevisionID st (rr_RevisionID revision) of
                   Some prior \<Rightarrow> if pn_contentHash prior \<noteq> contentHash then Inl revisionEquivocation else Inr st'
                 | None \<Rightarrow>
                    bindR (admitNewRevision deviceID s st revision authorCounter vec) (\<lambda>_.
                      Inr (st'\<lparr>ms_pending := ms_pending st @ [item\<lparr>pn_isNew := True\<rparr>],
                               ms_lastCounter := authorCounter, ms_newCount := ms_newCount st + 1\<rparr>))))"

definition validateMutations ::
  "bytes \<Rightarrow> uint64 \<Rightarrow> recordRevision list \<Rightarrow> db \<Rightarrow> (pendingRevision list \<times> nat \<times> uint64) api_result" where
  "validateMutations deviceID initialCounter revisions s =
     bindR (foldR (validateMutation deviceID s)
       \<lparr>ms_previous = None, ms_pending = [], ms_lastCounter = initialCounter, ms_newCount = 0\<rparr> revisions) (\<lambda>st.
     Inr (ms_pending st, ms_newCount st, ms_lastCounter st))"

section \<open>Loading changes\<close>

record storedChange =
  sc_cursor :: uint64
  sc_kind :: bytes
  sc_receivedAt :: int
  sc_revisionID :: "bytes option"
  sc_markerRecordID :: "bytes option"
  sc_markerBody :: "bytes option"

definition scanChange :: "changes_row \<Rightarrow> storedChange api_result" where
  "scanChange c =
     (case (scan_uint64 (cg_cursor c), scan_opt_uuid (cg_record_revision_id c), scan_opt_uuid (cg_collection_marker_record_id c),
            scan_opt_body maxBodyBytes (cg_collection_marker_json c)) of
        (Some cursor, Some revisionID, Some markerRecordID, Some markerBody) \<Rightarrow>
          (case cg_kind c of
             CText kind \<Rightarrow>
               if CText kind \<in> change_kinds
               then Inr \<lparr>sc_cursor = cursor, sc_kind = kind, sc_receivedAt = cg_received_at_ms c, sc_revisionID = revisionID,
                         sc_markerRecordID = markerRecordID, sc_markerBody = markerBody\<rparr>
               else Inl internal_error
           | _ \<Rightarrow> Inl internal_error)
      | _ \<Rightarrow> Inl internal_error)"

definition loadStoredRevision :: "bytes \<Rightarrow> db \<Rightarrow> recordRevision api_result" where
  "loadStoredRevision revisionID s =
     (case find (\<lambda>r. rv_revision_id r = CText revisionID \<and> rv_retained r = 1) (t_record_revisions s) of
        None \<Rightarrow> Inl internal_error
      | Some r \<Rightarrow>
     (case find (\<lambda>ob. ro_content_hash ob = rv_content_hash r) (t_revision_objects s) of
        None \<Rightarrow> Inl internal_error
      | Some ob \<Rightarrow>
     (case (scan_body maxBodyBytes (ro_revision_json ob), scan_blob 32 (rv_content_hash r)) of
        (Some body, Some hash) \<Rightarrow>
          (case json_Unmarshal T_recordRevision body of
             None \<Rightarrow> Inl internal_error
           | Some g \<Rightarrow>
              let revision = of_recordRevision g in
              if marshalJSON g \<noteq> Some body \<or> sha256 body \<noteq> hash
                 \<or> validateRevision revision = None \<or> rr_RevisionID revision \<noteq> revisionID then Inl internal_error
              else Inr revision)
      | _ \<Rightarrow> Inl internal_error)))"

definition loadChange :: "db \<Rightarrow> storedChange \<Rightarrow> change api_result" where
  "loadChange s c =
     (let item = \<lparr>ch_Cursor = encodeUint64Text (sc_cursor c), ch_Kind = sc_kind c, ch_ReceivedAt = formatTimestamp (sc_receivedAt c),
                  ch_RecordRevision = None, ch_CollectionMarker = None\<rparr>
      in if sc_kind c = ''record_revision'' then
           (case sc_revisionID c of
              None \<Rightarrow> Inl internal_error
            | Some revisionID \<Rightarrow> bindR (loadStoredRevision revisionID s) (\<lambda>revision. Inr (item\<lparr>ch_RecordRevision := Some revision\<rparr>)))
         else if sc_kind c = ''collection_marker'' then
           (case (sc_markerRecordID c, sc_markerBody c) of
              (Some recordID, Some body) \<Rightarrow>
                (case decodeStoredCollectionMarker body of
                   None \<Rightarrow> Inl internal_error
                 | Some marker \<Rightarrow>
                    if cm_RecordID marker \<noteq> recordID then Inl internal_error else Inr (item\<lparr>ch_CollectionMarker := Some marker\<rparr>))
            | _ \<Rightarrow> Inl internal_error)
         else Inr item)"

definition loadChanges :: "uint64 \<Rightarrow> db \<Rightarrow> (change list \<times> uint64 \<times> bool) api_result" where
  "loadChanges afterCursor s =
     bindR (mapR scanChange (take (maxChanges + 1) (sql_query cg_cursor (\<lambda>c. uint64_cell afterCursor < cg_cursor c) (t_changes s)))) (\<lambda>rows.
       let hasMore = maxChanges < length rows; stored = take maxChanges rows
       in bindR (mapR (loadChange s) stored) (\<lambda>changes.
          Inr (changes, (if stored = [] then afterCursor else sc_cursor (last stored)), hasMore)))"

section \<open>Accepting revisions\<close>

definition insertRevisionObject :: "bytes \<Rightarrow> bytes \<Rightarrow> db \<Rightarrow> db option" where
  "insertRevisionObject hash canonical s =
     (if list_ex (\<lambda>ob. ro_content_hash ob = CBlob hash) (t_revision_objects s) then Some s
      else insert_revision_objects \<lparr>ro_content_hash = CBlob hash, ro_revision_json = CBlob canonical\<rparr> s)"

definition storedObject :: "bytes \<Rightarrow> db \<Rightarrow> bytes option" where
  "storedObject hash s =
     (case find (\<lambda>ob. ro_content_hash ob = CBlob hash) (t_revision_objects s) of
        None \<Rightarrow> None
      | Some ob \<Rightarrow> scan_body maxBodyBytes (ro_revision_json ob))"

text \<open>A head the new revision dominates is no longer a head.\<close>

definition supersedeHead :: "bytes \<Rightarrow> bytes \<Rightarrow> db \<Rightarrow> api_error + (unit \<times> db)" where
  "supersedeHead recordID dominatedRevisionID =
     bindT (updateDB (\<lambda>s. s\<lparr>t_record_revisions :=
        sql_set (\<lambda>r. rv_revision_id r = CText dominatedRevisionID \<and> rv_retained r = 1 \<and> rv_undominated r = 1)
          (\<lambda>r. r\<lparr>rv_undominated := 0\<rparr>) (t_record_revisions s)\<rparr>)) (\<lambda>_.
     updateDB (\<lambda>s. s\<lparr>t_record_heads :=
        sql_delete (\<lambda>h. rh_record_id h = CText recordID \<and> rh_revision_id h = CText dominatedRevisionID) (t_record_heads s)\<rparr>))"

definition revisionRow :: "pendingRevision \<Rightarrow> uint64 \<Rightarrow> uint64 \<Rightarrow> bool \<Rightarrow> time \<Rightarrow> record_revisions_row" where
  "revisionRow item uptime cursor undominated now =
     (let revision = pn_revision item
      in \<lparr>rv_revision_id = CText (rr_RevisionID revision), rv_record_id = CText (rr_RecordID revision),
          rv_author_device_id = CText (rr_AuthorDeviceID revision), rv_author_counter = uint64_cell (pn_authorCounter item),
          rv_vector_json = CBlob (vectorJSON revision),
          rv_collection_witness_authenticator =
            (case rr_CollectionWitnessAuthenticator revision of
               None \<Rightarrow> CNull
             | Some a \<Rightarrow> (case decodeBase64 a 32 0 0 of None \<Rightarrow> CNull | Some decoded \<Rightarrow> CBlob decoded)),
          rv_tombstone = boolToInt (rr_Tombstone revision), rv_content_hash = CBlob (pn_contentHash item),
          rv_received_at_ms = UnixMilli now, rv_accepted_uptime_ms = uint64_cell uptime,
          rv_change_cursor = uint64_cell cursor, rv_collected_generation = CNull, rv_retained = 1,
          rv_undominated = boolToInt undominated\<rparr>)"

definition upsertCollectionRecord :: "bytes \<Rightarrow> uint64 \<Rightarrow> db \<Rightarrow> db option" where
  "upsertCollectionRecord recordID barrier s =
     (if list_ex (\<lambda>r. cr_record_id r = CText recordID) (t_collection_records s)
      then Some (s\<lparr>t_collection_records := sql_set (\<lambda>r. cr_record_id r = CText recordID)
             (\<lambda>r. r\<lparr>cr_barrier_cursor := uint64_cell barrier\<rparr>) (t_collection_records s)\<rparr>)
      else insert_collection_records \<lparr>cr_record_id = CText recordID, cr_barrier_cursor = uint64_cell barrier\<rparr> s)"

definition acceptRevision :: "uint64 \<Rightarrow> time \<Rightarrow> uint64 \<Rightarrow> pendingRevision \<Rightarrow> db \<Rightarrow> api_error + (unit \<times> db)" where
  "acceptRevision uptime now cursor item =
     (let revision = pn_revision item; recordID = rr_RecordID revision; revisionID = rr_RevisionID revision in
      bindT (execDB (insertRevisionObject (pn_contentHash item) (pn_canonical item))) (\<lambda>_.
      bindT (readT (\<lambda>s. guardR (storedObject (pn_contentHash item) s = Some (pn_canonical item)) internal_error)) (\<lambda>_.
      bindT (readT (classifyRevisionFrontier recordID (pn_vector item))) (\<lambda>(undominated, dominated).
      bindT (forT (supersedeHead recordID) dominated) (\<lambda>_.
      bindT (execDB (insert_record_revisions (revisionRow item uptime cursor undominated now))) (\<lambda>_.
      bindT (execDB (insert_revision_acceptance_origins
               \<lparr>ao_revision_id = CText revisionID, ao_accepted_uptime_ms = uint64_cell uptime\<rparr>)) (\<lambda>_.
      bindT (execDB (insert_collection_candidates
               \<lparr>cc_record_id = CText recordID, cc_accepted_uptime_ms = uint64_cell uptime, cc_revision_id = CText revisionID\<rparr>)) (\<lambda>_.
      bindT (execDB (insert_record_vector_index
               \<lparr>vi_record_id = CText recordID, vi_vector_hash = CBlob (sha256 (vectorJSON revision)), vi_revision_id = CText revisionID\<rparr>)) (\<lambda>_.
      bindT (if undominated
             then execDB (insert_record_heads \<lparr>rh_record_id = CText recordID, rh_revision_id = CText revisionID\<rparr>)
             else returnT ()) (\<lambda>_.
      bindT (execDB (upsertCollectionRecord recordID cursor)) (\<lambda>_.
      insertChange cursor ''record_revision'' revisionID [] [] [] 0 now)))))))))))"

text \<open>The loop over the pending items: only new ones are accepted, each at the next cursor.\<close>

fun acceptRevisions :: "uint64 \<Rightarrow> time \<Rightarrow> pendingRevision list \<Rightarrow> uint64 \<Rightarrow> db \<Rightarrow> api_error + (uint64 \<times> db)" where
  "acceptRevisions uptime now [] cursor = returnT cursor"
| "acceptRevisions uptime now (item # rest) cursor =
     (if \<not> pn_isNew item then acceptRevisions uptime now rest cursor
      else bindT (acceptRevision uptime now (cursor + 1) item) (\<lambda>_. acceptRevisions uptime now rest (cursor + 1)))"

section \<open>The handler\<close>

record syncContext =
  sx_deviceID :: bytes
  sx_fingerprint :: bytes
  sx_serverCursor :: uint64
  sx_envelopeGeneration :: uint64
  sx_createdAtMS :: int
  sx_maxReturned :: uint64
  sx_pending :: "pendingRevision list"
  sx_newCount :: nat
  sx_finalCounter :: uint64

text \<open>The device and its sync state: creation time, acknowledged cursor, counter and highest returned cursor.\<close>

definition syncRow :: "bytes \<Rightarrow> db \<Rightarrow> (int \<times> uint64 \<times> uint64 \<times> uint64) api_result" where
  "syncRow deviceID s =
     (case (find (\<lambda>d. d_device_id d = CText deviceID) (t_devices s), find (\<lambda>y. ds_device_id y = CText deviceID) (t_device_sync_state s)) of
        (Some d, Some y) \<Rightarrow>
          (case (scan_uint64 (d_last_ack_cursor d), scan_uint64 (d_max_author_counter d), scan_uint64 (ds_max_returned_cursor y)) of
             (Some storedAck, Some maxCounter, Some maxReturned) \<Rightarrow> Inr (d_created_at_ms d, storedAck, maxCounter, maxReturned)
           | _ \<Rightarrow> Inl internal_error)
      | _ \<Rightarrow> Inl internal_error)"

definition admitCursors :: "bytes \<Rightarrow> uint64 \<Rightarrow> uint64 \<Rightarrow> db \<Rightarrow> (uint64 \<times> uint64 \<times> int \<times> uint64 \<times> uint64) api_result" where
  "admitCursors deviceID afterCursor ackCursor s =
     bindR (readRuntimeState s) (\<lambda>(serverCursor, envelopeGeneration, _, _).
     bindR (readCursorFloor s) (\<lambda>cursorFloor.
     bindR (guardR (cursorFloor \<le> afterCursor) (NewError ''cursor_expired'' False)) (\<lambda>_.
     bindR (guardR (afterCursor \<le> serverCursor) invalid_request) (\<lambda>_.
     bindR (syncRow deviceID s) (\<lambda>(createdAtMS, storedAck, maxCounter, maxReturned).
     bindR (guardR (afterCursor \<le> maxReturned) invalid_request) (\<lambda>_.
     bindR (guardR (storedAck \<le> ackCursor \<and> ackCursor \<le> maxReturned) invalid_request) (\<lambda>_.
     Inr (serverCursor, envelopeGeneration, createdAtMS, maxCounter, maxReturned))))))))"

definition syncAdmit ::
  "Identity \<Rightarrow> api_request \<Rightarrow> syncRequest \<Rightarrow> uint64 \<Rightarrow> uint64 \<Rightarrow> db \<Rightarrow> (api_response + syncContext) api_result" where
  "syncAdmit identity call request afterCursor ackCursor s =
     bindR (authenticate identity (rq_Authorization call) ''sync:read'' s) (\<lambda>authenticated.
     let deviceID = da_DeviceID authenticated in
     bindR (guardR (deviceID = syq_DeviceID request) (NewError ''authenticated_device_mismatch'' False)) (\<lambda>_.
     bindR (guardR (syq_Mutations request = [] \<or> hasScope (da_Scopes authenticated) ''sync:write'') (NewError ''scope_denied'' False)) (\<lambda>_.
     bindR (requestFingerprint identity ''JAT sync request fingerprint v1'' deviceID (rq_Body call)) (\<lambda>fingerprint.
     bindR (lookupReceipt identity deviceID ''sync'' (rq_RequestID call) fingerprint s) (\<lambda>found.
     case found of
       Some response \<Rightarrow> Inr (Inl response)
     | None \<Rightarrow>
        bindR (admitCursors deviceID afterCursor ackCursor s) (\<lambda>(serverCursor, envelopeGeneration, createdAtMS, maxCounter, maxReturned).
        bindR (validateMutations deviceID maxCounter (syq_Mutations request) s) (\<lambda>(items, newCount, finalCounter).
        bindR (guardR (of_nat newCount \<le> - 1 - serverCursor) (NewError ''server_cursor_exhausted'' False)) (\<lambda>_.
        Inr (Inr \<lparr>sx_deviceID = deviceID, sx_fingerprint = fingerprint, sx_serverCursor = serverCursor,
                  sx_envelopeGeneration = envelopeGeneration, sx_createdAtMS = createdAtMS, sx_maxReturned = maxReturned,
                  sx_pending = items, sx_newCount = newCount, sx_finalCounter = finalCounter\<rparr>)))))))))"

definition setDevice :: "bytes \<Rightarrow> (devices_row \<Rightarrow> devices_row) \<Rightarrow> db \<Rightarrow> db" where
  "setDevice deviceID f s = s\<lparr>t_devices := sql_set (\<lambda>d. d_device_id d = CText deviceID) f (t_devices s)\<rparr>"

definition syncAccept ::
  "ephemeralState \<Rightarrow> time \<Rightarrow> uint64 \<Rightarrow> syncContext \<Rightarrow> db \<Rightarrow> api_error + ((uint64 \<times> time \<times> uint64) \<times> db)" where
  "syncAccept e now ackCursor cx =
     bindT (checkpointUptimeTx e now) (\<lambda>(uptime, checkpoint).
     bindT (acceptRevisions uptime now (sx_pending cx) (sx_serverCursor cx)) (\<lambda>nextCursor.
     bindT (if sx_newCount cx \<noteq> 0
            then bindT (updateDB (setDevice (sx_deviceID cx) (\<lambda>d. d\<lparr>d_max_author_counter := uint64_cell (sx_finalCounter cx)\<rparr>))) (\<lambda>_.
                 setServerCursor nextCursor)
            else returnT ()) (\<lambda>_.
     bindT (updateDB (setDevice (sx_deviceID cx) (\<lambda>d. d\<lparr>d_last_ack_cursor := uint64_cell ackCursor,
              d_last_sync_at_ms := Some (max (UnixMilli now) (sx_createdAtMS cx))\<rparr>))) (\<lambda>_.
     returnT (uptime, checkpoint, (if sx_newCount cx \<noteq> 0 then nextCursor else sx_serverCursor cx))))))"

text \<open>The loop that drops changes from the end until the body fits.\<close>

definition syncBody :: "uint64 \<Rightarrow> uint64 \<Rightarrow> change list \<Rightarrow> uint64 \<Rightarrow> bool \<Rightarrow> bytes" where
  "syncBody serverCursor envelopeGeneration changes nextCursor hasMore =
     marshal (to_syncResponse \<lparr>sys_ProtocolVersion = ''1'', sys_ServerCursor = encodeUint64Text serverCursor,
       sys_NextCursor = encodeUint64Text nextCursor, sys_HasMore = hasMore,
       sys_EnvelopeGeneration = encodeUint64Text envelopeGeneration, sys_Changes = changes\<rparr>)"

function shrinkResponse ::
  "uint64 \<Rightarrow> uint64 \<Rightarrow> change list \<Rightarrow> uint64 \<Rightarrow> bool \<Rightarrow> (bytes \<times> uint64) api_result" where
  "shrinkResponse serverCursor envelopeGeneration changes nextCursor hasMore =
     (let body = syncBody serverCursor envelopeGeneration changes nextCursor hasMore
      in if length body \<le> maxBodyBytes then Inr (body, nextCursor)
         else if length changes \<le> 1 then Inl internal_error
         else (case parseUint64 (ch_Cursor (last (butlast changes))) of
            None \<Rightarrow> Inl internal_error
          | Some cursor \<Rightarrow> shrinkResponse serverCursor envelopeGeneration (butlast changes) cursor True))"
  by pat_completeness auto
termination by (relation "measure (\<lambda>(_, _, changes, _, _). length changes)") auto

declare shrinkResponse.simps [simp del]

definition raiseReturned :: "bytes \<Rightarrow> uint64 \<Rightarrow> uint64 \<Rightarrow> db \<Rightarrow> db" where
  "raiseReturned deviceID maxReturned cursor s =
     (if maxReturned < cursor
      then s\<lparr>t_device_sync_state := sql_set (\<lambda>y. ds_device_id y = CText deviceID)
              (\<lambda>y. y\<lparr>ds_max_returned_cursor := uint64_cell cursor\<rparr>) (t_device_sync_state s)\<rparr>
      else s)"

definition syncFinish ::
  "api_request \<Rightarrow> uint64 \<Rightarrow> syncContext \<Rightarrow> uint64 \<Rightarrow> time \<Rightarrow> uint64 \<Rightarrow> bytes list \<Rightarrow> db \<Rightarrow> api_error + (outcome \<times> db)" where
  "syncFinish call afterCursor cx uptime checkpoint cursor expired =
     bindT (pruneExpiredSnapshots expired) (\<lambda>_.
     bindT (collectEligible (rq_Now call) uptime cursor) (\<lambda>serverCursor.
     bindT (readT readCursorFloor) (\<lambda>cursorFloor.
     bindT (guardT (cursorFloor \<le> afterCursor) (NewError ''cursor_expired'' False)) (\<lambda>_.
     bindT (readT (loadChanges afterCursor)) (\<lambda>(changes, nextCursor, hasMore).
     bindT (readT (\<lambda>_. shrinkResponse serverCursor (sx_envelopeGeneration cx) changes nextCursor hasMore)) (\<lambda>(body, returned).
     bindT (updateDB (raiseReturned (sx_deviceID cx) (sx_maxReturned cx) returned)) (\<lambda>_.
     bindT (storeReceiptAtUptime (sx_deviceID cx) ''sync'' (rq_RequestID call) (sx_fingerprint cx) (response200 body) (rq_Now call) uptime) (\<lambda>_.
     returnT (Commit (response200 body) (Some checkpoint))))))))))"

definition syncFirst ::
  "Identity \<Rightarrow> ephemeralState \<Rightarrow> api_request \<Rightarrow> syncRequest \<Rightarrow> uint64 \<Rightarrow> uint64 \<Rightarrow> db
     \<Rightarrow> api_error + ((outcome + (syncContext \<times> uint64 \<times> time \<times> uint64 \<times> bytes list)) \<times> db)" where
  "syncFirst identity e call request afterCursor ackCursor =
     bindT (readT (syncAdmit identity call request afterCursor ackCursor)) (\<lambda>r.
     case r of
       Inl response \<Rightarrow> returnT (Inl (Rollback response))
     | Inr cx \<Rightarrow>
        bindT (syncAccept e (rq_Now call) ackCursor cx) (\<lambda>(uptime, checkpoint, cursor).
        bindT (readT (expiredSnapshots e (rq_Now call))) (\<lambda>expired.
        returnT (Inr (cx, uptime, checkpoint, cursor, expired)))))"

definition syncRequestOk :: "api_request \<Rightarrow> syncRequest \<Rightarrow> bool" where
  "syncRequestOk call request \<longleftrightarrow>
     syq_ProtocolVersion request = ''1'' \<and> validateUUID (syq_DeviceID request) \<and> validateUUID (syq_RequestID request)
     \<and> syq_RequestID request = rq_RequestID call \<and> length (syq_Mutations request) \<le> maxMutations"

definition handleSync :: "io \<Rightarrow> api_request \<Rightarrow> Store \<Rightarrow> api_response api_result \<times> Store" where
  "handleSync io call store =
     (case decodeStrict T_syncRequest (rq_Body call) of
        None \<Rightarrow> (Inl invalid_request, store)
      | Some g \<Rightarrow> let request = of_syncRequest g in
     if \<not> syncRequestOk call request then (Inl invalid_request, store)
     else (case validateMutationShapes (syq_DeviceID request) None (syq_Mutations request) of
        Inl err \<Rightarrow> (Inl err, store)
      | Inr _ \<Rightarrow>
     (case (parseUint64 (syq_AfterCursor request), parseUint64 (syq_AckCursor request)) of
        (Some afterCursor, Some ackCursor) \<Rightarrow>
          runPhase io store (syncFirst (st_identity store) (st_ephemeral store) call request afterCursor ackCursor)
            (\<lambda>(cx, uptime, checkpoint, cursor, expired) s.
               finishTx io (store\<lparr>st_ephemeral := forgetDeadlines expired (st_ephemeral store)\<rparr>)
                 (syncFinish call afterCursor cx uptime checkpoint cursor expired s))
      | _ \<Rightarrow> (Inl invalid_request, store))))"

end
