(* ===== verification/Snapshot.thy ===== *)
theory Snapshot
  imports Sync
begin

text \<open>
  Snapshot reads (\<^verbatim>\<open>store/snapshot.go\<close>): a lease on the current heads, markers and devices, cut into pages
  that each fit a response body, with an exact account of the metadata the lease holds. The admission
  attempt and the forgotten leases stay in the ephemeral state even when the transaction fails, so
  \<open>handleCreateSnapshot\<close> has two phases; the new lease is kept only when the commit succeeds.
\<close>

section \<open>Page descriptors\<close>

record snapshotPageDescriptor =
  sp_RevisionIDs :: "bytes list"
  sp_CollectionMarkers :: "collectionMarker list"
  sp_SourceDevices :: "sourceDevice list"
  sp_NextPageToken :: "bytes option"
  sp_HasMore :: bool

definition T_snapshotPageDescriptor :: jtype where
  "T_snapshotPageDescriptor = TStruct [
     (''revision_ids'', TSlice TString),
     (''collection_markers'', TSlice T_collectionMarker),
     (''source_devices'', TSlice T_sourceDevice),
     (''next_page_token'', TPtr TString),
     (''has_more'', TBool)]"

definition to_snapshotPageDescriptor :: "snapshotPageDescriptor \<Rightarrow> gval" where
  "to_snapshotPageDescriptor x = GStruct [
     (''revision_ids'', GSlice (Some (map GString (sp_RevisionIDs x)))),
     (''collection_markers'', GSlice (Some (map to_collectionMarker (sp_CollectionMarkers x)))),
     (''source_devices'', GSlice (Some (map to_sourceDevice (sp_SourceDevices x)))),
     (''next_page_token'', GPtr (map_option GString (sp_NextPageToken x))),
     (''has_more'', GBool (sp_HasMore x))]"

definition of_snapshotPageDescriptor :: "gval \<Rightarrow> snapshotPageDescriptor" where
  "of_snapshotPageDescriptor g = \<lparr>
     sp_RevisionIDs = g_slice g_string (g_field ''revision_ids'' g),
     sp_CollectionMarkers = g_slice of_collectionMarker (g_field ''collection_markers'' g),
     sp_SourceDevices = g_slice of_sourceDevice (g_field ''source_devices'' g),
     sp_NextPageToken = g_ptr g_string (g_field ''next_page_token'' g),
     sp_HasMore = g_bool (g_field ''has_more'' g)\<rparr>"

record storedSnapshotPage =
  pg_token :: bytes
  pg_descriptor :: snapshotPageDescriptor
  pg_body :: bytes

record snapshotRevisionReference =
  sr_revisionID :: bytes
  sr_contentHash :: bytes

definition snapshotMetadataLimit :: int where
  "snapshotMetadataLimit = 64 * 1024 * 1024"

definition nonemptyPhases :: "snapshotPageDescriptor \<Rightarrow> nat" where
  "nonemptyPhases d = (if sp_RevisionIDs d \<noteq> [] then 1 else 0) + (if sp_CollectionMarkers d \<noteq> [] then 1 else 0)
     + (if sp_SourceDevices d \<noteq> [] then 1 else 0)"

definition validateDescriptor :: "snapshotPageDescriptor \<Rightarrow> bool" where
  "validateDescriptor d \<longleftrightarrow>
     length (sp_RevisionIDs d) \<le> 128 \<and> length (sp_CollectionMarkers d) \<le> 128 \<and> length (sp_SourceDevices d) \<le> 64
     \<and> nonemptyPhases d \<le> 1 \<and> \<not> (nonemptyPhases d = 0 \<and> sp_HasMore d)
     \<and> (if sp_HasMore d then (case sp_NextPageToken d of None \<Rightarrow> False | Some t \<Rightarrow> decodeBase64 t 32 0 0 \<noteq> None)
        else sp_NextPageToken d = None)
     \<and> list_all validateUUID (sp_RevisionIDs d) \<and> distinct (sp_RevisionIDs d)
     \<and> list_all (\<lambda>m. validateCollectionMarker m \<noteq> None) (sp_CollectionMarkers d)
     \<and> sorted_wrt (<) (map cm_RecordID (sp_CollectionMarkers d))
     \<and> list_all (\<lambda>v. validateUUID (sd_DeviceID v) \<and> parseUint64 (sd_MaxAuthorCounter v) \<noteq> None) (sp_SourceDevices d)
     \<and> sorted_wrt (<) (map sd_DeviceID (sp_SourceDevices d))"

definition decodeStoredSnapshotPageDescriptor :: "bytes \<Rightarrow> snapshotPageDescriptor option" where
  "decodeStoredSnapshotPageDescriptor body =
     (case decodeStoredCanonical T_snapshotPageDescriptor body of
        None \<Rightarrow> None
      | Some g \<Rightarrow> let d = of_snapshotPageDescriptor g in if validateDescriptor d then Some d else None)"

section \<open>Metadata accounting\<close>

text \<open>A signed 64-bit total with a sticky overflow flag.\<close>

record snapshotMetadataAccounting =
  ac_total :: int
  ac_overflow :: bool

definition maxInt64 :: int where "maxInt64 = 2 ^ 63 - 1"

definition emptyAccount :: snapshotMetadataAccounting where
  "emptyAccount = \<lparr>ac_total = 0, ac_overflow = False\<rparr>"

definition addLength64 :: "int \<Rightarrow> snapshotMetadataAccounting \<Rightarrow> snapshotMetadataAccounting" where
  "addLength64 len a =
     (if ac_overflow a \<or> len < 0 \<or> maxInt64 - ac_total a < len then a\<lparr>ac_overflow := True\<rparr>
      else a\<lparr>ac_total := ac_total a + len\<rparr>)"

definition addLP :: "bytes \<Rightarrow> snapshotMetadataAccounting \<Rightarrow> snapshotMetadataAccounting" where
  "addLP v a = addLength64 (int (length v)) (addLength64 8 a)"

definition addRecord :: "bytes \<Rightarrow> bytes list \<Rightarrow> snapshotMetadataAccounting \<Rightarrow> snapshotMetadataAccounting" where
  "addRecord tag values a = fold addLP values (addLength64 8 (addLP tag a))"

definition accountingUint64 :: "uint64 \<Rightarrow> bytes" where
  "accountingUint64 value = EncodeUint64 value"

definition zeroes :: "nat \<Rightarrow> bytes" where
  "zeroes n = replicate n (CHR 0x00)"

definition accountSnapshotBase ::
  "bytes \<Rightarrow> bytes \<Rightarrow> bytes \<Rightarrow> bytes \<Rightarrow> snapshotMetadataAccounting \<Rightarrow> snapshotMetadataAccounting" where
  "accountSnapshotBase snapshotID ownerDeviceID requestID createBody a =
     addRecord ''snapshots.monotonic_lease'' [snapshotID, zeroes 8]
    (addRecord ''snapshots.owner_request.unique'' [ownerDeviceID, requestID, snapshotID]
    (addRecord ''snapshots.pk'' [snapshotID]
    (addRecord ''snapshots.row'' [snapshotID, ownerDeviceID, requestID, zeroes 32, zeroes 8, zeroes 8, zeroes 8, zeroes 8, zeroes 8, createBody] a)))"

definition accountSnapshotPage ::
  "bytes \<Rightarrow> nat \<Rightarrow> bytes \<Rightarrow> bytes \<Rightarrow> snapshotMetadataAccounting \<Rightarrow> snapshotMetadataAccounting" where
  "accountSnapshotPage snapshotID pageIndex token body a =
     (let index = accountingUint64 (of_nat pageIndex) in
      addRecord ''snapshot_pages.token.unique'' [token, snapshotID, index]
     (addRecord ''snapshot_pages.pk'' [snapshotID, index]
     (addRecord ''snapshot_pages.row'' [snapshotID, index, token, body] a)))"

definition accountSnapshotReference ::
  "bytes \<Rightarrow> snapshotRevisionReference \<Rightarrow> snapshotMetadataAccounting \<Rightarrow> snapshotMetadataAccounting" where
  "accountSnapshotReference snapshotID reference a =
     addRecord ''snapshot_revision_refs.pk'' [snapshotID, sr_revisionID reference]
    (addRecord ''snapshot_revision_refs.row'' [snapshotID, sr_revisionID reference, sr_contentHash reference] a)"

definition snapshotMetadataBytes ::
  "bytes \<Rightarrow> bytes \<Rightarrow> bytes \<Rightarrow> bytes \<Rightarrow> storedSnapshotPage list \<Rightarrow> snapshotRevisionReference list \<Rightarrow> int \<times> bool" where
  "snapshotMetadataBytes snapshotID ownerDeviceID requestID createBody pages references =
     (let a = fold (accountSnapshotReference snapshotID) references
                (fold (\<lambda>(index, page). accountSnapshotPage snapshotID index (pg_token page) (pg_body page)) (enumerate 0 pages)
                  (accountSnapshotBase snapshotID ownerDeviceID requestID createBody emptyAccount))
      in (ac_total a, \<not> ac_overflow a))"

section \<open>Planning the pages\<close>

definition placeholderToken :: bytes where
  "placeholderToken = replicate 43 (CHR ''A'')"

text \<open>The body of a page response; the marker and device pages are sized with a nil revision slice.\<close>

definition pageResponse ::
  "bytes \<Rightarrow> uint64 \<Rightarrow> uint64 \<Rightarrow> recordRevision list option \<Rightarrow> snapshotPageDescriptor \<Rightarrow> gval" where
  "pageResponse snapshotID cutCursor envelopeGeneration revisions d = GStruct [
     (''protocol_version'', GString ''1''),
     (''snapshot_id'', GString snapshotID),
     (''cut_cursor'', GString (encodeUint64Text cutCursor)),
     (''envelope_generation'', GString (encodeUint64Text envelopeGeneration)),
     (''revisions'', GSlice (map_option (map to_recordRevision) revisions)),
     (''collection_markers'', GSlice (Some (map to_collectionMarker (sp_CollectionMarkers d)))),
     (''source_devices'', GSlice (Some (map to_sourceDevice (sp_SourceDevices d)))),
     (''next_page_token'', GPtr (map_option GString (sp_NextPageToken d))),
     (''has_more'', GBool (sp_HasMore d))]"

definition snapshotPageFits ::
  "bytes \<Rightarrow> uint64 \<Rightarrow> uint64 \<Rightarrow> recordRevision list option \<Rightarrow> snapshotPageDescriptor \<Rightarrow> bool" where
  "snapshotPageFits snapshotID cutCursor envelopeGeneration revisions d \<longleftrightarrow>
     length (marshal (pageResponse snapshotID cutCursor envelopeGeneration revisions
       (d\<lparr>sp_NextPageToken := Some placeholderToken, sp_HasMore := True\<rparr>))) \<le> maxBodyBytes"

definition revisionPage :: "bytes list \<Rightarrow> snapshotPageDescriptor" where
  "revisionPage ids = \<lparr>sp_RevisionIDs = ids, sp_CollectionMarkers = [], sp_SourceDevices = [], sp_NextPageToken = None, sp_HasMore = False\<rparr>"

definition markerPage :: "collectionMarker list \<Rightarrow> snapshotPageDescriptor" where
  "markerPage ms = \<lparr>sp_RevisionIDs = [], sp_CollectionMarkers = ms, sp_SourceDevices = [], sp_NextPageToken = None, sp_HasMore = False\<rparr>"

definition devicePage :: "sourceDevice list \<Rightarrow> snapshotPageDescriptor" where
  "devicePage ds = \<lparr>sp_RevisionIDs = [], sp_CollectionMarkers = [], sp_SourceDevices = ds, sp_NextPageToken = None, sp_HasMore = False\<rparr>"

record snapshotPlan =
  pl_account :: snapshotMetadataAccounting
  pl_descriptors :: "snapshotPageDescriptor list"
  pl_references :: "snapshotRevisionReference list"
  pl_revisions :: "recordRevision list"
  pl_markers :: "collectionMarker list"

text \<open>The parameters of a plan that do not change: identifiers, cut, generation and available metadata.\<close>

record planParameters =
  pp_snapshotID :: bytes
  pp_cutCursor :: uint64
  pp_envelopeGeneration :: uint64
  pp_available :: int

definition limitExceeded :: api_error where
  "limitExceeded = NewError ''limit_exceeded'' False"

definition withinBudget :: "planParameters \<Rightarrow> snapshotMetadataAccounting \<Rightarrow> bool" where
  "withinBudget pp a \<longleftrightarrow> \<not> ac_overflow a \<and> ac_total a \<le> pp_available pp"

definition appendDescriptor :: "planParameters \<Rightarrow> snapshotPageDescriptor \<Rightarrow> snapshotPlan \<Rightarrow> snapshotPlan api_result" where
  "appendDescriptor pp d plan =
     (let a = accountSnapshotPage (pp_snapshotID pp) (length (pl_descriptors plan)) placeholderToken
                (marshal (to_snapshotPageDescriptor d)) (pl_account plan)
      in if withinBudget pp a then Inr (plan\<lparr>pl_account := a, pl_descriptors := pl_descriptors plan @ [d]\<rparr>)
         else Inl limitExceeded)"

abbreviation fits :: "planParameters \<Rightarrow> recordRevision list option \<Rightarrow> snapshotPageDescriptor \<Rightarrow> bool" where
  "fits pp \<equiv> snapshotPageFits (pp_snapshotID pp) (pp_cutCursor pp) (pp_envelopeGeneration pp)"

definition finishRevisionPage :: "planParameters \<Rightarrow> snapshotPlan \<Rightarrow> snapshotPlan api_result" where
  "finishRevisionPage pp plan =
     (if pl_revisions plan = [] then Inr plan
      else bindR (appendDescriptor pp (revisionPage (map rr_RevisionID (pl_revisions plan))) plan) (\<lambda>plan'.
        Inr (plan'\<lparr>pl_revisions := []\<rparr>)))"

text \<open>One joined row of the head query: identifiers, hash and body, checked against each other.\<close>

definition scanHead :: "record_heads_row \<times> record_revisions_row \<times> revision_objects_row \<Rightarrow> (recordRevision \<times> bytes) api_result" where
  "scanHead row =
     (case row of (h, r, ob) \<Rightarrow>
     (case (scan_uuid (rv_record_id r), scan_uuid (rv_revision_id r), scan_blob 32 (rv_content_hash r), scan_body maxBodyBytes (ro_revision_json ob)) of
        (Some recordID, Some revisionID, Some hash, Some body) \<Rightarrow>
          (case decodeStoredCanonical T_recordRevision body of
             None \<Rightarrow> Inl internal_error
           | Some g \<Rightarrow>
              if rr_RecordID (of_recordRevision g) \<noteq> recordID \<or> rr_RevisionID (of_recordRevision g) \<noteq> revisionID
                 \<or> sha256 body \<noteq> hash then Inl internal_error
              else Inr (of_recordRevision g, hash))
      | _ \<Rightarrow> Inl internal_error))"

definition placeRevision :: "planParameters \<Rightarrow> snapshotPlan \<Rightarrow> recordRevision \<Rightarrow> snapshotPlan api_result" where
  "placeRevision pp plan revision =
     (let candidate = pl_revisions plan @ [revision] in
      if 128 < length candidate \<or> \<not> fits pp (Some candidate) (revisionPage (map rr_RevisionID candidate)) then
        (if pl_revisions plan = [] then Inl internal_error
         else bindR (finishRevisionPage pp plan) (\<lambda>plan'.
           if fits pp (Some [revision]) (revisionPage [rr_RevisionID revision])
           then Inr (plan'\<lparr>pl_revisions := [revision]\<rparr>) else Inl internal_error))
      else Inr (plan\<lparr>pl_revisions := candidate\<rparr>))"

definition ordered_after :: "(bytes \<times> bytes) option \<Rightarrow> recordRevision \<Rightarrow> bool" where
  "ordered_after previous revision =
     (case previous of
        None \<Rightarrow> True
      | Some (recordID, revisionID) \<Rightarrow>
         \<not> (rr_RecordID revision < recordID \<or> rr_RecordID revision = recordID \<and> rr_RevisionID revision \<le> revisionID))"

definition planRevision ::
  "planParameters \<Rightarrow> (bytes \<times> bytes) option \<times> snapshotPlan \<Rightarrow> record_heads_row \<times> record_revisions_row \<times> revision_objects_row
     \<Rightarrow> ((bytes \<times> bytes) option \<times> snapshotPlan) api_result" where
  "planRevision pp st row =
     bindR (scanHead row) (\<lambda>(revision, hash).
     bindR (guardR (ordered_after (fst st) revision) internal_error) (\<lambda>_.
     bindR (placeRevision pp (snd st) revision) (\<lambda>plan.
     let reference = \<lparr>sr_revisionID = rr_RevisionID revision, sr_contentHash = hash\<rparr>;
         a = accountSnapshotReference (pp_snapshotID pp) reference (pl_account plan)
     in if withinBudget pp a
        then Inr (Some (rr_RecordID revision, rr_RevisionID revision),
                  plan\<lparr>pl_account := a, pl_references := pl_references plan @ [reference]\<rparr>)
        else Inl limitExceeded)))"

definition snapshotHeads :: "db \<Rightarrow> (record_heads_row \<times> record_revisions_row \<times> revision_objects_row) list" where
  "snapshotHeads s =
     List.map_filter (\<lambda>h. case find (\<lambda>r. rv_revision_id r = rh_revision_id h) (t_record_revisions s) of
         None \<Rightarrow> None
       | Some r \<Rightarrow> map_option (\<lambda>ob. (h, r, ob)) (find (\<lambda>ob. ro_content_hash ob = rv_content_hash r) (t_revision_objects s)))
       (sql_query (\<lambda>h. (rh_record_id h, rh_revision_id h)) (\<lambda>_. True) (t_record_heads s))"

definition finishMarkerPage :: "planParameters \<Rightarrow> snapshotPlan \<Rightarrow> snapshotPlan api_result" where
  "finishMarkerPage pp plan =
     (if pl_markers plan = [] then Inr plan
      else bindR (appendDescriptor pp (markerPage (pl_markers plan)) plan) (\<lambda>plan'. Inr (plan'\<lparr>pl_markers := []\<rparr>)))"

definition planMarker ::
  "planParameters \<Rightarrow> bytes option \<times> snapshotPlan \<Rightarrow> collection_markers_row \<Rightarrow> (bytes option \<times> snapshotPlan) api_result" where
  "planMarker pp st row =
     (case scan_body maxBodyBytes (mk_marker_json row) of
        None \<Rightarrow> Inl internal_error
      | Some body \<Rightarrow>
     (case decodeStoredCollectionMarker body of
        None \<Rightarrow> Inl internal_error
      | Some marker \<Rightarrow>
         let plan = snd st; candidate = pl_markers plan @ [marker] in
         if (case fst st of None \<Rightarrow> False | Some previous \<Rightarrow> cm_RecordID marker \<le> previous) then Inl internal_error
         else if 128 < length candidate \<or> \<not> fits pp None (markerPage candidate) then
           (if pl_markers plan = [] then Inl internal_error
            else bindR (finishMarkerPage pp plan) (\<lambda>plan'.
              Inr (Some (cm_RecordID marker), plan'\<lparr>pl_markers := [marker]\<rparr>)))
         else Inr (Some (cm_RecordID marker), plan\<lparr>pl_markers := candidate\<rparr>)))"

definition scanDevice :: "bytes option \<times> sourceDevice list \<Rightarrow> devices_row \<Rightarrow> (bytes option \<times> sourceDevice list) api_result" where
  "scanDevice st row =
     (case (scan_uuid (d_device_id row), scan_uint64 (d_max_author_counter row)) of
        (Some deviceID, Some counter) \<Rightarrow>
          if (case fst st of None \<Rightarrow> False | Some previous \<Rightarrow> deviceID \<le> previous) then Inl internal_error
          else Inr (Some deviceID, snd st @ [\<lparr>sd_DeviceID = deviceID, sd_MaxAuthorCounter = encodeUint64Text counter\<rparr>])
      | _ \<Rightarrow> Inl internal_error)"

definition planDevices :: "planParameters \<Rightarrow> db \<Rightarrow> snapshotPlan \<Rightarrow> snapshotPlan api_result" where
  "planDevices pp s plan =
     bindR (foldR scanDevice (None, []) (take 65 (sql_query d_device_id (\<lambda>_. True) (t_devices s)))) (\<lambda>(_, devices).
       if 64 < length devices then Inl internal_error
       else if devices = [] then Inr plan
       else if \<not> fits pp None (devicePage devices) then Inl internal_error
       else appendDescriptor pp (devicePage devices) plan)"

text \<open>The final pass: page \<open>i\<close> names the token of page \<open>i + 1\<close>.\<close>

definition linkPages :: "(nat \<Rightarrow> bytes) \<Rightarrow> snapshotPageDescriptor list \<Rightarrow> storedSnapshotPage list" where
  "linkPages random ds =
     map (\<lambda>(index, d).
       let hasMore = (index + 1 < length ds);
           d' = d\<lparr>sp_HasMore := hasMore,
                  sp_NextPageToken := (if hasMore then Some (encodeRandomBase64 (random (index + 1))) else sp_NextPageToken d)\<rparr>
       in \<lparr>pg_token = encodeRandomBase64 (random index), pg_descriptor = d', pg_body = marshal (to_snapshotPageDescriptor d')\<rparr>)
       (enumerate 0 ds)"

definition buildSnapshotPlan ::
  "(nat \<Rightarrow> bytes) \<Rightarrow> planParameters \<Rightarrow> bytes \<Rightarrow> bytes \<Rightarrow> db
     \<Rightarrow> (storedSnapshotPage list \<times> snapshotRevisionReference list) api_result" where
  "buildSnapshotPlan random pp ownerDeviceID requestID s =
     (let base = accountSnapshotBase (pp_snapshotID pp) ownerDeviceID requestID [] emptyAccount;
          empty = \<lparr>pl_account = base, pl_descriptors = [], pl_references = [], pl_revisions = [], pl_markers = []\<rparr> in
      if pp_available pp < 0 \<or> \<not> withinBudget pp base then Inl limitExceeded
      else bindR (foldR (planRevision pp) (None, empty) (snapshotHeads s)) (\<lambda>(_, p1).
      bindR (finishRevisionPage pp p1) (\<lambda>p2.
      bindR (foldR (planMarker pp) (None, p2) (sql_query mk_record_id (\<lambda>_. True) (t_collection_markers s))) (\<lambda>(_, p3).
      bindR (finishMarkerPage pp p3) (\<lambda>p4.
      bindR (planDevices pp s p4) (\<lambda>p5.
      bindR (if pl_descriptors p5 = [] then appendDescriptor pp (revisionPage []) p5 else Inr p5) (\<lambda>p6.
      Inr (linkPages random (pl_descriptors p6), pl_references p6))))))))"

section \<open>Creating a snapshot\<close>

definition preflightSnapshotOwnerKeys :: "bytes \<Rightarrow> bytes \<Rightarrow> db \<Rightarrow> unit api_result" where
  "preflightSnapshotOwnerKeys ownerDeviceID requestID s =
     (if \<not> validateUUID ownerDeviceID \<or> \<not> validateUUID requestID then Inl internal_error
      else let found = take 2 (probe_rows sn_owner_device_id ownerDeviceID (t_snapshots s))
      in guardR (list_all (\<lambda>n. scan_uuid (sn_owner_device_id n) = Some ownerDeviceID \<and> scan_uuid (sn_request_id n) \<noteq> None
                   \<and> scan_uuid (sn_request_id n) \<noteq> Some requestID) found \<and> length found \<le> 1) internal_error)"

definition admitSnapshotAttempt :: "bytes \<Rightarrow> time \<Rightarrow> ephemeralState \<Rightarrow> unit api_result \<times> ephemeralState" where
  "admitSnapshotAttempt deviceID now e =
     (if \<not> booted e then (Inl internal_error, e)
      else let attempts = (case map_of (snapshotAttempts e) deviceID of None \<Rightarrow> [] | Some a \<Rightarrow> a);
               (ok, retained) = admitAttempt attempts now
      in (guardR ok (NewError ''rate_limited'' False), e\<lparr>snapshotAttempts := AList.update deviceID retained (snapshotAttempts e)\<rparr>))"

definition storedSnapshotResponse :: "Identity \<Rightarrow> bytes \<Rightarrow> snapshots_row \<Rightarrow> bytes api_result" where
  "storedSnapshotResponse identity fingerprint n =
     (case (scan_uuid (sn_snapshot_id n), scan_uuid (sn_owner_device_id n), scan_blob 32 (sn_request_fingerprint n),
            scan_uint64 (sn_cut_cursor n), scan_uint64 (sn_envelope_generation n)) of
        (Some snapshotID, Some owner, Some recorded, Some cutCursor, Some generation) \<Rightarrow>
          (case scan_body maxBodyBytes (sn_create_response_json n) of
             None \<Rightarrow> Inl internal_error
           | Some response \<Rightarrow>
              if \<not> validateStoredSnapshotCreateResponse response identity snapshotID owner cutCursor generation (sn_expires_at_ms n)
              then Inl internal_error
              else if \<not> VerifyHash recorded fingerprint then Inl (NewError ''request_id_reused'' False)
              else Inr response)
      | _ \<Rightarrow> Inl internal_error)"

text \<open>The part of the transaction before the admission attempt: a replay, or the device and the fingerprint.\<close>

definition createSnapshotFirst ::
  "Identity \<Rightarrow> api_request \<Rightarrow> snapshotCreateRequest \<Rightarrow> db \<Rightarrow> api_error + ((outcome + (bytes \<times> bytes)) \<times> db)" where
  "createSnapshotFirst identity call request =
     bindT (readT (authenticate identity (rq_Authorization call) ''sync:read'')) (\<lambda>authenticated.
     let deviceID = da_DeviceID authenticated in
     bindT (guardT (deviceID = scq_DeviceID request) (NewError ''authenticated_device_mismatch'' False)) (\<lambda>_.
     bindT (readT (\<lambda>_. requestFingerprint identity ''JAT snapshot create request fingerprint v1'' deviceID (rq_Body call))) (\<lambda>fingerprint.
     bindT (readT (\<lambda>s. Inr (find (\<lambda>n. sn_owner_device_id n = CText deviceID \<and> sn_request_id n = CText (rq_RequestID call)) (t_snapshots s)))) (\<lambda>found.
     case found of
       Some n \<Rightarrow>
         bindT (readT (\<lambda>_. storedSnapshotResponse identity fingerprint n)) (\<lambda>body. returnT (Inl (Rollback (response200 body))))
     | None \<Rightarrow>
         bindT (readT (preflightSnapshotOwnerKeys deviceID (rq_RequestID call))) (\<lambda>_. returnT (Inr (deviceID, fingerprint)))))))"

definition sum_list_int :: "int list \<Rightarrow> int" where
  "sum_list_int xs = fold (+) xs 0"

definition admitSnapshot :: "bytes \<Rightarrow> db \<Rightarrow> int api_result" where
  "admitSnapshot deviceID s =
     (let active = take 9 (t_snapshots s);
          activeForDevice = length (filter (\<lambda>n. sn_owner_device_id n = CText deviceID) active);
          activeMetadata = sum_list_int (map sn_metadata_bytes active) in
      if maxInt64 < activeMetadata then Inl internal_error
      else if 8 < length active then Inl internal_error
      else if 1 \<le> activeForDevice \<or> 8 \<le> length active then Inl limitExceeded
      else if activeMetadata < 0 \<or> snapshotMetadataLimit < activeMetadata then Inl internal_error
      else Inr activeMetadata)"

definition snapshotEnvelope :: "Identity \<Rightarrow> uint64 \<Rightarrow> uint64 \<Rightarrow> db \<Rightarrow> vaultEnvelope api_result" where
  "snapshotEnvelope identity envelopeGeneration secretGeneration s =
     (case t_vault_envelope s of
        None \<Rightarrow> Inl (NewError ''envelope_missing'' False)
      | Some row \<Rightarrow>
     (case scan_body maxBodyBytes (vb_envelope_json row) of
        None \<Rightarrow> Inl internal_error
      | Some body \<Rightarrow>
     (case json_Unmarshal T_vaultEnvelope body of
        None \<Rightarrow> Inl internal_error
      | Some g \<Rightarrow>
         if validateEnvelope (of_vaultEnvelope g) identity \<noteq> Some (envelopeGeneration, secretGeneration)
            \<or> marshalJSON g \<noteq> Some body then Inl internal_error
         else Inr (of_vaultEnvelope g))))"

definition insertSnapshotRows ::
  "bytes \<Rightarrow> storedSnapshotPage list \<Rightarrow> snapshotRevisionReference list \<Rightarrow> db \<Rightarrow> api_error + (unit \<times> db)" where
  "insertSnapshotRows snapshotID pages references =
     bindT (forT (\<lambda>(index, page). execDB (insert_snapshot_pages \<lparr>sg_snapshot_id = CText snapshotID, sg_page_index = int index,
               sg_page_token = CText (pg_token page), sg_response_json = CBlob (pg_body page)\<rparr>)) (enumerate 0 pages)) (\<lambda>_.
     forT (\<lambda>reference. execDB (insert_snapshot_revision_refs \<lparr>sf_snapshot_id = CText snapshotID,
               sf_revision_id = CText (sr_revisionID reference), sf_content_hash = CBlob (sr_contentHash reference)\<rparr>)) references)"

definition createSnapshotRest ::
  "io \<Rightarrow> Identity \<Rightarrow> api_request \<Rightarrow> bytes \<Rightarrow> bytes \<Rightarrow> bytes \<Rightarrow> bytes list \<Rightarrow> db \<Rightarrow> api_error + (outcome \<times> db)" where
  "createSnapshotRest io identity call snapshotID deviceID fingerprint expired =
     bindT (pruneExpiredSnapshots expired) (\<lambda>_.
     bindT (readT (admitSnapshot deviceID)) (\<lambda>activeMetadata.
     bindT (readT readRuntimeState) (\<lambda>(serverCursor, envelopeGeneration, secretGeneration, collectionGeneration).
     bindT (readT (snapshotEnvelope identity envelopeGeneration secretGeneration)) (\<lambda>envelope.
     let available = snapshotMetadataLimit - activeMetadata;
         pp = \<lparr>pp_snapshotID = snapshotID, pp_cutCursor = serverCursor, pp_envelopeGeneration = envelopeGeneration, pp_available = available\<rparr>;
         expiresAtMS = UnixMilli (rq_Now call + snapshotLifetime) in
     bindT (readT (buildSnapshotPlan (\<lambda>i. io_rand io (i + 1)) pp deviceID (rq_RequestID call))) (\<lambda>(pages, references).
     let createBody = marshal (to_snapshotCreateResponse \<lparr>scs_ProtocolVersion = ''1'', scs_SnapshotID = snapshotID,
           scs_CutCursor = encodeUint64Text serverCursor, scs_EnvelopeGeneration = encodeUint64Text envelopeGeneration,
           scs_Envelope = envelope, scs_ExpiresAt = formatTimestamp expiresAtMS, scs_FirstPageToken = pg_token (hd pages)\<rparr>);
         (metadataBytes, ok) = snapshotMetadataBytes snapshotID deviceID (rq_RequestID call) createBody pages references in
     bindT (guardT (ok \<and> metadataBytes \<le> available) limitExceeded) (\<lambda>_.
     bindT (execDB (insert_snapshots \<lparr>sn_snapshot_id = CText snapshotID, sn_owner_device_id = CText deviceID,
              sn_request_id = CText (rq_RequestID call), sn_request_fingerprint = CBlob fingerprint,
              sn_cut_cursor = uint64_cell serverCursor, sn_envelope_generation = uint64_cell envelopeGeneration,
              sn_collection_generation = uint64_cell collectionGeneration, sn_expires_at_ms = expiresAtMS,
              sn_metadata_bytes = metadataBytes, sn_create_response_json = CBlob createBody\<rparr>)) (\<lambda>_.
     bindT (insertSnapshotRows snapshotID pages references) (\<lambda>_.
     bindT (readT (\<lambda>s. case find (\<lambda>y. ds_device_id y = CText deviceID) (t_device_sync_state s) of
               None \<Rightarrow> Inl internal_error
             | Some y \<Rightarrow> optR internal_error (scan_uint64 (ds_max_returned_cursor y)))) (\<lambda>maxReturned.
     bindT (updateDB (raiseReturned deviceID maxReturned serverCursor)) (\<lambda>_.
     returnT (Commit \<lparr>rs_Status = 201, rs_Body = createBody, rs_Headers = []\<rparr> None)))))))))))"

text \<open>The lease of a committed snapshot starts at the request.\<close>

definition keepLease :: "bytes \<Rightarrow> time \<Rightarrow> api_response api_result \<times> Store \<Rightarrow> api_response api_result \<times> Store" where
  "keepLease snapshotID deadline r =
     (case r of
        (Inl err, store) \<Rightarrow> (Inl err, store\<lparr>st_ephemeral := forgetDeadlines [snapshotID] (st_ephemeral store)\<rparr>)
      | (Inr response, store) \<Rightarrow>
         (Inr response, store\<lparr>st_ephemeral := (st_ephemeral store)\<lparr>snapshotDeadlines :=
            AList.update snapshotID deadline (snapshotDeadlines (st_ephemeral store))\<rparr>\<rparr>))"

definition handleCreateSnapshot :: "io \<Rightarrow> api_request \<Rightarrow> Store \<Rightarrow> api_response api_result \<times> Store" where
  "handleCreateSnapshot io call store =
     (case decodeStrict T_snapshotCreateRequest (rq_Body call) of
        None \<Rightarrow> (Inl invalid_request, store)
      | Some g \<Rightarrow> let request = of_snapshotCreateRequest g; identity = st_identity store in
     if scq_ProtocolVersion request \<noteq> ''1'' \<or> \<not> validateUUID (scq_DeviceID request) \<or> \<not> validateUUID (scq_RequestID request)
        \<or> scq_RequestID request \<noteq> rq_RequestID call then (Inl invalid_request, store)
     else if scq_RequiredCapabilities request \<noteq> requiredSnapshotCapabilities then (Inl (NewError ''unsupported_capability'' False), store)
     else runPhase io store (createSnapshotFirst identity call request) (\<lambda>(deviceID, fingerprint) s.
       case admitSnapshotAttempt deviceID (rq_Now call) (st_ephemeral store) of
         (Inl err, e) \<Rightarrow> (Inl err, store\<lparr>st_ephemeral := e\<rparr>)
       | (Inr _, e) \<Rightarrow>
          (case expiredSnapshots e (rq_Now call) s of
             Inl err \<Rightarrow> (Inl err, store\<lparr>st_ephemeral := e\<rparr>)
           | Inr expired \<Rightarrow>
              let snapshotID = generateUUID (io_rand io 0);
                  store' = store\<lparr>st_ephemeral := forgetDeadlines expired e\<rparr>
              in case createSnapshotRest io identity call snapshotID deviceID fingerprint expired s of
                   Inl err \<Rightarrow> (Inl err, store')
                 | Inr (outcome, s') \<Rightarrow>
                     keepLease snapshotID (rq_Now call + snapshotLifetime) (finishTx io store' (Inr (outcome, s'))))))"

section \<open>Reading a page\<close>

definition loadSnapshotRevision :: "bytes \<Rightarrow> db \<Rightarrow> bytes \<Rightarrow> recordRevision api_result" where
  "loadSnapshotRevision snapshotID s revisionID =
     (case find (\<lambda>f. sf_snapshot_id f = CText snapshotID \<and> sf_revision_id f = CText revisionID) (t_snapshot_revision_refs s) of
        None \<Rightarrow> Inl internal_error
      | Some f \<Rightarrow>
     (case find (\<lambda>ob. ro_content_hash ob = sf_content_hash f) (t_revision_objects s) of
        None \<Rightarrow> Inl internal_error
      | Some ob \<Rightarrow>
     (case (scan_body maxBodyBytes (ro_revision_json ob), scan_blob 32 (ro_content_hash ob), scan_blob 32 (sf_content_hash f)) of
        (Some body, Some storedHash, Some referencedHash) \<Rightarrow>
          if \<not> VerifyHash storedHash referencedHash then Inl internal_error
          else (case json_Unmarshal T_recordRevision body of
             None \<Rightarrow> Inl internal_error
           | Some g \<Rightarrow>
              if marshalJSON g \<noteq> Some body \<or> \<not> VerifyHash storedHash (sha256 body)
                 \<or> validateRevision (of_recordRevision g) = None \<or> rr_RevisionID (of_recordRevision g) \<noteq> revisionID
              then Inl internal_error else Inr (of_recordRevision g))
      | _ \<Rightarrow> Inl internal_error)))"

definition leaseOwner :: "bytes \<Rightarrow> bytes \<Rightarrow> ephemeralState \<Rightarrow> time \<Rightarrow> db \<Rightarrow> (uint64 \<times> uint64) api_result" where
  "leaseOwner snapshotID deviceID e now s =
     (case find (\<lambda>n. sn_snapshot_id n = CText snapshotID) (t_snapshots s) of
        None \<Rightarrow> Inl (NewError ''snapshot_not_found'' False)
      | Some n \<Rightarrow>
     (case (scan_uuid (sn_owner_device_id n), scan_uint64 (sn_cut_cursor n), scan_uint64 (sn_envelope_generation n)) of
        (Some owner, Some cutCursor, Some envelopeGeneration) \<Rightarrow>
          if owner \<noteq> deviceID then Inl (NewError ''snapshot_not_found'' False)
          else if (case map_of (snapshotDeadlines e) snapshotID of None \<Rightarrow> True | Some deadline \<Rightarrow> deadline \<le> now)
          then Inl (NewError ''snapshot_expired'' False)
          else Inr (cutCursor, envelopeGeneration)
      | _ \<Rightarrow> Inl internal_error))"

definition snapshotPageBody :: "bytes \<Rightarrow> bytes \<Rightarrow> uint64 \<Rightarrow> uint64 \<Rightarrow> db \<Rightarrow> bytes api_result" where
  "snapshotPageBody snapshotID pageToken cutCursor envelopeGeneration s =
     (case find (\<lambda>g. sg_snapshot_id g = CText snapshotID \<and> sg_page_token g = CText pageToken) (t_snapshot_pages s) of
        None \<Rightarrow> Inl invalid_request
      | Some row \<Rightarrow>
     (case scan_body maxBodyBytes (sg_response_json row) of
        None \<Rightarrow> Inl internal_error
      | Some descriptorBody \<Rightarrow>
     (case decodeStoredSnapshotPageDescriptor descriptorBody of
        None \<Rightarrow> Inl internal_error
      | Some d \<Rightarrow>
         bindR (mapR (loadSnapshotRevision snapshotID s) (sp_RevisionIDs d)) (\<lambda>revisions.
           let body = marshal (pageResponse snapshotID cutCursor envelopeGeneration (Some revisions) d)
           in if maxBodyBytes < length body then Inl internal_error else Inr body))))"

definition handleSnapshotPage :: "io \<Rightarrow> api_request \<Rightarrow> bytes \<Rightarrow> Store \<Rightarrow> api_response api_result \<times> Store" where
  "handleSnapshotPage io call snapshotID store =
     (case decodeStrict T_snapshotPageRequest (rq_Body call) of
        None \<Rightarrow> (Inl invalid_request, store)
      | Some g \<Rightarrow> let request = of_snapshotPageRequest g in
     if spq_ProtocolVersion request \<noteq> ''1'' \<or> \<not> validateUUID (spq_DeviceID request)
        \<or> decodeBase64 (spq_PageToken request) 32 0 0 = None then (Inl invalid_request, store)
     else runTx io store
       (bindT (readT (authenticate (st_identity store) (rq_Authorization call) ''sync:read'')) (\<lambda>authenticated.
        bindT (guardT (da_DeviceID authenticated = spq_DeviceID request) (NewError ''authenticated_device_mismatch'' False)) (\<lambda>_.
        bindT (readT (leaseOwner snapshotID (da_DeviceID authenticated) (st_ephemeral store) (rq_Now call))) (\<lambda>(cutCursor, envelopeGeneration).
        bindT (readT (snapshotPageBody snapshotID (spq_PageToken request) cutCursor envelopeGeneration)) (\<lambda>body.
        returnT (Rollback (response200 body))))))))"

end
