(* ===== verification/Validation.thy ===== *)
theory Validation
  imports Snapshot
begin

text \<open>
  Startup validation, \<^verbatim>\<open>store/validation.go\<close>: before a store is served every table is streamed and each row
  is checked on its own, against the rows it refers to and against the history it belongs to. A check
  that fails gives \<^verbatim>\<open>ErrUnexpectedSchema\<close> with a detail for the log, which is \<open>None\<close> (or \<open>False\<close>) here.
  A \<^verbatim>\<open>LEFT JOIN\<close> on a key column finds at most one row (\<open>join_on\<close>), and the columns of a missing row read
  as NULL (\<open>joined\<close>). Snapshots are in \<open>SnapshotValidation\<close>.
\<close>

section \<open>The runtime row\<close>

definition scan_empty_or_uuid :: "cell \<Rightarrow> bytes option" where
  "scan_empty_or_uuid c =
     (case c of CText s \<Rightarrow> if length s = 0 \<or> length s = maxUUIDBytes \<and> validateUUID s then Some s else None | _ \<Rightarrow> None)"

definition validatePersistentRuntime :: "db \<Rightarrow> (uint64 \<times> uint64 \<times> uint64 \<times> uint64) option" where
  "validatePersistentRuntime s =
     (let rt = t_runtime_state s in
      case (scan_uint64 (rt_server_cursor rt), scan_uint64 (rt_cursor_floor rt), scan_uint64 (rt_envelope_generation rt),
            scan_uint64 (rt_instance_secret_generation rt)) of
        (Some cursor, Some floor, Some envelope, Some secret) \<Rightarrow>
     (case (scan_uint64 (rt_collection_generation rt), scan_uint64 (rt_accumulated_uptime_ms rt),
            scan_opt_blob 16 (rt_active_boot_id rt), scan_empty_or_uuid (rt_collection_scan_after_record_id rt)) of
        (Some collection, Some uptime, Some activeBoot, Some scanAfter) \<Rightarrow>
          if cursor < floor \<or> secret = 0 then None else Some (cursor, envelope, secret, collection)
      | _ \<Rightarrow> None)
      | _ \<Rightarrow> None)"

section \<open>Devices\<close>

record validatedDeviceRow =
  vd_createdAt :: int
  vd_createdCursor :: uint64
  vd_revokedCursor :: uint64
  vd_revoked :: bool
  vd_revokedAt :: int
  vd_baselineRevoked :: bool
  vd_maxCounter :: uint64
  vd_ackCursor :: uint64
  vd_maxReturned :: uint64

type_synonym validatedDevices = "(bytes \<times> validatedDeviceRow) list"

definition scan_opt_uint64 :: "cell \<Rightarrow> uint64 option option" where
  "scan_opt_uint64 c =
     (case scan_opt_blob 8 c of
        None \<Rightarrow> None
      | Some None \<Rightarrow> Some None
      | Some (Some b) \<Rightarrow> (case DecodeUint64 b of None \<Rightarrow> None | Some v \<Rightarrow> Some (Some v)))"

definition orZero :: "uint64 option \<Rightarrow> uint64" where
  "orZero v = (case v of None \<Rightarrow> 0 | Some x \<Rightarrow> x)"

definition scan_origin_kind :: "cell \<Rightarrow> bytes option" where
  "scan_origin_kind c =
     (let len = octet_length c;
          value = (if c = CText ''baseline'' \<or> c = CText ''enrolled'' then cell_bytes c else None)
      in if boundedOptionalText len value 8 \<and> len = Some 8 then value else None)"

text \<open>A stored time after the creation of the device that \<^verbatim>\<open>formatTimestamp\<close> prints as a valid timestamp.\<close>

definition later_time :: "int \<Rightarrow> int option \<Rightarrow> bool" where
  "later_time createdAt v = (case v of None \<Rightarrow> True | Some t \<Rightarrow> createdAt \<le> t \<and> validateTimestamp (formatTimestamp t))"

definition device_cursors_ok :: "uint64 \<Rightarrow> bytes \<Rightarrow> uint64 option \<Rightarrow> uint64 option \<Rightarrow> int \<Rightarrow> int option \<Rightarrow> uint64 \<Rightarrow> uint64 \<Rightarrow> bool" where
  "device_cursors_ok serverCursor originKind created revoked baselineRevoked revokedAt ack returned \<longleftrightarrow>
     (originKind = ''enrolled'') = (created \<noteq> None)
     \<and> (created = None \<or> orZero created \<noteq> 0 \<and> orZero created \<le> serverCursor)
     \<and> (revoked = None \<or> orZero revoked \<noteq> 0 \<and> orZero revoked \<le> serverCursor \<and> orZero created < orZero revoked)
     \<and> (originKind = ''enrolled'' \<longrightarrow> baselineRevoked = 0)
     \<and> (baselineRevoked = 1 \<longrightarrow> revokedAt \<noteq> None)
     \<and> (revoked \<noteq> None) = (revokedAt \<noteq> None \<and> baselineRevoked = 0)
     \<and> ack \<le> returned \<and> returned \<le> serverCursor"

definition scanDeviceRow :: "uint64 \<Rightarrow> db \<Rightarrow> devices_row \<Rightarrow> (bytes \<times> validatedDeviceRow) option" where
  "scanDeviceRow serverCursor s d =
     (let st = join_on ds_device_id (d_device_id d) (t_device_sync_state s);
          og = join_on do_device_id (d_device_id d) (t_device_origins s)
      in
      case (scan_uuid (d_device_id d), scan_blob 32 (d_token_hash d), scan_text (length wantScopes) (d_scopes_json d),
            scan_origin_kind (joined do_origin_kind og), og) of
        (Some deviceID, Some tokenHash, Some scopes, Some originKind, Some origin) \<Rightarrow>
     (case (scan_opt_uint64 (do_created_cursor origin), scan_opt_uint64 (do_revoked_cursor origin), scan_uint64 (d_last_ack_cursor d),
            scan_uint64 (d_max_author_counter d), scan_uint64 (joined ds_max_returned_cursor st)) of
        (Some created, Some revoked, Some ack, Some counter, Some returned) \<Rightarrow>
          if scopes \<noteq> wantScopes \<or> do_baseline_revoked origin < 0 \<or> 1 < do_baseline_revoked origin
             \<or> \<not> validateTimestamp (formatTimestamp (d_created_at_ms d))
             \<or> \<not> later_time (d_created_at_ms d) (d_revoked_at_ms d) \<or> \<not> later_time (d_created_at_ms d) (d_last_sync_at_ms d)
             \<or> \<not> device_cursors_ok serverCursor originKind created revoked (do_baseline_revoked origin) (d_revoked_at_ms d) ack returned
          then None
          else Some (deviceID,
            \<lparr>vd_createdAt = d_created_at_ms d, vd_createdCursor = orZero created, vd_revokedCursor = orZero revoked,
             vd_revoked = (d_revoked_at_ms d \<noteq> None), vd_revokedAt = (case d_revoked_at_ms d of None \<Rightarrow> 0 | Some t \<Rightarrow> t),
             vd_baselineRevoked = (do_baseline_revoked origin = 1), vd_maxCounter = counter, vd_ackCursor = ack, vd_maxReturned = returned\<rparr>)
      | _ \<Rightarrow> None)
      | _ \<Rightarrow> None)"

fun walkDevices :: "uint64 \<Rightarrow> db \<Rightarrow> bytes \<Rightarrow> validatedDevices \<Rightarrow> devices_row list \<Rightarrow> validatedDevices option" where
  "walkDevices serverCursor s previous result [] = Some result"
| "walkDevices serverCursor s previous result (d # rest) =
     (case scanDeviceRow serverCursor s d of
        None \<Rightarrow> None
      | Some (deviceID, row) \<Rightarrow>
         if previous \<noteq> [] \<and> deviceID \<le> previous then None
         else if 64 < length (result @ [(deviceID, row)]) then None
         else walkDevices serverCursor s deviceID (result @ [(deviceID, row)]) rest)"

definition validatePersistentDevices :: "uint64 \<Rightarrow> db \<Rightarrow> validatedDevices option" where
  "validatePersistentDevices serverCursor s =
     (case walkDevices serverCursor s [] [] (take 65 (sql_query d_device_id (\<lambda>_. True) (t_devices s))) of
        None \<Rightarrow> None
      | Some result \<Rightarrow>
         if list_all (\<lambda>x. join_on d_device_id (ds_device_id x) (t_devices s) \<noteq> None) (t_device_sync_state s)
            \<and> list_all (\<lambda>x. join_on d_device_id (do_device_id x) (t_devices s) \<noteq> None) (t_device_origins s)
         then Some result else None)"

definition validateReadinessDevices :: "uint64 \<Rightarrow> db \<Rightarrow> bool" where
  "validateReadinessDevices serverCursor s \<longleftrightarrow>
     (let rows = take 65 (sql_query d_device_id (\<lambda>_. True) (t_devices s))
      in list_all (\<lambda>d. scanDeviceRow serverCursor s d \<noteq> None) rows \<and> length rows \<le> 64)"

text \<open>A lookup \<^verbatim>\<open>devices[id]\<close> in the Go map: the zero row for a key that is not there.\<close>

definition deviceExists :: "validatedDevices \<Rightarrow> bytes \<Rightarrow> bool" where
  "deviceExists devices deviceID \<longleftrightarrow> map_of devices deviceID \<noteq> None"

definition maxCounterOf :: "validatedDevices \<Rightarrow> bytes \<Rightarrow> uint64" where
  "maxCounterOf devices deviceID = (case map_of devices deviceID of None \<Rightarrow> 0 | Some row \<Rightarrow> vd_maxCounter row)"

section \<open>Content objects\<close>

definition revision_object_ok :: "revision_objects_row \<Rightarrow> bool" where
  "revision_object_ok ob =
     (case (scan_blob 32 (ro_content_hash ob), scan_body maxBodyBytes (ro_revision_json ob)) of
        (Some hash, Some body) \<Rightarrow>
          (case decodeStoredCanonical T_recordRevision body of
             None \<Rightarrow> False
           | Some g \<Rightarrow> sha256 body = hash \<and> validateRevision (of_recordRevision g) \<noteq> None)
      | _ \<Rightarrow> False)"

definition validatePersistentRevisionObjects :: "db \<Rightarrow> bool" where
  "validatePersistentRevisionObjects s \<longleftrightarrow>
     list_all revision_object_ok (sql_query ro_content_hash (\<lambda>_. True) (t_revision_objects s))"

definition validatePersistentObjectReferences :: "db \<Rightarrow> bool" where
  "validatePersistentObjectReferences s \<longleftrightarrow>
     list_all (\<lambda>ob. list_ex (\<lambda>r. rv_retained r = 1 \<and> same (rv_content_hash r) (ro_content_hash ob)) (t_record_revisions s)
                    \<or> list_ex (\<lambda>f. same (sf_content_hash f) (ro_content_hash ob)) (t_snapshot_revision_refs s))
       (t_revision_objects s)"

section \<open>Author counters and the cursor floor\<close>

record historyState =
  hs_seenAuthors :: "bytes list"
  hs_currentAuthor :: bytes
  hs_lastCounter :: uint64
  hs_maxCollectedCursor :: uint64

definition finishAuthor :: "validatedDevices \<Rightarrow> historyState \<Rightarrow> bool" where
  "finishAuthor devices st \<longleftrightarrow> hs_currentAuthor st = [] \<or> maxCounterOf devices (hs_currentAuthor st) = hs_lastCounter st"

definition historyRow :: "validatedDevices \<Rightarrow> historyState \<Rightarrow> record_revisions_row \<Rightarrow> historyState option" where
  "historyRow devices st r =
     (case (scan_uuid (rv_author_device_id r), scan_uint64 (rv_author_counter r), scan_uint64 (rv_change_cursor r)) of
        (Some authorID, Some counter, Some cursor) \<Rightarrow>
          if rv_retained r < 0 \<or> 1 < rv_retained r \<or> \<not> deviceExists devices authorID then None
          else if authorID \<noteq> hs_currentAuthor st \<and> \<not> finishAuthor devices st then None
          else
            let lastCounter = (if authorID = hs_currentAuthor st then hs_lastCounter st else 0);
                seenAuthors = (if authorID = hs_currentAuthor st then hs_seenAuthors st else List.insert authorID (hs_seenAuthors st))
            in if counter = 0 \<or> cursor = 0 \<or> lastCounter = - 1 \<or> counter \<noteq> lastCounter + 1 then None
               else Some \<lparr>hs_seenAuthors = seenAuthors, hs_currentAuthor = authorID, hs_lastCounter = counter,
                  hs_maxCollectedCursor = (if rv_retained r = 0 \<and> hs_maxCollectedCursor st < cursor then cursor else hs_maxCollectedCursor st)\<rparr>
      | _ \<Rightarrow> None)"

fun walkHistory :: "validatedDevices \<Rightarrow> historyState \<Rightarrow> record_revisions_row list \<Rightarrow> historyState option" where
  "walkHistory devices st [] = Some st"
| "walkHistory devices st (r # rest) = (case historyRow devices st r of None \<Rightarrow> None | Some st' \<Rightarrow> walkHistory devices st' rest)"

definition emptyHistory :: historyState where
  "emptyHistory = \<lparr>hs_seenAuthors = [], hs_currentAuthor = [], hs_lastCounter = 0, hs_maxCollectedCursor = 0\<rparr>"

definition validatePersistentHistorySequence :: "validatedDevices \<Rightarrow> db \<Rightarrow> bool" where
  "validatePersistentHistorySequence devices s =
     (case walkHistory devices emptyHistory
             (sql_query (\<lambda>r. (rv_author_device_id r, rv_author_counter r)) (\<lambda>_. True) (t_record_revisions s)) of
        None \<Rightarrow> False
      | Some st \<Rightarrow>
         finishAuthor devices st
         \<and> list_all (\<lambda>(deviceID, row). deviceID \<in> set (hs_seenAuthors st) \<or> vd_maxCounter row = 0) devices
         \<and> scan_uint64 (rt_cursor_floor (t_runtime_state s)) = Some (hs_maxCollectedCursor st))"

section \<open>Revisions\<close>

text \<open>A counter of the registry bounds what a vector may claim, from the cursor the device was created at.\<close>

definition registry_covers :: "validatedDevices \<Rightarrow> uint64 \<Rightarrow> bytes \<times> uint64 \<Rightarrow> bool" where
  "registry_covers devices cursor p =
     (case map_of devices (fst p) of
        None \<Rightarrow> False
      | Some row \<Rightarrow> (vd_createdCursor row = 0 \<or> vd_createdCursor row < cursor) \<and> snd p \<le> vd_maxCounter row)"

record scannedRevision =
  xr_revisionID :: bytes
  xr_recordID :: bytes
  xr_authorID :: bytes
  xr_counter :: uint64
  xr_entries :: "vectorEntry list"
  xr_vector :: vector
  xr_retained :: bool
  xr_undominated :: bool

definition revision_flags_ok :: "record_revisions_row \<Rightarrow> bool" where
  "revision_flags_ok r \<longleftrightarrow>
     0 \<le> rv_tombstone r \<and> rv_tombstone r \<le> 1 \<and> 0 \<le> rv_retained r \<and> rv_retained r \<le> 1
     \<and> 0 \<le> rv_undominated r \<and> rv_undominated r \<le> 1 \<and> (rv_retained r = 0 \<longrightarrow> rv_undominated r = 0)
     \<and> validateTimestamp (formatTimestamp (rv_received_at_ms r))"

definition revision_origins_ok :: "db \<Rightarrow> record_revisions_row \<Rightarrow> bool" where
  "revision_origins_ok s r \<longleftrightarrow>
     (case (scan_blob 8 (rv_accepted_uptime_ms r),
            scan_blob 8 (joined ao_accepted_uptime_ms (join_on ao_revision_id (rv_revision_id r) (t_revision_acceptance_origins s)))) of
        (Some uptime, Some originUptime) \<Rightarrow> uptime = originUptime \<and> DecodeUint64 uptime \<noteq> None | _ \<Rightarrow> False)
     \<and> joined co_kind (join_on co_cursor (rv_change_cursor r) (t_change_origins s)) = CText ''record_revision''"

definition collected_ok :: "uint64 \<Rightarrow> record_revisions_row \<Rightarrow> bool" where
  "collected_ok collectionGeneration r =
     (case scan_opt_uint64 (rv_collected_generation r) of
        None \<Rightarrow> False
      | Some collected \<Rightarrow>
         (rv_retained r = 0) = (collected \<noteq> None)
         \<and> (collected = None \<or> orZero collected \<noteq> 0 \<and> orZero collected \<le> collectionGeneration))"

definition bodyWitness :: "recordRevision \<Rightarrow> bytes" where
  "bodyWitness b =
     (case rr_CollectionWitnessAuthenticator b of
        None \<Rightarrow> [] | Some a \<Rightarrow> (case decodeBase64 a 32 0 0 of None \<Rightarrow> [] | Some w \<Rightarrow> w))"

definition matchingChange :: "db \<Rightarrow> record_revisions_row \<Rightarrow> changes_row option" where
  "matchingChange s r =
     find (\<lambda>c. same (cg_cursor c) (rv_change_cursor r) \<and> same (cg_kind c) (CText ''record_revision'')
               \<and> same (cg_record_revision_id c) (rv_revision_id r)) (t_changes s)"

definition body_matches :: "record_revisions_row \<Rightarrow> scannedRevision \<Rightarrow> bytes \<Rightarrow> bytes option \<Rightarrow> bytes \<Rightarrow> bool" where
  "body_matches r x hash witness body =
     (case decodeStoredCanonical T_recordRevision body of
        None \<Rightarrow> False
      | Some g \<Rightarrow>
         let b = of_recordRevision g
         in rr_RevisionID b = xr_revisionID x \<and> rr_RecordID b = xr_recordID x \<and> rr_AuthorDeviceID b = xr_authorID x
            \<and> rr_AuthorCounter b = encodeUint64Text (xr_counter x) \<and> rr_VersionVector b = xr_entries x
            \<and> rr_Tombstone b = (rv_tombstone r = 1) \<and> sha256 body = hash
            \<and> bodyWitness b = (case witness of None \<Rightarrow> [] | Some w \<Rightarrow> w))"

definition object_matches :: "db \<Rightarrow> record_revisions_row \<Rightarrow> scannedRevision \<Rightarrow> bytes \<Rightarrow> bytes option \<Rightarrow> bool" where
  "object_matches s r x hash witness =
     (case (scan_opt_body maxBodyBytes (joined ro_revision_json (join_on ro_content_hash (rv_content_hash r) (t_revision_objects s))),
            scan_opt_blob 8 (joined cg_cursor (matchingChange s r))) of
        (Some objectBody, Some change) \<Rightarrow>
          (rv_retained r = 1 \<longrightarrow> objectBody \<noteq> None \<and> change \<noteq> None) \<and> (rv_retained r = 0 \<longrightarrow> change = None)
          \<and> (case objectBody of None \<Rightarrow> True | Some body \<Rightarrow> body_matches r x hash witness body)
      | _ \<Rightarrow> False)"

definition scanRevisionRow ::
  "validatedDevices \<Rightarrow> uint64 \<Rightarrow> uint64 \<Rightarrow> db \<Rightarrow> record_revisions_row \<Rightarrow> scannedRevision option" where
  "scanRevisionRow devices serverCursor collectionGeneration s r =
     (case (scan_uuid (rv_revision_id r), scan_uuid (rv_record_id r), scan_uuid (rv_author_device_id r),
            scan_uint64 (rv_author_counter r), scan_body maxVectorBytes (rv_vector_json r)) of
        (Some revisionID, Some recordID, Some authorID, Some counter, Some vectorBody) \<Rightarrow>
     (case (scan_opt_blob 32 (rv_collection_witness_authenticator r), scan_blob 32 (rv_content_hash r),
            scan_uint64 (rv_change_cursor r), unmarshalVector vectorBody) of
        (Some witness, Some hash, Some cursor, Some entries) \<Rightarrow>
     (case validateVector entries of
        None \<Rightarrow> None
      | Some vec \<Rightarrow>
         let x = \<lparr>xr_revisionID = revisionID, xr_recordID = recordID, xr_authorID = authorID, xr_counter = counter,
                  xr_entries = entries, xr_vector = vec, xr_retained = (rv_retained r = 1), xr_undominated = (rv_undominated r = 1)\<rparr>
         in if revision_flags_ok r \<and> revision_origins_ok s r \<and> cursor \<noteq> 0 \<and> cursor \<le> serverCursor
               \<and> collected_ok collectionGeneration r
               \<and> marshal (GSlice (Some (map to_vectorEntry entries))) = vectorBody \<and> vget vec authorID = counter
               \<and> registry_covers devices cursor (authorID, counter) \<and> list_all (registry_covers devices cursor) vec
               \<and> object_matches s r x hash witness
            then Some x else None)
      | _ \<Rightarrow> None)
      | _ \<Rightarrow> None)"

text \<open>
  Replaying the revisions of a record in cursor order rebuilds two frontiers: that of the whole history
  and that of the retained revisions, which must be the revisions flagged as undominated.
\<close>

definition advanceFrontier :: "(bytes \<times> vector) list \<Rightarrow> bytes \<Rightarrow> vector \<Rightarrow> (bytes \<times> vector) list option" where
  "advanceFrontier fr revisionID vec =
     (if list_ex (\<lambda>p. vectorsEqual (snd p) vec) fr then None
      else
        let dominated = list_ex (\<lambda>p. vectorDominates (snd p) vec) fr;
            next = filter (\<lambda>p. \<not> vectorDominates vec (snd p)) fr
        in if dominated then Some next
           else if 32 < length (next @ [(revisionID, vec)]) then None
           else Some (next @ [(revisionID, vec)]))"

record revisionWalk =
  rw_counters :: "(bytes \<times> uint64) list"
  rw_currentRecord :: bytes
  rw_historical :: "(bytes \<times> vector) list"
  rw_retained :: "(bytes \<times> vector) list"
  rw_storedHeads :: "bytes list"

definition flushFrontier :: "revisionWalk \<Rightarrow> bool" where
  "flushFrontier w \<longleftrightarrow>
     length (rw_retained w) = length (rw_storedHeads w) \<and> length (rw_retained w) \<le> 32
     \<and> list_all (\<lambda>p. fst p \<in> set (rw_storedHeads w)) (rw_retained w)"

definition enterRecord :: "bytes \<Rightarrow> revisionWalk \<Rightarrow> revisionWalk option" where
  "enterRecord recordID w =
     (if rw_currentRecord w = recordID then Some w
      else if rw_currentRecord w \<noteq> [] \<and> \<not> flushFrontier w then None
      else Some (w\<lparr>rw_currentRecord := recordID, rw_historical := [], rw_retained := [], rw_storedHeads := []\<rparr>))"

definition retainRevision :: "scannedRevision \<Rightarrow> revisionWalk \<Rightarrow> revisionWalk option" where
  "retainRevision x w =
     (if \<not> xr_retained x then Some w
      else case advanceFrontier (rw_retained w) (xr_revisionID x) (xr_vector x) of
        None \<Rightarrow> None
      | Some fr \<Rightarrow>
         let heads = (if xr_undominated x then List.insert (xr_revisionID x) (rw_storedHeads w) else rw_storedHeads w)
         in if xr_undominated x \<and> 32 < length heads then None
            else Some (w\<lparr>rw_retained := fr, rw_storedHeads := heads\<rparr>))"

definition countAuthor :: "scannedRevision \<Rightarrow> revisionWalk \<Rightarrow> revisionWalk" where
  "countAuthor x w =
     (if vget (rw_counters w) (xr_authorID x) < xr_counter x
      then w\<lparr>rw_counters := AList.update (xr_authorID x) (xr_counter x) (rw_counters w)\<rparr> else w)"

definition revisionStep :: "scannedRevision \<Rightarrow> revisionWalk \<Rightarrow> revisionWalk option" where
  "revisionStep x w =
     (case enterRecord (xr_recordID x) w of
        None \<Rightarrow> None
      | Some w1 \<Rightarrow>
         (case advanceFrontier (rw_historical w1) (xr_revisionID x) (xr_vector x) of
            None \<Rightarrow> None
          | Some fr \<Rightarrow> map_option (countAuthor x) (retainRevision x (w1\<lparr>rw_historical := fr\<rparr>))))"

fun walkRevisions ::
  "(record_revisions_row \<Rightarrow> scannedRevision option) \<Rightarrow> revisionWalk \<Rightarrow> record_revisions_row list \<Rightarrow> revisionWalk option" where
  "walkRevisions scan w [] = Some w"
| "walkRevisions scan w (r # rest) =
     (case scan r of
        None \<Rightarrow> None
      | Some x \<Rightarrow> (case revisionStep x w of None \<Rightarrow> None | Some w' \<Rightarrow> walkRevisions scan w' rest))"

definition advancePersistentCollectionGeneration :: "uint64 \<Rightarrow> uint64 \<Rightarrow> uint64 option" where
  "advancePersistentCollectionGeneration previous generation =
     (if generation = previous then Some previous
      else if previous = - 1 \<or> generation \<noteq> previous + 1 then None
      else Some generation)"

fun walkGenerations :: "uint64 \<Rightarrow> uint64 \<Rightarrow> cell list \<Rightarrow> uint64 option" where
  "walkGenerations collectionGeneration previous [] = Some previous"
| "walkGenerations collectionGeneration previous (c # rest) =
     (case scan_uint64 c of
        None \<Rightarrow> None
      | Some generation \<Rightarrow>
         if generation = 0 \<or> collectionGeneration < generation then None
         else (case advancePersistentCollectionGeneration previous generation of
            None \<Rightarrow> None
          | Some next \<Rightarrow> walkGenerations collectionGeneration next rest))"

definition validatePersistentCollectionGenerationSequence :: "uint64 \<Rightarrow> db \<Rightarrow> bool" where
  "validatePersistentCollectionGenerationSequence collectionGeneration s \<longleftrightarrow>
     walkGenerations collectionGeneration 0
       (map rv_collected_generation (sql_query rv_collected_generation (\<lambda>r. rv_collected_generation r \<noteq> CNull) (t_record_revisions s)))
     = Some collectionGeneration"

definition emptyWalk :: revisionWalk where
  "emptyWalk = \<lparr>rw_counters = [], rw_currentRecord = [], rw_historical = [], rw_retained = [], rw_storedHeads = []\<rparr>"

definition validatePersistentRevisions :: "validatedDevices \<Rightarrow> uint64 \<Rightarrow> uint64 \<Rightarrow> db \<Rightarrow> (bytes \<times> uint64) list option" where
  "validatePersistentRevisions devices serverCursor collectionGeneration s =
     (case walkRevisions (scanRevisionRow devices serverCursor collectionGeneration s) emptyWalk
             (sql_query (\<lambda>r. (rv_record_id r, rv_change_cursor r)) (\<lambda>_. True) (t_record_revisions s)) of
        None \<Rightarrow> None
      | Some w \<Rightarrow>
         if rw_currentRecord w \<noteq> [] \<and> \<not> flushFrontier w then None
         else if \<not> validatePersistentCollectionGenerationSequence collectionGeneration s then None
         else Some (rw_counters w))"

definition acceptance_origin_ok :: "db \<Rightarrow> revision_acceptance_origins_row \<Rightarrow> bool" where
  "acceptance_origin_ok s a =
     (let r = join_on rv_revision_id (ao_revision_id a) (t_record_revisions s) in
      case (scan_uuid (ao_revision_id a), scan_blob 8 (ao_accepted_uptime_ms a), scan_uuid (joined rv_revision_id r),
            scan_blob 8 (joined rv_accepted_uptime_ms r)) of
        (Some originRevisionID, Some originUptime, Some revisionID, Some revisionUptime) \<Rightarrow>
          DecodeUint64 originUptime \<noteq> None \<and> revisionID = originRevisionID \<and> revisionUptime = originUptime
      | _ \<Rightarrow> False)"

definition validatePersistentRevisionAcceptanceOrigins :: "db \<Rightarrow> bool" where
  "validatePersistentRevisionAcceptanceOrigins s \<longleftrightarrow>
     list_all (acceptance_origin_ok s) (sql_query ao_revision_id (\<lambda>_. True) (t_revision_acceptance_origins s))"

section \<open>Indexes and queues\<close>

definition record_head_ok :: "db \<Rightarrow> record_heads_row \<Rightarrow> bool" where
  "record_head_ok s h =
     (let r = join_on rv_revision_id (rh_revision_id h) (t_record_revisions s) in
      case (scan_uuid (rh_record_id h), scan_uuid (rh_revision_id h), scan_uuid (joined rv_record_id r), r) of
        (Some recordID, Some revisionID, Some revisionRecord, Some row) \<Rightarrow>
          revisionRecord = recordID \<and> rv_retained row = 1 \<and> rv_undominated row = 1
      | _ \<Rightarrow> False)"

fun walkHeads :: "db \<Rightarrow> cell \<Rightarrow> nat \<Rightarrow> record_heads_row list \<Rightarrow> bool" where
  "walkHeads s previousRecord countForRecord [] = True"
| "walkHeads s previousRecord countForRecord (h # rest) =
     (let count = Suc (if rh_record_id h = previousRecord then countForRecord else 0)
      in record_head_ok s h \<and> count \<le> 32 \<and> walkHeads s (rh_record_id h) count rest)"

definition validatePersistentRecordHeads :: "db \<Rightarrow> bool" where
  "validatePersistentRecordHeads s \<longleftrightarrow>
     walkHeads s (CText []) 0 (sql_query (\<lambda>h. (rh_record_id h, rh_revision_id h)) (\<lambda>_. True) (t_record_heads s))
     \<and> list_all (\<lambda>r. rv_retained r \<noteq> 1 \<or> rv_undominated r \<noteq> 1
          \<or> list_ex (\<lambda>h. same (rh_record_id h) (rv_record_id r) \<and> same (rh_revision_id h) (rv_revision_id r)) (t_record_heads s))
        (t_record_revisions s)"

definition scanVectorIndexRow :: "db \<Rightarrow> record_vector_index_row \<Rightarrow> (bytes \<times> bytes) option" where
  "scanVectorIndexRow s i =
     (let r = join_on rv_revision_id (vi_revision_id i) (t_record_revisions s) in
      case (scan_uuid (vi_record_id i), scan_blob 32 (vi_vector_hash i), scan_uuid (vi_revision_id i),
            scan_uuid (joined rv_record_id r), scan_body maxVectorBytes (joined rv_vector_json r)) of
        (Some recordID, Some vectorHash, Some revisionID, Some revisionRecord, Some vectorBody) \<Rightarrow>
          if revisionRecord = recordID \<and> sha256 vectorBody = vectorHash then Some (recordID, vectorHash) else None
      | _ \<Rightarrow> None)"

fun walkVectorIndex :: "db \<Rightarrow> (bytes \<times> bytes) option \<Rightarrow> record_vector_index_row list \<Rightarrow> bool" where
  "walkVectorIndex s previous [] = True"
| "walkVectorIndex s previous (i # rest) =
     (case scanVectorIndexRow s i of
        None \<Rightarrow> False
      | Some key \<Rightarrow> previous \<noteq> Some key \<and> walkVectorIndex s (Some key) rest)"

definition validatePersistentRecordVectorIndex :: "db \<Rightarrow> bool" where
  "validatePersistentRecordVectorIndex s \<longleftrightarrow>
     walkVectorIndex s None
       (sql_query (\<lambda>i. (vi_record_id i, vi_vector_hash i, vi_revision_id i)) (\<lambda>_. True) (t_record_vector_index s))
     \<and> list_all (\<lambda>r. list_ex (\<lambda>i. vi_record_id i = rv_record_id r \<and> vi_revision_id i = rv_revision_id r) (t_record_vector_index s))
        (t_record_revisions s)"

text \<open>The derived table \<^verbatim>\<open>SELECT record_id, max(change_cursor) FROM record_revisions GROUP BY record_id\<close>.\<close>

definition historicalMaximum :: "db \<Rightarrow> cell \<Rightarrow> (cell \<times> cell) option" where
  "historicalMaximum s recordID =
     (case filter (\<lambda>r. same (rv_record_id r) recordID) (t_record_revisions s) of
        [] \<Rightarrow> None
      | r # rest \<Rightarrow> Some (rv_record_id r, fold max (map rv_change_cursor rest) (rv_change_cursor r)))"

definition collection_record_ok :: "uint64 \<Rightarrow> db \<Rightarrow> collection_records_row \<Rightarrow> bool" where
  "collection_record_ok serverCursor s q =
     (case (scan_uuid (cr_record_id q), scan_uint64 (cr_barrier_cursor q), historicalMaximum s (cr_record_id q)) of
        (Some recordID, Some barrier, Some (historicalRecord, maximum)) \<Rightarrow>
          scan_uuid historicalRecord = Some recordID \<and> scan_uint64 maximum = Some barrier \<and> barrier \<noteq> 0 \<and> barrier \<le> serverCursor
      | _ \<Rightarrow> False)"

definition collection_candidate_ok :: "db \<Rightarrow> collection_candidates_row \<Rightarrow> bool" where
  "collection_candidate_ok s q =
     (let r = join_on rv_revision_id (cc_revision_id q) (t_record_revisions s);
          a = join_on ao_revision_id (cc_revision_id q) (t_revision_acceptance_origins s)
      in
      case (scan_uuid (cc_record_id q), scan_blob 8 (cc_accepted_uptime_ms q), scan_uuid (cc_revision_id q), r) of
        (Some recordID, Some uptime, Some revisionID, Some row) \<Rightarrow>
          DecodeUint64 uptime \<noteq> None \<and> scan_uuid (rv_record_id row) = Some recordID
          \<and> scan_blob 8 (rv_accepted_uptime_ms row) = Some uptime \<and> rv_retained row = 1
          \<and> scan_blob 8 (joined ao_accepted_uptime_ms a) = Some uptime
      | _ \<Rightarrow> False)"

definition validatePersistentCollectionQueues :: "uint64 \<Rightarrow> db \<Rightarrow> bool" where
  "validatePersistentCollectionQueues serverCursor s \<longleftrightarrow>
     list_all (collection_record_ok serverCursor s) (sql_query cr_record_id (\<lambda>_. True) (t_collection_records s))
     \<and> list_all (\<lambda>r. rv_retained r \<noteq> 1 \<or> list_ex (\<lambda>q. cr_record_id q = rv_record_id r) (t_collection_records s)) (t_record_revisions s)
     \<and> list_all (\<lambda>q. list_ex (\<lambda>r. same (rv_record_id r) (cr_record_id q) \<and> rv_retained r = 1) (t_record_revisions s)) (t_collection_records s)
     \<and> list_all (collection_candidate_ok s)
         (sql_query (\<lambda>q. (cc_record_id q, cc_accepted_uptime_ms q, cc_revision_id q)) (\<lambda>_. True) (t_collection_candidates s))
     \<and> list_all (\<lambda>r. rv_retained r \<noteq> 1
          \<or> list_ex (\<lambda>q. same (cc_revision_id q) (rv_revision_id r) \<and> same (cc_record_id q) (rv_record_id r)
               \<and> same (cc_accepted_uptime_ms q) (rv_accepted_uptime_ms r)) (t_collection_candidates s))
         (t_record_revisions s)"

section \<open>Collection markers\<close>

definition marker_row_ok :: "validatedDevices \<Rightarrow> uint64 \<Rightarrow> db \<Rightarrow> collection_markers_row \<Rightarrow> bool" where
  "marker_row_ok devices serverCursor s m =
     (let r = join_on rv_revision_id (mk_witness_revision_id m) (t_record_revisions s);
          c = join_on cg_cursor (mk_change_cursor m) (t_changes s)
      in
      case (scan_uuid (mk_record_id m), scan_uuid (mk_witness_revision_id m), scan_body maxVectorBytes (mk_frontier_json m),
            scan_blob 32 (mk_collection_witness_authenticator m), scan_uint64 (mk_barrier_cursor m)) of
        (Some recordID, Some witnessID, Some frontierBody, Some authenticator, Some barrier) \<Rightarrow>
     (case (scan_body maxBodyBytes (mk_marker_json m), scan_uint64 (mk_change_cursor m)) of
        (Some body, Some changeCursor) \<Rightarrow>
     (case decodeStoredCollectionMarker body of
        None \<Rightarrow> False
      | Some marker \<Rightarrow>
          cm_RecordID marker = recordID \<and> cm_WitnessRevisionID marker = witnessID
          \<and> marshal (GSlice (Some (map to_vectorEntry (cm_Frontier marker)))) = frontierBody
          \<and> decodeBase64 (cm_CollectionWitnessAuthenticator marker) 32 0 0 = Some authenticator
          \<and> cm_BarrierCursor marker = encodeUint64Text barrier
          \<and> barrier < changeCursor \<and> changeCursor \<le> serverCursor \<and> validateTimestamp (formatTimestamp (mk_received_at_ms m))
          \<and> scan_uuid (joined rv_record_id r) = Some recordID
          \<and> scan_opt_body maxVectorBytes (joined rv_vector_json r) = Some (Some frontierBody)
          \<and> scan_opt_blob 32 (joined rv_collection_witness_authenticator r) = Some (Some authenticator)
          \<and> joined cg_kind c = CText ''collection_marker''
          \<and> scan_opt_text maxUUIDBytes (joined cg_collection_marker_record_id c) = Some (Some recordID)
          \<and> scan_opt_blob_body maxBodyBytes (joined cg_collection_marker_json c) = Some (Some body)
          \<and> (case validateCollectionMarker marker of
               None \<Rightarrow> True
             | Some (claimed, _) \<Rightarrow>
                 list_all (\<lambda>(deviceID, counter). deviceExists devices deviceID \<and> counter \<le> maxCounterOf devices deviceID) claimed))
      | _ \<Rightarrow> False)
      | _ \<Rightarrow> False)"

definition validatePersistentMarkers :: "validatedDevices \<Rightarrow> uint64 \<Rightarrow> db \<Rightarrow> bool" where
  "validatePersistentMarkers devices serverCursor s \<longleftrightarrow>
     list_all (marker_row_ok devices serverCursor s) (sql_query mk_record_id (\<lambda>_. True) (t_collection_markers s))"

section \<open>Enrollment grants\<close>

definition enrollment_grant_ok :: "db \<Rightarrow> enrollment_grants_row \<Rightarrow> bool" where
  "enrollment_grant_ok s g =
     (let e = join_on en_enrollment_id (eg_consumed_enrollment_id g) (t_enrollments s) in
      case (scan_blob 32 (eg_grant_hash g), scan_blob 16 (eg_boot_id g), scan_opt_uuid (eg_consumed_enrollment_id g),
            scan_opt_uuid (joined en_enrollment_id e)) of
        (Some grantHash, Some boot, Some consumedID, Some matchedID) \<Rightarrow>
          validateTimestamp (formatTimestamp (eg_expires_at_ms g)) \<and> consumedID = matchedID
      | _ \<Rightarrow> False)"

definition validatePersistentEnrollmentGrants :: "db \<Rightarrow> bool" where
  "validatePersistentEnrollmentGrants s \<longleftrightarrow>
     list_all (enrollment_grant_ok s) (sql_query eg_grant_hash (\<lambda>_. True) (t_enrollment_grants s))"

section \<open>Changes\<close>

record changeWalk =
  cw_previous :: uint64
  cw_retainedCursor :: uint64
  cw_enrollmentChanges :: "bytes list"
  cw_revocationChanges :: "bytes list"

text \<open>The last column of \<^verbatim>\<open>persistentChangesValidationQuery\<close>: does the current marker at this cursor carry this body?\<close>

definition currentMarkerBodyState :: "changes_row \<Rightarrow> collection_markers_row option \<Rightarrow> int" where
  "currentMarkerBodyState c m =
     (case m of
        None \<Rightarrow> 0
      | Some row \<Rightarrow>
         if same (mk_change_cursor row) (cg_cursor c) then
           (if is_blob (mk_marker_json row)
               \<and> (case sql_length (mk_marker_json row) of None \<Rightarrow> False | Some n \<Rightarrow> 1 \<le> n \<and> n \<le> int maxBodyBytes)
               \<and> same (mk_marker_json row) (cg_collection_marker_json c) then 1 else - 1)
         else 0)"

definition revision_change_ok :: "db \<Rightarrow> changes_row \<Rightarrow> bytes option \<Rightarrow> bool" where
  "revision_change_ok s c revisionID =
     (case (revisionID, join_on rv_revision_id (cg_record_revision_id c) (t_record_revisions s)) of
        (Some i, Some r) \<Rightarrow> validateUUID i \<and> rv_retained r = 1
      | _ \<Rightarrow> False)"

definition marker_change_ok :: "db \<Rightarrow> changes_row \<Rightarrow> uint64 \<Rightarrow> bytes option \<Rightarrow> bytes option \<Rightarrow> bool" where
  "marker_change_ok s c cursor markerID markerBody =
     (let m = join_on mk_record_id (cg_collection_marker_record_id c) (t_collection_markers s) in
      case (markerID, markerBody, m, scan_opt_blob 8 (joined mk_change_cursor m)) of
        (Some i, Some body, Some row, Some (Some currentMarkerCursorBytes)) \<Rightarrow>
          (case (decodeStoredCollectionMarker body, DecodeUint64 currentMarkerCursorBytes) of
             (Some marker, Some currentMarkerCursor) \<Rightarrow>
               cm_RecordID marker = i \<and> cursor \<le> currentMarkerCursor
               \<and> currentMarkerBodyState c m = (if currentMarkerCursor = cursor then 1 else 0)
           | _ \<Rightarrow> False)
      | _ \<Rightarrow> False)"

definition deviceChange :: "validatedDevices \<Rightarrow> changes_row \<Rightarrow> uint64 \<Rightarrow> bytes option \<Rightarrow> bytes option \<Rightarrow> changeWalk \<Rightarrow> changeWalk option" where
  "deviceChange devices c cursor changedDeviceID deviceChangeKind w =
     (case (changedDeviceID, deviceChangeKind) of
        (Some i, Some kind) \<Rightarrow>
          (case map_of devices i of
             None \<Rightarrow> None
           | Some dev \<Rightarrow>
              if \<not> validateUUID i then None
              else if kind = ''enrolled'' then
                (if cursor \<noteq> vd_createdCursor dev \<or> cg_received_at_ms c \<noteq> vd_createdAt dev \<or> i \<in> set (cw_enrollmentChanges w) then None
                 else Some (w\<lparr>cw_enrollmentChanges := i # cw_enrollmentChanges w\<rparr>))
              else if kind = ''revoked'' then
                (if \<not> vd_revoked dev \<or> cg_received_at_ms c \<noteq> vd_revokedAt dev \<or> cursor \<le> vd_createdCursor dev
                    \<or> \<not> vd_baselineRevoked dev \<and> cursor \<noteq> vd_revokedCursor dev \<or> i \<in> set (cw_revocationChanges w) then None
                 else Some (w\<lparr>cw_revocationChanges := i # cw_revocationChanges w\<rparr>))
              else None)
      | _ \<Rightarrow> None)"

definition retainedStep :: "uint64 \<Rightarrow> uint64 \<Rightarrow> changeWalk \<Rightarrow> changeWalk option" where
  "retainedStep flr cursor w =
     (if flr < cursor then
        (if cw_retainedCursor w = - 1 \<or> cursor \<noteq> cw_retainedCursor w + 1 then None
         else Some (w\<lparr>cw_retainedCursor := cursor\<rparr>))
      else Some w)"

definition changeStep :: "validatedDevices \<Rightarrow> uint64 \<Rightarrow> uint64 \<Rightarrow> db \<Rightarrow> changes_row \<Rightarrow> changeWalk \<Rightarrow> changeWalk option" where
  "changeStep devices serverCursor flr s c w =
     (case (scan_uint64 (cg_cursor c), scan_kind (cg_kind c), scan_opt_text maxUUIDBytes (cg_record_revision_id c),
            scan_opt_text maxUUIDBytes (cg_collection_marker_record_id c), scan_opt_body maxBodyBytes (cg_collection_marker_json c)) of
        (Some cursor, Some kind, Some revisionID, Some markerID, Some markerBody) \<Rightarrow>
     (case (scan_opt_text maxUUIDBytes (cg_device_changed_id c), scan_device_change_kind (cg_device_change_kind c)) of
        (Some changedDeviceID, Some deviceChangeKind) \<Rightarrow>
          if joined co_kind (join_on co_cursor (cg_cursor c) (t_change_origins s)) \<noteq> CText kind then None
          else if scan_opt_blob 8 (joined mk_change_cursor (join_on mk_record_id (cg_collection_marker_record_id c) (t_collection_markers s))) = None then None
          else if cursor = 0 \<or> cursor \<le> cw_previous w \<or> serverCursor < cursor
                  \<or> \<not> validateTimestamp (formatTimestamp (cg_received_at_ms c)) then None
          else (case retainedStep flr cursor w of
             None \<Rightarrow> None
           | Some w1 \<Rightarrow>
              let w2 = w1\<lparr>cw_previous := cursor\<rparr> in
              if kind = ''record_revision'' then
                (if markerID = None \<and> markerBody = None \<and> changedDeviceID = None \<and> deviceChangeKind = None
                    \<and> revision_change_ok s c revisionID then Some w2 else None)
              else if kind = ''collection_marker'' then
                (if revisionID = None \<and> changedDeviceID = None \<and> deviceChangeKind = None
                    \<and> marker_change_ok s c cursor markerID markerBody then Some w2 else None)
              else if kind = ''envelope_changed'' then
                (if revisionID = None \<and> markerID = None \<and> markerBody = None \<and> changedDeviceID = None \<and> deviceChangeKind = None
                 then Some w2 else None)
              else
                (if revisionID = None \<and> markerID = None \<and> markerBody = None
                 then deviceChange devices c cursor changedDeviceID deviceChangeKind w2 else None))
      | _ \<Rightarrow> None)
      | _ \<Rightarrow> None)"

fun walkChanges :: "validatedDevices \<Rightarrow> uint64 \<Rightarrow> uint64 \<Rightarrow> db \<Rightarrow> changeWalk \<Rightarrow> changes_row list \<Rightarrow> changeWalk option" where
  "walkChanges devices serverCursor flr s w [] = Some w"
| "walkChanges devices serverCursor flr s w (c # rest) =
     (case changeStep devices serverCursor flr s c w of
        None \<Rightarrow> None
      | Some w' \<Rightarrow> walkChanges devices serverCursor flr s w' rest)"

definition validatePersistentChanges :: "validatedDevices \<Rightarrow> uint64 \<Rightarrow> db \<Rightarrow> bool" where
  "validatePersistentChanges devices serverCursor s =
     (case scan_uint64 (rt_cursor_floor (t_runtime_state s)) of
        None \<Rightarrow> False
      | Some flr \<Rightarrow>
         flr \<le> serverCursor
         \<and> (case walkChanges devices serverCursor flr s
                   \<lparr>cw_previous = 0, cw_retainedCursor = flr, cw_enrollmentChanges = [], cw_revocationChanges = []\<rparr>
                   (sql_query cg_cursor (\<lambda>_. True) (t_changes s)) of
              None \<Rightarrow> False
            | Some w \<Rightarrow>
               cw_retainedCursor w = serverCursor
               \<and> list_all (\<lambda>(deviceID, dev). (deviceID \<in> set (cw_enrollmentChanges w)) = (vd_createdCursor dev \<noteq> 0)
                    \<and> (deviceID \<in> set (cw_revocationChanges w)) = (vd_revoked dev \<and> \<not> vd_baselineRevoked dev)) devices))"

section \<open>Receipts\<close>

definition scan_operation :: "cell \<Rightarrow> bytes option" where
  "scan_operation c =
     (case c of CText operation \<Rightarrow> if 1 \<le> length operation \<and> length operation \<le> maxOperationBytes then Some operation else None
      | _ \<Rightarrow> None)"

definition operation_receipt_ok :: "Identity \<Rightarrow> validatedDevices \<Rightarrow> operation_receipts_row \<Rightarrow> bool" where
  "operation_receipt_ok identity devices r =
     (case (scan_uuid (or_device_id r), scan_operation (or_operation r), scan_uuid (or_request_id r),
            scan_blob 32 (or_request_fingerprint r), scan_body maxBodyBytes (or_response_json r)) of
        (Some deviceID, Some operation, Some requestID, Some fingerprint, Some body) \<Rightarrow>
          scan_uint64 (or_created_uptime_ms r) \<noteq> None \<and> deviceExists devices deviceID
          \<and> validateTimestamp (formatTimestamp (or_created_at_ms r))
          \<and> validateStoredOperationResponse operation (or_response_status r) body identity
      | _ \<Rightarrow> False)"

definition validatePersistentReceipts :: "Identity \<Rightarrow> validatedDevices \<Rightarrow> db \<Rightarrow> bool" where
  "validatePersistentReceipts identity devices s \<longleftrightarrow>
     list_all (operation_receipt_ok identity devices) (sql_query or_receipt_sequence (\<lambda>_. True) (t_operation_receipts s))"

definition receipt_retention_ok :: "db \<Rightarrow> operation_receipt_retention_row \<Rightarrow> bool" where
  "receipt_retention_ok s q =
     (case find (\<lambda>r. or_receipt_sequence r = ot_receipt_sequence q) (t_operation_receipts s) of
        None \<Rightarrow> False
      | Some r \<Rightarrow>
         (case (scan_uuid (ot_device_id q), scan_blob 8 (ot_created_uptime_ms q), scan_uuid (or_device_id r), scan_operation (or_operation r)) of
            (Some deviceID, Some uptime, Some receiptDevice, Some operation) \<Rightarrow>
              (ot_receipt_class q = CText ''sync'' \<or> ot_receipt_class q = CText ''other'') \<and> 0 < ot_receipt_sequence q
              \<and> DecodeUint64 uptime \<noteq> None \<and> receiptDevice = deviceID \<and> scan_blob 8 (or_created_uptime_ms r) = Some uptime
              \<and> (ot_receipt_class q = CText ''sync'') = (operation = ''sync'')
          | _ \<Rightarrow> False))"

definition validatePersistentReceiptRetention :: "db \<Rightarrow> bool" where
  "validatePersistentReceiptRetention s \<longleftrightarrow>
     list_all (receipt_retention_ok s)
       (sql_query (\<lambda>q. (ot_device_id q, ot_receipt_class q, ot_receipt_sequence q)) (\<lambda>_. True) (t_operation_receipt_retention s))
     \<and> list_all (\<lambda>r. list_ex (\<lambda>q. ot_receipt_sequence q = or_receipt_sequence r) (t_operation_receipt_retention s)) (t_operation_receipts s)"

section \<open>Enrollments, rotations and self-revocations\<close>

definition scanEnrollmentRow :: "Identity \<Rightarrow> validatedDevices \<Rightarrow> enrollments_row \<Rightarrow> bytes option" where
  "scanEnrollmentRow identity devices e =
     (case (scan_uuid (en_enrollment_id e), scan_uuid (en_device_id e), scan_uint64 (en_created_cursor e), scan_blob 32 (en_token_hash e),
            scan_text (length wantScopes) (en_scopes_json e)) of
        (Some enrollmentID, Some deviceID, Some createdCursor, Some tokenHash, Some scopes) \<Rightarrow>
     (case (scan_blob 32 (en_request_fingerprint e), scan_body maxBodyBytes (en_response_json e), map_of devices deviceID) of
        (Some fingerprint, Some body, Some row) \<Rightarrow>
          if scopes = wantScopes \<and> en_created_status e = 201 \<and> validateStoredEnrollmentResponse body identity deviceID
             \<and> createdCursor \<noteq> 0 \<and> vd_createdCursor row = createdCursor then Some deviceID else None
      | _ \<Rightarrow> None)
      | _ \<Rightarrow> None)"

definition token_rotation_ok :: "validatedDevices \<Rightarrow> token_rotations_row \<Rightarrow> bool" where
  "token_rotation_ok devices t =
     (case (scan_uuid (tr_rotation_id t), scan_uuid (tr_device_id t), scan_blob 32 (tr_old_token_hash t), scan_blob 32 (tr_new_token_hash t),
            scan_blob 32 (tr_request_fingerprint t)) of
        (Some rotationID, Some deviceID, Some oldHash, Some newHash, Some fingerprint) \<Rightarrow>
     (case scan_body maxBodyBytes (tr_response_json t) of
        None \<Rightarrow> False
      | Some body \<Rightarrow>
         deviceExists devices deviceID \<and> validateTimestamp (formatTimestamp (tr_created_at_ms t))
         \<and> (case decodeStoredCanonical T_device body of
              None \<Rightarrow> False
            | Some g \<Rightarrow> validateDevice (of_device g) \<and> dv_DeviceID (of_device g) = deviceID))
      | _ \<Rightarrow> False)"

definition self_revocation_ok :: "validatedDevices \<Rightarrow> self_revocation_receipts_row \<Rightarrow> bool" where
  "self_revocation_ok devices r =
     (case (scan_uuid (sv_device_id r), scan_uuid (sv_request_id r), scan_blob 32 (sv_body_fingerprint r),
            scan_blob 32 (sv_pre_revocation_token_hash r)) of
        (Some deviceID, Some requestID, Some fingerprint, Some tokenHash) \<Rightarrow>
     (case (scan_body maxBodyBytes (sv_response_headers_json r), scan_body maxBodyBytes (sv_response_json r), map_of devices deviceID) of
        (Some headersBody, Some body, Some row) \<Rightarrow>
     (case (json_Unmarshal T_headers headersBody, decodeStoredCanonical T_device body) of
        (Some h, Some g) \<Rightarrow>
          vd_revoked row \<and> sv_response_status r = 200 \<and> of_headers h = V1ResponseHeaders requestID (length body)
          \<and> marshalJSON h = Some headersBody
          \<and> validateDevice (of_device g) \<and> dv_DeviceID (of_device g) = deviceID \<and> dv_Status (of_device g) = ''revoked''
      | _ \<Rightarrow> False)
      | _ \<Rightarrow> False)
      | _ \<Rightarrow> False)"

definition validatePersistentEnrollmentsAndRotations :: "Identity \<Rightarrow> validatedDevices \<Rightarrow> db \<Rightarrow> bool" where
  "validatePersistentEnrollmentsAndRotations identity devices s =
     (let enrolled = map (scanEnrollmentRow identity devices) (sql_query en_enrollment_id (\<lambda>_. True) (t_enrollments s)) in
      None \<notin> set enrolled
      \<and> list_all (\<lambda>(deviceID, row). (Some deviceID \<in> set enrolled) = (vd_createdCursor row \<noteq> 0)) devices
      \<and> list_all (token_rotation_ok devices) (sql_query tr_rotation_id (\<lambda>_. True) (t_token_rotations s))
      \<and> list_all (self_revocation_ok devices) (sql_query sv_device_id (\<lambda>_. True) (t_self_revocation_receipts s)))"

end
