(* ===== verification/SnapshotValidation.thy ===== *)
theory SnapshotValidation
  imports Validation
begin

text \<open>
  \<^verbatim>\<open>validatePersistentSnapshots\<close> of \<^verbatim>\<open>store/validation.go\<close>, one definition per pass of the function: the
  snapshot rows, their create responses, the page rows and bodies, the chain and the order of the
  pages, the leased references, the reconstruction of the frontier and of the markers at the cut, and
  the exact metadata account. \<open>validatePersistentState\<close> composes all of the startup validation.
\<close>

section \<open>Snapshot rows\<close>

record validatedSnapshot =
  va_ownerID :: bytes
  va_requestID :: bytes
  va_cutCursor :: uint64
  va_envelopeGeneration :: uint64
  va_collectionGeneration :: uint64
  va_expiresAt :: int
  va_metadataBytes :: int
  va_createBodyLength :: int
  va_createBody :: bytes
  va_firstPageToken :: bytes
  va_pages :: "storedSnapshotPage list"
  va_pageBodyLengths :: "int list"
  va_references :: "snapshotRevisionReference list"
  va_referenceRecordIDs :: "(bytes \<times> bytes) list"
  va_sourceCounters :: "(bytes \<times> uint64) list"
  va_markerBodies :: "(bytes \<times> bytes) list"
  va_orderedRevisionIDs :: "bytes list"
  va_account :: snapshotMetadataAccounting

type_synonym validatedSnapshots = "(bytes \<times> validatedSnapshot) list"

definition within_account :: "snapshotMetadataAccounting \<Rightarrow> int \<Rightarrow> bool" where
  "within_account a metadataBytes \<longleftrightarrow> \<not> ac_overflow a \<and> ac_total a \<le> metadataBytes"

definition snapshot_row_ok :: "validatedDevices \<Rightarrow> uint64 \<Rightarrow> uint64 \<Rightarrow> bytes \<Rightarrow> uint64 \<Rightarrow> uint64 \<Rightarrow> bool" where
  "snapshot_row_ok devices serverCursor collectionGeneration ownerID cutCursor snapshotCollection =
     (case map_of devices ownerID of
        None \<Rightarrow> False
      | Some owner \<Rightarrow>
         cutCursor \<le> serverCursor \<and> snapshotCollection \<le> collectionGeneration
         \<and> (vd_createdCursor owner = 0 \<or> vd_createdCursor owner \<le> cutCursor))"

definition snapshotRow ::
  "validatedDevices \<Rightarrow> uint64 \<Rightarrow> uint64 \<Rightarrow> validatedSnapshots \<times> int \<Rightarrow> snapshots_row \<Rightarrow> (validatedSnapshots \<times> int) option" where
  "snapshotRow devices serverCursor collectionGeneration st row =
     (case (scan_uuid (sn_snapshot_id row), scan_uuid (sn_owner_device_id row), scan_uuid (sn_request_id row),
            scan_blob 32 (sn_request_fingerprint row), sql_length (sn_create_response_json row)) of
        (Some snapshotID, Some ownerID, Some requestID, Some fingerprint, Some createBodyLength) \<Rightarrow>
     (case (scan_uint64 (sn_cut_cursor row), scan_uint64 (sn_envelope_generation row), scan_uint64 (sn_collection_generation row)) of
        (Some cutCursor, Some generation, Some snapshotCollection) \<Rightarrow>
          let (snapshots, declaredMetadata) = st;
              metadataBytes = sn_metadata_bytes row;
              account = addLength64 createBodyLength (accountSnapshotBase snapshotID ownerID requestID [] emptyAccount)
          in if metadataBytes < 0 \<or> snapshotMetadataLimit < metadataBytes \<or> 8 \<le> length snapshots
                \<or> \<not> snapshot_row_ok devices serverCursor collectionGeneration ownerID cutCursor snapshotCollection
                \<or> createBodyLength \<le> 0 \<or> metadataBytes < createBodyLength \<or> int maxBodyBytes < createBodyLength
                \<or> snapshotMetadataLimit - declaredMetadata < metadataBytes
                \<or> \<not> within_account account metadataBytes
                \<or> list_ex (\<lambda>(_, v). va_ownerID v = ownerID) snapshots
             then None
             else Some (AList.update snapshotID
               \<lparr>va_ownerID = ownerID, va_requestID = requestID, va_cutCursor = cutCursor, va_envelopeGeneration = generation,
                va_collectionGeneration = snapshotCollection, va_expiresAt = sn_expires_at_ms row, va_metadataBytes = metadataBytes,
                va_createBodyLength = createBodyLength, va_createBody = [], va_firstPageToken = [], va_pages = [], va_pageBodyLengths = [],
                va_references = [], va_referenceRecordIDs = [], va_sourceCounters = [], va_markerBodies = [],
                va_orderedRevisionIDs = [], va_account = account\<rparr> snapshots, declaredMetadata + metadataBytes)
      | _ \<Rightarrow> None)
      | _ \<Rightarrow> None)"

text \<open>A loop over rows that updates the collected snapshots and stops at the first invalid row.\<close>

fun walkRows :: "('st \<Rightarrow> 'r \<Rightarrow> 'st option) \<Rightarrow> 'st \<Rightarrow> 'r list \<Rightarrow> 'st option" where
  "walkRows f st [] = Some st"
| "walkRows f st (r # rest) = (case f st r of None \<Rightarrow> None | Some st' \<Rightarrow> walkRows f st' rest)"

definition createRow :: "Identity \<Rightarrow> validatedSnapshots \<Rightarrow> snapshots_row \<Rightarrow> validatedSnapshots option" where
  "createRow identity snapshots row =
     (case (scan_uuid (sn_snapshot_id row), scan_body maxBodyBytes (sn_create_response_json row)) of
        (Some snapshotID, Some body) \<Rightarrow>
          (case map_of snapshots snapshotID of
             None \<Rightarrow> None
           | Some v \<Rightarrow>
              if int (length body) \<noteq> va_createBodyLength v
                 \<or> \<not> validateStoredSnapshotCreateResponse body identity snapshotID (va_ownerID v) (va_cutCursor v)
                       (va_envelopeGeneration v) (va_expiresAt v) then None
              else (case decodeStoredCanonical T_snapshotCreateResponse body of
                 None \<Rightarrow> None
               | Some g \<Rightarrow>
                  Some (AList.update snapshotID
                    (v\<lparr>va_createBody := body, va_firstPageToken := scs_FirstPageToken (of_snapshotCreateResponse g)\<rparr>) snapshots)))
      | _ \<Rightarrow> None)"

section \<open>Pages\<close>

definition decodeBase64Token :: "bytes \<Rightarrow> bool" where
  "decodeBase64Token v \<longleftrightarrow> decodeBase64 v 32 0 0 \<noteq> None"

definition emptyDescriptor :: snapshotPageDescriptor where
  "emptyDescriptor = \<lparr>sp_RevisionIDs = [], sp_CollectionMarkers = [], sp_SourceDevices = [], sp_NextPageToken = None, sp_HasMore = False\<rparr>"

definition pageRow :: "validatedSnapshots \<Rightarrow> snapshot_pages_row \<Rightarrow> validatedSnapshots option" where
  "pageRow snapshots row =
     (case (scan_uuid (sg_snapshot_id row), scan_text 43 (sg_page_token row), sql_length (sg_response_json row)) of
        (Some snapshotID, Some token, Some bodyLength) \<Rightarrow>
          (case map_of snapshots snapshotID of
             None \<Rightarrow> None
           | Some v \<Rightarrow>
              let account = addLength64 bodyLength (accountSnapshotPage snapshotID (length (va_pages v)) token [] (va_account v))
              in if sg_page_index row < 0 \<or> sg_page_index row \<noteq> int (length (va_pages v)) \<or> \<not> decodeBase64Token token
                    \<or> bodyLength \<le> 0 \<or> va_metadataBytes v < bodyLength \<or> int maxBodyBytes < bodyLength
                    \<or> \<not> within_account account (va_metadataBytes v) then None
                 else Some (AList.update snapshotID
                   (v\<lparr>va_pages := va_pages v @ [\<lparr>pg_token = token, pg_descriptor = emptyDescriptor, pg_body = []\<rparr>],
                      va_pageBodyLengths := va_pageBodyLengths v @ [bodyLength], va_account := account\<rparr>) snapshots))
      | _ \<Rightarrow> None)"

definition pageBodyRow :: "validatedSnapshots \<Rightarrow> snapshot_pages_row \<Rightarrow> validatedSnapshots option" where
  "pageBodyRow snapshots row =
     (case (scan_uuid (sg_snapshot_id row), scan_body maxBodyBytes (sg_response_json row)) of
        (Some snapshotID, Some body) \<Rightarrow>
          (case map_of snapshots snapshotID of
             None \<Rightarrow> None
           | Some v \<Rightarrow>
              let index = nat (sg_page_index row)
              in if sg_page_index row < 0 \<or> length (va_pages v) \<le> index then None
                 else if va_pageBodyLengths v ! index \<noteq> int (length body) then None
                 else (case decodeStoredSnapshotPageDescriptor body of
                    None \<Rightarrow> None
                  | Some descriptor \<Rightarrow>
                     Some (AList.update snapshotID
                       (v\<lparr>va_pages := (va_pages v)[index := (va_pages v ! index)\<lparr>pg_body := body, pg_descriptor := descriptor\<rparr>]\<rparr>)
                       snapshots)))
      | _ \<Rightarrow> None)"

definition validatePageRows :: "validatedSnapshots \<Rightarrow> db \<Rightarrow> validatedSnapshots option" where
  "validatePageRows snapshots s =
     (let rows = sql_query (\<lambda>r. (sg_snapshot_id r, sg_page_index r)) (\<lambda>_. True) (t_snapshot_pages s) in
      case walkRows pageRow snapshots rows of
        None \<Rightarrow> None
      | Some snapshots1 \<Rightarrow>
         (case walkRows pageBodyRow snapshots1 rows of
            None \<Rightarrow> None
          | Some snapshots2 \<Rightarrow>
             if length rows \<noteq> sum_list (map (\<lambda>(_, v). length (va_pages v)) snapshots2) then None else Some snapshots2))"

text \<open>The token chain, the source registry and the global order of one snapshot.\<close>

definition pageChain :: "validatedSnapshot \<Rightarrow> bool" where
  "pageChain v \<longleftrightarrow>
     (case va_pages v of [] \<Rightarrow> False | page # _ \<Rightarrow> va_firstPageToken v = pg_token page)
     \<and> list_all (\<lambda>i. let d = pg_descriptor (va_pages v ! i) in
          if Suc i = length (va_pages v) then \<not> sp_HasMore d \<and> sp_NextPageToken d = None
          else sp_HasMore d \<and> sp_NextPageToken d = Some (pg_token (va_pages v ! Suc i)))
        [0..<length (va_pages v)]"

fun collectSources :: "(bytes \<times> uint64) list \<Rightarrow> sourceDevice list \<Rightarrow> (bytes \<times> uint64) list option" where
  "collectSources sources [] = Some sources"
| "collectSources sources (x # rest) =
     (case parseUint64 (sd_MaxAuthorCounter x) of
        None \<Rightarrow> None
      | Some counter \<Rightarrow>
         if map_of sources (sd_DeviceID x) \<noteq> None then None else collectSources (sources @ [(sd_DeviceID x, counter)]) rest)"

fun ascending :: "bytes \<Rightarrow> bytes list \<Rightarrow> bool" where
  "ascending previous [] = True"
| "ascending previous (x # rest) = (\<not> (previous \<noteq> [] \<and> x \<le> previous) \<and> ascending x rest)"

definition pagePhase :: "snapshotPageDescriptor \<Rightarrow> nat" where
  "pagePhase d =
     (if sp_RevisionIDs d \<noteq> [] then 0 else if sp_CollectionMarkers d \<noteq> [] then 1 else if sp_SourceDevices d \<noteq> [] then 2 else 3)"

definition sources_cover :: "(bytes \<times> uint64) list \<Rightarrow> vector \<Rightarrow> bool" where
  "sources_cover sources vec \<longleftrightarrow>
     list_all (\<lambda>(deviceID, counter). case map_of sources deviceID of None \<Rightarrow> False | Some maximum \<Rightarrow> counter \<le> maximum) vec"

definition descriptor_marker_ok :: "uint64 \<Rightarrow> (bytes \<times> uint64) list \<Rightarrow> collectionMarker \<Rightarrow> bool" where
  "descriptor_marker_ok cutCursor sources marker =
     (case validateCollectionMarker marker of
        None \<Rightarrow> True
      | Some (claimed, barrier, _) \<Rightarrow> barrier \<le> cutCursor \<and> sources_cover sources claimed)"

definition validatePages :: "validatedSnapshot \<Rightarrow> validatedSnapshot option" where
  "validatePages v =
     (let ds = map pg_descriptor (va_pages v);
          markers = concat (map sp_CollectionMarkers ds)
      in if \<not> pageChain v then None
         else case collectSources [] (concat (map sp_SourceDevices ds)) of
           None \<Rightarrow> None
         | Some sources \<Rightarrow>
            if list_ex (\<lambda>d. pagePhase d = 3 \<and> length ds \<noteq> 1) ds \<or> \<not> sorted (map pagePhase ds)
               \<or> \<not> ascending [] (map cm_RecordID markers) \<or> \<not> list_all (descriptor_marker_ok (va_cutCursor v) sources) markers
               \<or> \<not> ascending [] (map sd_DeviceID (concat (map sp_SourceDevices ds))) then None
            else Some (v\<lparr>va_sourceCounters := sources,
                   va_markerBodies := map (\<lambda>m. (cm_RecordID m, marshal (to_collectionMarker m))) markers,
                   va_orderedRevisionIDs := concat (map sp_RevisionIDs ds)\<rparr>))"

fun mapSnapshots :: "(validatedSnapshot \<Rightarrow> validatedSnapshot option) \<Rightarrow> validatedSnapshots \<Rightarrow> validatedSnapshots option" where
  "mapSnapshots f [] = Some []"
| "mapSnapshots f ((i, v) # rest) =
     (case (f v, mapSnapshots f rest) of (Some v', Some rest') \<Rightarrow> Some ((i, v') # rest') | _ \<Rightarrow> None)"

section \<open>References\<close>

definition referencedRevision :: "db \<Rightarrow> snapshot_revision_refs_row \<Rightarrow> record_revisions_row option" where
  "referencedRevision s f =
     find (\<lambda>r. same (rv_revision_id r) (sf_revision_id f) \<and> same (rv_content_hash r) (sf_content_hash f)) (t_record_revisions s)"

definition reference_revision_ok :: "uint64 \<Rightarrow> validatedSnapshot \<Rightarrow> record_revisions_row \<Rightarrow> bool" where
  "reference_revision_ok collectionGeneration v r =
     (case (scan_uuid (rv_author_device_id r), scan_uint64 (rv_author_counter r), scan_body maxVectorBytes (rv_vector_json r),
            scan_opt_uint64 (rv_collected_generation r), scan_uint64 (rv_change_cursor r)) of
        (Some authorID, Some counter, Some vectorBody, Some collected, Some changeCursor) \<Rightarrow>
          collected_ok collectionGeneration r \<and> 0 \<le> rv_retained r \<and> rv_retained r \<le> 1
          \<and> (orZero collected = 0 \<or> va_collectionGeneration v < orZero collected)
          \<and> changeCursor \<le> va_cutCursor v
          \<and> (case unmarshalVector vectorBody of
               None \<Rightarrow> False
             | Some entries \<Rightarrow>
                (case validateVector entries of
                   None \<Rightarrow> False
                 | Some vec \<Rightarrow> vget vec authorID = counter \<and> sources_cover (va_sourceCounters v) vec))
      | _ \<Rightarrow> False)"

definition referenceRow :: "uint64 \<Rightarrow> db \<Rightarrow> validatedSnapshots \<Rightarrow> snapshot_revision_refs_row \<Rightarrow> validatedSnapshots option" where
  "referenceRow collectionGeneration s snapshots f =
     (case (scan_uuid (sf_snapshot_id f), scan_uuid (sf_revision_id f), scan_blob 32 (sf_content_hash f), referencedRevision s f,
            scan_blob 32 (joined ro_content_hash (join_on ro_content_hash (sf_content_hash f) (t_revision_objects s)))) of
        (Some snapshotID, Some revisionID, Some hash, Some r, Some objectHash) \<Rightarrow>
     (case (map_of snapshots snapshotID, scan_uuid (rv_revision_id r), scan_uuid (rv_record_id r)) of
        (Some v, Some matchingRevision, Some recordID) \<Rightarrow>
          let reference = \<lparr>sr_revisionID = revisionID, sr_contentHash = hash\<rparr>;
              account = accountSnapshotReference snapshotID reference (va_account v)
          in if matchingRevision \<noteq> revisionID \<or> objectHash \<noteq> hash \<or> \<not> reference_revision_ok collectionGeneration v r
                \<or> \<not> within_account account (va_metadataBytes v) then None
             else Some (AList.update snapshotID
               (v\<lparr>va_account := account, va_references := va_references v @ [reference],
                  va_referenceRecordIDs := AList.update revisionID recordID (va_referenceRecordIDs v)\<rparr>) snapshots)
      | _ \<Rightarrow> None)
      | _ \<Rightarrow> None)"

section \<open>The frontier at the cut\<close>

record cutItem =
  ci_id :: bytes
  ci_vector :: vector
  ci_tombstone :: bool
  ci_collectedGeneration :: uint64

record cutWalk =
  ct_authorMaxima :: "(bytes \<times> uint64) list"
  ct_currentRecord :: bytes
  ct_frontier :: "cutItem list"
  ct_flushed :: "bytes list"

text \<open>A head that is not leased must be the tombstone witness of a marker that was collected before the snapshot.\<close>

definition collectedWitness :: "validatedSnapshot \<Rightarrow> bytes \<Rightarrow> cutItem \<Rightarrow> bool" where
  "collectedWitness v currentRecord item \<longleftrightarrow>
     ci_tombstone item \<and> ci_collectedGeneration item \<noteq> 0 \<and> ci_collectedGeneration item \<le> va_collectionGeneration v
     \<and> (case map_of (va_markerBodies v) currentRecord of
          None \<Rightarrow> False
        | Some markerBody \<Rightarrow>
           (case decodeStoredCollectionMarker markerBody of
              None \<Rightarrow> False
            | Some marker \<Rightarrow>
               (case validateCollectionMarker marker of
                  None \<Rightarrow> False
                | Some (claimed, _) \<Rightarrow> cm_WitnessRevisionID marker = ci_id item \<and> vectorsEqual claimed (ci_vector item))))"

definition flushCut :: "validatedSnapshot \<Rightarrow> cutWalk \<Rightarrow> cutWalk option" where
  "flushCut v w =
     (if ct_currentRecord w = [] then Some w
      else if list_all (\<lambda>(revisionID, recordID). recordID \<noteq> ct_currentRecord w \<or> revisionID \<in> set (map ci_id (ct_frontier w))) (va_referenceRecordIDs v)
              \<and> list_all (\<lambda>item. map_of (va_referenceRecordIDs v) (ci_id item) = Some (ct_currentRecord w)
                                \<or> collectedWitness v (ct_currentRecord w) item) (ct_frontier w)
      then Some (w\<lparr>ct_flushed := ct_currentRecord w # ct_flushed w\<rparr>) else None)"

definition advanceCut :: "cutItem list \<Rightarrow> cutItem \<Rightarrow> cutItem list option" where
  "advanceCut fr item =
     (if list_ex (\<lambda>x. vectorsEqual (ci_vector x) (ci_vector item)) fr then None
      else
        let dominated = list_ex (\<lambda>x. vectorDominates (ci_vector x) (ci_vector item)) fr;
            next = filter (\<lambda>x. \<not> vectorDominates (ci_vector item) (ci_vector x)) fr
        in if dominated then Some next
           else if 32 < length (next @ [item]) then None
           else Some (next @ [item]))"

definition scanCutRow :: "validatedDevices \<Rightarrow> validatedSnapshot \<Rightarrow> record_revisions_row \<Rightarrow> (bytes \<times> bytes \<times> uint64 \<times> cutItem) option" where
  "scanCutRow devices v r =
     (case (scan_uuid (rv_revision_id r), scan_uuid (rv_record_id r), scan_uuid (rv_author_device_id r), scan_uint64 (rv_author_counter r),
            scan_body maxVectorBytes (rv_vector_json r)) of
        (Some revisionID, Some recordID, Some authorID, Some counter, Some vectorBody) \<Rightarrow>
     (case (scan_opt_uint64 (rv_collected_generation r), scan_uint64 (rv_change_cursor r), unmarshalVector vectorBody) of
        (Some collected, Some cursor, Some entries) \<Rightarrow>
     (case validateVector entries of
        None \<Rightarrow> None
      | Some vec \<Rightarrow>
          if 0 \<le> rv_tombstone r \<and> rv_tombstone r \<le> 1 \<and> 0 \<le> rv_retained r \<and> rv_retained r \<le> 1
             \<and> cursor \<noteq> 0 \<and> cursor \<le> va_cutCursor v \<and> (rv_retained r = 0) = (collected \<noteq> None)
             \<and> deviceExists devices authorID \<and> vget vec authorID = counter
          then Some (recordID, authorID, counter,
                 \<lparr>ci_id = revisionID, ci_vector = vec, ci_tombstone = (rv_tombstone r = 1), ci_collectedGeneration = orZero collected\<rparr>)
          else None)
      | _ \<Rightarrow> None)
      | _ \<Rightarrow> None)"

definition cutRow :: "validatedDevices \<Rightarrow> validatedSnapshot \<Rightarrow> cutWalk \<Rightarrow> record_revisions_row \<Rightarrow> cutWalk option" where
  "cutRow devices v w r =
     (case scanCutRow devices v r of
        None \<Rightarrow> None
      | Some (recordID, authorID, counter, item) \<Rightarrow>
         (case (if ct_currentRecord w = recordID then Some w
                else map_option (\<lambda>w1. w1\<lparr>ct_currentRecord := recordID, ct_frontier := []\<rparr>) (flushCut v w)) of
            None \<Rightarrow> None
          | Some w1 \<Rightarrow>
             (case advanceCut (ct_frontier w1) item of
                None \<Rightarrow> None
              | Some fr \<Rightarrow>
                 Some (w1\<lparr>ct_frontier := fr,
                   ct_authorMaxima := (if vget (ct_authorMaxima w1) authorID < counter
                     then AList.update authorID counter (ct_authorMaxima w1) else ct_authorMaxima w1)\<rparr>))))"

definition source_registry_ok :: "validatedDevices \<Rightarrow> validatedSnapshot \<Rightarrow> (bytes \<times> uint64) list \<Rightarrow> bool" where
  "source_registry_ok devices v authorMaxima \<longleftrightarrow>
     (let expected = filter (\<lambda>(_, dev). vd_createdCursor dev = 0 \<or> vd_createdCursor dev \<le> va_cutCursor v) devices
      in list_all (\<lambda>(deviceID, _). map_of (va_sourceCounters v) deviceID = Some (vget authorMaxima deviceID)) expected
         \<and> length (va_sourceCounters v) = length expected)"

definition validateCut :: "validatedDevices \<Rightarrow> db \<Rightarrow> validatedSnapshot \<Rightarrow> bool" where
  "validateCut devices s v =
     (case walkRows (cutRow devices v) \<lparr>ct_authorMaxima = [], ct_currentRecord = [], ct_frontier = [], ct_flushed = []\<rparr>
             (sql_query (\<lambda>r. (rv_record_id r, rv_change_cursor r)) (\<lambda>r. rv_change_cursor r \<le> uint64_cell (va_cutCursor v)) (t_record_revisions s)) of
        None \<Rightarrow> False
      | Some w \<Rightarrow>
         (case flushCut v w of
            None \<Rightarrow> False
          | Some w1 \<Rightarrow>
             list_all (\<lambda>(_, recordID). recordID \<in> set (ct_flushed w1)) (va_referenceRecordIDs v)
             \<and> source_registry_ok devices v (ct_authorMaxima w1)))"

section \<open>The markers at the cut\<close>

record markerWalk =
  mw_currentRecord :: bytes
  mw_latestBody :: bytes
  mw_remaining :: "(bytes \<times> bytes) list"

definition flushMarker :: "markerWalk \<Rightarrow> markerWalk option" where
  "flushMarker w =
     (if mw_currentRecord w = [] then Some w
      else if map_of (mw_remaining w) (mw_currentRecord w) = Some (mw_latestBody w)
      then Some (w\<lparr>mw_remaining := AList.delete (mw_currentRecord w) (mw_remaining w)\<rparr>) else None)"

definition cutMarkerRow :: "validatedSnapshot \<Rightarrow> markerWalk \<Rightarrow> changes_row \<Rightarrow> markerWalk option" where
  "cutMarkerRow v w c =
     (case (scan_uuid (cg_collection_marker_record_id c), scan_uint64 (cg_cursor c), scan_body maxBodyBytes (cg_collection_marker_json c)) of
        (Some recordID, Some cursor, Some body) \<Rightarrow>
          (case decodeStoredCollectionMarker body of
             None \<Rightarrow> None
           | Some marker \<Rightarrow>
              if cursor = 0 \<or> va_cutCursor v < cursor \<or> cm_RecordID marker \<noteq> recordID then None
              else map_option (\<lambda>w1. w1\<lparr>mw_currentRecord := recordID, mw_latestBody := body\<rparr>)
                     (if mw_currentRecord w = recordID then Some w else flushMarker w))
      | _ \<Rightarrow> None)"

definition validateCutMarkers :: "db \<Rightarrow> validatedSnapshot \<Rightarrow> bool" where
  "validateCutMarkers s v =
     (case walkRows (cutMarkerRow v) \<lparr>mw_currentRecord = [], mw_latestBody = [], mw_remaining = va_markerBodies v\<rparr>
             (sql_query (\<lambda>c. (cg_collection_marker_record_id c, cg_cursor c))
                (\<lambda>c. same (cg_kind c) (CText ''collection_marker'') \<and> cg_cursor c \<le> uint64_cell (va_cutCursor v)) (t_changes s)) of
        None \<Rightarrow> False
      | Some w \<Rightarrow> (case flushMarker w of None \<Rightarrow> False | Some w1 \<Rightarrow> mw_remaining w1 = []))"

section \<open>Order and account\<close>

fun revisionsOrdered :: "(bytes \<times> bytes) list \<Rightarrow> bytes list \<Rightarrow> bytes \<times> bytes \<Rightarrow> bytes list \<Rightarrow> bytes list option" where
  "revisionsOrdered records seen previous [] = Some seen"
| "revisionsOrdered records seen previous (revisionID # rest) =
     (case map_of records revisionID of
        None \<Rightarrow> None
      | Some recordID \<Rightarrow>
         if revisionID \<in> set seen \<or> fst previous \<noteq> []
              \<and> (recordID < fst previous \<or> recordID = fst previous \<and> revisionID \<le> snd previous) then None
         else revisionsOrdered records (revisionID # seen) (recordID, revisionID) rest)"

definition snapshotTotal :: "int \<Rightarrow> bytes \<times> validatedSnapshot \<Rightarrow> int option" where
  "snapshotTotal totalMetadata p =
     (let v = snd p in
      case revisionsOrdered (va_referenceRecordIDs v) [] ([], []) (va_orderedRevisionIDs v) of
        None \<Rightarrow> None
      | Some seen \<Rightarrow>
         let (metadataBytes, ok) =
               snapshotMetadataBytes (fst p) (va_ownerID v) (va_requestID v) (va_createBody v) (va_pages v) (va_references v)
         in if length seen \<noteq> length (va_references v) \<or> \<not> ok \<or> metadataBytes \<noteq> va_metadataBytes v
               \<or> snapshotMetadataLimit < metadataBytes \<or> maxInt64 - totalMetadata < metadataBytes then None
            else Some (totalMetadata + metadataBytes))"

section \<open>The snapshots as a whole\<close>

definition loadSnapshots ::
  "Identity \<Rightarrow> validatedDevices \<Rightarrow> uint64 \<Rightarrow> uint64 \<Rightarrow> uint64 \<Rightarrow> db \<Rightarrow> validatedSnapshots option" where
  "loadSnapshots identity devices serverCursor envelopeGeneration collectionGeneration s =
     (let rows = sql_query sn_snapshot_id (\<lambda>_. True) (t_snapshots s) in
      case walkRows (snapshotRow devices serverCursor collectionGeneration) ([], 0) rows of
        None \<Rightarrow> None
      | Some (snapshots, _) \<Rightarrow>
         (case validatePersistentChangeOrigins serverCursor envelopeGeneration (map (va_cutCursor \<circ> snd) snapshots) s of
            None \<Rightarrow> None
          | Some generationsAtCut \<Rightarrow>
             if \<not> list_all (\<lambda>(_, v). orZero (map_of generationsAtCut (va_cutCursor v)) = va_envelopeGeneration v) snapshots then None
             else if length rows \<noteq> length snapshots then None
             else walkRows (createRow identity) snapshots rows))"

definition validatePersistentSnapshots ::
  "Identity \<Rightarrow> validatedDevices \<Rightarrow> uint64 \<Rightarrow> uint64 \<Rightarrow> uint64 \<Rightarrow> db \<Rightarrow> bool" where
  "validatePersistentSnapshots identity devices serverCursor envelopeGeneration collectionGeneration s =
     (case loadSnapshots identity devices serverCursor envelopeGeneration collectionGeneration s of
        None \<Rightarrow> False
      | Some snapshots \<Rightarrow>
         (case validatePageRows snapshots s of
            None \<Rightarrow> False
          | Some snapshots1 \<Rightarrow>
             (case mapSnapshots validatePages snapshots1 of
                None \<Rightarrow> False
              | Some snapshots2 \<Rightarrow>
                 (case walkRows (referenceRow collectionGeneration s) snapshots2
                         (sql_query (\<lambda>f. (sf_snapshot_id f, sf_revision_id f)) (\<lambda>_. True) (t_snapshot_revision_refs s)) of
                    None \<Rightarrow> False
                  | Some snapshots3 \<Rightarrow>
                     list_all (\<lambda>(_, v). validateCut devices s v \<and> validateCutMarkers s v) snapshots3
                     \<and> (case walkRows snapshotTotal 0 snapshots3 of
                          None \<Rightarrow> False | Some totalMetadata \<Rightarrow> totalMetadata \<le> snapshotMetadataLimit)))))"

section \<open>Startup validation\<close>

definition validatePersistentTables :: "Identity \<Rightarrow> uint64 \<Rightarrow> uint64 \<Rightarrow> uint64 \<Rightarrow> uint64 \<Rightarrow> validatedDevices \<Rightarrow> db \<Rightarrow> bool" where
  "validatePersistentTables identity serverCursor envelopeGeneration secretGeneration collectionGeneration devices s \<longleftrightarrow>
     validatePersistentEnvelope identity envelopeGeneration secretGeneration s
     \<and> validatePersistentRevisionObjects s
     \<and> (case validatePersistentRevisions devices serverCursor collectionGeneration s of
          None \<Rightarrow> False
        | Some historicalCounters \<Rightarrow>
           validatePersistentRevisionAcceptanceOrigins s \<and> validatePersistentHistorySequence devices s
           \<and> list_all (\<lambda>(deviceID, row). vd_maxCounter row = vget historicalCounters deviceID) devices)
     \<and> validatePersistentRecordHeads s \<and> validatePersistentRecordVectorIndex s
     \<and> validatePersistentCollectionQueues serverCursor s \<and> validatePersistentChanges devices serverCursor s
     \<and> validatePersistentMarkers devices serverCursor s \<and> validatePersistentReceipts identity devices s
     \<and> validatePersistentReceiptRetention s \<and> validatePersistentEnrollmentsAndRotations identity devices s
     \<and> validatePersistentEnrollmentGrants s
     \<and> validatePersistentSnapshots identity devices serverCursor envelopeGeneration collectionGeneration s
     \<and> validatePersistentObjectReferences s"

definition validatePersistentState :: "Identity \<Rightarrow> db \<Rightarrow> bool" where
  "validatePersistentState identity s =
     (case validatePersistentRuntime s of
        None \<Rightarrow> False
      | Some (serverCursor, envelopeGeneration, secretGeneration, collectionGeneration) \<Rightarrow>
         (case validatePersistentDevices serverCursor s of
            None \<Rightarrow> False
          | Some devices \<Rightarrow>
             validatePersistentTables identity serverCursor envelopeGeneration secretGeneration collectionGeneration devices s))"

end
