(* ===== verification/Server.thy ===== *)
theory Server
  imports Snapshot
begin

text \<open>
  The data plane as a whole: \<^verbatim>\<open>HandleAPI\<close> of \<^verbatim>\<open>store/dataplane.go\<close> dispatches a request to its handler,
  and \<open>store_step\<close> is the transition relation of a store: a boot, a grant, an uptime checkpoint or a
  request, each under any behaviour of the driver and the random source.
\<close>

section \<open>Dispatch\<close>

definition zero_time :: time where
  "zero_time = - 62135596800 * Second"

definition TrimPrefix :: "bytes \<Rightarrow> bytes \<Rightarrow> bytes" where
  "TrimPrefix s p = (if prefix p s then drop (length p) s else s)"

definition TrimSuffix :: "bytes \<Rightarrow> bytes \<Rightarrow> bytes" where
  "TrimSuffix s p = (if suffix p s then take (length s - length p) s else s)"

definition pathIdentifier :: "bytes \<Rightarrow> bytes \<Rightarrow> bytes \<Rightarrow> bytes option" where
  "pathIdentifier path pre suf =
     (let value = TrimSuffix (TrimPrefix path pre) suf
      in if value = [] \<or> CHR ''/'' \<in> set value \<or> \<not> validateUUID value then None else Some value)"

definition HandleAPI :: "io \<Rightarrow> api_request \<Rightarrow> Store \<Rightarrow> api_response api_result \<times> Store" where
  "HandleAPI io request store =
     (let call = (if rq_Now request = zero_time then request\<lparr>rq_Now := io_now io\<rparr> else request);
          is = (\<lambda>m p. rq_Method call = m \<and> rq_Path call = p)
      in if is ''POST'' ''/v1/enrollments'' then handleEnrollment io call store
      else if is ''GET'' ''/v1/vault-envelope'' then handleGetEnvelope io call store
      else if is ''PUT'' ''/v1/vault-envelope'' then handlePutEnvelope io call store
      else if is ''POST'' ''/v1/sync'' then handleSync io call store
      else if is ''POST'' ''/v1/snapshot-reads'' then handleCreateSnapshot io call store
      else if is ''GET'' ''/v1/devices'' then handleListDevices io call store
      else if is ''POST'' ''/v1/device-token-rotations'' then handleTokenRotation io call store
      else if rq_Method call = ''POST'' \<and> prefix ''/v1/devices/'' (rq_Path call) \<and> suffix ''/revoke'' (rq_Path call) then
        (case pathIdentifier (rq_Path call) ''/v1/devices/'' ''/revoke'' of
           None \<Rightarrow> (Inl invalid_request, store)
         | Some deviceID \<Rightarrow> handleRevokeDevice io call deviceID store)
      else if rq_Method call = ''POST'' \<and> prefix ''/v1/snapshot-reads/'' (rq_Path call) \<and> suffix ''/pages'' (rq_Path call) then
        (case pathIdentifier (rq_Path call) ''/v1/snapshot-reads/'' ''/pages'' of
           None \<Rightarrow> (Inl invalid_request, store)
         | Some snapshotID \<Rightarrow> handleSnapshotPage io call snapshotID store)
      else (Inl invalid_request, store))"

section \<open>Steps of the store\<close>

inductive store_step :: "Store \<Rightarrow> Store \<Rightarrow> bool" where
  boot: "store_step store (snd (StartBoot io store))"
| grant: "store_step store (snd (CreateEnrollmentGrant io now store))"
| checkpoint: "store_step store (snd (CheckpointUptime io now store))"
| request: "store_step store (snd (HandleAPI io call store))"

inductive_cases store_stepE: "store_step store store'"

inductive store_reachable :: "Store \<Rightarrow> Store \<Rightarrow> bool" for store where
  start: "store_reachable store store"
| step: "store_reachable store t \<Longrightarrow> store_step t u \<Longrightarrow> store_reachable store u"

end
