(* ===== verification/StoreLaws.thy ===== *)
theory StoreLaws
  imports Server
begin

text \<open>
  What the steps of the store keep. A proof about the whole data plane is organised in locales:
  \<open>db_relation\<close> (a preorder on databases lifts through transactions and phases), \<open>lease_tables\<close> and
  \<open>volatile_tables\<close> (it ignores leases, and receipts, grants and the uptime clock, so every shared
  sub-transaction keeps it), \<open>collection_relation\<close> (every statement that adds no revision keeps it),
  \<open>statement_relation\<close> (every statement keeps it, so every transaction does) and
  \<open>store_relation\<close> (every handler transaction keeps it, hence every step and every run of the store). The
  first interpretation, \<open>db_grows\<close>, says that the permanent history only grows.
\<close>

section \<open>Growing tables\<close>

text \<open>Every row of \<open>xs\<close> is still there at its place, up to the changes \<open>P\<close> allows.\<close>

definition extends :: "('a \<Rightarrow> 'a \<Rightarrow> bool) \<Rightarrow> 'a list \<Rightarrow> 'a list \<Rightarrow> bool" where
  "extends P xs zs \<longleftrightarrow> length xs \<le> length zs \<and> list_all2 P xs (take (length xs) zs)"

lemma extends_refl: "(\<And>x. P x x) \<Longrightarrow> extends P xs xs"
  by (simp add: extends_def list_all2_refl)

lemma extends_trans:
  assumes P: "\<And>x y z. P x y \<Longrightarrow> P y z \<Longrightarrow> P x z" and "extends P xs ys" "extends P ys zs"
  shows "extends P xs zs"
  unfolding extends_def
proof (intro conjI list_all2_all_nthI)
  fix n assume "n < length xs"
  then have "P (xs ! n) (ys ! n)" "P (ys ! n) (zs ! n)"
    using assms(2,3) by (auto simp: extends_def list_all2_conv_all_nth)
  then show "P (xs ! n) (take (length xs) zs ! n)" using \<open>n < length xs\<close> P by (metis nth_take)
qed (use assms in \<open>auto simp: extends_def\<close>)

lemma extends_append: "(\<And>x. P x x) \<Longrightarrow> extends P xs (xs @ ys)"
  by (simp add: extends_def list_all2_refl)

lemma extends_sql_set: "(\<And>x. P x x) \<Longrightarrow> (\<And>x. p x \<Longrightarrow> P x (f x)) \<Longrightarrow> extends P xs (sql_set p f xs)"
  by (simp add: extends_def sql_set_def list_all2_conv_all_nth)

lemma extends_set: "extends P xs zs \<Longrightarrow> x \<in> set xs \<Longrightarrow> \<exists>z\<in>set zs. P x z"
  unfolding extends_def by (metis in_set_takeD list_all2_conv_all_nth in_set_conv_nth)

lemma extends_eq: "extends (=) xs zs \<longleftrightarrow> prefix xs zs"
  by (auto simp: extends_def list.rel_eq prefix_def) (metis append_take_drop_id)

text \<open>A device keeps its identity and, once revoked, the time of its revocation.\<close>

definition device_kept :: "devices_row \<Rightarrow> devices_row \<Rightarrow> bool" where
  "device_kept d d' \<longleftrightarrow> d_device_id d' = d_device_id d \<and> d_created_at_ms d' = d_created_at_ms d
     \<and> (d_revoked_at_ms d = None \<or> d_revoked_at_ms d' = d_revoked_at_ms d)"

text \<open>A revision keeps its metadata; collection is final.\<close>

definition revision_kept :: "record_revisions_row \<Rightarrow> record_revisions_row \<Rightarrow> bool" where
  "revision_kept r r' \<longleftrightarrow>
     r' = r\<lparr>rv_retained := rv_retained r', rv_undominated := rv_undominated r', rv_collected_generation := rv_collected_generation r'\<rparr>
     \<and> (rv_retained r = 0 \<longrightarrow> r' = r\<lparr>rv_undominated := rv_undominated r'\<rparr>)"

definition db_grows :: "db \<Rightarrow> db \<Rightarrow> bool" where
  "db_grows s t \<longleftrightarrow>
     prefix (t_change_origins s) (t_change_origins t)
     \<and> prefix (t_revision_acceptance_origins s) (t_revision_acceptance_origins t)
     \<and> prefix (t_record_vector_index s) (t_record_vector_index t)
     \<and> prefix (t_enrollments s) (t_enrollments t)
     \<and> prefix (t_token_rotations s) (t_token_rotations t)
     \<and> prefix (t_self_revocation_receipts s) (t_self_revocation_receipts t)
     \<and> extends device_kept (t_devices s) (t_devices t)
     \<and> extends revision_kept (t_record_revisions s) (t_record_revisions t)"

lemma device_kept_refl [simp]: "device_kept d d" and device_kept_trans: "device_kept a b \<Longrightarrow> device_kept b c \<Longrightarrow> device_kept a c"
  by (auto simp: device_kept_def)

lemma revision_kept_refl [simp]: "revision_kept r r"
  by (simp add: revision_kept_def)

lemma revision_kept_trans: "revision_kept a b \<Longrightarrow> revision_kept b c \<Longrightarrow> revision_kept a c"
  by (cases a; cases b; cases c) (auto simp: revision_kept_def)


lemma devices_trans: "extends device_kept xs ys \<Longrightarrow> extends device_kept ys zs \<Longrightarrow> extends device_kept xs zs"
  by (rule extends_trans) (rule device_kept_trans)

lemma revisions_trans: "extends revision_kept xs ys \<Longrightarrow> extends revision_kept ys zs \<Longrightarrow> extends revision_kept xs zs"
  by (rule extends_trans) (rule revision_kept_trans)

section \<open>Relations that transactions keep\<close>

locale db_relation = tx_relation R
  for R :: "db \<Rightarrow> db \<Rightarrow> bool"
begin

lemma rel_updateDB: "(\<And>s. R s (f s)) \<Longrightarrow> tx_rel R (updateDB f)"
  by (auto simp: tx_rel_def result_simps)

lemma rel_execDB: "(\<And>s s'. f s = Some s' \<Longrightarrow> R s s') \<Longrightarrow> tx_rel R (execDB f)"
  by (auto simp: tx_rel_def result_simps)

lemma rel_sum: "(\<And>x. tx_rel R (f x)) \<Longrightarrow> (\<And>x. tx_rel R (g x)) \<Longrightarrow> tx_rel R (case v of Inl x \<Rightarrow> f x | Inr x \<Rightarrow> g x)"
  by (cases v) simp_all

lemmas db_rules = rel_rules rel_sum

lemma rel_finishTx:
  "(\<And>x s. r = Inr (x, s) \<Longrightarrow> R (st_db store) s) \<Longrightarrow> R (st_db store) (st_db (snd (finishTx io store r)))"
  by (auto simp: finishTx_def refl_rel split: sum.splits prod.splits outcome.splits)

lemma rel_runTx: "tx_rel R tx \<Longrightarrow> R (st_db store) (st_db (snd (runTx io store tx)))"
  unfolding runTx_def by (auto simp: refl_rel intro!: rel_finishTx dest: tx_relD)

lemma rel_runPhase:
  assumes "tx_rel R tx" and "\<And>x s. R (st_db store) s \<Longrightarrow> R (st_db store) (st_db (snd (rest x s)))"
  shows "R (st_db store) (st_db (snd (runPhase io store tx rest)))"
  using assms
  by (auto simp: runPhase_def refl_rel intro!: rel_finishTx split: sum.splits dest: tx_relD)

end

locale lease_tables = db_relation +
  assumes leases: "R s (s\<lparr>t_snapshots := a\<rparr>)" "R s (s\<lparr>t_snapshot_pages := b\<rparr>)"
    and lease_refs: "R s (s\<lparr>t_snapshot_revision_refs := sql_delete p (t_snapshot_revision_refs s)\<rparr>)"
      "insert_snapshot_revision_refs f s = Some t \<Longrightarrow> R s t"
    and objects: "deleteRevisionObject h s = Some t \<Longrightarrow> R s t" "insert_revision_objects ob s = Some t \<Longrightarrow> R s t"
begin

lemma rel_deleteUnreferencedRevisionObject: "tx_rel R (deleteUnreferencedRevisionObject h r)"
  unfolding deleteUnreferencedRevisionObject_def
  by (intro db_rules rel_execDB objects(1))

lemma rel_deleteSnapshot: "R s (deleteSnapshot i s)"
  unfolding deleteSnapshot_def
  using trans_rel[OF leases(1)[of s] trans_rel[OF leases(2) lease_refs(1)]] by simp

lemma rel_deleteSnapshotAndReleaseObjects: "tx_rel R (deleteSnapshotAndReleaseObjects i)"
  unfolding deleteSnapshotAndReleaseObjects_def
  by (intro db_rules rel_updateDB rel_deleteSnapshot rel_deleteUnreferencedRevisionObject)

lemma rel_pruneExpiredSnapshots: "tx_rel R (pruneExpiredSnapshots ids)"
  unfolding pruneExpiredSnapshots_def by (intro db_rules rel_deleteSnapshotAndReleaseObjects)

end

locale volatile_tables = lease_tables +
  assumes receipts: "R s (s\<lparr>t_operation_receipts := a\<rparr>)" "R s (s\<lparr>t_operation_receipt_retention := b\<rparr>)"
    and uptime: "R s (s\<lparr>t_runtime_state := (t_runtime_state s)\<lparr>rt_accumulated_uptime_ms := c\<rparr>\<rparr>)"
    and grants: "R s (s\<lparr>t_enrollment_grants := h\<rparr>)"
    and returned: "R s (s\<lparr>t_device_sync_state := i\<rparr>)"
begin

lemma rel_checkpointUptimeTx: "tx_rel R (checkpointUptimeTx e now)"
  unfolding checkpointUptimeTx_def Let_def by (intro db_rules rel_updateDB uptime)

lemma rel_deleteReceipt: "tx_rel R (deleteReceipt dev cls n)"
  unfolding deleteReceipt_def by (intro db_rules rel_updateDB receipts)

lemma rel_pruneOperationReceipts: "tx_rel R (pruneOperationReceipts dev op up n age)"
  unfolding pruneOperationReceipts_def Let_def by (intro db_rules rel_deleteReceipt)

lemma rel_storeReceiptAtUptime: "tx_rel R (storeReceiptAtUptime dev op req fp resp now up)"
  unfolding storeReceiptAtUptime_def
  by (intro db_rules rel_execDB rel_pruneOperationReceipts)
    (auto simp: insert_operation_receipts_def insert_operation_receipt_retention_def intro: receipts)

lemma rel_storeReceipt: "tx_rel R (storeReceipt e dev op req fp resp now)"
  unfolding storeReceipt_def by (intro db_rules rel_checkpointUptimeTx rel_storeReceiptAtUptime)

lemma rel_consumeGrant: "R s (consumeGrant h i s)"
  unfolding consumeGrant_def by (rule grants)

lemma rel_raiseReturned: "R s (raiseReturned dev m c s)"
  by (simp add: raiseReturned_def returned refl_rel)

lemma rel_insertSnapshotRows: "tx_rel R (insertSnapshotRows i ps rs)"
  unfolding insertSnapshotRows_def
  by (intro db_rules rel_execDB)
    (auto simp: insert_snapshot_pages_def intro: leases lease_refs(2) split: if_splits)

lemma rel_createSnapshotRest: "tx_rel R (createSnapshotRest io ident call i dev fp expired)"
  unfolding createSnapshotRest_def Let_def
  by (intro db_rules rel_execDB rel_updateDB rel_pruneExpiredSnapshots rel_insertSnapshotRows rel_raiseReturned)
    (auto simp: insert_snapshots_def intro: leases split: if_splits)

lemmas volatile_rules = db_rules rel_checkpointUptimeTx rel_storeReceiptAtUptime rel_storeReceipt
  rel_pruneExpiredSnapshots rel_insertSnapshotRows rel_createSnapshotRest

end

section \<open>Relations that statements keep\<close>

text \<open>
  The laws of single statements; every transaction of the data plane follows. Registering a device is
  the one transaction with a law of its own, since it is where a relation may depend on a guard.
  \<open>collection_relation\<close> has the statements that add no revision: record heads are only deleted.
\<close>

locale collection_relation = volatile_tables +
  assumes runtime: "R s (s\<lparr>t_runtime_state := x1\<rparr>)"
    and envelope: "R s (s\<lparr>t_vault_envelope := x2\<rparr>)"
    and changes: "R s (s\<lparr>t_changes := x3\<rparr>)"
    and device_origins: "R s (s\<lparr>t_device_origins := x4\<rparr>)"
    and collection: "R s (s\<lparr>t_collection_candidates := x5\<rparr>)" "R s (s\<lparr>t_collection_records := x6\<rparr>)"
      "R s (s\<lparr>t_collection_markers := x7\<rparr>)" "R s (s\<lparr>t_record_heads := sql_delete hp (t_record_heads s)\<rparr>)"
    and permanent: "insert_change_origins r1 s = Some t \<Longrightarrow> R s t"
      "insert_token_rotations r2 s = Some t \<Longrightarrow> R s t"
      "insert_self_revocation_receipts r3 s = Some t \<Longrightarrow> R s t"
    and devices: "(\<And>d. p d \<Longrightarrow> device_kept d (f d)) \<Longrightarrow> R s (s\<lparr>t_devices := sql_set p f (t_devices s)\<rparr>)"
    and revisions: "(\<And>r. q r \<Longrightarrow> revision_kept r (g r)) \<Longrightarrow> R s (s\<lparr>t_record_revisions := sql_set q g (t_record_revisions s)\<rparr>)"
    and enroll_tx: "tx_rel R (enrollTx ident ereq gh th fp now)"
begin

lemma rel_insertChangeOrigin: "tx_rel R (insertChangeOrigin c k g)"
  unfolding insertChangeOrigin_def by (intro rel_execDB permanent(1))

lemma rel_insertChange: "tx_rel R (insertChange c k r m d dk g now)"
  unfolding insertChange_def
  by (intro db_rules rel_insertChangeOrigin rel_execDB) (auto simp: insert_changes_def intro: changes split: if_splits)

lemma rel_setServerCursor: "tx_rel R (setServerCursor c)"
  unfolding setServerCursor_def by (intro rel_updateDB runtime)

lemmas statement_rules = volatile_rules rel_insertChange rel_setServerCursor

lemma rel_putEnvelopeTx: "tx_rel R (putEnvelopeTx i e call x r)"
  unfolding putEnvelopeTx_def writeEnvelope_def Let_def by (intro statement_rules rel_updateDB runtime envelope)

lemma rel_enrollmentLookupTx: "tx_rel R (enrollmentLookupTx i e r g h f now)"
  unfolding enrollmentLookupTx_def by (intro statement_rules rel_updateDB rel_consumeGrant)

lemma rel_markRevoked: "tx_rel R (markRevoked d t c)"
  unfolding markRevoked_def Let_def
  by (intro statement_rules rel_execDB rel_updateDB devices) (auto simp: device_kept_def intro: device_origins)

lemma rel_revokeActiveTx: "tx_rel R (revokeActiveTx i e call d r a f)"
  unfolding revokeActiveTx_def selfReceiptTx_def Let_def by (intro statement_rules rel_markRevoked rel_execDB permanent(3))

lemma rel_revokeTx: "tx_rel R (revokeTx i e call d r)"
  unfolding revokeTx_def Let_def by (intro statement_rules rel_revokeActiveTx)

lemma rel_rotationTx: "tx_rel R (rotationTx i call r p ph n f)"
  unfolding rotationTx_def rotateTx_def Let_def
  by (intro statement_rules rel_execDB rel_execT; (erule permanent(2))?)
    (auto simp: sql_update_def device_kept_def split: if_splits intro: devices)

lemma rel_collectRevision: "tx_rel R (collectRevision g c)"
proof -
  have "R s (s\<lparr>t_record_revisions := sql_set (\<lambda>r. rv_revision_id r = i \<and> rv_retained r = 1)
      (\<lambda>r. r\<lparr>rv_retained := 0, rv_undominated := 0, rv_collected_generation := n\<rparr>) (t_record_revisions s),
      t_record_heads := sql_delete hp (t_record_heads s), t_changes := b, t_collection_candidates := c\<rparr>)" for s i n hp b c
    using trans_rel[OF revisions[of "\<lambda>r. rv_revision_id r = i \<and> rv_retained r = 1"
        "\<lambda>r. r\<lparr>rv_retained := 0, rv_undominated := 0, rv_collected_generation := n\<rparr>" s]
      trans_rel[OF collection(4) trans_rel[OF changes collection(1)]]]
    by (simp add: revision_kept_def)
  then show ?thesis unfolding collectRevision_def
    by (intro statement_rules rel_updateDB rel_deleteUnreferencedRevisionObject)
qed

lemma rel_writeCollectionMarker: "tx_rel R (writeCollectionMarker w b c now)"
  unfolding writeCollectionMarker_def Let_def
  by (intro statement_rules rel_execDB)
    (auto simp: upsertMarker_def insert_collection_markers_def intro: collection split: if_splits)

lemma rel_insertMarkerChange: "tx_rel R (insertMarkerChange c r b now)"
  unfolding insertMarkerChange_def
  by (intro statement_rules rel_insertChangeOrigin rel_execDB) (auto simp: insert_changes_def intro: changes split: if_splits)

lemma rel_collectRecord: "tx_rel R (collectRecord acks up now st r)"
  unfolding collectRecord_def collectSelected_def Let_def
  by (intro statement_rules rel_collectRevision rel_writeCollectionMarker rel_insertMarkerChange rel_updateDB collection)

lemma rel_collectRecords: "tx_rel R (collectRecords acks up now rs st)"
  by (induction rs arbitrary: st) (auto intro: statement_rules rel_collectRecord)

lemma rel_collectEligible: "tx_rel R (collectEligible now up c)"
  unfolding collectEligible_def nextBatch_def resetScan_def
  by (intro statement_rules rel_collectRecords rel_updateDB runtime)

lemma rel_supersedeHead: "tx_rel R (supersedeHead r d)"
  unfolding supersedeHead_def
  by (intro statement_rules rel_updateDB revisions collection) (auto simp: revision_kept_def)

lemma rel_setDevice: "(\<And>d. device_kept d (f d)) \<Longrightarrow> R s (setDevice i f s)"
  unfolding setDevice_def by (rule devices)

lemma rel_syncFinish: "tx_rel R (syncFinish call a cx up cp c ex)"
  unfolding syncFinish_def
  by (intro statement_rules rel_collectEligible rel_updateDB rel_raiseReturned)

end

locale statement_relation = collection_relation +
  assumes heads: "R s (s\<lparr>t_record_heads := x8\<rparr>)"
    and accepted: "insert_record_revisions r4 s = Some t \<Longrightarrow> R s t"
      "insert_revision_acceptance_origins r5 s = Some t \<Longrightarrow> R s t"
      "insert_record_vector_index r6 s = Some t \<Longrightarrow> R s t"
begin

lemma rel_acceptRevision: "tx_rel R (acceptRevision up now c item)"
  unfolding acceptRevision_def Let_def
  by (intro statement_rules rel_supersedeHead rel_execDB; (erule accepted(1) accepted(2) accepted(3))?)
    (auto simp: insertRevisionObject_def insert_collection_candidates_def
       insert_record_heads_def upsertCollectionRecord_def insert_collection_records_def refl_rel
       split: if_splits intro: objects(2) collection heads)

lemma rel_acceptRevisions: "tx_rel R (acceptRevisions up now items c)"
  by (induction items arbitrary: c) (auto intro: statement_rules rel_acceptRevision)

lemma rel_syncFirst: "tx_rel R (syncFirst i e call r a k)"
  unfolding syncFirst_def syncAccept_def
  by (intro statement_rules rel_acceptRevisions rel_updateDB rel_setDevice) (simp_all add: device_kept_def)

end

section \<open>Handlers\<close>

text \<open>What every transaction of the data plane keeps, every step of the store keeps.\<close>

locale store_relation = volatile_tables +
  assumes putEnvelope: "tx_rel R (putEnvelopeTx ident ep call gen preq)"
    and enrollmentLookup: "tx_rel R (enrollmentLookupTx ident ep ereq gh th fp now)"
    and enroll: "tx_rel R (enrollTx ident ereq gh th fp now)"
    and revoke: "tx_rel R (revokeTx ident ep call dev rreq)"
    and rotation: "tx_rel R (rotationTx ident call treq tok ph nh fp)"
    and syncReplay: "syncFirst ident ep call sreq a k s = Inr (Inl oc, s1) \<Longrightarrow> R s s1"
    and sync: "length (syq_Mutations sreq) \<le> maxMutations \<Longrightarrow> syncFirst ident ep call sreq a k s = Inr (Inr (cx, up, cp, cur, ex), s1) \<Longrightarrow>
      syncFinish call a cx up cp cur ex s1 = Inr (x, s2) \<Longrightarrow> R s s2"
    and bootID: "R s (s\<lparr>t_runtime_state := (t_runtime_state s)\<lparr>rt_active_boot_id := bid\<rparr>\<rparr>)"
begin

lemma rel_resume:
  assumes "tx_rel R tx" "st_db store' = st_db store" "R (st_db store) s"
  shows "R (st_db store) (st_db (snd (finishTx io store' (tx s))))"
proof -
  have "R (st_db store') (st_db (snd (finishTx io store' (tx s))))"
    using assms by (intro rel_finishTx) (auto dest: tx_relD intro: trans_rel)
  then show ?thesis using assms by simp
qed

lemma rel_createSnapshotFirst: "tx_rel R (createSnapshotFirst ident call r)"
  unfolding createSnapshotFirst_def Let_def by (intro volatile_rules)

lemma rel_keepLease: "R (st_db store) (st_db (snd r)) \<Longrightarrow> R (st_db store) (st_db (snd (keepLease i d r)))"
  by (auto simp: keepLease_def split: sum.splits prod.splits)

lemma rel_handleGetEnvelope: "R (st_db store) (st_db (snd (handleGetEnvelope io call store)))"
  unfolding handleGetEnvelope_def by (simp add: refl_rel) (intro impI rel_runTx volatile_rules)

lemma rel_handlePutEnvelope: "R (st_db store) (st_db (snd (handlePutEnvelope io call store)))"
  unfolding handlePutEnvelope_def by (auto simp: refl_rel intro: rel_runTx putEnvelope split: option.splits)

lemma rel_handleListDevices: "R (st_db store) (st_db (snd (handleListDevices io call store)))"
  unfolding handleListDevices_def by (simp add: refl_rel) (intro impI rel_runTx volatile_rules)

lemma rel_handleRevokeDevice: "R (st_db store) (st_db (snd (handleRevokeDevice io call dev store)))"
  unfolding handleRevokeDevice_def Let_def by (intro rel_runTx volatile_rules revoke)

lemma rel_handleTokenRotation: "R (st_db store) (st_db (snd (handleTokenRotation io call store)))"
  unfolding handleTokenRotation_def Let_def
  by (auto simp: refl_rel intro: rel_runTx rotation split: option.splits sum.splits)

lemma rel_handleEnrollment: "R (st_db store) (st_db (snd (handleEnrollment io call store)))"
  unfolding handleEnrollment_def Let_def
  by (auto simp: refl_rel intro!: rel_runPhase enrollmentLookup rel_resume enroll split: option.splits sum.splits prod.splits)

lemma rel_syncPhases:
  assumes "length (syq_Mutations req) \<le> maxMutations"
  shows "R (st_db store) (st_db (snd (runPhase io store (syncFirst ident ep call req a k) (\<lambda>(cx, up, cp, cur, ex) s.
     finishTx io (store\<lparr>st_ephemeral := forgetDeadlines ex ep\<rparr>) (syncFinish call a cx up cp cur ex s)))))"
proof (cases "syncFirst ident ep call req a k (st_db store)")
  case (Inr r)
  obtain v s1 where r: "r = (v, s1)" by (cases r)
  show ?thesis
  proof (cases v)
    case (Inl oc)
    then show ?thesis using Inr r
      by (auto simp: runPhase_def refl_rel intro!: rel_finishTx dest: syncReplay)
  next
    case (Inr y)
    obtain cx up cp cur ex where y: "y = (cx, up, cp, cur, ex)" by (cases y)
    let ?store = "store\<lparr>st_ephemeral := forgetDeadlines ex ep\<rparr>"
    have "R (st_db ?store) (st_db (snd (finishTx io ?store (syncFinish call a cx up cp cur ex s1))))"
      using sync[OF assms] \<open>syncFirst ident ep call req a k (st_db store) = Inr r\<close> r Inr y by (intro rel_finishTx) simp
    then show ?thesis using Inr y \<open>syncFirst ident ep call req a k (st_db store) = Inr r\<close> r
      by (simp add: runPhase_def refl_rel)
  qed
qed (simp add: runPhase_def refl_rel)

lemma rel_handleSync: "R (st_db store) (st_db (snd (handleSync io call store)))"
  unfolding handleSync_def Let_def
  by (auto simp: refl_rel syncRequestOk_def intro: rel_syncPhases split: option.splits sum.splits)

lemma rel_handleCreateSnapshot: "R (st_db store) (st_db (snd (handleCreateSnapshot io call store)))"
proof -
  have "R (st_db store) (st_db (snd (keepLease i d (finishTx io store' (Inr (x, s'))))))"
    if "createSnapshotRest io ident call i dev fp ex s = Inr (x, s')" "R (st_db store) s" "st_db store' = st_db store"
    for i d store' x s' ident dev fp ex s
    using rel_resume[OF rel_createSnapshotRest, of store' store s io io ident call i dev fp ex] that
    by (simp add: rel_keepLease)
  then show ?thesis
    unfolding handleCreateSnapshot_def Let_def
    by (auto simp: refl_rel intro!: rel_runPhase rel_createSnapshotFirst split: option.splits sum.splits prod.splits)
qed

lemma rel_handleSnapshotPage: "R (st_db store) (st_db (snd (handleSnapshotPage io call i store)))"
  unfolding handleSnapshotPage_def Let_def
  by (auto simp: refl_rel split: option.splits) (intro rel_runTx volatile_rules)

lemma rel_HandleAPI: "R (st_db store) (st_db (snd (HandleAPI io call store)))"
  unfolding HandleAPI_def Let_def
  by (simp add: refl_rel rel_handleEnrollment rel_handleGetEnvelope rel_handlePutEnvelope rel_handleSync rel_handleCreateSnapshot
      rel_handleListDevices rel_handleTokenRotation rel_handleRevokeDevice rel_handleSnapshotPage split: option.splits)

lemma rel_StartBoot: "R (st_db store) (st_db (snd (StartBoot io store)))"
proof -
  have "tx_rel R (bindT (updateDB (\<lambda>s. s\<lparr>t_runtime_state := (t_runtime_state s)\<lparr>rt_active_boot_id := CBlob (io_rand io 0)\<rparr>,
          t_enrollment_grants := []\<rparr>)) (\<lambda>_. bindT (readT snapshotIdentifiers) (\<lambda>ids. forT deleteSnapshotAndReleaseObjects ids)))"
    using trans_rel[OF bootID grants]
    by (intro volatile_rules rel_updateDB rel_deleteSnapshotAndReleaseObjects) simp
  from tx_relD[OF this] show ?thesis
    by (auto simp: StartBoot_def Let_def refl_rel split: sum.splits)
qed

lemma rel_CreateEnrollmentGrant: "R (st_db store) (st_db (snd (CreateEnrollmentGrant io now store)))"
  by (auto simp: CreateEnrollmentGrant_def Let_def refl_rel insert_enrollment_grants_def intro: grants split: option.splits)

lemma rel_CheckpointUptime: "R (st_db store) (st_db (snd (CheckpointUptime io now store)))"
  unfolding CheckpointUptime_def by (intro rel_runTx volatile_rules)

lemma rel_step: "store_step store store' \<Longrightarrow> R (st_db store) (st_db store')"
  by (auto elim!: store_stepE intro: rel_StartBoot rel_CreateEnrollmentGrant rel_CheckpointUptime rel_HandleAPI)

lemma rel_reachable: "store_reachable store store' \<Longrightarrow> R (st_db store) (st_db store')"
  by (induction rule: store_reachable.induct) (auto intro: refl_rel trans_rel rel_step)

end

sublocale statement_relation < store_relation R
proof
  show "R s s1" if "syncFirst ident ep call sreq a k s = Inr (Inl oc, s1)" for ident ep call sreq a k s oc s1
    using that by (rule tx_relD[OF rel_syncFirst])
  show "R s s2" if "syncFirst ident ep call sreq a k s = Inr (Inr (cx, up, cp, cur, ex), s1)"
    "syncFinish call a cx up cp cur ex s1 = Inr (x, s2)" for ident ep call sreq a k s cx up cp cur ex s1 x s2
    using that tx_relD[OF rel_syncFirst] tx_relD[OF rel_syncFinish] by (blast intro: trans_rel)
qed (fact rel_putEnvelopeTx rel_enrollmentLookupTx enroll_tx rel_revokeTx rel_rotationTx runtime)+

section \<open>The permanent history only grows\<close>

lemmas lease_statements = insert_snapshot_revision_refs_def deleteRevisionObject_def insert_revision_objects_def

interpretation grows: volatile_tables db_grows
proof
  show "db_grows s s" for s by (simp add: db_grows_def extends_refl)
  show "db_grows s t \<Longrightarrow> db_grows t u \<Longrightarrow> db_grows s u" for s t u
    unfolding db_grows_def
    by (elim conjE, intro conjI) (erule prefix_order.order_trans devices_trans revisions_trans, assumption)+
qed (auto simp: db_grows_def extends_refl lease_statements split: if_splits)

lemma grows_insertChange: "tx_rel db_grows (insertChange c k r m d dk g now)"
  unfolding insertChange_def insertChangeOrigin_def
  by (intro grows.db_rules grows.rel_execDB)
    (auto simp: insert_change_origins_def insert_changes_def sql_simps db_grows_def extends_refl split: if_splits)

lemma grows_enrollTx: "tx_rel db_grows (enrollTx i r g h f now)"
  unfolding enrollTx_def insertDeviceRows_def setServerCursor_def Let_def
  by (intro grows.volatile_rules grows_insertChange grows.rel_updateDB grows.rel_consumeGrant grows.rel_execDB)
    (auto simp: insert_enrollments_def insert_devices_def insert_device_origins_def insert_device_sync_state_def sql_simps
       db_grows_def extends_refl extends_append split: if_splits)

lemmas permanent_inserts = insert_change_origins_def insert_token_rotations_def insert_self_revocation_receipts_def
  insert_record_revisions_def insert_revision_acceptance_origins_def insert_record_vector_index_def

interpretation grows: statement_relation db_grows
proof
  show "tx_rel db_grows (enrollTx ident ereq gh th fp now)" for ident ereq gh th fp now by (rule grows_enrollTx)
qed (auto simp: db_grows_def permanent_inserts sql_simps extends_refl extends_append intro!: extends_sql_set)

end
