(* ===== verification/CursorLaws.thy ===== *)
theory CursorLaws
  imports StoreLaws
begin

text \<open>
  The server cursor and the change log. \<open>log_advances\<close> relates two databases when the cursor moved from \<open>c\<close>
  to \<open>d \<ge> c\<close> and the log gained exactly the origins of \<open>c + 1, \<dots>, d\<close>, in order. Every step of the store is
  such an advance: no cursor is skipped, reused or assigned without its permanent origin.
\<close>

section \<open>Runs of cursors\<close>

definition cursor_run :: "uint64 \<Rightarrow> uint64 \<Rightarrow> cell list" where
  "cursor_run c d = map (\<lambda>n. uint64_cell (word_of_nat n)) [Suc (unat c)..<Suc (unat d)]"

lemma cursor_run_refl [simp]: "cursor_run c c = []"
  by (simp add: cursor_run_def)

lemma cursor_run_trans: "c \<le> d \<Longrightarrow> d \<le> e \<Longrightarrow> cursor_run c d @ cursor_run d e = cursor_run c e"
proof -
  assume le: "c \<le> d" "d \<le> e"
  have "[Suc (unat c)..<Suc (unat d)] @ [Suc (unat d)..<Suc (unat e)] = [Suc (unat c)..<Suc (unat e)]"
    using upt_add_eq_append[of "Suc (unat c)" "Suc (unat d)" "unat e - unat d"] le
    by (simp add: word_le_nat_alt del: upt_Suc)
  then show ?thesis unfolding cursor_run_def map_append[symmetric] by simp
qed

lemma cursor_run_step: "c \<noteq> - 1 \<Longrightarrow> cursor_run c (c + 1) = [uint64_cell (c + 1)]"
  by (simp add: cursor_run_def unat_succ)

lemma succ_ge: "c \<noteq> - 1 \<Longrightarrow> c \<le> (c + 1 :: uint64)"
  by (simp add: word_le_nat_alt unat_succ)

section \<open>The log and the server cursor\<close>

definition log_frame :: "db \<Rightarrow> db \<Rightarrow> bool" where
  "log_frame s t \<longleftrightarrow> t_change_origins t = t_change_origins s
     \<and> rt_server_cursor (t_runtime_state t) = rt_server_cursor (t_runtime_state s)"

definition log_adds :: "cell list \<Rightarrow> db \<Rightarrow> db \<Rightarrow> bool" where
  "log_adds cs s t \<longleftrightarrow> map co_cursor (t_change_origins t) = map co_cursor (t_change_origins s) @ cs
     \<and> rt_server_cursor (t_runtime_state t) = rt_server_cursor (t_runtime_state s)"

definition log_advances :: "db \<Rightarrow> db \<Rightarrow> bool" where
  "log_advances s t \<longleftrightarrow> log_frame s t \<or>
     (\<exists>c d. c \<le> d \<and> rt_server_cursor (t_runtime_state s) = uint64_cell c \<and> rt_server_cursor (t_runtime_state t) = uint64_cell d
        \<and> map co_cursor (t_change_origins t) = map co_cursor (t_change_origins s) @ cursor_run c d)"

lemma uint64_cell_inj [simp]: "uint64_cell a = uint64_cell b \<longleftrightarrow> a = b"
  by (metis scan_uint64_cell option.inject)

lemma log_advances_frame: "log_frame s t \<Longrightarrow> log_advances s t"
  by (simp add: log_advances_def)

interpretation frame: volatile_tables log_frame
  by unfold_locales (auto simp: log_frame_def lease_statements split: if_splits)

lemma log_advances_trans: 
  assumes "log_advances s t" "log_advances t u" shows "log_advances s u"
proof -
  consider "log_frame s t" | "log_frame t u" | c d e where "c \<le> d" "d \<le> e"
     "rt_server_cursor (t_runtime_state s) = uint64_cell c" "rt_server_cursor (t_runtime_state u) = uint64_cell e"
     "map co_cursor (t_change_origins u) = map co_cursor (t_change_origins s) @ cursor_run c d @ cursor_run d e"
    using assms unfolding log_advances_def by force
  then show ?thesis
  proof cases
    case 3
    then show ?thesis unfolding log_advances_def by (auto simp: cursor_run_trans intro: order.trans)
  qed (use assms in \<open>auto simp: log_advances_def log_frame_def\<close>)
qed

interpretation advances: volatile_tables log_advances
proof
  show "log_advances s s" for s by (simp add: log_advances_def log_frame_def)
  show "log_advances s t \<Longrightarrow> log_advances t u \<Longrightarrow> log_advances s u" for s t u by (rule log_advances_trans)
qed (auto simp: log_advances_def log_frame_def lease_statements split: if_splits)

lemma advances_of_frame: "tx_rel log_frame m \<Longrightarrow> tx_rel log_advances m"
  by (auto simp: tx_rel_def log_advances_frame)

lemma insertChange_adds: "insertChange c k r m d dk g now s = Inr (x, t) \<Longrightarrow> log_adds [uint64_cell c] s t"
  by (auto simp: insertChange_def insertChangeOrigin_def insert_change_origins_def insert_changes_def result_simps sql_simps log_adds_def
      split: if_splits)

lemma insertMarkerChange_adds: "insertMarkerChange c r b now s = Inr (x, t) \<Longrightarrow> log_adds [uint64_cell c] s t"
  by (auto simp: insertMarkerChange_def insertChangeOrigin_def insert_change_origins_def insert_changes_def result_simps sql_simps log_adds_def
      split: if_splits)

lemma log_adds_frame: "log_frame s t \<Longrightarrow> log_adds cs t u \<Longrightarrow> log_adds cs s u" "log_adds cs s t \<Longrightarrow> log_frame t u \<Longrightarrow> log_adds cs s u"
  by (auto simp: log_adds_def log_frame_def)

lemma log_adds_append: "log_adds cs s t \<Longrightarrow> log_adds ds t u \<Longrightarrow> log_adds (cs @ ds) s u"
  by (auto simp: log_adds_def)

lemma log_adds_Nil: "log_frame s t \<Longrightarrow> log_adds [] s t"
  by (auto simp: log_adds_def log_frame_def)

lemma setServerCursor_eq: "setServerCursor c s = Inr (x, t) \<longleftrightarrow>
    t = s\<lparr>t_runtime_state := (t_runtime_state s)\<lparr>rt_server_cursor := uint64_cell c\<rparr>\<rparr>"
  by (auto simp: setServerCursor_def result_simps)

lemma log_advancesI:
  assumes "rt_server_cursor (t_runtime_state s) = uint64_cell c" "c \<le> d" "log_adds (cursor_run c d) s t"
    "rt_server_cursor (t_runtime_state u) = uint64_cell d" "t_change_origins u = t_change_origins t"
  shows "log_advances s u"
  using assms unfolding log_advances_def log_adds_def by auto

lemma reserveCursors_one: "reserveCursors 1 s = Inr d \<Longrightarrow>
    \<exists>c. rt_server_cursor (t_runtime_state s) = uint64_cell c \<and> c \<noteq> - 1 \<and> d = c + 1"
  by (auto simp: reserveCursors_def readRuntimeState_def Let_def result_simps scan_uint64_eq split: option.splits if_splits)

text \<open>A transaction that reserves one cursor, logs a change at it and stores it.\<close>

lemma advance_one:
  assumes "reserveCursors 1 s = Inr d" "log_adds [uint64_cell d] s t"
    "u = t\<lparr>t_runtime_state := (t_runtime_state t)\<lparr>rt_server_cursor := uint64_cell d\<rparr>\<rparr>"
  shows "log_advances s u"
proof -
  obtain c where c: "rt_server_cursor (t_runtime_state s) = uint64_cell c" "c \<noteq> - 1" "d = c + 1"
    using reserveCursors_one[OF assms(1)] by blast
  then show ?thesis using assms(2,3) by (intro log_advancesI[of s c d t]) (simp_all add: succ_ge cursor_run_step)
qed

section \<open>Statements that leave the log alone\<close>

lemmas frame_rules = frame.volatile_rules

lemma frame_insertDeviceRows: "tx_rel log_frame (insertDeviceRows d h c n)"
  unfolding insertDeviceRows_def
  by (intro frame_rules frame.rel_execDB)
    (auto simp: insert_devices_def insert_device_origins_def insert_device_sync_state_def log_frame_def split: if_splits)

lemma frame_markRevoked: "tx_rel log_frame (markRevoked d t c)"
  unfolding markRevoked_def Let_def
  by (intro frame_rules frame.rel_execDB frame.rel_updateDB) (auto simp: log_frame_def)

lemma frame_rotationTx: "tx_rel log_frame (rotationTx i call r p ph n f)"
  unfolding rotationTx_def rotateTx_def Let_def
  by (intro frame_rules frame.rel_execDB frame.rel_execT)
    (auto simp: insert_token_rotations_def log_frame_def)

lemma frame_enrollmentLookupTx: "tx_rel log_frame (enrollmentLookupTx i e r g h f now)"
  unfolding enrollmentLookupTx_def
  by (intro frame_rules frame.rel_updateDB frame.rel_consumeGrant)

lemma frame_selfReceiptTx: "tx_rel log_frame (selfReceiptTx i call d h b)"
  unfolding selfReceiptTx_def Let_def
  by (intro frame_rules frame.rel_execDB) (auto simp: insert_self_revocation_receipts_def log_frame_def)

lemma frame_collectRevision: "tx_rel log_frame (collectRevision g c)"
  unfolding collectRevision_def
  by (intro frame_rules frame.rel_updateDB frame.rel_deleteUnreferencedRevisionObject) (simp add: log_frame_def)

lemma frame_writeCollectionMarker: "tx_rel log_frame (writeCollectionMarker w b c now)"
  unfolding writeCollectionMarker_def Let_def
  by (intro frame_rules frame.rel_execDB)
    (auto simp: upsertMarker_def insert_collection_markers_def log_frame_def split: if_splits)

lemma frame_nextBatch: "tx_rel log_frame nextBatch"
  unfolding nextBatch_def resetScan_def by (intro frame_rules frame.rel_updateDB) (simp add: log_frame_def)

lemma frame_supersedeHead: "tx_rel log_frame (supersedeHead r d)"
  unfolding supersedeHead_def by (intro frame_rules frame.rel_updateDB) (simp_all add: log_frame_def)

lemma frame_setDevice: "log_frame s (setDevice i f s)"
  by (simp add: setDevice_def log_frame_def)

section \<open>Handlers\<close>

lemma advances_enrollTx: "tx_rel log_advances (enrollTx i r g h f now)"
  unfolding tx_rel_def
proof (intro allI impI)
  fix s x t assume run: "enrollTx i r g h f now s = Inr (x, t)"
  obtain d at s1 s2 s3 u1 u2 body where
    d: "reserveCursors 1 s = Inr d" and s1: "insertDeviceRows (erq_DeviceID r) h at d s = Inr (u1, s1)"
    and s2: "execDB (insert_enrollments body) s1 = Inr (u2, s2)"
    and s3: "insertChange d ''device_changed'' [] [] (erq_DeviceID r) ''enrolled'' 0 now (consumeGrant g (erq_EnrollmentID r) s2) = Inr ((), s3)"
    and t: "setServerCursor d s3 = Inr ((), t)"
    using run unfolding enrollTx_def Let_def
    by (auto simp: result_simps split: prod.splits)
  have "log_frame s1 s2" using s2 by (auto simp: result_simps insert_enrollments_def log_frame_def split: if_splits)
  then have "log_frame s (consumeGrant g (erq_EnrollmentID r) s2)"
    using tx_relD[OF frame_insertDeviceRows s1] frame.rel_consumeGrant by (meson frame.trans_rel)
  with insertChange_adds[OF s3] have "log_adds [uint64_cell d] s s3" by (blast intro: log_adds_frame)
  with d t show "log_advances s t" by (intro advance_one) (auto simp: setServerCursor_eq)
qed

lemma advances_revokeActiveTx: "tx_rel log_advances (revokeActiveTx i e call dev r a f)"
  unfolding tx_rel_def
proof (intro allI impI)
  fix s x t assume run: "revokeActiveTx i e call dev r a f s = Inr (x, t)"
  obtain d s1 s2 s3 s4 hs tm resp cp tgt th where
    d: "reserveCursors 1 s = Inr d" and s1: "markRevoked dev (UnixMilli (rq_Now call)) d s = Inr ((), s1)"
    and s2: "(if da_DeviceID a = dev then selfReceiptTx i call dev th (marshal (to_device tgt)) else returnT []) s1 = Inr (hs, s2)"
    and s3: "insertChange d ''device_changed'' [] [] dev ''revoked'' 0 tm s2 = Inr ((), s3)"
    and s4: "storeReceipt e (da_DeviceID a) (''device-revocation/'' @ dev) (rq_RequestID call) f resp (rq_Now call) s3 = Inr (cp, s4)"
    and t: "setServerCursor d s4 = Inr ((), t)"
    using run unfolding revokeActiveTx_def Let_def
    by (auto simp: result_simps split: prod.splits)
  have "log_frame s1 s2" using s2 tx_relD[OF frame_selfReceiptTx]
    by (auto simp: result_simps frame.refl_rel split: if_splits)
  then have "log_frame s s2" using tx_relD[OF frame_markRevoked s1] frame.trans_rel by blast
  then have "log_adds [uint64_cell d] s s4"
    using insertChange_adds[OF s3] tx_relD[OF frame.rel_storeReceipt s4] log_adds_frame by blast
  with d t show "log_advances s t" by (intro advance_one) (auto simp: setServerCursor_eq)
qed

lemma advances_revokeTx: "tx_rel log_advances (revokeTx i e call d r)"
  unfolding revokeTx_def Let_def by (intro advances.volatile_rules advances_revokeActiveTx)

lemma admitEnvelope_cursor: "admitEnvelope i x r s = Inr (d, g) \<Longrightarrow> reserveCursors 1 s = Inr d"
  by (auto simp: admitEnvelope_def reserveCursors_def result_simps) metis

lemma advances_putEnvelopeTx: "tx_rel log_advances (putEnvelopeTx i e call x r)"
  unfolding tx_rel_def
proof (intro allI impI)
  fix s y t assume run: "putEnvelopeTx i e call x r s = Inr (y, t)"
  consider "t = s" | d g s1 s2 s3 resp b dev fp cp where "admitEnvelope i x r s = Inr (d, g)"
     "writeEnvelope g b s = Inr ((), s1)" "insertChange d ''envelope_changed'' [] [] [] [] g (rq_Now call) s1 = Inr ((), s2)"
     "storeReceipt e dev ''vault-envelope'' (rq_RequestID call) fp resp (rq_Now call) s2 = Inr (cp, s3)"
     "setServerCursor d s3 = Inr ((), t)"
    using run unfolding putEnvelopeTx_def Let_def
    by (auto simp: result_simps split: prod.splits option.splits)
  then show "log_advances s t"
  proof cases
    case 2
    have "log_frame s s1" using 2(2) by (auto simp: writeEnvelope_def result_simps log_frame_def)
    then have "log_adds [uint64_cell d] s s3"
      using insertChange_adds[OF 2(3)] tx_relD[OF frame.rel_storeReceipt 2(4)] log_adds_frame by blast
    with 2 show ?thesis by (intro advance_one[OF admitEnvelope_cursor]) (auto simp: setServerCursor_eq)
  qed (simp add: advances.refl_rel)
qed


section \<open>Sync\<close>

lemma adds_bind: "tx_rel log_frame m \<Longrightarrow> (\<And>x. tx_rel (log_adds cs) (f x)) \<Longrightarrow> tx_rel (log_adds cs) (bindT m f)"
  unfolding tx_rel_def by (simp add: result_simps) (blast intro: log_adds_frame(1))

lemma adds_prod: "(\<And>a b. tx_rel (log_adds cs) (f a b)) \<Longrightarrow> tx_rel (log_adds cs) (case p of (a, b) \<Rightarrow> f a b)"
  by (cases p) simp

lemma adds_insertChange: "tx_rel (log_adds [uint64_cell c]) (insertChange c k r m d dk g now)"
  unfolding tx_rel_def by (blast intro: insertChange_adds)

lemma adds_acceptRevision: "tx_rel (log_adds [uint64_cell c]) (acceptRevision up now c item)"
  unfolding acceptRevision_def Let_def
  by (intro adds_bind adds_prod adds_insertChange frame_rules frame_supersedeHead frame.rel_execDB)
    (auto simp: insertRevisionObject_def insert_revision_objects_def insert_record_revisions_def
       insert_revision_acceptance_origins_def insert_collection_candidates_def insert_record_vector_index_def
       insert_record_heads_def upsertCollectionRecord_def insert_collection_records_def log_frame_def split: if_splits)

definition newItems :: "pendingRevision list \<Rightarrow> nat" where
  "newItems items = length (filter pn_isNew items)"

lemma unat_minus_1: "unat (- 1 :: uint64) = 2 ^ 64 - 1"
  by (simp add: unsigned_minus_1_eq_mask mask_eq_exp_minus_1)

lemma acceptRevisions_adds:
  assumes "acceptRevisions up now items c s = Inr (d, t)" "unat c + newItems items < 2 ^ 64"
  shows "unat d = unat c + newItems items \<and> log_adds (cursor_run c d) s t"
  using assms
proof (induction items arbitrary: c s)
  case Nil
  then show ?case by (auto simp: result_simps newItems_def log_adds_def)
next
  case (Cons item items)
  show ?case
  proof (cases "pn_isNew item")
    case False
    then show ?thesis using Cons by (simp add: newItems_def)
  next
    case True
    then obtain s1 where s1: "acceptRevision up now (c + 1) item s = Inr ((), s1)" "acceptRevisions up now items (c + 1) s1 = Inr (d, t)"
      using Cons.prems(1) by (auto simp: result_simps)
    have ne: "c \<noteq> - 1" using Cons.prems(2) True by (auto simp: newItems_def unat_minus_1)
    then have u: "unat (c + 1) = Suc (unat c)" by (rule unat_succ)
    have IH: "unat d = unat (c + 1) + newItems items" "log_adds (cursor_run (c + 1) d) s1 t"
      using Cons.IH[OF s1(2)] Cons.prems(2) True u by (auto simp: newItems_def)
    have "log_adds (cursor_run c (c + 1) @ cursor_run (c + 1) d) s t"
      using log_adds_append[OF tx_relD[OF adds_acceptRevision s1(1)] IH(2)] ne by (simp add: cursor_run_step)
    moreover have "cursor_run c (c + 1) @ cursor_run (c + 1) d = cursor_run c d"
      using ne IH(1) by (intro cursor_run_trans succ_ge) (simp_all add: word_le_nat_alt)
    ultimately show ?thesis using IH(1) u True by (simp add: newItems_def)
  qed
qed

text \<open>\<open>validateMutations\<close> counts its new items.\<close>

definition pendingItem :: "recordRevision \<Rightarrow> uint64 \<Rightarrow> vector \<Rightarrow> bool \<Rightarrow> pendingRevision" where
  "pendingItem r n v fresh = \<lparr>pn_revision = r, pn_canonical = marshal (to_recordRevision r),
     pn_contentHash = sha256 (marshal (to_recordRevision r)), pn_authorCounter = n, pn_vector = v, pn_isNew = fresh\<rparr>"

lemma validateMutation_cases:
  assumes "validateMutation dev s st r = Inr st'"
  obtains
    (stored) n v where "validateRevision r = Some (n, v)" "st' = st\<lparr>ms_previous := Some r, ms_pending := ms_pending st @ [pendingItem r n v False]\<rparr>"
  | (repeated) n v prior where "validateRevision r = Some (n, v)" "pendingByRevisionID st (rr_RevisionID r) = Some prior" "st' = st\<lparr>ms_previous := Some r\<rparr>"
  | (fresh) n v where "validateRevision r = Some (n, v)" "admitNewRevision dev s st r n v = Inr ()"
      "st' = st\<lparr>ms_previous := Some r, ms_pending := ms_pending st @ [pendingItem r n v True], ms_lastCounter := n, ms_newCount := ms_newCount st + 1\<rparr>"
proof -
  obtain n v where v: "validateRevision r = Some (n, v)"
    using assms by (cases "validateRevision r") (auto simp: validateMutation_def)
  have ok: "\<not> (rr_AuthorDeviceID r \<noteq> dev \<or> (case ms_previous st of None \<Rightarrow> False | Some p \<Rightarrow> \<not> mutationKeyLess p r))"
    using assms v by (simp add: validateMutation_def split: if_splits)
  note run = assms[unfolded validateMutation_def v option.case prod.case if_not_P[OF ok] Let_def]
  show ?thesis
  proof (cases "find (\<lambda>q. rv_revision_id q = CText (rr_RevisionID r)) (t_record_revisions s)")
    case (Some q)
    then show ?thesis using run v
      by (auto simp: pendingItem_def split: option.splits if_splits intro: stored)
  next
    case None
    note run = run[unfolded None option.case]
    show ?thesis
    proof (cases "pendingByRevisionID st (rr_RevisionID r)")
      case (Some prior)
      then show ?thesis using run v by (auto split: if_splits intro: repeated)
    next
      case None
      then show ?thesis using run v by (auto simp: pendingItem_def bindR_eq_Inr intro: fresh)
    qed
  qed
qed

lemma validateMutation_count:
  "validateMutation dev s st r = Inr st' \<Longrightarrow> ms_newCount st = newItems (ms_pending st) \<Longrightarrow> ms_newCount st' = newItems (ms_pending st')"
  by (erule validateMutation_cases) (simp_all add: newItems_def pendingItem_def)

lemma validateMutations_count:
  assumes "validateMutations dev c rs s = Inr (items, n, d)" shows "n = newItems items"
proof -
  from assms obtain st where st: "foldR (validateMutation dev s)
      \<lparr>ms_previous = None, ms_pending = [], ms_lastCounter = c, ms_newCount = 0\<rparr> rs = Inr st"
    and r: "items = ms_pending st" "n = ms_newCount st"
    unfolding validateMutations_def by (auto simp: bindR_eq_Inr)
  from st have "ms_newCount st = newItems (ms_pending st)"
    by (rule foldR_invariant) (auto simp: newItems_def[of "[]"] intro: validateMutation_count)
  with r show ?thesis by simp
qed


text \<open>The first phase ends with the stored cursor equal to the one it passes on.\<close>

lemma admitCursors_cursor: "admitCursors dev a k s = Inr (c, x) \<Longrightarrow> rt_server_cursor (t_runtime_state s) = uint64_cell c"
  by (auto simp: admitCursors_def readRuntimeState_def Let_def result_simps scan_uint64_eq split: option.splits)

lemma syncAdmit_context:
  assumes "syncAdmit i call r a k s = Inr (Inr cx)"
  shows "rt_server_cursor (t_runtime_state s) = uint64_cell (sx_serverCursor cx)" "sx_newCount cx = newItems (sx_pending cx)"
    "of_nat (sx_newCount cx) \<le> - 1 - sx_serverCursor cx"
  using assms
  by (auto simp: syncAdmit_def Let_def result_simps split: option.splits dest: admitCursors_cursor validateMutations_count)

lemma validateMutations_bound:
  assumes "validateMutations dev c rs s = Inr (items, n, d)" shows "n \<le> length rs"
proof -
  have "foldR (validateMutation dev s) st rs = Inr st' \<Longrightarrow> ms_newCount st' \<le> ms_newCount st + length rs" for st st'
  proof (induction rs arbitrary: st)
    case (Cons r rs)
    then obtain st1 where "validateMutation dev s st r = Inr st1" "foldR (validateMutation dev s) st1 rs = Inr st'"
      by (auto simp: bindR_eq_Inr)
    moreover from this(1) have "ms_newCount st1 \<le> ms_newCount st + 1" by (rule validateMutation_cases) simp_all
    ultimately show ?case using Cons.IH[of st1] by simp
  qed simp
  then show ?thesis using assms unfolding validateMutations_def by (fastforce simp: bindR_eq_Inr)
qed

lemma syncAdmit_bound:
  assumes "syncAdmit i call r a k s = Inr (Inr cx)" "length (syq_Mutations r) \<le> maxMutations"
  shows "unat (sx_serverCursor cx) + newItems (sx_pending cx) < 2 ^ 64"
proof -
  have n: "newItems (sx_pending cx) \<le> 256"
    using assms syncAdmit_context(2)[OF assms(1)]
    by (auto simp: syncAdmit_def Let_def result_simps maxMutations_def split: option.splits dest!: validateMutations_bound)
  then have "unat (of_nat (newItems (sx_pending cx)) :: uint64) = newItems (sx_pending cx)" by (simp add: unat_of_nat)
  moreover have "unat (- 1 - sx_serverCursor cx) = 2 ^ 64 - 1 - unat (sx_serverCursor cx)"
    by (subst unat_sub) (simp_all add: unat_minus_1)
  ultimately show ?thesis using syncAdmit_context(2,3)[OF assms(1)] unsigned_less[of "sx_serverCursor cx", where ?'a = nat]
    by (simp add: word_le_nat_alt)
qed

lemma syncAccept_advances:
  assumes run: "syncAccept e now k cx s = Inr ((up, cp, cur), t)"
    and c: "rt_server_cursor (t_runtime_state s) = uint64_cell (sx_serverCursor cx)"
    and n: "sx_newCount cx = newItems (sx_pending cx)" "unat (sx_serverCursor cx) + newItems (sx_pending cx) < 2 ^ 64"
  shows "log_advances s t \<and> rt_server_cursor (t_runtime_state t) = uint64_cell cur"
proof -
  obtain s1 s2 d where s1: "checkpointUptimeTx e now s = Inr ((up, cp), s1)"
    and s2: "acceptRevisions up now (sx_pending cx) (sx_serverCursor cx) s1 = Inr (d, s2)"
    and cur: "cur = (if sx_newCount cx \<noteq> 0 then d else sx_serverCursor cx)"
    and t: "t_change_origins t = t_change_origins s2"
      "rt_server_cursor (t_runtime_state t) = (if sx_newCount cx \<noteq> 0 then uint64_cell d else rt_server_cursor (t_runtime_state s2))"
    using run unfolding syncAccept_def
    by (cases "sx_newCount cx = 0") (auto simp: result_simps setServerCursor_def setDevice_def)
  have fr: "log_frame s s1" using s1 by (rule tx_relD[OF frame.rel_checkpointUptimeTx])
  have d: "unat d = unat (sx_serverCursor cx) + newItems (sx_pending cx)" and "log_adds (cursor_run (sx_serverCursor cx) d) s1 s2"
    using acceptRevisions_adds[OF s2 n(2)] by auto
  then have adds: "log_adds (cursor_run (sx_serverCursor cx) d) s s2" using fr log_adds_frame(1) by blast
  have dc: "cur = d" using cur d n(1) by (auto simp: word_unat_eq_iff)
  have rt: "rt_server_cursor (t_runtime_state t) = uint64_cell cur"
    using t(2) dc adds c d n(1) by (auto simp: log_adds_def word_unat_eq_iff)
  moreover have "log_advances s t"
    using c adds rt dc t(1) d by (intro log_advancesI[of s "sx_serverCursor cx" d s2]) (auto simp: word_le_nat_alt)
  ultimately show ?thesis by simp
qed

lemma syncFirst_advances:
  assumes "syncFirst i e call r a k s = Inr (Inr (cx, up, cp, cur, ex), t)" "length (syq_Mutations r) \<le> maxMutations"
  shows "log_advances s t \<and> rt_server_cursor (t_runtime_state t) = uint64_cell cur"
proof -
  have cx: "syncAdmit i call r a k s = Inr (Inr cx)" and acc: "syncAccept e (rq_Now call) k cx s = Inr ((up, cp, cur), t)"
    using assms(1) unfolding syncFirst_def by (auto simp: result_simps split: sum.splits) (metis sum.exhaust)+
  show ?thesis
    using syncAccept_advances[OF acc syncAdmit_context(1,2)[OF cx] syncAdmit_bound[OF cx assms(2)]] .
qed

section \<open>Collection\<close>

lemma bind_read: "q s = Inr x \<Longrightarrow> bindT (readT q) f s = f x s"
  by (simp add: bindT_def readT_def)

lemma collectRecord_cases:
  assumes "collectRecord acks up now st recordID s = Inr (st', t)"
  obtains (skip) "st' = st" "t = s"
  | (collect) barrier heads candidates marker w selected where
      "loadCollectionRecordWork recordID up s = Inr (barrier, heads, candidates)" "allAcknowledged acks barrier"
      "loadCollectionMarker recordID s = Inr marker" "selected \<noteq> []"
      "w = None \<and> selected = selectMarkerCoveredCandidates candidates marker
        \<or> w = selectAdvancingWitness heads marker \<and> w \<noteq> None \<and> cs_serverCursor st \<noteq> - 1
          \<and> selected = selectWitnessCoveredCandidates candidates w"
      "st' = \<lparr>cs_serverCursor = (if w \<noteq> None then cs_serverCursor st + 1 else cs_serverCursor st),
         cs_generation = (if cs_advanced st then cs_generation st else cs_generation st + 1), cs_advanced = True,
         cs_floor = fold max (map cv_changeCursor selected) (cs_floor st)\<rparr>"
      "collectSelected now recordID w barrier (cs_serverCursor st') (cs_generation st') selected s = Inr ((), t)"
proof -
  obtain barrier heads candidates where work: "loadCollectionRecordWork recordID up s = Inr (barrier, heads, candidates)"
    using assms unfolding collectRecord_def by (auto simp: result_simps)
  show ?thesis
  proof (cases "allAcknowledged acks barrier")
    case False
    then show ?thesis using assms work skip unfolding collectRecord_def by (auto simp: result_simps)
  next
    case True
    then obtain marker where marker: "loadCollectionMarker recordID s = Inr marker"
      using assms work unfolding collectRecord_def by (auto simp: result_simps)
    define w where "w = (if selectWitnessCoveredCandidates candidates (selectAdvancingWitness heads marker) \<noteq> [] \<and> cs_serverCursor st \<noteq> - 1
       then selectAdvancingWitness heads marker else None)"
    define selected where "selected = (if w \<noteq> None then selectWitnessCoveredCandidates candidates (selectAdvancingWitness heads marker)
       else selectMarkerCoveredCandidates candidates marker)"
    define st1 where "st1 = \<lparr>cs_serverCursor = (if w \<noteq> None then cs_serverCursor st + 1 else cs_serverCursor st),
         cs_generation = (if cs_advanced st then cs_generation st else cs_generation st + 1), cs_advanced = True,
         cs_floor = fold max (map cv_changeCursor selected) (cs_floor st)\<rparr>"
    have run: "(if selected = [] then returnT st
        else bindT (collectSelected now recordID w barrier (cs_serverCursor st1) (cs_generation st1) selected) (\<lambda>_. returnT st1)) s = Inr (st', t)"
      using assms unfolding collectRecord_def
      by (simp only: bind_read[where q = "loadCollectionRecordWork recordID up", OF work] prod.case True not_True_eq_False if_False bind_read[where q = "loadCollectionMarker recordID", OF marker] Let_def w_def selected_def
          st1_def collectState.select_convs)
    show ?thesis
    proof (cases "selected = []")
      case False
      have "w = None \<and> selected = selectMarkerCoveredCandidates candidates marker
        \<or> w = selectAdvancingWitness heads marker \<and> w \<noteq> None \<and> cs_serverCursor st \<noteq> - 1
          \<and> selected = selectWitnessCoveredCandidates candidates w"
        by (auto simp: w_def selected_def)
      then show ?thesis using run True marker False
        by (intro collect[OF work True marker False]) (auto simp: result_simps st1_def)
    qed (use run True marker skip in \<open>auto simp: result_simps\<close>)
  qed
qed

lemma collectRecord_adds:
  assumes "collectRecord acks up now st r s = Inr (st', t)"
  shows "cs_serverCursor st \<le> cs_serverCursor st' \<and> log_adds (cursor_run (cs_serverCursor st) (cs_serverCursor st')) s t"
  using assms
proof (cases rule: collectRecord_cases)
  case skip
  then show ?thesis by (simp add: log_adds_def)
next
  case (collect barrier heads candidates marker w selected)
  obtain s1 s2 where s1: "(case w of None \<Rightarrow> returnT () | Some w \<Rightarrow> bindT (writeCollectionMarker w barrier (cs_serverCursor st') now)
      (\<lambda>body. insertMarkerChange (cs_serverCursor st') r body now)) s = Inr ((), s1)"
    and s2: "forT (collectRevision (cs_generation st')) selected s1 = Inr ((), s2)" and t: "log_frame s2 t"
    using collect(7) unfolding collectSelected_def by (auto simp: result_simps log_frame_def)
  have fr: "log_frame s1 t" using tx_relD[OF frame.rel_forT[OF frame_collectRevision] s2] t by (rule frame.trans_rel)
  show ?thesis
  proof (cases w)
    case None
    then show ?thesis using s1 fr collect(6) by (auto simp: result_simps log_adds_Nil)
  next
    case (Some v)
    then obtain b s0 where s0: "writeCollectionMarker v barrier (cs_serverCursor st') now s = Inr (b, s0)"
      "insertMarkerChange (cs_serverCursor st') r b now s0 = Inr ((), s1)" using s1 by (auto simp: result_simps)
    have "log_adds [uint64_cell (cs_serverCursor st')] s t"
      using log_adds_frame(1)[OF tx_relD[OF frame_writeCollectionMarker s0(1)] log_adds_frame(2)[OF insertMarkerChange_adds[OF s0(2)] fr]] .
    then show ?thesis using collect(5,6) Some by (auto simp: succ_ge cursor_run_step)
  qed
qed

lemma collectRecords_adds:
  assumes "collectRecords acks up now rs st s = Inr (st', t)"
  shows "cs_serverCursor st \<le> cs_serverCursor st' \<and> log_adds (cursor_run (cs_serverCursor st) (cs_serverCursor st')) s t"
  using assms
proof (induction rs arbitrary: st s)
  case Nil
  then show ?case by (auto simp: result_simps log_adds_def)
next
  case (Cons r rs)
  then obtain st1 s1 where "collectRecord acks up now st r s = Inr (st1, s1)" "collectRecords acks up now rs st1 s1 = Inr (st', t)"
    by (auto simp: result_simps)
  note Cons.IH[OF this(2)] collectRecord_adds[OF this(1)]
  then show ?case
    using log_adds_append[of "cursor_run (cs_serverCursor st) (cs_serverCursor st1)" s s1 "cursor_run (cs_serverCursor st1) (cs_serverCursor st')" t]
      cursor_run_trans[of "cs_serverCursor st" "cs_serverCursor st1" "cs_serverCursor st'"] by auto
qed

lemma collectEligible_cases:
  assumes "collectEligible now up c s = Inr (d, t)"
  obtains (idle) "d = c" "log_frame s t"
  | (batch) acks ids s1 floor gen st' s2 where "nextBatch s = Inr (ids, s1)" "ids \<noteq> []" "loadActiveAcknowledgements s = Inr acks" "acks \<noteq> []"
      "readCursorFloor s1 = Inr floor" "collectRecords acks up now ids
         \<lparr>cs_serverCursor = c, cs_generation = gen, cs_advanced = False, cs_floor = floor\<rparr> s1 = Inr (st', s2)"
      "d = cs_serverCursor st'" "t = s2\<lparr>t_runtime_state := (t_runtime_state s2)\<lparr>rt_cursor_floor := uint64_cell (cs_floor st'),
              rt_server_cursor := uint64_cell (cs_serverCursor st'), rt_collection_generation := uint64_cell (cs_generation st'),
              rt_collection_scan_after_record_id := CText (last ids)\<rparr>\<rparr>"
proof -
  obtain gen where gen: "scan_uint64 (rt_collection_generation (t_runtime_state s)) = Some gen"
    using assms unfolding collectEligible_def by (auto simp: result_simps)
  show ?thesis
  proof (cases "gen = - 1")
    case True
    then show ?thesis using assms gen unfolding collectEligible_def
      by (auto simp: result_simps frame.refl_rel intro: idle)
  next
    case False
    then obtain acks where acks: "loadActiveAcknowledgements s = Inr acks"
      using assms gen unfolding collectEligible_def by (auto simp: result_simps)
    show ?thesis
    proof (cases "acks = []")
      case True
      then show ?thesis using assms gen acks False unfolding collectEligible_def
        by (auto simp: result_simps frame.refl_rel intro: idle)
    next
      case ne: False
      then obtain ids s1 where ids: "nextBatch s = Inr (ids, s1)"
        using assms gen acks False unfolding collectEligible_def by (auto simp: result_simps)
      have fr: "log_frame s s1" using ids by (rule tx_relD[OF frame_nextBatch])
      show ?thesis
      proof (cases "ids = []")
        case True
        then show ?thesis using assms gen acks False ne ids fr unfolding collectEligible_def
          by (auto simp: result_simps intro: idle)
      next
        case n2: False
        then show ?thesis using assms gen acks False ne ids unfolding collectEligible_def
          by (auto simp: result_simps intro: batch)
      qed
    qed
  qed
qed

lemma collectEligible_advances:
  assumes "collectEligible now up c s = Inr (d, t)" "rt_server_cursor (t_runtime_state s) = uint64_cell c"
  shows "log_advances s t \<and> rt_server_cursor (t_runtime_state t) = uint64_cell d"
  using assms(1)
proof (cases rule: collectEligible_cases)
  case idle
  then show ?thesis using assms(2) by (simp add: log_advances_frame log_frame_def)
next
  case (batch acks ids s1 floor gen st' s2)
  have "log_frame s s1" using batch(1) by (rule tx_relD[OF frame_nextBatch])
  moreover have "c \<le> d" "log_adds (cursor_run c d) s1 s2" using collectRecords_adds[OF batch(6)] batch(7) by simp_all
  ultimately show ?thesis using batch(7,8) assms(2) log_adds_frame(1)
    by (auto intro!: log_advancesI[of s c d s2])
qed

lemma syncFinish_advances:
  assumes "syncFinish call a cx up cp c ex s = Inr (x, t)" "rt_server_cursor (t_runtime_state s) = uint64_cell c"
  shows "log_advances s t"
proof -
  obtain s1 s2 d s3 u1 u2 resp where "pruneExpiredSnapshots ex s = Inr (u1, s1)" "collectEligible (rq_Now call) up c s1 = Inr (d, s2)"
    "log_frame s2 s3" "storeReceiptAtUptime (sx_deviceID cx) ''sync'' (rq_RequestID call) (sx_fingerprint cx) resp (rq_Now call) up s3 = Inr (u2, t)"
    using assms(1) unfolding syncFinish_def
    by (auto simp: result_simps simp del: shrinkResponse.simps) (blast intro: frame.rel_raiseReturned)
  moreover from this have "log_frame s s1" "log_frame s3 t"
    using frame.rel_pruneExpiredSnapshots frame.rel_storeReceiptAtUptime by (blast dest: tx_relD)+
  moreover from this have "log_advances s1 s2"
    using collectEligible_advances calculation(2) assms(2) by (simp add: log_frame_def)
  ultimately show ?thesis by (meson log_advances_frame log_advances_trans)
qed

lemma syncFirst_replay: "syncFirst i e call r a k s = Inr (Inl oc, t) \<Longrightarrow> t = s"
  by (auto simp: syncFirst_def result_simps split: sum.splits) (metis old.sum.exhaust)

interpretation advances: store_relation log_advances
proof
  show "tx_rel log_advances (enrollmentLookupTx ident ep ereq gh th fp now)" for ident ep ereq gh th fp now
    by (intro advances_of_frame frame_enrollmentLookupTx)
  show "tx_rel log_advances (rotationTx ident call treq tok ph nh fp)" for ident call treq tok ph nh fp
    by (intro advances_of_frame frame_rotationTx)
  show "log_advances s s1" if "syncFirst ident ep call sreq a k s = Inr (Inl oc, s1)" for ident ep call sreq a k s oc s1
    using syncFirst_replay[OF that] by (simp add: advances.refl_rel)
  show "log_advances s s2" if "length (syq_Mutations sreq) \<le> maxMutations"
    "syncFirst ident ep call sreq a k s = Inr (Inr (cx, up, cp, cur, ex), s1)"
    "syncFinish call a cx up cp cur ex s1 = Inr (x, s2)" for ident ep call sreq a k s cx up cp cur ex s1 x s2
    using syncFirst_advances[OF that(2,1)] syncFinish_advances[OF that(3)] by (blast intro: log_advances_trans)
  show "log_advances s (s\<lparr>t_runtime_state := t_runtime_state s\<lparr>rt_active_boot_id := bid\<rparr>\<rparr>)" for s bid
    by (simp add: log_advances_def log_frame_def)
qed (fact advances_putEnvelopeTx advances_enrollTx advances_revokeTx)+

end
