(* ===== verification/WireLaws.thy ===== *)
theory WireLaws
  imports Server
begin

text \<open>
  What the server writes it can read back. \<open>wire_bound\<close> bounds the length of a marshalled value, every
  validated string of a message is ASCII, and so a validated message satisfies the hypotheses of the
  round trips of \<open>JsonLaws\<close> and \<open>Messages\<close>.
\<close>

section \<open>The length of a body\<close>

fun wire_bound :: "gval \<Rightarrow> nat" where
  "wire_bound (GString s) = 6 * length s + 2"
| "wire_bound (GBool b) = 5"
| "wire_bound (GInt i) = length (FormatInt i)"
| "wire_bound (GPtr None) = 4"
| "wire_bound (GPtr (Some v)) = wire_bound v"
| "wire_bound (GSlice None) = 4"
| "wire_bound (GSlice (Some vs)) = 2 + sum_list (map (\<lambda>v. wire_bound v + 1) vs)"
| "wire_bound (GStruct fs) = 2 + sum_list (map (\<lambda>(n, v). 6 * length n + wire_bound v + 4) fs)"

lemma length_escape_string: "length (escape_string s) \<le> 6 * length s"
proof (induction s rule: escape_string.induct)
  case (1 s)
  show ?case
  proof (cases s)
    case Nil
    then show ?thesis by (simp add: escape_string.simps)
  next
    case (Cons c cs)
    consider "byte_in 0 127 c" | "\<not> byte_in 0 127 c" "rune_size s = 0"
      | "\<not> byte_in 0 127 c" "rune_size s \<noteq> 0" "take 3 s = utf8_rune 8232 \<or> take 3 s = utf8_rune 8233"
      | "\<not> byte_in 0 127 c" "rune_size s \<noteq> 0" "take 3 s \<noteq> utf8_rune 8232" "take 3 s \<noteq> utf8_rune 8233" by blast
    then show ?thesis
    proof cases
      case 1
      then show ?thesis using "1.IH"(1)[OF Cons 1] Cons
        by (subst escape_string.simps) (simp add: escape_byte_def)
    next
      case 2
      then show ?thesis using "1.IH"(2)[OF Cons 2] Cons by (subst escape_string.simps) simp
    next
      case 3
      then have "length (take 3 s) = length (utf8_rune 8232) \<or> length (take 3 s) = length (utf8_rune 8233)" by metis
      then have "3 \<le> length s" by (auto simp: utf8_rune_def)
      moreover have "length (escape_string (drop 3 s)) \<le> 6 * (length s - 3)"
        using 3 "1.IH"(3,4)[OF Cons] by (cases "take 3 s = utf8_rune 8232") auto
      ultimately show ?thesis using 3 Cons by (subst escape_string.simps) auto
    next
      case 4
      then show ?thesis using "1.IH"(5)[OF Cons 4] Cons rune_size_le[of s]
        by (subst escape_string.simps) auto
    qed
  qed
qed

lemma length_quote_string: "length (quote_string s) \<le> 6 * length s + 2"
  using length_escape_string[of s] by (simp add: quote_string_def)

lemma length_comma_sep: "length (comma_sep xs) \<le> sum_list (map (\<lambda>x. length x + 1) xs)"
  by (induction xs rule: comma_sep.induct) auto

lemma length_marshal: "length (marshal v) \<le> wire_bound v"
proof (induction v rule: wire_bound.induct)
  case (7 vs)
  have "sum_list (map (\<lambda>v. length (marshal v) + 1) vs) \<le> sum_list (map (\<lambda>v. wire_bound v + 1) vs)"
    using 7 by (intro sum_list_mono) auto
  then show ?case using length_comma_sep[of "map marshal vs"] by (simp add: comp_def)
next
  case (8 fs)
  have "sum_list (map (\<lambda>(n, v). length (quote_string n @ CHR '':'' # marshal v) + 1) fs)
      \<le> sum_list (map (\<lambda>(n, v). 6 * length n + wire_bound v + 4) fs)"
  proof (intro sum_list_mono, clarsimp)
    fix n v assume "(n, v) \<in> set fs"
    then show "length (quote_string n) + length (marshal v) \<le> Suc (Suc (6 * length n + wire_bound v))"
      using 8[OF \<open>(n, v) \<in> set fs\<close> refl] length_quote_string[of n] by linarith
  qed
  then show ?case using length_comma_sep[of "map (\<lambda>(n, v). quote_string n @ CHR '':'' # marshal v) fs"]
    by (simp add: comp_def case_prod_unfold)
qed (auto simp: length_quote_string[simplified])

section \<open>Validated strings\<close>

abbreviation ascii :: "bytes \<Rightarrow> bool" where
  "ascii \<equiv> list_all (byte_in 0 127)"

lemma ascii_EncodeToString: "ascii (EncodeToString b)"
  by (auto simp: list_all_iff EncodeToString_sextets b64_char_def byte_in_def of_char_of dest: sextets_less)

lemma length_EncodeToString: "length (EncodeToString b) \<le> 2 * length b"
proof -
  have "length (sextets b) \<le> 2 * length b" by (induction b rule: sextets.induct) (auto simp: Let_def)
  then show ?thesis by (simp add: EncodeToString_sextets)
qed

lemma ascii_FormatUint: "ascii (FormatUint n)"
  using FormatUint_digits[of n] by (auto simp: list_all_iff is_digit_def byte_in_def)

lemma length_FormatUint: "n < 10 ^ Suc k \<Longrightarrow> length (FormatUint n) \<le> Suc k"
proof (induction k arbitrary: n)
  case 0
  then show ?case by (simp add: FormatUint.simps)
next
  case (Suc k)
  then show ?case using Suc.IH[of "n div 10"] by (subst FormatUint.simps) (auto simp: less_mult_imp_div_less)
qed

lemma ascii_encodeUint64Text: "ascii (encodeUint64Text v)"
  by (simp add: encodeUint64Text_def ascii_FormatUint)

lemma length_encodeUint64Text: "length (encodeUint64Text v) \<le> 20"
proof -
  have "unat v < 10 ^ Suc 19" using unsigned_less[of v, where ?'a = nat] by simp
  then show ?thesis using length_FormatUint[of "unat v" 19] by (simp add: encodeUint64Text_def)
qed

lemma ascii_hexEncode: "ascii (hexEncode b)"
proof (induction b)
  case (Cons c b)
  have "(of_char c :: nat) div 16 < 16" using of_char_less_256[of c] by (simp add: div_less_iff_less_mult)
  then show ?case using Cons by (simp add: hex_char_ascii)
qed simp

lemma ascii_uuid: "validateUUID s \<Longrightarrow> ascii s"
  by (auto simp: validateUUID_def Parse_eq_Some Format_def ascii_hexEncode byte_in_def)

lemmas wire_rules = ascii_EncodeToString length_EncodeToString ascii_encodeUint64Text length_encodeUint64Text ascii_uuid validateUUID_length
  utf8_Valid_ascii

section \<open>Vectors\<close>

text \<open>Strings without special characters are written as they are, so the length of a vector is exact.\<close>

lemma html_safe_ascii: "html_safe c \<Longrightarrow> byte_in 0 127 c"
  by (simp add: html_safe_def byte_in_def)

lemma escape_string_plain: "list_all html_safe s \<Longrightarrow> escape_string s = s"
  by (induction s) (simp_all add: escape_string.simps[of "_ # _"] escape_string.simps[of "[]"] escape_byte_def html_safe_ascii)

lemma plain_quote: "list_all html_safe s \<Longrightarrow> length (quote_string s) = length s + 2"
  by (simp add: quote_string_def escape_string_plain)

lemma html_safe_digit: "is_digit c \<Longrightarrow> html_safe c"
  by (auto simp: is_digit_def html_safe_def byte_in_def)

lemma html_safe_hex: "d < 16 \<Longrightarrow> html_safe (hex_char d)"
  by (auto simp: hex_char_def html_safe_def byte_in_def of_char_of simp flip: of_char_inj)

lemma plain_hexEncode: "list_all html_safe (hexEncode b)"
proof (induction b)
  case (Cons c b)
  have "(of_char c :: nat) div 16 < 16" using of_char_less_256[of c] by (simp add: div_less_iff_less_mult)
  then show ?case using Cons by (simp add: html_safe_hex)
qed simp

lemma plain_uuid: "validateUUID s \<Longrightarrow> list_all html_safe s"
  by (auto simp: validateUUID_def Parse_eq_Some Format_def plain_hexEncode html_safe_def byte_in_def)

lemma text_chars_uuid: "validateUUID s \<Longrightarrow> text_chars s = 36"
proof -
  assume u: "validateUUID s"
  have "c \<noteq> CHR 0x00 \<and> \<not> byte_in 128 191 c" if "c \<in> set s" for c
  proof -
    have "byte_in 32 127 c" using plain_uuid[OF u] that by (simp add: list_all_iff html_safe_def)
    then show ?thesis by (cases "c = CHR 0x00") (simp_all add: byte_in_def)
  qed
  then have "filter (\<lambda>c. \<not> byte_in 128 191 c) (takeWhile (\<lambda>c. c \<noteq> CHR 0x00) s) = s"
    by (simp add: takeWhile_eq_all_conv[THEN iffD2] filter_id_conv)
  then show ?thesis using validateUUID_length[OF u] by (simp only: text_chars_def)
qed

lemma plain_encodeUint64Text: "list_all html_safe (encodeUint64Text v)"
  using FormatUint_digits by (auto simp: encodeUint64Text_def list_all_iff html_safe_digit)

lemma length_vectorEntry:
  assumes "validateUUID (fst p)" shows "length (marshal (to_vectorEntry (entry_of p))) \<le> 85"
proof -
  have "length (quote_string ''device_id'') = 11" "length (quote_string ''counter'') = 9"
    by (simp_all add: plain_quote html_safe_def byte_in_def)
  then show ?thesis
    using assms length_encodeUint64Text[of "snd p"]
    by (simp add: to_vectorEntry_def entry_of_def plain_quote plain_uuid plain_encodeUint64Text validateUUID_length)
qed

lemma length_comma_sep_bound: "(\<And>x. x \<in> set xs \<Longrightarrow> length x \<le> k) \<Longrightarrow> length (comma_sep xs) \<le> length xs * (k + 1) - 1"
proof (induction xs rule: comma_sep.induct)
  case (3 x y r)
  then have "length x \<le> k" "length (comma_sep (y # r)) \<le> length (y # r) * (k + 1) - 1" by simp_all
  then show ?case by simp
qed auto

text \<open>The bound on stored vectors is enough for every valid one.\<close>

lemma valid_vector_wire:
  assumes "validateVector es = Some v"
  shows "length (marshal (GSlice (Some (map to_vectorEntry es)))) \<le> maxVectorBytes"
    and "json_Unmarshal (TSlice T_vectorEntry) (marshal (GSlice (Some (map to_vectorEntry es)))) = Some (GSlice (Some (map to_vectorEntry es)))"
proof -
  have v: "length v \<le> 64" "v \<noteq> []" "vector_ok v" "es = map entry_of v"
    using assms by (auto simp: validateVector_eq_Some maxVectorEntries_def)
  have ok: "validateUUID (fst p)" if "p \<in> set v" for p using v(3) that by (auto simp: vector_ok_def)
  have "length (comma_sep (map (marshal \<circ> to_vectorEntry) es)) \<le> length (map (marshal \<circ> to_vectorEntry) es) * (85 + 1) - 1"
    using length_vectorEntry ok v(4) by (intro length_comma_sep_bound) auto
  also have "\<dots> \<le> 64 * (85 + 1) - 1" using v(1,4) by simp
  finally show "length (marshal (GSlice (Some (map to_vectorEntry es)))) \<le> maxVectorBytes"
    by (simp add: maxVectorBytes_def maxVectorEntries_def comp_def)
  have "text_ok (to_vectorEntry (entry_of p))" if "p \<in> set v" for p
    using ok[OF that] by (simp add: to_vectorEntry_def entry_of_def utf8_Valid_ascii ascii_uuid ascii_encodeUint64Text byte_in_def)
  then have "text_ok (GSlice (Some (map to_vectorEntry es)))" using v(4) by (simp add: list_all_iff)
  moreover have "has_type (TSlice T_vectorEntry) (GSlice (Some (map to_vectorEntry es)))"
    by (simp add: vectorEntry_codec.typed list_all_iff)
  ultimately show "json_Unmarshal (TSlice T_vectorEntry) (marshal (GSlice (Some (map to_vectorEntry es)))) = Some (GSlice (Some (map to_vectorEntry es)))"
    using vectorEntry_codec.shape by (simp only: json_Unmarshal_def parse_json_marshal option.case) (intro unmarshal_json_of, auto)
qed

section \<open>A validated envelope\<close>

definition identity_ok :: "Identity \<Rightarrow> bool" where
  "identity_ok identity \<longleftrightarrow> validateUUID (id_InstanceID identity) \<and> validateUUID (id_VaultID identity)"

lemma base64_wire: "decodeBase64 s (numeral n) 0 0 \<noteq> None \<Longrightarrow> ascii s \<and> length s \<le> 2 * numeral n"
proof -
  assume "decodeBase64 s (numeral n) 0 0 \<noteq> None"
  then obtain b where "s = EncodeToString b" "length b = numeral n" using decodeBase64_exact[of s "numeral n" 0 0] by auto
  then show ?thesis using ascii_EncodeToString[of b] length_EncodeToString[of b] by simp
qed

lemma valid_envelope_wire:
  assumes "validateEnvelope e identity = Some g" "identity_ok identity"
  shows "text_ok (to_vaultEnvelope e)" "envelope_bounded e" "length (marshal (to_vaultEnvelope e)) \<le> maxBodyBytes"
proof -
  have v: "env_ProtocolVersion e = ''1''" "env_CryptoSuite e = cryptoSuite" "validateUUID (env_InstanceID e)" "validateUUID (env_VaultID e)"
    "\<exists>x. env_EnvelopeGeneration e = encodeUint64Text x" "\<exists>x. env_InstanceSecretGeneration e = encodeUint64Text x"
    "decodeBase64 (env_HKDFSalt e) 32 0 0 \<noteq> None" "decodeBase64 (env_Nonce e) 24 0 0 \<noteq> None" "decodeBase64 (env_WrappedVMK e) 48 0 0 \<noteq> None"
    "argon2_profile e"
    using assms by (auto simp: validateEnvelope_def identity_ok_def ProtocolMajor_def parseUint64_eq_Some split: if_splits option.splits)
  then obtain x y where xy: "env_EnvelopeGeneration e = encodeUint64Text x" "env_InstanceSecretGeneration e = encodeUint64Text y" by blast
  note b = base64_wire[OF v(7)] base64_wire[OF v(8)] base64_wire[OF v(9)]
  have mode: "env_Mode e = ''base'' \<and> env_Argon2 e = None \<or> env_Mode e = ''passphrase'' \<and> (\<exists>a. env_Argon2 e = Some a \<and> ap_Version a = 19
      \<and> ap_MemoryKiB a = 65536 \<and> ap_Iterations a = 3 \<and> ap_Parallelism a = 1 \<and> ap_OutputLength a = 32 \<and> ascii (ap_Salt a) \<and> length (ap_Salt a) \<le> 32)"
    using v(10) base64_wire by (force simp: argon2_profile_def split: if_splits option.splits)
  show "envelope_bounded e" using mode by (auto simp: envelope_bounded_def argon2_bounded_def int64_def)
  show "text_ok (to_vaultEnvelope e)"
    using v mode b by (auto simp: to_vaultEnvelope_def to_argon2Parameters_def xy wire_rules cryptoSuite_def byte_in_def)
  have "wire_bound (to_vaultEnvelope e) \<le> 20000"
    using v mode b length_encodeUint64Text[of x] length_encodeUint64Text[of y]
    by (auto simp: to_vaultEnvelope_def to_argon2Parameters_def xy validateUUID_length cryptoSuite_def FormatInt_def FormatUint.simps)
  then show "length (marshal (to_vaultEnvelope e)) \<le> maxBodyBytes"
    using length_marshal[of "to_vaultEnvelope e"] by (simp add: maxBodyBytes_def)
qed

end
