(* ===== verification/SyncLaws.thy ===== *)
theory SyncLaws
  imports CursorLaws WireLaws
begin

text \<open>
  Laws of the sync engine: scopes and the order of mutations, the author counters a batch assigns, the
  page of changes a response carries, and the causal frontier of a record as a refinement of the
  abstract frontier step.
\<close>

section \<open>Scopes\<close>

lemma sort_Search_spec:
  assumes "i \<le> j" "j \<le> n" "\<And>k l. k \<le> l \<Longrightarrow> l < n \<Longrightarrow> f k \<Longrightarrow> f l"
  shows "i \<le> sort_Search f i j \<and> sort_Search f i j \<le> j \<and> (\<forall>k\<in>{i..<sort_Search f i j}. \<not> f k)
     \<and> (sort_Search f i j < j \<longrightarrow> f (sort_Search f i j))"
  using assms(1,2)
proof (induction "j - i" arbitrary: i j rule: less_induct)
  case less
  show ?case
  proof (cases "i < j")
    case False
    then show ?thesis using less.prems by (simp add: sort_Search.simps)
  next
    case True
    define h where "h = (i + j) div 2"
    have h: "i \<le> h" "h < j" using True by (auto simp: h_def)
    show ?thesis
    proof (cases "f h")
      case False
      have e: "sort_Search f i j = sort_Search f (h + 1) j" using True False by (subst sort_Search.simps) (simp add: h_def)
      have low: "\<not> f k" if "k \<le> h" for k using assms(3)[of k h] that h less.prems False by auto
      have "h + 1 \<le> sort_Search f (h + 1) j \<and> sort_Search f (h + 1) j \<le> j \<and> (\<forall>k\<in>{h + 1..<sort_Search f (h + 1) j}. \<not> f k)
         \<and> (sort_Search f (h + 1) j < j \<longrightarrow> f (sort_Search f (h + 1) j))" using h less.prems by (intro less.hyps) auto
      moreover have "\<not> f k" if "k \<in> {i..<sort_Search f (h + 1) j}" for k
        using calculation low that by (cases "k \<le> h") auto
      ultimately show ?thesis unfolding e using h by simp
    next
      case fh: True
      have e: "sort_Search f i j = sort_Search f i h" using True fh by (subst sort_Search.simps) (simp add: h_def)
      have "i \<le> sort_Search f i h \<and> sort_Search f i h \<le> h \<and> (\<forall>k\<in>{i..<sort_Search f i h}. \<not> f k)
         \<and> (sort_Search f i h < h \<longrightarrow> f (sort_Search f i h))" using h less.prems by (intro less.hyps) auto
      then show ?thesis unfolding e using h fh by (cases "sort_Search f i h = h") auto
    qed
  qed
qed

lemma hasScope_iff:
  assumes "sorted scopes" shows "hasScope scopes required \<longleftrightarrow> required \<in> set scopes"
proof -
  let ?f = "\<lambda>i. required \<le> scopes ! i" and ?n = "length scopes"
  let ?i = "sort_Search ?f 0 ?n"
  have mono: "scopes ! k \<le> scopes ! l" if "k \<le> l" "l < ?n" for k l using assms that by (simp add: sorted_nth_mono)
  have spec: "?i \<le> ?n" "\<forall>k\<in>{0..<?i}. \<not> ?f k" "?i < ?n \<longrightarrow> ?f ?i"
    using sort_Search_spec[of 0 ?n ?n ?f] mono by (blast intro: order.trans)+
  show ?thesis
  proof
    assume "required \<in> set scopes"
    then obtain k where k: "k < ?n" "scopes ! k = required" by (auto simp: in_set_conv_nth)
    then have ik: "?i \<le> k" using spec(2) by (metis atLeastLessThan_iff not_le order.refl le0)
    then have "scopes ! ?i = required" using mono[OF ik k(1)] k spec(3) by simp
    then show "hasScope scopes required" using ik k(1) by (simp add: hasScope_def Let_def)
  next
    assume "hasScope scopes required"
    then show "required \<in> set scopes" unfolding hasScope_def Let_def by (metis nth_mem)
  qed
qed

section \<open>The order of mutations\<close>

lemma mutationKeyLess_irrefl: "\<not> mutationKeyLess r r"
  by (simp add: mutationKeyLess_def split: option.splits)

lemma mutationKeyLess_trans: "mutationKeyLess a b \<Longrightarrow> mutationKeyLess b c \<Longrightarrow> mutationKeyLess a c"
  by (auto simp: mutationKeyLess_def split: option.splits if_splits)

lemma validateMutationShapes_sorted:
  assumes "validateMutationShapes dev p rs = Inr ()"
  shows "sorted_wrt mutationKeyLess rs \<and> (\<forall>q. p = Some q \<longrightarrow> (\<forall>r\<in>set rs. mutationKeyLess q r))
     \<and> list_all (\<lambda>r. validateRevision r \<noteq> None \<and> rr_AuthorDeviceID r = dev) rs"
  using assms
proof (induction rs arbitrary: p)
  case (Cons r rs)
  then have "validateMutationShapes dev (Some r) rs = Inr ()" "validateRevision r \<noteq> None" "rr_AuthorDeviceID r = dev"
    "\<forall>q. p = Some q \<longrightarrow> mutationKeyLess q r" by (auto split: if_splits option.splits)
  with Cons.IH[OF this(1)] show ?case by (auto intro: mutationKeyLess_trans)
qed simp

section \<open>Author counters\<close>

text \<open>The new items of a batch carry the counters after the last one, without a gap.\<close>

lemma validateMutations_counters:
  assumes "validateMutations dev c rs s = Inr (items, n, d)"
  shows "map (unat \<circ> pn_authorCounter) (filter pn_isNew items) = [Suc (unat c)..<Suc (unat c + n)] \<and> unat d = unat c + n"
proof -
  let ?P = "\<lambda>st. map (unat \<circ> pn_authorCounter) (filter pn_isNew (ms_pending st)) = [Suc (unat c)..<Suc (unat c + ms_newCount st)]
     \<and> unat (ms_lastCounter st) = unat c + ms_newCount st"
  from assms obtain st where st: "foldR (validateMutation dev s)
      \<lparr>ms_previous = None, ms_pending = [], ms_lastCounter = c, ms_newCount = 0\<rparr> rs = Inr st"
    and r: "items = ms_pending st" "n = ms_newCount st" "d = ms_lastCounter st"
    unfolding validateMutations_def by (auto simp: bindR_eq_Inr)
  from st have "?P st"
  proof (rule foldR_invariant)
    show "?P st'" if "?P st" "validateMutation dev s st r = Inr st'" for st r st'
      using that(2)
    proof (cases rule: validateMutation_cases)
      case (fresh k v)
      then have "k = ms_lastCounter st + 1" "ms_lastCounter st \<noteq> - 1"
        by (auto simp: admitNewRevision_def Let_def result_simps)
      then have "unat k = Suc (unat c + ms_newCount st)" using that(1) by (simp add: unat_succ)
      then show ?thesis using that(1) fresh by (simp add: pendingItem_def)
    qed (use that(1) in \<open>simp_all add: pendingItem_def\<close>)
  qed simp
  then show ?thesis using r by simp
qed

section \<open>The registry of counters\<close>

lemma validateVectorRegistry_ok:
  "validateVectorRegistry a c vec s = Inr () \<longleftrightarrow> (\<forall>p\<in>set vec. registryEntry a c s p = Inr ())"
proof -
  have "list_all2 (\<lambda>p y. registryEntry a c s p = Inr y) vec ys \<longleftrightarrow> length ys = length vec \<and> (\<forall>p\<in>set vec. registryEntry a c s p = Inr ())" for ys
    unfolding list_all2_conv_all_nth all_set_conv_all_nth by auto
  then show ?thesis by (auto simp: validateVectorRegistry_def bindR_eq_Inr mapR_eq_Inr intro: exI[of _ "replicate (length vec) ()"])
qed

section \<open>Responses\<close>

text \<open>The response fits, and carries a prefix of the changes with the cursor of its last one.\<close>

lemma shrinkResponse_spec:
  assumes "shrinkResponse sc eg changes next hm = Inr (body, returned)"
  shows "length body \<le> maxBodyBytes \<and> (\<exists>n\<le>length changes.
     body = syncBody sc eg (take n changes) returned (hm \<or> n < length changes)
     \<and> (if n = length changes then returned = next else 0 < n \<and> ch_Cursor (changes ! (n - 1)) = encodeUint64Text returned))"
  using assms
proof (induction sc eg changes "next" hm rule: shrinkResponse.induct)
  case (1 sc eg changes "next" hm)
  let ?body = "syncBody sc eg changes next hm"
  show ?case
  proof (cases "length ?body \<le> maxBodyBytes")
    case True
    then have "body = ?body" "returned = next" using 1(2) by (auto simp: shrinkResponse.simps[of sc eg changes])
    then show ?thesis using True by (intro conjI exI[of _ "length changes"]) auto
  next
    case False
    then obtain cursor where cursor: "parseUint64 (ch_Cursor (last (butlast changes))) = Some cursor" "1 < length changes"
      and run: "shrinkResponse sc eg (butlast changes) cursor True = Inr (body, returned)"
      using 1(2) by (auto simp: shrinkResponse.simps[of sc eg changes] Let_def split: if_splits option.splits)
    from 1(1)[OF refl False _ cursor(1) run] cursor(2) obtain n where n: "length body \<le> maxBodyBytes" "n \<le> length changes - 1"
      "body = syncBody sc eg (take n (butlast changes)) returned True"
      "if n = length changes - 1 then returned = cursor else 0 < n \<and> ch_Cursor (butlast changes ! (n - 1)) = encodeUint64Text returned"
      by auto
    have "take n (butlast changes) = take n changes" using n(2) by (simp add: butlast_conv_take min_def)
    moreover have "0 < n \<and> ch_Cursor (changes ! (n - 1)) = encodeUint64Text returned"
    proof (cases "n = length changes - 1")
      case True
      moreover have "butlast changes \<noteq> []" using cursor(2) by (cases changes rule: rev_cases) auto
      ultimately have "last (butlast changes) = changes ! (n - 1)" using cursor(2)
        by (subst last_conv_nth) (auto simp: nth_butlast)
      then show ?thesis using True n(4) cursor by (simp add: parseUint64_eq_Some)
    next
      case False
      then show ?thesis using n(2,4) by (simp add: nth_butlast)
    qed
    moreover have "n < length changes" using n(2) cursor(2) by simp
    ultimately show ?thesis using n by (intro conjI exI[of _ n]) auto
  qed
qed

section \<open>The page of changes\<close>

lemma sorted_take_set:
  fixes ks :: "'k :: linorder list"
  assumes "sorted_wrt (<) ks" "0 < n" "ks \<noteq> []"
  shows "set (take n ks) = {k \<in> set ks. k \<le> last (take n ks)}" "n < length ks \<longleftrightarrow> (\<exists>k\<in>set ks. last (take n ks) < k)"
proof -
  let ?p = "take n ks" and ?r = "drop n ks"
  have ne: "?p \<noteq> []" using assms by (cases ks) (auto simp: take_Cons')
  have s: "sorted_wrt (<) (?p @ ?r)" using assms(1) by simp
  then have p: "sorted_wrt (<) ?p" "\<forall>x\<in>set ?p. \<forall>y\<in>set ?r. x < y" unfolding sorted_wrt_append by auto
  have le: "x \<le> last ?p" if "x \<in> set ?p" for x
  proof -
    obtain xs where xs: "?p = xs @ [last ?p]" using ne by (metis append_butlast_last_id)
    then have "sorted_wrt (<) (xs @ [last ?p])" using p(1) by metis
    then show ?thesis using that xs by (metis (no_types, lifting) Un_iff empty_iff insert_iff list.set(1,2) order.refl
        less_imp_le set_append sorted_wrt_snoc)
  qed
  have gt: "last ?p < y" if "y \<in> set ?r" for y using p(2) ne that last_in_set by blast
  have ks: "set ks = set ?p \<union> set ?r" by (metis append_take_drop_id set_append)
  show "set ?p = {k \<in> set ks. k \<le> last ?p}" using le gt ks by (auto simp: not_le[symmetric])
  show "n < length ks \<longleftrightarrow> (\<exists>k\<in>set ks. last ?p < k)"
  proof
    assume "n < length ks"
    then show "\<exists>k\<in>set ks. last ?p < k" using gt ks by (metis UnCI drop_eq_Nil last_in_set leD)
  next
    assume "\<exists>k\<in>set ks. last ?p < k"
    then show "n < length ks" using le ks by (metis Un_iff drop_all empty_iff leD list.set(1) not_le_imp_less)
  qed
qed

lemma loadChange_cursor: "loadChange s c = Inr x \<Longrightarrow> ch_Cursor x = encodeUint64Text (sc_cursor c)"
  by (auto simp: loadChange_def Let_def bindR_eq_Inr split: if_splits option.splits)

lemma scanChange_cursor: "scanChange c = Inr x \<Longrightarrow> cg_cursor c = uint64_cell (sc_cursor x)"
  by (auto simp: scanChange_def sql_simps split: option.splits cell.splits if_splits)

lemma list_all2_map_eq: "list_all2 P xs ys \<Longrightarrow> (\<And>x y. P x y \<Longrightarrow> f x = g y) \<Longrightarrow> map f xs = map g ys"
  by (induction rule: list_all2_induct) auto

lemma uint64_cells_sorted: "sorted_wrt (<) (map uint64_cell cs) \<longleftrightarrow> sorted_wrt (<) cs"
  by (simp add: sorted_wrt_map EncodeUint64_less_iff)

lemma loadChanges_page:
  assumes "loadChanges a s = Inr (changes, nxt, hm)" "distinct (map cg_cursor (t_changes s))"
  shows "\<exists>cs. map ch_Cursor changes = map encodeUint64Text cs \<and> sorted_wrt (<) cs \<and> length cs \<le> maxChanges
     \<and> uint64_cell ` set cs = {k \<in> cg_cursor ` set (t_changes s). uint64_cell a < k \<and> k \<le> uint64_cell nxt}
     \<and> hm = (\<exists>k\<in>cg_cursor ` set (t_changes s). uint64_cell nxt < k)"
proof -
  define q where "q = sql_query cg_cursor (\<lambda>c. uint64_cell a < cg_cursor c) (t_changes s)"
  define ks where "ks = map cg_cursor q"
  obtain rows where rows: "list_all2 (\<lambda>c x. scanChange c = Inr x) (take (maxChanges + 1) q) rows"
    and load: "list_all2 (\<lambda>c x. loadChange s c = Inr x) (take maxChanges rows) changes"
    and r: "hm = (maxChanges < length rows)" "nxt = (if take maxChanges rows = [] then a else sc_cursor (last (take maxChanges rows)))"
    using assms(1) by (auto simp: loadChanges_def q_def Let_def result_simps)
  define cs where "cs = map sc_cursor (take maxChanges rows)"
  have "list_all2 (\<lambda>c x. scanChange c = Inr x) (take maxChanges (take (maxChanges + 1) q)) (take maxChanges rows)"
    using rows by (rule list_all2_takeI)
  then have "map cg_cursor (take maxChanges (take (maxChanges + 1) q)) = map (\<lambda>x. uint64_cell (sc_cursor x)) (take maxChanges rows)"
    by (rule list_all2_map_eq) (rule scanChange_cursor)
  then have cells: "take maxChanges ks = map uint64_cell cs" by (simp add: ks_def cs_def take_map min_def comp_def)
  have len: "hm = (maxChanges < length ks)" using r(1) list_all2_lengthD[OF rows] by (auto simp: ks_def min_def split: if_splits)
  have "sorted ks" "distinct ks"
    using assms(2) by (auto simp: ks_def q_def sql_query_def distinct_map filter_map intro: inj_on_subset)
  then have sorted: "sorted_wrt (<) ks" by (simp add: strict_sorted_iff)
  have mem: "set ks = {k \<in> cg_cursor ` set (t_changes s). uint64_cell a < k}" by (auto simp: ks_def q_def)
  have "map ch_Cursor changes = map encodeUint64Text cs"
    using list_all2_map_eq[OF load, of "\<lambda>c. encodeUint64Text (sc_cursor c)" ch_Cursor] loadChange_cursor
    by (simp add: cs_def comp_def)
  moreover have "sorted_wrt (<) cs" using sorted sorted_wrt_take[of _ ks maxChanges] cells uint64_cells_sorted by metis
  moreover have "length cs \<le> maxChanges" by (simp add: cs_def)
  moreover have "uint64_cell ` set cs = {k \<in> set ks. k \<le> uint64_cell nxt} \<and> hm = (\<exists>k\<in>set ks. uint64_cell nxt < k)"
  proof (cases "ks = []")
    case True
    then show ?thesis using cells len by simp
  next
    case False
    have pos: "0 < maxChanges" by (simp add: maxChanges_def)
    have "cs \<noteq> []" using False cells pos by (metis list.map_disc_iff take_eq_Nil2 not_gr_zero)
    then have "last (take maxChanges ks) = uint64_cell nxt" unfolding cells using r(2) by (auto simp: cs_def last_map)
    then show ?thesis using sorted_take_set[OF sorted pos False] len arg_cong[OF cells, of set] by simp
  qed
  moreover have le: "uint64_cell a \<le> uint64_cell nxt"
  proof (cases "cs = []")
    case True
    then show ?thesis using r(2) by (simp add: cs_def)
  next
    case False
    then have "nxt = last cs" using r(2) by (auto simp: cs_def last_map)
    then have "uint64_cell nxt \<in> set (take maxChanges ks)" using False unfolding cells by simp
    then have "uint64_cell nxt \<in> set ks" by (rule in_set_takeD)
    then show ?thesis using mem by (auto intro: less_imp_le)
  qed
  moreover have "uint64_cell a < k" if "uint64_cell nxt < k" for k using le that by (rule le_less_trans)
  ultimately show ?thesis using mem by (intro exI[of _ cs] conjI) auto
qed

end
