(* ===== verification/FrontierLaws.thy ===== *)
theory FrontierLaws
  imports SyncLaws
begin

text \<open>
  The causal frontier of a record. \<open>frontier\<close> abstracts the heads of a record in the database to a set of
  revisions with their vectors; accepting a revision refines the abstract step of \<open>causal_order\<close>: the new
  revision replaces the heads it dominates, and becomes a head unless one dominates it. An antichain stays
  an antichain.
\<close>

section \<open>The abstraction\<close>

definition headVector :: "cell \<Rightarrow> record_revisions_row list \<Rightarrow> (bytes \<times> vector) option" where
  "headVector k rows =
     (case find (\<lambda>r. rv_revision_id r = k) rows of
        None \<Rightarrow> None
      | Some r \<Rightarrow> (case scanVector r of Inl _ \<Rightarrow> None | Inr p \<Rightarrow> Some p))"

definition frontier :: "bytes \<Rightarrow> db \<Rightarrow> (bytes \<times> vector) set" where
  "frontier recordID s = {p. \<exists>h\<in>set (t_record_heads s). rh_record_id h = CText recordID
     \<and> headVector (rh_revision_id h) (t_record_revisions s) = Some p}"

definition frontier_step :: "bytes \<Rightarrow> vector \<Rightarrow> (bytes \<times> vector) set \<Rightarrow> (bytes \<times> vector) set" where
  "frontier_step i v F = {p \<in> F. \<not> vectorDominates v (snd p)} \<union> (if \<exists>p\<in>F. vectorDominates (snd p) v then {} else {(i, v)})"

definition antichain_set :: "(bytes \<times> vector) set \<Rightarrow> bool" where
  "antichain_set F \<longleftrightarrow> (\<forall>p\<in>F. \<forall>q\<in>F. \<not> vectorDominates (snd p) (snd q))"

lemma frontier_step_antichain:
  assumes "antichain_set F" "\<forall>p\<in>F. vector_ok (snd p)" "vector_ok v"
  shows "antichain_set (frontier_step i v F)"
  using assms vectors.irrefl[of v] unfolding antichain_set_def frontier_step_def by (fastforce split: if_splits)

lemma frontier_step_covers:
  assumes "p \<in> F" "p \<notin> frontier_step i v F" "\<forall>p\<in>F. vector_ok (snd p)" "vector_ok v"
  shows "\<exists>q\<in>frontier_step i v F. vectorDominates (snd q) (snd p)"
proof (cases "\<exists>q\<in>F. vectorDominates (snd q) v")
  case False
  then show ?thesis using assms by (auto simp: frontier_step_def)
next
  case True
  then obtain q where q: "q \<in> F" "vectorDominates (snd q) v" by blast
  have "vectorDominates v (snd p)" using assms(1,2) by (auto simp: frontier_step_def)
  then have "vectorDominates (snd q) (snd p)" using vectors.trans[of "snd q" v "snd p"] q assms by blast
  moreover have "q \<in> frontier_step i v F" using q vectors.asym[of "snd q" v] assms(3,4) by (auto simp: frontier_step_def)
  ultimately show ?thesis by blast
qed

section \<open>Reading heads\<close>

lemma scanVector_eq:
  "scanVector r = Inr (i, v) \<Longrightarrow> rv_revision_id r = CText i \<and> validateUUID i \<and> vector_ok v"
  by (auto simp: scanVector_def sql_simps validateVector_eq_Some split: option.splits)

lemma headVector_eq: "headVector k rows = Some (i, v) \<Longrightarrow> k = CText i \<and> vector_ok v"
  by (auto simp: headVector_def split: option.splits sum.splits dest!: scanVector_eq find_SomeD)

lemma frontier_ok: "p \<in> frontier recordID s \<Longrightarrow> vector_ok (snd p)"
  by (cases p) (auto simp: frontier_def dest: headVector_eq)

lemma frontier_headVector: "p \<in> frontier recordID s \<Longrightarrow> headVector (CText (fst p)) (t_record_revisions s) = Some p"
proof -
  assume "p \<in> frontier recordID s"
  then obtain k where k: "headVector k (t_record_revisions s) = Some p" by (auto simp: frontier_def)
  then have "k = CText (fst p)" using headVector_eq[of k _ "fst p" "snd p"] by simp
  with k show ?thesis by simp
qed

lemma set_headRows: "set (headRows recordID s) = {r. \<exists>h\<in>set (t_record_heads s). rh_record_id h = CText recordID
    \<and> find (\<lambda>r. rv_revision_id r = rh_revision_id h) (t_record_revisions s) = Some r}"
  by (force simp: headRows_def map_filter_def image_iff)

lemma mapR_set: "mapR f xs = Inr ys \<Longrightarrow> set ys = {y. \<exists>x\<in>set xs. f x = Inr y} \<and> (\<forall>x\<in>set xs. \<exists>y. f x = Inr y)"
  by (induction xs arbitrary: ys) (auto simp: bindR_eq_Inr)

lemma headVector_Some: "headVector k rows = Some p \<longleftrightarrow> (\<exists>r. find (\<lambda>r. rv_revision_id r = k) rows = Some r \<and> scanVector r = Inr p)"
  by (auto simp: headVector_def split: option.splits sum.splits)

lemma frontier_headRows: "{p. \<exists>r\<in>set (headRows recordID s). scanVector r = Inr p} = frontier recordID s"
  unfolding frontier_def headVector_Some set_headRows by blast

lemma classify_spec:
  assumes "classifyRevisionFrontier recordID v s = Inr (undominated, dominated)"
  shows "undominated \<longleftrightarrow> \<not> (\<exists>p\<in>frontier recordID s. vectorDominates (snd p) v)"
    and "set dominated = fst ` {p \<in> frontier recordID s. vectorDominates v (snd p)}"
proof -
  obtain heads where heads: "mapR scanVector (take 33 (headRows recordID s)) = Inr heads" "length heads \<le> 32"
    and r: "undominated = (\<not> list_ex (\<lambda>(_, vec). vectorDominates vec v) heads)"
      "dominated = map fst (filter (\<lambda>(_, vec). vectorDominates v vec) heads)"
    using assms by (auto simp: classifyRevisionFrontier_def bindR_eq_Inr split: if_splits)
  have "take 33 (headRows recordID s) = headRows recordID s"
    using heads mapR_length[OF heads(1)] by (auto simp: min_def split: if_splits)
  then have "set heads = {p. \<exists>r\<in>set (headRows recordID s). scanVector r = Inr p}" using mapR_set[OF heads(1)] by simp
  then have "set heads = frontier recordID s" by (simp only: frontier_headRows)
  then show "undominated \<longleftrightarrow> \<not> (\<exists>p\<in>frontier recordID s. vectorDominates (snd p) v)"
    "set dominated = fst ` {p \<in> frontier recordID s. vectorDominates v (snd p)}"
    using r by (auto simp: list_ex_iff case_prod_unfold)
qed

section \<open>Superseding heads\<close>

definition same_revision :: "record_revisions_row \<Rightarrow> record_revisions_row \<Rightarrow> bool" where
  "same_revision r r' \<longleftrightarrow> rv_revision_id r' = rv_revision_id r \<and> rv_vector_json r' = rv_vector_json r"

lemma headVector_same: "list_all2 same_revision xs ys \<Longrightarrow> headVector k ys = headVector k xs"
  by (induction rule: list_all2_induct) (auto simp: headVector_def same_revision_def scanVector_def)

lemma same_revision_set: "(\<And>r. same_revision r (f r)) \<Longrightarrow> list_all2 same_revision rows (sql_set p f rows)"
  by (auto simp: sql_set_def list_all2_conv_all_nth same_revision_def)

lemma forT_supersedeHead:
  assumes "forT (supersedeHead recordID) ds s = Inr (u, t)"
  shows "list_all2 same_revision (t_record_revisions s) (t_record_revisions t)"
    and "set (t_record_heads t) = {h \<in> set (t_record_heads s). rh_record_id h = CText recordID \<longrightarrow> rh_revision_id h \<notin> CText ` set ds}"
proof -
  have "list_all2 same_revision (t_record_revisions s) (t_record_revisions t) \<and>
     set (t_record_heads t) = {h \<in> set (t_record_heads s). rh_record_id h = CText recordID \<longrightarrow> rh_revision_id h \<notin> CText ` set ds}"
    using assms
  proof (induction ds arbitrary: s)
    case Nil
    then show ?case by (auto simp: result_simps same_revision_def list_all2_refl)
  next
    case (Cons d ds)
    then obtain s1 where s1: "supersedeHead recordID d s = Inr ((), s1)" "forT (supersedeHead recordID) ds s1 = Inr (u, t)"
      by (auto simp: result_simps)
    have "list_all2 same_revision (t_record_revisions s) (t_record_revisions s1)"
      "set (t_record_heads s1) = {h \<in> set (t_record_heads s). \<not> (rh_record_id h = CText recordID \<and> rh_revision_id h = CText d)}"
      using s1(1) by (auto simp: supersedeHead_def result_simps same_revision_def intro!: same_revision_set)
    moreover have "list_all2 same_revision xs zs" if "list_all2 same_revision xs ys" "list_all2 same_revision ys zs" for xs ys zs
      using that by (auto simp: list_all2_conv_all_nth same_revision_def)
    ultimately show ?case using Cons.IH[OF s1(2)] by auto
  qed
  then show "list_all2 same_revision (t_record_revisions s) (t_record_revisions t)"
    "set (t_record_heads t) = {h \<in> set (t_record_heads s). rh_record_id h = CText recordID \<longrightarrow> rh_revision_id h \<notin> CText ` set ds}" by auto
qed

section \<open>Accepting a revision\<close>

text \<open>Every head refers to a stored revision.\<close>

definition heads_stored :: "db \<Rightarrow> bool" where
  "heads_stored s \<longleftrightarrow> rh_revision_id ` set (t_record_heads s) \<subseteq> rv_revision_id ` set (t_record_revisions s)"

lemma find_snoc: "find P (xs @ [x]) = (case find P xs of None \<Rightarrow> if P x then Some x else None | Some y \<Rightarrow> Some y)"
  by (induction xs) auto

lemma scanVector_revisionRow:
  assumes "validateRevision (pn_revision item) = Some (n, pn_vector item)"
  shows "scanVector (revisionRow item up c und now) = Inr (rr_RevisionID (pn_revision item), pn_vector item)"
proof -
  have v: "validateUUID (rr_RevisionID (pn_revision item))" "validateVector (rr_VersionVector (pn_revision item)) = Some (pn_vector item)"
    using assms by (auto simp: validateRevision_def split: if_splits option.splits)
  have "scan_body maxVectorBytes (CBlob (vectorJSON (pn_revision item))) = Some (vectorJSON (pn_revision item))"
    using valid_vector_wire(1)[OF v(2)] by (simp add: vectorJSON_def scan_body_def boundedRequiredBytes_def value_length_def Suc_le_eq)
  moreover have "unmarshalVector (vectorJSON (pn_revision item)) = Some (rr_VersionVector (pn_revision item))"
    using valid_vector_wire(2)[OF v(2)] by (simp add: unmarshalVector_def vectorJSON_def comp_def vectorEntry_codec.get_put)
  moreover have "scan_uuid (CText (rr_RevisionID (pn_revision item))) = Some (rr_RevisionID (pn_revision item))"
    using v(1) by (simp add: scan_uuid_eq)
  ultimately show ?thesis using v(2) by (simp add: scanVector_def revisionRow_def Let_def)
qed

lemma acceptRevision_heads:
  assumes "acceptRevision up now c item s = Inr (u, t)"
  obtains und dom and s1 :: db where "classifyRevisionFrontier (rr_RecordID (pn_revision item)) (pn_vector item) s = Inr (und, dom)"
    "list_all2 same_revision (t_record_revisions s) (t_record_revisions s1)"
    "set (t_record_heads s1) = {h \<in> set (t_record_heads s). rh_record_id h = CText (rr_RecordID (pn_revision item)) \<longrightarrow> rh_revision_id h \<notin> CText ` set dom}"
    "t_record_revisions t = t_record_revisions s1 @ [revisionRow item up c und now]"
    "CText (rr_RevisionID (pn_revision item)) \<notin> rv_revision_id ` set (t_record_revisions s)"
    "set (t_record_heads t) = set (t_record_heads s1) \<union> (if und
       then {\<lparr>rh_record_id = CText (rr_RecordID (pn_revision item)), rh_revision_id = CText (rr_RevisionID (pn_revision item))\<rparr>} else {})"
proof -
  let ?rec = "rr_RecordID (pn_revision item)" and ?rev = "rr_RevisionID (pn_revision item)"
  let ?row = "\<lambda>und. revisionRow item up c und now" and ?head = "\<lparr>rh_record_id = CText ?rec, rh_revision_id = CText ?rev\<rparr>"
  obtain s0 und dom u1 s1 s2 s3 s4 s5 u6 s6 s7 a3 a4 a5 where obj: "insertRevisionObject (pn_contentHash item) (pn_canonical item) s = Some s0"
    and cls: "classifyRevisionFrontier ?rec (pn_vector item) s0 = Inr (und, dom)"
    and sup: "forT (supersedeHead ?rec) dom s0 = Inr (u1, s1)" and s2: "insert_record_revisions (?row und) s1 = Some s2"
    and s3: "insert_revision_acceptance_origins a3 s2 = Some s3" and s4: "insert_collection_candidates a4 s3 = Some s4"
    and s5: "insert_record_vector_index a5 s4 = Some s5"
    and s6: "(if und then execDB (insert_record_heads ?head) else returnT ()) s5 = Inr (u6, s6)"
    and s7: "upsertCollectionRecord ?rec c s6 = Some s7" and t: "insertChange c ''record_revision'' ?rev [] [] [] 0 now s7 = Inr (u, t)"
    using assms unfolding acceptRevision_def Let_def by (auto simp: result_simps)
  have ins: "\<forall>r\<in>set (t_record_revisions s1). \<not> clash_record_revisions (?row und) r"
    and r2: "t_record_revisions s2 = t_record_revisions s1 @ [?row und]" "t_record_heads s2 = t_record_heads s1"
    using s2 by (auto simp: insert_record_revisions_def sql_simps)
  have r5: "t_record_revisions s5 = t_record_revisions s2" "t_record_heads s5 = t_record_heads s2"
    using s3 s4 s5 by (auto simp: insert_revision_acceptance_origins_def insert_collection_candidates_def insert_record_vector_index_def)
  have r6: "t_record_revisions s6 = t_record_revisions s5" "set (t_record_heads s6) = set (t_record_heads s5) \<union> (if und then {?head} else {})"
    using s6 by (auto simp: result_simps insert_record_heads_def sql_simps split: if_splits)
  have r7: "t_record_revisions t = t_record_revisions s6" "t_record_heads t = t_record_heads s6"
    using s7 t by (auto simp: upsertCollectionRecord_def insert_collection_records_def insertChange_def insertChangeOrigin_def
        insert_change_origins_def insert_changes_def result_simps split: if_splits)
  have s0: "t_record_revisions s0 = t_record_revisions s" "t_record_heads s0 = t_record_heads s"
    using obj by (auto simp: insertRevisionObject_def insert_revision_objects_def split: if_splits)
  have "classifyRevisionFrontier ?rec (pn_vector item) s = Inr (und, dom)"
    using cls s0 by (simp only: classifyRevisionFrontier_def headRows_def)
  moreover have "rv_revision_id ` set (t_record_revisions s1) = rv_revision_id ` set (t_record_revisions s)"
    using list_all2_map_eq[OF forT_supersedeHead(1)[OF sup], of rv_revision_id rv_revision_id] s0(1)
    unfolding set_map[symmetric] by (simp add: same_revision_def)
  moreover have "CText ?rev \<notin> rv_revision_id ` set (t_record_revisions s1)"
    using ins by (auto simp: clash_record_revisions_def revisionRow_def Let_def same_def)
  ultimately show ?thesis using that[of und dom s1] forT_supersedeHead[OF sup] s0 r2 r5 r6 r7 by simp
qed

lemma mem_fst_image: "CText x \<in> CText ` fst ` {p \<in> F. P p} \<longleftrightarrow> (\<exists>q\<in>F. P q \<and> fst q = x)"
  by (auto simp: image_iff)

lemma acceptRevision_frontier:
  assumes run: "acceptRevision up now c item s = Inr (u, t)"
    and valid: "validateRevision (pn_revision item) = Some (n, pn_vector item)" and stored: "heads_stored s"
  shows "frontier (rr_RecordID (pn_revision item)) t =
     frontier_step (rr_RevisionID (pn_revision item)) (pn_vector item) (frontier (rr_RecordID (pn_revision item)) s)"
    and "recordID \<noteq> rr_RecordID (pn_revision item) \<Longrightarrow> frontier recordID t = frontier recordID s"
    and "heads_stored t"
proof -
  obtain und dom and s1 :: db where 1: "classifyRevisionFrontier (rr_RecordID (pn_revision item)) (pn_vector item) s = Inr (und, dom)"
    "list_all2 same_revision (t_record_revisions s) (t_record_revisions s1)"
    "set (t_record_heads s1) = {h \<in> set (t_record_heads s). rh_record_id h = CText (rr_RecordID (pn_revision item)) \<longrightarrow> rh_revision_id h \<notin> CText ` set dom}"
    "t_record_revisions t = t_record_revisions s1 @ [revisionRow item up c und now]"
    "CText (rr_RevisionID (pn_revision item)) \<notin> rv_revision_id ` set (t_record_revisions s)"
    "set (t_record_heads t) = set (t_record_heads s1) \<union> (if und
       then {\<lparr>rh_record_id = CText (rr_RecordID (pn_revision item)), rh_revision_id = CText (rr_RevisionID (pn_revision item))\<rparr>} else {})"
    using acceptRevision_heads[OF run] .
  let ?rec = "rr_RecordID (pn_revision item)" and ?rev = "rr_RevisionID (pn_revision item)" and ?v = "pn_vector item"
  note cls = classify_spec[OF 1(1)]
  have hv: "headVector k (t_record_revisions t) = (if k = CText ?rev then Some (?rev, ?v) else headVector k (t_record_revisions s))" for k
  proof (cases "k = CText ?rev")
    case True
    then have "find (\<lambda>r. rv_revision_id r = k) (t_record_revisions s) = None" using 1(5) by (force simp: find_None_iff)
    then have "find (\<lambda>r. rv_revision_id r = k) (t_record_revisions s1) = None"
      using 1(2) by (auto simp: find_None_iff list_all2_conv_all_nth same_revision_def in_set_conv_nth)
    then show ?thesis using True 1(4) scanVector_revisionRow[OF valid]
      by (simp add: headVector_def find_snoc revisionRow_def Let_def)
  next
    case False
    then have "headVector k (t_record_revisions t) = headVector k (t_record_revisions s1)"
      using 1(4) by (auto simp: headVector_def find_snoc revisionRow_def Let_def split: option.splits)
    then show ?thesis using False headVector_same[OF 1(2)] by simp
  qed
  have old: "rh_revision_id h \<noteq> CText ?rev" if "h \<in> set (t_record_heads s)" for h
    using that stored 1(5) unfolding heads_stored_def by (metis imageI subsetD)
  have kept: "rh_revision_id h \<notin> CText ` set dom \<longleftrightarrow> \<not> vectorDominates ?v (snd p)"
    if "h \<in> set (t_record_heads s)" "rh_record_id h = CText ?rec" "headVector (rh_revision_id h) (t_record_revisions s) = Some p" for h p
  proof -
    have p: "p \<in> frontier ?rec s" "rh_revision_id h = CText (fst p)"
      using that headVector_eq[of "rh_revision_id h" _ "fst p" "snd p"] by (auto simp: frontier_def)
    have "p = q" if "q \<in> frontier ?rec s" "fst q = fst p" for q
      using frontier_headVector[OF that(1)] frontier_headVector[OF p(1)] that(2) by (metis option.inject)
    then have "(\<exists>q\<in>frontier ?rec s. vectorDominates ?v (snd q) \<and> fst q = fst p) \<longleftrightarrow> vectorDominates ?v (snd p)" using p(1) by metis
    then show ?thesis unfolding cls(2) p(2) mem_fst_image by simp
  qed
  have "frontier ?rec t = {p. \<exists>h\<in>set (t_record_heads s). rh_record_id h = CText ?rec \<and> rh_revision_id h \<notin> CText ` set dom
      \<and> headVector (rh_revision_id h) (t_record_revisions s) = Some p} \<union> (if und then {(?rev, ?v)} else {})"
    unfolding frontier_def hv 1(6) 1(3) using old by (auto split: if_splits)
  also have "{p. \<exists>h\<in>set (t_record_heads s). rh_record_id h = CText ?rec \<and> rh_revision_id h \<notin> CText ` set dom
      \<and> headVector (rh_revision_id h) (t_record_revisions s) = Some p} = {p \<in> frontier ?rec s. \<not> vectorDominates ?v (snd p)}"
    using kept unfolding frontier_def by blast
  also have "(if und then {(?rev, ?v)} else {}) = (if \<exists>p\<in>frontier ?rec s. vectorDominates (snd p) ?v then {} else {(?rev, ?v)})"
    using cls(1) by presburger
  finally show "frontier ?rec t = frontier_step ?rev ?v (frontier ?rec s)" unfolding frontier_step_def .
  show "recordID \<noteq> ?rec \<Longrightarrow> frontier recordID t = frontier recordID s"
    unfolding frontier_def 1(6) 1(3) hv using old by auto
  have "rv_revision_id ` set (t_record_revisions s1) = rv_revision_id ` set (t_record_revisions s)"
    using list_all2_map_eq[OF 1(2), of rv_revision_id rv_revision_id] unfolding set_map[symmetric] by (simp add: same_revision_def)
  then show "heads_stored t"
    using stored 1(3,4,6) by (auto simp: heads_stored_def revisionRow_def Let_def split: if_splits)
qed

end
