(* ===== verification/AntichainLaws.thy ===== *)
theory AntichainLaws
  imports FrontierLaws
begin

text \<open>
  The frontiers as an invariant of the whole store: in every reachable store the heads of a record are
  stored revisions, no one of which dominates another. Every transaction but the acceptance of new
  revisions can only drop heads; an acceptance is a \<open>frontier_step\<close>.
\<close>

section \<open>Transactions that accept nothing\<close>

definition frontier_shrinks :: "db \<Rightarrow> db \<Rightarrow> bool" where
  "frontier_shrinks s t \<longleftrightarrow> set (t_record_heads t) \<subseteq> set (t_record_heads s)
     \<and> list_all2 same_revision (t_record_revisions s) (t_record_revisions t)"

lemma same_revision_refl [simp]: "same_revision r r"
  by (simp add: same_revision_def)

lemma revision_kept_same: "revision_kept r r' \<Longrightarrow> same_revision r r'"
  by (cases r; cases r') (auto simp: revision_kept_def same_revision_def)

lemma shrinks_same:
  "t_record_heads t = t_record_heads s \<Longrightarrow> t_record_revisions t = t_record_revisions s \<Longrightarrow> frontier_shrinks s t"
  by (simp add: frontier_shrinks_def list_all2_refl)

lemma shrinks_trans: "frontier_shrinks s t \<Longrightarrow> frontier_shrinks t u \<Longrightarrow> frontier_shrinks s u"
  unfolding frontier_shrinks_def same_revision_def
  by (fastforce elim: list_all2_trans[rotated 1])

interpretation shrinks: volatile_tables frontier_shrinks
proof
  show "frontier_shrinks s t \<Longrightarrow> frontier_shrinks t u \<Longrightarrow> frontier_shrinks s u" for s t u by (rule shrinks_trans)
qed (auto simp: lease_statements intro!: shrinks_same split: if_splits)

lemma shrinks_enrollTx: "tx_rel frontier_shrinks (enrollTx i r g h f now)"
  unfolding enrollTx_def insertDeviceRows_def insertChange_def insertChangeOrigin_def setServerCursor_def Let_def
  by (intro shrinks.volatile_rules shrinks.rel_updateDB shrinks.rel_consumeGrant shrinks.rel_execDB)
    (auto simp: insert_enrollments_def insert_devices_def insert_device_origins_def insert_device_sync_state_def
       insert_change_origins_def insert_changes_def intro!: shrinks_same split: if_splits)

lemma same_revision_kept_set:
  "(\<And>r. q r \<Longrightarrow> revision_kept r (g r)) \<Longrightarrow> list_all2 same_revision rows (sql_set q g rows)"
  by (auto simp: sql_set_def list_all2_conv_all_nth intro: revision_kept_same)

interpretation shrinks: collection_relation frontier_shrinks
proof
  show "tx_rel frontier_shrinks (enrollTx ident ereq gh th fp now)" for ident ereq gh th fp now by (rule shrinks_enrollTx)
  show "frontier_shrinks s (s\<lparr>t_record_heads := sql_delete hp (t_record_heads s)\<rparr>)" for s hp
    by (auto simp: frontier_shrinks_def list_all2_refl sql_delete_def)
  show "frontier_shrinks s (s\<lparr>t_record_revisions := sql_set q g (t_record_revisions s)\<rparr>)"
    if "\<And>r. q r \<Longrightarrow> revision_kept r (g r)" for q g s
    using that by (simp add: frontier_shrinks_def same_revision_kept_set)
qed (auto simp: permanent_inserts intro!: shrinks_same)

section \<open>The invariant\<close>

definition frontiers_ok :: "db \<Rightarrow> bool" where
  "frontiers_ok s \<longleftrightarrow> heads_stored s \<and> (\<forall>recordID. antichain_set (frontier recordID s))"

definition keeps_frontiers :: "db \<Rightarrow> db \<Rightarrow> bool" where
  "keeps_frontiers s t \<longleftrightarrow> (frontiers_ok s \<longrightarrow> frontiers_ok t)"

lemma keeps_frontiers_trans: "keeps_frontiers s t \<Longrightarrow> keeps_frontiers t u \<Longrightarrow> keeps_frontiers s u"
  by (simp add: keeps_frontiers_def)

lemma shrinks_keeps:
  assumes "frontier_shrinks s t" shows "keeps_frontiers s t"
proof -
  have hv: "headVector k (t_record_revisions t) = headVector k (t_record_revisions s)" for k
    using assms headVector_same unfolding frontier_shrinks_def by blast
  have heads: "set (t_record_heads t) \<subseteq> set (t_record_heads s)" using assms by (simp add: frontier_shrinks_def)
  have "rv_revision_id ` set (t_record_revisions t) = rv_revision_id ` set (t_record_revisions s)"
    using assms list_all2_map_eq[of same_revision "t_record_revisions s" "t_record_revisions t" rv_revision_id rv_revision_id]
    unfolding set_map[symmetric] by (simp add: same_revision_def frontier_shrinks_def)
  then have "heads_stored s \<Longrightarrow> heads_stored t" using heads unfolding heads_stored_def by blast
  moreover have "frontier recordID t \<subseteq> frontier recordID s" for recordID
    using heads unfolding frontier_def hv by blast
  ultimately show ?thesis unfolding keeps_frontiers_def frontiers_ok_def antichain_set_def by blast
qed

lemma keeps_of_shrinks: "tx_rel frontier_shrinks m \<Longrightarrow> tx_rel keeps_frontiers m"
  unfolding tx_rel_def by (blast intro: shrinks_keeps)

section \<open>Acceptance\<close>

lemma validateRevision_vector: "validateRevision r = Some (n, v) \<Longrightarrow> vector_ok v"
  by (auto simp: validateRevision_def validateVector_eq_Some split: if_splits option.splits)

lemma acceptRevision_keeps:
  assumes run: "acceptRevision up now c item s = Inr (u, t)" and valid: "validateRevision (pn_revision item) = Some (n, pn_vector item)"
  shows "keeps_frontiers s t"
  unfolding keeps_frontiers_def
proof
  assume ok: "frontiers_ok s"
  note step = acceptRevision_frontier[OF run valid]
  have stored: "heads_stored s" using ok by (simp add: frontiers_ok_def)
  have "antichain_set (frontier recordID t)" for recordID
  proof (cases "recordID = rr_RecordID (pn_revision item)")
    case True
    then show ?thesis unfolding True step(1)[OF stored]
      using ok frontier_ok validateRevision_vector[OF valid] unfolding frontiers_ok_def
      by (intro frontier_step_antichain) blast+
  qed (use ok step(2)[OF stored] in \<open>simp add: frontiers_ok_def\<close>)
  then show "frontiers_ok t" using step(3)[OF stored] by (simp add: frontiers_ok_def)
qed

definition valid_item :: "pendingRevision \<Rightarrow> bool" where
  "valid_item item \<longleftrightarrow> (\<exists>n. validateRevision (pn_revision item) = Some (n, pn_vector item))"

lemma acceptRevisions_keeps:
  "acceptRevisions up now items c s = Inr (d, t) \<Longrightarrow> list_all valid_item items \<Longrightarrow> keeps_frontiers s t"
proof (induction items arbitrary: c s)
  case Nil
  then show ?case by (simp add: keeps_frontiers_def result_simps)
next
  case (Cons item items)
  show ?case
  proof (cases "pn_isNew item")
    case True
    then obtain u s1 where "acceptRevision up now (c + 1) item s = Inr (u, s1)" "acceptRevisions up now items (c + 1) s1 = Inr (d, t)"
      using Cons.prems(1) by (auto simp: result_simps)
    moreover obtain n where "validateRevision (pn_revision item) = Some (n, pn_vector item)"
      using Cons.prems(2) by (auto simp: valid_item_def)
    ultimately show ?thesis
      using keeps_frontiers_trans[OF acceptRevision_keeps Cons.IH] Cons.prems(2) by simp
  qed (use Cons in auto)
qed

text \<open>The frontier of one record after a batch: one step per new item of that record, in order.\<close>

fun frontier_run :: "bytes \<Rightarrow> pendingRevision list \<Rightarrow> (bytes \<times> vector) set \<Rightarrow> (bytes \<times> vector) set" where
  "frontier_run recordID [] F = F"
| "frontier_run recordID (item # items) F = frontier_run recordID items
     (if pn_isNew item \<and> rr_RecordID (pn_revision item) = recordID
      then frontier_step (rr_RevisionID (pn_revision item)) (pn_vector item) F else F)"

lemma acceptRevisions_frontier:
  "acceptRevisions up now items c s = Inr (d, t) \<Longrightarrow> list_all valid_item items \<Longrightarrow> heads_stored s \<Longrightarrow>
     frontier recordID t = frontier_run recordID items (frontier recordID s)"
proof (induction items arbitrary: c s)
  case Nil
  then show ?case by (simp add: result_simps)
next
  case (Cons item items)
  show ?case
  proof (cases "pn_isNew item")
    case True
    then obtain u s1 where run: "acceptRevision up now (c + 1) item s = Inr (u, s1)" "acceptRevisions up now items (c + 1) s1 = Inr (d, t)"
      using Cons.prems(1) by (auto simp: result_simps)
    obtain n where valid: "validateRevision (pn_revision item) = Some (n, pn_vector item)"
      using Cons.prems(2) by (auto simp: valid_item_def)
    note step = acceptRevision_frontier[OF run(1) valid Cons.prems(3)]
    show ?thesis using Cons.IH[OF run(2) _ step(3)] step(1) step(2)[of recordID] Cons.prems(2) True by (auto split: if_splits)
  qed (use Cons in auto)
qed

lemma validateMutation_valid:
  assumes "validateMutation dev s st r = Inr st'" "list_all valid_item (ms_pending st)"
  shows "list_all valid_item (ms_pending st')"
  using assms(1) by (rule validateMutation_cases) (use assms(2) in \<open>simp_all add: valid_item_def pendingItem_def\<close>)

lemma validateMutations_valid:
  assumes "validateMutations dev c rs s = Inr (items, n, d)" shows "list_all valid_item items"
proof -
  have "foldR (validateMutation dev s) st rs = Inr st' \<Longrightarrow> list_all valid_item (ms_pending st) \<Longrightarrow> list_all valid_item (ms_pending st')" for st st'
    by (induction rs arbitrary: st) (auto simp: bindR_eq_Inr dest: validateMutation_valid)
  then show ?thesis using assms unfolding validateMutations_def by (fastforce simp: bindR_eq_Inr)
qed

lemma syncAccept_keeps:
  assumes run: "syncAccept e now k cx s = Inr (x, t)" and items: "list_all valid_item (sx_pending cx)"
  shows "keeps_frontiers s t"
proof -
  obtain up cp s1 s2 d where s1: "checkpointUptimeTx e now s = Inr ((up, cp), s1)"
    and s2: "acceptRevisions up now (sx_pending cx) (sx_serverCursor cx) s1 = Inr (d, s2)"
    and t: "t_record_heads t = t_record_heads s2" "t_record_revisions t = t_record_revisions s2"
    using run unfolding syncAccept_def
    by (cases "sx_newCount cx = 0") (auto simp: result_simps setServerCursor_def setDevice_def)
  show ?thesis
    using shrinks_keeps[OF tx_relD[OF shrinks.rel_checkpointUptimeTx s1]] acceptRevisions_keeps[OF s2 items]
      shrinks_keeps[OF shrinks_same[OF t]] by (blast intro: keeps_frontiers_trans)
qed

lemma syncFirst_keeps:
  assumes "syncFirst i e call r a k s = Inr (Inr (cx, up, cp, cur, ex), t)"
  shows "keeps_frontiers s t"
proof -
  have cx: "syncAdmit i call r a k s = Inr (Inr cx)" and acc: "syncAccept e (rq_Now call) k cx s = Inr ((up, cp, cur), t)"
    using assms unfolding syncFirst_def by (auto simp: result_simps split: sum.splits) (metis sum.exhaust)+
  have "list_all valid_item (sx_pending cx)"
    using cx by (auto simp: syncAdmit_def Let_def result_simps split: option.splits dest!: validateMutations_valid)
  then show ?thesis using syncAccept_keeps[OF acc] by blast
qed

interpretation frontiers: store_relation keeps_frontiers
proof
  show "keeps_frontiers s t \<Longrightarrow> keeps_frontiers t u \<Longrightarrow> keeps_frontiers s u" for s t u by (rule keeps_frontiers_trans)
  show "keeps_frontiers s s1" if "syncFirst ident ep call sreq a k s = Inr (Inl oc, s1)" for ident ep call sreq a k s oc s1
    using syncFirst_replay[OF that] by (simp add: keeps_frontiers_def)
  show "keeps_frontiers s s2" if "syncFirst ident ep call sreq a k s = Inr (Inr (cx, up, cp, cur, ex), s1)"
    "syncFinish call a cx up cp cur ex s1 = Inr (x, s2)" for ident ep call sreq a k s cx up cp cur ex s1 x s2
    using syncFirst_keeps[OF that(1)] shrinks_keeps[OF tx_relD[OF shrinks.rel_syncFinish that(2)]] by (rule keeps_frontiers_trans)
qed (intro keeps_of_shrinks shrinks_keeps; (rule shrinks.rel_putEnvelopeTx shrinks.rel_enrollmentLookupTx shrinks_enrollTx shrinks.rel_revokeTx
   shrinks.rel_rotationTx shrinks.leases shrinks.lease_refs shrinks.objects shrinks.receipts shrinks.uptime shrinks.grants shrinks.returned
   shrinks.runtime shrinks.refl_rel); assumption?)+

end
