(* ===== verification/DeviceLaws.thy ===== *)
theory DeviceLaws
  imports StoreLaws
begin

text \<open>
  The registry of devices: identifiers stay unique and within the limit of 64 through every run of the
  store, \<^verbatim>\<open>authenticate\<close> only accepts the token of a registered device that is not revoked, and a
  revocation is final.
\<close>

section \<open>The registry invariant\<close>

definition registry_ok :: "db \<Rightarrow> bool" where
  "registry_ok s \<longleftrightarrow> distinct (map d_device_id (t_devices s)) \<and> length (t_devices s) \<le> 64"

definition keeps_registry :: "db \<Rightarrow> db \<Rightarrow> bool" where
  "keeps_registry s t \<longleftrightarrow> (registry_ok s \<longrightarrow> registry_ok t)"

lemma registry_sql_set:
  assumes "\<And>d. p d \<Longrightarrow> device_kept d (f d)"
  shows "map d_device_id (sql_set p f ds) = map d_device_id ds" "length (sql_set p f ds) = length ds"
  using assms by (auto simp: sql_set_def device_kept_def)

lemma enrollTx_devices:
  assumes "enrollTx i r g h fp now s = Inr (x, t)"
  shows "t_devices t = t_devices s @ [\<lparr>d_device_id = CText (erq_DeviceID r), d_token_hash = CBlob h, d_scopes_json = CText wantScopes,
       d_created_at_ms = UnixMilli now, d_revoked_at_ms = None, d_last_sync_at_ms = None, d_last_ack_cursor = uint64_cell 0,
       d_max_author_counter = uint64_cell 0\<rparr>]"
    and "length (t_devices s) < 64" and "CText (erq_DeviceID r) \<notin> d_device_id ` set (t_devices s)"
    and "CBlob h \<notin> d_token_hash ` set (t_devices s)"
  using assms unfolding enrollTx_def insertDeviceRows_def insertChange_def insertChangeOrigin_def setServerCursor_def
    consumeGrant_def deviceCounts_def Let_def
  by (auto simp: result_simps sql_simps insert_devices_def insert_device_origins_def insert_device_sync_state_def
      insert_enrollments_def insert_change_origins_def insert_changes_def clash_devices_def same_def split: if_splits)

lemma enroll_registry: "enrollTx i r g h fp now s = Inr (x, t) \<Longrightarrow> keeps_registry s t"
  using enrollTx_devices[of i r g h fp now s x t] by (auto simp: keeps_registry_def registry_ok_def)

interpretation registry: volatile_tables keeps_registry
  by unfold_locales (auto simp: keeps_registry_def registry_ok_def lease_statements split: if_splits)

interpretation registry: statement_relation keeps_registry
proof
  show "tx_rel keeps_registry (enrollTx ident ereq gh th fp now)" for ident ereq gh th fp now
    unfolding tx_rel_def by (blast intro: enroll_registry)
  show "keeps_registry s (s\<lparr>t_devices := sql_set p f (t_devices s)\<rparr>)" if "\<And>d. p d \<Longrightarrow> device_kept d (f d)" for p f s
    using registry_sql_set[OF that] by (simp add: keeps_registry_def registry_ok_def)
qed (auto simp: keeps_registry_def registry_ok_def permanent_inserts split: if_splits)

section \<open>Authentication\<close>

text \<open>The header a client sends for a token is read back.\<close>

lemma b64_char_not_space: "\<not> is_space (b64_char v)"
proof -
  have "(of_char (b64_char v) :: nat) \<noteq> 32 \<and> \<not> ((of_char (b64_char v) :: nat) \<in> {9..13})"
    by (auto simp: b64_char_def of_char_of)
  then show ?thesis by (auto simp: is_space_def byte_in_def)
qed

lemma EncodeToString_not_space: "c \<in> set (EncodeToString b) \<Longrightarrow> \<not> is_space c"
  by (auto simp: EncodeToString_sextets b64_char_not_space)

lemma parse_bearer:
  assumes "length token = 32"
  shows "parseAuthorization (''Bearer '' @ EncodeToString token) ''Bearer'' = Some token"
proof -
  have ne: "EncodeToString token \<noteq> []" using assms EncodeToString_inj[of token "[]"] by auto
  have "\<not> is_space (last (''Bearer '' @ EncodeToString token))" using ne EncodeToString_not_space[OF last_in_set] by simp
  moreover have "CHR '' '' \<notin> set (EncodeToString token)" using EncodeToString_not_space[of "CHR '' ''"] by (auto simp: is_space_def)
  moreover have "decodeBase64 (EncodeToString token) 32 0 0 = Some token"
    using decodeBase64_exact[of _ 32] assms by simp
  ultimately show ?thesis by (simp add: parseAuthorization_def Let_def) (simp add: is_space_def byte_in_def)
qed

text \<open>The credential of a device: its stored hash is the hash of the presented token under its identifier.\<close>

definition holds_token :: "Identity \<Rightarrow> bytes \<Rightarrow> bytes \<Rightarrow> devices_row \<Rightarrow> bool" where
  "holds_token identity token deviceID d \<longleftrightarrow> d_device_id d = CText deviceID \<and> validateUUID deviceID
     \<and> (\<exists>h. d_token_hash d = CBlob h \<and> DeviceTokenHash (id_InstanceID identity) (id_VaultID identity) deviceID token = Some h)"

lemma authRow_cases:
  assumes "authRow identity token matched row = Inr m"
  obtains (skip) "m = matched"
  | (match) a where "m = Some a" "holds_token identity token (da_DeviceID a) row" "da_Revoked a = (d_revoked_at_ms row \<noteq> None)"
      "da_Scopes a = FixedScopes" "d_token_hash row = CBlob (da_Hash a)"
  using assms
  by (simp add: authRow_def ValidateScopes_def split: option.splits if_splits)
    (force simp: sql_simps holds_token_def FixedScopes_def intro: skip match)+

lemma authRows_match:
  assumes "foldR (authRow identity token) m rows = Inr (Some a)" "m = None"
  shows "\<exists>d\<in>set rows. holds_token identity token (da_DeviceID a) d \<and> da_Revoked a = (d_revoked_at_ms d \<noteq> None)
     \<and> da_Scopes a = FixedScopes \<and> d_token_hash d = CBlob (da_Hash a)"
proof -
  let ?P = "\<lambda>m. \<forall>a. m = Some a \<longrightarrow> (\<exists>d\<in>set rows. holds_token identity token (da_DeviceID a) d
     \<and> da_Revoked a = (d_revoked_at_ms d \<noteq> None) \<and> da_Scopes a = FixedScopes \<and> d_token_hash d = CBlob (da_Hash a))"
  have "?P (Some a)"
    using assms(1)
  proof (rule foldR_invariant)
    show "?P m" using assms(2) by simp
    show "?P m'" if "row \<in> set rows" "?P m" "authRow identity token m row = Inr m'" for m row m'
      using that(3) by (cases rule: authRow_cases) (use that(1,2) in auto)
  qed
  then show ?thesis by simp
qed

lemma authenticate_match:
  assumes "authenticate identity authorization scope s = Inr a"
  shows "\<exists>token d. parseAuthorization authorization ''Bearer'' = Some token \<and> d \<in> set (t_devices s)
     \<and> holds_token identity token (da_DeviceID a) d \<and> d_token_hash d = CBlob (da_Hash a) \<and> d_revoked_at_ms d = None
     \<and> da_Scopes a = FixedScopes \<and> (scope = [] \<or> scope \<in> set FixedScopes)"
proof -
  obtain token m where t: "parseAuthorization authorization ''Bearer'' = Some token"
    and m: "foldR (authRow identity token) None (take 65 (sql_query d_device_id (\<lambda>_. True) (t_devices s))) = Inr (Some a)"
    and r: "\<not> da_Revoked a" "scope = [] \<or> scope \<in> set (da_Scopes a)"
    using assms by (auto simp: authenticate_def Let_def result_simps split: option.splits if_splits)
  from authRows_match[OF m refl] obtain d where "d \<in> set (t_devices s)" "holds_token identity token (da_DeviceID a) d"
    "da_Revoked a = (d_revoked_at_ms d \<noteq> None)" "da_Scopes a = FixedScopes" "d_token_hash d = CBlob (da_Hash a)"
    by (auto dest: in_set_takeD)
  with t r show ?thesis by auto
qed

section \<open>Revocation is final\<close>

definition revoked_device :: "bytes \<Rightarrow> db \<Rightarrow> bool" where
  "revoked_device deviceID s \<longleftrightarrow> (\<exists>d\<in>set (t_devices s). d_device_id d = CText deviceID \<and> d_revoked_at_ms d \<noteq> None)"

lemma revoked_device_grows: "revoked_device i s \<Longrightarrow> db_grows s t \<Longrightarrow> revoked_device i t"
  by (fastforce simp: revoked_device_def db_grows_def device_kept_def dest!: extends_set[of device_kept])

lemma revoked_device_unauthenticated:
  assumes "revoked_device i s" "registry_ok s" "authenticate identity authorization scope s = Inr a"
  shows "da_DeviceID a \<noteq> i"
proof
  assume i: "da_DeviceID a = i"
  obtain d where d: "d \<in> set (t_devices s)" "d_device_id d = CText i" "d_revoked_at_ms d = None"
    using authenticate_match[OF assms(3)] i by (auto simp: holds_token_def)
  obtain d' where d': "d' \<in> set (t_devices s)" "d_device_id d' = CText i" "d_revoked_at_ms d' \<noteq> None"
    using assms(1) by (auto simp: revoked_device_def)
  have "inj_on d_device_id (set (t_devices s))" using assms(2) by (simp add: registry_ok_def distinct_map)
  then have "d = d'" using d d' by (metis inj_onD)
  then show False using d d' by simp
qed

end
