(* ===== verification/CollectionLaws.thy ===== *)
theory CollectionLaws
  imports CursorLaws
begin

text \<open>
  Garbage collection is safe: content that a lease refers to is never released, and a revision loses its
  content only when every active device has acknowledged the record, the revision is older than the
  retention time, and a head or the stored marker covers it.
\<close>

section \<open>Leased content\<close>

definition leases_backed :: "db \<Rightarrow> bool" where
  "leases_backed s \<longleftrightarrow> (\<forall>f\<in>set (t_snapshot_revision_refs s). \<exists>ob\<in>set (t_revision_objects s). ro_content_hash ob = sf_content_hash f)"

definition keeps_backed :: "db \<Rightarrow> db \<Rightarrow> bool" where
  "keeps_backed s t \<longleftrightarrow> (leases_backed s \<longrightarrow> leases_backed t)"

lemma backed_delete: "deleteRevisionObject h s = Some t \<Longrightarrow> keeps_backed s t"
proof -
  assume "deleteRevisionObject h s = Some t"
  then have t: "t_snapshot_revision_refs t = t_snapshot_revision_refs s"
      "set (t_revision_objects t) = {ob \<in> set (t_revision_objects s). ro_content_hash ob \<noteq> CBlob h}"
    and ok: "(\<forall>ob\<in>set (t_revision_objects s). ro_content_hash ob \<noteq> CBlob h)
      \<or> (\<forall>f\<in>set (t_snapshot_revision_refs s). sf_content_hash f \<noteq> CBlob h)"
    by (auto simp: deleteRevisionObject_def list_ex_iff split: if_splits)
  show ?thesis unfolding keeps_backed_def leases_backed_def t using ok by fastforce
qed

lemma backed_insert: "insert_snapshot_revision_refs f s = Some t \<Longrightarrow> keeps_backed s t"
  "insert_revision_objects ob s = Some t \<Longrightarrow> keeps_backed s t"
  by (fastforce simp: insert_snapshot_revision_refs_def insert_revision_objects_def keeps_backed_def leases_backed_def sql_simps
      list_ex_iff split: if_splits)+

lemma backed_forget: "keeps_backed s (s\<lparr>t_snapshot_revision_refs := sql_delete p (t_snapshot_revision_refs s)\<rparr>)"
  by (auto simp: keeps_backed_def leases_backed_def)

lemma backed_same:
  "t_snapshot_revision_refs t = t_snapshot_revision_refs s \<Longrightarrow> t_revision_objects t = t_revision_objects s \<Longrightarrow> keeps_backed s t"
  by (simp add: keeps_backed_def leases_backed_def)

interpretation backed: volatile_tables keeps_backed
proof
  show "keeps_backed s t \<Longrightarrow> keeps_backed t u \<Longrightarrow> keeps_backed s u" for s t u by (simp add: keeps_backed_def)
qed (auto intro: backed_delete backed_insert backed_forget backed_same)

lemma backed_enrollTx: "tx_rel keeps_backed (enrollTx i r g h f now)"
  unfolding enrollTx_def insertDeviceRows_def insertChange_def insertChangeOrigin_def setServerCursor_def Let_def
  by (intro backed.volatile_rules backed.rel_updateDB backed.rel_consumeGrant backed.rel_execDB)
    (auto simp: insert_enrollments_def insert_devices_def insert_device_origins_def insert_device_sync_state_def
       insert_change_origins_def insert_changes_def intro!: backed_same split: if_splits)

interpretation backed: statement_relation keeps_backed
proof
  show "tx_rel keeps_backed (enrollTx ident ereq gh th fp now)" for ident ereq gh th fp now by (rule backed_enrollTx)
qed (auto simp: permanent_inserts intro!: backed_same)

section \<open>What a collection covers\<close>

definition covered :: "collectionRevision list \<Rightarrow> storedCollectionMarker \<Rightarrow> collectionRevision \<Rightarrow> bool" where
  "covered heads marker c \<longleftrightarrow>
     (\<exists>w\<in>set heads. vectorDominates (cv_vector w) (cv_vector c) \<or> cv_revisionID w = cv_revisionID c \<and> cv_tombstone w)
     \<or> sm_present marker \<and> (vectorDominates (sm_frontier marker) (cv_vector c) \<or> cv_revisionID c = sm_witnessRevisionID marker \<and> cv_tombstone c)"

lemma selectAdvancingWitness_head: "selectAdvancingWitness heads marker = Some w \<Longrightarrow> w \<in> set heads"
  by (auto simp: selectAdvancingWitness_def dest!: find_SomeD)

lemma selected_covered:
  assumes "w = None \<and> selected = selectMarkerCoveredCandidates candidates marker
      \<or> w = selectAdvancingWitness heads marker \<and> w \<noteq> None \<and> ok \<and> selected = selectWitnessCoveredCandidates candidates w"
    and "c \<in> set selected"
  shows "c \<in> set candidates \<and> covered heads marker c"
  using assms
proof (elim disjE conjE)
  assume "selected = selectMarkerCoveredCandidates candidates marker"
  then show ?thesis using assms(2) by (auto simp: selectMarkerCoveredCandidates_def covered_def split: if_splits)
next
  assume "w = selectAdvancingWitness heads marker" "w \<noteq> None" "selected = selectWitnessCoveredCandidates candidates w"
  moreover then obtain v where "w = Some v" "v \<in> set heads" by (cases w) (auto dest: selectAdvancingWitness_head)
  ultimately show ?thesis using assms(2) by (auto simp: selectWitnessCoveredCandidates_def covered_def split: if_splits)
qed

section \<open>Age\<close>

lemma retention_ms: "word_of_int (minimumRetentionUptime div Millisecond) = (7776000000 :: uint64)"
  by (simp add: minimumRetentionUptime_def Hour_def Minute_def Second_def Millisecond_def)

lemma loadCollectionRevision_accepted:
  "loadCollectionRevision q r s = Inr c \<Longrightarrow> q = uint64_cell (cv_acceptedUptimeMS c) \<and> rv_revision_id r = CText (cv_revisionID c)"
  by (auto simp: loadCollectionRevision_def Let_def sql_simps DecodeUint64_eq_Some split: option.splits if_splits)

lemma candidates_old:
  assumes "loadCollectionRecordWork recordID up s = Inr (barrier, heads, candidates)" "c \<in> set candidates"
  shows "7776000000 \<le> up \<and> cv_acceptedUptimeMS c \<le> up - 7776000000"
proof -
  have up: "\<not> up < 7776000000"
    using assms by (auto simp: loadCollectionRecordWork_def Let_def retention_ms bindR_eq_Inr split: option.splits if_splits)
  then have "mapR (\<lambda>(q, r). loadCollectionRevision q r s) (collectionCandidates recordID (up - 7776000000) s) = Inr candidates"
    using assms(1) by (auto simp: loadCollectionRecordWork_def Let_def retention_ms bindR_eq_Inr split: option.splits if_splits)
  then obtain q r where qr: "(q, r) \<in> set (collectionCandidates recordID (up - 7776000000) s)" "loadCollectionRevision q r s = Inr c"
    using assms(2) by (auto simp: mapR_eq_Inr list_all2_conv_all_nth in_set_conv_nth split: prod.splits) (metis nth_mem prod.exhaust)
  then have "q \<le> uint64_cell (up - 7776000000)"
    by (auto simp: collectionCandidates_def map_filter_def dest!: in_set_takeD)
  then show ?thesis using loadCollectionRevision_accepted[OF qr(2)] up by (simp add: EncodeUint64_le_iff)
qed

section \<open>Rows that a collection changes\<close>

definition only_changes :: "cell set \<Rightarrow> db \<Rightarrow> db \<Rightarrow> bool" where
  "only_changes ks s t \<longleftrightarrow> list_all2 (\<lambda>r r'. r' = r \<or> rv_revision_id r \<in> ks \<and> rv_revision_id r' = rv_revision_id r)
     (t_record_revisions s) (t_record_revisions t)"

lemma only_changes_trans: "only_changes ks s t \<Longrightarrow> only_changes ks t u \<Longrightarrow> only_changes ks s u"
  unfolding only_changes_def list_all2_conv_all_nth by (metis (full_types))

interpretation changed: lease_tables "only_changes ks"
proof
  show "only_changes ks s s" for s by (simp add: only_changes_def list_all2_refl)
  show "only_changes ks s t \<Longrightarrow> only_changes ks t u \<Longrightarrow> only_changes ks s u" for s t u by (rule only_changes_trans)
qed (auto simp: only_changes_def list_all2_refl lease_statements split: if_splits)

lemma collectRevision_changes:
  assumes "CText (cv_revisionID c) \<in> ks" shows "tx_rel (only_changes ks) (collectRevision g c)"
  unfolding collectRevision_def
  by (intro changed.db_rules changed.rel_updateDB changed.rel_deleteUnreferencedRevisionObject)
    (use assms in \<open>auto simp: only_changes_def sql_set_def list_all2_conv_all_nth\<close>)

lemma forT_collectRevision_changes:
  "forT (collectRevision g) cs s = Inr (u, t) \<Longrightarrow> (\<And>c. c \<in> set cs \<Longrightarrow> CText (cv_revisionID c) \<in> ks) \<Longrightarrow> only_changes ks s t"
proof (induction cs arbitrary: s)
  case Nil
  then show ?case by (auto simp: result_simps changed.refl_rel)
next
  case (Cons c cs)
  then obtain s1 where "collectRevision g c s = Inr ((), s1)" "forT (collectRevision g) cs s1 = Inr (u, t)" by (auto simp: result_simps)
  then show ?case using Cons tx_relD[OF collectRevision_changes] by (meson list.set_intros only_changes_trans)
qed

lemma collectSelected_changes:
  assumes "collectSelected now recordID w barrier cur gen cs s = Inr (u, t)"
  shows "only_changes (CText ` cv_revisionID ` set cs) s t"
proof -
  obtain u1 s1 s2 u2 where s1: "(case w of None \<Rightarrow> returnT () | Some w \<Rightarrow> bindT (writeCollectionMarker w barrier cur now)
      (\<lambda>body. insertMarkerChange cur recordID body now)) s = Inr (u1, s1)"
    and s2: "forT (collectRevision gen) cs s1 = Inr (u2, s2)" and t: "t_record_revisions t = t_record_revisions s2"
    using assms unfolding collectSelected_def by (auto simp: result_simps)
  have "t_record_revisions s1 = t_record_revisions s"
    using s1 by (auto simp: result_simps writeCollectionMarker_def insertMarkerChange_def insertChangeOrigin_def Let_def upsertMarker_def
        insert_collection_markers_def insert_change_origins_def insert_changes_def split: option.splits if_splits)
  moreover have "only_changes (CText ` cv_revisionID ` set cs) s1 s2" using s2 by (rule forT_collectRevision_changes) auto
  ultimately show ?thesis using t by (simp add: only_changes_def)
qed

definition collectable :: "uint64 list \<Rightarrow> uint64 \<Rightarrow> bytes \<Rightarrow> db \<Rightarrow> cell \<Rightarrow> bool" where
  "collectable acks up recordID s k \<longleftrightarrow> (\<exists>barrier heads candidates marker c.
     loadCollectionRecordWork recordID up s = Inr (barrier, heads, candidates) \<and> loadCollectionMarker recordID s = Inr marker
     \<and> (\<forall>a\<in>set acks. barrier \<le> a) \<and> c \<in> set candidates \<and> k = CText (cv_revisionID c)
     \<and> 7776000000 \<le> up \<and> cv_acceptedUptimeMS c \<le> up - 7776000000 \<and> covered heads marker c)"

lemma collectRecord_safe:
  assumes "collectRecord acks up now st recordID s = Inr (st', t)"
  shows "only_changes {k. collectable acks up recordID s k} s t"
  using assms
proof (cases rule: collectRecord_cases)
  case skip
  then show ?thesis by (simp add: changed.refl_rel)
next
  case (collect barrier heads candidates marker w selected)
  have "CText ` cv_revisionID ` set selected \<subseteq> {k. collectable acks up recordID s k}"
    using selected_covered[OF collect(5)] candidates_old[OF collect(1)] collect(1,2,3)
    by (auto simp: collectable_def allAcknowledged_def list_all_iff)
  then show ?thesis using collectSelected_changes[OF collect(7)] unfolding only_changes_def
    by (auto elim!: list_all2_mono)
qed

end
