(* ===== verification/AtomicLaws.thy ===== *)
theory AtomicLaws
  imports CursorLaws "HOL-Library.Multiset"
begin

text \<open>
  Requests are atomic: a request that is answered with an error has changed no table, whatever the driver
  did, and the identity of the store is never changed. With the advance of the log this gives the
  invariant of the change log: the origins are the cursors from 1 to the server cursor, each exactly once.
\<close>

section \<open>Errors change nothing\<close>

definition atomic :: "Store \<Rightarrow> 'a api_result \<times> Store \<Rightarrow> bool" where
  "atomic store r \<longleftrightarrow> st_identity (snd r) = st_identity store
     \<and> (case fst r of Inl _ \<Rightarrow> st_db (snd r) = st_db store | Inr _ \<Rightarrow> True)"

lemma atomic_fail [simp]: "atomic store (Inl e, store)"
  by (simp add: atomic_def)

lemma atomic_ephemeral [simp]: "atomic store (Inl e, store\<lparr>st_ephemeral := x\<rparr>)"
  by (simp add: atomic_def)

lemma atomic_finishTx:
  "st_db store' = st_db store \<Longrightarrow> st_identity store' = st_identity store \<Longrightarrow> atomic store (finishTx io store' r)"
  by (auto simp: atomic_def finishTx_def split: sum.splits prod.splits outcome.splits)

lemma atomic_runTx: "atomic store (runTx io store tx)"
  by (simp add: runTx_def atomic_finishTx)

lemma atomic_runPhase:
  "(\<And>x s. atomic store (rest x s)) \<Longrightarrow> atomic store (runPhase io store tx rest)"
  by (auto simp: runPhase_def atomic_finishTx split: sum.splits prod.splits)

lemma atomic_keepLease: "atomic store r \<Longrightarrow> atomic store (keepLease i d r)"
  by (cases r) (auto simp: keepLease_def atomic_def split: sum.splits)

lemmas atomic_rules = atomic_runTx atomic_runPhase atomic_finishTx atomic_keepLease

lemma atomic_handlers:
  "atomic store (handleGetEnvelope io call store)" "atomic store (handlePutEnvelope io call store)"
  "atomic store (handleListDevices io call store)" "atomic store (handleRevokeDevice io call d store)"
  "atomic store (handleTokenRotation io call store)" "atomic store (handleSnapshotPage io call i store)"
  "atomic store (handleEnrollment io call store)" "atomic store (handleSync io call store)"
  "atomic store (handleCreateSnapshot io call store)"
  unfolding handleGetEnvelope_def handlePutEnvelope_def handleListDevices_def handleRevokeDevice_def handleTokenRotation_def
    handleSnapshotPage_def handleEnrollment_def handleSync_def handleCreateSnapshot_def Let_def
  by (auto simp: atomic_runTx intro!: atomic_rules split: option.splits sum.splits prod.splits)

lemma atomic_HandleAPI: "atomic store (HandleAPI io call store)"
  unfolding HandleAPI_def Let_def by (simp add: atomic_handlers split: option.splits)

section \<open>The change log\<close>

text \<open>The origins are the cursors \<open>1, \<dots>, c\<close>, each exactly once, where \<open>c\<close> is the server cursor.\<close>

definition log_complete :: "db \<Rightarrow> bool" where
  "log_complete s \<longleftrightarrow> (\<exists>c. rt_server_cursor (t_runtime_state s) = uint64_cell c \<and> mset (map co_cursor (t_change_origins s)) = mset (cursor_run 0 c))"

lemma log_complete_advances: "log_complete s \<Longrightarrow> log_advances s t \<Longrightarrow> log_complete t"
  unfolding log_complete_def log_advances_def log_frame_def
  by (elim exE conjE disjE) (auto simp: cursor_run_trans[of 0, symmetric])

lemma log_complete_reachable: "store_reachable store store' \<Longrightarrow> log_complete (st_db store) \<Longrightarrow> log_complete (st_db store')"
  using advances.rel_reachable log_complete_advances by blast

end
