(* ===== verification/ValidationLaws.thy ===== *)
theory ValidationLaws
  imports SnapshotValidation AntichainLaws DeviceLaws CollectionLaws AtomicLaws
begin

text \<open>
  What startup validation establishes: a database it accepts satisfies the invariants that the laws of
  the steps keep. The only facts about SQLite used are the primary keys of the tables (\<open>keys_unique\<close>),
  which the validation itself never checks.
\<close>

lemma list_all2_member: "list_all2 P xs ys \<Longrightarrow> x \<in> set xs \<Longrightarrow> \<exists>y\<in>set ys. P x y"
  by (induction rule: list_all2_induct) auto

section \<open>The device registry\<close>

lemma scanDeviceRow_id: "scanDeviceRow c s d = Some (i, row) \<Longrightarrow> d_device_id d = CText i \<and> i \<noteq> []"
  using validateUUID_length[of "[]"] by (auto simp: scanDeviceRow_def Let_def scan_uuid_eq split: option.splits if_splits)

lemma walkDevices_ids:
  assumes "walkDevices c s previous result ds = Some result'"
  shows "\<exists>xs. map d_device_id ds = map CText xs \<and> sorted_wrt (<) xs \<and> (previous \<noteq> [] \<longrightarrow> (\<forall>x\<in>set xs. previous < x))
     \<and> map fst result' = map fst result @ xs \<and> (ds = [] \<or> length result' \<le> 64)"
  using assms
proof (induction ds arbitrary: previous result)
  case Nil
  then show ?case by simp
next
  case (Cons d ds)
  from Cons.prems obtain i row where d: "scanDeviceRow c s d = Some (i, row)" "previous = [] \<or> previous < i"
    "length result < 64" "walkDevices c s i (result @ [(i, row)]) ds = Some result'"
    by (auto simp: not_le split: option.splits if_splits)
  from Cons.IH[OF d(4)] obtain xs where xs: "map d_device_id ds = map CText xs" "sorted_wrt (<) xs" "i \<noteq> [] \<longrightarrow> (\<forall>x\<in>set xs. i < x)"
    "map fst result' = map fst result @ i # xs" "ds = [] \<or> length result' \<le> 64" by auto
  have "length result' = length result + Suc (length xs)" using arg_cong[OF xs(4), of length] by simp
  moreover have "ds = [] \<Longrightarrow> xs = []" using xs(1) by simp
  ultimately show ?case using d xs scanDeviceRow_id[OF d(1)]
    by (intro exI[of _ "i # xs"]) (auto intro: order.strict_trans)
qed

lemma validated_registry:
  assumes "validatePersistentDevices c s = Some devices"
  shows "registry_ok s" "set (map d_device_id (t_devices s)) = CText ` set (map fst devices)"
proof -
  let ?q = "sql_query d_device_id (\<lambda>_. True) (t_devices s)"
  from assms have w: "walkDevices c s [] [] (take 65 ?q) = Some devices"
    by (auto simp: validatePersistentDevices_def split: option.splits if_splits)
  obtain xs where "map d_device_id (take 65 ?q) = map CText xs \<and> sorted_wrt (<) xs \<and> ([] \<noteq> ([] :: bytes) \<longrightarrow> (\<forall>x\<in>set xs. [] < x))
     \<and> map fst devices = map fst ([] :: validatedDevices) @ xs \<and> (take 65 ?q = [] \<or> length devices \<le> 64)"
    using walkDevices_ids[OF w] by (rule exE)
  then have xs: "map d_device_id (take 65 ?q) = map CText xs" "sorted_wrt (<) xs" "map fst devices = xs"
    "take 65 ?q = [] \<or> length devices \<le> 64" unfolding list.map append_Nil by blast+
  have "length (take 65 ?q) \<le> 64"
    using xs(4) arg_cong[OF xs(1), of length] arg_cong[OF xs(3), of length] by auto
  then have q: "length ?q \<le> 64" "take 65 ?q = ?q" by (auto simp: min_def split: if_splits)
  have perm: "mset (map d_device_id ?q) = mset (map d_device_id (t_devices s))" by (simp add: sql_query_def)
  have ids: "map d_device_id ?q = map CText xs" using xs(1) unfolding q(2) .
  have "distinct (map d_device_id ?q)"
    unfolding ids using xs(2) by (simp add: distinct_map inj_on_def strict_sorted_iff)
  then have "distinct (map d_device_id (t_devices s))" using perm by (metis mset_eq_imp_distinct_iff)
  moreover have "length (t_devices s) = length ?q" by (simp add: sql_query_def)
  ultimately show "registry_ok s" using q(1) by (simp add: registry_ok_def)
  have "set (map d_device_id (t_devices s)) = set (map d_device_id ?q)" using perm by (metis mset_eq_setD)
  then show "set (map d_device_id (t_devices s)) = CText ` set (map fst devices)" unfolding ids using xs(3) by simp
qed

section \<open>The frontiers\<close>

text \<open>Primary keys: the revision identifier names one row.\<close>

definition keys_unique :: "db \<Rightarrow> bool" where
  "keys_unique s \<longleftrightarrow> distinct (map rv_revision_id (t_record_revisions s))"

text \<open>
  The walk over the scanned revisions. A record is settled when no two of its flagged heads dominate one
  another; the invariant of the walk is that every record but the current one is settled, and that the
  retained frontier and the stored heads of the current one are what the revisions so far make them.
\<close>

definition is_head :: "scannedRevision \<Rightarrow> bool" where
  "is_head x \<longleftrightarrow> xr_retained x \<and> xr_undominated x"

definition settled :: "scannedRevision list \<Rightarrow> bytes \<Rightarrow> bool" where
  "settled xs recordID \<longleftrightarrow> (\<forall>x\<in>set xs. \<forall>y\<in>set xs. is_head x \<and> is_head y \<and> xr_recordID x = recordID \<and> xr_recordID y = recordID
     \<longrightarrow> \<not> vectorDominates (xr_vector x) (xr_vector y))"

definition walk_inv :: "scannedRevision list \<Rightarrow> revisionWalk \<Rightarrow> bool" where
  "walk_inv xs w \<longleftrightarrow>
     (\<forall>p\<in>set (rw_retained w). vector_ok (snd p)) \<and> antichain_set (set (rw_retained w)) \<and> distinct (map fst (rw_retained w))
     \<and> (\<forall>p\<in>set (rw_retained w). \<exists>x\<in>set xs. xr_revisionID x = fst p \<and> xr_vector x = snd p)
     \<and> distinct (rw_storedHeads w)
     \<and> set (rw_storedHeads w) = xr_revisionID ` {x \<in> set xs. is_head x \<and> xr_recordID x = rw_currentRecord w}
     \<and> (\<forall>x\<in>set xs. xr_recordID x \<le> rw_currentRecord w) \<and> (\<forall>recordID. recordID \<noteq> rw_currentRecord w \<longrightarrow> settled xs recordID)"

lemma advanceFrontier_step:
  assumes "advanceFrontier fr i v = Some fr'"
  shows "set fr' = frontier_step i v (set fr)"
    and "\<exists>ys. fr' = filter (\<lambda>p. \<not> vectorDominates v (snd p)) fr @ ys \<and> (ys = [] \<or> ys = [(i, v)])"
  using assms by (auto simp: advanceFrontier_def frontier_step_def list_ex_iff Let_def split: if_splits)

lemma flushFrontier_settles:
  assumes "flushFrontier w" "walk_inv xs w" "distinct (map xr_revisionID xs)"
  shows "settled xs (rw_currentRecord w)"
proof -
  have inv: "antichain_set (set (rw_retained w))" "distinct (map fst (rw_retained w))" "distinct (rw_storedHeads w)"
    "\<And>p. p \<in> set (rw_retained w) \<Longrightarrow> \<exists>x\<in>set xs. xr_revisionID x = fst p \<and> xr_vector x = snd p"
    "set (rw_storedHeads w) = xr_revisionID ` {x \<in> set xs. is_head x \<and> xr_recordID x = rw_currentRecord w}"
    using assms(2) by (simp_all add: walk_inv_def)
  have "fst ` set (rw_retained w) = set (rw_storedHeads w)"
  proof (rule card_subset_eq)
    show "fst ` set (rw_retained w) \<subseteq> set (rw_storedHeads w)" using assms(1) by (auto simp: flushFrontier_def list_all_iff)
    have "card (fst ` set (rw_retained w)) = length (rw_retained w)" using distinct_card[OF inv(2)] by simp
    then show "card (fst ` set (rw_retained w)) = card (set (rw_storedHeads w))"
      using assms(1) distinct_card[OF inv(3)] by (simp add: flushFrontier_def)
  qed simp
  then have heads: "\<exists>p\<in>set (rw_retained w). snd p = xr_vector x"
    if "x \<in> set xs" "is_head x" "xr_recordID x = rw_currentRecord w" for x
  proof -
    have "xr_revisionID x \<in> fst ` set (rw_retained w)"
      using that inv(5) \<open>fst ` set (rw_retained w) = set (rw_storedHeads w)\<close> by blast
    then obtain p where p: "p \<in> set (rw_retained w)" "fst p = xr_revisionID x" by auto
    from inv(4)[OF p(1)] obtain y where y: "y \<in> set xs" "xr_revisionID y = fst p" "xr_vector y = snd p" by auto
    with p that(1) assms(3) have "y = x" by (metis inj_onD distinct_map)
    with y p show ?thesis by auto
  qed
  then show ?thesis using inv(1) unfolding settled_def antichain_set_def by metis
qed

lemma enterRecord_inv:
  assumes "enterRecord recordID w = Some w'" "walk_inv xs w" "distinct (map xr_revisionID xs)"
    and "recordID \<noteq> []" "\<forall>x\<in>set xs. xr_recordID x \<le> recordID" "xs = [] \<or> rw_currentRecord w \<in> xr_recordID ` set xs \<and> rw_currentRecord w \<noteq> []"
  shows "walk_inv xs w'" "rw_currentRecord w' = recordID"
proof -
  show cur: "rw_currentRecord w' = recordID" using assms(1) by (auto simp: enterRecord_def split: if_splits)
  show "walk_inv xs w'"
  proof (cases "rw_currentRecord w = recordID")
    case True
    then show ?thesis using assms(1,2) by (simp add: enterRecord_def)
  next
    case False
    then have w': "w' = w\<lparr>rw_currentRecord := recordID, rw_historical := [], rw_retained := [], rw_storedHeads := []\<rparr>"
      "rw_currentRecord w \<noteq> [] \<longrightarrow> flushFrontier w" using assms(1) by (auto simp: enterRecord_def split: if_splits)
    show ?thesis
    proof (cases "xs = []")
      case True
      then show ?thesis by (simp add: w' walk_inv_def settled_def antichain_set_def)
    next
      case ne: False
      then have c: "rw_currentRecord w \<in> xr_recordID ` set xs" "rw_currentRecord w \<noteq> []" using assms(6) by auto
      have "settled xs (rw_currentRecord w)" using flushFrontier_settles[OF _ assms(2,3)] w'(2) c(2) by blast
      then have "\<forall>r. settled xs r" using assms(2) unfolding walk_inv_def by metis
      moreover have "\<forall>x\<in>set xs. xr_recordID x \<noteq> recordID"
      proof
        fix x assume "x \<in> set xs"
        then have "xr_recordID x \<le> rw_currentRecord w" using assms(2) by (simp add: walk_inv_def)
        moreover have "rw_currentRecord w < recordID" using c(1) assms(5) False by (auto simp: less_le)
        ultimately show "xr_recordID x \<noteq> recordID" by auto
      qed
      ultimately show ?thesis using assms(5) by (auto simp: w' walk_inv_def antichain_set_def)
    qed
  qed
qed

lemma settled_snoc: "recordID \<noteq> xr_recordID x \<Longrightarrow> settled (xs @ [x]) recordID = settled xs recordID"
  by (auto simp: settled_def)

lemma retainRevision_inv:
  assumes "retainRevision x w = Some w'" "walk_inv xs w" "rw_currentRecord w = xr_recordID x"
    and "xr_revisionID x \<notin> xr_revisionID ` set xs" "vector_ok (xr_vector x)"
  shows "walk_inv (xs @ [x]) w'" "rw_currentRecord w' = xr_recordID x"
proof -
  have inv: "\<forall>p\<in>set (rw_retained w). vector_ok (snd p)" "antichain_set (set (rw_retained w))" "distinct (map fst (rw_retained w))"
    "\<forall>p\<in>set (rw_retained w). \<exists>y\<in>set xs. xr_revisionID y = fst p \<and> xr_vector y = snd p" "distinct (rw_storedHeads w)"
    "set (rw_storedHeads w) = xr_revisionID ` {y \<in> set xs. is_head y \<and> xr_recordID y = xr_recordID x}"
    "\<forall>y\<in>set xs. xr_recordID y \<le> xr_recordID x" "\<forall>r. r \<noteq> xr_recordID x \<longrightarrow> settled (xs @ [x]) r"
    using assms(2,3) by (simp_all add: walk_inv_def settled_snoc)
  show cur: "rw_currentRecord w' = xr_recordID x"
    using assms(1,3) by (auto simp: retainRevision_def Let_def split: if_splits option.splits)
  show "walk_inv (xs @ [x]) w'"
  proof (cases "xr_retained x")
    case False
    then have "w' = w" "\<not> is_head x" using assms(1) by (auto simp: retainRevision_def is_head_def)
    then show ?thesis using inv assms(3) by (auto simp: walk_inv_def)
  next
    case True
    then obtain fr where fr: "advanceFrontier (rw_retained w) (xr_revisionID x) (xr_vector x) = Some fr"
      "rw_retained w' = fr" "rw_storedHeads w' = (if is_head x then List.insert (xr_revisionID x) (rw_storedHeads w) else rw_storedHeads w)"
      using assms(1) by (auto simp: retainRevision_def is_head_def Let_def split: if_splits option.splits)
    obtain ys where ys: "fr = filter (\<lambda>p. \<not> vectorDominates (xr_vector x) (snd p)) (rw_retained w) @ ys"
      "ys = [] \<or> ys = [(xr_revisionID x, xr_vector x)]" using advanceFrontier_step(2)[OF fr(1)] by blast
    have "set fr \<subseteq> set (rw_retained w) \<union> {(xr_revisionID x, xr_vector x)}" using ys by auto
    then have from_xs: "\<forall>p\<in>set fr. \<exists>y\<in>set (xs @ [x]). xr_revisionID y = fst p \<and> xr_vector y = snd p"
      using inv(4) by fastforce
    have "xr_revisionID x \<notin> fst ` set (rw_retained w)"
    proof
      assume "xr_revisionID x \<in> fst ` set (rw_retained w)"
      then obtain p where "p \<in> set (rw_retained w)" "fst p = xr_revisionID x" by auto
      with inv(4) obtain y where "y \<in> set xs" "xr_revisionID y = xr_revisionID x" by metis
      with assms(4) show False by (metis imageI)
    qed
    then have "distinct (map fst fr)" using inv(3) ys by (auto simp: distinct_map inj_on_def image_iff)
    moreover have "antichain_set (set fr)"
      unfolding advanceFrontier_step(1)[OF fr(1)] using inv(1,2) assms(5) by (intro frontier_step_antichain)
    moreover have "\<forall>p\<in>set fr. vector_ok (snd p)" using inv(1) assms(5) ys by auto
    moreover have "set (rw_storedHeads w') = xr_revisionID ` {y \<in> set (xs @ [x]). is_head y \<and> xr_recordID y = xr_recordID x}"
      unfolding fr(3) using inv(6) by auto
    ultimately show ?thesis using inv(5,7,8) from_xs by (simp add: walk_inv_def fr(2,3) cur)
  qed
qed

lemma revisionStep_inv:
  assumes "revisionStep x w = Some w'" "walk_inv xs w" "distinct (map xr_revisionID (xs @ [x]))" "vector_ok (xr_vector x)"
    and "xr_recordID x \<noteq> []" "\<forall>y\<in>set xs. xr_recordID y \<le> xr_recordID x"
    and "xs = [] \<or> rw_currentRecord w \<in> xr_recordID ` set xs \<and> rw_currentRecord w \<noteq> []"
  shows "walk_inv (xs @ [x]) w'" "rw_currentRecord w' = xr_recordID x"
proof -
  obtain w1 fr w2 where w: "enterRecord (xr_recordID x) w = Some w1"
    "retainRevision x (w1\<lparr>rw_historical := fr\<rparr>) = Some w2" "w' = countAuthor x w2"
    using assms(1) by (auto simp: revisionStep_def split: option.splits)
  have "distinct (map xr_revisionID xs)" using assms(3) by simp
  note e = enterRecord_inv[OF w(1) assms(2) this assms(5,6,7)]
  have "walk_inv xs (w1\<lparr>rw_historical := fr\<rparr>)" using e(1) by (simp add: walk_inv_def)
  from retainRevision_inv[OF w(2) this] e(2) assms(3,4)
  have r: "walk_inv (xs @ [x]) w2" "rw_currentRecord w2 = xr_recordID x" by auto
  have "rw_retained w' = rw_retained w2" "rw_storedHeads w' = rw_storedHeads w2" "rw_currentRecord w' = rw_currentRecord w2"
    unfolding w(3) by (simp_all add: countAuthor_def)
  with r show "walk_inv (xs @ [x]) w'" "rw_currentRecord w' = xr_recordID x" by (simp_all add: walk_inv_def)
qed

lemma walkRevisions_inv:
  assumes "walkRevisions scan w rows = Some w'" "walk_inv xs w" "list_all2 (\<lambda>r x. scan r = Some x) rows zs"
    and "distinct (map xr_revisionID (xs @ zs))" "\<forall>z\<in>set zs. vector_ok (xr_vector z) \<and> xr_recordID z \<noteq> []" "sorted (map xr_recordID (xs @ zs))"
    and "xs = [] \<or> rw_currentRecord w \<in> xr_recordID ` set xs \<and> rw_currentRecord w \<noteq> []"
  shows "walk_inv (xs @ zs) w' \<and> (xs @ zs = [] \<or> rw_currentRecord w' \<in> xr_recordID ` set (xs @ zs) \<and> rw_currentRecord w' \<noteq> [])"
  using assms
proof (induction rows arbitrary: w xs zs)
  case Nil
  then show ?case by simp
next
  case (Cons r rows)
  from Cons.prems(3) obtain z zs' where z: "zs = z # zs'" "scan r = Some z" "list_all2 (\<lambda>r x. scan r = Some x) rows zs'"
    by (auto simp: list_all2_Cons1)
  from Cons.prems(1) z(2) obtain w1 where w1: "revisionStep z w = Some w1" "walkRevisions scan w1 rows = Some w'"
    by (auto split: option.splits)
  have step: "walk_inv (xs @ [z]) w1" "rw_currentRecord w1 = xr_recordID z"
    using revisionStep_inv[OF w1(1) Cons.prems(2)] Cons.prems(4-7) by (auto simp: z(1) sorted_append)
  have "walk_inv ((xs @ [z]) @ zs') w' \<and> ((xs @ [z]) @ zs' = [] \<or> rw_currentRecord w' \<in> xr_recordID ` set ((xs @ [z]) @ zs') \<and> rw_currentRecord w' \<noteq> [])"
    by (rule Cons.IH[OF w1(2) step(1) z(3)]) (use Cons.prems(4-6) step(2) z(1) in auto)
  then show ?case by (simp add: z(1))
qed

lemma validateVector_ok: "validateVector es = Some v \<Longrightarrow> vector_ok v"
  by (simp add: validateVector_eq_Some)

lemma scanRevisionRow_columns:
  assumes "scanRevisionRow devices c g s r = Some x"
  shows "rv_revision_id r = CText (xr_revisionID x)" "rv_record_id r = CText (xr_recordID x)" "xr_recordID x \<noteq> []"
    "vector_ok (xr_vector x)" "is_head x = (rv_retained r = 1 \<and> rv_undominated r = 1)" "scanVector r = Inr (xr_revisionID x, xr_vector x)"
  using assms validateUUID_length[of "[]"]
  by (auto simp: scanRevisionRow_def Let_def scan_uuid_eq is_head_def scanVector_def dest: validateVector_ok split: option.splits if_splits)

lemma walkRevisions_scans: "walkRevisions scan w rows = Some w' \<Longrightarrow> \<exists>zs. list_all2 (\<lambda>r x. scan r = Some x) rows zs"
  by (induction rows arbitrary: w) (auto simp: list_all2_Cons1 split: option.splits)

lemma sorted_map_CText: "sorted (map CText xs) = sorted xs"
  by (simp add: sorted_map)

lemma validated_settled:
  assumes "validatePersistentRevisions devices c g s = Some counters" "keys_unique s"
  obtains zs where "list_all2 (\<lambda>r x. scanRevisionRow devices c g s r = Some x)
       (sql_query (\<lambda>r. (rv_record_id r, rv_change_cursor r)) (\<lambda>_. True) (t_record_revisions s)) zs" "\<And>recordID. settled zs recordID"
proof -
  let ?rows = "sql_query (\<lambda>r. (rv_record_id r, rv_change_cursor r)) (\<lambda>_. True) (t_record_revisions s)"
  from assms(1) obtain w where w: "walkRevisions (scanRevisionRow devices c g s) emptyWalk ?rows = Some w"
    "rw_currentRecord w = [] \<or> flushFrontier w" by (auto simp: validatePersistentRevisions_def split: option.splits if_splits)
  from walkRevisions_scans[OF w(1)] obtain zs where zs: "list_all2 (\<lambda>r x. scanRevisionRow devices c g s r = Some x) ?rows zs" ..
  have cols: "map rv_revision_id ?rows = map CText (map xr_revisionID zs)" "map rv_record_id ?rows = map CText (map xr_recordID zs)"
    "\<forall>z\<in>set zs. vector_ok (xr_vector z) \<and> xr_recordID z \<noteq> []"
    using zs by (induction) (auto dest: scanRevisionRow_columns)
  have "mset (map rv_revision_id ?rows) = mset (map rv_revision_id (t_record_revisions s))" by (simp add: sql_query_def)
  then have "distinct (map rv_revision_id ?rows)" using assms(2) mset_eq_imp_distinct_iff unfolding keys_unique_def by metis
  then have dist: "distinct (map xr_revisionID ([] @ zs))" unfolding cols by (auto simp: distinct_map inj_on_def)
  have "sorted (map rv_record_id ?rows)"
    using sorted_sql_query[of "\<lambda>r. (rv_record_id r, rv_change_cursor r)" "\<lambda>_. True" "t_record_revisions s"]
    unfolding sorted_map by (rule sorted_wrt_mono_rel[rotated]) auto
  then have srt: "sorted (map xr_recordID ([] @ zs))" unfolding cols sorted_map_CText by simp
  have "walk_inv [] emptyWalk" by (simp add: walk_inv_def emptyWalk_def antichain_set_def settled_def)
  from walkRevisions_inv[OF w(1) this zs dist cols(3) srt]
  have inv: "walk_inv zs w" "zs = [] \<or> rw_currentRecord w \<noteq> []" by auto
  have "settled zs recordID" for recordID
  proof (cases "zs = [] \<or> recordID \<noteq> rw_currentRecord w")
    case True
    then show ?thesis using inv(1) by (auto simp: walk_inv_def settled_def)
  next
    case False
    then show ?thesis using flushFrontier_settles[OF _ inv(1)] w(2) inv(2) dist by auto
  qed
  then show thesis using that[OF zs] by blast
qed

lemma walkHeads_ok: "walkHeads s prev n hs \<Longrightarrow> h \<in> set hs \<Longrightarrow> record_head_ok s h"
  by (induction hs arbitrary: prev n) (auto simp: Let_def)

lemma record_head_row:
  assumes "record_head_ok s h"
  obtains r where "find (\<lambda>r. rv_revision_id r = rh_revision_id h) (t_record_revisions s) = Some r"
    "rv_record_id r = rh_record_id h" "rv_retained r = 1" "rv_undominated r = 1"
proof -
  from assms have k: "rh_revision_id h \<noteq> CNull" by (auto simp: record_head_ok_def Let_def scan_uuid_eq split: option.splits)
  then have "join_on rv_revision_id (rh_revision_id h) (t_record_revisions s) = find (\<lambda>r. rv_revision_id r = rh_revision_id h) (t_record_revisions s)"
    by (auto simp: join_on_def same_def intro!: find_cong)
  with assms that show thesis by (auto simp: record_head_ok_def Let_def scan_uuid_eq joined_def split: option.splits)
qed

lemma validated_frontiers:
  assumes "validatePersistentRevisions devices c g s = Some counters" "validatePersistentRecordHeads s" "keys_unique s"
  shows "frontiers_ok s"
proof -
  let ?rows = "sql_query (\<lambda>r. (rv_record_id r, rv_change_cursor r)) (\<lambda>_. True) (t_record_revisions s)"
  have ok: "record_head_ok s h" if "h \<in> set (t_record_heads s)" for h
  proof (rule walkHeads_ok)
    show "walkHeads s (CText []) 0 (sql_query (\<lambda>h. (rh_record_id h, rh_revision_id h)) (\<lambda>_. True) (t_record_heads s))"
      using assms(2) by (simp add: validatePersistentRecordHeads_def)
  qed (simp add: that)
  obtain zs where zs: "list_all2 (\<lambda>r x. scanRevisionRow devices c g s r = Some x) ?rows zs" "\<And>recordID. settled zs recordID"
    using validated_settled[OF assms(1,3)] by blast
  have stored: "\<exists>z\<in>set zs. is_head z \<and> xr_recordID z = recordID \<and> xr_vector z = snd p"
    if h: "h \<in> set (t_record_heads s)" "rh_record_id h = CText recordID" "headVector (rh_revision_id h) (t_record_revisions s) = Some p"
    for h recordID p
  proof -
    obtain r where r: "find (\<lambda>r. rv_revision_id r = rh_revision_id h) (t_record_revisions s) = Some r"
      "rv_record_id r = rh_record_id h" "rv_retained r = 1" "rv_undominated r = 1" using record_head_row[OF ok[OF h(1)]] .
    then have "r \<in> set ?rows" using find_SomeD[OF r(1)] by simp
    then obtain z where z: "z \<in> set zs" "scanRevisionRow devices c g s r = Some z"
      using list_all2_member[OF zs(1)] by blast
    have "scanVector r = Inr p" using h(3) r(1) by (auto simp: headVector_def split: sum.splits)
    with z r h(2) scanRevisionRow_columns[OF z(2)] show ?thesis by auto
  qed
  have "heads_stored s"
    unfolding heads_stored_def
  proof (rule image_subsetI)
    fix h assume "h \<in> set (t_record_heads s)"
    then obtain r where "find (\<lambda>r. rv_revision_id r = rh_revision_id h) (t_record_revisions s) = Some r"
      using record_head_row[OF ok] by metis
    then show "rh_revision_id h \<in> rv_revision_id ` set (t_record_revisions s)" using find_SomeD by force
  qed
  moreover have "antichain_set (frontier recordID s)" for recordID
    unfolding antichain_set_def
  proof (intro ballI)
    fix p q assume "p \<in> frontier recordID s" "q \<in> frontier recordID s"
    then obtain x y where "x \<in> set zs" "is_head x" "xr_recordID x = recordID" "xr_vector x = snd p"
      "y \<in> set zs" "is_head y" "xr_recordID y = recordID" "xr_vector y = snd q"
      unfolding frontier_def using stored by blast
    then show "\<not> vectorDominates (snd p) (snd q)" using zs(2)[of recordID] unfolding settled_def by metis
  qed
  ultimately show ?thesis by (simp add: frontiers_ok_def)
qed

section \<open>Leases and the change log\<close>

lemma walkRows_each: "walkRows f st rs = Some st' \<Longrightarrow> r \<in> set rs \<Longrightarrow> \<exists>st1 st2. f st1 r = Some st2"
  by (induction rs arbitrary: st) (auto split: option.splits)

lemma join_on_SomeD: "join_on col k rows = Some r \<Longrightarrow> r \<in> set rows \<and> col r = k"
  by (auto simp: join_on_def same_def dest: find_SomeD)

lemma referenceRow_backed:
  assumes "referenceRow g s st f = Some st'"
  shows "\<exists>ob\<in>set (t_revision_objects s). ro_content_hash ob = sf_content_hash f"
proof (cases "join_on ro_content_hash (sf_content_hash f) (t_revision_objects s)")
  case None
  then show ?thesis using assms by (auto simp: referenceRow_def joined_def scan_blob_eq split: option.splits)
next
  case (Some ob)
  then show ?thesis using join_on_SomeD by fastforce
qed

lemma validated_leases:
  assumes "validatePersistentSnapshots i devices c e g s"
  shows "leases_backed s"
  unfolding leases_backed_def
proof
  fix f assume "f \<in> set (t_snapshot_revision_refs s)"
  then have f: "f \<in> set (sql_query (\<lambda>f. (sf_snapshot_id f, sf_revision_id f)) (\<lambda>_. True) (t_snapshot_revision_refs s))" by simp
  from assms obtain st st' where "walkRows (referenceRow g s) st
      (sql_query (\<lambda>f. (sf_snapshot_id f, sf_revision_id f)) (\<lambda>_. True) (t_snapshot_revision_refs s)) = Some st'"
    by (auto simp: validatePersistentSnapshots_def split: option.splits)
  from walkRows_each[OF this f] referenceRow_backed show "\<exists>ob\<in>set (t_revision_objects s). ro_content_hash ob = sf_content_hash f" by blast
qed

lemma validated_log:
  assumes "validatePersistentChangeOrigins c e cuts s = Some r" "rt_server_cursor (t_runtime_state s) = uint64_cell c"
  shows "log_complete s"
proof -
  from assms(1) obtain q h cuts' where w: "walkOrigins s c 0 0 (map (\<lambda>cut. (cut, 0)) (remdups cuts))
       (sql_query co_cursor (\<lambda>_. True) (t_change_origins s)) = Some (q, h, cuts')" "q = c"
    by (auto simp: validatePersistentChangeOrigins_def split: option.splits if_splits)
  have "map co_cursor (sql_query co_cursor (\<lambda>_. True) (t_change_origins s)) = cursor_run 0 c"
    using walkOrigins_set[OF w(1)] w(2) by (simp add: cursor_run_def comp_def)
  moreover have "mset (map co_cursor (sql_query co_cursor (\<lambda>_. True) (t_change_origins s))) = mset (map co_cursor (t_change_origins s))"
    by (simp add: sql_query_def)
  ultimately show ?thesis using assms(2) by (auto simp: log_complete_def)
qed

section \<open>Startup validation as a whole\<close>

lemma validated_parts:
  assumes "validatePersistentState identity s"
  obtains c e secret g devices counters where "validatePersistentRuntime s = Some (c, e, secret, g)"
    "validatePersistentDevices c s = Some devices" "validatePersistentRevisions devices c g s = Some counters"
    "validatePersistentHistorySequence devices s" "validatePersistentRecordHeads s"
    "validatePersistentRevisionObjects s" "validatePersistentSnapshots identity devices c e g s"
  using assms by (auto simp: validatePersistentState_def validatePersistentTables_def split: option.splits)

lemma validated_cursor: "validatePersistentRuntime s = Some (c, e, secret, g) \<Longrightarrow> rt_server_cursor (t_runtime_state s) = uint64_cell c"
  by (auto simp: validatePersistentRuntime_def Let_def scan_uint64_eq split: option.splits if_splits)

lemma snapshots_log:
  assumes "validatePersistentSnapshots i devices c e g s"
  obtains cuts r where "validatePersistentChangeOrigins c e cuts s = Some r"
  using assms by (auto simp: validatePersistentSnapshots_def loadSnapshots_def Let_def split: option.splits)

text \<open>The invariants of the reachable stores, together.\<close>

definition store_ok :: "db \<Rightarrow> bool" where
  "store_ok s \<longleftrightarrow> registry_ok s \<and> log_complete s \<and> leases_backed s \<and> frontiers_ok s"

lemma validated_store_ok:
  assumes "validatePersistentState identity s" "keys_unique s"
  shows "store_ok s"
proof (rule validated_parts[OF assms(1)])
  fix c e secret g devices counters
  assume parts: "validatePersistentRuntime s = Some (c, e, secret, g)" "validatePersistentDevices c s = Some devices"
    "validatePersistentRevisions devices c g s = Some counters" "validatePersistentRecordHeads s" "validatePersistentSnapshots identity devices c e g s"
  obtain cuts r where "validatePersistentChangeOrigins c e cuts s = Some r" using snapshots_log[OF parts(5)] .
  from validated_log[OF this validated_cursor[OF parts(1)]] show ?thesis
    unfolding store_ok_def using validated_registry(1)[OF parts(2)] validated_leases[OF parts(5)]
      validated_frontiers[OF parts(3,4) assms(2)] by blast
qed

lemma store_ok_reachable: "store_reachable store store' \<Longrightarrow> store_ok (st_db store) \<Longrightarrow> store_ok (st_db store')"
  unfolding store_ok_def using log_complete_reachable registry.rel_reachable backed.rel_reachable frontiers.rel_reachable
  unfolding keeps_registry_def keeps_backed_def keeps_frontiers_def by blast

end
