(* ===== verification/HistoryLaws.thy ===== *)
theory HistoryLaws
  imports ValidationLaws
begin

text \<open>
  What \<^verbatim>\<open>validatePersistentHistorySequence\<close> and \<^verbatim>\<open>validatePersistentRevisionObjects\<close> prove of an accepted
  database: the author history is complete (each device owns exactly the counters from 1 to its
  registered maximum), the cursor floor is the largest collected cursor, and the content objects are
  addressed by their digests.
\<close>

section \<open>Author counters\<close>

definition authored :: "bytes \<Rightarrow> record_revisions_row list \<Rightarrow> uint64 set" where
  "authored i rows = {c. \<exists>r\<in>set rows. rv_author_device_id r = CText i \<and> rv_author_counter r = uint64_cell c}"

definition collectedCursors :: "record_revisions_row list \<Rightarrow> uint64 set" where
  "collectedCursors rows = {c. \<exists>r\<in>set rows. rv_retained r = 0 \<and> rv_change_cursor r = uint64_cell c}"

definition history_inv :: "validatedDevices \<Rightarrow> record_revisions_row list \<Rightarrow> historyState \<Rightarrow> bool" where
  "history_inv devices ps st \<longleftrightarrow>
     (\<forall>i. authored i ps = (if i \<notin> set (hs_seenAuthors st) then {}
        else if i = hs_currentAuthor st then {0<..hs_lastCounter st} else {0<..maxCounterOf devices i}))
     \<and> (if ps = [] then hs_currentAuthor st = [] \<and> hs_seenAuthors st = [] 
        else hs_currentAuthor st \<in> set (hs_seenAuthors st) \<and> hs_currentAuthor st \<noteq> [] \<and> (\<exists>p\<in>set ps. rv_author_device_id p = CText (hs_currentAuthor st)))
     \<and> (\<forall>i\<in>set (hs_seenAuthors st). i \<le> hs_currentAuthor st \<and> deviceExists devices i)
     \<and> (\<forall>r\<in>set ps. \<exists>i\<in>set (hs_seenAuthors st). rv_author_device_id r = CText i)
     \<and> hs_maxCollectedCursor st = Max (insert 0 (collectedCursors ps))"

lemma greaterThanAtMost_succ: "(p :: uint64) \<noteq> - 1 \<Longrightarrow> {0<..p + 1} = insert (p + 1) {0<..p}"
proof -
  assume p: "p \<noteq> - 1"
  have "x \<le> p + 1 \<longleftrightarrow> x = p + 1 \<or> x \<le> p" for x
    using less_succ_iff[OF p, of x] by (metis not_le order.order_iff_strict)
  moreover have "0 < p + 1" using p by (metis eq_neg_iff_add_eq_0 word_gt_0)
  ultimately show ?thesis by auto
qed

lemma historyRow_columns:
  assumes "historyRow devices st r = Some st'"
  obtains authorID cursor where "rv_author_device_id r = CText authorID" "authorID \<noteq> []" "deviceExists devices authorID"
    "rv_author_counter r = uint64_cell (hs_lastCounter st')" "rv_change_cursor r = uint64_cell cursor" "hs_currentAuthor st' = authorID"
    "hs_maxCollectedCursor st' = (if rv_retained r = 0 then max (hs_maxCollectedCursor st) cursor else hs_maxCollectedCursor st)"
    "if authorID = hs_currentAuthor st
     then hs_lastCounter st \<noteq> - 1 \<and> hs_lastCounter st' = hs_lastCounter st + 1 \<and> hs_seenAuthors st' = hs_seenAuthors st
     else finishAuthor devices st \<and> hs_lastCounter st' = 1 \<and> hs_seenAuthors st' = List.insert authorID (hs_seenAuthors st)"
proof -
  from assms obtain a k c where scans: "scan_uuid (rv_author_device_id r) = Some a" "scan_uint64 (rv_author_counter r) = Some k"
    "scan_uint64 (rv_change_cursor r) = Some c" by (auto simp: historyRow_def split: option.splits)
  have cells: "rv_author_device_id r = CText a" "rv_author_counter r = uint64_cell k" "rv_change_cursor r = uint64_cell c" "a \<noteq> []"
    using scans validateUUID_length[of a] by (auto simp: scan_uuid_eq scan_uint64_eq)
  note row = assms[unfolded historyRow_def scans prod.case option.case Let_def]
  show thesis using row by (intro that[OF cells(1,4)]) (auto simp: cells max_def not_less split: if_splits)
qed

lemma authored_snoc:
  "rv_author_device_id r = CText a \<Longrightarrow> rv_author_counter r = uint64_cell c \<Longrightarrow>
     authored i (ps @ [r]) = (if i = a then insert c (authored i ps) else authored i ps)"
  by (auto simp: authored_def)

lemma collectedCursors_snoc:
  "rv_change_cursor r = uint64_cell c \<Longrightarrow>
     collectedCursors (ps @ [r]) = (if rv_retained r = 0 then insert c (collectedCursors ps) else collectedCursors ps)"
  by (auto simp: collectedCursors_def)

lemma historyRow_inv:
  assumes step: "historyRow devices st r = Some st'" and inv: "history_inv devices ps st"
    and above: "\<forall>p\<in>set ps. rv_author_device_id p \<le> rv_author_device_id r"
  shows "history_inv devices (ps @ [r]) st'"
proof (rule historyRow_columns[OF step])
  fix a cursor
  assume c: "rv_author_device_id r = CText a" "a \<noteq> []" "deviceExists devices a" "rv_author_counter r = uint64_cell (hs_lastCounter st')"
    "rv_change_cursor r = uint64_cell cursor" "hs_currentAuthor st' = a"
    "hs_maxCollectedCursor st' = (if rv_retained r = 0 then max (hs_maxCollectedCursor st) cursor else hs_maxCollectedCursor st)"
    "if a = hs_currentAuthor st
     then hs_lastCounter st \<noteq> - 1 \<and> hs_lastCounter st' = hs_lastCounter st + 1 \<and> hs_seenAuthors st' = hs_seenAuthors st
     else finishAuthor devices st \<and> hs_lastCounter st' = 1 \<and> hs_seenAuthors st' = List.insert a (hs_seenAuthors st)"
  have fin: "finite (collectedCursors ps)" by simp
  have mx: "hs_maxCollectedCursor st' = Max (insert 0 (collectedCursors (ps @ [r])))"
  proof -
    have "hs_maxCollectedCursor st = Max (insert 0 (collectedCursors ps))" using inv by (simp add: history_inv_def)
    moreover have "Max (insert cursor (insert 0 (collectedCursors ps))) = max cursor (Max (insert 0 (collectedCursors ps)))"
      using fin by (intro Max_insert) auto
    ultimately show ?thesis unfolding c(7) collectedCursors_snoc[OF c(5)] by (simp only: insert_commute[of 0 cursor] max.commute split: if_split) simp
  qed
  have seen: "a \<in> set (hs_seenAuthors st')" "set (hs_seenAuthors st') = insert a (set (hs_seenAuthors st))"
    using c(2,8) inv by (auto simp: history_inv_def split: if_splits)
  have cur: "hs_currentAuthor st \<le> a" if "ps \<noteq> []"
    using inv above c(1) that by (auto simp: history_inv_def)
  have le: "i \<le> hs_currentAuthor st" "ps \<noteq> []" if "i \<in> set (hs_seenAuthors st)" for i
    using inv that by (auto simp: history_inv_def split: if_splits)
  have counts: "authored i (ps @ [r]) = (if i \<notin> set (hs_seenAuthors st') then {}
      else if i = hs_currentAuthor st' then {0<..hs_lastCounter st'} else {0<..maxCounterOf devices i})" for i
  proof (cases "a = hs_currentAuthor st")
    case True
    then have "ps \<noteq> []" using inv c(2) by (auto simp: history_inv_def)
    with True show ?thesis using inv c(6,8) greaterThanAtMost_succ[of "hs_lastCounter st"]
      by (auto simp: authored_snoc[OF c(1,4)] history_inv_def)
  next
    case False
    then have new: "a \<notin> set (hs_seenAuthors st)" using le cur by fastforce
    have one: "{0<..1 :: uint64} = {1}" using greaterThanAtMost_succ[of 0] by simp
    have "i \<in> set (hs_seenAuthors st) \<Longrightarrow> i = hs_currentAuthor st \<Longrightarrow> maxCounterOf devices i = hs_lastCounter st"
      using c(8) False inv le(2) by (auto simp: finishAuthor_def history_inv_def)
    with False new one show ?thesis using inv c(6,8) seen(2)
      by (auto simp: authored_snoc[OF c(1,4)] history_inv_def)
  qed
  have "\<forall>i\<in>set (hs_seenAuthors st'). i \<le> a \<and> deviceExists devices i"
    unfolding seen(2) using inv c(3) le cur by (fastforce simp: history_inv_def)
  moreover have "\<forall>p\<in>set (ps @ [r]). \<exists>i\<in>set (hs_seenAuthors st'). rv_author_device_id p = CText i"
    unfolding seen(2) using inv c(1) by (auto simp: history_inv_def)
  ultimately show ?thesis unfolding history_inv_def using counts mx seen(1) c(1,2,6) by auto
qed

lemma walkHistory_inv:
  assumes "walkHistory devices st rows = Some st'" "history_inv devices ps st" "sorted (map rv_author_device_id (ps @ rows))"
  shows "history_inv devices (ps @ rows) st'"
  using assms
proof (induction rows arbitrary: ps st)
  case Nil
  then show ?case by simp
next
  case (Cons r rows)
  from Cons.prems(1) obtain st1 where st1: "historyRow devices st r = Some st1" "walkHistory devices st1 rows = Some st'"
    by (auto split: option.splits)
  have "history_inv devices (ps @ [r]) st1"
    using historyRow_inv[OF st1(1) Cons.prems(2)] Cons.prems(3) by (auto simp: sorted_append)
  from Cons.IH[OF st1(2) this] Cons.prems(3) show ?case by simp
qed

lemma history_complete:
  assumes "validatePersistentHistorySequence devices s" "distinct (map fst devices)"
  shows "(i, row) \<in> set devices \<Longrightarrow> authored i (t_record_revisions s) = {0<..vd_maxCounter row}"
    and "\<forall>r\<in>set (t_record_revisions s). \<exists>i\<in>fst ` set devices. rv_author_device_id r = CText i"
    and "rt_cursor_floor (t_runtime_state s) = uint64_cell (Max (insert 0 (collectedCursors (t_record_revisions s))))"
proof -
  let ?rows = "sql_query (\<lambda>r. (rv_author_device_id r, rv_author_counter r)) (\<lambda>_. True) (t_record_revisions s)"
  from assms(1) obtain st where st: "walkHistory devices emptyHistory ?rows = Some st" "finishAuthor devices st"
    "list_all (\<lambda>(deviceID, row). deviceID \<in> set (hs_seenAuthors st) \<or> vd_maxCounter row = 0) devices"
    "scan_uint64 (rt_cursor_floor (t_runtime_state s)) = Some (hs_maxCollectedCursor st)"
    by (auto simp: validatePersistentHistorySequence_def split: option.splits)
  have "history_inv devices [] emptyHistory" by (simp add: history_inv_def emptyHistory_def authored_def collectedCursors_def)
  moreover have "sorted (map rv_author_device_id ([] @ ?rows))"
    using sorted_sql_query[of "\<lambda>r. (rv_author_device_id r, rv_author_counter r)" "\<lambda>_. True" "t_record_revisions s"]
    unfolding sorted_map append_Nil by (rule sorted_wrt_mono_rel[rotated]) auto
  ultimately have inv: "history_inv devices ?rows st" using walkHistory_inv[OF st(1), of "[]"] by simp
  have eq: "authored i ?rows = authored i (t_record_revisions s)" "collectedCursors ?rows = collectedCursors (t_record_revisions s)" for i
    by (simp_all add: authored_def collectedCursors_def)
  show "authored i (t_record_revisions s) = {0<..vd_maxCounter row}" if "(i, row) \<in> set devices"
  proof -
    have m: "maxCounterOf devices i = vd_maxCounter row" using that assms(2) by (simp add: maxCounterOf_def)
    have fin: "i = hs_currentAuthor st \<Longrightarrow> i \<in> set (hs_seenAuthors st) \<Longrightarrow> hs_lastCounter st = vd_maxCounter row"
      using st(2) m inv by (auto simp: finishAuthor_def history_inv_def split: if_splits)
    have "i \<notin> set (hs_seenAuthors st) \<Longrightarrow> vd_maxCounter row = 0" using st(3) that by (auto simp: list_all_iff)
    with m fin inv show ?thesis unfolding eq(1)[symmetric] history_inv_def by (cases "i \<in> set (hs_seenAuthors st)") auto
  qed
  show "\<forall>r\<in>set (t_record_revisions s). \<exists>i\<in>fst ` set devices. rv_author_device_id r = CText i"
    using inv by (force simp: history_inv_def deviceExists_def map_of_eq_None_iff)
  show "rt_cursor_floor (t_runtime_state s) = uint64_cell (Max (insert 0 (collectedCursors (t_record_revisions s))))"
    using st(4) inv eq(2) by (simp add: scan_uint64_eq history_inv_def)
qed

end
