(* ===== verification/ReceiptLaws.thy ===== *)
theory ReceiptLaws
  imports StoreLaws
begin

text \<open>
  Idempotency receipts and the uptime clock. A stored receipt is found by the next lookup of the same
  device, operation and request; pruning removes only receipts that are both older than the minimum age
  and followed by at least the minimum count of newer ones; the accumulated uptime is a saturating,
  monotone counter.
\<close>

section \<open>Deleting receipts\<close>

definition dropReceipts :: "bytes \<Rightarrow> bytes \<Rightarrow> int list \<Rightarrow> db \<Rightarrow> db" where
  "dropReceipts deviceID cls ns s = s\<lparr>
     t_operation_receipts := filter (\<lambda>r. or_receipt_sequence r \<notin> set ns) (t_operation_receipts s),
     t_operation_receipt_retention := filter (\<lambda>q. \<not> (ot_device_id q = CText deviceID \<and> ot_receipt_class q = CText cls
        \<and> ot_receipt_sequence q \<in> set ns)) (t_operation_receipt_retention s)\<rparr>"

lemma dropReceipts_Nil [simp]: "dropReceipts deviceID cls [] s = s"
  by (simp add: dropReceipts_def)

lemma forT_deleteReceipt: "forT (deleteReceipt deviceID cls) ns s = Inr ((), dropReceipts deviceID cls ns s)"
proof (induction ns arbitrary: s)
  case Nil
  then show ?case by (simp add: returnT_def)
next
  case (Cons n ns)
  have "deleteReceipt deviceID cls n s = Inr ((), dropReceipts deviceID cls [n] s)"
    by (simp add: deleteReceipt_def bindT_def updateDB_def execT_def dropReceipts_def sql_delete_def)
  moreover have "dropReceipts deviceID cls ns (dropReceipts deviceID cls [n] s) = dropReceipts deviceID cls (n # ns) s"
    by (auto simp: dropReceipts_def intro!: arg_cong2[where f = filter] db.equality)
  ultimately show ?case using Cons.IH by (simp add: bindT_def)
qed

lemma pruneOperationReceipts_cases:
  assumes "pruneOperationReceipts deviceID operation up n age s = Inr (u, t)"
  obtains (none) "t = s"
  | (some) b where "word_of_int (age div Millisecond) \<le> up" "protectedBoundary deviceID (receiptClass operation) n s = Some b" "1 \<le> n"
      "t = dropReceipts deviceID (receiptClass operation)
         (expiredReceipts deviceID (receiptClass operation) b (up - word_of_int (age div Millisecond)) s) s"
proof (cases "protectedBoundary deviceID (receiptClass operation) n s")
  case None
  then show ?thesis using assms none by (auto simp: pruneOperationReceipts_def Let_def result_simps split: if_splits)
next
  case (Some b)
  show ?thesis
  proof (cases "up < word_of_int (age div Millisecond)")
    case True
    then show ?thesis using assms none by (auto simp: pruneOperationReceipts_def Let_def result_simps split: if_splits)
  next
    case False
    then show ?thesis using assms Some
      by (intro some[of b]) (auto simp: pruneOperationReceipts_def Let_def result_simps forT_deleteReceipt split: if_splits)
  qed
qed

section \<open>What pruning protects\<close>

lemma nth_rev_sort_count:
  fixes xs :: "int list"
  assumes "k < length xs"
  shows "Suc k \<le> length (filter (\<lambda>x. rev (sort xs) ! k \<le> x) xs)"
proof -
  let ?ys = "rev (sort xs)" and ?b = "rev (sort xs) ! k"
  have sorted: "sorted_wrt (\<ge>) ?ys" by (simp add: sorted_wrt_rev)
  have "?b \<le> y" if y: "y \<in> set (take (Suc k) ?ys)" for y
  proof -
    obtain j where j: "j \<le> k" "y = ?ys ! j" using y assms by (auto simp: in_set_conv_nth less_Suc_eq_le)
    then show ?thesis using sorted assms by (cases "j = k") (auto simp: sorted_wrt_iff_nth_less)
  qed
  then have "filter (\<lambda>x. ?b \<le> x) (take (Suc k) ?ys) = take (Suc k) ?ys" by (rule filter_id)
  then have "Suc k = length (filter (\<lambda>x. ?b \<le> x) (take (Suc k) ?ys))" using assms by simp
  also have "\<dots> \<le> length (filter (\<lambda>x. ?b \<le> x) (take (Suc k) ?ys @ drop (Suc k) ?ys))"
    unfolding filter_append by simp
  also have "\<dots> = length (filter (\<lambda>x. ?b \<le> x) ?ys)" by (simp only: append_take_drop_id)
  also have "\<dots> = length (filter (\<lambda>x. ?b \<le> x) xs)"
    by (simp only: rev_filter[symmetric] filter_sort length_rev length_sort)
  finally show ?thesis .
qed

lemma protectedBoundary_count:
  assumes "protectedBoundary deviceID cls n s = Some b" "1 \<le> n"
  shows "n \<le> length (filter (\<lambda>q. b \<le> ot_receipt_sequence q) (classReceipts deviceID cls s))"
  using assms nth_rev_sort_count[of "n - 1" "map ot_receipt_sequence (classReceipts deviceID cls s)"]
  by (auto simp: protectedBoundary_def Let_def filter_map comp_def split: if_splits)

text \<open>The sequences that may go: old enough, and with at least \<open>n\<close> newer receipts of the device and class.\<close>

definition prunable :: "bytes \<Rightarrow> bytes \<Rightarrow> uint64 \<Rightarrow> nat \<Rightarrow> int \<Rightarrow> db \<Rightarrow> int set" where
  "prunable deviceID cls up n age s = ot_receipt_sequence ` {q \<in> set (classReceipts deviceID cls s).
     word_of_int (age div Millisecond) \<le> up \<and> ot_created_uptime_ms q \<le> uint64_cell (up - word_of_int (age div Millisecond))
     \<and> n \<le> length (filter (\<lambda>q'. ot_receipt_sequence q < ot_receipt_sequence q') (classReceipts deviceID cls s))}"

lemma expiredReceipts_prunable:
  assumes "protectedBoundary deviceID cls n s = Some b" "1 \<le> n" "word_of_int (age div Millisecond) \<le> up"
  shows "set (expiredReceipts deviceID cls b (up - word_of_int (age div Millisecond)) s) \<subseteq> prunable deviceID cls up n age s"
proof
  fix k assume "k \<in> set (expiredReceipts deviceID cls b (up - word_of_int (age div Millisecond)) s)"
  then obtain q where q: "q \<in> set (classReceipts deviceID cls s)" "k = ot_receipt_sequence q" "ot_receipt_sequence q < b"
    "ot_created_uptime_ms q \<le> uint64_cell (up - word_of_int (age div Millisecond))"
    by (auto simp: expiredReceipts_def dest!: in_set_takeD)
  have "n \<le> length (filter (\<lambda>q. b \<le> ot_receipt_sequence q) (classReceipts deviceID cls s))"
    using assms(1,2) by (rule protectedBoundary_count)
  also have "\<dots> \<le> length (filter (\<lambda>x. ot_receipt_sequence q < ot_receipt_sequence x) (classReceipts deviceID cls s))"
    using q(3) by (intro length_filter_le) auto
  finally show "k \<in> prunable deviceID cls up n age s" using q assms(3) by (auto simp: prunable_def)
qed

text \<open>Pruning deletes a set of prunable sequences and nothing else.\<close>

lemma pruneOperationReceipts_safe:
  assumes "pruneOperationReceipts deviceID operation up n age s = Inr (u, t)"
  shows "\<exists>ns. t = dropReceipts deviceID (receiptClass operation) ns s \<and> length ns \<le> 256
     \<and> set ns \<subseteq> prunable deviceID (receiptClass operation) up n age s"
  using assms
proof (cases rule: pruneOperationReceipts_cases)
  case none
  then show ?thesis by (intro exI[of _ "[]"]) simp
next
  case (some b)
  then show ?thesis using expiredReceipts_prunable[OF some(2,3,1)]
    by (intro exI[of _ "expiredReceipts deviceID (receiptClass operation) b (up - word_of_int (age div Millisecond)) s"])
      (simp add: expiredReceipts_def)
qed

section \<open>A stored receipt is found again\<close>

lemma minimum_age: "word_of_int (receiptMinimumUptime div Millisecond) = (2592000000 :: uint64)"
  by (simp add: receiptMinimumUptime_def Hour_def Minute_def Second_def Millisecond_def)

lemma receipt_age_positive: "\<not> receiptMinimumUptime < 0"
  by (simp add: receiptMinimumUptime_def Hour_def Minute_def Second_def)

lemma age_positive: "(2592000000 :: uint64) \<le> up \<Longrightarrow> \<not> uint64_cell up \<le> uint64_cell (up - 2592000000)"
  by (simp add: EncodeUint64_le_iff word_le_nat_alt unat_sub)

lemma prunableD:
  "k \<in> prunable deviceID cls up n age s \<Longrightarrow> \<exists>q\<in>set (t_operation_receipt_retention s). ot_receipt_sequence q = k
     \<and> word_of_int (age div Millisecond) \<le> up \<and> ot_created_uptime_ms q \<le> uint64_cell (up - word_of_int (age div Millisecond))"
  by (auto simp: prunable_def classReceipts_def)

definition receiptRow :: "int \<Rightarrow> bytes \<Rightarrow> bytes \<Rightarrow> bytes \<Rightarrow> bytes \<Rightarrow> api_response \<Rightarrow> time \<Rightarrow> uint64 \<Rightarrow> operation_receipts_row" where
  "receiptRow n deviceID operation requestID fingerprint response now up =
     \<lparr>or_receipt_sequence = n, or_device_id = CText deviceID, or_operation = CText operation, or_request_id = CText requestID,
      or_request_fingerprint = CBlob fingerprint, or_response_status = int (rs_Status response),
      or_response_json = CBlob (rs_Body response), or_created_at_ms = UnixMilli now, or_created_uptime_ms = uint64_cell up\<rparr>"

abbreviation receipt_key :: "bytes \<Rightarrow> bytes \<Rightarrow> bytes \<Rightarrow> operation_receipts_row \<Rightarrow> bool" where
  "receipt_key deviceID operation requestID \<equiv> \<lambda>r. or_device_id r = CText deviceID \<and> or_operation r = CText operation \<and> or_request_id r = CText requestID"

lemma storeReceiptAtUptime_keeps:
  assumes "storeReceiptAtUptime deviceID operation requestID fp resp now up s = Inr (u, t)"
  shows "\<exists>n. filter (receipt_key deviceID operation requestID) (t_operation_receipts t) =
      [receiptRow n deviceID operation requestID fp resp now up]"
    and "check_operation_receipts (receiptRow 0 deviceID operation requestID fp resp now up)"
proof -
  define n where "n = next_sequence (t_operation_receipts s)"
  define r where "r = receiptRow n deviceID operation requestID fp resp now up"
  define q where "q = \<lparr>ot_device_id = CText deviceID, ot_receipt_class = CText (receiptClass operation), ot_receipt_sequence = n,
     ot_created_uptime_ms = uint64_cell up\<rparr>"
  define s2 where "s2 = s\<lparr>t_operation_receipts := t_operation_receipts s @ [r],
     t_operation_receipt_retention := t_operation_receipt_retention s @ [q]\<rparr>"
  have r: "check_operation_receipts r" "\<forall>x\<in>set (t_operation_receipts s). \<not> clash_operation_receipts r x"
    and q: "\<forall>x\<in>set (t_operation_receipt_retention s). \<not> clash_operation_receipt_retention q x"
    and prune: "pruneOperationReceipts deviceID operation up receiptMinimumCount receiptMinimumUptime s2 = Inr (u, t)"
    using assms unfolding storeReceiptAtUptime_def insert_operation_receipts_def insert_operation_receipt_retention_def
      receiptRow_def[symmetric]
    by (auto simp: result_simps sql_simps r_def q_def s2_def n_def split: if_splits)
  show "check_operation_receipts (receiptRow 0 deviceID operation requestID fp resp now up)"
    using r(1) by (simp add: r_def receiptRow_def check_operation_receipts_def)
  obtain ns where t: "t = dropReceipts deviceID (receiptClass operation) ns s2"
    and ns: "set ns \<subseteq> prunable deviceID (receiptClass operation) up receiptMinimumCount receiptMinimumUptime s2"
    using pruneOperationReceipts_safe[OF prune] by blast
  have "n \<notin> set ns"
  proof
    assume "n \<in> set ns"
    then obtain x where x: "x \<in> set (t_operation_receipt_retention s2)" "ot_receipt_sequence x = n"
      "2592000000 \<le> up" "ot_created_uptime_ms x \<le> uint64_cell (up - 2592000000)"
      using ns prunableD unfolding minimum_age[symmetric] by blast
    then have "x = q" using q by (auto simp: clash_operation_receipt_retention_def q_def s2_def)
    then show False using x(3,4) age_positive by (simp add: q_def)
  qed
  moreover have "filter (receipt_key deviceID operation requestID) (t_operation_receipts s) = []"
    using r(2) by (auto simp: filter_empty_conv clash_operation_receipts_def r_def receiptRow_def same_def)
  ultimately have "filter (receipt_key deviceID operation requestID) (t_operation_receipts t) = [r]"
    using t by (auto simp: dropReceipts_def s2_def r_def receiptRow_def filter_empty_conv)
  then show "\<exists>n. filter (receipt_key deviceID operation requestID) (t_operation_receipts t) =
      [receiptRow n deviceID operation requestID fp resp now up]" by (auto simp: r_def)
qed

text \<open>Whatever was stored, a lookup of the same key answers from it: the recorded response, or a conflict.\<close>

lemma lookup_stored:
  assumes "storeReceiptAtUptime deviceID operation requestID fp resp now up s = Inr (u, t)" "t_operation_receipts t' = t_operation_receipts t"
    and "0 < length (rs_Body resp)" "length (rs_Body resp) \<le> maxBodyBytes"
  shows "lookupReceipt identity deviceID operation requestID fp' t' =
    (if \<not> validateStoredOperationResponse operation 200 (rs_Body resp) identity then Inl internal_error
     else if fp' \<noteq> fp then Inl (NewError ''request_id_reused'' False)
     else Inr (Some \<lparr>rs_Status = 200, rs_Body = rs_Body resp, rs_Headers = []\<rparr>))"
proof -
  obtain n where f: "filter (receipt_key deviceID operation requestID) (t_operation_receipts t') =
      [receiptRow n deviceID operation requestID fp resp now up]"
    using storeReceiptAtUptime_keeps(1)[OF assms(1)] assms(2) by auto
  have c: "rs_Status resp = 200" "length fp = 32"
    using storeReceiptAtUptime_keeps(2)[OF assms(1)] by (auto simp: check_operation_receipts_def receiptRow_def blob_col_def)
  have b: "scan_body maxBodyBytes (CBlob (rs_Body resp)) = Some (rs_Body resp)"
    using assms(3,4) by (simp add: scan_body_def boundedRequiredBytes_def value_length_def Suc_le_eq)
  show ?thesis
    unfolding lookupReceipt_def f by (auto simp: receiptRow_def scan_blob_CBlob c b)
qed

lemma lookup_unreadable:
  assumes "storeReceiptAtUptime deviceID operation requestID fp resp now up s = Inr (u, t)"
    and "rs_Body resp = [] \<or> maxBodyBytes < length (rs_Body resp)"
  shows "lookupReceipt identity deviceID operation requestID fp' t = Inl internal_error"
proof -
  obtain n where f: "filter (receipt_key deviceID operation requestID) (t_operation_receipts t) =
      [receiptRow n deviceID operation requestID fp resp now up]"
    using storeReceiptAtUptime_keeps(1)[OF assms(1)] by auto
  have b: "scan_body maxBodyBytes (CBlob (rs_Body resp)) = None"
    using assms(2) by (auto simp: scan_body_def boundedRequiredBytes_def Let_def)
  show ?thesis
    unfolding lookupReceipt_def f by (simp add: receiptRow_def b split: option.split)
qed

section \<open>The uptime clock\<close>

text \<open>The accumulated uptime after a checkpoint, as a number: it saturates at the largest 64-bit value.\<close>

lemma checkpointUptimeTx_value:
  assumes "checkpointUptimeTx e now s = Inr ((up, cp), t)" "rt_accumulated_uptime_ms (t_runtime_state s) = uint64_cell old"
  shows "rt_accumulated_uptime_ms (t_runtime_state t) = uint64_cell up"
    and "uint up = min (2 ^ 64 - 1) (uint old + max 0 (elapsedMilliseconds e now))"
    and "cp = uptimeCheckpoint e + max 0 (elapsedMilliseconds e now) * Millisecond"
proof -
  let ?d = "elapsedMilliseconds e now"
  have bound: "?d < 2 ^ 63"
    by (auto simp: elapsedMilliseconds_def Milliseconds_def sat64_def Millisecond_def)
  have u: "uint (- 1 - old) = 2 ^ 64 - 1 - uint old"
    by (simp add: uint_minus_simple_alt[THEN iffD1] unsigned_minus_1_eq_mask mask_eq_exp_minus_1)
  show "rt_accumulated_uptime_ms (t_runtime_state t) = uint64_cell up"
    "cp = uptimeCheckpoint e + max 0 ?d * Millisecond"
    using assms by (auto simp: checkpointUptimeTx_def Let_def result_simps split: if_splits)
  show "uint up = min (2 ^ 64 - 1) (uint old + max 0 ?d)"
  proof (cases "?d \<le> 0")
    case True
    then show ?thesis using assms unsigned_less[of old, where ?'a = int]
      by (auto simp: checkpointUptimeTx_def Let_def result_simps split: if_splits)
  next
    case False
    then have d: "uint (word_of_int ?d :: uint64) = ?d" using bound by (simp add: uint_word_of_int)
    have up: "up = (if - 1 - old < word_of_int ?d then - 1 else old + word_of_int ?d)"
      using assms False by (auto simp: checkpointUptimeTx_def Let_def result_simps split: if_splits)
    show ?thesis
    proof (cases "- 1 - old < word_of_int ?d")
      case True
      then have "2 ^ 64 - 1 - uint old < ?d" using u d by (simp add: word_less_def)
      then show ?thesis using up True by (simp add: unsigned_minus_1_eq_mask mask_eq_exp_minus_1)
    next
      case le: False
      then have "?d \<le> 2 ^ 64 - 1 - uint old" using u d by (simp add: word_less_def)
      then show ?thesis using up le False d by (simp add: uint_add_lem[THEN iffD1])
    qed
  qed
qed

lemma checkpointUptimeTx_scans:
  assumes "checkpointUptimeTx e now s = Inr (x, t)"
  shows "\<exists>old. rt_accumulated_uptime_ms (t_runtime_state s) = uint64_cell old"
  using assms by (auto simp: checkpointUptimeTx_def Let_def result_simps scan_uint64_eq split: if_splits option.splits)

section \<open>Key probes\<close>

lemma text_range_iff: "validateUUID k \<Longrightarrow> text_range k c \<longleftrightarrow> (\<exists>s. c = CText s \<and> prefix k s)"
  by (cases c) (auto simp: text_range_def less_cell_def less_eq_cell_def simp flip: prefix_range_iff)

lemma blob_range_iff: "validateUUID k \<Longrightarrow> blob_range k c \<longleftrightarrow> (\<exists>s. c = CBlob s \<and> prefix k s)"
  by (cases c) (auto simp: blob_range_def less_cell_def less_eq_cell_def simp flip: prefix_range_iff)

text \<open>A probe that succeeds says whether the key is present, and that nothing else starts with it.\<close>

lemma probe_key_exact:
  assumes "probe_key key k rows = Inr present"
  shows "present = (CText k \<in> key ` set rows)"
    and "{c \<in> key ` set rows. \<exists>s. prefix k s \<and> (c = CText s \<or> c = CBlob s)} \<subseteq> {CText k}"
proof -
  let ?found = "probe_rows key k rows"
  have k: "validateUUID k" and all: "list_all (\<lambda>r. scan_uuid (key r) = Some k) (take 2 ?found)"
    and len: "length (take 2 ?found) \<le> 1" and p: "present = (length (take 2 ?found) = 1)"
    using assms by (auto simp: probe_key_def Let_def list_all_iff list_ex_iff split: if_splits)
  have found: "take 2 ?found = ?found" using len by (auto simp: min_def split: if_splits)
  have mem: "set ?found = {r \<in> set rows. \<exists>s. prefix k s \<and> (key r = CText s \<or> key r = CBlob s)}"
    unfolding probe_rows_def text_range_iff[OF k] blob_range_iff[OF k] set_append set_filter by blast
  have only: "key r = CText k" if "r \<in> set ?found" for r
    using all that unfolding found by (auto simp: list_all_iff scan_uuid_eq)
  show "{c \<in> key ` set rows. \<exists>s. prefix k s \<and> (c = CText s \<or> c = CBlob s)} \<subseteq> {CText k}" using only unfolding mem by blast
  have "?found \<noteq> [] \<longleftrightarrow> CText k \<in> key ` set rows"
  proof
    assume "?found \<noteq> []"
    then obtain r where "r \<in> set ?found" by (cases ?found) auto
    then have "key r = CText k" "r \<in> set rows" using only unfolding mem by blast+
    then show "CText k \<in> key ` set rows" by (metis imageI)
  next
    assume "CText k \<in> key ` set rows"
    then obtain r where "r \<in> set rows" "key r = CText k" by auto
    then have "r \<in> set ?found" unfolding mem by blast
    then show "?found \<noteq> []" by (metis empty_iff list.set(1))
  qed
  moreover have "length ?found \<le> 1" "present \<longleftrightarrow> length ?found = 1" using len p by (simp_all only: found)
  then have "present \<longleftrightarrow> ?found \<noteq> []" by (metis le_antisym length_0_conv length_greater_0_conv less_one not_less)
  ultimately show "present = (CText k \<in> key ` set rows)" by (simp only:)
qed

end
