(* ===== verification/EnvelopeLaws.thy ===== *)
theory EnvelopeLaws
  imports WireLaws ReceiptLaws DeviceLaws
begin

text \<open>
  The vault envelope as a compare-and-swap register: a write commits only at the expected generation,
  moves the generation by one, is what the next read returns, and is answered from its receipt when the
  request is repeated.
\<close>

section \<open>What receipts and leases leave alone\<close>

definition core_frame :: "db \<Rightarrow> db \<Rightarrow> bool" where
  "core_frame s t \<longleftrightarrow> t_devices t = t_devices s \<and> t_vault_envelope t = t_vault_envelope s
     \<and> (\<exists>up. t_runtime_state t = (t_runtime_state s)\<lparr>rt_accumulated_uptime_ms := up\<rparr>)"

lemma same_uptime [simp]: "\<exists>up. r = r\<lparr>rt_accumulated_uptime_ms := up\<rparr>"
  by (intro exI[of _ "rt_accumulated_uptime_ms r"]) simp

interpretation core: volatile_tables core_frame
  by unfold_locales (auto simp: core_frame_def lease_statements split: if_splits)

lemma insertChange_frame:
  "insertChange c k r m d dk g now s = Inr (x, t) \<Longrightarrow> \<exists>os cs. t = s\<lparr>t_change_origins := os, t_changes := cs\<rparr>"
  by (auto simp: insertChange_def insertChangeOrigin_def insert_change_origins_def insert_changes_def result_simps split: if_splits)

section \<open>A committed write\<close>

lemma putEnvelopeTx_commit:
  assumes "putEnvelopeTx i e call expected req s = Inr (Commit resp cp, t)"
  obtains a fp c g secret n up s2 s3 u w where
    "authenticate i (rq_Authorization call) ''envelope:write'' s = Inr a"
    "requestFingerprint i ''JAT vault envelope request fingerprint v1'' (da_DeviceID a) (rq_Body call) = Inr fp"
    "readRuntimeState s = Inr (c, expected, secret, n)" "expected \<noteq> - 1" "c \<noteq> - 1" "g = expected + 1"
    "peq_NewGeneration req = encodeUint64Text g" "validateEnvelope (peq_Envelope req) i = Some (g, secret)"
    "resp = response200 (marshal (to_vaultEnvelope (peq_Envelope req)))"
    "storeReceiptAtUptime (da_DeviceID a) ''vault-envelope'' (rq_RequestID call) fp resp (rq_Now call) up s2 = Inr (u, s3)"
    "t = s3\<lparr>t_runtime_state := (t_runtime_state s3)\<lparr>rt_server_cursor := uint64_cell (c + 1)\<rparr>\<rparr>"
    "t_devices t = t_devices s" "t_vault_envelope t = Some \<lparr>vb_generation = uint64_cell g, vb_envelope_json = CBlob (rs_Body resp)\<rparr>"
    "t_runtime_state t = (t_runtime_state s)\<lparr>rt_envelope_generation := uint64_cell g,
        rt_accumulated_uptime_ms := w, rt_server_cursor := uint64_cell (c + 1)\<rparr>"
proof -
  obtain a fp c g secret n s1 checkpoint s3 where
    h: "authenticate i (rq_Authorization call) ''envelope:write'' s = Inr a"
    "requestFingerprint i ''JAT vault envelope request fingerprint v1'' (da_DeviceID a) (rq_Body call) = Inr fp"
    "readRuntimeState s = Inr (c, expected, secret, n)" "expected \<noteq> - 1" "c \<noteq> - 1" "g = expected + 1"
    "parseUint64 (peq_NewGeneration req) = Some g" "validateEnvelope (peq_Envelope req) i = Some (g, secret)"
    "resp = response200 (marshal (to_vaultEnvelope (peq_Envelope req)))"
    and s1: "insertChange (c + 1) ''envelope_changed'' [] [] [] [] g (rq_Now call)
       (s\<lparr>t_vault_envelope := Some \<lparr>vb_generation = uint64_cell g, vb_envelope_json = CBlob (rs_Body resp)\<rparr>,
          t_runtime_state := (t_runtime_state s)\<lparr>rt_envelope_generation := uint64_cell g\<rparr>\<rparr>) = Inr ((), s1)"
    and s3: "storeReceipt e (da_DeviceID a) ''vault-envelope'' (rq_RequestID call) fp resp (rq_Now call) s1 = Inr (checkpoint, s3)"
    and t: "t = s3\<lparr>t_runtime_state := (t_runtime_state s3)\<lparr>rt_server_cursor := uint64_cell (c + 1)\<rparr>\<rparr>"
    using assms unfolding putEnvelopeTx_def admitEnvelope_def writeEnvelope_def setServerCursor_def Let_def
    by (auto simp: result_simps marshalJSON_def response200_def split: option.splits)
  obtain up cp' s2 u where s2: "checkpointUptimeTx e (rq_Now call) s1 = Inr ((up, cp'), s2)"
    "storeReceiptAtUptime (da_DeviceID a) ''vault-envelope'' (rq_RequestID call) fp resp (rq_Now call) up s2 = Inr (u, s3)"
    using s3 by (auto simp: storeReceipt_def result_simps)
  have "core_frame s1 s3" using tx_relD[OF core.rel_storeReceipt s3] .
  moreover have "t_devices s1 = t_devices s" "t_vault_envelope s1 = Some \<lparr>vb_generation = uint64_cell g, vb_envelope_json = CBlob (rs_Body resp)\<rparr>"
    "t_runtime_state s1 = (t_runtime_state s)\<lparr>rt_envelope_generation := uint64_cell g\<rparr>"
    using insertChange_frame[OF s1] by auto
  ultimately obtain w where "t_devices t = t_devices s" "t_vault_envelope t = Some \<lparr>vb_generation = uint64_cell g, vb_envelope_json = CBlob (rs_Body resp)\<rparr>"
    "t_runtime_state t = (t_runtime_state s)\<lparr>rt_envelope_generation := uint64_cell g,
        rt_accumulated_uptime_ms := w, rt_server_cursor := uint64_cell (c + 1)\<rparr>"
    unfolding core_frame_def t by auto
  then show ?thesis using h s2(2) t by (intro that[of a fp c secret n g up s2 u s3 w]) (auto simp: parseUint64_eq_Some)
qed

section \<open>Handlers\<close>

lemma runTx_cases:
  assumes "runTx io store tx = (Inr resp, store')"
  obtains (rollback) s where "io_begin io" "tx (st_db store) = Inr (Rollback resp, s)" "store' = store"
  | (commit) cp s where "io_begin io" "tx (st_db store) = Inr (Commit resp cp, s)" "st_db store' = s" "st_identity store' = st_identity store"
  using assms by (auto simp: runTx_def finishTx_def split: if_splits sum.splits prod.splits outcome.splits)

lemma handlePutEnvelope_cases:
  assumes "handlePutEnvelope io call store = (Inr resp, store')"
  obtains g expected where "decodeStrict T_putEnvelopeRequest (rq_Body call) = Some g"
    "parseUint64 (peq_ExpectedGeneration (of_putEnvelopeRequest g)) = Some expected"
    "runTx io store (putEnvelopeTx (st_identity store) (st_ephemeral store) call expected (of_putEnvelopeRequest g)) = (Inr resp, store')"
    "\<And>io store. handlePutEnvelope io call store =
       runTx io store (putEnvelopeTx (st_identity store) (st_ephemeral store) call expected (of_putEnvelopeRequest g))"
  using assms unfolding handlePutEnvelope_def by (auto split: option.splits)

lemma envelope_canonical:
  assumes "validateEnvelope e i = Some g" "identity_ok i"
  shows "decodeStoredCanonical T_vaultEnvelope (marshal (to_vaultEnvelope e)) = Some (to_vaultEnvelope e)"
    and "json_Unmarshal T_vaultEnvelope (marshal (to_vaultEnvelope e)) = Some (to_vaultEnvelope e)"
    and "of_vaultEnvelope (to_vaultEnvelope e) = e"
    and "scan_body maxBodyBytes (CBlob (marshal (to_vaultEnvelope e))) = Some (marshal (to_vaultEnvelope e))"
  using valid_envelope_wire[OF assms] vaultEnvelope_codec.typed[of e] vaultEnvelope_codec.shape
  by (auto simp: vaultEnvelope_codec.stored_canonical vaultEnvelope_codec.get_put json_Unmarshal_def parse_json_marshal
      unmarshal_json_of scan_body_def boundedRequiredBytes_def value_length_def Suc_le_eq)

lemma authenticate_devices: "t_devices t = t_devices s \<Longrightarrow> authenticate i a sc t = authenticate i a sc s"
  by (simp only: authenticate_def)

lemma get_after_put:
  assumes "putEnvelopeTx i e call expected req s = Inr (Commit resp cp, t)" "identity_ok i"
    and "authenticate i (rq_Authorization get) ''envelope:read'' t = Inr a" "rq_Body get = []"
    and "st_db store = t" "st_identity store = i" "io_begin io"
  shows "handleGetEnvelope io get store = (Inr resp, store)"
  using assms(1)
proof (cases rule: putEnvelopeTx_commit)
  case (1 a fp c g secret n up s2 s3 u w)
  note can = envelope_canonical[OF 1(8) assms(2)]
  have "readRuntimeState t = Inr (c + 1, g, secret, n)"
    using 1(3,14) by (auto simp: readRuntimeState_def Let_def sql_simps split: option.splits)
  moreover have "envelopeBody i g secret \<lparr>vb_generation = uint64_cell g, vb_envelope_json = CBlob (rs_Body resp)\<rparr> = Inr (rs_Body resp)"
    using 1(8,9) can by (simp add: envelopeBody_def response200_def marshalJSON_def)
  ultimately show ?thesis
    using assms(3-) 1(9,13)
    by (simp add: handleGetEnvelope_def runTx_def finishTx_def bindT_def readT_def returnT_def response200_def)
qed

lemma put_again:
  assumes "handlePutEnvelope io call store = (Inr resp, store')" "identity_ok (st_identity store)" "io_begin io'"
  shows "handlePutEnvelope io' call store' = (Inr resp, store')"
proof -
  obtain g expected where run: "runTx io store (putEnvelopeTx (st_identity store) (st_ephemeral store) call expected (of_putEnvelopeRequest g)) = (Inr resp, store')"
    and eq: "\<And>io store. handlePutEnvelope io call store =
       runTx io store (putEnvelopeTx (st_identity store) (st_ephemeral store) call expected (of_putEnvelopeRequest g))"
    using handlePutEnvelope_cases[OF assms(1)] by metis
  show ?thesis
    using run
  proof (cases rule: runTx_cases)
    case (rollback s)
    then show ?thesis using eq assms(3) by (simp add: runTx_def finishTx_def)
  next
    case (commit cp s)
    from commit(2) show ?thesis
    proof (cases rule: putEnvelopeTx_commit)
      case (1 a fp c g secret n up s2 s3 u w)
      note can = envelope_canonical[OF 1(8) assms(2)] and wire = valid_envelope_wire[OF 1(8) assms(2)]
      have "lookupReceipt (st_identity store) (da_DeviceID a) ''vault-envelope'' (rq_RequestID call) fp (st_db store') = Inr (Some resp)"
        using lookup_stored[OF 1(10), of "st_db store'" "st_identity store" fp] can wire 1(8,9,11) commit(3)
        by (simp add: validateStoredOperationResponse_def response200_def)
      then show ?thesis
        using commit eq 1(1,2) assms(3) authenticate_devices[OF 1(12)]
        by (auto simp: putEnvelopeTx_def runTx_def finishTx_def bindT_def readT_def returnT_def)
    qed
  qed
qed

end
