(* ===== verification/CredentialLaws.thy ===== *)
theory CredentialLaws
  imports DeviceLaws
begin

text \<open>
  Credentials over time: enrollment grants are bound to a boot, expire and enroll one device; the rate
  limits admit at most five attempts in any minute; a rotation retires the old token and a revocation
  the device.
\<close>

section \<open>Grants\<close>

lemma grantRow_cases:
  assumes "grantRow presented matched row = Inr m"
  shows "m = matched \<or> (\<exists>c. m = Some c \<and> eg_grant_hash row = CBlob presented \<and> scan_opt_uuid (eg_consumed_enrollment_id row) = Some c)"
  using assms by (auto simp: grantRow_def sql_simps split: option.splits if_splits)

lemma grantRows_match:
  assumes "foldR (grantRow presented) None rows = Inr (Some c)"
  shows "\<exists>row\<in>set rows. eg_grant_hash row = CBlob presented \<and> scan_opt_uuid (eg_consumed_enrollment_id row) = Some c"
proof -
  let ?P = "\<lambda>m. \<forall>c. m = Some c \<longrightarrow> (\<exists>row\<in>set rows. eg_grant_hash row = CBlob presented
      \<and> scan_opt_uuid (eg_consumed_enrollment_id row) = Some c)"
  have "?P (Some c)"
    using assms by (rule foldR_invariant) (auto dest!: grantRow_cases)
  then show ?thesis by simp
qed

lemma grantDeadline_mem:
  assumes "grantDeadline presented ds = Some deadline" shows "(presented, deadline) \<in> set ds"
proof -
  have "fold (\<lambda>(hash, deadline) found. if VerifyHash hash presented then Some deadline else found) ds found = Some d
      \<Longrightarrow> (presented, d) \<in> set ds \<or> found = Some d" for found d
    by (induction ds arbitrary: found) (fastforce split: if_splits)+
  then show ?thesis using assms by (fastforce simp: grantDeadline_def)
qed

lemma lookupGrant_sound:
  assumes "lookupGrant e presented now s = Inr consumed"
  shows "booted e"
    and "\<exists>g\<in>set (t_enrollment_grants s). eg_boot_id g = CBlob (bootID e) \<and> eg_grant_hash g = CBlob presented
           \<and> scan_opt_uuid (eg_consumed_enrollment_id g) = Some consumed"
    and "\<exists>deadline. (presented, deadline) \<in> set (grantDeadlines e) \<and> now < deadline"
proof -
  obtain deadline where "booted e" "grantDeadline presented (grantDeadlines e) = Some deadline" "now < deadline"
    and m: "foldR (grantRow presented) None (sql_query eg_grant_hash (\<lambda>g. eg_boot_id g = CBlob (bootID e)) (t_enrollment_grants s)) = Inr (Some consumed)"
  proof -
    obtain m where "foldR (grantRow presented) None (sql_query eg_grant_hash (\<lambda>g. eg_boot_id g = CBlob (bootID e)) (t_enrollment_grants s)) = Inr m"
      "booted e" "(case m of None \<Rightarrow> Inl unauthorized | Some consumed \<Rightarrow> (case grantDeadline presented (grantDeadlines e) of
         None \<Rightarrow> Inl (NewError ''grant_expired'' False)
       | Some deadline \<Rightarrow> if deadline \<le> now then Inl (NewError ''grant_expired'' False) else Inr consumed)) = Inr consumed"
      using assms by (auto simp: lookupGrant_def bindR_eq_Inr split: if_splits)
    then show ?thesis using that by (auto split: option.splits if_splits)
  qed
  then show "booted e" "\<exists>deadline. (presented, deadline) \<in> set (grantDeadlines e) \<and> now < deadline"
    using grantDeadline_mem by blast+
  show "\<exists>g\<in>set (t_enrollment_grants s). eg_boot_id g = CBlob (bootID e) \<and> eg_grant_hash g = CBlob presented
      \<and> scan_opt_uuid (eg_consumed_enrollment_id g) = Some consumed" using grantRows_match[OF m] by auto
qed

text \<open>Once a grant has enrolled a device, no request with it reaches the enrollment again.\<close>

lemma enrollTx_consumes:
  assumes "enrollTx i r g h fp now s = Inr (x, t)" "row \<in> set (t_enrollment_grants t)" "eg_grant_hash row = CBlob g"
  shows "eg_consumed_enrollment_id row = CText (erq_EnrollmentID r)"
  using assms unfolding enrollTx_def insertDeviceRows_def insertChange_def insertChangeOrigin_def setServerCursor_def
    consumeGrant_def deviceCounts_def Let_def
  by (auto simp: result_simps sql_simps insert_devices_def insert_device_origins_def insert_device_sync_state_def
      insert_enrollments_def insert_change_origins_def insert_changes_def set_sql_set split: if_splits)

lemma enrollTx_grant_used:
  assumes "enrollTx i r g h fp now s = Inr (x, t)" shows "lookupGrant e g now' t \<noteq> Inr None"
proof
  assume "lookupGrant e g now' t = Inr None"
  from lookupGrant_sound(2)[OF this] obtain row where row: "row \<in> set (t_enrollment_grants t)" "eg_grant_hash row = CBlob g"
    "scan_opt_uuid (eg_consumed_enrollment_id row) = Some None" by blast
  then show False using enrollTx_consumes[OF assms row(1,2)]
    by (auto simp: scan_opt_uuid_def scan_opt_text_eq maxUUIDBytes_def split: option.splits if_splits)
qed

lemma lookup_reaches_enrollment: "enrollmentLookupTx i e r g h f now s = Inr (Inr x, t) \<Longrightarrow> lookupGrant e g now s = Inr None"
  unfolding enrollmentLookupTx_def by (auto simp: result_simps split: option.splits if_splits)

interpretation no_grants: lease_tables "\<lambda>s t. t_enrollment_grants t = t_enrollment_grants s"
  by unfold_locales (auto simp: lease_statements split: if_splits)

lemma StartBoot_clears:
  "fst (StartBoot io store) = Inr () \<Longrightarrow> t_enrollment_grants (st_db (snd (StartBoot io store))) = []
     \<and> grantDeadlines (st_ephemeral (snd (StartBoot io store))) = []"
proof -
  let ?tx = "bindT (updateDB (\<lambda>s. s\<lparr>t_runtime_state := (t_runtime_state s)\<lparr>rt_active_boot_id := CBlob (io_rand io 0)\<rparr>,
      t_enrollment_grants := []\<rparr>)) (\<lambda>_. bindT (readT snapshotIdentifiers) (\<lambda>ids. forT deleteSnapshotAndReleaseObjects ids))"
  have "t_enrollment_grants s = []" if "?tx (st_db store) = Inr (x, s)" for x s
    using that by (auto simp: result_simps dest!: tx_relD[OF no_grants.rel_forT[OF no_grants.rel_deleteSnapshotAndReleaseObjects]])
  then show "fst (StartBoot io store) = Inr () \<Longrightarrow> ?thesis"
    by (cases "?tx (st_db store)") (auto simp: StartBoot_def Let_def split: if_splits)
qed

section \<open>Rate limits\<close>

text \<open>The admitted attempts of a run of calls, and how many of them fall in the minute that ends at \<open>t\<close>.\<close>

fun admitted :: "time list \<Rightarrow> time list \<Rightarrow> time list" where
  "admitted attempts [] = []"
| "admitted attempts (now # rest) =
     (case admitAttempt attempts now of (ok, attempts') \<Rightarrow> (if ok then [now] else []) @ admitted attempts' rest)"

definition in_window :: "time \<Rightarrow> time list \<Rightarrow> nat" where
  "in_window t xs = length (filter (\<lambda>a. t - Minute < a \<and> a \<le> t) xs)"

lemma admitted_window:
  assumes "sorted (prev # ts)" "attempts = filter (\<lambda>a. prev - Minute < a) past" "\<forall>a\<in>set past. a \<le> prev"
    and "\<forall>t. in_window t past \<le> 5"
  shows "in_window t (past @ admitted attempts ts) \<le> 5"
  using assms
proof (induction ts arbitrary: prev attempts past)
  case Nil
  then show ?case by simp
next
  case (Cons now ts)
  define kept where "kept = filter (\<lambda>a. now - Minute < a) past"
  have kept: "filter (\<lambda>a. now - Minute < a) attempts = kept"
    using Cons.prems(1,2) by (auto simp: kept_def intro!: filter_cong)
  show ?case
  proof (cases "5 \<le> length kept")
    case True
    then have "admitted attempts (now # ts) = admitted kept ts" by (simp add: admitAttempt_def kept)
    moreover have "in_window t (past @ admitted kept ts) \<le> 5"
      using Cons.prems by (intro Cons.IH[of now]) (auto simp: kept_def)
    ultimately show ?thesis by simp
  next
    case False
    then have "admitted attempts (now # ts) = now # admitted (kept @ [now]) ts" by (simp add: admitAttempt_def kept)
    moreover have "in_window t ((past @ [now]) @ admitted (kept @ [now]) ts) \<le> 5"
    proof (rule Cons.IH[of now])
      show "kept @ [now] = filter (\<lambda>a. now - Minute < a) (past @ [now])" by (simp add: kept_def Minute_def Second_def)
      show "\<forall>t. in_window t (past @ [now]) \<le> 5"
      proof
        fix t
        have "length (filter (\<lambda>a. t - Minute < a \<and> a \<le> t) past) \<le> length kept" if "now \<le> t"
          unfolding kept_def using that by (intro length_filter_le) auto
        then show "in_window t (past @ [now]) \<le> 5"
          using Cons.prems(4) False by (cases "now \<le> t") (auto simp: in_window_def)
      qed
    qed (use Cons.prems in auto)
    ultimately show ?thesis by simp
  qed
qed

section \<open>Rotation and revocation\<close>

lemma rotateTx_devices:
  assumes "rotateTx r ph nh fp now s = Inr (x, t)"
  shows "t_devices t = sql_set (\<lambda>d. d_device_id d = CText (trq_DeviceID r)) (\<lambda>d. d\<lparr>d_token_hash := CBlob nh\<rparr>) (t_devices s)"
  using assms unfolding rotateTx_def Let_def
  by (auto simp: result_simps sql_update_def insert_token_rotations_def split: if_splits)

lemma readDevice_row:
  assumes "readDevice i s = Inr (v, h)"
  shows "\<exists>d\<in>set (t_devices s). d_device_id d = CText i \<and> (dv_Status v = ''revoked'' \<longleftrightarrow> d_revoked_at_ms d \<noteq> None)"
proof -
  obtain d where d: "find (\<lambda>d. d_device_id d = CText i) (t_devices s) = Some d"
    using assms by (auto simp: readDevice_def split: option.splits)
  then have "dv_Status v = ''revoked'' \<longleftrightarrow> d_revoked_at_ms d \<noteq> None"
    using assms by (auto simp: readDevice_def deviceFromValues_def split: option.splits if_splits)
  with find_SomeD[OF d] show ?thesis by auto
qed

lemma markRevoked_revokes:
  assumes "markRevoked i at c s = Inr (x, t)" "d \<in> set (t_devices s)" "d_device_id d = CText i"
  shows "revoked_device i t"
proof -
  have t: "t_devices t = sql_set (\<lambda>d. d_device_id d = CText i \<and> d_revoked_at_ms d = None)
      (\<lambda>d. d\<lparr>d_revoked_at_ms := Some (max at (d_created_at_ms d))\<rparr>) (t_devices s)"
    using assms(1) by (auto simp: markRevoked_def Let_def result_simps)
  let ?d = "if d_revoked_at_ms d = None then d\<lparr>d_revoked_at_ms := Some (max at (d_created_at_ms d))\<rparr> else d"
  have "?d \<in> set (t_devices t)" using assms(2,3) unfolding t set_sql_set by auto
  then show ?thesis using assms(3) unfolding revoked_device_def by (intro bexI[of _ ?d]) auto
qed

lemma revokeActiveTx_revokes:
  assumes "revokeActiveTx i e call target r a fp s = Inr (x, t)" "d \<in> set (t_devices s)" "d_device_id d = CText target"
  shows "revoked_device target t"
proof -
  obtain c s1 u v h body headers s2 ms s3 u3 resp cp s4 where
    m: "markRevoked target (UnixMilli (rq_Now call)) c s = Inr (u, s1)"
    and s2: "(if da_DeviceID a = target then selfReceiptTx i call target h body else returnT []) s1 = Inr (headers, s2)"
    and s3: "insertChange c ''device_changed'' [] [] target ''revoked'' 0 (ms * Millisecond) s2 = Inr (u3, s3)"
    and s4: "storeReceipt e (da_DeviceID a) (''device-revocation/'' @ target) (rq_RequestID call) fp resp (rq_Now call) s3 = Inr (cp, s4)"
    and t: "setServerCursor c s4 = Inr (v, t)"
    using assms(1) unfolding revokeActiveTx_def Let_def by (auto simp: result_simps)
  have "tx_rel db_grows (if da_DeviceID a = target then selfReceiptTx i call target h body else returnT [])"
    unfolding selfReceiptTx_def Let_def by (intro grows.statement_rules grows.rel_execDB grows.permanent(3))
  note g = tx_relD[OF this s2] tx_relD[OF grows.rel_insertChange s3] tx_relD[OF grows.rel_storeReceipt s4]
    tx_relD[OF grows.rel_setServerCursor t]
  have "db_grows s1 t" using grows.trans_rel[OF grows.trans_rel[OF grows.trans_rel[OF g(1,2)] g(3)] g(4)] .
  with markRevoked_revokes[OF m assms(2,3)] show ?thesis by (rule revoked_device_grows)
qed

text \<open>Whatever a revocation commits, its target is revoked afterwards.\<close>

lemma revokeTx_revokes:
  assumes "revokeTx i e call target r s = Inr (Commit resp cp, t)"
  shows "revoked_device target t"
proof -
  obtain a fp v h where d: "readDevice target s = Inr (v, h)"
    and run: "dv_Status v \<noteq> ''revoked'' \<Longrightarrow> revokeActiveTx i e call target r a fp s = Inr (Commit resp cp, t)"
    using assms unfolding revokeTx_def Let_def by (auto simp: result_simps split: option.splits if_splits)
  obtain d where d: "d \<in> set (t_devices s)" "d_device_id d = CText target" "dv_Status v = ''revoked'' \<longleftrightarrow> d_revoked_at_ms d \<noteq> None"
    using readDevice_row[OF d] by blast
  show ?thesis
  proof (cases "dv_Status v = ''revoked''")
    case True
    then have "revoked_device target s" using d by (auto simp: revoked_device_def)
    then show ?thesis using tx_relD[OF grows.rel_revokeTx assms] by (rule revoked_device_grows)
  qed (use revokeActiveTx_revokes[OF run d(1,2)] in blast)
qed

lemma last_device_confirmed:
  assumes "revokeActiveTx i e call target r a fp s = Inr (x, t)"
  shows "activeCount s \<noteq> 1 \<or> rdq_AllowZeroActive r"
  using assms unfolding revokeActiveTx_def by (auto simp: result_simps)

section \<open>What authenticates as a device\<close>

definition auth_device :: "deviceAuth api_result \<Rightarrow> bytes option" where
  "auth_device r = (case r of Inl _ \<Rightarrow> None | Inr a \<Rightarrow> Some (da_DeviceID a))"

text \<open>The hashes of the tokens that authenticate as a device.\<close>

definition accepted_hashes :: "Identity \<Rightarrow> bytes \<Rightarrow> db \<Rightarrow> bytes set" where
  "accepted_hashes i deviceID s = {h. \<exists>token authorization scope.
     DeviceTokenHash (id_InstanceID i) (id_VaultID i) deviceID token = Some h
     \<and> parseAuthorization authorization ''Bearer'' = Some token \<and> auth_device (authenticate i authorization scope s) = Some deviceID}"

lemma auth_device_eq: "auth_device r = Some d \<longleftrightarrow> (\<exists>a. r = Inr a \<and> da_DeviceID a = d)"
  by (auto simp: auth_device_def split: sum.splits)

lemma rotateTx_accepted:
  assumes "rotateTx r ph nh fp now s = Inr (x, t)"
  shows "accepted_hashes i (trq_DeviceID r) t \<subseteq> {nh}"
proof
  fix h assume "h \<in> accepted_hashes i (trq_DeviceID r) t"
  then obtain d where "d \<in> set (t_devices t)" "d_device_id d = CText (trq_DeviceID r)" "d_token_hash d = CBlob h"
    by (auto simp: accepted_hashes_def auth_device_eq holds_token_def dest!: authenticate_match)
  then show "h \<in> {nh}" using rotateTx_devices[OF assms] by (auto simp: set_sql_set)
qed

lemma revoked_never_authenticates:
  assumes "revoked_device i (st_db store)" "registry_ok (st_db store)" "store_reachable store store'"
  shows "auth_device (authenticate identity authorization scope (st_db store')) \<noteq> Some i"
proof -
  have "revoked_device i (st_db store')" using assms(1) grows.rel_reachable[OF assms(3)] by (rule revoked_device_grows)
  moreover have "registry_ok (st_db store')" using registry.rel_reachable[OF assms(3)] assms(2) by (simp add: keeps_registry_def)
  ultimately show ?thesis using revoked_device_unauthenticated by (auto simp: auth_device_eq)
qed

end
