(* ===== verification/SnapshotLaws.thy ===== *)
theory SnapshotLaws
  imports WireLaws
begin

text \<open>
  Snapshot plans: the metadata account is the exact sum of what a lease stores, with overflow reported
  and never wrapped; the pages of a plan carry every head, marker and device exactly once and in order,
  each page of one kind and within its limits; and page tokens form a chain.
\<close>

section \<open>Accounting\<close>

text \<open>\<open>counts a n\<close>: the account \<open>a\<close> stands for the exact total \<open>n\<close>.\<close>

definition counts :: "snapshotMetadataAccounting \<Rightarrow> int \<Rightarrow> bool" where
  "counts a n \<longleftrightarrow> 0 \<le> n \<and> (if n \<le> maxInt64 then \<not> ac_overflow a \<and> ac_total a = n else ac_overflow a)"

definition lp_size :: "bytes \<Rightarrow> int" where
  "lp_size v = 8 + int (length v)"

definition record_size :: "bytes \<Rightarrow> bytes list \<Rightarrow> int" where
  "record_size tag values = lp_size tag + 8 + sum_list (map lp_size values)"

lemma counts_addLength64: "counts a n \<Longrightarrow> 0 \<le> l \<Longrightarrow> counts (addLength64 l a) (n + l)"
  by (auto simp: counts_def addLength64_def split: if_splits)

lemma counts_addLP: "counts a n \<Longrightarrow> counts (addLP v a) (n + lp_size v)"
  using counts_addLength64[OF counts_addLength64[of a n 8], of "int (length v)"] by (simp add: addLP_def lp_size_def add.assoc)

lemma counts_fold: "(\<And>x a n. x \<in> set xs \<Longrightarrow> counts a n \<Longrightarrow> counts (f x a) (n + g x)) \<Longrightarrow> counts a n \<Longrightarrow>
    counts (fold f xs a) (n + sum_list (map g xs))"
proof (induction xs arbitrary: a n)
  case (Cons x xs)
  have "counts (fold f xs (f x a)) ((n + g x) + sum_list (map g xs))" using Cons.prems by (intro Cons.IH) auto
  then show ?case by (simp add: algebra_simps)
qed simp

lemma counts_addRecord: "counts a n \<Longrightarrow> counts (addRecord tag vs a) (n + record_size tag vs)"
  using counts_fold[of vs addLP lp_size "addLength64 8 (addLP tag a)" "n + lp_size tag + 8"] counts_addLP
    counts_addLength64[OF counts_addLP[of a n tag], of 8]
  by (simp add: addRecord_def record_size_def algebra_simps)

text \<open>What the rows and index entries of a lease take.\<close>

definition base_size :: "bytes \<Rightarrow> bytes \<Rightarrow> bytes \<Rightarrow> bytes \<Rightarrow> int" where
  "base_size snapshotID owner requestID createBody =
     record_size ''snapshots.row'' [snapshotID, owner, requestID, zeroes 32, zeroes 8, zeroes 8, zeroes 8, zeroes 8, zeroes 8, createBody]
     + record_size ''snapshots.pk'' [snapshotID] + record_size ''snapshots.owner_request.unique'' [owner, requestID, snapshotID]
     + record_size ''snapshots.monotonic_lease'' [snapshotID, zeroes 8]"

definition page_size :: "bytes \<Rightarrow> bytes \<Rightarrow> bytes \<Rightarrow> int" where
  "page_size snapshotID token body =
     record_size ''snapshot_pages.row'' [snapshotID, zeroes 8, token, body] + record_size ''snapshot_pages.pk'' [snapshotID, zeroes 8]
     + record_size ''snapshot_pages.token.unique'' [token, snapshotID, zeroes 8]"

definition reference_size :: "bytes \<Rightarrow> snapshotRevisionReference \<Rightarrow> int" where
  "reference_size snapshotID r =
     record_size ''snapshot_revision_refs.row'' [snapshotID, sr_revisionID r, sr_contentHash r]
     + record_size ''snapshot_revision_refs.pk'' [snapshotID, sr_revisionID r]"

lemma counts_base: "counts a n \<Longrightarrow> counts (accountSnapshotBase i ow q b a) (n + base_size i ow q b)"
  unfolding accountSnapshotBase_def base_size_def add.assoc[symmetric] by (intro counts_addRecord)

lemma counts_page: "counts a n \<Longrightarrow> counts (accountSnapshotPage i k t b a) (n + page_size i t b)"
proof -
  assume "counts a n"
  then have "counts (accountSnapshotPage i k t b a) (n + record_size ''snapshot_pages.row'' [i, accountingUint64 (of_nat k), t, b]
      + record_size ''snapshot_pages.pk'' [i, accountingUint64 (of_nat k)] + record_size ''snapshot_pages.token.unique'' [t, i, accountingUint64 (of_nat k)])"
    unfolding accountSnapshotPage_def Let_def by (intro counts_addRecord)
  then show ?thesis by (simp add: page_size_def record_size_def lp_size_def accountingUint64_def zeroes_def algebra_simps)
qed

lemma counts_reference: "counts a n \<Longrightarrow> counts (accountSnapshotReference i r a) (n + reference_size i r)"
  unfolding accountSnapshotReference_def reference_size_def add.assoc[symmetric] by (intro counts_addRecord)

definition lease_size :: "bytes \<Rightarrow> bytes \<Rightarrow> bytes \<Rightarrow> bytes \<Rightarrow> storedSnapshotPage list \<Rightarrow> snapshotRevisionReference list \<Rightarrow> int" where
  "lease_size i owner q createBody pages refs =
     base_size i owner q createBody + sum_list (map (\<lambda>p. page_size i (pg_token p) (pg_body p)) pages) + sum_list (map (reference_size i) refs)"

lemma counts_lease:
  "counts (fold (accountSnapshotReference i) refs
     (fold (\<lambda>(index, page). accountSnapshotPage i index (pg_token page) (pg_body page)) (enumerate 0 pages)
       (accountSnapshotBase i owner q createBody emptyAccount))) (lease_size i owner q createBody pages refs)"
proof -
  have "counts emptyAccount 0" by (simp add: counts_def emptyAccount_def maxInt64_def)
  from counts_base[OF this, of i owner q createBody] have "counts (accountSnapshotBase i owner q createBody emptyAccount) (base_size i owner q createBody)" by simp
  then have "counts (fold (\<lambda>(index, page). accountSnapshotPage i index (pg_token page) (pg_body page)) (enumerate 0 pages)
      (accountSnapshotBase i owner q createBody emptyAccount))
      (base_size i owner q createBody + sum_list (map (\<lambda>(index, page). page_size i (pg_token page) (pg_body page)) (enumerate 0 pages)))"
    by (intro counts_fold) (auto intro: counts_page)
  moreover have "map (\<lambda>(index, page). page_size i (pg_token page) (pg_body page)) (enumerate 0 pages) = map (\<lambda>p. page_size i (pg_token p) (pg_body p)) pages"
    by (rule nth_equalityI) (auto simp: nth_enumerate_eq)
  ultimately show ?thesis unfolding lease_size_def by (intro counts_fold) (auto intro: counts_reference)
qed

section \<open>Pages\<close>

definition page_ok :: "snapshotPageDescriptor \<Rightarrow> bool" where
  "page_ok d \<longleftrightarrow> length (sp_RevisionIDs d) \<le> 128 \<and> length (sp_CollectionMarkers d) \<le> 128 \<and> length (sp_SourceDevices d) \<le> 64
     \<and> nonemptyPhases d \<le> 1 \<and> sp_NextPageToken d = None"

definition planned :: "snapshotPlan \<Rightarrow> bytes list" where
  "planned plan = concat (map sp_RevisionIDs (pl_descriptors plan)) @ map rr_RevisionID (pl_revisions plan)"

definition plan_ok :: "snapshotPlan \<Rightarrow> bool" where
  "plan_ok plan \<longleftrightarrow> list_all page_ok (pl_descriptors plan) \<and> length (pl_revisions plan) \<le> 128 \<and> length (pl_markers plan) \<le> 128"

lemma appendDescriptor_eq:
  "appendDescriptor pp d plan = Inr plan' \<Longrightarrow> \<exists>a. plan' = plan\<lparr>pl_account := a, pl_descriptors := pl_descriptors plan @ [d]\<rparr>"
  by (auto simp: appendDescriptor_def Let_def split: if_splits)

lemma finishRevisionPage_plan:
  assumes "finishRevisionPage pp plan = Inr plan'" "plan_ok plan"
  shows "plan_ok plan' \<and> planned plan' = planned plan \<and> pl_revisions plan' = [] \<and> pl_references plan' = pl_references plan
     \<and> pl_markers plan' = pl_markers plan \<and> concat (map sp_CollectionMarkers (pl_descriptors plan')) = concat (map sp_CollectionMarkers (pl_descriptors plan))"
  using assms
  by (auto simp: finishRevisionPage_def bindR_eq_Inr plan_ok_def planned_def page_ok_def revisionPage_def nonemptyPhases_def
      split: if_splits dest!: appendDescriptor_eq)

lemma placeRevision_plan:
  assumes "placeRevision pp plan r = Inr plan'" "plan_ok plan"
  shows "plan_ok plan' \<and> planned plan' = planned plan @ [rr_RevisionID r] \<and> pl_references plan' = pl_references plan
     \<and> pl_markers plan' = pl_markers plan \<and> concat (map sp_CollectionMarkers (pl_descriptors plan')) = concat (map sp_CollectionMarkers (pl_descriptors plan))"
proof (cases "128 < length (pl_revisions plan @ [r]) \<or> \<not> fits pp (Some (pl_revisions plan @ [r])) (revisionPage (map rr_RevisionID (pl_revisions plan @ [r])))")
  case True
  then obtain p where p: "finishRevisionPage pp plan = Inr p" "plan' = p\<lparr>pl_revisions := [r]\<rparr>"
    using assms(1) by (auto simp: placeRevision_def Let_def bindR_eq_Inr split: if_splits)
  from finishRevisionPage_plan[OF p(1) assms(2)] show ?thesis by (auto simp: p(2) plan_ok_def planned_def)
next
  case False
  then have "plan' = plan\<lparr>pl_revisions := pl_revisions plan @ [r]\<rparr>"
    using assms(1) by (simp add: placeRevision_def Let_def)
  then show ?thesis using False assms(2) by (auto simp: plan_ok_def planned_def)
qed

text \<open>The revisions of the pages and of the open page are the references, in order.\<close>

definition revisions_in_step :: "snapshotPlan \<Rightarrow> bool" where
  "revisions_in_step plan \<longleftrightarrow> plan_ok plan \<and> planned plan = map sr_revisionID (pl_references plan)"

lemma planRevision_step:
  assumes "planRevision pp (prev, plan) row = Inr (prev', plan')" "revisions_in_step plan"
  shows "revisions_in_step plan' \<and> length (pl_references plan') = Suc (length (pl_references plan)) \<and> pl_markers plan' = pl_markers plan
     \<and> concat (map sp_CollectionMarkers (pl_descriptors plan')) = concat (map sp_CollectionMarkers (pl_descriptors plan))"
proof -
  obtain r h p a where p: "placeRevision pp plan r = Inr p"
    "plan' = p\<lparr>pl_account := a, pl_references := pl_references p @ [\<lparr>sr_revisionID = rr_RevisionID r, sr_contentHash = h\<rparr>]\<rparr>"
    using assms(1) by (auto simp: planRevision_def Let_def result_simps split: if_splits)
  from placeRevision_plan[OF p(1)] assms(2) show ?thesis
    unfolding revisions_in_step_def plan_ok_def planned_def p(2) by auto
qed

lemma planRevisions_step:
  assumes "foldR (planRevision pp) (prev, plan) rows = Inr (prev', plan')" "revisions_in_step plan"
  shows "revisions_in_step plan' \<and> length (pl_references plan') = length (pl_references plan) + length rows \<and> pl_markers plan' = pl_markers plan
     \<and> concat (map sp_CollectionMarkers (pl_descriptors plan')) = concat (map sp_CollectionMarkers (pl_descriptors plan))"
  using assms
proof (induction rows arbitrary: prev plan)
  case (Cons row rows)
  then obtain q p where "planRevision pp (prev, plan) row = Inr (q, p)" "foldR (planRevision pp) (q, p) rows = Inr (prev', plan')"
    by (auto simp: bindR_eq_Inr)
  with planRevision_step[of pp prev plan row q p] Cons show ?case by auto
qed simp

text \<open>The markers of the pages and of the open page are the stored markers, in order.\<close>

definition marker_plan :: "snapshotPlan \<Rightarrow> collectionMarker list" where
  "marker_plan plan = concat (map sp_CollectionMarkers (pl_descriptors plan)) @ pl_markers plan"

definition same_revisions :: "snapshotPlan \<Rightarrow> snapshotPlan \<Rightarrow> bool" where
  "same_revisions p q \<longleftrightarrow> planned q = planned p \<and> pl_references q = pl_references p \<and> pl_revisions q = pl_revisions p"

lemma finishMarkerPage_plan:
  assumes "finishMarkerPage pp plan = Inr plan'" "plan_ok plan"
  shows "plan_ok plan' \<and> marker_plan plan' = marker_plan plan \<and> pl_markers plan' = [] \<and> same_revisions plan plan'"
  using assms
  by (auto simp: finishMarkerPage_def bindR_eq_Inr plan_ok_def planned_def page_ok_def markerPage_def nonemptyPhases_def marker_plan_def
      same_revisions_def split: if_splits dest!: appendDescriptor_eq)

definition stored_marker :: "collection_markers_row \<Rightarrow> collectionMarker \<Rightarrow> bool" where
  "stored_marker row m \<longleftrightarrow> (\<exists>body. scan_body maxBodyBytes (mk_marker_json row) = Some body \<and> decodeStoredCollectionMarker body = Some m)"

lemma planMarker_step:
  assumes "planMarker pp (prev, plan) row = Inr (prev', plan')" "plan_ok plan"
  shows "\<exists>m. plan_ok plan' \<and> marker_plan plan' = marker_plan plan @ [m] \<and> stored_marker row m \<and> same_revisions plan plan'"
proof -
  obtain body m where m: "scan_body maxBodyBytes (mk_marker_json row) = Some body" "decodeStoredCollectionMarker body = Some m"
    using assms(1) by (auto simp: planMarker_def split: option.splits)
  show ?thesis
  proof (cases "128 < length (pl_markers plan @ [m]) \<or> \<not> fits pp None (markerPage (pl_markers plan @ [m]))")
    case True
    then obtain p where p: "finishMarkerPage pp plan = Inr p" "plan' = p\<lparr>pl_markers := [m]\<rparr>"
      using assms(1) m by (auto simp: planMarker_def Let_def bindR_eq_Inr split: if_splits)
    from finishMarkerPage_plan[OF p(1) assms(2)] m show ?thesis
      by (intro exI[of _ m]) (auto simp: p(2) plan_ok_def marker_plan_def same_revisions_def planned_def stored_marker_def)
  next
    case False
    then have "plan' = plan\<lparr>pl_markers := pl_markers plan @ [m]\<rparr>"
      using assms(1) m by (auto simp: planMarker_def Let_def split: if_splits)
    then show ?thesis using False assms(2) m
      by (intro exI[of _ m]) (auto simp: plan_ok_def marker_plan_def same_revisions_def planned_def stored_marker_def)
  qed
qed

lemma same_revisions_trans: "same_revisions a b \<Longrightarrow> same_revisions b c \<Longrightarrow> same_revisions a c"
  by (simp add: same_revisions_def)

lemma planMarkers_step:
  assumes "foldR (planMarker pp) (prev, plan) rows = Inr (prev', plan')" "plan_ok plan"
  shows "\<exists>ms. plan_ok plan' \<and> marker_plan plan' = marker_plan plan @ ms \<and> list_all2 stored_marker rows ms \<and> same_revisions plan plan'"
  using assms
proof (induction rows arbitrary: prev plan)
  case Nil
  then show ?case by (auto simp: same_revisions_def)
next
  case (Cons row rows)
  then obtain q p where 1: "planMarker pp (prev, plan) row = Inr (q, p)" "foldR (planMarker pp) (q, p) rows = Inr (prev', plan')"
    by (auto simp: bindR_eq_Inr)
  obtain m where m: "plan_ok p" "marker_plan p = marker_plan plan @ [m]" "stored_marker row m" "same_revisions plan p"
    using planMarker_step[OF 1(1) Cons.prems(2)] by blast
  obtain ms where "plan_ok plan'" "marker_plan plan' = marker_plan p @ ms" "list_all2 stored_marker rows ms" "same_revisions p plan'"
    using Cons.IH[OF 1(2) m(1)] by blast
  with m show ?case by (intro exI[of _ "m # ms"]) (auto intro: same_revisions_trans)
qed

text \<open>The device page carries every device, by identifier.\<close>

lemma scanDevices_ids:
  assumes "foldR scanDevice (prev, ds) rows = Inr (prev', ds')"
  shows "map (CText \<circ> sd_DeviceID) ds' = map (CText \<circ> sd_DeviceID) ds @ map d_device_id rows"
  using assms
proof (induction rows arbitrary: prev ds)
  case (Cons row rows)
  then obtain q e where "scanDevice (prev, ds) row = Inr (q, e)" "foldR scanDevice (q, e) rows = Inr (prev', ds')"
    by (auto simp: bindR_eq_Inr)
  moreover from this(1) have "map (CText \<circ> sd_DeviceID) e = map (CText \<circ> sd_DeviceID) ds @ [d_device_id row]"
    by (auto simp: scanDevice_def sql_simps split: option.splits if_splits)
  ultimately show ?case using Cons.IH[of q e] by (simp add: comp_def)
qed simp

definition plan_devices :: "snapshotPlan \<Rightarrow> sourceDevice list" where
  "plan_devices plan = concat (map sp_SourceDevices (pl_descriptors plan))"

lemma planDevices_step:
  assumes "planDevices pp s plan = Inr plan'" "plan_ok plan" "pl_markers plan = []"
  shows "plan_ok plan' \<and> marker_plan plan' = marker_plan plan \<and> same_revisions plan plan' \<and> pl_markers plan' = []
     \<and> (\<exists>ds. plan_devices plan' = plan_devices plan @ ds
          \<and> map (CText \<circ> sd_DeviceID) ds = map d_device_id (sql_query d_device_id (\<lambda>_. True) (t_devices s)))"
proof -
  let ?rows = "sql_query d_device_id (\<lambda>_. True) (t_devices s)"
  obtain prev ds where ds: "foldR scanDevice (None, []) (take 65 ?rows) = Inr (prev, ds)" "length ds \<le> 64"
    and r: "ds = [] \<and> plan' = plan \<or> appendDescriptor pp (devicePage ds) plan = Inr plan'"
    using assms(1) by (auto simp: planDevices_def bindR_eq_Inr split: if_splits)
  have ids: "map (CText \<circ> sd_DeviceID) ds = map d_device_id (take 65 ?rows)" using scanDevices_ids[OF ds(1)] by simp
  then have "length (take 65 ?rows) \<le> 64" using ds(2) by (metis length_map)
  then have "take 65 ?rows = ?rows" by (auto simp: min_def split: if_splits)
  with ids have "map (CText \<circ> sd_DeviceID) ds = map d_device_id ?rows" by simp
  then show ?thesis using r ds(2) assms(2,3)
    by (auto simp: plan_ok_def marker_plan_def same_revisions_def planned_def plan_devices_def page_ok_def devicePage_def nonemptyPhases_def
        dest!: appendDescriptor_eq)
qed

lemma linkPages_nth:
  assumes "i < length ds"
  shows "length (linkPages random ds) = length ds"
    "pg_descriptor (linkPages random ds ! i) = (ds ! i)\<lparr>sp_HasMore := i + 1 < length ds,
       sp_NextPageToken := if i + 1 < length ds then Some (pg_token (linkPages random ds ! (i + 1))) else sp_NextPageToken (ds ! i)\<rparr>"
    "pg_body (linkPages random ds ! i) = marshal (to_snapshotPageDescriptor (pg_descriptor (linkPages random ds ! i)))"
  using assms by (auto simp: linkPages_def Let_def nth_enumerate_eq)

text \<open>The whole plan.\<close>

definition plan_complete :: "db \<Rightarrow> snapshotPageDescriptor list \<Rightarrow> snapshotRevisionReference list \<Rightarrow> bool" where
  "plan_complete s ds refs \<longleftrightarrow> ds \<noteq> [] \<and> list_all page_ok ds
     \<and> concat (map sp_RevisionIDs ds) = map sr_revisionID refs \<and> length refs = length (snapshotHeads s)
     \<and> list_all2 stored_marker (sql_query mk_record_id (\<lambda>_. True) (t_collection_markers s)) (concat (map sp_CollectionMarkers ds))
     \<and> map (CText \<circ> sd_DeviceID) (concat (map sp_SourceDevices ds)) = map d_device_id (sql_query d_device_id (\<lambda>_. True) (t_devices s))"

lemma plan_devices_simps [simp]: "plan_devices (plan\<lparr>pl_revisions := x\<rparr>) = plan_devices plan"
  "plan_devices (plan\<lparr>pl_markers := y\<rparr>) = plan_devices plan"
  "plan_devices (plan\<lparr>pl_account := a, pl_references := z\<rparr>) = plan_devices plan"
  by (simp_all add: plan_devices_def)

lemma no_devices_yet:
  assumes "plan_devices plan = []"
  shows "finishRevisionPage pp plan = Inr plan' \<Longrightarrow> plan_devices plan' = []" "finishMarkerPage pp plan = Inr plan' \<Longrightarrow> plan_devices plan' = []"
  using assms
  by (auto simp: finishRevisionPage_def finishMarkerPage_def bindR_eq_Inr plan_devices_def revisionPage_def markerPage_def
      split: if_splits dest!: appendDescriptor_eq)

lemma planRevision_no_devices:
  "planRevision pp (prev, plan) row = Inr (prev', plan') \<Longrightarrow> plan_devices plan = [] \<Longrightarrow> plan_devices plan' = []"
  by (auto simp: planRevision_def placeRevision_def Let_def result_simps split: if_splits dest: no_devices_yet(1))

lemma planMarker_no_devices:
  "planMarker pp (prev, plan) row = Inr (prev', plan') \<Longrightarrow> plan_devices plan = [] \<Longrightarrow> plan_devices plan' = []"
  by (auto simp: planMarker_def Let_def result_simps split: if_splits option.splits dest: no_devices_yet(2))

lemma fold_no_devices:
  "foldR (planRevision pp) (prev, plan) rows = Inr (prev', plan') \<Longrightarrow> plan_devices plan = [] \<Longrightarrow> plan_devices plan' = []"
  "foldR (planMarker pp) (mprev, plan) mrows = Inr (mprev', plan') \<Longrightarrow> plan_devices plan = [] \<Longrightarrow> plan_devices plan' = []"
  using foldR_invariant[of "planRevision pp" "(prev, plan)" rows "(prev', plan')" "\<lambda>st. plan_devices (snd st) = []"]
    foldR_invariant[of "planMarker pp" "(mprev, plan)" mrows "(mprev', plan')" "\<lambda>st. plan_devices (snd st) = []"]
    planRevision_no_devices planMarker_no_devices by fastforce+

lemma buildSnapshotPlan_complete:
  assumes "buildSnapshotPlan random pp ow q s = Inr (pages, refs)"
  shows "\<exists>ds. pages = linkPages random ds \<and> plan_complete s ds refs"
proof -
  define p0 where "p0 = \<lparr>pl_account = accountSnapshotBase (pp_snapshotID pp) ow q [] emptyAccount, pl_descriptors = [], pl_references = [],
     pl_revisions = [], pl_markers = []\<rparr>"
  obtain x1 p1 p2 x3 p3 p4 p5 p6 where p: "foldR (planRevision pp) (None, p0) (snapshotHeads s) = Inr (x1, p1)" "finishRevisionPage pp p1 = Inr p2"
    "foldR (planMarker pp) (None, p2) (sql_query mk_record_id (\<lambda>_. True) (t_collection_markers s)) = Inr (x3, p3)"
    "finishMarkerPage pp p3 = Inr p4" "planDevices pp s p4 = Inr p5"
    and p6: "(if pl_descriptors p5 = [] then appendDescriptor pp (revisionPage []) p5 else Inr p5) = Inr p6"
    and r: "pages = linkPages random (pl_descriptors p6)" "refs = pl_references p6"
  proof -
    have "\<not> (pp_available pp < 0 \<or> \<not> withinBudget pp (accountSnapshotBase (pp_snapshotID pp) ow q [] emptyAccount))"
    proof
      assume "pp_available pp < 0 \<or> \<not> withinBudget pp (accountSnapshotBase (pp_snapshotID pp) ow q [] emptyAccount)"
      from assms[unfolded buildSnapshotPlan_def Let_def if_P[OF this]] show False by simp
    qed
    note run = assms[unfolded buildSnapshotPlan_def Let_def if_not_P[OF this], folded p0_def]
    then show ?thesis using that by (auto simp: bindR_eq_Inr)
  qed
  have "revisions_in_step p0" by (simp add: revisions_in_step_def plan_ok_def planned_def p0_def)
  from planRevisions_step[OF p(1) this] have 1: "revisions_in_step p1" "length (pl_references p1) = length (snapshotHeads s)" "marker_plan p1 = []"
    by (simp_all add: p0_def marker_plan_def)
  from finishRevisionPage_plan[OF p(2)] 1 have 2: "revisions_in_step p2" "pl_revisions p2 = []" "length (pl_references p2) = length (snapshotHeads s)"
    "marker_plan p2 = []" by (simp_all add: revisions_in_step_def marker_plan_def)
  from planMarkers_step[OF p(3)] 2 obtain ms where 3: "plan_ok p3" "marker_plan p3 = ms" "same_revisions p2 p3"
    "list_all2 stored_marker (sql_query mk_record_id (\<lambda>_. True) (t_collection_markers s)) ms" by (auto simp: revisions_in_step_def)
  from finishMarkerPage_plan[OF p(4) 3(1)] 3 have 4: "plan_ok p4" "marker_plan p4 = ms" "pl_markers p4 = []" "same_revisions p2 p4"
    by (auto intro: same_revisions_trans)
  have "plan_devices p0 = []" by (simp add: plan_devices_def p0_def)
  then have "plan_devices p4 = []" using fold_no_devices[of pp] no_devices_yet[of _ pp] p(1-4) by metis
  with planDevices_step[OF p(5) 4(1,3)] 4 have 5: "plan_ok p5" "marker_plan p5 = ms" "pl_markers p5 = []" "same_revisions p2 p5"
    "map (CText \<circ> sd_DeviceID) (plan_devices p5) = map d_device_id (sql_query d_device_id (\<lambda>_. True) (t_devices s))"
    by (auto intro: same_revisions_trans)
  have 6: "plan_ok p6 \<and> marker_plan p6 = ms \<and> pl_markers p6 = [] \<and> same_revisions p5 p6 \<and> plan_devices p6 = plan_devices p5 \<and> pl_descriptors p6 \<noteq> []"
    using p6 5 by (auto simp: plan_ok_def marker_plan_def same_revisions_def planned_def plan_devices_def page_ok_def revisionPage_def nonemptyPhases_def
        split: if_splits dest!: appendDescriptor_eq)
  with 5 2 have "plan_complete s (pl_descriptors p6) refs"
    using 3(4) r(2) by (auto simp: plan_complete_def plan_ok_def same_revisions_def planned_def marker_plan_def plan_devices_def revisions_in_step_def)
  with r(1) show ?thesis by blast
qed

text \<open>The chain of tokens: each page names the next one, the last names none.\<close>

lemma linkPages_chain:
  assumes "ds \<noteq> []"
  shows "map (sp_NextPageToken \<circ> pg_descriptor) (linkPages random ds) =
    map (Some \<circ> pg_token) (tl (linkPages random ds)) @ [sp_NextPageToken (last ds)]"
proof (rule nth_equalityI)
  have l: "length (linkPages random ds) = length ds" by (simp add: linkPages_def)
  then show "length (map (sp_NextPageToken \<circ> pg_descriptor) (linkPages random ds)) =
      length (map (Some \<circ> pg_token) (tl (linkPages random ds)) @ [sp_NextPageToken (last ds)])" using assms by simp
  fix i assume "i < length (map (sp_NextPageToken \<circ> pg_descriptor) (linkPages random ds))"
  then have i: "i < length ds" using l by simp
  then show "map (sp_NextPageToken \<circ> pg_descriptor) (linkPages random ds) ! i =
      (map (Some \<circ> pg_token) (tl (linkPages random ds)) @ [sp_NextPageToken (last ds)]) ! i"
    using linkPages_nth(2)[OF i] l assms by (auto simp: nth_append nth_tl last_conv_nth Suc_lessI less_diff_conv intro: arg_cong)
qed

end
