(* ===== verification/Example.thy ===== *)
theory Example
  imports AntichainLaws EnvelopeLaws CredentialLaws CollectionLaws SnapshotLaws AtomicLaws
begin

text \<open>
  A concrete store on which the hypotheses of the properties are shown to hold: one registered device,
  one revoked device, an empty history. Digests are left as the terms \<open>sha256 \<dots>\<close>.
\<close>

definition ex_identity :: Identity where
  "ex_identity = \<lparr>id_InstanceID = ''00000000-0000-4000-8000-000000000001'', id_VaultID = ''00000000-0000-4000-8000-000000000002''\<rparr>"

definition ex_device :: bytes where
  "ex_device = ''00000000-0000-4000-8000-00000000000a''"

definition ex_retired :: bytes where
  "ex_retired = ''00000000-0000-4000-8000-00000000000b''"

definition ex_token :: bytes where
  "ex_token = replicate 32 (CHR ''k'')"

definition ex_hash :: bytes where
  "ex_hash = the (DeviceTokenHash (id_InstanceID ex_identity) (id_VaultID ex_identity) ex_device ex_token)"

definition ex_row :: "bytes \<Rightarrow> bytes \<Rightarrow> int option \<Rightarrow> devices_row" where
  "ex_row i h revoked = \<lparr>d_device_id = CText i, d_token_hash = CBlob h, d_scopes_json = CText wantScopes, d_created_at_ms = 0,
     d_revoked_at_ms = revoked, d_last_sync_at_ms = None, d_last_ack_cursor = uint64_cell 0, d_max_author_counter = uint64_cell 0\<rparr>"

definition ex_db :: db where
  "ex_db = \<lparr>t_devices = [ex_row ex_device ex_hash None, ex_row ex_retired (replicate 32 (CHR ''z'')) (Some 5)],
     t_device_origins = [], t_runtime_state = \<lparr>rt_server_cursor = uint64_cell 0, rt_cursor_floor = uint64_cell 0, rt_envelope_generation = uint64_cell 0,
       rt_instance_secret_generation = uint64_cell 1, rt_collection_generation = uint64_cell 0, rt_accumulated_uptime_ms = uint64_cell 7,
       rt_active_boot_id = CNull, rt_collection_scan_after_record_id = CText []\<rparr>,
     t_device_sync_state = [], t_enrollment_grants = [], t_enrollments = [], t_vault_envelope = None, t_revision_objects = [],
     t_record_revisions = [], t_revision_acceptance_origins = [], t_collection_records = [], t_record_heads = [], t_record_vector_index = [],
     t_collection_candidates = [], t_collection_markers = [], t_change_origins = [], t_changes = [], t_operation_receipts = [],
     t_operation_receipt_retention = [], t_token_rotations = [], t_self_revocation_receipts = [], t_snapshots = [],
     t_snapshot_pages = [], t_snapshot_revision_refs = []\<rparr>"

definition ex_store :: Store where
  "ex_store = \<lparr>st_db = ex_db, st_identity = ex_identity, st_ephemeral = \<lparr>bootID = replicate 32 (CHR ''b''), booted = True, uptimeCheckpoint = 0,
     grantDeadlines = [], enrollmentAttempts = [], snapshotAttempts = [], snapshotDeadlines = []\<rparr>\<rparr>"

definition ex_io :: io where
  "ex_io = \<lparr>io_begin = True, io_commit = True, io_rand = (\<lambda>n. replicate 32 (CHR ''r'')), io_now = 0\<rparr>"

definition ex_auth :: bytes where
  "ex_auth = ''Bearer '' @ EncodeToString ex_token"

definition ex_call :: "bytes \<Rightarrow> bytes \<Rightarrow> bytes \<Rightarrow> api_request" where
  "ex_call m p body = \<lparr>rq_Method = m, rq_Path = p, rq_RequestID = ''00000000-0000-4000-8000-00000000000c'', rq_Authorization = ex_auth,
     rq_Body = body, rq_Now = 5000000\<rparr>"

definition ex_record :: bytes where
  "ex_record = ''00000000-0000-4000-8000-00000000000d''"

definition ex_revision :: recordRevision where
  "ex_revision = \<lparr>rr_RecordID = ex_record, rr_RevisionID = ''00000000-0000-4000-8000-00000000000e'', rr_AuthorDeviceID = ex_device,
     rr_AuthorCounter = encodeUint64Text 1, rr_VersionVector = map entry_of [(ex_device, 1)], rr_CollectionWitnessAuthenticator = None,
     rr_PayloadSchema = ProtocolMajor, rr_CryptoSuite = cryptoSuite, rr_Tombstone = False,
     rr_Nonce = EncodeToString (replicate 24 (CHR ''n'')), rr_Ciphertext = EncodeToString (replicate 16 (CHR ''c''))\<rparr>"

definition ex_item :: pendingRevision where
  "ex_item = \<lparr>pn_revision = ex_revision, pn_canonical = marshal (to_recordRevision ex_revision),
     pn_contentHash = sha256 (marshal (to_recordRevision ex_revision)), pn_authorCounter = 1, pn_vector = [(ex_device, 1)], pn_isNew = True\<rparr>"

lemma ex_uuids [simp]:
  "validateUUID ''00000000-0000-4000-8000-000000000001''" "validateUUID ''00000000-0000-4000-8000-000000000002''"
  "validateUUID ex_device" "validateUUID ex_retired" "validateUUID ''00000000-0000-4000-8000-00000000000c''"
  "validateUUID ex_record" "validateUUID ''00000000-0000-4000-8000-00000000000e''"
  by code_simp+

lemma ex_identity_ok: "identity_ok ex_identity"
  by (simp add: identity_ok_def ex_identity_def)

lemma ex_registry_ok: "registry_ok ex_db"
  by (simp add: registry_ok_def ex_db_def ex_row_def ex_device_def ex_retired_def)

lemma ex_revoked: "revoked_device ex_retired ex_db"
  by (simp add: revoked_device_def ex_db_def ex_row_def)

lemma ex_log_complete: "log_complete ex_db"
  by (simp add: log_complete_def ex_db_def)

lemma ex_leases_backed: "leases_backed ex_db"
  by (simp add: leases_backed_def ex_db_def)

lemma ex_frontiers_ok: "frontiers_ok ex_db"
  by (simp add: frontiers_ok_def heads_stored_def antichain_set_def frontier_def ex_db_def)

lemma ex_vector: "validateVector [entry_of (ex_device, 1)] = Some [(ex_device, 1)]"
  by (simp only: validateVector_eq_Some) (simp add: vector_ok_def maxVectorEntries_def)

lemma ex_validateRevision: "validateRevision ex_revision = Some (1, [(ex_device, 1)])"
proof -
  have "decodeBase64 (EncodeToString (replicate 24 (CHR ''n''))) 24 0 0 \<noteq> None"
    "decodeBase64 (EncodeToString (replicate 16 (CHR ''c''))) (- 1) 16 (512 * 1024) \<noteq> None"
    by (simp_all add: decodeBase64_def)
  then show ?thesis by (simp add: validateRevision_def ex_revision_def ex_vector vget_def)
qed

lemma ex_valid_item: "valid_item ex_item"
  by (simp add: valid_item_def ex_item_def ex_validateRevision)

lemma ex_reachable: "store_reachable ex_store (snd (HandleAPI ex_io call ex_store))"
  by (rule store_reachable.step[OF store_reachable.start store_step.request])

lemma ex_checkpoint: "store_reachable ex_store (snd (CheckpointUptime ex_io now ex_store))"
  by (rule store_reachable.step[OF store_reachable.start store_step.checkpoint])

text \<open>
  The strict decoder compares member names exactly when it looks for duplicates, the JSON library folds
  their case: a variant spelling of a member is accepted beside it, and wins.
\<close>

lemma case_variant_member_accepted:
  "decodeStrict T_revokeDeviceRequest ''{\"request_id\":\"r\",\"allow_zero_active\":false,\"Allow_Zero_Active\":true}'' =
     Some (to_revokeDeviceRequest \<lparr>rdq_RequestID = ''r'', rdq_AllowZeroActive = True\<rparr>)"
  by code_simp

end
