(* ===== verification/PutExample.thy ===== *)
theory PutExample
  imports Example
begin

text \<open>
  A request that succeeds: the one registered device writes the first envelope of an empty vault. The run
  of \<^verbatim>\<open>handlePutEnvelope\<close> is followed statement by statement; digests stay symbolic.
\<close>

definition ex_vault :: Store where
  "ex_vault = ex_store\<lparr>st_db := ex_db\<lparr>t_devices := [ex_row ex_device ex_hash None]\<rparr>\<rparr>"

definition ex_envelope :: vaultEnvelope where
  "ex_envelope = \<lparr>env_ProtocolVersion = ProtocolMajor, env_CryptoSuite = cryptoSuite, env_InstanceID = id_InstanceID ex_identity,
     env_VaultID = id_VaultID ex_identity, env_EnvelopeGeneration = encodeUint64Text 1, env_InstanceSecretGeneration = encodeUint64Text 1,
     env_Mode = ''base'', env_HKDFSalt = EncodeToString (replicate 32 (CHR ''s'')), env_Argon2 = None,
     env_Nonce = EncodeToString (replicate 24 (CHR ''n'')), env_WrappedVMK = EncodeToString (replicate 48 (CHR ''w''))\<rparr>"

definition ex_put_request :: putEnvelopeRequest where
  "ex_put_request = \<lparr>peq_ExpectedGeneration = encodeUint64Text 0, peq_NewGeneration = encodeUint64Text 1, peq_Envelope = ex_envelope\<rparr>"

definition ex_put :: api_request where
  "ex_put = ex_call ''PUT'' ''/v1/vault-envelope'' (marshal (to_putEnvelopeRequest ex_put_request))"

lemma ex_validateEnvelope: "validateEnvelope ex_envelope ex_identity = Some (1, 1)"
proof -
  have "decodeBase64 (EncodeToString (replicate 32 (CHR ''s''))) 32 0 0 \<noteq> None"
    "decodeBase64 (EncodeToString (replicate 24 (CHR ''n''))) 24 0 0 \<noteq> None"
    "decodeBase64 (EncodeToString (replicate 48 (CHR ''w''))) 48 0 0 \<noteq> None"
    by (simp_all add: decodeBase64_def)
  then show ?thesis by (simp add: validateEnvelope_def ex_envelope_def argon2_profile_def)
qed

lemma ex_decode: "decodeStrict T_putEnvelopeRequest (rq_Body ex_put) = Some (to_putEnvelopeRequest ex_put_request)"
proof -
  have "utf8_Valid ''expected_generation''" "utf8_Valid ''new_generation''" "utf8_Valid ''envelope''" by code_simp+
  then have "decodeStrict T_putEnvelopeRequest (marshal (to_putEnvelopeRequest ex_put_request)) = Some (to_putEnvelopeRequest ex_put_request)"
    using valid_envelope_wire[OF ex_validateEnvelope ex_identity_ok]
    by (intro putEnvelopeRequest_codec.decode_encode) (simp_all add: ex_put_request_def to_putEnvelopeRequest_def wire_rules)
  then show ?thesis by (simp add: ex_put_def ex_call_def)
qed

lemma ex_hash_eq: "DeviceTokenHash (id_InstanceID ex_identity) (id_VaultID ex_identity) ex_device ex_token = Some ex_hash"
proof -
  have "Parse (id_InstanceID ex_identity) \<noteq> None" "Parse (id_VaultID ex_identity) \<noteq> None" "Parse ex_device \<noteq> None"
    using ex_uuids by (simp_all add: validateUUID_def ex_identity_def)
  then show ?thesis by (auto simp: ex_hash_def DeviceTokenHash_def ex_token_def credentialSize_def)
qed

lemma ex_fingerprint: "\<exists>fp. requestFingerprint ex_identity label ex_device body = Inr fp \<and> length fp = 32"
proof -
  have "Parse (id_InstanceID ex_identity) \<noteq> None" "Parse (id_VaultID ex_identity) \<noteq> None" "Parse ex_device \<noteq> None"
    using ex_uuids by (simp_all add: validateUUID_def ex_identity_def)
  then show ?thesis by (auto simp: requestFingerprint_def RequestBodyFingerprint_def)
qed

lemma ex_bearer: "parseAuthorization ex_auth ''Bearer'' = Some ex_token"
  unfolding ex_auth_def by (rule parse_bearer) (simp add: ex_token_def)

lemma ex_scopes: "scan_text (length wantScopes) (CText wantScopes) = Some wantScopes"
  "json_Unmarshal (TSlice TString) wantScopes = Some (GSlice (Some (map GString FixedScopes)))" "ValidateScopes FixedScopes"
  by code_simp+

lemma ex_authenticated:
  assumes "scope \<in> set FixedScopes" "t_devices s = [ex_row ex_device ex_hash None]"
  shows "authenticate ex_identity ex_auth scope s = Inr \<lparr>da_DeviceID = ex_device, da_Hash = ex_hash, da_Scopes = FixedScopes, da_Revoked = False\<rparr>"
proof -
  have "scan_blob 32 (CBlob ex_hash) = Some ex_hash" using DeviceTokenHash_length[OF ex_hash_eq] by (simp add: scan_blob_CBlob)
  moreover have "scan_uuid (CText ex_device) = Some ex_device" by (simp add: scan_uuid_eq)
  ultimately have "authRow ex_identity ex_token None (ex_row ex_device ex_hash None) =
      Inr (Some \<lparr>da_DeviceID = ex_device, da_Hash = ex_hash, da_Scopes = FixedScopes, da_Revoked = False\<rparr>)"
    using ex_hash_eq ex_scopes by (simp add: authRow_def ex_row_def comp_def)
  then show ?thesis using assms by (simp add: authenticate_def ex_bearer sql_query_def)
qed

lemma ex_vault_simps:
  "st_db ex_vault = ex_db\<lparr>t_devices := [ex_row ex_device ex_hash None]\<rparr>" "st_identity ex_vault = ex_identity"
  "st_ephemeral ex_vault = st_ephemeral ex_store"
  by (simp_all add: ex_vault_def ex_store_def)

lemma ex_admitted: "admitEnvelope ex_identity 0 ex_put_request (st_db ex_vault) = Inr (1, 1)"
  using ex_validateEnvelope
  by (simp add: ex_vault_simps admitEnvelope_def readRuntimeState_def ex_db_def validatePersistentEnvelope_def validatePersistentChangeOrigins_def
      no_orphans_def durable_owners_def sql_query_def ex_put_request_def)

lemma ex_no_receipt:
  "length fp = 32 \<Longrightarrow> lookupReceipt ex_identity ex_device ''vault-envelope'' (rq_RequestID ex_put) fp (st_db ex_vault) = Inr None"
  by (simp add: ex_vault_simps lookupReceipt_def preflightOperationReceiptKeys_def validOperationReceiptKey_def alias_exists_def collectReceiptKeyCandidates_def
      receiptDeviceRequestCandidates_def receiptRequestDeviceCandidates_def receiptFingerprintCandidates_def probe_rows_def ex_db_def
      ex_put_def ex_call_def)

lemma logs_first_change:
  assumes "t_change_origins s = []" "t_changes s = []" "g \<noteq> 0"
  shows "\<exists>a b. insertChange c ''envelope_changed'' [] [] [] [] g now s = Inr ((), s\<lparr>t_change_origins := a, t_changes := b\<rparr>)"
  using assms
  by (simp add: insertChange_def insertChangeOrigin_def bindT_def execDB_def execT_def insert_change_origins_def insert_changes_def sql_insert_def
      check_change_origins_def check_changes_def blob_col_def opt_col_def change_kinds_def text_or_null_def) blast

lemma stores_first_receipt:
  assumes "t_operation_receipts s = []" "t_operation_receipt_retention s = []" "up < 2592000000"
    "validateUUID dev" "validateUUID rid" "length fp = 32" "rs_Status resp = 200"
  shows "\<exists>t. storeReceiptAtUptime dev operation rid fp resp now up s = Inr ((), t)"
  using assms minimum_age receipt_age_positive
  by (simp add: storeReceiptAtUptime_def bindT_def readT_def returnT_def execDB_def execT_def next_sequence_def insert_operation_receipts_def
      insert_operation_receipt_retention_def sql_insert_def check_operation_receipts_def check_operation_receipt_retention_def
      blob_col_def text_col_def pruneOperationReceipts_def Let_def receiptMinimumCount_def
      receiptClass_def text_chars_uuid)

lemma ex_clock:
  assumes "rt_accumulated_uptime_ms (t_runtime_state s) = uint64_cell 7"
  shows "\<exists>cp x. checkpointUptimeTx (st_ephemeral ex_store) (rq_Now ex_put) s =
    Inr ((12, cp), s\<lparr>t_runtime_state := x\<rparr>)"
  using assms
  by (simp add: checkpointUptimeTx_def ex_store_def ex_put_def ex_call_def elapsedMilliseconds_def Milliseconds_def sat64_def Millisecond_def
     bindT_def readT_def returnT_def updateDB_def execT_def) blast

lemma ex_put_commits:
  "\<exists>resp cp t. putEnvelopeTx ex_identity (st_ephemeral ex_vault) ex_put 0 ex_put_request (st_db ex_vault) = Inr (Commit resp cp, t)"
proof -
  obtain fp where fp: "requestFingerprint ex_identity ''JAT vault envelope request fingerprint v1'' ex_device (rq_Body ex_put) = Inr fp" "length fp = 32"
    using ex_fingerprint by blast
  have e: "st_ephemeral ex_vault = st_ephemeral ex_store" by (simp add: ex_vault_simps)
  have auth: "authenticate ex_identity (rq_Authorization ex_put) ''envelope:write'' (st_db ex_vault) =
      Inr \<lparr>da_DeviceID = ex_device, da_Hash = ex_hash, da_Scopes = FixedScopes, da_Revoked = False\<rparr>"
    using ex_authenticated[of "''envelope:write''" "st_db ex_vault"] by (simp add: ex_vault_simps ex_put_def ex_call_def FixedScopes_def fixedScopes_def)
  let ?body = "marshal (to_vaultEnvelope ex_envelope)" and ?s = "st_db ex_vault"
  let ?s1 = "?s\<lparr>t_vault_envelope := Some \<lparr>vb_generation = uint64_cell 1, vb_envelope_json = CBlob ?body\<rparr>,
     t_runtime_state := (t_runtime_state ?s)\<lparr>rt_envelope_generation := uint64_cell 1\<rparr>\<rparr>"
  let ?resp = "\<lparr>rs_Status = 200, rs_Body = ?body, rs_Headers = []\<rparr>"
  have w: "writeEnvelope 1 ?body ?s = Inr ((), ?s1)" by (simp add: writeEnvelope_def bindT_def updateDB_def execT_def)
  have s1: "t_change_origins ?s1 = []" "t_changes ?s1 = []" "t_operation_receipts ?s1 = []" "t_operation_receipt_retention ?s1 = []"
    "rt_accumulated_uptime_ms (t_runtime_state ?s1) = uint64_cell 7"
    by (simp_all add: ex_vault_simps ex_db_def)
  obtain a b where c: "insertChange 1 ''envelope_changed'' [] [] [] [] 1 (rq_Now ex_put) ?s1 = Inr ((), ?s1\<lparr>t_change_origins := a, t_changes := b\<rparr>)"
    using logs_first_change[OF s1(1,2), of 1 1 "rq_Now ex_put"] by auto
  obtain cp x where k: "checkpointUptimeTx (st_ephemeral ex_store) (rq_Now ex_put) (?s1\<lparr>t_change_origins := a, t_changes := b\<rparr>) =
      Inr ((12, cp), ?s1\<lparr>t_change_origins := a, t_changes := b, t_runtime_state := x\<rparr>)"
    using ex_clock[of "?s1\<lparr>t_change_origins := a, t_changes := b\<rparr>"] s1(5) by auto
  obtain t where st: "storeReceiptAtUptime ex_device ''vault-envelope'' (rq_RequestID ex_put) fp ?resp (rq_Now ex_put) 12
      (?s1\<lparr>t_change_origins := a, t_changes := b, t_runtime_state := x\<rparr>) = Inr ((), t)"
    using stores_first_receipt[of "?s1\<lparr>t_change_origins := a, t_changes := b, t_runtime_state := x\<rparr>" 12 ex_device "rq_RequestID ex_put" fp ?resp]
      fp(2) s1(3,4) by (auto simp: ex_put_def ex_call_def)
  have r: "storeReceipt (st_ephemeral ex_store) ex_device ''vault-envelope'' (rq_RequestID ex_put) fp ?resp (rq_Now ex_put)
      (?s1\<lparr>t_change_origins := a, t_changes := b\<rparr>) = Inr (cp, t)"
    using k st by (simp add: storeReceipt_def bindT_def returnT_def)
  have p: "peq_Envelope ex_put_request = ex_envelope" by (simp add: ex_put_request_def)
  show ?thesis
    using w c r unfolding putEnvelopeTx_def bindT_def readT_def
    by (simp add: e p auth fp ex_no_receipt[OF fp(2)] ex_admitted marshalJSON_def setServerCursor_def updateDB_def
       execT_def returnT_def Let_def)
qed

theorem ex_put_succeeds: "\<exists>resp store'. handlePutEnvelope ex_io ex_put ex_vault = (Inr resp, store')"
proof -
  obtain resp cp t where "putEnvelopeTx ex_identity (st_ephemeral ex_vault) ex_put 0 ex_put_request (st_db ex_vault) = Inr (Commit resp cp, t)"
    using ex_put_commits by blast
  moreover have "peq_ExpectedGeneration ex_put_request = encodeUint64Text 0" by (simp add: ex_put_request_def)
  ultimately show ?thesis
    by (simp add: handlePutEnvelope_def ex_decode putEnvelopeRequest_codec.get_put runTx_def finishTx_def ex_io_def ex_vault_simps(2))
qed

definition ex_get :: api_request where
  "ex_get = ex_call ''GET'' ''/v1/vault-envelope'' []"

lemma ex_get_authenticated: "t_devices s = t_devices (st_db ex_vault) \<Longrightarrow>
    auth_device (authenticate ex_identity (rq_Authorization ex_get) ''envelope:read'' s) \<noteq> None"
  using ex_authenticated[of "''envelope:read''" s]
  by (simp add: auth_device_def ex_get_def ex_call_def ex_vault_simps FixedScopes_def fixedScopes_def)

end
