(* ===== verification/ValidExample.thy ===== *)
theory ValidExample
  imports HistoryLaws PutExample
begin

text \<open>
  A database that startup validation accepts: one registered device that has written one revision. The
  digests of the revision and of its vector stay symbolic.
\<close>

abbreviation ex_rev :: bytes where
  "ex_rev \<equiv> rr_RevisionID ex_revision"

abbreviation ex_body :: bytes where
  "ex_body \<equiv> marshal (to_recordRevision ex_revision)"

definition ok_db :: db where
  "ok_db = ex_db\<lparr>
     t_devices := [(ex_row ex_device ex_hash None)\<lparr>d_max_author_counter := uint64_cell 1\<rparr>],
     t_device_origins := [\<lparr>do_device_id = CText ex_device, do_origin_kind = CText ''baseline'', do_created_cursor = CNull, do_revoked_cursor = CNull,
        do_baseline_revoked = 0\<rparr>],
     t_runtime_state := (t_runtime_state ex_db)\<lparr>rt_server_cursor := uint64_cell 1\<rparr>,
     t_device_sync_state := [\<lparr>ds_device_id = CText ex_device, ds_max_returned_cursor = uint64_cell 0\<rparr>],
     t_revision_objects := [\<lparr>ro_content_hash = CBlob (sha256 ex_body), ro_revision_json = CBlob ex_body\<rparr>],
     t_record_revisions := [revisionRow ex_item 7 1 True 0],
     t_revision_acceptance_origins := [\<lparr>ao_revision_id = CText ex_rev, ao_accepted_uptime_ms = uint64_cell 7\<rparr>],
     t_collection_records := [\<lparr>cr_record_id = CText ex_record, cr_barrier_cursor = uint64_cell 1\<rparr>],
     t_record_heads := [\<lparr>rh_record_id = CText ex_record, rh_revision_id = CText ex_rev\<rparr>],
     t_record_vector_index := [\<lparr>vi_record_id = CText ex_record, vi_vector_hash = CBlob (sha256 (vectorJSON ex_revision)), vi_revision_id = CText ex_rev\<rparr>],
     t_collection_candidates := [\<lparr>cc_record_id = CText ex_record, cc_accepted_uptime_ms = uint64_cell 7, cc_revision_id = CText ex_rev\<rparr>],
     t_change_origins := [\<lparr>co_cursor = uint64_cell 1, co_kind = CText ''record_revision'', co_envelope_generation = CNull\<rparr>],
     t_changes := [\<lparr>cg_cursor = uint64_cell 1, cg_kind = CText ''record_revision'', cg_received_at_ms = 0, cg_record_revision_id = CText ex_rev,
        cg_collection_marker_record_id = CNull, cg_collection_marker_json = CNull, cg_device_changed_id = CNull, cg_device_change_kind = CNull\<rparr>]\<rparr>"

definition ok_store :: Store where
  "ok_store = ex_store\<lparr>st_db := ok_db\<rparr>"

definition ok_devices :: validatedDevices where
  "ok_devices = [(ex_device, \<lparr>vd_createdAt = 0, vd_createdCursor = 0, vd_revokedCursor = 0, vd_revoked = False, vd_revokedAt = 0,
     vd_baselineRevoked = False, vd_maxCounter = 1, vd_ackCursor = 0, vd_maxReturned = 0\<rparr>)]"

lemma ok_tables:
  "t_devices ok_db = [(ex_row ex_device ex_hash None)\<lparr>d_max_author_counter := uint64_cell 1\<rparr>]"
  "t_device_origins ok_db = [\<lparr>do_device_id = CText ex_device, do_origin_kind = CText ''baseline'', do_created_cursor = CNull, do_revoked_cursor = CNull,
     do_baseline_revoked = 0\<rparr>]"
  "t_device_sync_state ok_db = [\<lparr>ds_device_id = CText ex_device, ds_max_returned_cursor = uint64_cell 0\<rparr>]"
  "t_revision_objects ok_db = [\<lparr>ro_content_hash = CBlob (sha256 ex_body), ro_revision_json = CBlob ex_body\<rparr>]"
  "t_record_revisions ok_db = [revisionRow ex_item 7 1 True 0]"
  "t_revision_acceptance_origins ok_db = [\<lparr>ao_revision_id = CText ex_rev, ao_accepted_uptime_ms = uint64_cell 7\<rparr>]"
  "t_collection_records ok_db = [\<lparr>cr_record_id = CText ex_record, cr_barrier_cursor = uint64_cell 1\<rparr>]"
  "t_record_heads ok_db = [\<lparr>rh_record_id = CText ex_record, rh_revision_id = CText ex_rev\<rparr>]"
  "t_record_vector_index ok_db = [\<lparr>vi_record_id = CText ex_record, vi_vector_hash = CBlob (sha256 (vectorJSON ex_revision)), vi_revision_id = CText ex_rev\<rparr>]"
  "t_collection_candidates ok_db = [\<lparr>cc_record_id = CText ex_record, cc_accepted_uptime_ms = uint64_cell 7, cc_revision_id = CText ex_rev\<rparr>]"
  "t_change_origins ok_db = [\<lparr>co_cursor = uint64_cell 1, co_kind = CText ''record_revision'', co_envelope_generation = CNull\<rparr>]"
  "t_changes ok_db = [\<lparr>cg_cursor = uint64_cell 1, cg_kind = CText ''record_revision'', cg_received_at_ms = 0, cg_record_revision_id = CText ex_rev,
     cg_collection_marker_record_id = CNull, cg_collection_marker_json = CNull, cg_device_changed_id = CNull, cg_device_change_kind = CNull\<rparr>]"
  by (simp_all add: ok_db_def)

lemma ok_empty:
  "t_vault_envelope ok_db = None" "t_collection_markers ok_db = []" "t_enrollment_grants ok_db = []" "t_enrollments ok_db = []"
  "t_operation_receipts ok_db = []" "t_operation_receipt_retention ok_db = []" "t_token_rotations ok_db = []"
  "t_self_revocation_receipts ok_db = []" "t_snapshots ok_db = []" "t_snapshot_pages ok_db = []" "t_snapshot_revision_refs ok_db = []"
  "rt_cursor_floor (t_runtime_state ok_db) = uint64_cell 0"
  by (simp_all add: ok_db_def ex_db_def)

lemma sql_query_one [simp]: "sql_query key (\<lambda>_. True) [x] = [x]" "sql_query key p [] = []"
  by (simp_all add: sql_query_def)

text \<open>Reading the columns of the example.\<close>

lemma ok_rev: "validateUUID ex_rev" "rr_RecordID ex_revision = ex_record" "rr_AuthorDeviceID ex_revision = ex_device"
  by (simp_all add: ex_revision_def)

lemma scan_rules:
  "validateUUID i \<Longrightarrow> scan_uuid (CText i) = Some i" "length b = n \<Longrightarrow> 0 < n \<Longrightarrow> scan_blob n (CBlob b) = Some b"
  "0 < n \<Longrightarrow> scan_opt_blob n CNull = Some None" "scan_opt_uint64 CNull = Some None" "scan_opt_text n CNull = Some None"
  "scan_opt_body m CNull = Some None" "scan_device_change_kind CNull = Some None" "scan_opt_uuid CNull = Some None"
  "scan_opt_blob_body m CNull = Some None"
  by (simp_all add: scan_uuid_eq scan_blob_CBlob scan_opt_uint64_def scan_opt_blob_def scan_opt_text_def scan_opt_body_def
      scan_device_change_kind_def scan_opt_uuid_def scan_opt_blob_body_def boundedOptionalBytes_def boundedOptionalText_def maxUUIDBytes_def)

lemma ok_epoch: "validateTimestamp (formatTimestamp 0)"
  using parseTimestamp_formatTimestamp[of 0] by (simp add: validateTimestamp_def)

lemma ok_runtime: "validatePersistentRuntime ok_db = Some (1, 0, 1, 0)"
  by (simp add: validatePersistentRuntime_def ok_db_def ex_db_def scan_rules scan_empty_or_uuid_def)

lemma ok_validated_devices: "validatePersistentDevices 1 ok_db = Some ok_devices"
proof -
  have "length ex_hash = 32" using DeviceTokenHash_length[OF ex_hash_eq] .
  then show ?thesis
    by (simp add: validatePersistentDevices_def scanDeviceRow_def ok_tables ex_row_def join_on_def same_def joined_def scan_rules ex_scopes ok_epoch
        later_time_def device_cursors_ok_def orZero_def ok_devices_def scan_origin_kind_def boundedOptionalText_def boundedRequiredText_def value_length_def Let_def)
qed

lemma ok_stored: "decodeStoredCanonical T_recordRevision ex_body = Some (to_recordRevision ex_revision)" "0 < length ex_body" "length ex_body \<le> maxBodyBytes"
proof -
  have "utf8_Valid cryptoSuite" "utf8_Valid ProtocolMajor" by code_simp+
  then have valid: "text_ok (to_recordRevision ex_revision)"
    by (simp add: to_recordRevision_def ex_revision_def to_vectorEntry_def entry_of_def wire_rules) code_simp
  have "wire_bound (to_recordRevision ex_revision) \<le> maxBodyBytes"
    using length_encodeUint64Text[of 1] length_EncodeToString[of "replicate 24 (CHR ''n'')"] length_EncodeToString[of "replicate 16 (CHR ''c'')"]
    by (simp add: to_recordRevision_def ex_revision_def to_vectorEntry_def entry_of_def validateUUID_length maxBodyBytes_def
        ProtocolMajor_def cryptoSuite_def)
  then show len: "length ex_body \<le> maxBodyBytes" using length_marshal[of "to_recordRevision ex_revision"] by simp
  show "decodeStoredCanonical T_recordRevision ex_body = Some (to_recordRevision ex_revision)"
    using recordRevision_codec.stored_canonical[OF _ valid len] by simp
  then show "0 < length ex_body" by (auto simp: decodeStoredCanonical_def split: if_splits)
qed

lemma ok_row:
  "rv_revision_id (revisionRow ex_item 7 1 True 0) = CText ex_rev" "rv_record_id (revisionRow ex_item 7 1 True 0) = CText ex_record"
  "rv_author_device_id (revisionRow ex_item 7 1 True 0) = CText ex_device" "rv_author_counter (revisionRow ex_item 7 1 True 0) = uint64_cell 1"
  "rv_vector_json (revisionRow ex_item 7 1 True 0) = CBlob (vectorJSON ex_revision)"
  "rv_collection_witness_authenticator (revisionRow ex_item 7 1 True 0) = CNull" "rv_tombstone (revisionRow ex_item 7 1 True 0) = 0"
  "rv_content_hash (revisionRow ex_item 7 1 True 0) = CBlob (sha256 ex_body)" "rv_received_at_ms (revisionRow ex_item 7 1 True 0) = 0"
  "rv_accepted_uptime_ms (revisionRow ex_item 7 1 True 0) = uint64_cell 7" "rv_change_cursor (revisionRow ex_item 7 1 True 0) = uint64_cell 1"
  "rv_collected_generation (revisionRow ex_item 7 1 True 0) = CNull" "rv_retained (revisionRow ex_item 7 1 True 0) = 1"
  "rv_undominated (revisionRow ex_item 7 1 True 0) = 1"
  by (simp_all add: revisionRow_def Let_def ex_item_def ex_revision_def boolToInt_def UnixMilli_def)

lemmas ok_scans = ok_tables ok_empty ok_row scan_rules ok_rev ok_epoch join_on_def same_def joined_def length_EncodeUint64

lemma ok_vector:
  "scan_body maxVectorBytes (CBlob (vectorJSON ex_revision)) = Some (vectorJSON ex_revision)"
  "unmarshalVector (vectorJSON ex_revision) = Some [entry_of (ex_device, 1)]"
  "marshal (GSlice (Some (map to_vectorEntry [entry_of (ex_device, 1)]))) = vectorJSON ex_revision"
proof -
  have e: "rr_VersionVector ex_revision = [entry_of (ex_device, 1)]" by (simp add: ex_revision_def)
  show "marshal (GSlice (Some (map to_vectorEntry [entry_of (ex_device, 1)]))) = vectorJSON ex_revision" by (simp add: vectorJSON_def e)
  show "scan_body maxVectorBytes (CBlob (vectorJSON ex_revision)) = Some (vectorJSON ex_revision)"
    using valid_vector_wire(1)[OF ex_vector] by (simp add: vectorJSON_def e scan_body_def boundedRequiredBytes_def value_length_def Suc_le_eq)
  show "unmarshalVector (vectorJSON ex_revision) = Some [entry_of (ex_device, 1)]"
    using valid_vector_wire(2)[OF ex_vector] by (simp add: unmarshalVector_def vectorJSON_def e comp_def vectorEntry_codec.get_put)
qed

lemma ok_objects: "validatePersistentRevisionObjects ok_db" "validatePersistentObjectReferences ok_db"
proof -
  have "scan_body maxBodyBytes (CBlob ex_body) = Some ex_body" using ok_stored(2,3) by (simp add: scan_body_blob Suc_le_eq)
  then show "validatePersistentRevisionObjects ok_db"
    by (simp add: validatePersistentRevisionObjects_def revision_object_ok_def ok_scans ok_stored(1) recordRevision_codec.get_put ex_validateRevision)
  show "validatePersistentObjectReferences ok_db" by (simp add: validatePersistentObjectReferences_def ok_scans)
qed

lemma ok_scanned:
  "scanRevisionRow ok_devices 1 0 ok_db (revisionRow ex_item 7 1 True 0) =
     Some \<lparr>xr_revisionID = ex_rev, xr_recordID = ex_record, xr_authorID = ex_device, xr_counter = 1, xr_entries = [entry_of (ex_device, 1)],
       xr_vector = [(ex_device, 1)], xr_retained = True, xr_undominated = True\<rparr>"
proof -
  have body: "scan_opt_body maxBodyBytes (CBlob ex_body) = Some (Some ex_body)"
    using ok_stored(2,3) by (simp add: scan_opt_body_def boundedOptionalBytes_def boundedRequiredBytes_def value_length_def Suc_le_eq)
  have change: "scan_opt_blob 8 (uint64_cell 1) = Some (Some (EncodeUint64 1))" by (simp add: scan_opt_blob_eq length_EncodeUint64)
  have "body_matches (revisionRow ex_item 7 1 True 0) \<lparr>xr_revisionID = ex_rev, xr_recordID = ex_record, xr_authorID = ex_device, xr_counter = 1,
      xr_entries = [entry_of (ex_device, 1)], xr_vector = [(ex_device, 1)], xr_retained = True, xr_undominated = True\<rparr> (sha256 ex_body) None ex_body"
    by (simp add: body_matches_def ok_stored(1) recordRevision_codec.get_put ok_row bodyWitness_def) (simp add: ex_revision_def)
  then have "object_matches ok_db (revisionRow ex_item 7 1 True 0) \<lparr>xr_revisionID = ex_rev, xr_recordID = ex_record, xr_authorID = ex_device,
      xr_counter = 1, xr_entries = [entry_of (ex_device, 1)], xr_vector = [(ex_device, 1)], xr_retained = True, xr_undominated = True\<rparr> (sha256 ex_body) None"
    by (simp add: object_matches_def matchingChange_def ok_scans body change)
  then show ?thesis
    using ok_vector(3) by (simp add: scanRevisionRow_def ok_scans ok_vector(1,2) ex_vector revision_origins_ok_def collected_ok_def
        revision_flags_ok_def registry_covers_def ok_devices_def vget_def)
qed

lemma ok_revisions: "validatePersistentRevisions ok_devices 1 0 ok_db = Some [(ex_device, 1)]"
proof -
  have "ex_record \<noteq> []" by (simp add: ex_record_def)
  then show ?thesis
    by (simp add: validatePersistentRevisions_def ok_tables(5) ok_scanned revisionStep_def enterRecord_def emptyWalk_def advanceFrontier_def retainRevision_def
        countAuthor_def flushFrontier_def validatePersistentCollectionGenerationSequence_def sql_query_def ok_row(12) vget_def)
qed

lemma ok_history: "validatePersistentHistorySequence ok_devices ok_db"
proof -
  have "ex_device \<noteq> []" by (simp add: ex_device_def)
  then show ?thesis
    by (simp add: validatePersistentHistorySequence_def ok_scans historyRow_def emptyHistory_def finishAuthor_def deviceExists_def maxCounterOf_def ok_devices_def)
qed

lemma ok_indexes:
  "validatePersistentRevisionAcceptanceOrigins ok_db" "validatePersistentRecordHeads ok_db" "validatePersistentRecordVectorIndex ok_db"
  "validatePersistentCollectionQueues 1 ok_db"
  by (simp_all add: validatePersistentRevisionAcceptanceOrigins_def acceptance_origin_ok_def validatePersistentRecordHeads_def record_head_ok_def
      validatePersistentRecordVectorIndex_def scanVectorIndexRow_def ok_vector(1) validatePersistentCollectionQueues_def collection_record_ok_def
      historicalMaximum_def collection_candidate_ok_def ok_scans)

lemma ok_kind: "scan_kind (CText ''record_revision'') = Some ''record_revision''"
  by (simp add: scan_kind_def change_kinds_def)

lemma ok_changes: "validatePersistentChanges ok_devices 1 ok_db"
proof -
  have "scan_opt_text maxUUIDBytes (CText ex_rev) = Some (Some ex_rev)"
    using validateUUID_length[OF ok_rev(1)] by (simp add: scan_opt_text_eq maxUUIDBytes_def)
  then show ?thesis
    by (simp add: validatePersistentChanges_def changeStep_def retainedStep_def revision_change_ok_def ok_scans ok_kind ok_devices_def)
qed

lemma ok_others:
  "validatePersistentEnvelope ex_identity 0 1 ok_db" "validatePersistentMarkers ok_devices 1 ok_db" "validatePersistentReceipts ex_identity ok_devices ok_db"
  "validatePersistentReceiptRetention ok_db" "validatePersistentEnrollmentsAndRotations ex_identity ok_devices ok_db" "validatePersistentEnrollmentGrants ok_db"
  by (simp_all add: validatePersistentEnvelope_def validatePersistentMarkers_def validatePersistentReceipts_def validatePersistentReceiptRetention_def
      validatePersistentEnrollmentsAndRotations_def validatePersistentEnrollmentGrants_def ok_empty ok_devices_def)

lemma ok_origins: "validatePersistentChangeOrigins 1 0 [] ok_db = Some []"
proof -
  have "scan_opt_uuid (CText ex_rev) = Some (Some ex_rev)"
    using validateUUID_length[OF ok_rev(1)] ok_rev(1) by (simp add: scan_opt_uuid_def scan_opt_text_def boundedOptionalText_def boundedRequiredText_def value_length_def maxUUIDBytes_def)
  then show ?thesis
    by (simp add: validatePersistentChangeOrigins_def no_orphans_def durable_owners_def has_origin_def scanOrigin_def scan_revision_owner_def origin_ok_def
        ok_scans ok_kind Let_def)
qed

lemma ok_snapshots: "validatePersistentSnapshots ex_identity ok_devices 1 0 0 ok_db"
  by (simp add: validatePersistentSnapshots_def loadSnapshots_def validatePageRows_def ok_origins ok_empty snapshotMetadataLimit_def)

lemma ok_validated: "validatePersistentState ex_identity ok_db"
  by (simp add: validatePersistentState_def validatePersistentTables_def ok_runtime ok_validated_devices ok_objects ok_revisions ok_history ok_indexes ok_changes
      ok_others ok_snapshots) (simp add: ok_devices_def vget_def)

lemma ok_keys: "keys_unique ok_db"
  by (simp add: keys_unique_def ok_tables)

end
