(* ===== verification/Opening.thy ===== *)
theory Opening
  imports SnapshotValidation Server
begin

text \<open>
  Opening a database: \<^verbatim>\<open>initialize\<close>, \<^verbatim>\<open>validateIdentity\<close>, \<^verbatim>\<open>Ready\<close>, \<^verbatim>\<open>CreateDevice\<close>, \<^verbatim>\<open>DeviceCredential\<close> and
  \<^verbatim>\<open>VerifyDeviceToken\<close> of \<^verbatim>\<open>store/store.go\<close> and the schema inspection and migrations of \<^verbatim>\<open>store/schema.go\<close>.
  A \<open>disk\<close> is what the file holds beside the rows: the user version, the tables of \<^verbatim>\<open>sqlite_schema\<close> with
  their statements, the number of triggers, views and explicit indexes, and the metadata row. A CREATE
  statement is named by its Go constant. The rows of a table that is not in the schema are no part of
  the file; \<open>createSchemaV1\<close> and \<open>migrateLegacySchemaV1\<close> start them empty. File protection (\<^verbatim>\<open>config\<close>,
  \<^verbatim>\<open>syscall\<close>) is an answer of the environment.
\<close>

section \<open>The file\<close>

record instance_metadata_row =
  im_instance_id :: cell
  im_vault_id :: cell
  im_protocol_major :: cell
  im_storage_schema :: cell

definition check_instance_metadata :: "instance_metadata_row \<Rightarrow> bool" where
  "check_instance_metadata r \<longleftrightarrow>
     text_col 36 (im_instance_id r) \<and> text_col 36 (im_vault_id r) \<and> im_protocol_major r = CText ''1'' \<and> im_storage_schema r = CText ''1''
     \<and> im_instance_id r \<noteq> im_vault_id r"

record disk =
  dk_version :: int
  dk_tables :: "(bytes \<times> bytes) list"
  dk_auxiliary :: nat
  dk_metadata :: "instance_metadata_row option"
  dk_db :: db

datatype open_error = ErrIdentityMismatch | ErrFutureSchema | ErrUnexpectedSchema | ErrOther

datatype schemaKind = schemaEmpty | schemaLegacy | schemaPriorFull | schemaPriorAcceptanceOrigin | schemaFull

definition SchemaVersion :: int where
  "SchemaVersion = 1"

definition fullSchemaTables :: "(bytes \<times> bytes) list" where
  "fullSchemaTables = [
     (''change_origins'', ''createChangeOriginsV1''),
     (''changes'', ''createChangesV1''),
     (''collection_candidates'', ''createCollectionCandidatesV1''),
     (''collection_markers'', ''createCollectionMarkersV1''),
     (''collection_records'', ''createCollectionRecordsV1''),
     (''device_origins'', ''createDeviceOriginsV1''),
     (''device_sync_state'', ''createDeviceSyncStateV1''),
     (''devices'', ''createDevicesV1''),
     (''enrollment_grants'', ''createEnrollmentGrantsV1''),
     (''enrollments'', ''createEnrollmentsV1''),
     (''instance_metadata'', ''createInstanceMetadataV1''),
     (''operation_receipts'', ''createOperationReceiptsV1''),
     (''operation_receipt_retention'', ''createOperationReceiptRetentionV1''),
     (''record_revisions'', ''createRecordRevisionsV1''),
     (''record_heads'', ''createRecordHeadsV1''),
     (''record_vector_index'', ''createRecordVectorIndexV1''),
     (''revision_acceptance_origins'', ''createRevisionAcceptanceOriginsV1''),
     (''revision_objects'', ''createRevisionObjectsV1''),
     (''runtime_state'', ''createRuntimeStateV1''),
     (''self_revocation_receipts'', ''createSelfRevocationReceiptsV1''),
     (''snapshot_pages'', ''createSnapshotPagesV1''),
     (''snapshot_revision_refs'', ''createSnapshotRevisionRefsV1''),
     (''snapshots'', ''createSnapshotsV1''),
     (''token_rotations'', ''createTokenRotationsV1''),
     (''vault_envelope'', ''createVaultEnvelopeV1'')]"

definition priorAcceptanceOriginSchemaTables :: "(bytes \<times> bytes) list" where
  "priorAcceptanceOriginSchemaTables = filter (\<lambda>(name, _). name \<noteq> ''revision_acceptance_origins'') fullSchemaTables"

definition priorFullSchemaTables :: "(bytes \<times> bytes) list" where
  "priorFullSchemaTables = AList.update ''record_revisions'' ''createRecordRevisionsPriorFullV1'' priorAcceptanceOriginSchemaTables"

definition legacySchemaTables :: "(bytes \<times> bytes) list" where
  "legacySchemaTables = [(''devices'', ''createDevicesV1''), (''instance_metadata'', ''createInstanceMetadataV1'')]"

definition schemaTablesEqual :: "(bytes \<times> bytes) list \<Rightarrow> (bytes \<times> bytes) list \<Rightarrow> bool" where
  "schemaTablesEqual actual expected \<longleftrightarrow>
     length actual = length expected \<and> list_all (\<lambda>(name, statement). map_of actual name = Some statement) expected"

definition readSchemaTables :: "disk \<Rightarrow> open_error + (bytes \<times> bytes) list" where
  "readSchemaTables d = (if dk_auxiliary d \<noteq> 0 then Inl ErrUnexpectedSchema else Inr (dk_tables d))"

definition inspectSchemaState :: "disk \<Rightarrow> open_error + (schemaKind \<times> int)" where
  "inspectSchemaState d =
     (if SchemaVersion < dk_version d then Inl ErrFutureSchema
      else if dk_version d < 0 then Inl ErrOther
      else bindR (readSchemaTables d) (\<lambda>tables.
        if dk_version d = 0 then (if tables \<noteq> [] then Inl ErrUnexpectedSchema else Inr (schemaEmpty, 0))
        else if schemaTablesEqual tables fullSchemaTables then Inr (schemaFull, dk_version d)
        else if schemaTablesEqual tables priorAcceptanceOriginSchemaTables then Inr (schemaPriorAcceptanceOrigin, dk_version d)
        else if schemaTablesEqual tables priorFullSchemaTables then Inr (schemaPriorFull, dk_version d)
        else if schemaTablesEqual tables legacySchemaTables then Inr (schemaLegacy, dk_version d)
        else Inl ErrUnexpectedSchema))"

definition validateSchemaState :: "disk \<Rightarrow> open_error + int" where
  "validateSchemaState d =
     bindR (inspectSchemaState d) (\<lambda>(kind, version). if version \<noteq> 0 \<and> kind \<noteq> schemaFull then Inl ErrUnexpectedSchema else Inr version)"

section \<open>Creation and migration\<close>

definition zeroRuntime :: runtime_state_row where
  "zeroRuntime = \<lparr>rt_server_cursor = uint64_cell 0, rt_cursor_floor = uint64_cell 0, rt_envelope_generation = uint64_cell 0,
     rt_instance_secret_generation = uint64_cell 1, rt_collection_generation = uint64_cell 0, rt_accumulated_uptime_ms = uint64_cell 0,
     rt_active_boot_id = CNull, rt_collection_scan_after_record_id = CText []\<rparr>"

definition emptyTables :: "db \<Rightarrow> db" where
  "emptyTables s = s\<lparr>t_device_origins := [], t_device_sync_state := [], t_enrollment_grants := [], t_enrollments := [], t_vault_envelope := None,
     t_revision_objects := [], t_record_revisions := [], t_revision_acceptance_origins := [], t_collection_records := [], t_record_heads := [],
     t_record_vector_index := [], t_collection_candidates := [], t_collection_markers := [], t_change_origins := [], t_changes := [],
     t_operation_receipts := [], t_operation_receipt_retention := [], t_token_rotations := [], t_self_revocation_receipts := [],
     t_snapshots := [], t_snapshot_pages := [], t_snapshot_revision_refs := []\<rparr>"

fun insertAll :: "('r \<Rightarrow> db \<Rightarrow> db option) \<Rightarrow> 'r list \<Rightarrow> db \<Rightarrow> db option" where
  "insertAll ins [] s = Some s"
| "insertAll ins (r # rest) s = (case ins r s of None \<Rightarrow> None | Some s' \<Rightarrow> insertAll ins rest s')"

definition onRows :: "(db \<Rightarrow> db option) \<Rightarrow> disk \<Rightarrow> open_error + disk" where
  "onRows f d = (case f (dk_db d) of None \<Rightarrow> Inl ErrOther | Some s \<Rightarrow> Inr (d\<lparr>dk_db := s\<rparr>))"

definition createSchemaV1 :: "disk \<Rightarrow> disk" where
  "createSchemaV1 d = d\<lparr>dk_tables := fullSchemaTables, dk_version := SchemaVersion, dk_metadata := None,
     dk_db := (emptyTables (dk_db d))\<lparr>t_devices := []\<rparr>\<rparr>"

definition baselineOrigin :: "devices_row \<Rightarrow> device_origins_row" where
  "baselineOrigin dev = \<lparr>do_device_id = d_device_id dev, do_origin_kind = CText ''baseline'', do_created_cursor = CNull, do_revoked_cursor = CNull,
     do_baseline_revoked = (if d_revoked_at_ms dev = None then 0 else 1)\<rparr>"

definition migrateLegacySchemaV1 :: "disk \<Rightarrow> open_error + disk" where
  "migrateLegacySchemaV1 d =
     onRows (\<lambda>s. insertAll insert_device_origins (map baselineOrigin (t_devices s)) (emptyTables s)) (d\<lparr>dk_tables := fullSchemaTables\<rparr>)"

definition migratePriorFullSchemaV1 :: "disk \<Rightarrow> open_error + disk" where
  "migratePriorFullSchemaV1 d =
     onRows (\<lambda>s. insertAll insert_record_revisions (t_record_revisions s) (s\<lparr>t_record_revisions := []\<rparr>))
       (d\<lparr>dk_tables := AList.update ''record_revisions'' ''createRecordRevisionsV1'' (dk_tables d)\<rparr>)"

definition rebaseAcceptance :: "cell \<Rightarrow> db \<Rightarrow> db option" where
  "rebaseAcceptance current s =
     (case sql_update check_record_revisions clash_record_revisions (\<lambda>_. True) (\<lambda>r. r\<lparr>rv_accepted_uptime_ms := current\<rparr>) (t_record_revisions s) of
        None \<Rightarrow> None
      | Some revisions \<Rightarrow>
         (case sql_update check_collection_candidates clash_collection_candidates (\<lambda>_. True)
                 (\<lambda>q. q\<lparr>cc_accepted_uptime_ms := current\<rparr>) (t_collection_candidates s) of
            None \<Rightarrow> None
          | Some candidates \<Rightarrow>
             insertAll insert_revision_acceptance_origins
               (map (\<lambda>r. \<lparr>ao_revision_id = rv_revision_id r, ao_accepted_uptime_ms = current\<rparr>) revisions)
               (s\<lparr>t_record_revisions := revisions, t_collection_candidates := candidates, t_revision_acceptance_origins := []\<rparr>)))"

definition migrateRevisionAcceptanceOriginsV1 :: "disk \<Rightarrow> open_error + disk" where
  "migrateRevisionAcceptanceOriginsV1 d =
     (case scan_uint64 (rt_accumulated_uptime_ms (t_runtime_state (dk_db d))) of
        None \<Rightarrow> Inl ErrUnexpectedSchema
      | Some current \<Rightarrow>
         onRows (rebaseAcceptance (uint64_cell current))
           (d\<lparr>dk_tables := (''revision_acceptance_origins'', ''createRevisionAcceptanceOriginsV1'') # dk_tables d\<rparr>))"

definition migrate :: "schemaKind \<Rightarrow> disk \<Rightarrow> open_error + disk" where
  "migrate kind d =
     (if dk_version d = 0 then Inr (createSchemaV1 d)
      else case kind of
        schemaLegacy \<Rightarrow> migrateLegacySchemaV1 d
      | schemaPriorFull \<Rightarrow> bindR (migratePriorFullSchemaV1 d) migrateRevisionAcceptanceOriginsV1
      | schemaPriorAcceptanceOrigin \<Rightarrow> migrateRevisionAcceptanceOriginsV1 d
      | _ \<Rightarrow> Inr d)"

section \<open>Initialisation\<close>

definition identityRow :: "Identity \<Rightarrow> instance_metadata_row" where
  "identityRow identity = \<lparr>im_instance_id = CText (id_InstanceID identity), im_vault_id = CText (id_VaultID identity),
     im_protocol_major = CText ''1'', im_storage_schema = CText ''1''\<rparr>"

definition insertMetadata :: "Identity \<Rightarrow> disk \<Rightarrow> open_error + disk" where
  "insertMetadata identity d =
     (if dk_metadata d = None \<and> check_instance_metadata (identityRow identity)
      then Inr (d\<lparr>dk_metadata := Some (identityRow identity)\<rparr>) else Inl ErrOther)"

definition insertRuntime :: "disk \<Rightarrow> open_error + disk" where
  "insertRuntime d =
     onRows (\<lambda>s. insertAll insert_device_sync_state
       (map (\<lambda>dev. \<lparr>ds_device_id = d_device_id dev, ds_max_returned_cursor = uint64_cell 0\<rparr>) (t_devices s)) (s\<lparr>t_runtime_state := zeroRuntime\<rparr>)) d"

definition insertInitialRows :: "Identity \<Rightarrow> bool \<Rightarrow> bool \<Rightarrow> disk \<Rightarrow> open_error + disk" where
  "insertInitialRows identity createdSchema legacy d =
     bindR (if createdSchema then insertMetadata identity d else Inr d) (\<lambda>d1.
     if createdSchema \<or> legacy then insertRuntime d1 else Inr d1)"

definition validateIdentity :: "Identity \<Rightarrow> disk \<Rightarrow> open_error + unit" where
  "validateIdentity expected d =
     (case dk_metadata d of
        None \<Rightarrow> Inl ErrIdentityMismatch
      | Some row \<Rightarrow>
         (case (scan_text maxUUIDBytes (im_instance_id row), scan_text maxUUIDBytes (im_vault_id row),
                scan_text 1 (im_protocol_major row), scan_text 1 (im_storage_schema row)) of
            (Some instanceID, Some vaultID, Some protocolMajor, Some storageSchema) \<Rightarrow>
              if \<lparr>id_InstanceID = instanceID, id_VaultID = vaultID\<rparr> = expected \<and> protocolMajor = ''1'' \<and> storageSchema = ''1''
              then Inr () else Inl ErrIdentityMismatch
          | _ \<Rightarrow> Inl ErrIdentityMismatch))"

definition schemaTransaction :: "Identity \<Rightarrow> schemaKind \<Rightarrow> disk \<Rightarrow> open_error + disk" where
  "schemaTransaction identity initialKind d =
     bindR (inspectSchemaState d) (\<lambda>(kind, userVersion).
     if kind \<noteq> initialKind then Inl ErrUnexpectedSchema
     else bindR (migrate kind d) (\<lambda>d1.
          bindR (insertInitialRows identity (userVersion = 0) (kind = schemaLegacy) d1) (\<lambda>d3.
          bindR (inspectSchemaState d3) (\<lambda>(_, version).
          if version \<noteq> SchemaVersion then Inl ErrUnexpectedSchema
          else bindR (validateIdentity identity d3) (\<lambda>_.
               if validatePersistentState identity (dk_db d3) then Inr d3 else Inl ErrUnexpectedSchema)))))"

text \<open>
  What the operating system and the driver answer: the path is absolute, the files are protected and the
  handle opens, the database answers a ping, it switches to WAL, a transaction begins and commits, and
  the files are restricted afterwards. A statement that the driver fails is rolled back like a refused one.
\<close>

record open_io =
  oi_path :: bool
  oi_prepare :: bool
  oi_ping :: bool
  oi_wal :: bool
  oi_begin :: bool
  oi_commit :: bool
  oi_restrict :: bool

definition initialize :: "open_io \<Rightarrow> Identity \<Rightarrow> disk \<Rightarrow> (open_error + unit) \<times> disk" where
  "initialize io identity d =
     (if \<not> oi_ping io then (Inl ErrOther, d)
      else case inspectSchemaState d of
        Inl e \<Rightarrow> (Inl e, d)
      | Inr (initialKind, _) \<Rightarrow>
         if \<not> oi_wal io \<or> \<not> oi_begin io then (Inl ErrOther, d)
         else (case schemaTransaction identity initialKind d of
            Inl e \<Rightarrow> (Inl e, d)
          | Inr d' \<Rightarrow> if oi_commit io then (Inr (), d') else (Inl ErrOther, d)))"

definition validateIdentityInput :: "Identity \<Rightarrow> bool" where
  "validateIdentityInput identity \<longleftrightarrow>
     Parse (id_InstanceID identity) \<noteq> None \<and> Parse (id_VaultID identity) \<noteq> None \<and> id_InstanceID identity \<noteq> id_VaultID identity"

definition newEphemeralState :: ephemeralState where
  "newEphemeralState = \<lparr>bootID = zeroes 16, booted = False, uptimeCheckpoint = zero_time, grantDeadlines = [], enrollmentAttempts = [], snapshotAttempts = [], snapshotDeadlines = []\<rparr>"

definition Open :: "open_io \<Rightarrow> Identity \<Rightarrow> disk \<Rightarrow> (open_error + Store) \<times> disk" where
  "Open io identity d =
     (if \<not> validateIdentityInput identity \<or> \<not> oi_path io \<or> \<not> oi_prepare io then (Inl ErrOther, d)
      else case initialize io identity d of
        (Inl e, d') \<Rightarrow> (Inl e, d')
      | (Inr _, d') \<Rightarrow>
         if \<not> oi_restrict io then (Inl ErrOther, d')
         else (Inr \<lparr>st_db = dk_db d', st_identity = identity, st_ephemeral = newEphemeralState\<rparr>, d'))"

section \<open>Validation without writing\<close>

text \<open>
  \<^verbatim>\<open>ValidateExisting\<close> reads a private snapshot of a closed database, or the active database beside its WAL,
  and never writes the source. Its environment: which sidecars exist (\<open>None\<close> when the check fails), whether
  the source could be captured, opened, committed and attested afterwards, the verdict of \<^verbatim>\<open>quick_check\<close>,
  and how the private copy of a migratable database opens.
\<close>

record existing_io =
  xi_path :: bool
  xi_protected :: bool
  xi_wal :: "bool option"
  xi_shm :: "bool option"
  xi_journal :: "bool option"
  xi_captured :: bool
  xi_opened :: bool
  xi_integrity :: bytes
  xi_committed :: bool
  xi_backup :: bool
  xi_copy :: open_io
  xi_attested :: bool
  xi_sidecars :: bool
  xi_released :: bool

definition sidecars_ok :: "existing_io \<Rightarrow> bool" where
  "sidecars_ok io =
     (case (xi_wal io, xi_shm io, xi_journal io) of
        (Some walPresent, Some shmPresent, Some journalPresent) \<Rightarrow> walPresent = shmPresent \<and> \<not> journalPresent
      | _ \<Rightarrow> False)"

definition validateMigratableCopy :: "existing_io \<Rightarrow> Identity \<Rightarrow> disk \<Rightarrow> open_error + unit" where
  "validateMigratableCopy io identity d =
     (if \<not> xi_backup io then Inl ErrOther
      else case fst (Open (xi_copy io) identity d) of Inl e \<Rightarrow> Inl e | Inr _ \<Rightarrow> Inr ())"

definition inspectExisting :: "Identity \<Rightarrow> disk \<Rightarrow> open_error + bool" where
  "inspectExisting identity d =
     bindR (inspectSchemaState d) (\<lambda>(kind, version).
     case kind of
       schemaEmpty \<Rightarrow> if version \<noteq> 0 then Inl ErrUnexpectedSchema else Inr False
     | schemaFull \<Rightarrow>
         if version \<noteq> SchemaVersion then Inl ErrUnexpectedSchema
         else bindR (validateIdentity identity d) (\<lambda>_.
              if validatePersistentState identity (dk_db d) then Inr False else Inl ErrUnexpectedSchema)
     | _ \<Rightarrow> if version \<noteq> SchemaVersion then Inl ErrUnexpectedSchema else Inr True)"

definition validateExisting :: "existing_io \<Rightarrow> Identity \<Rightarrow> disk \<Rightarrow> open_error + unit" where
  "validateExisting io identity d =
     (if \<not> validateIdentityInput identity \<or> \<not> xi_path io \<or> \<not> xi_protected io \<or> \<not> sidecars_ok io
         \<or> \<not> xi_captured io \<or> \<not> xi_opened io \<or> xi_integrity io \<noteq> ''ok'' then Inl ErrOther
      else bindR (inspectExisting identity d) (\<lambda>migratable.
        if \<not> xi_committed io then Inl ErrOther
        else bindR (if migratable then validateMigratableCopy io identity d else Inr ()) (\<lambda>_.
          if \<not> xi_attested io \<or> \<not> xi_sidecars io \<or> \<not> xi_released io then Inl ErrOther else Inr ())))"

section \<open>Readiness\<close>

definition validateReadinessSnapshot :: "Identity \<Rightarrow> disk \<Rightarrow> bool" where
  "validateReadinessSnapshot identity d =
     (case validateSchemaState d of
        Inl _ \<Rightarrow> False
      | Inr version \<Rightarrow>
         version = SchemaVersion \<and> validateIdentity identity d = Inr ()
         \<and> (case validatePersistentRuntime (dk_db d) of
              None \<Rightarrow> False
            | Some (serverCursor, envelopeGeneration, secretGeneration, _) \<Rightarrow>
               validateReadinessDevices serverCursor (dk_db d)
               \<and> validatePersistentEnvelope identity envelopeGeneration secretGeneration (dk_db d)))"

definition Ready :: "io \<Rightarrow> Identity \<Rightarrow> disk \<Rightarrow> bool" where
  "Ready io identity d \<longleftrightarrow> io_begin io \<and> validateReadinessSnapshot identity d \<and> io_commit io"

section \<open>Baseline devices\<close>

definition createDeviceTx :: "bytes \<Rightarrow> bytes \<Rightarrow> time \<Rightarrow> db \<Rightarrow> db option" where
  "createDeviceTx deviceID hash createdAt s =
     (case (scan_uint64 (rt_server_cursor (t_runtime_state s)), scan_opt_blob 16 (rt_active_boot_id (t_runtime_state s))) of
        (Some cursor, Some activeBootID) \<Rightarrow>
          if cursor \<noteq> 0 \<or> activeBootID \<noteq> None \<or> t_snapshots s \<noteq> [] then None
          else (case insert_devices \<lparr>d_device_id = CText deviceID, d_token_hash = CBlob hash, d_scopes_json = CText wantScopes,
                       d_created_at_ms = UnixMilli createdAt, d_revoked_at_ms = None, d_last_sync_at_ms = None,
                       d_last_ack_cursor = uint64_cell 0, d_max_author_counter = uint64_cell 0\<rparr> s of
             None \<Rightarrow> None
           | Some s1 \<Rightarrow>
              (case insert_device_origins \<lparr>do_device_id = CText deviceID, do_origin_kind = CText ''baseline'', do_created_cursor = CNull,
                       do_revoked_cursor = CNull, do_baseline_revoked = 0\<rparr> s1 of
                 None \<Rightarrow> None
               | Some s2 \<Rightarrow> insert_device_sync_state \<lparr>ds_device_id = CText deviceID, ds_max_returned_cursor = uint64_cell 0\<rparr> s2))
      | _ \<Rightarrow> None)"

definition CreateDevice :: "io \<Rightarrow> bytes \<Rightarrow> bytes \<Rightarrow> bytes list \<Rightarrow> time \<Rightarrow> Store \<Rightarrow> bool \<times> Store" where
  "CreateDevice io deviceID token scopes createdAt store =
     (if Parse deviceID = None \<or> \<not> ValidateScopes scopes then (False, store)
      else case DeviceTokenHash (id_InstanceID (st_identity store)) (id_VaultID (st_identity store)) deviceID token of
        None \<Rightarrow> (False, store)
      | Some hash \<Rightarrow>
         if \<not> io_begin io then (False, store)
         else (case createDeviceTx deviceID hash createdAt (st_db store) of
            None \<Rightarrow> (False, store)
          | Some s \<Rightarrow> if io_commit io then (True, store\<lparr>st_db := s\<rparr>) else (False, store)))"

definition DeviceCredential :: "bytes \<Rightarrow> db \<Rightarrow> (bytes \<times> bytes list) option" where
  "DeviceCredential deviceID s =
     (if Parse deviceID = None then None
      else case find (\<lambda>d. same (d_device_id d) (CText deviceID)) (t_devices s) of
        None \<Rightarrow> None
      | Some d \<Rightarrow>
         (case (scan_blob 32 (d_token_hash d), scan_text (length wantScopes) (d_scopes_json d)) of
            (Some hash, Some scopesJSON) \<Rightarrow>
              if scopesJSON \<noteq> wantScopes then None
              else (case json_Unmarshal (TSlice TString) scopesJSON of
                 None \<Rightarrow> None
               | Some g \<Rightarrow> if ValidateScopes (g_slice g_string g) then Some (hash, g_slice g_string g) else None)
          | _ \<Rightarrow> None))"

definition VerifyDeviceToken :: "bytes \<Rightarrow> bytes \<Rightarrow> Store \<Rightarrow> bool option" where
  "VerifyDeviceToken deviceID token store =
     (case DeviceCredential deviceID (st_db store) of
        None \<Rightarrow> None
      | Some (stored, _) \<Rightarrow>
         (case DeviceTokenHash (id_InstanceID (st_identity store)) (id_VaultID (st_identity store)) deviceID token of
            None \<Rightarrow> None
          | Some computed \<Rightarrow> Some (VerifyHash stored computed)))"

end
