(* ===== verification/OpeningLaws.thy ===== *)
theory OpeningLaws
  imports Opening HistoryLaws
begin

text \<open>
  Opening a database either fails and leaves the file as it was, or yields a store that startup validation
  accepted, under the metadata of the given identity. An empty file opens to an empty store, a valid file
  of the current schema is not changed, and the migration of acceptance times rebases every revision
  to the present, so that it can delay a collection but never bring it forward.
\<close>

section \<open>Rows inserted in bulk\<close>

lemma insertAll_rows:
  assumes "insertAll ins rows s = Some t"
    and step: "\<And>r s s'. ins r s = Some s' \<Longrightarrow> tab s' = tab s @ [r] \<and> frame s' = frame s"
  shows "tab t = tab s @ rows \<and> frame t = frame s"
  using assms(1)
proof (induction rows arbitrary: s)
  case Nil
  then show ?case by simp
next
  case (Cons r rows)
  then obtain s1 where "ins r s = Some s1" "insertAll ins rows s1 = Some t" by (auto split: option.splits)
  with Cons.IH[OF this(2)] step[OF this(1)] show ?case by simp
qed

lemma insert_steps:
  "insert_record_revisions r s = Some t \<Longrightarrow> t_record_revisions t = t_record_revisions s @ [r]"
  "insert_revision_acceptance_origins a s = Some t \<Longrightarrow> t_revision_acceptance_origins t = t_revision_acceptance_origins s @ [a] \<and> t_record_revisions t = t_record_revisions s \<and> t_collection_candidates t = t_collection_candidates s"
  "insert_device_origins og s = Some t \<Longrightarrow> t_record_revisions t = t_record_revisions s"
  "insert_device_sync_state y s = Some t \<Longrightarrow> t_record_revisions t = t_record_revisions s"
  by (auto simp: insert_record_revisions_def insert_revision_acceptance_origins_def insert_device_origins_def insert_device_sync_state_def sql_insert_def
      split: if_splits)

lemma insertAll_frame:
  assumes "insertAll ins rows s = Some t" "\<And>r s s'. ins r s = Some s' \<Longrightarrow> f s' = f s"
  shows "f t = f s"
  using assms(1) by (induction rows arbitrary: s) (auto dest: assms(2) split: option.splits)

section \<open>Migrations\<close>

lemma rebase_spec:
  assumes "rebaseAcceptance current s = Some t"
  shows "t_record_revisions t = map (\<lambda>r. r\<lparr>rv_accepted_uptime_ms := current\<rparr>) (t_record_revisions s)"
    "t_collection_candidates t = map (\<lambda>q. q\<lparr>cc_accepted_uptime_ms := current\<rparr>) (t_collection_candidates s)"
    "t_revision_acceptance_origins t = map (\<lambda>r. \<lparr>ao_revision_id = rv_revision_id r, ao_accepted_uptime_ms = current\<rparr>) (t_record_revisions s)"
proof -
  let ?revs = "map (\<lambda>r. r\<lparr>rv_accepted_uptime_ms := current\<rparr>) (t_record_revisions s)"
  let ?cands = "map (\<lambda>q. q\<lparr>cc_accepted_uptime_ms := current\<rparr>) (t_collection_candidates s)"
  from assms have ins: "insertAll insert_revision_acceptance_origins (map (\<lambda>r. \<lparr>ao_revision_id = rv_revision_id r, ao_accepted_uptime_ms = current\<rparr>) ?revs)
      (s\<lparr>t_record_revisions := ?revs, t_collection_candidates := ?cands, t_revision_acceptance_origins := []\<rparr>) = Some t"
    by (auto simp: rebaseAcceptance_def sql_update_def sql_set_def split: option.splits if_splits)
  have "t_revision_acceptance_origins t = [] @ map (\<lambda>r. \<lparr>ao_revision_id = rv_revision_id r, ao_accepted_uptime_ms = current\<rparr>) ?revs
      \<and> (t_record_revisions t, t_collection_candidates t) = (?revs, ?cands)"
    using insertAll_rows[OF ins, of t_revision_acceptance_origins "\<lambda>s. (t_record_revisions s, t_collection_candidates s)"] insert_steps(2) by simp
  then show "t_record_revisions t = ?revs" "t_collection_candidates t = ?cands"
    "t_revision_acceptance_origins t = map (\<lambda>r. \<lparr>ao_revision_id = rv_revision_id r, ao_accepted_uptime_ms = current\<rparr>) (t_record_revisions s)"
    by (simp_all add: comp_def)
qed

lemma onRows_eq: "onRows f d = Inr d' \<longleftrightarrow> (\<exists>s. f (dk_db d) = Some s \<and> d' = d\<lparr>dk_db := s\<rparr>)"
  by (auto simp: onRows_def split: option.splits)

definition ids :: "disk \<Rightarrow> cell list" where
  "ids d = map rv_revision_id (t_record_revisions (dk_db d))"

lemma migrate_ids:
  assumes "migrate kind d = Inr d'" shows "ids d' = [] \<or> ids d' = ids d"
proof -
  have legacy: "ids d' = []" if "migrateLegacySchemaV1 d = Inr d'" for d d'
    using that insertAll_frame[of insert_device_origins _ _ _ t_record_revisions] insert_steps(3)
    by (fastforce simp: migrateLegacySchemaV1_def onRows_eq ids_def emptyTables_def)
  have full: "ids d' = ids d" if "migratePriorFullSchemaV1 d = Inr d'" for d d'
    using that insertAll_rows[of insert_record_revisions _ _ _ t_record_revisions "\<lambda>_. ()"] insert_steps(1)
    by (fastforce simp: migratePriorFullSchemaV1_def onRows_eq ids_def)
  have origins: "ids d' = ids d" if "migrateRevisionAcceptanceOriginsV1 d = Inr d'" for d d'
    using that rebase_spec(1) by (fastforce simp: migrateRevisionAcceptanceOriginsV1_def onRows_eq ids_def comp_def split: option.splits)
  show ?thesis
  proof (cases "dk_version d = 0")
    case True
    then show ?thesis using assms by (auto simp: migrate_def createSchemaV1_def emptyTables_def ids_def)
  next
    case False
    then show ?thesis using assms legacy full origins
      by (cases kind) (auto simp: migrate_def bindR_eq_Inr)
  qed
qed

lemma insertMetadata_db: "insertMetadata identity d = Inr d' \<Longrightarrow> dk_db d' = dk_db d \<and> dk_metadata d' = Some (identityRow identity)"
  by (auto simp: insertMetadata_def split: if_splits)

lemma insertRuntime_ids: "insertRuntime d = Inr d' \<Longrightarrow> ids d' = ids d"
  using insertAll_frame[of insert_device_sync_state _ _ _ t_record_revisions] insert_steps(4)
  by (fastforce simp: insertRuntime_def onRows_eq ids_def)

lemma insertInitialRows_ids: "insertInitialRows identity created legacy d = Inr d' \<Longrightarrow> ids d' = ids d"
  by (auto simp: insertInitialRows_def bindR_eq_Inr ids_def[of "_ :: disk"] dest!: insertRuntime_ids insertMetadata_db split: if_splits)

section \<open>Opening\<close>

lemma schemaTransaction_spec:
  assumes "schemaTransaction identity kind d = Inr d'"
  shows "validatePersistentState identity (dk_db d')" "validateIdentity identity d' = Inr ()" "\<exists>k. inspectSchemaState d' = Inr (k, SchemaVersion)"
    "ids d' = [] \<or> ids d' = ids d"
proof -
  obtain v where v: "inspectSchemaState d = Inr (kind, v)" using assms by (auto simp: schemaTransaction_def bindR_eq_Inr split: if_splits)
  from assms obtain d1 k where d: "migrate kind d = Inr d1" "insertInitialRows identity (v = 0) (kind = schemaLegacy) d1 = Inr d'"
    "inspectSchemaState d' = Inr (k, SchemaVersion)" "validateIdentity identity d' = Inr ()" "validatePersistentState identity (dk_db d')"
    by (auto simp: schemaTransaction_def v bindR_eq_Inr split: if_splits)
  then show "validatePersistentState identity (dk_db d')" "validateIdentity identity d' = Inr ()" "\<exists>k. inspectSchemaState d' = Inr (k, SchemaVersion)"
    by auto
  show "ids d' = [] \<or> ids d' = ids d" using migrate_ids[OF d(1)] insertInitialRows_ids[OF d(2)] by auto
qed

lemma initialize_outcome:
  "(\<exists>e. initialize io identity d = (Inl e, d)) \<or> (\<exists>d' kind. initialize io identity d = (Inr (), d') \<and> schemaTransaction identity kind d = Inr d')"
proof (cases "inspectSchemaState d")
  case (Inr r)
  obtain kind v where r: "r = (kind, v)" by (cases r)
  show ?thesis using Inr unfolding r by (cases "schemaTransaction identity kind d") (auto simp: initialize_def)
qed (auto simp: initialize_def)

text \<open>A failed opening leaves the file as it was, unless only the protection of an already initialised file failed.\<close>

lemma Open_failed: "Open io identity d = (Inl e, d') \<Longrightarrow> oi_restrict io \<Longrightarrow> d' = d"
  using initialize_outcome[of io identity d] by (auto simp: Open_def split: if_splits)

lemma Open_failed_late: "Open io identity d = (Inl e, d') \<Longrightarrow> d' = d \<or> (\<exists>kind. schemaTransaction identity kind d = Inr d')"
  using initialize_outcome[of io identity d] by (auto simp: Open_def split: if_splits)

lemma Open_opened:
  assumes "Open io identity d = (Inr store, d')"
  shows "store = \<lparr>st_db = dk_db d', st_identity = identity, st_ephemeral = newEphemeralState\<rparr>" "\<exists>kind. schemaTransaction identity kind d = Inr d'"
  using assms initialize_outcome[of io identity d] by (auto simp: Open_def split: if_splits)

lemma validateIdentity_metadata: "validateIdentity identity d = Inr () \<Longrightarrow> dk_metadata d = Some (identityRow identity)"
  by (auto simp: validateIdentity_def scan_text_eq maxUUIDBytes_def identityRow_def split: option.splits if_splits)

lemma opened_ok:
  assumes "Open io identity d = (Inr store, d')" "keys_unique (dk_db d)"
  shows "store_ok (st_db store)" "st_db store = dk_db d'" "st_identity store = identity" "dk_metadata d' = Some (identityRow identity)"
    "validatePersistentState identity (st_db store)"
proof -
  note eq = Open_opened(1)[OF assms(1)]
  obtain kind where t: "schemaTransaction identity kind d = Inr d'" using Open_opened(2)[OF assms(1)] ..
  note spec = schemaTransaction_spec[OF t]
  have "keys_unique (dk_db d')" using spec(4) assms(2) by (auto simp: keys_unique_def ids_def)
  then show "store_ok (st_db store)" "st_db store = dk_db d'" "st_identity store = identity" "dk_metadata d' = Some (identityRow identity)"
    "validatePersistentState identity (st_db store)"
    using validated_store_ok[OF spec(1)] validateIdentity_metadata[OF spec(2)] spec(1) by (simp_all add: eq)
qed

section \<open>Opening an empty and a valid file\<close>

definition smooth :: "open_io \<Rightarrow> bool" where
  "smooth io \<longleftrightarrow> oi_path io \<and> oi_prepare io \<and> oi_ping io \<and> oi_wal io \<and> oi_begin io \<and> oi_commit io \<and> oi_restrict io"

definition emptyStore :: "db \<Rightarrow> db" where
  "emptyStore s = (emptyTables s)\<lparr>t_devices := [], t_runtime_state := zeroRuntime\<rparr>"

lemma emptyStore_valid: "validatePersistentState identity (emptyStore s)"
  by (simp add: validatePersistentState_def validatePersistentRuntime_def validatePersistentDevices_def validatePersistentTables_def
      emptyStore_def emptyTables_def zeroRuntime_def scan_opt_blob_def boundedOptionalBytes_def scan_empty_or_uuid_def sql_query_def
      validatePersistentEnvelope_def validatePersistentRevisionObjects_def validatePersistentRevisions_def emptyWalk_def
      validatePersistentCollectionGenerationSequence_def validatePersistentRevisionAcceptanceOrigins_def validatePersistentHistorySequence_def
      emptyHistory_def finishAuthor_def validatePersistentRecordHeads_def validatePersistentRecordVectorIndex_def validatePersistentCollectionQueues_def
      validatePersistentChanges_def validatePersistentMarkers_def validatePersistentReceipts_def validatePersistentReceiptRetention_def
      validatePersistentEnrollmentsAndRotations_def validatePersistentEnrollmentGrants_def validatePersistentSnapshots_def loadSnapshots_def
      validatePersistentChangeOrigins_def no_orphans_def durable_owners_def validatePageRows_def snapshotMetadataLimit_def
      validatePersistentObjectReferences_def)

lemma schemaTablesEqual_refl: "distinct (map fst tables) \<Longrightarrow> schemaTablesEqual tables tables"
  by (auto simp: schemaTablesEqual_def list_all_iff)

lemma fullSchema_distinct: "distinct (map fst fullSchemaTables)"
  by code_simp

lemma fullSchema_inspected:
  "dk_tables d = fullSchemaTables \<Longrightarrow> dk_auxiliary d = 0 \<Longrightarrow> dk_version d = SchemaVersion \<Longrightarrow> inspectSchemaState d = Inr (schemaFull, SchemaVersion)"
  by (simp add: inspectSchemaState_def readSchemaTables_def SchemaVersion_def schemaTablesEqual_refl fullSchema_distinct)

definition emptyFile :: "disk \<Rightarrow> bool" where
  "emptyFile d \<longleftrightarrow> dk_version d = 0 \<and> dk_tables d = [] \<and> dk_auxiliary d = 0"

definition createdFile :: "Identity \<Rightarrow> disk \<Rightarrow> disk" where
  "createdFile identity d = d\<lparr>dk_version := SchemaVersion, dk_tables := fullSchemaTables, dk_metadata := Some (identityRow identity), dk_db := emptyStore (dk_db d)\<rparr>"

lemma Open_empty:
  assumes "emptyFile d" "validateIdentityInput identity" "smooth io"
  shows "Open io identity d = (Inr \<lparr>st_db = emptyStore (dk_db d), st_identity = identity, st_ephemeral = newEphemeralState\<rparr>, createdFile identity d)"
proof -
  let ?d1 = "createSchemaV1 d" and ?d3 = "createdFile identity d"
  have start: "inspectSchemaState d = Inr (schemaEmpty, 0)" "migrate schemaEmpty d = Inr ?d1"
    using assms(1) by (simp_all add: inspectSchemaState_def readSchemaTables_def SchemaVersion_def migrate_def emptyFile_def)
  have uuid: "validateUUID (id_InstanceID identity)" "validateUUID (id_VaultID identity)" "id_InstanceID identity \<noteq> id_VaultID identity"
    using assms(2) by (auto simp: validateIdentityInput_def validateUUID_def)
  have check: "check_instance_metadata (identityRow identity)"
    using uuid by (simp add: check_instance_metadata_def identityRow_def text_col_def text_chars_uuid)
  have rows: "insertMetadata identity ?d1 = Inr (?d1\<lparr>dk_metadata := Some (identityRow identity)\<rparr>)" "insertRuntime (?d1\<lparr>dk_metadata := Some (identityRow identity)\<rparr>) = Inr ?d3"
    using check by (simp_all add: insertMetadata_def insertRuntime_def onRows_def createSchemaV1_def createdFile_def emptyStore_def emptyTables_def)
  have full: "inspectSchemaState ?d3 = Inr (schemaFull, SchemaVersion)"
    using assms(1) by (intro fullSchema_inspected) (simp_all add: createdFile_def emptyFile_def)
  have "validateIdentity identity ?d3 = Inr ()"
    using uuid validateUUID_length by (simp add: validateIdentity_def createdFile_def identityRow_def scan_text_CText maxUUIDBytes_def)
  then have "schemaTransaction identity schemaEmpty d = Inr ?d3"
    using start rows full emptyStore_valid by (simp add: schemaTransaction_def insertInitialRows_def createdFile_def SchemaVersion_def)
  then show ?thesis using start(1) assms(2,3) by (simp add: Open_def initialize_def createdFile_def smooth_def)
qed

lemma Open_full:
  assumes "inspectSchemaState d = Inr (schemaFull, SchemaVersion)" "dk_version d = SchemaVersion" "validateIdentity identity d = Inr ()"
    and "validatePersistentState identity (dk_db d)" "validateIdentityInput identity" "smooth io"
  shows "Open io identity d = (Inr \<lparr>st_db = dk_db d, st_identity = identity, st_ephemeral = newEphemeralState\<rparr>, d)"
proof -
  have "migrate schemaFull d = Inr d" using assms(2) by (simp add: migrate_def SchemaVersion_def)
  then have "schemaTransaction identity schemaFull d = Inr d"
    using assms(1,3,4) by (simp add: schemaTransaction_def insertInitialRows_def SchemaVersion_def)
  then show ?thesis using assms by (simp add: Open_def initialize_def smooth_def)
qed

lemma createdFile_full:
  assumes "emptyFile d" "validateIdentityInput identity"
  shows "inspectSchemaState (createdFile identity d) = Inr (schemaFull, SchemaVersion)" "validateIdentity identity (createdFile identity d) = Inr ()"
proof -
  show "inspectSchemaState (createdFile identity d) = Inr (schemaFull, SchemaVersion)"
    using assms(1) by (intro fullSchema_inspected) (simp_all add: createdFile_def emptyFile_def)
  have "validateUUID (id_InstanceID identity)" "validateUUID (id_VaultID identity)"
    using assms(2) by (auto simp: validateIdentityInput_def validateUUID_def)
  then show "validateIdentity identity (createdFile identity d) = Inr ()"
    using validateUUID_length by (simp add: validateIdentity_def createdFile_def identityRow_def scan_text_CText maxUUIDBytes_def)
qed

lemma Open_empty_again:
  assumes "emptyFile d" "validateIdentityInput identity" "smooth io"
  shows "\<exists>store d'. Open io identity d = (Inr store, d') \<and> t_devices (st_db store) = [] \<and> dk_metadata d' = Some (identityRow identity)
    \<and> Open io identity d' = (Inr store, d')"
  using Open_empty[OF assms] Open_full[of "createdFile identity d" identity io] createdFile_full[OF assms(1,2)] assms(2,3) emptyStore_valid[of identity "dk_db d"]
  by (intro exI[of _ "\<lparr>st_db = emptyStore (dk_db d), st_identity = identity, st_ephemeral = newEphemeralState\<rparr>"] exI[of _ "createdFile identity d"])
    (simp add: createdFile_def emptyStore_def SchemaVersion_def)

section \<open>Validation predicts the opening\<close>

definition existing_smooth :: "existing_io \<Rightarrow> bool" where
  "existing_smooth io \<longleftrightarrow> xi_path io \<and> xi_protected io \<and> sidecars_ok io \<and> xi_captured io \<and> xi_opened io \<and> xi_integrity io = ''ok''
     \<and> xi_committed io \<and> xi_backup io \<and> smooth (xi_copy io) \<and> xi_attested io \<and> xi_sidecars io \<and> xi_released io"

lemma initialize_kind:
  "initialize io identity d = (Inr (), d') \<Longrightarrow> \<exists>kind v. inspectSchemaState d = Inr (kind, v) \<and> schemaTransaction identity kind d = Inr d'"
  by (auto simp: initialize_def split: if_splits sum.splits prod.splits)

lemma Open_succeeds_iff:
  "smooth io \<Longrightarrow> (\<exists>store d'. Open io identity d = (Inr store, d')) \<longleftrightarrow>
     validateIdentityInput identity \<and> (\<exists>kind v d'. inspectSchemaState d = Inr (kind, v) \<and> schemaTransaction identity kind d = Inr d')"
  using initialize_kind[of io identity d] by (auto simp: Open_def smooth_def initialize_def split: if_splits sum.splits prod.splits)

lemma inspectSchemaState_version:
  "inspectSchemaState d = Inr (kind, v) \<Longrightarrow> v = dk_version d \<and> (kind = schemaEmpty \<longleftrightarrow> emptyFile d) \<and> (kind \<noteq> schemaEmpty \<longrightarrow> v = SchemaVersion)"
  by (auto simp: inspectSchemaState_def bindR_eq_Inr readSchemaTables_def emptyFile_def SchemaVersion_def split: if_splits)

lemma Open_full_iff:
  assumes "inspectSchemaState d = Inr (schemaFull, v)" "smooth io" "validateIdentityInput identity"
  shows "(\<exists>store d'. Open io identity d = (Inr store, d')) \<longleftrightarrow> validateIdentity identity d = Inr () \<and> validatePersistentState identity (dk_db d)"
proof -
  have v: "v = SchemaVersion" "dk_version d = SchemaVersion" using inspectSchemaState_version[OF assms(1)] by auto
  have "migrate schemaFull d = Inr d" using v(2) by (simp add: migrate_def SchemaVersion_def)
  then have "schemaTransaction identity schemaFull d = Inr d' \<longleftrightarrow> d' = d \<and> validateIdentity identity d = Inr () \<and> validatePersistentState identity (dk_db d)" for d'
    using assms(1) v by (auto simp: schemaTransaction_def insertInitialRows_def SchemaVersion_def bindR_eq_Inr)
  then show ?thesis unfolding Open_succeeds_iff[OF assms(2)] using assms(1,3) by auto
qed

theorem validateExisting_iff_Open:
  assumes "existing_smooth xio" "smooth io"
  shows "validateExisting xio identity d = Inr () \<longleftrightarrow> (\<exists>store d'. Open io identity d = (Inr store, d'))"
proof (cases "validateIdentityInput identity")
  case False
  then show ?thesis by (simp add: validateExisting_def Open_def)
next
  case identity: True
  have x: "validateExisting xio identity d = Inr () \<longleftrightarrow>
      (\<exists>migratable. inspectExisting identity d = Inr migratable \<and> (migratable \<longrightarrow> (\<exists>store d'. Open (xi_copy xio) identity d = (Inr store, d'))))"
  proof -
    have "validateExisting xio identity d = bindR (inspectExisting identity d) (\<lambda>migratable.
        bindR (if migratable then validateMigratableCopy xio identity d else Inr ()) (\<lambda>_. Inr ()))"
      using assms(1) identity by (simp add: validateExisting_def existing_smooth_def)
    moreover have "validateMigratableCopy xio identity d = Inr () \<longleftrightarrow> (\<exists>store d'. Open (xi_copy xio) identity d = (Inr store, d'))"
      using assms(1) by (cases "Open (xi_copy xio) identity d"; cases "fst (Open (xi_copy xio) identity d)")
        (simp_all add: validateMigratableCopy_def existing_smooth_def)
    ultimately show ?thesis by (cases "inspectExisting identity d") (simp_all add: bindR_eq_Inr)
  qed
  have same: "(\<exists>store d'. Open (xi_copy xio) identity d = (Inr store, d')) \<longleftrightarrow> (\<exists>store d'. Open io identity d = (Inr store, d'))"
    using assms Open_succeeds_iff by (simp add: existing_smooth_def)
  show ?thesis
  proof (cases "inspectSchemaState d")
    case (Inl e)
    then show ?thesis unfolding x Open_succeeds_iff[OF assms(2)] by (simp add: inspectExisting_def)
  next
    case (Inr r)
    obtain kind v where r: "inspectSchemaState d = Inr (kind, v)" using Inr by (cases r) auto
    note at = inspectSchemaState_version[OF r]
    show ?thesis
    proof (cases kind)
      case schemaEmpty
      have "\<exists>store d'. Open io identity d = (Inr store, d')"
        using Open_empty[of d identity io] at identity assms(2) schemaEmpty by blast
      moreover have "inspectExisting identity d = Inr False" using r at schemaEmpty by (simp add: inspectExisting_def emptyFile_def)
      ultimately show ?thesis unfolding x by blast
    next
      case schemaFull
      then show ?thesis unfolding x using Open_full_iff[of d v io identity] r at assms(2) identity
        by (auto simp: inspectExisting_def bindR_eq_Inr split: if_splits)
    qed (use r at x same in \<open>auto simp: inspectExisting_def\<close>)
  qed
qed

section \<open>Baseline devices\<close>

lemma wantScopes_decoded: "json_Unmarshal (TSlice TString) wantScopes = Some (GSlice (Some (map GString FixedScopes)))"
proof -
  have "text_ok (GSlice (Some (map GString FixedScopes)))" by code_simp
  then show ?thesis unfolding wantScopes_def
    by (simp only: json_Unmarshal_def parse_json_marshal option.case) (intro unmarshal_json_of, auto simp: list_all_iff)
qed

lemma createDeviceTx_devices:
  assumes "createDeviceTx i h t s = Some u"
  shows "\<exists>d. t_devices u = t_devices s @ [d] \<and> d_device_id d = CText i \<and> d_token_hash d = CBlob h \<and> d_scopes_json d = CText wantScopes"
    "\<forall>d\<in>set (t_devices s). d_device_id d \<noteq> CText i" "rt_server_cursor (t_runtime_state s) = uint64_cell 0"
    "rt_active_boot_id (t_runtime_state s) = CNull" "t_snapshots s = []"
  using assms
  by (auto simp: createDeviceTx_def insert_devices_def insert_device_origins_def insert_device_sync_state_def sql_insert_eq_Some clash_devices_def same_def
      scan_uint64_eq scan_opt_blob_eq split: option.splits if_splits)

lemma created_verifies:
  assumes "CreateDevice io i token scopes t store = (True, store')"
  shows "VerifyDeviceToken i token' store' = map_option (\<lambda>h. DeviceTokenHash (id_InstanceID (st_identity store)) (id_VaultID (st_identity store)) i token = Some h)
     (DeviceTokenHash (id_InstanceID (st_identity store)) (id_VaultID (st_identity store)) i token')"
proof -
  from assms obtain h u where h: "Parse i \<noteq> None" "DeviceTokenHash (id_InstanceID (st_identity store)) (id_VaultID (st_identity store)) i token = Some h"
    "createDeviceTx i h t (st_db store) = Some u" "store' = store\<lparr>st_db := u\<rparr>"
    by (auto simp: CreateDevice_def split: if_splits option.splits)
  obtain d where d: "t_devices u = t_devices (st_db store) @ [d]" "d_device_id d = CText i" "d_token_hash d = CBlob h" "d_scopes_json d = CText wantScopes"
    using createDeviceTx_devices(1)[OF h(3)] by blast
  have "find (\<lambda>d. same (d_device_id d) (CText i)) (t_devices (st_db store)) = None"
    using createDeviceTx_devices(2)[OF h(3)] by (auto simp: find_None_iff same_def)
  then have "find (\<lambda>d. same (d_device_id d) (CText i)) (t_devices u) = Some d" by (simp add: d(1,2) find_snoc same_def)
  moreover have "0 < length wantScopes" "ValidateScopes FixedScopes" by code_simp+
  ultimately have "DeviceCredential i u = Some (h, FixedScopes)"
    using h(1) DeviceTokenHash_length[OF h(2)]
    by (simp add: DeviceCredential_def d(3,4) scan_blob_CBlob scan_text_CText wantScopes_decoded comp_def)
  then show ?thesis using h(2,4) by (auto simp: VerifyDeviceToken_def VerifyHash_def split: option.splits)
qed

end
