(* ===== verification/Http.thy ===== *)
theory Http
  imports Opening
begin

text \<open>
  The HTTP transport, \<^verbatim>\<open>httpapi/handler.go\<close>: a request that net/http has parsed is checked for its framing,
  its protocol version and its request identifier before the data plane sees it, and every answer is
  written with deterministic headers. \<open>ServeHTTP\<close> is parameterised by the two interfaces the handler
  holds, \<^verbatim>\<open>Readiness\<close> and \<^verbatim>\<open>api.DataPlane\<close>. The body of a request is never nil on a server; reading
  it gives its bytes and may end in an error. The handler's settings are the two identifiers.
\<close>

section \<open>Headers and requests\<close>

type_synonym http_header = "(bytes \<times> bytes list) list"

fun canonicalKey :: "bool \<Rightarrow> bytes \<Rightarrow> bytes" where
  "canonicalKey upper [] = []"
| "canonicalKey upper (c # rest) =
     (if upper \<and> byte_in 97 122 c then char_of (of_char c - 32 :: nat)
      else if \<not> upper \<and> byte_in 65 90 c then char_of (of_char c + 32 :: nat) else c) # canonicalKey (c = CHR ''-'') rest"

definition CanonicalHeaderKey :: "bytes \<Rightarrow> bytes" where
  "CanonicalHeaderKey key = canonicalKey True key"

definition Values :: "http_header \<Rightarrow> bytes \<Rightarrow> bytes list" where
  "Values header key = (case map_of header (CanonicalHeaderKey key) of None \<Rightarrow> [] | Some vs \<Rightarrow> vs)"

definition Get :: "http_header \<Rightarrow> bytes \<Rightarrow> bytes" where
  "Get header key = (case Values header key of [] \<Rightarrow> [] | v # _ \<Rightarrow> v)"

record http_body =
  bd_content :: bytes
  bd_fails :: bool

record http_request =
  hq_Method :: bytes
  hq_ProtoMajor :: int
  hq_ProtoMinor :: int
  hq_RequestURI :: bytes
  hq_IsAbs :: bool
  hq_Path :: bytes
  hq_RawPath :: bytes
  hq_RawQuery :: bytes
  hq_ForceQuery :: bool
  hq_Fragment :: bytes
  hq_Header :: http_header
  hq_TransferEncoding :: "bytes list"
  hq_Trailer :: http_header
  hq_ContentLength :: int
  hq_Body :: http_body

definition MaxBodyBytes :: nat where
  "MaxBodyBytes = 4 * 1024 * 1024"

section \<open>Transport checks\<close>

text \<open>\<^verbatim>\<open>strings.TrimSpace\<close>: the UTF-8 encodings of the white-space runes.\<close>

definition spaceRunes :: "bytes list" where
  "spaceRunes =
     map (\<lambda>n. [char_of (n :: nat)]) [9, 10, 11, 12, 13, 32]
     @ [[CHR 0xC2, CHR 0x85], [CHR 0xC2, CHR 0xA0], [CHR 0xE1, CHR 0x9A, CHR 0x80]]
     @ map (\<lambda>n. [CHR 0xE2, CHR 0x80, char_of (n :: nat)]) ([128..<139] @ [168, 169, 175])
     @ [[CHR 0xE2, CHR 0x81, CHR 0x9F], [CHR 0xE3, CHR 0x80, CHR 0x80]]"

fun trimLeft :: "nat \<Rightarrow> bytes \<Rightarrow> bytes" where
  "trimLeft 0 s = s"
| "trimLeft (Suc n) s = (case find (\<lambda>p. prefix p s) spaceRunes of None \<Rightarrow> s | Some p \<Rightarrow> trimLeft n (drop (length p) s))"

fun trimRight :: "nat \<Rightarrow> bytes \<Rightarrow> bytes" where
  "trimRight 0 s = s"
| "trimRight (Suc n) s = (case find (\<lambda>p. suffix p s) spaceRunes of None \<Rightarrow> s | Some p \<Rightarrow> trimRight n (take (length s - length p) s))"

definition TrimSpace :: "bytes \<Rightarrow> bytes" where
  "TrimSpace s = trimRight (length s) (trimLeft (length s) s)"

fun splitOn :: "char \<Rightarrow> bytes \<Rightarrow> bytes list" where
  "splitOn sep [] = [[]]"
| "splitOn sep (c # rest) =
     (if c = sep then [] # splitOn sep rest else (case splitOn sep rest of [] \<Rightarrow> [[c]] | item # items \<Rightarrow> (c # item) # items))"

definition headerContainsToken :: "bytes list \<Rightarrow> bytes \<Rightarrow> bool" where
  "headerContainsToken values token \<longleftrightarrow>
     list_ex (\<lambda>value. list_ex (\<lambda>item. map ascii_lower (TrimSpace item) = map ascii_lower token) (splitOn (CHR '','') value)) values"

definition validateTransport :: "http_request \<Rightarrow> bool" where
  "validateTransport request \<longleftrightarrow>
     hq_ProtoMajor request = 1 \<and> hq_ProtoMinor request = 1
     \<and> \<not> hq_IsAbs request \<and> \<not> prefix ''http://'' (hq_RequestURI request) \<and> \<not> prefix ''https://'' (hq_RequestURI request)
     \<and> hq_RawQuery request = [] \<and> \<not> hq_ForceQuery request \<and> hq_Fragment request = [] \<and> hq_RawPath request = []
     \<and> hq_Method request \<noteq> ''CONNECT''
     \<and> map_of (hq_Header request) (CanonicalHeaderKey ''Origin'') = None
     \<and> Get (hq_Header request) ''Upgrade'' = [] \<and> \<not> headerContainsToken (Values (hq_Header request) ''Connection'') ''upgrade''
     \<and> Get (hq_Header request) ''Proxy-Connection'' = []
     \<and> hq_TransferEncoding request = [] \<and> hq_Trailer request = [] \<and> Get (hq_Header request) ''Expect'' = [] \<and> Get (hq_Header request) ''TE'' = []
     \<and> 0 \<le> hq_ContentLength request"

definition requireEmptyBody :: "http_request \<Rightarrow> bool" where
  "requireEmptyBody request \<longleftrightarrow>
     hq_ContentLength request = 0 \<and> bd_content (hq_Body request) = [] \<and> \<not> bd_fails (hq_Body request)"

text \<open>\<^verbatim>\<open>io.ReadAll(http.MaxBytesReader(...))\<close>.\<close>

datatype read_error = MaxBytesError | ReadError

definition readAll :: "http_body \<Rightarrow> read_error + bytes" where
  "readAll body =
     (if MaxBodyBytes < length (bd_content body) then Inl MaxBytesError
      else if bd_fails body then Inl ReadError else Inr (bd_content body))"

definition readJSONBody :: "http_request \<Rightarrow> bytes api_result" where
  "readJSONBody request =
     (if hq_Method request \<noteq> ''POST'' \<and> hq_Method request \<noteq> ''PUT'' then Inl invalid_request
      else if Values (hq_Header request) ''Content-Type'' \<noteq> [''application/json; charset=utf-8''] then Inl invalid_request
      else if hq_ContentLength request \<le> 0 then Inl invalid_request
      else case readAll (hq_Body request) of
        Inl MaxBytesError \<Rightarrow> Inl (NewError ''limit_exceeded'' False)
      | Inl ReadError \<Rightarrow> Inl invalid_request
      | Inr body \<Rightarrow> if body = [] then Inl invalid_request else Inr body)"

definition RequestIDOrFallback :: "bytes option \<Rightarrow> bytes list \<Rightarrow> bytes" where
  "RequestIDOrFallback random values =
     (let generated = (case random of Some r \<Rightarrow> New r | None \<Rightarrow> ''00000000-0000-4000-8000-000000000000'')
      in case values of [v] \<Rightarrow> if Parse v \<noteq> None then v else generated | _ \<Rightarrow> generated)"

section \<open>Responses\<close>

text \<open>Either the handler writes through net/http, or it takes over the connection and writes the retained bytes.\<close>

datatype http_response = Regular nat "api_header list" bytes | Retained bytes

definition StatusText :: "nat \<Rightarrow> bytes" where
  "StatusText status =
     (case map_of [(200, ''OK''), (201, ''Created''), (400, ''Bad Request''), (401, ''Unauthorized''), (403, ''Forbidden''), (404, ''Not Found''),
        (409, ''Conflict''), (410, ''Gone''), (413, ''Request Entity Too Large''), (426, ''Upgrade Required''), (429, ''Too Many Requests''),
        (500, ''Internal Server Error''), (507, ''Insufficient Storage'')] status of None \<Rightarrow> [] | Some t \<Rightarrow> t)"

definition CRLF :: bytes where
  "CRLF = [CHR 0x0D, CHR 0x0A]"

definition retainedBytes :: "nat \<Rightarrow> bytes \<Rightarrow> api_header list \<Rightarrow> bytes" where
  "retainedBytes status body headers =
     ''HTTP/1.1 '' @ FormatUint status @ '' '' @ StatusText status @ CRLF
     @ concat (map (\<lambda>(name, v). name @ '': '' @ v @ CRLF) headers) @ CRLF @ body"

definition writeJSONBytes :: "bool \<Rightarrow> nat \<Rightarrow> bytes \<Rightarrow> bytes \<Rightarrow> api_header list option \<Rightarrow> http_response" where
  "writeJSONBytes hijack status requestID body retainedHeaders =
     (if retainedHeaders = Some (V1ResponseHeaders requestID (length body)) \<and> hijack
      then Retained (retainedBytes status body (V1ResponseHeaders requestID (length body)))
      else Regular status
        ([(''Cache-Control'', ''no-store''), (''X-Content-Type-Options'', ''nosniff'')]
         @ map (\<lambda>(name, v). (CanonicalHeaderKey name, v)) (V1ResponseHeaders requestID (length body))) body)"

definition writeJSON :: "bool \<Rightarrow> nat \<Rightarrow> bytes \<Rightarrow> gval \<Rightarrow> http_response" where
  "writeJSON hijack status requestID value = writeJSONBytes hijack status requestID (marshal value) None"

definition errorEnvelope :: "bytes \<Rightarrow> bool \<Rightarrow> bytes \<Rightarrow> gval" where
  "errorEnvelope code retryable requestID =
     GStruct [(''error'', GStruct [
       (''code'', GString code),
       (''message'', GString (Message (NewError code retryable))),
       (''retryable'', GBool retryable),
       (''request_id'', GString requestID)])]"

definition writeError :: "bool \<Rightarrow> nat \<Rightarrow> bytes \<Rightarrow> bool \<Rightarrow> bytes \<Rightarrow> http_response" where
  "writeError hijack status code retryable requestID = writeJSON hijack status requestID (errorEnvelope code retryable requestID)"

definition WriteLimitExceeded :: "bool \<Rightarrow> bytes \<Rightarrow> http_response" where
  "WriteLimitExceeded hijack requestID = writeError hijack 413 ''limit_exceeded'' False requestID"

definition healthBody :: gval where
  "healthBody = GStruct [(''status'', GString ''ok''), (''protocol_version'', GString ProtocolMajor)]"

definition limitsBody :: gval where
  "limitsBody = GStruct [
     (''max_body_bytes'', GInt (int MaxBodyBytes)),
     (''max_mutations'', GInt 256),
     (''max_page_changes'', GInt 128),
     (''max_snapshot_page_revisions'', GInt 128),
     (''max_snapshot_page_collection_markers'', GInt 128),
     (''max_snapshot_page_source_devices'', GInt 64),
     (''max_active_snapshots_per_device'', GInt 1),
     (''max_active_snapshots_per_instance'', GInt 8),
     (''max_snapshot_creates_per_minute_per_device'', GInt 5),
     (''max_active_snapshot_metadata_bytes_per_instance'', GInt (64 * 1024 * 1024)),
     (''max_devices'', GInt 64)]"

definition capabilityNames :: "bytes list" where
  "capabilityNames = [
     ''authenticated-collection-frontiers-v2'', ''conflict-siblings-v1'', ''device-token-rotation-v1'', ''envelope-cas-v1'',
     ''snapshot-collection-markers-v1'', ''snapshot-device-registry-v1'', ''snapshot-read-v1'', ''tombstone-ack-v1'']"

definition capabilitiesBody :: "Identity \<Rightarrow> bool \<Rightarrow> gval" where
  "capabilitiesBody settings hasDataPlane = GStruct [
     (''instance_id'', GString (id_InstanceID settings)),
     (''vault_id'', GString (id_VaultID settings)),
     (''protocol_min'', GString ProtocolMajor),
     (''protocol_max'', GString ProtocolMajor),
     (''storage_schema'', GString ''1''),
     (''crypto_suites'', GSlice (Some [GString ''jat-xchacha-hkdf-argon2id-draft2''])),
     (''capabilities'', GSlice (Some (if hasDataPlane then map GString capabilityNames else []))),
     (''limits'', limitsBody)]"

section \<open>Serving a request\<close>

record http_io =
  hi_random :: "bytes option"
  hi_hijack :: bool
  hi_now :: time

type_synonym 's data_plane = "api_request \<Rightarrow> 's \<Rightarrow> api_response api_result \<times> 's"

definition serveDataPlane :: "http_io \<Rightarrow> 's data_plane \<Rightarrow> bytes \<Rightarrow> http_request \<Rightarrow> 's \<Rightarrow> http_response \<times> 's" where
  "serveDataPlane io plane requestID request s =
     (let fail = (\<lambda>e. (writeError (hi_hijack io) (Status e) (Code e) (Retryable e) requestID, s)) in
      case (if hq_Method request = ''GET'' then (if requireEmptyBody request then Inr [] else Inl invalid_request) else readJSONBody request) of
        Inl e \<Rightarrow> fail e
      | Inr body \<Rightarrow>
         (case Values (hq_Header request) ''Authorization'' of
            [authorization] \<Rightarrow>
              (case plane \<lparr>rq_Method = hq_Method request, rq_Path = hq_Path request, rq_RequestID = requestID,
                          rq_Authorization = authorization, rq_Body = body, rq_Now = hi_now io\<rparr> s of
                 (Inl e, s') \<Rightarrow> (writeError (hi_hijack io) (Status e) (Code e) (Retryable e) requestID, s')
               | (Inr result, s') \<Rightarrow>
                   (writeJSONBytes (hi_hijack io) (rs_Status result) requestID (rs_Body result) (Some (rs_Headers result)), s'))
          | _ \<Rightarrow> fail unauthorized))"

definition ServeHTTP ::
  "http_io \<Rightarrow> Identity \<Rightarrow> ('s \<Rightarrow> bool) \<Rightarrow> 's data_plane option \<Rightarrow> http_request \<Rightarrow> 's \<Rightarrow> http_response \<times> 's" where
  "ServeHTTP io settings ready plane request s =
     (let fallback = RequestIDOrFallback (hi_random io) (Values (hq_Header request) ''JAT-Request-ID'');
          refuse = (\<lambda>status code retryable i. (writeError (hi_hijack io) status code retryable i, s))
      in if \<not> validateTransport request then refuse 400 ''invalid_request'' False fallback
         else case Values (hq_Header request) ''JAT-Protocol-Version'' of
           [version] \<Rightarrow>
             if version = [] then refuse 400 ''invalid_request'' False fallback
             else if version \<noteq> ProtocolMajor then refuse 426 ''unsupported_protocol'' False fallback
             else (case Values (hq_Header request) ''JAT-Request-ID'' of
                [requestID] \<Rightarrow>
                  if Parse requestID = None then refuse 400 ''invalid_request'' False fallback
                  else if hq_Path request = ''/v1/healthz'' then
                    (if hq_Method request \<noteq> ''GET'' \<or> \<not> requireEmptyBody request then refuse 400 ''invalid_request'' False requestID
                     else if \<not> ready s then refuse 500 ''internal_error'' True requestID
                     else (writeJSON (hi_hijack io) 200 requestID healthBody, s))
                  else if hq_Path request = ''/v1/capabilities'' then
                    (if hq_Method request \<noteq> ''GET'' \<or> \<not> requireEmptyBody request then refuse 400 ''invalid_request'' False requestID
                     else (writeJSON (hi_hijack io) 200 requestID (capabilitiesBody settings (plane \<noteq> None)), s))
                  else (case plane of
                     None \<Rightarrow> refuse 400 ''invalid_request'' False requestID
                   | Some p \<Rightarrow> serveDataPlane io p requestID request s)
              | _ \<Rightarrow> refuse 400 ''invalid_request'' False fallback)
         | _ \<Rightarrow> refuse 400 ''invalid_request'' False fallback)"

end
