(* ===== verification/HttpLaws.thy ===== *)
theory HttpLaws
  imports Http AtomicLaws
begin

text \<open>
  The transport in front of the data plane: what a request must satisfy to reach it, and what its answer
  carries. The handler knows the data plane only through an interface; \<open>data_plane_contract\<close> states the contract
  it relies on, that a refused call leaves what the store keeps as it was, and the store's \<open>HandleAPI\<close>
  is shown to honour it.
\<close>

section \<open>Admission\<close>

text \<open>The call a request makes: the method, the path, one identifier, one credential and the body.\<close>

definition request_body :: "http_request \<Rightarrow> bytes \<Rightarrow> bool" where
  "request_body request body \<longleftrightarrow>
     (if hq_Method request = ''GET'' then requireEmptyBody request \<and> body = []
      else hq_Method request \<in> {''POST'', ''PUT''} \<and> Values (hq_Header request) ''Content-Type'' = [''application/json; charset=utf-8'']
        \<and> 0 < hq_ContentLength request \<and> body = bd_content (hq_Body request) \<and> \<not> bd_fails (hq_Body request)
        \<and> 0 < length body \<and> length body \<le> MaxBodyBytes)"

definition admits :: "http_request \<Rightarrow> api_request \<Rightarrow> bool" where
  "admits request call \<longleftrightarrow> validateTransport request
     \<and> Values (hq_Header request) ''JAT-Protocol-Version'' = [ProtocolMajor]
     \<and> Values (hq_Header request) ''JAT-Request-ID'' = [rq_RequestID call] \<and> Parse (rq_RequestID call) \<noteq> None
     \<and> Values (hq_Header request) ''Authorization'' = [rq_Authorization call]
     \<and> hq_Path request \<notin> {''/v1/healthz'', ''/v1/capabilities''}
     \<and> rq_Method call = hq_Method request \<and> rq_Path call = hq_Path request \<and> request_body request (rq_Body call)"

definition answer :: "bool \<Rightarrow> bytes \<Rightarrow> api_response api_result \<Rightarrow> http_response" where
  "answer hijack requestID r = (case r of
     Inl e \<Rightarrow> writeError hijack (Status e) (Code e) (Retryable e) requestID
   | Inr result \<Rightarrow> writeJSONBytes hijack (rs_Status result) requestID (rs_Body result) (Some (rs_Headers result)))"

lemma readJSONBody_eq: "hq_Method request \<noteq> ''GET'' \<Longrightarrow> readJSONBody request = Inr body \<longleftrightarrow> request_body request body"
  by (auto simp: readJSONBody_def request_body_def readAll_def split: sum.splits read_error.splits)

lemma serveDataPlane_call:
  assumes "request_body request body" "Values (hq_Header request) ''Authorization'' = [authorization]"
  shows "serveDataPlane io plane requestID request s =
    (let r = plane \<lparr>rq_Method = hq_Method request, rq_Path = hq_Path request, rq_RequestID = requestID,
                    rq_Authorization = authorization, rq_Body = body, rq_Now = hi_now io\<rparr> s
     in (answer (hi_hijack io) requestID (fst r), snd r))"
proof -
  have "(if hq_Method request = ''GET'' then (if requireEmptyBody request then Inr [] else Inl invalid_request) else readJSONBody request) = Inr body"
    using assms(1) readJSONBody_eq[of request body] by (auto simp: request_body_def split: if_splits)
  then show ?thesis using assms(2) unfolding serveDataPlane_def answer_def Let_def by (simp split: prod.split sum.split)
qed

lemma serveDataPlane_refused:
  assumes "\<And>body authorization. \<not> (request_body request body \<and> Values (hq_Header request) ''Authorization'' = [authorization])"
  shows "\<exists>e. serveDataPlane io plane requestID request s =
    (writeError (hi_hijack io) (Status e) (Code e) (Retryable e) requestID, s)"
proof (cases "if hq_Method request = ''GET'' then (if requireEmptyBody request then Inr [] else Inl invalid_request) else readJSONBody request")
  case (Inl e)
  then show ?thesis unfolding serveDataPlane_def Let_def by auto
next
  case (Inr body)
  have "request_body request body"
    using Inr readJSONBody_eq[of request body] by (auto simp: request_body_def split: if_splits)
  then have "\<And>a. Values (hq_Header request) ''Authorization'' \<noteq> [a]" using assms by blast
  then have "serveDataPlane io plane requestID request s =
      (writeError (hi_hijack io) (Status unauthorized) (Code unauthorized) (Retryable unauthorized) requestID, s)"
    using Inr unfolding serveDataPlane_def Let_def by (cases "Values (hq_Header request) ''Authorization''" rule: remdups_adj.cases) auto
  then show ?thesis ..
qed

text \<open>The three stages of the handler: the transport, the two public endpoints, and the data plane.\<close>

lemma ServeHTTP_stages:
  obtains (closed) status code retryable where "ServeHTTP io settings ready plane request s =
      (writeError (hi_hijack io) status code retryable
         (RequestIDOrFallback (hi_random io) (Values (hq_Header request) ''JAT-Request-ID'')), s)"
    | (public) i v where "Values (hq_Header request) ''JAT-Request-ID'' = [i]" "Parse i \<noteq> None"
      "ServeHTTP io settings ready plane request s = (writeJSON (hi_hijack io) 200 i v, s)"
    | (plane) i p where "Values (hq_Header request) ''JAT-Request-ID'' = [i]" "Parse i \<noteq> None" "plane = Some p"
      "validateTransport request" "Values (hq_Header request) ''JAT-Protocol-Version'' = [ProtocolMajor]"
      "hq_Path request \<notin> {''/v1/healthz'', ''/v1/capabilities''}"
      "ServeHTTP io settings ready plane request s = serveDataPlane io p i request s"
proof (cases "validateTransport request \<and> Values (hq_Header request) ''JAT-Protocol-Version'' = [ProtocolMajor]
    \<and> (\<exists>i. Values (hq_Header request) ''JAT-Request-ID'' = [i] \<and> Parse i \<noteq> None)")
  case False
  have "\<exists>status code retryable. ServeHTTP io settings ready plane request s =
      (writeError (hi_hijack io) status code retryable
         (RequestIDOrFallback (hi_random io) (Values (hq_Header request) ''JAT-Request-ID'')), s)"
  proof (cases "validateTransport request")
    case valid: True
    show ?thesis
      using valid False
      by (cases "Values (hq_Header request) ''JAT-Protocol-Version''" rule: remdups_adj.cases;
          cases "Values (hq_Header request) ''JAT-Request-ID''" rule: remdups_adj.cases)
        (auto simp: ServeHTTP_def Let_def)
  qed (auto simp: ServeHTTP_def Let_def)
  then show thesis using closed by blast
next
  case True
  then obtain i where i: "Values (hq_Header request) ''JAT-Request-ID'' = [i]" "Parse i \<noteq> None" by blast
  have f: "RequestIDOrFallback (hi_random io) (Values (hq_Header request) ''JAT-Request-ID'') = i"
    using i by (simp add: RequestIDOrFallback_def)
  have front: "validateTransport request" "Values (hq_Header request) ''JAT-Protocol-Version'' = [ProtocolMajor]" using True by auto
  note at = ServeHTTP_def[of io settings ready plane request s, unfolded Let_def front(2) i(1) list.case]
  have [simp]: "ProtocolMajor \<noteq> []" by (simp add: ProtocolMajor_def)
  show thesis
  proof (cases "hq_Path request \<in> {''/v1/healthz'', ''/v1/capabilities''}")
    case public': True
    show thesis
    proof (cases "hq_Method request \<noteq> ''GET'' \<or> \<not> requireEmptyBody request")
      case True
      show thesis by (rule closed) (use public' True i front f in \<open>auto simp: at\<close>)
    next
      case ok: False
      show thesis
      proof (cases "hq_Path request = ''/v1/healthz'' \<and> \<not> ready s")
        case True
        show thesis by (rule closed[of 500 "''internal_error''" True]) (use ok True i front f in \<open>auto simp: at\<close>)
      next
        case False
        show thesis
          by (rule public[OF i, of "if hq_Path request = ''/v1/healthz'' then healthBody else capabilitiesBody settings (plane \<noteq> None)"])
            (use ok False public' i front f in \<open>auto simp: at\<close>)
      qed
    qed
  next
    case False
    show thesis
    proof (cases plane)
      case None
      show thesis by (rule closed[of 400 "''invalid_request''" False]) (unfold at, use False None i front f in auto)
    next
      case (Some p)
      show thesis by (rule plane[OF i Some front False]) (unfold at, use False Some i front in auto)
    qed
  qed
qed

theorem ServeHTTP_admitted:
  assumes "admits request call" "rq_Now call = hi_now io"
  shows "ServeHTTP io settings ready (Some plane) request s =
    (answer (hi_hijack io) (rq_RequestID call) (fst (plane call s)), snd (plane call s))"
proof -
  have call: "call = \<lparr>rq_Method = hq_Method request, rq_Path = hq_Path request, rq_RequestID = rq_RequestID call,
      rq_Authorization = rq_Authorization call, rq_Body = rq_Body call, rq_Now = hi_now io\<rparr>"
    using assms by (simp add: admits_def)
  show ?thesis
    using assms serveDataPlane_call[of request "rq_Body call" "rq_Authorization call" io plane "rq_RequestID call" s] call
    by (clarsimp simp: ServeHTTP_def admits_def Let_def ProtocolMajor_def)
qed

theorem ServeHTTP_refused:
  assumes "\<And>call. \<not> admits request call"
  shows "snd (ServeHTTP io settings ready plane request s) = s"
proof (rule ServeHTTP_stages[of io settings ready plane request s])
  fix i p
  assume i: "Values (hq_Header request) ''JAT-Request-ID'' = [i]" "Parse i \<noteq> None"
    and front: "validateTransport request" "Values (hq_Header request) ''JAT-Protocol-Version'' = [ProtocolMajor]"
      "hq_Path request \<notin> {''/v1/healthz'', ''/v1/capabilities''}"
    and served: "ServeHTTP io settings ready plane request s = serveDataPlane io p i request s"
  have "\<not> (request_body request body \<and> Values (hq_Header request) ''Authorization'' = [a])" for body a
    using assms[of "\<lparr>rq_Method = hq_Method request, rq_Path = hq_Path request, rq_RequestID = i,
      rq_Authorization = a, rq_Body = body, rq_Now = 0\<rparr>"] front i by (auto simp: admits_def)
  then show ?thesis using serveDataPlane_refused[of request io p i s] served by auto
qed simp_all

section \<open>The identifier in the answer\<close>

definition carries :: "bytes \<Rightarrow> http_response \<Rightarrow> bool" where
  "carries requestID response = (case response of
     Regular status headers body \<Rightarrow>
       (''Jat-Request-Id'', requestID) \<in> set headers \<and> (''Content-Length'', FormatUint (length body)) \<in> set headers
   | Retained octets \<Rightarrow> \<exists>status body. octets = retainedBytes status body (V1ResponseHeaders requestID (length body)))"

lemma carries_writeJSONBytes [simp]: "carries requestID (writeJSONBytes hijack status requestID body headers)"
proof -
  have "CanonicalHeaderKey ''JAT-Request-ID'' = ''Jat-Request-Id''" "CanonicalHeaderKey ''Content-Length'' = ''Content-Length''"
    by code_simp+
  then show ?thesis by (auto simp: carries_def writeJSONBytes_def V1ResponseHeaders_def)
qed

lemma carries_written [simp]:
  "carries requestID (writeJSON hijack status requestID v)" "carries requestID (writeError hijack status code retryable requestID)"
  "carries requestID (answer hijack requestID r)"
  by (simp_all add: writeJSON_def writeError_def answer_def split: sum.split)

lemma carries_serveDataPlane: "carries requestID (fst (serveDataPlane io plane requestID request s))"
proof (cases "\<exists>body authorization. request_body request body \<and> Values (hq_Header request) ''Authorization'' = [authorization]")
  case True
  then show ?thesis using serveDataPlane_call[of request _ _ io plane requestID s] by (auto simp: Let_def)
next
  case False
  then show ?thesis using serveDataPlane_refused[of request io plane requestID s] by auto
qed

theorem ServeHTTP_carries:
  "carries (RequestIDOrFallback (hi_random io) (Values (hq_Header request) ''JAT-Request-ID'')) (fst (ServeHTTP io settings ready plane request s))"
proof (rule ServeHTTP_stages[of io settings ready plane request s])
  fix i p
  assume "Values (hq_Header request) ''JAT-Request-ID'' = [i]" "Parse i \<noteq> None"
    "ServeHTTP io settings ready plane request s = serveDataPlane io p i request s"
  then show ?thesis by (simp add: RequestIDOrFallback_def carries_serveDataPlane)
qed (simp_all add: RequestIDOrFallback_def)

section \<open>The contract with the data plane\<close>

locale data_plane_contract =
  fixes handle :: "'s data_plane" and kept :: "'s \<Rightarrow> 'k"
  assumes refused: "fst (handle call s) = Inl e \<Longrightarrow> kept (snd (handle call s)) = kept s"
begin

text \<open>What the store keeps changes only for an admitted call that the data plane accepted.\<close>

lemma changed_only_accepted:
  assumes "kept (snd (ServeHTTP io settings ready (Some handle) request s)) \<noteq> kept s"
  shows "\<exists>call result. admits request call \<and> rq_Now call = hi_now io \<and> fst (handle call s) = Inr result
    \<and> fst (ServeHTTP io settings ready (Some handle) request s) =
        writeJSONBytes (hi_hijack io) (rs_Status result) (rq_RequestID call) (rs_Body result) (Some (rs_Headers result))"
proof -
  obtain call' where "admits request call'" using assms ServeHTTP_refused by metis
  then have call: "admits request (call'\<lparr>rq_Now := hi_now io\<rparr>)" by (simp add: admits_def)
  note served = ServeHTTP_admitted[OF call, of io settings ready handle s, simplified]
  show ?thesis
  proof (cases "fst (handle (call'\<lparr>rq_Now := hi_now io\<rparr>) s)")
    case (Inl e)
    then show ?thesis using assms served refused[OF Inl] by simp
  next
    case (Inr result)
    then show ?thesis
      using call served by (intro exI[of _ "call'\<lparr>rq_Now := hi_now io\<rparr>"] exI[of _ result]) (simp add: answer_def)
  qed
qed

end

interpretation served: data_plane_contract "HandleAPI io" st_db
  by unfold_locales (use atomic_HandleAPI in \<open>fastforce simp: atomic_def split: sum.splits\<close>)

interpretation identified: data_plane_contract "HandleAPI io" st_identity
  by unfold_locales (use atomic_HandleAPI in \<open>fastforce simp: atomic_def\<close>)

end
