(* ===== verification/OpenExample.thy ===== *)
theory OpenExample
  imports ValidExample OpeningLaws HttpLaws
begin

text \<open>
  Concrete files and requests: a file in the full layout that holds the valid example database, an empty
  file, and a request for the list of devices.
\<close>

definition smooth_io :: open_io where
  "smooth_io = \<lparr>oi_path = True, oi_prepare = True, oi_ping = True, oi_wal = True, oi_begin = True, oi_commit = True, oi_restrict = True\<rparr>"

definition smooth_xio :: existing_io where
  "smooth_xio = \<lparr>xi_path = True, xi_protected = True, xi_wal = Some False, xi_shm = Some False, xi_journal = Some False, xi_captured = True,
     xi_opened = True, xi_integrity = ''ok'', xi_committed = True, xi_backup = True, xi_copy = smooth_io, xi_attested = True,
     xi_sidecars = True, xi_released = True\<rparr>"

lemma smooth_ios: "smooth smooth_io" "existing_smooth smooth_xio"
  by (simp_all add: smooth_def smooth_io_def existing_smooth_def smooth_xio_def sidecars_ok_def)

definition ok_disk :: disk where
  "ok_disk = \<lparr>dk_version = 1, dk_tables = fullSchemaTables, dk_auxiliary = 0, dk_metadata = Some (identityRow ex_identity), dk_db = ok_db\<rparr>"

definition empty_disk :: disk where
  "empty_disk = \<lparr>dk_version = 0, dk_tables = [], dk_auxiliary = 0, dk_metadata = None, dk_db = ex_db\<rparr>"

definition served_store :: Store where
  "served_store = \<lparr>st_db = ok_db, st_identity = ex_identity, st_ephemeral = newEphemeralState\<rparr>"

lemma ex_identity_input: "validateIdentityInput ex_identity"
  using ex_identity_ok by (auto simp: identity_ok_def validateIdentityInput_def validateUUID_def ex_identity_def)

lemma ex_identity_stored: "dk_metadata d = Some (identityRow ex_identity) \<Longrightarrow> validateIdentity ex_identity d = Inr ()"
  using ex_identity_ok validateUUID_length
  by (simp add: identity_ok_def validateIdentity_def identityRow_def scan_text_CText maxUUIDBytes_def)

lemma ok_opens: "Open smooth_io ex_identity ok_disk = (Inr served_store, ok_disk)"
  using Open_full[of ok_disk ex_identity smooth_io] fullSchema_inspected[of ok_disk] ok_validated ex_identity_input ex_identity_stored[of ok_disk] smooth_ios
  by (simp add: ok_disk_def SchemaVersion_def served_store_def)

lemma ok_disk_keys: "keys_unique (dk_db ok_disk)"
  by (simp add: ok_disk_def ok_keys)

lemma empty_disk_empty: "emptyFile empty_disk"
  by (simp add: emptyFile_def empty_disk_def)

section \<open>Requests\<close>

definition ex_headers :: http_header where
  "ex_headers = [(''Jat-Protocol-Version'', [''1'']), (''Jat-Request-Id'', [ex_record]), (''Authorization'', [ex_auth])]"

definition ex_http :: http_request where
  "ex_http = \<lparr>hq_Method = ''GET'', hq_ProtoMajor = 1, hq_ProtoMinor = 1, hq_RequestURI = ''/v1/devices'', hq_IsAbs = False,
     hq_Path = ''/v1/devices'', hq_RawPath = [], hq_RawQuery = [], hq_ForceQuery = False, hq_Fragment = [], hq_Header = ex_headers,
     hq_TransferEncoding = [], hq_Trailer = [], hq_ContentLength = 0, hq_Body = \<lparr>bd_content = [], bd_fails = False\<rparr>\<rparr>"

definition ex_http_io :: http_io where
  "ex_http_io = \<lparr>hi_random = None, hi_hijack = True, hi_now = 7\<rparr>"

definition ex_http_call :: api_request where
  "ex_http_call = \<lparr>rq_Method = ''GET'', rq_Path = ''/v1/devices'', rq_RequestID = ex_record, rq_Authorization = ex_auth, rq_Body = [], rq_Now = 7\<rparr>"

lemma ex_http_simps: "hi_hijack ex_http_io = True" "rq_RequestID ex_http_call = ex_record"
  by (simp_all add: ex_http_io_def ex_http_call_def)

lemma ex_admits: "admits ex_http ex_http_call" "rq_Now ex_http_call = hi_now ex_http_io"
proof -
  have keys: "CanonicalHeaderKey ''JAT-Protocol-Version'' = ''Jat-Protocol-Version''" "CanonicalHeaderKey ''JAT-Request-ID'' = ''Jat-Request-Id''"
    "CanonicalHeaderKey ''Authorization'' = ''Authorization''" "CanonicalHeaderKey ''Upgrade'' = ''Upgrade''"
    "CanonicalHeaderKey ''Connection'' = ''Connection''" "CanonicalHeaderKey ''Proxy-Connection'' = ''Proxy-Connection''"
    "CanonicalHeaderKey ''Expect'' = ''Expect''" "CanonicalHeaderKey ''TE'' = ''Te''" "CanonicalHeaderKey ''Origin'' = ''Origin''"
    by code_simp+
  have headers: "Values ex_headers ''JAT-Protocol-Version'' = [''1'']" "Values ex_headers ''JAT-Request-ID'' = [ex_record]"
    "Values ex_headers ''Authorization'' = [ex_auth]" "Values ex_headers ''Upgrade'' = []" "Values ex_headers ''Connection'' = []"
    "Values ex_headers ''Proxy-Connection'' = []" "Values ex_headers ''Expect'' = []" "Values ex_headers ''TE'' = []"
    "map_of ex_headers (CanonicalHeaderKey ''Origin'') = None"
    by (simp_all add: ex_headers_def Values_def keys)
  have "validateTransport ex_http"
    by (simp add: validateTransport_def ex_http_def headers Get_def headerContainsToken_def prefix_def)
  moreover have "Parse ex_record \<noteq> None" using ex_uuids by (simp add: validateUUID_def)
  ultimately show "admits ex_http ex_http_call"
    by (simp add: admits_def ex_http_def ex_http_call_def request_body_def requireEmptyBody_def ProtocolMajor_def headers)
qed (simp add: ex_http_call_def ex_http_io_def)

end
