(* ===== verification/Paths.thy ===== *)
theory Paths
  imports Prelude
begin

text \<open>
  The file names of a deployment (\<^verbatim>\<open>deployment/paths_unix.go\<close>) over the lexical operations of Go's
  \<^verbatim>\<open>path/filepath\<close> on Unix: \<open>Clean\<close>, \<open>Join\<close>, \<open>Rel\<close>, \<open>IsAbs\<close> and \<open>Base\<close>. A \<open>layout\<close> is the
  \<^verbatim>\<open>Layout\<close> struct; \<open>NewLayout\<close> derives its paths.

  A canonical absolute path is \<open>abs_path\<close> of a unique list of proper components
  (\<open>canonicalAbsolutePath_iff\<close>); on such lists joining is appending and the containment test
  \<open>requireStrictDescendant\<close> is the strict prefix order (\<open>requireStrictDescendant_abs\<close>), which is how
  every lemma on layouts is proved.
\<close>

named_theorems path_simps \<open>lexical path operations on component lists\<close>

section \<open>Splitting and joining\<close>

fun split_on :: "char \<Rightarrow> bytes \<Rightarrow> bytes list" where
  "split_on d [] = [[]]"
| "split_on d (c # s) = (if c = d then [] # split_on d s
     else (case split_on d s of [] \<Rightarrow> [[c]] | p # ps \<Rightarrow> (c # p) # ps))"

fun join_with :: "bytes \<Rightarrow> bytes list \<Rightarrow> bytes" where
  "join_with sep [] = []"
| "join_with sep [x] = x"
| "join_with sep (x # y # ys) = x @ sep @ join_with sep (y # ys)"

lemma split_on_nonempty [simp]: "split_on d s \<noteq> []"
  by (induction s) (auto split: list.splits)

lemma split_on_clean: "d \<notin> set s \<Longrightarrow> split_on d s = [s]"
  by (induction s) auto

lemma split_on_append: "d \<notin> set s \<Longrightarrow> split_on d (s @ d # t) = s # split_on d t"
  by (induction s) auto

lemma split_on_no_delimiter: "p \<in> set (split_on d s) \<Longrightarrow> d \<notin> set p"
  by (induction s arbitrary: p) (auto split: list.splits if_splits)

lemma split_on_join [simp]:
  "xs \<noteq> [] \<Longrightarrow> \<forall>x\<in>set xs. d \<notin> set x \<Longrightarrow> split_on d (join_with [d] xs) = xs"
  by (induction "[d]" xs rule: join_with.induct) (auto simp: split_on_clean split_on_append)

lemma join_split_on [simp]: "join_with [d] (split_on d s) = s"
proof (induction s)
  case (Cons c s)
  then show ?case by (cases "split_on d s" rule: list.exhaust; cases "tl (split_on d s)") auto
qed simp

lemma join_with_inj:
  assumes "join_with [d] xs = join_with [d] ys" and "xs \<noteq> []" "ys \<noteq> []"
    and "\<forall>x\<in>set xs. d \<notin> set x" "\<forall>y\<in>set ys. d \<notin> set y"
  shows "xs = ys"
  using assms by (metis split_on_join)

lemma join_with_append:
  "xs \<noteq> [] \<Longrightarrow> ys \<noteq> [] \<Longrightarrow> join_with sep (xs @ ys) = join_with sep xs @ sep @ join_with sep ys"
  by (induction sep xs rule: join_with.induct) (auto simp: neq_Nil_conv)

section \<open>The operations of path/filepath\<close>

definition IsAbs :: "bytes \<Rightarrow> bool" where
  "IsAbs p = (case p of [] \<Rightarrow> False | c # _ \<Rightarrow> c = CHR ''/'')"

text \<open>\<open>clean_step\<close> reads one element; the kept elements are on a stack.\<close>

definition clean_step :: "bool \<Rightarrow> bytes \<Rightarrow> bytes list \<Rightarrow> bytes list" where
  "clean_step rooted c st =
     (if c = '''' \<or> c = ''.'' then st
      else if c = ''..'' then
        (case st of [] \<Rightarrow> if rooted then [] else [''..'']
         | x # xs \<Rightarrow> if x = ''..'' then ''..'' # st else xs)
      else c # st)"

definition clean_parts :: "bytes \<Rightarrow> bytes list" where
  "clean_parts p = rev (fold (clean_step (IsAbs p)) (split_on (CHR ''/'') p) [])"

definition Clean :: "bytes \<Rightarrow> bytes" where
  "Clean p = (let cs = clean_parts p in
     if IsAbs p then ''/'' @ join_with ''/'' cs else if cs = [] then ''.'' else join_with ''/'' cs)"

definition Join :: "bytes list \<Rightarrow> bytes" where
  "Join es = (let fs = dropWhile (\<lambda>e. e = '''') es in if fs = [] then '''' else Clean (join_with ''/'' fs))"

fun strip_common :: "bytes list \<Rightarrow> bytes list \<Rightarrow> bytes list \<times> bytes list" where
  "strip_common (b # bs) (t # ts) = (if b = t then strip_common bs ts else (b # bs, t # ts))"
| "strip_common bs ts = (bs, ts)"

definition Rel :: "bytes \<Rightarrow> bytes \<Rightarrow> bytes option" where
  "Rel base targ =
     (if Clean targ = Clean base then Some ''.''
      else if IsAbs base \<noteq> IsAbs targ then None
      else let bs = clean_parts base;
               ts = (if \<not> IsAbs targ \<and> clean_parts targ = [] then [''.''] else clean_parts targ)
           in case strip_common bs ts of
                (b # bs', t # ts') \<Rightarrow> if b = ''..'' then None
                  else Some (join_with ''/'' (replicate (Suc (length bs')) ''..'' @ t # ts'))
              | (bs', ts') \<Rightarrow> Some (join_with ''/'' (replicate (length bs') ''..'' @ ts')))"

definition Base :: "bytes \<Rightarrow> bytes" where
  "Base p = (if p = '''' then ''.''
     else let q = rev (dropWhile (\<lambda>c. c = CHR ''/'') (rev p)) in
       if q = '''' then ''/'' else last (split_on (CHR ''/'') q))"

section \<open>Layouts\<close>

record Layout =
  HomeDir :: bytes
  InstallRoot :: bytes
  StateDir :: bytes
  VersionsDir :: bytes
  StatePath :: bytes
  JournalPath :: bytes
  LockPath :: bytes

definition canonicalAbsolutePath :: "bytes \<Rightarrow> bool" where
  "canonicalAbsolutePath value \<longleftrightarrow> value \<noteq> '''' \<and> IsAbs value \<and> Clean value = value"

definition requireStrictDescendant :: "bytes \<Rightarrow> bytes \<Rightarrow> bool" where
  "requireStrictDescendant parent child =
     (case Rel parent child of None \<Rightarrow> False
      | Some relative \<Rightarrow> \<not> (relative = ''.'' \<or> relative = '''' \<or> relative = ''..'' \<or>
          take 3 relative = ''../'' \<or> IsAbs relative))"

definition NewLayout :: "bytes \<Rightarrow> bytes \<Rightarrow> bytes \<Rightarrow> Layout option" where
  "NewLayout homeDir installRoot stateDir =
     (if \<not> list_all (\<lambda>value. value \<noteq> '''' \<and> IsAbs value \<and> Clean value = value \<and> CHR 0x00 \<notin> set value)
           [homeDir, installRoot, stateDir] then None
      else if \<not> requireStrictDescendant homeDir installRoot then None
      else if \<not> requireStrictDescendant homeDir stateDir then None
      else Some \<lparr>HomeDir = homeDir, InstallRoot = installRoot, StateDir = stateDir,
        VersionsDir = Join [installRoot, ''versions''],
        StatePath = Join [installRoot, ''deployment.json''],
        JournalPath = Join [installRoot, ''deployment-journal.json''],
        LockPath = Join [installRoot, ''.deployment.lock'']\<rparr>)"

text \<open>The check of \<^verbatim>\<open>validateLayoutShape\<close> besides the effective user: every derived path is the one
  \<open>NewLayout\<close> derives.\<close>

definition layout_shape :: "Layout \<Rightarrow> bool" where
  "layout_shape layout \<longleftrightarrow> NewLayout (HomeDir layout) (InstallRoot layout) (StateDir layout) = Some layout"

section \<open>Canonical paths as component lists\<close>

definition proper :: "bytes \<Rightarrow> bool" where
  "proper c \<longleftrightarrow> c \<noteq> '''' \<and> c \<noteq> ''.'' \<and> c \<noteq> ''..'' \<and> CHR ''/'' \<notin> set c"

definition abs_path :: "bytes list \<Rightarrow> bytes" where
  "abs_path cs = ''/'' @ join_with ''/'' cs"

lemma IsAbs_abs_path [simp]: "IsAbs (abs_path cs)"
  by (simp add: IsAbs_def abs_path_def)

lemma abs_path_nonempty [simp]: "abs_path cs \<noteq> []"
  by (simp add: abs_path_def)

lemma clean_step_proper: "proper c \<Longrightarrow> clean_step r c st = c # st"
  by (simp add: clean_step_def proper_def)

lemma fold_clean_proper: "list_all proper cs \<Longrightarrow> fold (clean_step r) cs st = rev cs @ st"
  by (induction cs arbitrary: st) (auto simp: clean_step_proper)

lemma split_on_abs_path:
  "list_all proper cs \<Longrightarrow> split_on (CHR ''/'') (abs_path cs) = [] # (if cs = [] then [[]] else cs)"
  by (auto simp: abs_path_def list_all_iff proper_def)

lemma clean_step_Nil [simp]: "clean_step r [] st = st"
  by (simp add: clean_step_def)

lemma clean_parts_abs_path [path_simps]: "list_all proper cs \<Longrightarrow> clean_parts (abs_path cs) = cs"
  by (simp add: clean_parts_def split_on_abs_path fold_clean_proper)

lemma Clean_abs_path [path_simps]: "list_all proper cs \<Longrightarrow> Clean (abs_path cs) = abs_path cs"
  by (simp add: Clean_def clean_parts_abs_path) (simp add: abs_path_def)

lemma rooted_step_proper:
  "list_all proper st \<Longrightarrow> CHR ''/'' \<notin> set c \<Longrightarrow> list_all proper (clean_step True c st)"
  by (auto simp: clean_step_def proper_def split: list.splits)

lemma rooted_parts_proper: "IsAbs p \<Longrightarrow> list_all proper (clean_parts p)"
proof -
  have "list_all proper (fold (clean_step True) cs st)"
    if "\<forall>c\<in>set cs. CHR ''/'' \<notin> set c" "list_all proper st" for cs st
    using that by (induction cs arbitrary: st) (auto simp: rooted_step_proper)
  from this[of "split_on (CHR ''/'') p" "[]"] show "IsAbs p \<Longrightarrow> ?thesis"
    using split_on_no_delimiter by (auto simp: clean_parts_def)
qed

lemma canonicalAbsolutePath_iff:
  "canonicalAbsolutePath p \<longleftrightarrow> (\<exists>cs. list_all proper cs \<and> p = abs_path cs)"
proof
  assume c: "canonicalAbsolutePath p"
  then have "Clean p = p" and "IsAbs p" by (auto simp: canonicalAbsolutePath_def)
  then have "p = abs_path (clean_parts p)" unfolding Clean_def abs_path_def Let_def by simp
  then show "\<exists>cs. list_all proper cs \<and> p = abs_path cs"
    using c rooted_parts_proper by (auto simp: canonicalAbsolutePath_def)
next
  assume "\<exists>cs. list_all proper cs \<and> p = abs_path cs"
  then obtain cs where "list_all proper cs" and [simp]: "p = abs_path cs" by blast
  then show "canonicalAbsolutePath p" by (auto simp: canonicalAbsolutePath_def Clean_abs_path)
qed

lemma abs_path_inject [simp]:
  assumes "list_all proper as" and "list_all proper bs"
  shows "abs_path as = abs_path bs \<longleftrightarrow> as = bs"
  using assms clean_parts_abs_path by metis

text \<open>Joining a canonical absolute path with proper components appends them.\<close>

lemma Join_abs_path [path_simps]:
  assumes "list_all proper cs" and "list_all proper ds"
  shows "Join (abs_path cs # ds) = abs_path (cs @ ds)"
proof (cases "ds = []")
  case True
  then show ?thesis using assms Clean_abs_path[of cs] by (simp add: Join_def)
next
  case False
  have j: "join_with ''/'' (abs_path cs # ds) = abs_path cs @ ''/'' @ join_with ''/'' ds"
    using False join_with_append[of "[abs_path cs]" ds "''/''"] by simp
  have "clean_parts (abs_path cs @ ''/'' @ join_with ''/'' ds) = cs @ ds"
  proof (cases "cs = []")
    case True
    then show ?thesis using False assms
      by (simp add: clean_parts_def abs_path_def IsAbs_def list_all_iff proper_def fold_clean_proper)
  next
    case c: False
    have "abs_path cs @ ''/'' @ join_with ''/'' ds = abs_path (cs @ ds)"
      using c False join_with_append[of cs ds "''/''"] by (simp add: abs_path_def)
    then show ?thesis using assms by (simp add: clean_parts_abs_path)
  qed
  moreover have "IsAbs (abs_path cs @ ''/'' @ join_with ''/'' ds)"
    by (simp add: abs_path_def IsAbs_def)
  ultimately show ?thesis using j by (simp add: Join_def Clean_def abs_path_def)
qed

lemma strip_common_append [simp]: "strip_common as (as @ bs) = ([], bs)"
  by (induction as) (cases bs, auto)

lemma strip_common_left_Nil: "fst (strip_common as bs) = [] \<longleftrightarrow> (\<exists>ds. bs = as @ ds)"
  by (induction as bs rule: strip_common.induct) auto

lemma strip_common_proper:
  "list_all proper as \<Longrightarrow> list_all proper bs \<Longrightarrow>
   list_all proper (fst (strip_common as bs)) \<and> list_all proper (snd (strip_common as bs))"
  by (induction as bs rule: strip_common.induct) auto

lemma take_3_dotdot: "join_with ''/'' (''..'' # xs) = ''..'' \<or> take 3 (join_with ''/'' (''..'' # xs)) = ''../''"
  by (cases xs) auto

lemma proper_join_not_up:
  assumes "list_all proper ds" and "ds \<noteq> []"
  shows "join_with ''/'' ds \<notin> {''.'', '''', ''..''}" "take 3 (join_with ''/'' ds) \<noteq> ''../''"
    "\<not> IsAbs (join_with ''/'' ds)"
proof -
  have eq: "split_on (CHR ''/'') (join_with ''/'' ds) = ds"
    using assms by (intro split_on_join) (auto simp: list_all_iff proper_def)
  have p: "proper (hd ds)" using assms by (cases ds) auto
  show "join_with ''/'' ds \<notin> {''.'', '''', ''..''}"
    using eq p by (auto simp: proper_def)
  show "take 3 (join_with ''/'' ds) \<noteq> ''../''"
  proof
    assume "take 3 (join_with ''/'' ds) = ''../''"
    then obtain r where "join_with ''/'' ds = ''..'' @ CHR ''/'' # r"
      by (metis append_Cons append_Nil append_take_drop_id)
    then have "ds = ''..'' # split_on (CHR ''/'') r"
      using eq split_on_append[of "CHR ''/''" "''..''" r] by simp
    then show False using p by (simp add: proper_def)
  qed
  show "\<not> IsAbs (join_with ''/'' ds)"
  proof
    assume "IsAbs (join_with ''/'' ds)"
    then obtain r where "join_with ''/'' ds = CHR ''/'' # r" by (auto simp: IsAbs_def split: list.splits)
    then have "ds = [] # split_on (CHR ''/'') r" using eq by simp
    then show False using p by (simp add: proper_def)
  qed
qed

text \<open>The containment test is the strict prefix order on components.\<close>

lemma requireStrictDescendant_abs [path_simps]:
  assumes "list_all proper as" and "list_all proper bs"
  shows "requireStrictDescendant (abs_path as) (abs_path bs) \<longleftrightarrow> (\<exists>ds. ds \<noteq> [] \<and> bs = as @ ds)"
proof (cases "fst (strip_common as bs) = []")
  case True
  then obtain ds where ds: "bs = as @ ds" by (auto simp: strip_common_left_Nil)
  then have p: "list_all proper ds" using assms by simp
  show ?thesis
  proof (cases "ds = []")
    case True
    then show ?thesis using ds by (simp add: requireStrictDescendant_def Rel_def)
  next
    case False
    then have "Rel (abs_path as) (abs_path bs) = Some (join_with ''/'' ds)"
      using assms ds p by (simp add: Rel_def path_simps Let_def)
    then show ?thesis
      using proper_join_not_up[OF p False] False ds by (simp add: requireStrictDescendant_def)
  qed
next
  case False
  then have no: "\<nexists>ds. bs = as @ ds" by (simp add: strip_common_left_Nil)
  obtain b bs' ts where st: "strip_common as bs = (b # bs', ts)"
    using False by (cases "strip_common as bs"; cases "fst (strip_common as bs)") auto
  have "b \<noteq> ''..''" using strip_common_proper[OF assms] st by (auto simp: proper_def)
  moreover have "as \<noteq> bs" using no by force
  ultimately have "Rel (abs_path as) (abs_path bs) = Some (join_with ''/'' (''..'' # replicate (length bs') ''..'' @ ts))"
    using assms st by (auto simp: Rel_def path_simps Let_def split: list.splits)
  then show ?thesis
    using no take_3_dotdot[of "replicate (length bs') ''..'' @ ts"] by (auto simp: requireStrictDescendant_def)
qed

lemma requireStrictDescendant_trans:
  assumes "canonicalAbsolutePath a" "canonicalAbsolutePath b" "canonicalAbsolutePath c"
    and "requireStrictDescendant a b" "requireStrictDescendant b c"
  shows "requireStrictDescendant a c"
  using assms by (auto simp: canonicalAbsolutePath_iff requireStrictDescendant_abs)

section \<open>The paths of a layout\<close>

lemma NewLayout_SomeD:
  assumes "NewLayout h r s = Some l"
  shows "HomeDir l = h" "InstallRoot l = r" "StateDir l = s"
    "VersionsDir l = Join [r, ''versions'']" "StatePath l = Join [r, ''deployment.json'']"
    "JournalPath l = Join [r, ''deployment-journal.json'']" "LockPath l = Join [r, ''.deployment.lock'']"
    "canonicalAbsolutePath h" "canonicalAbsolutePath r" "canonicalAbsolutePath s"
    "requireStrictDescendant h r" "requireStrictDescendant h s"
  using assms by (auto simp: NewLayout_def canonicalAbsolutePath_def split: if_splits)

lemma NewLayout_shape: "NewLayout h r s = Some l \<Longrightarrow> layout_shape l"
  using NewLayout_SomeD(1-3)[of h r s l] by (simp add: layout_shape_def)

text \<open>A layout of the right shape has component lists for its directories, and each derived path is
  one component below the install root.\<close>

lemma layout_components:
  assumes "layout_shape l"
  obtains hs rs ss where "list_all proper hs" "list_all proper rs" "list_all proper ss"
    "HomeDir l = abs_path hs" "InstallRoot l = abs_path rs" "StateDir l = abs_path ss"
    "\<exists>ds. ds \<noteq> [] \<and> rs = hs @ ds" "\<exists>ds. ds \<noteq> [] \<and> ss = hs @ ds"
    "VersionsDir l = abs_path (rs @ [''versions''])" "StatePath l = abs_path (rs @ [''deployment.json''])"
    "JournalPath l = abs_path (rs @ [''deployment-journal.json''])"
    "LockPath l = abs_path (rs @ [''.deployment.lock''])"
proof -
  note d = NewLayout_SomeD[OF assms[unfolded layout_shape_def]]
  obtain hs where h: "list_all proper hs" "HomeDir l = abs_path hs"
    using d(8) canonicalAbsolutePath_iff by auto
  obtain rs where r: "list_all proper rs" "InstallRoot l = abs_path rs"
    using d(9) canonicalAbsolutePath_iff by auto
  obtain ss where s: "list_all proper ss" "StateDir l = abs_path ss"
    using d(10) canonicalAbsolutePath_iff by auto
  have j: "Join [abs_path rs, n] = abs_path (rs @ [n])" if "proper n" for n
    using r(1) that Join_abs_path[of rs "[n]"] by simp
  have u: "\<exists>ds. ds \<noteq> [] \<and> rs = hs @ ds" "\<exists>ds. ds \<noteq> [] \<and> ss = hs @ ds"
    using d(11,12) h r s by (auto simp: requireStrictDescendant_abs)
  have v: "VersionsDir l = abs_path (rs @ [''versions''])" "StatePath l = abs_path (rs @ [''deployment.json''])"
    "JournalPath l = abs_path (rs @ [''deployment-journal.json''])"
    "LockPath l = abs_path (rs @ [''.deployment.lock''])"
    using d(4-7) r(2) j by (auto simp: proper_def)
  show thesis by (rule that[OF h(1) r(1) s(1) h(2) r(2) s(2) u v])
qed

end
