(* ===== verification/Release.thy ===== *)
theory Release
  imports Paths Uuid Sha256
begin

text \<open>
  Release identities: the identifier grammar (\<^verbatim>\<open>releaseid/releaseid.go\<close>), the identity compiled into a
  binary (\<^verbatim>\<open>buildinfo/buildinfo.go\<close>), the supported targets and the deterministic build identity
  (\<^verbatim>\<open>deployment/manifest.go\<close>), and the immutable paths of a release below the versions directory
  (\<^verbatim>\<open>deployment/paths_unix.go\<close>).

  A release identifier is one proper path component free of every separator the encodings use
  (\<open>Valid_text\<close>), so binary paths are canonical, contained and determine release and target
  (\<open>BinaryPath_components\<close>, \<open>BinaryPath_inject\<close>); the attestation record is parsed back exactly
  (\<open>ParseIdentity_eq_Inr\<close>) and build identities hash injective texts (\<open>build_input_inject\<close>).
\<close>

section \<open>Patterns\<close>

definition lower_hex :: "char \<Rightarrow> bool" where
  "lower_hex c \<longleftrightarrow> is_digit c \<or> 97 \<le> (of_char c :: nat) \<and> (of_char c :: nat) \<le> 102"

definition lower_alnum :: "char \<Rightarrow> bool" where
  "lower_alnum c \<longleftrightarrow> is_digit c \<or> 97 \<le> (of_char c :: nat) \<and> (of_char c :: nat) \<le> 122"

definition hexDigestPattern :: "bytes \<Rightarrow> bool" where
  "hexDigestPattern s \<longleftrightarrow> length s = 64 \<and> list_all lower_hex s"

definition sourceRevisionPattern :: "bytes \<Rightarrow> bool" where
  "sourceRevisionPattern s \<longleftrightarrow> length s = 40 \<and> list_all lower_hex s"

definition digits1 :: "bytes \<Rightarrow> bool" where
  "digits1 s \<longleftrightarrow> s \<noteq> [] \<and> list_all is_digit s"

definition toolchainPattern :: "bytes \<Rightarrow> bool" where
  "toolchainPattern s \<longleftrightarrow> take 2 s = ''go'' \<and>
     (case split_on (CHR ''.'') (drop 2 s) of
        [a, b, c] \<Rightarrow> digits1 a \<and> hd a \<noteq> CHR ''0'' \<and> digits1 b \<and> digits1 c
      | _ \<Rightarrow> False)"

text \<open>The release grammar: an optional \<^verbatim>\<open>v\<close>, three numbers, and after a hyphen labels separated by dots
  or hyphens.\<close>

definition release_core :: "bytes \<Rightarrow> bool" where
  "release_core t = (case split_on (CHR ''.'') t of
     [a, b, c] \<Rightarrow> digits1 a \<and> digits1 b \<and> digits1 c | _ \<Rightarrow> False)"

definition release_labels :: "bytes \<Rightarrow> bool" where
  "release_labels s = list_all (\<lambda>p. list_all (\<lambda>l. l \<noteq> [] \<and> list_all lower_alnum l) (split_on (CHR ''-'') p))
     (split_on (CHR ''.'') s)"

definition Valid :: "bytes \<Rightarrow> bool" where
  "Valid value \<longleftrightarrow> length value > 0 \<and> length value \<le> 64 \<and>
     (let t = (if hd value = CHR ''v'' then tl value else value) in
        release_core (takeWhile (\<lambda>c. c \<noteq> CHR ''-'') t) \<and>
        (case dropWhile (\<lambda>c. c \<noteq> CHR ''-'') t of [] \<Rightarrow> True | _ # s \<Rightarrow> release_labels s))"

section \<open>The identity of a build\<close>

record build_identity =
  bi_release :: bytes
  bi_source_revision :: bytes
  bi_build_toolchain :: bytes
  bi_build_identity :: bytes
  bi_protocol_version :: bytes
  bi_storage_schema :: bytes

definition validate_identity :: "build_identity \<Rightarrow> bool" where
  "validate_identity i \<longleftrightarrow> Valid (bi_release i) \<and> sourceRevisionPattern (bi_source_revision i) \<and>
     toolchainPattern (bi_build_toolchain i) \<and> hexDigestPattern (bi_build_identity i) \<and>
     bi_protocol_version i = ''1'' \<and> bi_storage_schema i = ''1''"

definition EncodeIdentity :: "build_identity \<Rightarrow> bytes option" where
  "EncodeIdentity i = (if \<not> validate_identity i then None
     else Some (join_with ''|'' [''jat-release-v1'', bi_release i, bi_source_revision i, bi_build_toolchain i,
       bi_build_identity i, bi_protocol_version i, bi_storage_schema i]))"

definition ParseIdentity :: "bytes \<Rightarrow> build_identity option" where
  "ParseIdentity value =
     (case split_on (CHR ''|'') value of
        [p0, p1, p2, p3, p4, p5, p6] \<Rightarrow>
          if p0 \<noteq> ''jat-release-v1'' then None
          else let i = \<lparr>bi_release = p1, bi_source_revision = p2, bi_build_toolchain = p3,
                  bi_build_identity = p4, bi_protocol_version = p5, bi_storage_schema = p6\<rparr>
            in if validate_identity i then Some i else None
      | _ \<Rightarrow> None)"

text \<open>\<open>version\<close> is the running Go toolchain, \<open>encoded\<close> the linker assignment.\<close>

definition ValidatedCurrent :: "bytes \<Rightarrow> bytes \<Rightarrow> build_identity option" where
  "ValidatedCurrent version encoded =
     (if encoded = ''dev''
      then Some \<lparr>bi_release = ''dev'', bi_source_revision = ''dev'', bi_build_toolchain = version,
        bi_build_identity = ''dev'', bi_protocol_version = ''1'', bi_storage_schema = ''1''\<rparr>
      else ParseIdentity encoded)"

section \<open>Targets and build identities\<close>

record target =
  target_OS :: bytes
  target_Architecture :: bytes

definition supportedTargets :: "target list" where
  "supportedTargets =
     [\<lparr>target_OS = ''linux'', target_Architecture = ''amd64''\<rparr>,
      \<lparr>target_OS = ''linux'', target_Architecture = ''arm64''\<rparr>,
      \<lparr>target_OS = ''darwin'', target_Architecture = ''amd64''\<rparr>,
      \<lparr>target_OS = ''darwin'', target_Architecture = ''arm64''\<rparr>]"

definition isSupportedTarget :: "target \<Rightarrow> bool" where
  "isSupportedTarget t = list_ex (\<lambda>supported. t = supported) supportedTargets"

definition SHA256Hex :: "bytes \<Rightarrow> bytes" where
  "SHA256Hex payload = hexEncode (sha256 payload)"

definition build_input :: "bytes \<Rightarrow> bytes \<Rightarrow> bytes \<Rightarrow> target \<Rightarrow> bytes" where
  "build_input release revision toolchain t = join_with [CHR 0x0A]
     [''sshserver-build-identity-v1'', ''release='' @ release, ''source_revision='' @ revision,
      ''build_toolchain='' @ toolchain, ''os='' @ target_OS t, ''architecture='' @ target_Architecture t, '''']"

definition DeriveBuildIdentity :: "bytes \<Rightarrow> bytes \<Rightarrow> bytes \<Rightarrow> target \<Rightarrow> bytes option" where
  "DeriveBuildIdentity release revision toolchain t =
     (if \<not> Valid release then None
      else if \<not> sourceRevisionPattern revision then None
      else if \<not> toolchainPattern toolchain then None
      else if \<not> isSupportedTarget t then None
      else Some (SHA256Hex (build_input release revision toolchain t)))"

section \<open>The paths of a release\<close>

definition VersionDir :: "Layout \<Rightarrow> bytes \<Rightarrow> bytes option" where
  "VersionDir layout release =
     (if \<not> Valid release then None else Some (Join [VersionsDir layout, release]))"

definition BinaryPath :: "Layout \<Rightarrow> bytes \<Rightarrow> target \<Rightarrow> bytes option" where
  "BinaryPath layout release t =
     (case VersionDir layout release of None \<Rightarrow> None
      | Some versionDir \<Rightarrow> if \<not> isSupportedTarget t then None
          else Some (Join [versionDir, ''sshserver-'' @ target_OS t @ ''-'' @ target_Architecture t]))"

section \<open>The characters of the patterns\<close>

definition plain_text :: "bytes \<Rightarrow> bool" where
  "plain_text s \<longleftrightarrow> list_all (\<lambda>c. lower_alnum c \<or> c = CHR ''.'' \<or> c = CHR ''-'') s"

lemma plain_text_simps [simp]: "plain_text []" "plain_text (c # s) \<longleftrightarrow>
    (lower_alnum c \<or> c = CHR ''.'' \<or> c = CHR ''-'') \<and> plain_text s"
  "plain_text (s @ t) \<longleftrightarrow> plain_text s \<and> plain_text t"
  by (simp_all add: plain_text_def)

lemma plain_text_avoids:
  assumes "plain_text s"
  shows "CHR ''/'' \<notin> set s" "CHR ''|'' \<notin> set s" "CHR 0x0A \<notin> set s" "CHR 0x00 \<notin> set s"
  using assms by (auto simp: plain_text_def list_all_iff lower_alnum_def is_digit_def)

lemma lower_hex_alnum: "list_all lower_hex s \<Longrightarrow> plain_text s"
  by (induction s) (auto simp: lower_hex_def lower_alnum_def)

lemma digits_plain: "list_all is_digit s \<Longrightarrow> plain_text s"
  by (induction s) (auto simp: lower_alnum_def)

lemma alnum_plain: "list_all lower_alnum s \<Longrightarrow> plain_text s"
  by (induction s) auto

lemma plain_join: "(\<And>p. p \<in> set ps \<Longrightarrow> plain_text p) \<Longrightarrow> plain_text sep \<Longrightarrow> plain_text (join_with sep ps)"
  by (induction sep ps rule: join_with.induct) auto

lemma plain_split: "(\<And>p. p \<in> set (split_on d s) \<Longrightarrow> plain_text p) \<Longrightarrow> plain_text [d] \<Longrightarrow> plain_text s"
  using plain_join[of "split_on d s" "[d]"] by simp

lemma release_core_plain:
  assumes "release_core t"
  shows "plain_text t"
  by (rule plain_split[of "CHR ''.''"])
     (use assms in \<open>auto simp: release_core_def digits1_def digits_plain split: list.splits\<close>)

lemma release_labels_plain:
  assumes "release_labels t"
  shows "plain_text t"
proof (rule plain_split[of "CHR ''.''"])
  fix p assume p: "p \<in> set (split_on (CHR ''.'') t)"
  show "plain_text p"
    by (rule plain_split[of "CHR ''-''"])
       (use assms p in \<open>auto simp: release_labels_def list_all_iff intro!: alnum_plain\<close>)
qed simp

lemma Valid_text: "Valid s \<Longrightarrow> plain_text s"
proof -
  assume v: "Valid s"
  define t where "t = (if hd s = CHR ''v'' then tl s else s)"
  have "plain_text (takeWhile (\<lambda>c. c \<noteq> CHR ''-'') t)"
    using v by (auto simp: Valid_def t_def Let_def intro: release_core_plain)
  moreover have "plain_text (dropWhile (\<lambda>c. c \<noteq> CHR ''-'') t)"
  proof (cases "dropWhile (\<lambda>c. c \<noteq> CHR ''-'') t")
    case (Cons c u)
    then have "c = CHR ''-''" using hd_dropWhile[of "\<lambda>c. c \<noteq> CHR ''-''" t] by auto
    moreover have "release_labels u" using v Cons by (simp add: Valid_def t_def Let_def)
    ultimately show ?thesis using Cons release_labels_plain by simp
  qed (simp only: plain_text_simps)
  ultimately have "plain_text t" by (metis plain_text_simps(3) takeWhile_dropWhile_id)
  moreover have "s = (if hd s = CHR ''v'' then CHR ''v'' # t else t)"
    using v by (cases s) (auto simp: t_def Valid_def)
  ultimately show ?thesis by (auto simp: lower_alnum_def split: if_splits)
qed

lemma Valid_proper: "Valid s \<Longrightarrow> proper s"
proof -
  assume v: "Valid s"
  have "\<not> Valid ''.''" "\<not> Valid ''..''" "\<not> Valid ''''"
    by (simp_all add: Valid_def release_core_def digits1_def is_digit_def)
  then show ?thesis using v plain_text_avoids(1)[OF Valid_text[OF v]] by (auto simp: proper_def)
qed

lemma toolchain_text: "toolchainPattern s \<Longrightarrow> plain_text s"
proof -
  assume t: "toolchainPattern s"
  have "plain_text (drop 2 s)"
    by (rule plain_split[of "CHR ''.''"])
       (use t in \<open>auto simp: toolchainPattern_def digits1_def digits_plain split: list.splits\<close>)
  moreover have "s = ''go'' @ drop 2 s" using t by (metis append_take_drop_id toolchainPattern_def)
  moreover have "plain_text ''go''" by (simp add: lower_alnum_def)
  ultimately show ?thesis by (metis plain_text_simps(3))
qed

lemma pattern_text [simp]:
  "hexDigestPattern s \<Longrightarrow> plain_text s" "sourceRevisionPattern s \<Longrightarrow> plain_text s"
  "toolchainPattern s \<Longrightarrow> plain_text s" "Valid s \<Longrightarrow> plain_text s"
  by (auto simp: hexDigestPattern_def sourceRevisionPattern_def lower_hex_alnum toolchain_text Valid_text)

section \<open>Round trip of the attestation\<close>

lemma split_of_join7:
  assumes "\<forall>x\<in>set [a, b, c, d, e, f, g]. CHR ''|'' \<notin> set x"
  shows "split_on (CHR ''|'') (join_with ''|'' [a, b, c, d, e, f, g]) = [a, b, c, d, e, f, g]"
  using assms by (intro split_on_join) simp_all

lemma ParseIdentity_eq_Some: "ParseIdentity s = Some i \<longleftrightarrow> EncodeIdentity i = Some s"
proof
  assume p: "ParseIdentity s = Some i"
  then obtain p1 p2 p3 p4 p5 p6 where sp: "split_on (CHR ''|'') s = [''jat-release-v1'', p1, p2, p3, p4, p5, p6]"
    and i: "i = \<lparr>bi_release = p1, bi_source_revision = p2, bi_build_toolchain = p3,
                  bi_build_identity = p4, bi_protocol_version = p5, bi_storage_schema = p6\<rparr>"
    and v: "validate_identity i"
    by (auto simp: ParseIdentity_def Let_def split: list.splits if_splits)
  have "join_with ''|'' [''jat-release-v1'', p1, p2, p3, p4, p5, p6] = s"
    by (metis sp join_split_on)
  with v show "EncodeIdentity i = Some s" by (simp add: EncodeIdentity_def i)
next
  assume "EncodeIdentity i = Some s"
  then have v: "validate_identity i" and s: "s = join_with ''|'' [''jat-release-v1'', bi_release i,
      bi_source_revision i, bi_build_toolchain i, bi_build_identity i, bi_protocol_version i, bi_storage_schema i]"
    by (auto simp: EncodeIdentity_def split: if_splits)
  have "split_on (CHR ''|'') s = [''jat-release-v1'', bi_release i,
      bi_source_revision i, bi_build_toolchain i, bi_build_identity i, bi_protocol_version i, bi_storage_schema i]"
    unfolding s by (rule split_of_join7) (use v in \<open>auto simp: validate_identity_def plain_text_avoids\<close>)
  with v show "ParseIdentity s = Some i" by (cases i) (simp add: ParseIdentity_def Let_def)
qed

lemma build_input_inject:
  assumes "DeriveBuildIdentity r v c t \<noteq> None" "DeriveBuildIdentity r' v' c' t' \<noteq> None"
    and eq: "build_input r v c t = build_input r' v' c' t'"
  shows "r = r' \<and> v = v' \<and> c = c' \<and> t = t'"
proof -
  let ?l = "\<lambda>r v c t. [''sshserver-build-identity-v1'', ''release='' @ r, ''source_revision='' @ v,
      ''build_toolchain='' @ c, ''os='' @ target_OS t, ''architecture='' @ target_Architecture t, '''']"
  have free: "\<forall>x\<in>set (?l r v c t). CHR 0x0A \<notin> set x" if "DeriveBuildIdentity r v c t \<noteq> None" for r v c t
    using that by (auto simp: DeriveBuildIdentity_def plain_text_avoids isSupportedTarget_def
        supportedTargets_def split: if_splits)
  have "?l r v c t = ?l r' v' c' t'"
    by (rule join_with_inj[OF eq[unfolded build_input_def] _ _ free[OF assms(1)] free[OF assms(2)]]) simp_all
  then show ?thesis by (simp add: target.equality)
qed

section \<open>Binary paths\<close>

lemma supported_name:
  assumes "isSupportedTarget t"
  shows "proper (''sshserver-'' @ target_OS t @ ''-'' @ target_Architecture t)"
  using assms by (auto simp: isSupportedTarget_def supportedTargets_def proper_def)

lemma supported_name_inject:
  assumes "isSupportedTarget t" and "isSupportedTarget t'"
    and "''sshserver-'' @ target_OS t @ ''-'' @ target_Architecture t =
         ''sshserver-'' @ target_OS t' @ ''-'' @ target_Architecture t'"
  shows "t = t'"
  using assms by (auto simp: isSupportedTarget_def supportedTargets_def)

lemma BinaryPath_components:
  assumes "layout_shape l" and "BinaryPath l release t = Some p"
  obtains vs where "list_all proper vs" "VersionsDir l = abs_path vs" "Valid release" "isSupportedTarget t"
    "p = abs_path (vs @ [release, ''sshserver-'' @ target_OS t @ ''-'' @ target_Architecture t])"
    "VersionDir l release = Some (abs_path (vs @ [release]))"
proof -
  from assms(1) obtain rs where rs: "list_all proper rs" "VersionsDir l = abs_path (rs @ [''versions''])"
    by (rule layout_components)
  let ?vs = "rs @ [''versions'']" and ?n = "''sshserver-'' @ target_OS t @ ''-'' @ target_Architecture t"
  have vs: "list_all proper ?vs" using rs by (simp add: proper_def)
  have v: "Valid release" and s: "isSupportedTarget t"
    using assms(2) by (auto simp: BinaryPath_def VersionDir_def split: if_splits)
  have d: "VersionDir l release = Some (abs_path (?vs @ [release]))"
    using v vs rs Valid_proper[OF v] Join_abs_path[of ?vs "[release]"] by (simp add: VersionDir_def)
  have "Join [abs_path (?vs @ [release]), ?n] = abs_path ((?vs @ [release]) @ [?n])"
    by (rule Join_abs_path) (use vs Valid_proper[OF v] supported_name[OF s] in simp_all)
  then have "p = abs_path (?vs @ [release, ?n])"
    using assms(2) d s by (simp add: BinaryPath_def)
  then show thesis using that[of ?vs] vs rs v s d by simp
qed

lemma BinaryPath_canonical:
  assumes "layout_shape l" and "BinaryPath l release t = Some p"
  shows "canonicalAbsolutePath p" "requireStrictDescendant (VersionsDir l) p"
proof -
  from assms obtain vs where vs: "list_all proper vs" "VersionsDir l = abs_path vs"
    "Valid release" "isSupportedTarget t"
    "p = abs_path (vs @ [release, ''sshserver-'' @ target_OS t @ ''-'' @ target_Architecture t])"
    by (rule BinaryPath_components)
  have pr: "list_all proper (vs @ [release, ''sshserver-'' @ target_OS t @ ''-'' @ target_Architecture t])"
    using vs Valid_proper supported_name by simp
  show "canonicalAbsolutePath p" using pr vs(5) canonicalAbsolutePath_iff by blast
  show "requireStrictDescendant (VersionsDir l) p"
    unfolding vs(2,5) using requireStrictDescendant_abs[OF vs(1) pr] by simp
qed

lemma BinaryPath_inject:
  assumes "layout_shape l" and "BinaryPath l r t = Some p" and "BinaryPath l r' t' = Some p"
  shows "r = r' \<and> t = t'"
proof -
  obtain vs where a: "list_all proper vs" "VersionsDir l = abs_path vs" "Valid r" "isSupportedTarget t"
    "p = abs_path (vs @ [r, ''sshserver-'' @ target_OS t @ ''-'' @ target_Architecture t])"
    using assms(1,2) by (rule BinaryPath_components)
  obtain vs' where b: "list_all proper vs'" "VersionsDir l = abs_path vs'" "Valid r'" "isSupportedTarget t'"
    "p = abs_path (vs' @ [r', ''sshserver-'' @ target_OS t' @ ''-'' @ target_Architecture t'])"
    using assms(1,3) by (rule BinaryPath_components)
  let ?n = "\<lambda>t. ''sshserver-'' @ target_OS t @ ''-'' @ target_Architecture t"
  have vs: "vs = vs'" using a(1,2) b(1,2) by simp
  have "vs @ [r, ?n t] = vs' @ [r', ?n t']"
    using a(1,3-5) b(1,3-5) Valid_proper supported_name abs_path_inject[of "vs @ [r, ?n t]" "vs' @ [r', ?n t']"]
    by fastforce
  then have "r = r'" and "?n t = ?n t'" using vs by blast+
  then show ?thesis using supported_name_inject[OF a(4) b(4)] by blast
qed

end
