(* ===== verification/Deployment.thy ===== *)
theory Deployment
  imports Release
begin

text \<open>
  The durable records of a deployment (\<^verbatim>\<open>deployment/state.go\<close>): the installed release, the deployment
  state and the journal of a running transaction with their validation, and the pure parts of
  \<^verbatim>\<open>deployment/lifecycle.go\<close>: the order of the phases, the state a transaction commits and the receipt of
  an operation.

  A typed string is a datatype with one constructor per constant and one for every other text; a
  pointer is an option. The state a valid journal commits is valid unless the generation counter is
  exhausted (\<open>committed_valid\<close>), its generation is the successor of the prior one
  (\<open>committed_generation\<close>), and the receipt of a valid installed state exists (\<open>locator_exists\<close>).
\<close>

section \<open>Installed releases\<close>

record InstalledRelease =
  ir_Release :: bytes
  ir_SourceRevision :: bytes
  ir_BuildToolchain :: bytes
  ir_BuildIdentity :: bytes
  ir_ManifestSHA256 :: bytes
  ir_ProtocolVersion :: bytes
  ir_StorageSchema :: bytes
  ir_OS :: bytes
  ir_Architecture :: bytes
  ir_BinaryPath :: bytes
  ir_BinaryBytes :: int
  ir_BinarySHA256 :: bytes
  ir_LicenseBytes :: int
  ir_LicenseSHA256 :: bytes
  ir_NoticeBytes :: int
  ir_NoticeSHA256 :: bytes

definition maxArtifactBytes :: int where
  "maxArtifactBytes = 256 * 1024 * 1024"

definition maxReleaseFileBytes :: int where
  "maxReleaseFileBytes = 4 * 1024 * 1024"

definition validate_release :: "Layout \<Rightarrow> InstalledRelease \<Rightarrow> bool" where
  "validate_release layout r =
     (Valid (ir_Release r) \<and>
      sourceRevisionPattern (ir_SourceRevision r) \<and> toolchainPattern (ir_BuildToolchain r) \<and>
      hexDigestPattern (ir_BuildIdentity r) \<and> hexDigestPattern (ir_ManifestSHA256 r) \<and>
      hexDigestPattern (ir_BinarySHA256 r) \<and>
      ir_ProtocolVersion r = ''1'' \<and> ir_StorageSchema r = ''1'' \<and>
      (case BinaryPath layout (ir_Release r) \<lparr>target_OS = ir_OS r, target_Architecture = ir_Architecture r\<rparr> of
         None \<Rightarrow> False
       | Some wantPath \<Rightarrow> ir_BinaryPath r = wantPath \<and> IsAbs (ir_BinaryPath r) \<and>
           Clean (ir_BinaryPath r) = ir_BinaryPath r) \<and>
      \<not> (ir_BinaryBytes r \<le> 0 \<or> ir_BinaryBytes r > maxArtifactBytes) \<and>
      \<not> (ir_LicenseBytes r \<le> 0 \<or> ir_LicenseBytes r > maxReleaseFileBytes \<or>
         ir_NoticeBytes r \<le> 0 \<or> ir_NoticeBytes r > maxReleaseFileBytes) \<and>
      hexDigestPattern (ir_LicenseSHA256 r) \<and> hexDigestPattern (ir_NoticeSHA256 r))"

definition SupportFilePath :: "Layout \<Rightarrow> InstalledRelease \<Rightarrow> bytes \<Rightarrow> bytes option" where
  "SupportFilePath layout r name =
     (if name \<noteq> ''LICENSE'' \<and> name \<noteq> ''NOTICE'' then None
      else case VersionDir layout (ir_Release r) of None \<Rightarrow> None
        | Some versionDir \<Rightarrow> Some (Join [versionDir, name]))"

definition ValidateReleaseIdentity :: "build_identity \<Rightarrow> InstalledRelease \<Rightarrow> bool" where
  "ValidateReleaseIdentity i expected \<longleftrightarrow>
     bi_release i = ir_Release expected \<and> bi_source_revision i = ir_SourceRevision expected \<and>
     bi_build_toolchain i = ir_BuildToolchain expected \<and> bi_build_identity i = ir_BuildIdentity expected \<and>
     bi_protocol_version i = ir_ProtocolVersion expected \<and> bi_storage_schema i = ir_StorageSchema expected \<and>
     Valid (bi_release i) \<and> sourceRevisionPattern (bi_source_revision i) \<and>
     toolchainPattern (bi_build_toolchain i) \<and> hexDigestPattern (bi_build_identity i) \<and>
     bi_protocol_version i = ''1'' \<and> bi_storage_schema i = ''1''"

section \<open>Deployment states\<close>

datatype DeploymentStatus = StatusActive | StatusForeground | StatusUninstalled | StatusOther bytes

datatype ManagerKind = ManagerNone | ManagerForeground | ManagerSystemd | ManagerLaunchd | ManagerOther bytes

record DeploymentState =
  ds_StateVersion :: int
  ds_Generation :: uint64
  ds_Status :: DeploymentStatus
  ds_Manager :: ManagerKind
  ds_StateDir :: bytes
  ds_ServiceDefinition :: bytes
  ds_Active :: "InstalledRelease option"
  ds_Previous :: "InstalledRelease option"

definition DeploymentStateVersion :: int where
  "DeploymentStateVersion = 1"

definition validate_opt :: "Layout \<Rightarrow> InstalledRelease option \<Rightarrow> bool" where
  "validate_opt layout r = (case r of None \<Rightarrow> True | Some x \<Rightarrow> validate_release layout x)"

definition validate_state :: "Layout \<Rightarrow> DeploymentState \<Rightarrow> bool" where
  "validate_state layout s =
     (\<not> (ds_StateVersion s \<noteq> DeploymentStateVersion \<or> ds_Generation s = 0) \<and>
      ds_StateDir s = StateDir layout \<and>
      validate_opt layout (ds_Active s) \<and> validate_opt layout (ds_Previous s) \<and>
      (case (ds_Active s, ds_Previous s) of
         (Some a, Some p) \<Rightarrow> ir_ManifestSHA256 a \<noteq> ir_ManifestSHA256 p | _ \<Rightarrow> True) \<and>
      (case ds_Status s of
         StatusActive \<Rightarrow>
           (case ds_Active s of None \<Rightarrow> False
            | Some a \<Rightarrow> (ds_Manager s = ManagerSystemd \<or> ds_Manager s = ManagerLaunchd) \<and>
                ds_ServiceDefinition s \<noteq> '''' \<and> canonicalAbsolutePath (ds_ServiceDefinition s) \<and>
                requireStrictDescendant (HomeDir layout) (ds_ServiceDefinition s) \<and>
                (ds_Manager s = ManagerSystemd) = (ir_OS a = ''linux'') \<and>
                (ds_Manager s = ManagerLaunchd) = (ir_OS a = ''darwin''))
       | StatusForeground \<Rightarrow>
           ds_Active s \<noteq> None \<and> ds_Manager s = ManagerForeground \<and> ds_ServiceDefinition s = ''''
       | StatusUninstalled \<Rightarrow>
           ds_Active s = None \<and> ds_Manager s = ManagerNone \<and> ds_ServiceDefinition s = ''''
       | StatusOther _ \<Rightarrow> False))"

text \<open>Both compare every field, so they are equality (\<open>sameDeploymentState_iff\<close>).\<close>

definition sameInstalledRelease :: "InstalledRelease option \<Rightarrow> InstalledRelease option \<Rightarrow> bool" where
  "sameInstalledRelease first second =
     (case (first, second) of (Some a, Some b) \<Rightarrow> a = b | _ \<Rightarrow> first = None \<and> second = None)"

definition sameDeploymentState :: "DeploymentState \<Rightarrow> DeploymentState \<Rightarrow> bool" where
  "sameDeploymentState first second =
     (if ds_StateVersion first \<noteq> ds_StateVersion second \<or> ds_Generation first \<noteq> ds_Generation second \<or>
         ds_Status first \<noteq> ds_Status second \<or> ds_Manager first \<noteq> ds_Manager second \<or>
         ds_StateDir first \<noteq> ds_StateDir second \<or>
         ds_ServiceDefinition first \<noteq> ds_ServiceDefinition second then False
      else sameInstalledRelease (ds_Active first) (ds_Active second) \<and>
           sameInstalledRelease (ds_Previous first) (ds_Previous second))"

section \<open>Journals\<close>

datatype Operation = OperationApply | OperationRollback | OperationUninstall | OperationOther bytes

datatype Phase = PhasePlanned | PhaseArtifactStaged | PhaseInstanceReady | PhasePriorServiceStopped
  | PhaseDefinitionInstalled | PhaseActivated | PhaseHealthVerified | PhaseDefinitionRemoved
  | PhaseRemovingArtifacts | PhaseArtifactsRemoved | PhaseCommitting | PhaseStateSaved | PhaseOther bytes

record DeploymentJournal =
  dj_StateVersion :: int
  dj_TransactionID :: bytes
  dj_Operation :: Operation
  dj_Phase :: Phase
  dj_Manager :: ManagerKind
  dj_ServiceDefinition :: bytes
  dj_SourcePath :: bytes
  dj_LicenseSourcePath :: bytes
  dj_NoticeSourcePath :: bytes
  dj_Desired :: "InstalledRelease option"
  dj_PriorState :: "DeploymentState option"

definition transactionIDPattern :: "bytes \<Rightarrow> bool" where
  "transactionIDPattern s \<longleftrightarrow> length s = 32 \<and> list_all lower_hex s"

definition applyOrder :: "Phase list" where
  "applyOrder = [PhasePlanned, PhaseArtifactStaged, PhaseInstanceReady, PhasePriorServiceStopped,
     PhaseDefinitionInstalled, PhaseActivated, PhaseHealthVerified, PhaseCommitting, PhaseStateSaved]"

definition rollbackOrder :: "Phase list" where
  "rollbackOrder = [PhasePlanned, PhasePriorServiceStopped, PhaseDefinitionInstalled, PhaseActivated,
     PhaseHealthVerified, PhaseCommitting, PhaseStateSaved]"

definition uninstallOrder :: "Phase list" where
  "uninstallOrder = [PhasePlanned, PhasePriorServiceStopped, PhaseDefinitionRemoved, PhaseRemovingArtifacts,
     PhaseArtifactsRemoved, PhaseCommitting, PhaseStateSaved]"

definition allowed_phase :: "Operation \<Rightarrow> Phase \<Rightarrow> bool" where
  "allowed_phase op p =
     (case op of OperationApply \<Rightarrow> p \<in> set applyOrder
      | OperationRollback \<Rightarrow> p \<in> set rollbackOrder
      | OperationUninstall \<Rightarrow> p \<in> set uninstallOrder
      | OperationOther _ \<Rightarrow> False)"

definition validate_journal_inputs :: "DeploymentJournal \<Rightarrow> bool" where
  "validate_journal_inputs j =
     (if dj_Operation j = OperationApply then
        canonicalAbsolutePath (dj_SourcePath j) \<and> canonicalAbsolutePath (dj_LicenseSourcePath j) \<and>
        canonicalAbsolutePath (dj_NoticeSourcePath j) \<and>
        \<not> (dj_SourcePath j = dj_LicenseSourcePath j \<or> dj_SourcePath j = dj_NoticeSourcePath j \<or>
           dj_LicenseSourcePath j = dj_NoticeSourcePath j)
      else dj_SourcePath j = '''' \<and> dj_LicenseSourcePath j = '''' \<and> dj_NoticeSourcePath j = '''')"

definition validate_journal_manager :: "Layout \<Rightarrow> DeploymentJournal \<Rightarrow> bool" where
  "validate_journal_manager layout j =
     (case dj_Desired j of
        Some desired \<Rightarrow>
          (case dj_Manager j of
             ManagerForeground \<Rightarrow> dj_ServiceDefinition j = ''''
           | ManagerSystemd \<Rightarrow> ir_OS desired = ''linux'' \<and> canonicalAbsolutePath (dj_ServiceDefinition j)
           | ManagerLaunchd \<Rightarrow> ir_OS desired = ''darwin'' \<and> canonicalAbsolutePath (dj_ServiceDefinition j)
           | _ \<Rightarrow> False) \<and>
          (dj_ServiceDefinition j \<noteq> '''' \<longrightarrow>
             requireStrictDescendant (HomeDir layout) (dj_ServiceDefinition j))
      | None \<Rightarrow> \<not> (dj_Manager j \<noteq> ManagerNone \<and>
          (case dj_PriorState j of None \<Rightarrow> True | Some prior \<Rightarrow> dj_Manager j \<noteq> ds_Manager prior)))"

definition validate_journal :: "Layout \<Rightarrow> DeploymentJournal \<Rightarrow> bool" where
  "validate_journal layout j =
     (dj_StateVersion j = DeploymentStateVersion \<and> transactionIDPattern (dj_TransactionID j) \<and>
      validate_opt layout (dj_Desired j) \<and>
      (case dj_PriorState j of None \<Rightarrow> True | Some prior \<Rightarrow> validate_state layout prior) \<and>
      allowed_phase (dj_Operation j) (dj_Phase j) \<and>
      (dj_Operation j = OperationApply \<or> dj_Operation j = OperationRollback) = (dj_Desired j \<noteq> None) \<and>
      validate_journal_inputs j \<and> validate_journal_manager layout j \<and>
      \<not> (dj_Operation j = OperationRollback \<and>
          (case dj_PriorState j of None \<Rightarrow> True | Some prior \<Rightarrow> ds_Active prior = None)) \<and>
      \<not> (dj_Operation j = OperationUninstall \<and> dj_PriorState j = None))"

section \<open>The order of the phases\<close>

text \<open>The loop keeps the last index at which a phase occurs; \<open>-1\<close> where it does not.\<close>

definition phase_rank :: "Phase list \<Rightarrow> Phase \<Rightarrow> int" where
  "phase_rank order p = foldl (\<lambda>rank (index, phase). if p = phase then int index else rank) (-1) (enumerate 0 order)"

definition phaseReached :: "Phase list \<Rightarrow> Phase \<Rightarrow> Phase \<Rightarrow> bool" where
  "phaseReached order current target \<longleftrightarrow>
     phase_rank order current \<ge> phase_rank order target \<and> phase_rank order target \<ge> 0"

definition applyPhaseReached :: "Phase \<Rightarrow> Phase \<Rightarrow> bool" where
  "applyPhaseReached = phaseReached applyOrder"

definition rollbackPhaseReached :: "Phase \<Rightarrow> Phase \<Rightarrow> bool" where
  "rollbackPhaseReached = phaseReached rollbackOrder"

definition uninstallPhaseReached :: "Phase \<Rightarrow> Phase \<Rightarrow> bool" where
  "uninstallPhaseReached = phaseReached uninstallOrder"

section \<open>Committed states\<close>

text \<open>The dereferences of a journal's pointers are total functions of the parts: \<open>None\<close> of
  \<open>committed\<close> is the nil dereference, which a valid journal excludes.\<close>

definition switch_state :: "Layout \<Rightarrow> DeploymentJournal \<Rightarrow> uint64 \<Rightarrow> InstalledRelease \<Rightarrow>
    InstalledRelease option \<Rightarrow> DeploymentState" where
  "switch_state layout j generation desired previous =
     \<lparr>ds_StateVersion = DeploymentStateVersion, ds_Generation = generation,
      ds_Status = (if dj_Manager j = ManagerForeground then StatusForeground else StatusActive),
      ds_Manager = dj_Manager j, ds_StateDir = StateDir layout,
      ds_ServiceDefinition = dj_ServiceDefinition j, ds_Active = Some desired, ds_Previous = previous\<rparr>"

definition committedApplyState :: "Layout \<Rightarrow> DeploymentJournal \<Rightarrow> DeploymentState option" where
  "committedApplyState layout j =
     (case dj_Desired j of None \<Rightarrow> None
      | Some desired \<Rightarrow>
        (case dj_PriorState j of
           None \<Rightarrow> Some (switch_state layout j 1 desired None)
         | Some prior \<Rightarrow> Some (switch_state layout j (ds_Generation prior + 1) desired
             (case ds_Active prior of None \<Rightarrow> None
              | Some active \<Rightarrow> if ir_ManifestSHA256 active \<noteq> ir_ManifestSHA256 desired then Some active
                  else ds_Previous prior))))"

definition committedRollbackState :: "Layout \<Rightarrow> DeploymentJournal \<Rightarrow> DeploymentState option" where
  "committedRollbackState layout j =
     (case (dj_Desired j, dj_PriorState j) of
        (Some desired, Some prior) \<Rightarrow>
          (case ds_Active prior of None \<Rightarrow> None
           | Some priorActive \<Rightarrow>
               Some (switch_state layout j (ds_Generation prior + 1) desired (Some priorActive)))
      | _ \<Rightarrow> None)"

definition committedUninstallState :: "Layout \<Rightarrow> DeploymentJournal \<Rightarrow> DeploymentState option" where
  "committedUninstallState layout j =
     (case dj_PriorState j of None \<Rightarrow> None
      | Some prior \<Rightarrow> Some \<lparr>ds_StateVersion = DeploymentStateVersion, ds_Generation = ds_Generation prior + 1,
          ds_Status = StatusUninstalled, ds_Manager = ManagerNone, ds_StateDir = StateDir layout,
          ds_ServiceDefinition = '''', ds_Active = None, ds_Previous = ds_Active prior\<rparr>)"

section \<open>Receipts\<close>

record ForegroundFallback =
  ff_Required :: bool
  ff_Reason :: bytes
  ff_Command :: "bytes list"
  ff_Supervised :: bool

record DeploymentLocator =
  dl_Version :: bytes
  dl_LifecycleBinaryPath :: bytes
  dl_HomeDir :: bytes
  dl_InstallRoot :: bytes
  dl_StateDir :: bytes
  dl_Release :: bytes
  dl_OS :: bytes
  dl_Architecture :: bytes
  dl_ManifestSHA256 :: bytes
  dl_BinarySHA256 :: bytes
  dl_BinaryBytes :: int

record ApplyResult =
  ar_Status :: bytes
  ar_DeploymentLocator :: DeploymentLocator
  ar_State :: DeploymentState
  ar_Foreground :: "ForegroundFallback option"
  ar_TransactionID :: bytes

definition foregroundForRelease ::
    "Layout \<Rightarrow> ManagerKind \<Rightarrow> InstalledRelease option \<Rightarrow> ForegroundFallback option" where
  "foregroundForRelease layout manager desired =
     (case desired of None \<Rightarrow> None
      | Some r \<Rightarrow> if manager \<noteq> ManagerForeground then None
          else Some \<lparr>ff_Required = True, ff_Reason = ''user_service_manager_unavailable'',
            ff_Command = [ir_BinaryPath r, ''serve'', ''--state-dir'', StateDir layout], ff_Supervised = True\<rparr>)"

definition foregroundFor :: "Layout \<Rightarrow> DeploymentJournal \<Rightarrow> ForegroundFallback option" where
  "foregroundFor layout j = foregroundForRelease layout (dj_Manager j) (dj_Desired j)"

definition deploymentLocatorForState :: "Layout \<Rightarrow> DeploymentState \<Rightarrow> DeploymentLocator option" where
  "deploymentLocatorForState layout s =
     (if NewLayout (HomeDir layout) (InstallRoot layout) (StateDir layout) \<noteq> Some layout then None
      else if \<not> validate_state layout s then None
      else case ds_Active s of None \<Rightarrow> None
        | Some active \<Rightarrow>
          if ds_Status s \<noteq> StatusActive \<and> ds_Status s \<noteq> StatusForeground then None
          else if \<not> requireStrictDescendant (VersionsDir layout) (ir_BinaryPath active) then None
          else case BinaryPath layout (ir_Release active)
                 \<lparr>target_OS = ir_OS active, target_Architecture = ir_Architecture active\<rparr> of
              None \<Rightarrow> None
            | Some expectedPath \<Rightarrow>
              if ir_BinaryPath active \<noteq> expectedPath \<or> ir_BinaryBytes active \<le> 0 \<or>
                 ir_BinaryBytes active > maxArtifactBytes \<or> \<not> hexDigestPattern (ir_ManifestSHA256 active) \<or>
                 \<not> hexDigestPattern (ir_BinarySHA256 active) then None
              else Some \<lparr>dl_Version = ''1'', dl_LifecycleBinaryPath = ir_BinaryPath active,
                dl_HomeDir = HomeDir layout, dl_InstallRoot = InstallRoot layout, dl_StateDir = StateDir layout,
                dl_Release = ir_Release active, dl_OS = ir_OS active, dl_Architecture = ir_Architecture active,
                dl_ManifestSHA256 = ir_ManifestSHA256 active, dl_BinarySHA256 = ir_BinarySHA256 active,
                dl_BinaryBytes = ir_BinaryBytes active\<rparr>)"

definition resultForState ::
    "Layout \<Rightarrow> DeploymentState \<Rightarrow> ForegroundFallback option \<Rightarrow> bytes \<Rightarrow> ApplyResult option" where
  "resultForState layout s foreground transactionID =
     (case deploymentLocatorForState layout s of None \<Rightarrow> None
      | Some locator \<Rightarrow> Some \<lparr>ar_Status = (if ds_Status s = StatusForeground then ''foreground_required'' else ''active''),
          ar_DeploymentLocator = locator, ar_State = s, ar_Foreground = foreground,
          ar_TransactionID = transactionID\<rparr>)"

section \<open>Equality of states\<close>

lemma sameInstalledRelease_iff [simp]: "sameInstalledRelease a b \<longleftrightarrow> a = b"
  by (cases a; cases b) (auto simp: sameInstalledRelease_def)

lemma sameDeploymentState_iff [simp]: "sameDeploymentState a b \<longleftrightarrow> a = b"
  by (cases a; cases b) (auto simp: sameDeploymentState_def)

section \<open>What a transaction commits\<close>

definition committed :: "Layout \<Rightarrow> DeploymentJournal \<Rightarrow> DeploymentState option" where
  "committed layout j =
     (case dj_Operation j of OperationApply \<Rightarrow> committedApplyState layout j
      | OperationRollback \<Rightarrow> committedRollbackState layout j
      | OperationUninstall \<Rightarrow> committedUninstallState layout j
      | OperationOther _ \<Rightarrow> None)"

lemma committed_phase [simp]:
  "committedApplyState l (j\<lparr>dj_Phase := p\<rparr>) = committedApplyState l j"
  "committedRollbackState l (j\<lparr>dj_Phase := p\<rparr>) = committedRollbackState l j"
  "committedUninstallState l (j\<lparr>dj_Phase := p\<rparr>) = committedUninstallState l j"
  "committed l (j\<lparr>dj_Phase := p\<rparr>) = committed l j"
  by (auto simp: committedApplyState_def committedRollbackState_def committedUninstallState_def committed_def
      switch_state_def split: option.splits Operation.splits)

lemma committed_exists: "validate_journal l j \<Longrightarrow> \<exists>s. committed l j = Some s"
  by (auto simp: validate_journal_def committed_def committedApplyState_def committedRollbackState_def
      committedUninstallState_def allowed_phase_def split: option.splits Operation.splits)

lemma committed_generation:
  assumes "committed l j = Some s"
  shows "ds_Generation s = (case dj_PriorState j of None \<Rightarrow> 1 | Some prior \<Rightarrow> ds_Generation prior + 1)"
  using assms by (auto simp: committed_def committedApplyState_def committedRollbackState_def
      committedUninstallState_def switch_state_def split: option.splits Operation.splits)

text \<open>A journal that a switch of releases wrote: a rollback goes to the previous release.\<close>

definition switches_back :: "DeploymentJournal \<Rightarrow> bool" where
  "switches_back j = (case (dj_Operation j, dj_PriorState j) of
     (OperationRollback, Some prior) \<Rightarrow> dj_Desired j = ds_Previous prior | _ \<Rightarrow> True)"

lemma switch_state_valid:
  assumes "validate_journal_manager l j" and "dj_Desired j = Some desired" and "validate_release l desired"
    and "generation \<noteq> 0" and "validate_opt l previous"
    and "\<And>p. previous = Some p \<Longrightarrow> ir_ManifestSHA256 desired \<noteq> ir_ManifestSHA256 p"
  shows "validate_state l (switch_state l j generation desired previous)"
  using assms by (cases "dj_Manager j")
    (auto simp: validate_state_def switch_state_def validate_journal_manager_def validate_opt_def
      canonicalAbsolutePath_def split: option.splits)

lemma validate_stateD:
  assumes "validate_state l s"
  shows "validate_opt l (ds_Active s)" "validate_opt l (ds_Previous s)"
    "ds_Active s = Some a \<Longrightarrow> ds_Previous s = Some p \<Longrightarrow> ir_ManifestSHA256 a \<noteq> ir_ManifestSHA256 p"
  using assms by (auto simp: validate_state_def)

lemma committed_apply_valid:
  assumes v: "validate_journal l j" and c: "committedApplyState l j = Some s" and g: "ds_Generation s \<noteq> 0"
  shows "validate_state l s"
proof -
  obtain d where d: "dj_Desired j = Some d" using c by (auto simp: committedApplyState_def split: option.splits)
  have vd: "validate_release l d" and m: "validate_journal_manager l j"
    using v d by (auto simp: validate_journal_def validate_opt_def)
  show ?thesis
  proof (cases "dj_PriorState j")
    case None
    then show ?thesis using c d switch_state_valid[OF m d vd, of 1 None]
      by (simp add: committedApplyState_def validate_opt_def)
  next
    case (Some prior)
    let ?prev = "case ds_Active prior of None \<Rightarrow> None
      | Some active \<Rightarrow> if ir_ManifestSHA256 active \<noteq> ir_ManifestSHA256 d then Some active else ds_Previous prior"
    have p: "validate_state l prior" using v Some by (simp add: validate_journal_def)
    have s: "s = switch_state l j (ds_Generation prior + 1) d ?prev"
      using c d Some by (simp add: committedApplyState_def)
    have "validate_opt l ?prev" using validate_stateD[OF p] by (auto simp: validate_opt_def split: option.splits)
    moreover have "ir_ManifestSHA256 d \<noteq> ir_ManifestSHA256 q" if "?prev = Some q" for q
      using that validate_stateD(3)[OF p] by (auto split: option.splits if_splits)
    ultimately show ?thesis
      unfolding s using switch_state_valid[OF m d vd] g s by (simp add: switch_state_def)
  qed
qed

lemma committed_rollback_valid:
  assumes v: "validate_journal l j" and c: "committedRollbackState l j = Some s" and g: "ds_Generation s \<noteq> 0"
    and op: "dj_Operation j = OperationRollback" and sb: "switches_back j"
  shows "validate_state l s"
proof -
  obtain d prior a where d: "dj_Desired j = Some d" "dj_PriorState j = Some prior" "ds_Active prior = Some a"
    and s: "s = switch_state l j (ds_Generation prior + 1) d (Some a)"
    using c by (auto simp: committedRollbackState_def split: option.splits)
  have vd: "validate_release l d" and m: "validate_journal_manager l j" and p: "validate_state l prior"
    using v d by (auto simp: validate_journal_def validate_opt_def)
  have "ds_Previous prior = Some d" using sb op d by (simp add: switches_back_def)
  then show ?thesis
    unfolding s using switch_state_valid[OF m d(1) vd, of "ds_Generation prior + 1" "Some a"] g s d(3)
      validate_stateD(1)[OF p] validate_stateD(3)[OF p d(3)] by (fastforce simp: switch_state_def)
qed

lemma committed_uninstall_valid:
  assumes v: "validate_journal l j" and c: "committedUninstallState l j = Some s" and g: "ds_Generation s \<noteq> 0"
  shows "validate_state l s"
proof -
  obtain prior where prior: "dj_PriorState j = Some prior"
    using c by (auto simp: committedUninstallState_def split: option.splits)
  have "validate_state l prior" using v prior by (simp add: validate_journal_def)
  from validate_stateD(1)[OF this] show ?thesis
    using c g prior by (auto simp: committedUninstallState_def validate_state_def validate_opt_def split: option.splits)
qed

lemma committed_valid:
  assumes "validate_journal l j" and "switches_back j" and "committed l j = Some s" and "ds_Generation s \<noteq> 0"
  shows "validate_state l s"
  using assms committed_apply_valid committed_rollback_valid committed_uninstall_valid
  by (cases "dj_Operation j") (auto simp: committed_def)

lemma validate_release_path:
  assumes "validate_release l r"
  shows "BinaryPath l (ir_Release r) \<lparr>target_OS = ir_OS r, target_Architecture = ir_Architecture r\<rparr>
    = Some (ir_BinaryPath r)"
  using assms by (auto simp: validate_release_def split: option.splits)

lemma locator_exists:
  assumes "layout_shape l" and v: "validate_state l s" and a: "ds_Active s = Some a"
  shows "\<exists>r. resultForState l s f t = Some r \<and> ar_State r = s \<and> ar_TransactionID r = t"
proof -
  have r: "validate_release l a" using validate_stateD(1)[OF v] a by (simp add: validate_opt_def)
  have st: "ds_Status s = StatusActive \<or> ds_Status s = StatusForeground"
    using v a by (auto simp: validate_state_def split: DeploymentStatus.splits)
  have d: "requireStrictDescendant (VersionsDir l) (ir_BinaryPath a)"
    using BinaryPath_canonical(2)[OF assms(1) validate_release_path[OF r]] .
  have b: "\<not> ir_BinaryBytes a \<le> 0" "\<not> ir_BinaryBytes a > maxArtifactBytes"
    "hexDigestPattern (ir_ManifestSHA256 a)" "hexDigestPattern (ir_BinarySHA256 a)"
    using r unfolding validate_release_def by blast+
  have "NewLayout (HomeDir l) (InstallRoot l) (StateDir l) = Some l"
    using assms(1) by (simp only: layout_shape_def)
  note facts = this v a d b validate_release_path[OF r]
  have "deploymentLocatorForState l s \<noteq> None"
    unfolding deploymentLocatorForState_def using st
    by (elim disjE) (simp_all only: facts option.case if_False if_True simp_thms DeploymentStatus.distinct option.distinct)
  then show ?thesis by (auto simp: resultForState_def)
qed

section \<open>Phases\<close>

lemma phase_rank_simps:
  "phase_rank applyOrder p = (case p of PhasePlanned \<Rightarrow> 0 | PhaseArtifactStaged \<Rightarrow> 1 | PhaseInstanceReady \<Rightarrow> 2
     | PhasePriorServiceStopped \<Rightarrow> 3 | PhaseDefinitionInstalled \<Rightarrow> 4 | PhaseActivated \<Rightarrow> 5
     | PhaseHealthVerified \<Rightarrow> 6 | PhaseCommitting \<Rightarrow> 7 | PhaseStateSaved \<Rightarrow> 8 | _ \<Rightarrow> -1)"
  "phase_rank rollbackOrder p = (case p of PhasePlanned \<Rightarrow> 0
     | PhasePriorServiceStopped \<Rightarrow> 1 | PhaseDefinitionInstalled \<Rightarrow> 2 | PhaseActivated \<Rightarrow> 3
     | PhaseHealthVerified \<Rightarrow> 4 | PhaseCommitting \<Rightarrow> 5 | PhaseStateSaved \<Rightarrow> 6 | _ \<Rightarrow> -1)"
  "phase_rank uninstallOrder p = (case p of PhasePlanned \<Rightarrow> 0
     | PhasePriorServiceStopped \<Rightarrow> 1 | PhaseDefinitionRemoved \<Rightarrow> 2 | PhaseRemovingArtifacts \<Rightarrow> 3
     | PhaseArtifactsRemoved \<Rightarrow> 4 | PhaseCommitting \<Rightarrow> 5 | PhaseStateSaved \<Rightarrow> 6 | _ \<Rightarrow> -1)"
  by (cases p; simp add: phase_rank_def applyOrder_def rollbackOrder_def uninstallOrder_def)+

lemmas phase_reached_simps =
  applyPhaseReached_def rollbackPhaseReached_def uninstallPhaseReached_def phaseReached_def phase_rank_simps

lemma in_order [simp]:
  "p \<in> set applyOrder \<longleftrightarrow> phase_rank applyOrder p \<ge> 0"
  "p \<in> set rollbackOrder \<longleftrightarrow> phase_rank rollbackOrder p \<ge> 0"
  "p \<in> set uninstallOrder \<longleftrightarrow> phase_rank uninstallOrder p \<ge> 0"
  unfolding phase_rank_simps by (cases p; simp add: applyOrder_def rollbackOrder_def uninstallOrder_def)+

lemma allowed_phase_iff [simp]:
  "allowed_phase OperationApply p \<longleftrightarrow> phase_rank applyOrder p \<ge> 0"
  "allowed_phase OperationRollback p \<longleftrightarrow> phase_rank rollbackOrder p \<ge> 0"
  "allowed_phase OperationUninstall p \<longleftrightarrow> phase_rank uninstallOrder p \<ge> 0"
  "\<not> allowed_phase (OperationOther b) p"
  by (simp_all add: allowed_phase_def)

end
