(* ===== verification/Effects.thy ===== *)
theory Effects
  imports Prelude
begin

text \<open>
  Operations on a machine: the errors of \<^verbatim>\<open>deployment\<close>, \<^verbatim>\<open>config\<close> and \<^verbatim>\<open>instance\<close> that the code inspects with
  \<^verbatim>\<open>errors.Is\<close> (every other error is its abbreviated text), and the sequencing of calls that return a
  value, fail, or never return because the machine stops.

  An \<open>('s, 'a) action\<close> maps a state to a state and a \<open>reply\<close>; \<open>bindD\<close> is sequencing with early return and
  \<open>attemptD\<close> hands an error to the code that looks at it. An \<open>effect\<close> is the outcome of an atomic write,
  which may be reported as failed, or be the last thing that happens, before or after it took effect.

  \<open>triple P m Q E\<close> is partial correctness with the postcondition \<open>E\<close> for runs that fail or stop, \<open>yields m A\<close>
  that a computation returns a value in \<open>A\<close> from every state, \<open>safe P m\<close> that it returns from every state in
  \<open>P\<close>, and \<open>runs P m Q\<close> total correctness.
\<close>

section \<open>Errors and replies\<close>

datatype deploy_error = ErrInjectedDeploymentCrash | ErrDeploymentPreviewConfirmationMismatch
  | ErrRuntimeUnavailable | ErrNotExist | ErrExist | ErrUninitialized
  | ErrNoDeploymentState | ErrNoDeploymentJournal | ErrInstalledReleaseFilesMissing
  | Err bytes | Wrapped bytes deploy_error | Joined deploy_error deploy_error

fun errorsIs :: "deploy_error \<Rightarrow> deploy_error \<Rightarrow> bool" where
  "errorsIs (Wrapped m e) t = (Wrapped m e = t \<or> errorsIs e t)"
| "errorsIs (Joined a b) t = (Joined a b = t \<or> errorsIs a t \<or> errorsIs b t)"
| "errorsIs e t = (e = t)"

datatype 'a reply = Done 'a | Fail deploy_error | Crashed

datatype effect = Succeeded | FailedBefore deploy_error | FailedAfter deploy_error | CrashedBefore | CrashedAfter

datatype 'v stored = Absent | Damaged | Stored 'v

type_synonym ('s, 'a) action = "'s \<Rightarrow> 's \<times> 'a reply"

section \<open>Sequencing\<close>

definition returnD :: "'a \<Rightarrow> ('s, 'a) action" where
  "returnD a h = (h, Done a)"

definition failD :: "deploy_error \<Rightarrow> ('s, 'a) action" where
  "failD e h = (h, Fail e)"

definition bindD :: "('s, 'a) action \<Rightarrow> ('a \<Rightarrow> ('s, 'b) action) \<Rightarrow> ('s, 'b) action" where
  "bindD m f h = (case m h of (h', Done a) \<Rightarrow> f a h' | (h', Fail e) \<Rightarrow> (h', Fail e) | (h', Crashed) \<Rightarrow> (h', Crashed))"

definition guardD :: "bool \<Rightarrow> bytes \<Rightarrow> ('s, unit) action" where
  "guardD b msg = (if b then returnD () else failD (Err msg))"

definition optD :: "bytes \<Rightarrow> 'a option \<Rightarrow> ('s, 'a) action" where
  "optD msg x = (case x of None \<Rightarrow> failD (Err msg) | Some a \<Rightarrow> returnD a)"

definition whenD :: "bool \<Rightarrow> ('s, unit) action \<Rightarrow> ('s, unit) action" where
  "whenD b m = (if b then m else returnD ())"

text \<open>\<open>attemptD\<close> hands the error of a call to the code that looks at it.\<close>

definition attemptD :: "('s, 'a) action \<Rightarrow> ('s, deploy_error + 'a) action" where
  "attemptD m h = (case m h of (h', Done a) \<Rightarrow> (h', Done (Inr a)) | (h', Fail e) \<Rightarrow> (h', Done (Inl e))
     | (h', Crashed) \<Rightarrow> (h', Crashed))"

definition wrapD :: "bytes \<Rightarrow> ('s, 'a) action \<Rightarrow> ('s, 'a) action" where
  "wrapD msg m = bindD (attemptD m) (\<lambda>r. case r of Inl e \<Rightarrow> failD (Wrapped msg e) | Inr a \<Rightarrow> returnD a)"

section \<open>Triples\<close>

definition triple :: "('s \<Rightarrow> bool) \<Rightarrow> ('s, 'a) action \<Rightarrow> ('a \<Rightarrow> 's \<Rightarrow> bool) \<Rightarrow> ('s \<Rightarrow> bool) \<Rightarrow> bool" where
  "triple P m Q E \<longleftrightarrow> (\<forall>h. P h \<longrightarrow> (case m h of (h', Done a) \<Rightarrow> Q a h' | (h', _) \<Rightarrow> E h'))"

lemma tripleI: "(\<And>h h' r. P h \<Longrightarrow> m h = (h', r) \<Longrightarrow> (case r of Done a \<Rightarrow> Q a h' | _ \<Rightarrow> E h')) \<Longrightarrow> triple P m Q E"
  by (fastforce simp: triple_def split: prod.splits reply.splits)

lemma tripleD: "triple P m Q E \<Longrightarrow> P h \<Longrightarrow> m h = (h', r) \<Longrightarrow> (case r of Done a \<Rightarrow> Q a h' | _ \<Rightarrow> E h')"
  by (fastforce simp: triple_def split: prod.splits reply.splits)

lemma triple_bind:
  assumes "triple P m R E" and "\<And>a. triple (R a) (f a) Q E"
  shows "triple P (bindD m f) Q E"
proof (rule tripleI)
  fix h h' r assume h: "P h" "bindD m f h = (h', r)"
  obtain h1 r1 where m: "m h = (h1, r1)" by fastforce
  show "case r of Done a \<Rightarrow> Q a h' | _ \<Rightarrow> E h'"
    using tripleD[OF assms(1) h(1) m] tripleD[OF assms(2)] m h(2)
    by (cases r1) (auto simp: bindD_def)
qed

lemma triple_seq:
  assumes "triple P m R F" and "\<And>h. F h \<Longrightarrow> E h" and "\<And>a. triple (R a) (f a) Q E"
  shows "triple P (bindD m f) Q E"
proof (rule triple_bind[OF _ assms(3)])
  show "triple P m R E" using assms(1,2) unfolding triple_def by (fastforce split: prod.splits reply.splits)
qed

lemma triple_conseq:
  assumes "triple P m Q E" and "\<And>h. P' h \<Longrightarrow> P h" and "\<And>a h. Q a h \<Longrightarrow> Q' a h" and "\<And>h. E h \<Longrightarrow> E' h"
  shows "triple P' m Q' E'"
  using assms unfolding triple_def by (fastforce split: prod.splits reply.splits)

lemma triple_pre: "triple P m Q E \<Longrightarrow> (\<And>h. P' h \<Longrightarrow> P h) \<Longrightarrow> triple P' m Q E"
  by (rule triple_conseq)

lemma triple_return: "(\<And>h. P h \<Longrightarrow> Q a h) \<Longrightarrow> triple P (returnD a) Q E"
  by (auto simp: triple_def returnD_def)

lemma triple_fail: "(\<And>h. P h \<Longrightarrow> E h) \<Longrightarrow> triple P (failD e) Q E"
  by (auto simp: triple_def failD_def)

lemma triple_opt:
  assumes "\<And>a. x = Some a \<Longrightarrow> triple P (f a) Q E" and "\<And>h. x = None \<Longrightarrow> P h \<Longrightarrow> E h"
  shows "triple P (bindD (optD msg x) f) Q E"
  using assms by (cases x) (auto simp: triple_def bindD_def optD_def failD_def returnD_def)

lemma triple_attempt:
  assumes "triple P m (\<lambda>a. Q (Inr a)) F" and "\<And>e h. F h \<Longrightarrow> Q (Inl e) h" and "\<And>h. F h \<Longrightarrow> E h"
  shows "triple P (attemptD m) Q E"
  using assms unfolding triple_def attemptD_def by (fastforce split: prod.splits reply.splits)

lemma triple_when:
  assumes "b \<Longrightarrow> triple P m (\<lambda>_. Q) E" and "\<And>h. \<not> b \<Longrightarrow> P h \<Longrightarrow> Q h"
  shows "triple P (whenD b m) (\<lambda>_. Q) E"
  using assms by (auto simp: whenD_def triple_return)

lemma triple_if:
  assumes "b \<Longrightarrow> triple P m Q E" and "\<not> b \<Longrightarrow> triple P n Q E"
  shows "triple P (if b then m else n) Q E"
  using assms by simp

section \<open>Computations that return\<close>

definition yields :: "('s, 'a) action \<Rightarrow> ('a \<Rightarrow> bool) \<Rightarrow> bool" where
  "yields m A \<longleftrightarrow> (\<forall>h. \<exists>h' a. m h = (h', Done a) \<and> A a)"

definition safe :: "('s \<Rightarrow> bool) \<Rightarrow> ('s, 'a) action \<Rightarrow> bool" where
  "safe P m \<longleftrightarrow> (\<forall>h. P h \<longrightarrow> (\<exists>h' a. m h = (h', Done a)))"

definition answers :: "('w, 'a) action \<Rightarrow> ('a \<Rightarrow> bool) \<Rightarrow> bool" where
  "answers f A \<longleftrightarrow> (\<forall>w. \<exists>w' a. f w = (w', Done a) \<and> A a)"

abbreviation responds :: "('w, 'a) action \<Rightarrow> bool" where
  "responds f \<equiv> answers f (\<lambda>_. True)"

named_theorems yields_intros \<open>computations that return\<close>

lemma yieldsI: "(\<And>h. \<exists>h' a. m h = (h', Done a) \<and> A a) \<Longrightarrow> yields m A"
  by (simp add: yields_def)

lemma yieldsE: "yields m A \<Longrightarrow> (\<And>h' a. m h = (h', Done a) \<Longrightarrow> A a \<Longrightarrow> thesis) \<Longrightarrow> thesis"
  unfolding yields_def by blast

lemma answersE: "answers f A \<Longrightarrow> (\<And>w' a. f w = (w', Done a) \<Longrightarrow> A a \<Longrightarrow> thesis) \<Longrightarrow> thesis"
  unfolding answers_def by blast

lemma yields_bind [yields_intros]: "yields m A \<Longrightarrow> (\<And>a. A a \<Longrightarrow> yields (f a) B) \<Longrightarrow> yields (bindD m f) B"
proof (rule yieldsI)
  fix h :: 'a assume m: "yields m A" and f: "\<And>a. A a \<Longrightarrow> yields (f a) B"
  obtain h1 a where a: "m h = (h1, Done a)" "A a" using m by (rule yieldsE)
  obtain h2 b where "f a h1 = (h2, Done b)" "B b" using f[OF a(2)] by (rule yieldsE)
  then show "\<exists>h' a. bindD m f h = (h', Done a) \<and> B a" using a by (simp add: bindD_def)
qed

lemma yields_weaken: "yields m A \<Longrightarrow> (\<And>a. A a \<Longrightarrow> B a) \<Longrightarrow> yields m B"
  by (fastforce simp: yields_def)

lemma yields_return [yields_intros]: "A a \<Longrightarrow> yields (returnD a) A"
  by (simp add: yields_def returnD_def)

lemma yields_guard [yields_intros]: "b \<Longrightarrow> yields (guardD b msg) (\<lambda>_. True)"
  by (simp add: guardD_def yields_return)

lemma yields_opt: "x = Some a \<Longrightarrow> yields (optD msg x) (\<lambda>b. b = a)"
  by (simp add: optD_def yields_return)

lemma yields_when [yields_intros]: "(b \<Longrightarrow> yields m (\<lambda>_. True)) \<Longrightarrow> yields (whenD b m) (\<lambda>_. True)"
  by (simp add: whenD_def yields_return)

lemma yields_attempt [yields_intros]: "yields m A \<Longrightarrow> yields (attemptD m) (\<lambda>r. \<exists>a. r = Inr a \<and> A a)"
proof (rule yieldsI)
  fix h :: 'a assume "yields m A"
  then obtain h' a where "m h = (h', Done a)" "A a" by (rule yieldsE)
  then show "\<exists>h' r. attemptD m h = (h', Done r) \<and> (\<exists>a. r = Inr a \<and> A a)" by (simp add: attemptD_def)
qed

lemma yields_safe: "yields m A \<Longrightarrow> safe P m"
  by (fastforce simp: yields_def safe_def)

lemma safe_bind:
  assumes "triple P m R E" and "safe P m" and "\<And>a. safe (R a) (f a)"
  shows "safe P (bindD m f)"
  unfolding safe_def
proof (intro allI impI)
  fix h assume h: "P h"
  then obtain h1 a where m: "m h = (h1, Done a)" using assms(2) by (auto simp: safe_def)
  moreover have "R a h1" using tripleD[OF assms(1) h m] by simp
  ultimately show "\<exists>h' b. bindD m f h = (h', Done b)" using assms(3)[of a] by (simp add: bindD_def safe_def)
qed

lemma safe_pre: "safe P m \<Longrightarrow> (\<And>h. P' h \<Longrightarrow> P h) \<Longrightarrow> safe P' m"
  by (simp add: safe_def)

lemma safe_opt: "(\<And>a. x = Some a \<Longrightarrow> safe P (f a)) \<Longrightarrow> x \<noteq> None \<Longrightarrow> safe P (bindD (optD msg x) f)"
  by (cases x) (auto simp: safe_def bindD_def optD_def returnD_def)

lemma safe_return: "safe P (returnD a)"
  by (simp add: safe_def returnD_def)

lemma safe_triple: "safe P m \<Longrightarrow> triple P m Q E \<Longrightarrow> P h \<Longrightarrow> \<exists>h' a. m h = (h', Done a) \<and> Q a h'"
  by (fastforce simp: safe_def dest: tripleD)

section \<open>Total correctness\<close>

definition runs :: "('s \<Rightarrow> bool) \<Rightarrow> ('s, 'a) action \<Rightarrow> ('a \<Rightarrow> 's \<Rightarrow> bool) \<Rightarrow> bool" where
  "runs P m Q \<longleftrightarrow> (\<forall>h. P h \<longrightarrow> (\<exists>h' a. m h = (h', Done a) \<and> Q a h'))"

lemma runsI: "(\<And>h. P h \<Longrightarrow> \<exists>h' a. m h = (h', Done a) \<and> Q a h') \<Longrightarrow> runs P m Q"
  by (simp add: runs_def)

lemma runsE: "runs P m Q \<Longrightarrow> P h \<Longrightarrow> (\<And>h' a. m h = (h', Done a) \<Longrightarrow> Q a h' \<Longrightarrow> thesis) \<Longrightarrow> thesis"
  unfolding runs_def by blast

lemma runs_bind:
  assumes "runs P m R" and "\<And>a. runs (R a) (f a) Q"
  shows "runs P (bindD m f) Q"
proof (rule runsI)
  fix h assume "P h"
  with assms(1) obtain h1 a where m: "m h = (h1, Done a)" "R a h1" by (rule runsE)
  from assms(2) m(2) obtain h2 b where "f a h1 = (h2, Done b)" "Q b h2" by (rule runsE)
  with m show "\<exists>h' b. bindD m f h = (h', Done b) \<and> Q b h'" by (simp add: bindD_def)
qed

lemma runs_conseq: "runs P m Q \<Longrightarrow> (\<And>h. P' h \<Longrightarrow> P h) \<Longrightarrow> (\<And>a h. Q a h \<Longrightarrow> Q' a h) \<Longrightarrow> runs P' m Q'"
  unfolding runs_def by blast

lemma runs_return: "(\<And>h. P h \<Longrightarrow> Q a h) \<Longrightarrow> runs P (returnD a) Q"
  by (simp add: runs_def returnD_def)

lemma runs_guard: "(\<And>h. P h \<Longrightarrow> b) \<Longrightarrow> runs P (guardD b msg) (\<lambda>_. P)"
  by (auto simp: runs_def guardD_def returnD_def)

lemma runs_opt: "(\<And>h. P h \<Longrightarrow> x = Some a) \<Longrightarrow> runs P (optD msg x) (\<lambda>b h. P h \<and> b = a)"
  by (auto simp: runs_def optD_def returnD_def)

lemma runs_attempt: "runs P m Q \<Longrightarrow> runs P (attemptD m) (\<lambda>r h. \<exists>a. r = Inr a \<and> Q a h)"
  by (fastforce simp: runs_def attemptD_def)

lemma runs_wrap: "runs P m Q \<Longrightarrow> runs P (wrapD msg m) Q"
  by (fastforce simp: runs_def wrapD_def attemptD_def bindD_def returnD_def)

lemma runs_fact: "(F \<Longrightarrow> runs P m Q) \<Longrightarrow> runs (\<lambda>h. P h \<and> F) m Q"
  by (auto simp: runs_def)

section \<open>Triples of wrapped calls\<close>

lemma triple_wrap: "triple P m Q E \<Longrightarrow> triple P (wrapD msg m) Q E"
  unfolding triple_def wrapD_def by (fastforce simp: bindD_def attemptD_def returnD_def failD_def split: prod.splits reply.splits)

lemma triple_attempt_error: "triple P m Q E \<Longrightarrow> triple P (attemptD m) (\<lambda>r h. case r of Inr a \<Rightarrow> Q a h | Inl _ \<Rightarrow> E h) E"
  unfolding triple_def attemptD_def by (fastforce split: prod.splits reply.splits)

lemma triple_guard: "triple P (guardD b msg) (\<lambda>_ h. P h \<and> b) P"
  by (auto simp: triple_def guardD_def returnD_def failD_def)

end
