(* ===== verification/Lifecycle.thy ===== *)
theory Lifecycle
  imports Deployment Effects
begin

text \<open>
  The deployment transactions of \<^verbatim>\<open>deployment/lifecycle.go\<close>: \<open>runApply\<close>, \<open>runRollback\<close>,
  \<open>runUninstall\<close>, the three recoveries after a failure, and the operations \<open>RollbackRelease\<close>, \<open>Uninstall\<close>,
  \<open>LifecycleStatus\<close> and \<open>applyTransaction\<close> (\<^verbatim>\<open>Apply\<close> from the point where it holds its locks and the confirmed
  preview).

  A \<open>'w host\<close> is what the process acts on: the two metadata files, the journal variable of the running
  operation (\<open>mem\<close>), the rest of the machine (\<open>world\<close>, of any type) and the log of the calls that change
  the user service or the installed artifacts, each with the journal that was on disk when it was made.
  A \<open>'w lifecycle\<close> is the \<^verbatim>\<open>Lifecycle\<close> struct: its injected functions and the operating-system calls
  are functions on the world and may answer, fail or never return because the machine stops
  (\<open>Crashed\<close>). Replacing or removing a metadata file is atomic but may be reported as failed, or be the
  last thing that happens, before or after it took effect (\<open>effect\<close>).

  A computation is an action on a host. A metadata file holds the record that its canonical JSON text
  encodes, or is damaged.
\<close>

section \<open>Hosts\<close>

datatype call = CallInstallDefinition bytes | CallActivate | CallStop | CallRemove | CallRemoveArtifacts

record 'w host =
  stateFile :: "DeploymentState stored"
  journalFile :: "DeploymentJournal stored"
  mem :: DeploymentJournal
  world :: 'w
  calls :: "(call \<times> DeploymentJournal stored) list"

type_synonym ('w, 'a) dep = "('w host, 'a) action"

record ManagerAvailability =
  ma_Manager :: ManagerKind
  ma_Available :: bool
  ma_ServiceDefinition :: bytes
  ma_Foreground :: "ForegroundFallback option"

record 'w lifecycle =
  lc_layout :: Layout
  mgr_Kind :: ManagerKind
  mgr_DefinitionPath :: bytes
  mgr_Detect :: "bytes \<Rightarrow> bytes \<Rightarrow> ('w, ManagerAvailability) action"
  mgr_InstallDefinition :: "bytes \<Rightarrow> ('w, bytes) action"
  mgr_Activate :: "('w, unit) action"
  mgr_Stop :: "('w, unit) action"
  mgr_Remove :: "('w, unit) action"
  mgr_IsActive :: "('w, bool) action"
  lc_Inspect :: "bytes \<Rightarrow> ('w, build_identity) action"
  lc_stageArtifact :: "bytes \<Rightarrow> bytes \<Rightarrow> bytes \<Rightarrow> int \<Rightarrow> bytes \<Rightarrow> ('w, bytes) action"
  lc_verifyArtifact :: "bytes \<Rightarrow> int \<Rightarrow> bytes \<Rightarrow> ('w, unit) action"
  lc_stageReleaseFile :: "bytes \<Rightarrow> bytes \<Rightarrow> bytes \<Rightarrow> int \<Rightarrow> bytes \<Rightarrow> ('w, bytes) action"
  lc_verifyReleaseFile :: "bytes \<Rightarrow> int \<Rightarrow> bytes \<Rightarrow> ('w, unit) action"
  lc_verifyPreviewRelease :: "InstalledRelease \<Rightarrow> ('w, unit) action"
  lc_Initialize :: "('w, unit) action"
  lc_AttestLockPath :: "('w, unit) action"
  lc_renderService :: "bytes \<Rightarrow> bytes \<Rightarrow> bytes \<Rightarrow> bytes option"
  lc_probeRunning :: "bytes \<Rightarrow> ('w, build_identity) action"
  lc_removeArtifacts :: "('w, unit) action"
  lc_failAfterPhase :: Phase
  os_acquireLocks :: "('w, unit) action"
  os_closeLock :: "('w, unit) action"
  os_closeBootstrapLock :: "('w, unit) action"
  os_PrepareLayout :: "('w, unit) action"
  os_PrepareVersionDirectory :: "bytes \<Rightarrow> ('w, bytes) action"
  os_random :: "('w, bytes) action"
  os_read :: "('w, unit) action"
  os_write :: "'w \<Rightarrow> 'w \<times> effect"
  os_deadline :: "('w, bool) action"

section \<open>Access to the host\<close>

definition getMem :: "('w, DeploymentJournal) dep" where
  "getMem h = (h, Done (mem h))"

definition setMem :: "DeploymentJournal \<Rightarrow> ('w, unit) dep" where
  "setMem j h = (h\<lparr>mem := j\<rparr>, Done ())"

text \<open>A call of an injected function, and one that is logged.\<close>

definition ext :: "('w, 'a) action \<Rightarrow> ('w, 'a) dep" where
  "ext f h = (case f (world h) of (w, r) \<Rightarrow> (h\<lparr>world := w\<rparr>, r))"

definition logged :: "call \<Rightarrow> ('w, 'a) action \<Rightarrow> ('w, 'a) dep" where
  "logged c f h = ext f (h\<lparr>calls := calls h @ [(c, journalFile h)]\<rparr>)"

text \<open>An atomic change of a metadata file.\<close>

definition durable :: "'w lifecycle \<Rightarrow> ('w host \<Rightarrow> 'w host) \<Rightarrow> ('w, unit) dep" where
  "durable L change h = (case os_write L (world h) of (w, eff) \<Rightarrow> let h' = h\<lparr>world := w\<rparr> in
     (case eff of Succeeded \<Rightarrow> (change h', Done ())
      | FailedBefore e \<Rightarrow> (h', Fail e) | FailedAfter e \<Rightarrow> (change h', Fail e)
      | CrashedBefore \<Rightarrow> (h', Crashed) | CrashedAfter \<Rightarrow> (change h', Crashed)))"

section \<open>The metadata files\<close>

definition loaded :: "('v \<Rightarrow> bool) \<Rightarrow> deploy_error \<Rightarrow> 'v stored \<Rightarrow> ('w, 'v) dep" where
  "loaded valid missing f = (case f of Absent \<Rightarrow> failD missing
     | Damaged \<Rightarrow> failD (Err ''deployment metadata is not in canonical byte form'')
     | Stored v \<Rightarrow> if valid v then returnD v else failD (Err ''deployment metadata is invalid''))"

definition readFile :: "'w lifecycle \<Rightarrow> ('w, unit) dep" where
  "readFile L = bindD (attemptD (ext (os_read L))) (\<lambda>r. case r of
     Inl e \<Rightarrow> failD (Err ''load deployment metadata'') | Inr _ \<Rightarrow> returnD ())"

definition LoadState :: "'w lifecycle \<Rightarrow> ('w, DeploymentState) dep" where
  "LoadState L = bindD (readFile L)
     (\<lambda>_ h. loaded (validate_state (lc_layout L)) ErrNoDeploymentState (stateFile h) h)"

definition SaveState :: "'w lifecycle \<Rightarrow> DeploymentState \<Rightarrow> ('w, unit) dep" where
  "SaveState L s = (if \<not> validate_state (lc_layout L) s then failD (Err ''deployment state is invalid'')
     else durable L (\<lambda>h. h\<lparr>stateFile := Stored s\<rparr>))"

definition LoadJournal :: "'w lifecycle \<Rightarrow> ('w, DeploymentJournal) dep" where
  "LoadJournal L = bindD (readFile L)
     (\<lambda>_ h. loaded (validate_journal (lc_layout L)) ErrNoDeploymentJournal (journalFile h) h)"

definition SaveJournal :: "'w lifecycle \<Rightarrow> DeploymentJournal \<Rightarrow> ('w, unit) dep" where
  "SaveJournal L j = (if \<not> validate_journal (lc_layout L) j then failD (Err ''deployment journal is invalid'')
     else durable L (\<lambda>h. h\<lparr>journalFile := Stored j\<rparr>))"

definition RemoveJournal :: "'w lifecycle \<Rightarrow> ('w, unit) dep" where
  "RemoveJournal L = durable L (\<lambda>h. h\<lparr>journalFile := Absent\<rparr>)"

definition RemoveState :: "'w lifecycle \<Rightarrow> ('w, unit) dep" where
  "RemoveState L = durable L (\<lambda>h. h\<lparr>stateFile := Absent\<rparr>)"

section \<open>Shared steps\<close>

definition injectCrash :: "'w lifecycle \<Rightarrow> Phase \<Rightarrow> ('w, unit) dep" where
  "injectCrash L phase =
     (if lc_failAfterPhase L = phase then failD (Wrapped ''after phase'' ErrInjectedDeploymentCrash) else returnD ())"

text \<open>The phase of the journal variable changes before the file does.\<close>

definition checkpoint :: "'w lifecycle \<Rightarrow> Phase \<Rightarrow> ('w, unit) dep" where
  "checkpoint L phase = bindD getMem (\<lambda>j.
     bindD (setMem (j\<lparr>dj_Phase := phase\<rparr>)) (\<lambda>_.
     bindD (SaveJournal L (j\<lparr>dj_Phase := phase\<rparr>)) (\<lambda>_.
     injectCrash L phase)))"

definition newTransactionID :: "'w lifecycle \<Rightarrow> ('w, bytes) dep" where
  "newTransactionID L = bindD (wrapD ''generate deployment transaction ID'' (ext (os_random L)))
     (\<lambda>payload. returnD (hexEncode payload))"

definition verifyDesired :: "'w lifecycle \<Rightarrow> InstalledRelease \<Rightarrow> ('w, unit) dep" where
  "verifyDesired L desired =
     bindD (ext (lc_verifyArtifact L (ir_BinaryPath desired) (ir_BinaryBytes desired) (ir_BinarySHA256 desired))) (\<lambda>_.
     bindD (optD ''release identifier is not path-safe'' (SupportFilePath (lc_layout L) desired ''LICENSE'')) (\<lambda>licensePath.
     bindD (ext (lc_verifyReleaseFile L licensePath (ir_LicenseBytes desired) (ir_LicenseSHA256 desired))) (\<lambda>_.
     bindD (optD ''release identifier is not path-safe'' (SupportFilePath (lc_layout L) desired ''NOTICE'')) (\<lambda>noticePath.
     bindD (ext (lc_verifyReleaseFile L noticePath (ir_NoticeBytes desired) (ir_NoticeSHA256 desired))) (\<lambda>_.
     bindD (ext (lc_Inspect L (ir_BinaryPath desired))) (\<lambda>identity.
     guardD (ValidateReleaseIdentity identity desired)
       ''reported build identity does not match the pinned release artifact''))))))"

text \<open>\<open>attest\<close> is the check of the initialization lease before a change, and the no-op where the
  code passes a nil function.\<close>

definition renderFor :: "'w lifecycle \<Rightarrow> InstalledRelease \<Rightarrow> ('w, bytes) dep" where
  "renderFor L r = optD ''render service'' (lc_renderService L (ir_OS r) (ir_BinaryPath r) (StateDir (lc_layout L)))"

definition installDefinition :: "'w lifecycle \<Rightarrow> ('w, unit) dep \<Rightarrow> bytes \<Rightarrow> ('w, bytes) dep" where
  "installDefinition L attest payload =
     bindD attest (\<lambda>_. logged (CallInstallDefinition payload) (mgr_InstallDefinition L payload))"

definition activateManager :: "'w lifecycle \<Rightarrow> ('w, unit) dep \<Rightarrow> ('w, unit) dep" where
  "activateManager L attest = bindD attest (\<lambda>_. logged CallActivate (mgr_Activate L))"

definition stopManager :: "'w lifecycle \<Rightarrow> ('w, unit) dep \<Rightarrow> ('w, unit) dep" where
  "stopManager L attest = bindD attest (\<lambda>_. logged CallStop (mgr_Stop L))"

definition stopPrior :: "'w lifecycle \<Rightarrow> DeploymentState option \<Rightarrow> ('w, unit) dep \<Rightarrow> ('w, unit) dep" where
  "stopPrior L prior attest =
     (case prior of None \<Rightarrow> returnD ()
      | Some p \<Rightarrow>
        (case ds_Active p of None \<Rightarrow> returnD ()
         | Some active \<Rightarrow>
           if ds_Status p = StatusUninstalled then returnD ()
           else if ds_Status p = StatusActive then
             bindD (guardD (ds_Manager p = mgr_Kind L) ''prior service manager does not match this host'') (\<lambda>_.
             stopManager L attest)
           else bindD (attemptD (ext (lc_probeRunning L (StateDir (lc_layout L))))) (\<lambda>r. case r of
               Inr identity \<Rightarrow> if \<not> ValidateReleaseIdentity identity active
                 then failD (Err ''an unknown foreground runtime is using the protected instance'')
                 else failD (Err ''the supervised foreground runtime must be stopped before deployment'')
             | Inl e \<Rightarrow> if errorsIs e ErrRuntimeUnavailable then returnD () else failD e)))"

definition activateDesired :: "'w lifecycle \<Rightarrow> InstalledRelease \<Rightarrow> ('w, unit) dep \<Rightarrow> ('w, unit) dep" where
  "activateDesired L desired attest =
     bindD (ext (mgr_IsActive L)) (\<lambda>active.
       if active then
         bindD (attemptD (ext (lc_probeRunning L (StateDir (lc_layout L))))) (\<lambda>r.
           if (case r of Inr identity \<Rightarrow> ValidateReleaseIdentity identity desired | Inl e \<Rightarrow> False) then returnD ()
           else bindD (stopManager L attest) (\<lambda>_. activateManager L attest))
       else activateManager L attest)"

text \<open>The health loop polls every 50 ms for 15 s, so it makes at most \<open>healthRounds\<close> rounds;
  \<open>os_deadline\<close> says whether the deadline passed while a round waited.\<close>

definition healthRounds :: nat where
  "healthRounds = 300"

fun waitLoop :: "nat \<Rightarrow> 'w lifecycle \<Rightarrow> InstalledRelease \<Rightarrow> ('w, unit) dep" where
  "waitLoop 0 L desired = failD (Err ''user service did not attest the desired release before the health deadline'')"
| "waitLoop (Suc n) L desired =
     (let again = bindD (ext (os_deadline L)) (\<lambda>passed.
         if passed then failD (Err ''user service did not attest the desired release before the health deadline'')
         else waitLoop n L desired)
      in bindD (ext (mgr_IsActive L)) (\<lambda>active.
        if active then
          bindD (attemptD (ext (lc_probeRunning L (StateDir (lc_layout L))))) (\<lambda>r. case r of
              Inr identity \<Rightarrow> guardD (ValidateReleaseIdentity identity desired)
                ''reported build identity does not match the pinned release artifact''
            | Inl e \<Rightarrow> if errorsIs e ErrRuntimeUnavailable then again else failD e)
        else again))"

definition waitForRunning :: "'w lifecycle \<Rightarrow> InstalledRelease \<Rightarrow> ('w, unit) dep" where
  "waitForRunning L desired = waitLoop healthRounds L desired"

text \<open>Putting the prior release back into service: verify, install its definition, activate, attest.\<close>

definition restoreService :: "'w lifecycle \<Rightarrow> InstalledRelease \<Rightarrow> ('w, unit) dep \<Rightarrow> ('w, unit) dep" where
  "restoreService L prior attest =
     bindD (wrapD ''verify prior release'' (verifyDesired L prior)) (\<lambda>_.
     bindD (renderFor L prior) (\<lambda>payload.
     bindD (wrapD ''restore prior service'' (installDefinition L attest payload)) (\<lambda>_.
     bindD (wrapD ''activate prior service'' (activateManager L attest)) (\<lambda>_.
     wrapD ''attest prior service'' (waitForRunning L prior)))))"

definition restoreActive :: "'w lifecycle \<Rightarrow> DeploymentState \<Rightarrow> ('w, unit) dep \<Rightarrow> ('w, unit) dep" where
  "restoreActive L prior attest =
     (case ds_Active prior of
        Some active \<Rightarrow> whenD (ds_Status prior = StatusActive) (restoreService L active attest)
      | None \<Rightarrow> returnD ())"

section \<open>Uninstall\<close>

record UninstallResult =
  ur_Status :: bytes
  ur_State :: DeploymentState
  ur_TransactionID :: bytes

definition uninstalledResult :: "DeploymentState \<Rightarrow> bytes \<Rightarrow> UninstallResult" where
  "uninstalledResult s t = \<lparr>ur_Status = ''uninstalled'', ur_State = s, ur_TransactionID = t\<rparr>"

definition validateCommitted :: "'w lifecycle \<Rightarrow> DeploymentState option \<Rightarrow> ('w, DeploymentState) dep" where
  "validateCommitted L want = bindD (LoadState L) (\<lambda>state.
     bindD (optD ''nil dereference'' want) (\<lambda>w.
     bindD (guardD (sameDeploymentState state w) ''saved state does not match the recovering transaction'') (\<lambda>_.
     returnD state)))"

definition phaseStep :: "('w, bool) dep \<Rightarrow> ('w, unit) dep \<Rightarrow> ('w, unit) dep" where
  "phaseStep reached m = bindD reached (\<lambda>b. whenD (\<not> b) m)"

definition memPhase :: "(Phase \<Rightarrow> bool) \<Rightarrow> ('w, bool) dep" where
  "memPhase P h = (h, Done (P (dj_Phase (mem h))))"

definition thenCheckpoint :: "'w lifecycle \<Rightarrow> Phase \<Rightarrow> ('w, unit) dep \<Rightarrow> ('w, unit) dep \<Rightarrow> ('w, unit) dep" where
  "thenCheckpoint L phase attest m = bindD m (\<lambda>_. bindD attest (\<lambda>_. checkpoint L phase))"

definition runUninstall :: "'w lifecycle \<Rightarrow> ('w, UninstallResult) dep" where
  "runUninstall L = bindD getMem (\<lambda>journal.
     let reached = (\<lambda>p. memPhase (\<lambda>current. uninstallPhaseReached current p));
         step = (\<lambda>p m. phaseStep (reached p) (thenCheckpoint L p (returnD ()) m))
     in if dj_Phase journal = PhaseStateSaved then
          bindD (validateCommitted L (committedUninstallState (lc_layout L) journal)) (\<lambda>state.
          bindD (RemoveJournal L) (\<lambda>_.
          returnD (uninstalledResult state (dj_TransactionID journal))))
        else
          bindD (step PhasePriorServiceStopped (stopPrior L (dj_PriorState journal) (returnD ()))) (\<lambda>_.
          bindD (step PhaseDefinitionRemoved (whenD (dj_Manager journal \<noteq> ManagerForeground \<and>
              dj_Manager journal \<noteq> ManagerNone) (logged CallRemove (mgr_Remove L)))) (\<lambda>_.
          bindD (step PhaseRemovingArtifacts (returnD ())) (\<lambda>_.
          bindD (step PhaseArtifactsRemoved (logged CallRemoveArtifacts (lc_removeArtifacts L))) (\<lambda>_.
          bindD (step PhaseCommitting (returnD ())) (\<lambda>_.
          bindD (optD ''nil dereference'' (committedUninstallState (lc_layout L) journal)) (\<lambda>state.
          bindD (SaveState L state) (\<lambda>_.
          bindD (checkpoint L PhaseStateSaved) (\<lambda>_.
          bindD (RemoveJournal L) (\<lambda>_.
          returnD (uninstalledResult state (dj_TransactionID journal))))))))))))"

definition restorePriorAfterFailedUninstall :: "'w lifecycle \<Rightarrow> ('w, unit) dep" where
  "restorePriorAfterFailedUninstall L = bindD getMem (\<lambda>journal.
     bindD (optD ''uninstall recovery has no prior state'' (dj_PriorState journal)) (\<lambda>prior.
     bindD (restoreActive L prior (returnD ())) (\<lambda>_.
     bindD (SaveState L prior) (\<lambda>_.
     RemoveJournal L))))"

text \<open>The end of every operation on a transaction: return what the run returned when it succeeded, was
  interrupted by the injected crash, or may no longer be undone, and restore the prior state otherwise.\<close>

definition finishRun :: "(deploy_error \<Rightarrow> Phase \<Rightarrow> bool) \<Rightarrow> ('w, unit) dep \<Rightarrow> ('w, 'a) dep \<Rightarrow> ('w, 'a) dep" where
  "finishRun final restore run = bindD (attemptD run) (\<lambda>r. case r of
       Inr result \<Rightarrow> returnD result
     | Inl e \<Rightarrow> bindD getMem (\<lambda>journal.
         if final e (dj_Phase journal) then failD e
         else bindD (attemptD restore) (\<lambda>s. case s of
             Inl e' \<Rightarrow> failD (Joined e e') | Inr _ \<Rightarrow> failD e)))"

definition uninstallFinal :: "deploy_error \<Rightarrow> Phase \<Rightarrow> bool" where
  "uninstallFinal e phase \<longleftrightarrow> errorsIs e ErrInjectedDeploymentCrash \<or> uninstallPhaseReached phase PhaseRemovingArtifacts"

text \<open>Both locks are released when the operation returns; a failed release is an error of the operation.\<close>

definition closing :: "bytes \<Rightarrow> ('w, unit) action \<Rightarrow> ('w, 'a) dep \<Rightarrow> ('w, 'a) dep" where
  "closing msg close m = bindD (attemptD m) (\<lambda>r. bindD (attemptD (ext close)) (\<lambda>c. case (r, c) of
       (Inr a, Inr _) \<Rightarrow> returnD a
     | (Inl e, Inr _) \<Rightarrow> failD e
     | (Inr a, Inl e') \<Rightarrow> failD (Wrapped msg e')
     | (Inl e, Inl e') \<Rightarrow> failD (Joined e (Wrapped msg e'))))"

definition underLocks :: "'w lifecycle \<Rightarrow> ('w, 'a) dep \<Rightarrow> ('w, 'a) dep" where
  "underLocks L m = bindD (ext (os_acquireLocks L)) (\<lambda>_.
     closing ''release deployment bootstrap lock'' (os_closeBootstrapLock L)
       (closing ''release deployment lock'' (os_closeLock L)
         (bindD (ext (os_PrepareLayout L)) (\<lambda>_. m))))"

text \<open>The start of a transaction: the journal is made durable before anything else happens.\<close>

definition beginTransaction :: "'w lifecycle \<Rightarrow> DeploymentJournal \<Rightarrow> ('w, unit) dep" where
  "beginTransaction L journal = bindD (setMem journal) (\<lambda>_.
     bindD (SaveJournal L journal) (\<lambda>_. injectCrash L PhasePlanned))"

definition uninstallJournal :: "DeploymentState \<Rightarrow> bytes \<Rightarrow> DeploymentJournal" where
  "uninstallJournal state transactionID =
     \<lparr>dj_StateVersion = DeploymentStateVersion, dj_TransactionID = transactionID,
      dj_Operation = OperationUninstall, dj_Phase = PhasePlanned, dj_Manager = ds_Manager state,
      dj_ServiceDefinition = ds_ServiceDefinition state, dj_SourcePath = '''', dj_LicenseSourcePath = '''',
      dj_NoticeSourcePath = '''', dj_Desired = None, dj_PriorState = Some state\<rparr>"

definition initialUninstalled :: "Layout \<Rightarrow> DeploymentState" where
  "initialUninstalled layout = \<lparr>ds_StateVersion = DeploymentStateVersion, ds_Generation = 1,
     ds_Status = StatusUninstalled, ds_Manager = ManagerNone, ds_StateDir = StateDir layout,
     ds_ServiceDefinition = '''', ds_Active = None, ds_Previous = None\<rparr>"

definition Uninstall :: "'w lifecycle \<Rightarrow> ('w, UninstallResult) dep" where
  "Uninstall L = underLocks L (bindD (attemptD (LoadJournal L)) (\<lambda>j. case j of
       Inr journal \<Rightarrow>
         if dj_Operation journal \<noteq> OperationUninstall
         then failD (Err ''a different deployment transaction requires recovery before uninstall'')
         else bindD (setMem journal) (\<lambda>_.
           finishRun uninstallFinal (restorePriorAfterFailedUninstall L) (runUninstall L))
     | Inl journalErr \<Rightarrow>
         if \<not> errorsIs journalErr ErrNoDeploymentJournal then failD journalErr
         else bindD (attemptD (LoadState L)) (\<lambda>s. case s of
             Inl stateErr \<Rightarrow>
               if errorsIs stateErr ErrNoDeploymentState
               then bindD (SaveState L (initialUninstalled (lc_layout L))) (\<lambda>_.
                 returnD (uninstalledResult (initialUninstalled (lc_layout L)) ''''))
               else failD stateErr
           | Inr state \<Rightarrow>
               if ds_Status state = StatusUninstalled then returnD (uninstalledResult state '''')
               else bindD (newTransactionID L) (\<lambda>transactionID.
                 bindD (beginTransaction L (uninstallJournal state transactionID)) (\<lambda>_.
                 finishRun uninstallFinal (restorePriorAfterFailedUninstall L) (runUninstall L))))))"

section \<open>Switching releases\<close>

text \<open>The steps that a switch to the desired release shares between apply and rollback: stop the prior
  service, install the definition, activate, attest, and announce the commit. \<open>order\<close> is the phase order
  of the operation.\<close>

definition installSwitched :: "'w lifecycle \<Rightarrow> DeploymentJournal \<Rightarrow> InstalledRelease \<Rightarrow> ('w, unit) dep \<Rightarrow> ('w, unit) dep" where
  "installSwitched L journal desired attest = whenD (dj_Manager journal \<noteq> ManagerForeground)
     (bindD (renderFor L desired) (\<lambda>payload.
      bindD (installDefinition L attest payload) (\<lambda>installed.
      guardD (installed = dj_ServiceDefinition journal) ''service manager installed an unexpected definition path'')))"

definition switchStep :: "'w lifecycle \<Rightarrow> (Phase \<Rightarrow> Phase \<Rightarrow> bool) \<Rightarrow> ('w, unit) dep \<Rightarrow> Phase \<Rightarrow> ('w, unit) dep \<Rightarrow> ('w, unit) dep" where
  "switchStep L reached attest p m =
     phaseStep (memPhase (\<lambda>current. reached current p)) (thenCheckpoint L p attest m)"

definition switchService :: "'w lifecycle \<Rightarrow> (Phase \<Rightarrow> Phase \<Rightarrow> bool) \<Rightarrow> ('w, unit) dep \<Rightarrow> DeploymentJournal \<Rightarrow>
    InstalledRelease \<Rightarrow> ('w, unit) dep" where
  "switchService L reached attest journal desired =
     bindD (switchStep L reached attest PhasePriorServiceStopped (stopPrior L (dj_PriorState journal) attest)) (\<lambda>_.
     bindD (switchStep L reached attest PhaseDefinitionInstalled (installSwitched L journal desired attest)) (\<lambda>_.
     bindD (whenD (dj_Manager journal \<noteq> ManagerForeground)
       (bindD (switchStep L reached attest PhaseActivated (activateDesired L desired attest)) (\<lambda>_.
        switchStep L reached attest PhaseHealthVerified (waitForRunning L desired)))) (\<lambda>_.
     switchStep L reached attest PhaseCommitting (returnD ()))))"

definition commitSwitch :: "'w lifecycle \<Rightarrow> ('w, unit) dep \<Rightarrow> DeploymentJournal \<Rightarrow> DeploymentState option \<Rightarrow> ('w, ApplyResult) dep" where
  "commitSwitch L attest journal want =
     bindD (optD ''nil dereference'' want) (\<lambda>state.
     bindD attest (\<lambda>_.
     bindD (SaveState L state) (\<lambda>_.
     bindD (bindD attest (\<lambda>_. checkpoint L PhaseStateSaved)) (\<lambda>_.
     bindD (optD ''deployment locator'' (resultForState (lc_layout L) state (foregroundFor (lc_layout L) journal)
       (dj_TransactionID journal))) (\<lambda>result.
     bindD attest (\<lambda>_.
     bindD (RemoveJournal L) (\<lambda>_.
     returnD result)))))))"

text \<open>A transaction whose state is saved only has to drop its journal.\<close>

definition concludeSwitch :: "'w lifecycle \<Rightarrow> ('w, unit) dep \<Rightarrow> DeploymentJournal \<Rightarrow> DeploymentState option \<Rightarrow> ('w, ApplyResult) dep" where
  "concludeSwitch L attest journal want =
     bindD (validateCommitted L want) (\<lambda>state.
     bindD (optD ''deployment locator'' (resultForState (lc_layout L) state (foregroundFor (lc_layout L) journal)
       (dj_TransactionID journal))) (\<lambda>result.
     bindD attest (\<lambda>_.
     bindD (RemoveJournal L) (\<lambda>_.
     returnD result))))"

section \<open>Rollback\<close>

definition runRollback :: "'w lifecycle \<Rightarrow> ('w, ApplyResult) dep" where
  "runRollback L = bindD getMem (\<lambda>journal.
     if dj_Phase journal = PhaseStateSaved
     then concludeSwitch L (returnD ()) journal (committedRollbackState (lc_layout L) journal)
     else bindD (optD ''nil dereference'' (dj_Desired journal)) (\<lambda>desired.
       bindD (verifyDesired L desired) (\<lambda>_.
       bindD (switchService L rollbackPhaseReached (returnD ()) journal desired) (\<lambda>_.
       commitSwitch L (returnD ()) journal (committedRollbackState (lc_layout L) journal)))))"

definition restorePriorAfterFailedSwitch :: "'w lifecycle \<Rightarrow> ('w, unit) dep" where
  "restorePriorAfterFailedSwitch L = bindD getMem (\<lambda>journal.
     bindD (whenD (dj_Manager journal \<noteq> ManagerForeground)
       (wrapD ''remove failed switched service'' (logged CallRemove (mgr_Remove L)))) (\<lambda>_.
     bindD (optD ''switch recovery has no prior state'' (dj_PriorState journal)) (\<lambda>prior.
     bindD (restoreActive L prior (returnD ())) (\<lambda>_.
     bindD (SaveState L prior) (\<lambda>_.
     RemoveJournal L)))))"

definition switchFinal :: "deploy_error \<Rightarrow> Phase \<Rightarrow> bool" where
  "switchFinal e phase \<longleftrightarrow> errorsIs e ErrInjectedDeploymentCrash \<or> phase = PhaseStateSaved"

definition rollbackJournal :: "DeploymentState \<Rightarrow> InstalledRelease \<Rightarrow> ManagerAvailability \<Rightarrow> bytes \<Rightarrow> DeploymentJournal" where
  "rollbackJournal state desired availability transactionID =
     \<lparr>dj_StateVersion = DeploymentStateVersion, dj_TransactionID = transactionID,
      dj_Operation = OperationRollback, dj_Phase = PhasePlanned, dj_Manager = ma_Manager availability,
      dj_ServiceDefinition = ma_ServiceDefinition availability, dj_SourcePath = '''', dj_LicenseSourcePath = '''',
      dj_NoticeSourcePath = '''', dj_Desired = Some desired, dj_PriorState = Some state\<rparr>"

definition planRollback :: "'w lifecycle \<Rightarrow> DeploymentState \<Rightarrow> ('w, DeploymentJournal) dep" where
  "planRollback L state =
     (case (ds_Active state, ds_Previous state) of
        (Some active, Some previous) \<Rightarrow>
          bindD (guardD (ds_Status state \<noteq> StatusUninstalled) ''no verified previous release is available for rollback'') (\<lambda>_.
          bindD (guardD (ir_StorageSchema active = ir_StorageSchema previous)
            ''rollback across storage schemas requires a complete verified database image'') (\<lambda>_.
          bindD (wrapD ''verify previous release before rollback'' (verifyDesired L previous)) (\<lambda>_.
          bindD (ext (mgr_Detect L (ir_BinaryPath previous) (StateDir (lc_layout L)))) (\<lambda>availability.
          bindD (guardD (\<not> (ds_Status state = StatusActive \<and> \<not> ma_Available availability))
            ''the active native user service manager is unavailable; refusing rollback'') (\<lambda>_.
          bindD (newTransactionID L) (\<lambda>transactionID.
          returnD (rollbackJournal state previous availability transactionID)))))))
      | _ \<Rightarrow> failD (Err ''no verified previous release is available for rollback''))"

definition RollbackRelease :: "'w lifecycle \<Rightarrow> ('w, ApplyResult) dep" where
  "RollbackRelease L = underLocks L (bindD (attemptD (LoadJournal L)) (\<lambda>j. case j of
       Inr journal \<Rightarrow>
         if dj_Operation journal \<noteq> OperationRollback
         then failD (Err ''a different deployment transaction requires recovery before rollback'')
         else bindD (setMem journal) (\<lambda>_.
           finishRun switchFinal (restorePriorAfterFailedSwitch L) (runRollback L))
     | Inl journalErr \<Rightarrow>
         if \<not> errorsIs journalErr ErrNoDeploymentJournal then failD journalErr
         else bindD (LoadState L) (\<lambda>state.
           bindD (planRollback L state) (\<lambda>journal.
           bindD (beginTransaction L journal) (\<lambda>_.
           finishRun switchFinal (restorePriorAfterFailedSwitch L) (runRollback L))))))"

section \<open>Apply\<close>

record ApplyRequest =
  req_ManifestPath :: bytes
  req_ManifestPayload :: bytes
  req_ManifestSHA256 :: bytes
  req_ArtifactPath :: bytes
  req_LicensePath :: bytes
  req_NoticePath :: bytes
  req_ConfirmedPreviewSHA256 :: bytes

definition attestLease :: "'w lifecycle \<Rightarrow> ('w, unit) dep" where
  "attestLease L = bindD (attemptD (ext (lc_AttestLockPath L))) (\<lambda>r. case r of Inr _ \<Rightarrow> returnD ()
     | Inl e \<Rightarrow> failD (Wrapped ''leased initialization lock path changed after confirmation''
         ErrDeploymentPreviewConfirmationMismatch))"

definition initializeInstance :: "'w lifecycle \<Rightarrow> ('w, unit) dep" where
  "initializeInstance L = bindD (attemptD (ext (lc_Initialize L))) (\<lambda>r. case r of Inr _ \<Rightarrow> returnD ()
     | Inl e \<Rightarrow> bindD (attestLease L) (\<lambda>_. failD e))"

definition stageSupportFile :: "'w lifecycle \<Rightarrow> bytes \<Rightarrow> InstalledRelease \<Rightarrow> bytes \<Rightarrow> bytes \<Rightarrow> int \<Rightarrow> bytes \<Rightarrow> ('w, unit) dep" where
  "stageSupportFile L versionDir desired source name count digest =
     bindD (attestLease L) (\<lambda>_.
     bindD (ext (lc_stageReleaseFile L source versionDir name count digest)) (\<lambda>path.
     bindD (optD ''release identifier is not path-safe'' (SupportFilePath (lc_layout L) desired name)) (\<lambda>want.
     guardD (path = want) ''release file staging returned an unexpected immutable path'')))"

definition stageSupportFiles :: "'w lifecycle \<Rightarrow> bytes \<Rightarrow> InstalledRelease \<Rightarrow> bytes \<Rightarrow> bytes \<Rightarrow> ('w, unit) dep" where
  "stageSupportFiles L versionDir desired licenseSource noticeSource =
     bindD (stageSupportFile L versionDir desired licenseSource ''LICENSE'' (ir_LicenseBytes desired)
       (ir_LicenseSHA256 desired)) (\<lambda>_.
     stageSupportFile L versionDir desired noticeSource ''NOTICE'' (ir_NoticeBytes desired)
       (ir_NoticeSHA256 desired))"

text \<open>The release is copied into its version directory and verified there.\<close>

definition stageRelease :: "'w lifecycle \<Rightarrow> InstalledRelease \<Rightarrow> bytes \<Rightarrow> bytes \<Rightarrow> bytes \<Rightarrow> ('w, unit) dep" where
  "stageRelease L desired source licenseSource noticeSource =
     bindD (attestLease L) (\<lambda>_.
     bindD (ext (os_PrepareVersionDirectory L (ir_Release desired))) (\<lambda>versionDir.
     bindD (attestLease L) (\<lambda>_.
     bindD (ext (lc_stageArtifact L source versionDir (Base (ir_BinaryPath desired)) (ir_BinaryBytes desired)
       (ir_BinarySHA256 desired))) (\<lambda>staged.
     bindD (guardD (staged = ir_BinaryPath desired) ''artifact staging returned an unexpected immutable path'') (\<lambda>_.
     bindD (stageSupportFiles L versionDir desired licenseSource noticeSource) (\<lambda>_.
     verifyDesired L desired))))))"

definition runApply :: "'w lifecycle \<Rightarrow> ('w, ApplyResult) dep" where
  "runApply L = bindD getMem (\<lambda>journal.
     if dj_Phase journal = PhaseStateSaved
     then concludeSwitch L (attestLease L) journal (committedApplyState (lc_layout L) journal)
     else bindD (optD ''nil dereference'' (dj_Desired journal)) (\<lambda>desired.
       bindD (if \<not> applyPhaseReached (dj_Phase journal) PhaseArtifactStaged
         then thenCheckpoint L PhaseArtifactStaged (attestLease L)
           (stageRelease L desired (dj_SourcePath journal) (dj_LicenseSourcePath journal) (dj_NoticeSourcePath journal))
         else verifyDesired L desired) (\<lambda>_.
       bindD (switchStep L applyPhaseReached (attestLease L) PhaseInstanceReady (initializeInstance L)) (\<lambda>_.
       bindD (switchService L applyPhaseReached (attestLease L) journal desired) (\<lambda>_.
       commitSwitch L (attestLease L) journal (committedApplyState (lc_layout L) journal))))))"

definition attestedRemoveJournal :: "'w lifecycle \<Rightarrow> ('w, unit) dep" where
  "attestedRemoveJournal L = bindD (attestLease L) (\<lambda>_. RemoveJournal L)"

text \<open>The prior service may have been stopped although the phase was never recorded; it is left alone
  when it still attests the prior release.\<close>

definition restoreInterruptedStop :: "'w lifecycle \<Rightarrow> InstalledRelease \<Rightarrow> ('w, unit) dep" where
  "restoreInterruptedStop L prior =
     bindD (wrapD ''inspect prior service after interrupted stop'' (ext (mgr_IsActive L))) (\<lambda>active.
     bindD (if active
       then bindD (attemptD (ext (lc_probeRunning L (StateDir (lc_layout L))))) (\<lambda>r. case r of
           Inr identity \<Rightarrow> returnD (ValidateReleaseIdentity identity prior) | Inl e \<Rightarrow> returnD False)
       else returnD False) (\<lambda>running.
     whenD (\<not> running) (restoreService L prior (attestLease L))))"

definition restorePriorAfterFailedApply :: "'w lifecycle \<Rightarrow> ('w, unit) dep" where
  "restorePriorAfterFailedApply L = bindD getMem (\<lambda>journal.
     if \<not> applyPhaseReached (dj_Phase journal) PhasePriorServiceStopped then
       bindD (case dj_PriorState journal of None \<Rightarrow> returnD ()
         | Some state \<Rightarrow> (case ds_Active state of None \<Rightarrow> returnD ()
           | Some prior \<Rightarrow> whenD (applyPhaseReached (dj_Phase journal) PhaseInstanceReady \<and> ds_Status state = StatusActive)
               (restoreInterruptedStop L prior))) (\<lambda>_.
       attestedRemoveJournal L)
     else
       bindD (whenD (dj_Manager journal \<noteq> ManagerForeground)
         (wrapD ''rollback failed deployment service''
           (bindD (attestLease L) (\<lambda>_. logged CallRemove (mgr_Remove L))))) (\<lambda>_.
       case dj_PriorState journal of
         None \<Rightarrow> bindD (bindD (attestLease L) (\<lambda>_. RemoveState L)) (\<lambda>_. attestedRemoveJournal L)
       | Some prior \<Rightarrow>
           bindD (restoreActive L prior (attestLease L)) (\<lambda>_.
           bindD (bindD (attestLease L) (\<lambda>_. SaveState L prior)) (\<lambda>_.
           attestedRemoveJournal L))))"

definition applyFinal :: "deploy_error \<Rightarrow> Phase \<Rightarrow> bool" where
  "applyFinal e phase \<longleftrightarrow> errorsIs e ErrInjectedDeploymentCrash \<or>
     errorsIs e ErrDeploymentPreviewConfirmationMismatch \<or> phase = PhaseStateSaved"

definition reattest :: "'w lifecycle \<Rightarrow> ('w, 'a) dep \<Rightarrow> ('w, 'a) dep" where
  "reattest L run = bindD (attemptD run) (\<lambda>r. case r of Inr a \<Rightarrow> returnD a
     | Inl e \<Rightarrow> bindD (attestLease L) (\<lambda>_. failD e))"

definition finishApply :: "'w lifecycle \<Rightarrow> ('w, ApplyResult) dep" where
  "finishApply L = finishRun applyFinal (restorePriorAfterFailedApply L) (reattest L (runApply L))"

definition validateRecordedActiveServiceBinding :: "'w lifecycle \<Rightarrow> DeploymentState option \<Rightarrow> ('w, unit) dep" where
  "validateRecordedActiveServiceBinding L state = guardD
     (case state of None \<Rightarrow> True
      | Some s \<Rightarrow> ds_Status s \<noteq> StatusActive \<or>
          ds_Manager s = mgr_Kind L \<and> ds_ServiceDefinition s = mgr_DefinitionPath L)
     ''recorded active service definition does not match the current user service manager''"

definition verifyRetainedRollbackReleaseForApply :: "'w lifecycle \<Rightarrow> DeploymentState option \<Rightarrow> InstalledRelease \<Rightarrow> ('w, unit) dep" where
  "verifyRetainedRollbackReleaseForApply L state desired =
     (case state of None \<Rightarrow> returnD ()
      | Some s \<Rightarrow> (case (ds_Active s, ds_Previous s) of
          (Some active, Some previous) \<Rightarrow> if active \<noteq> desired then returnD ()
            else wrapD ''verify retained rollback release before apply'' (ext (lc_verifyPreviewRelease L previous))
        | _ \<Rightarrow> returnD ()))"

definition verifyRecordedReleaseForApply :: "'w lifecycle \<Rightarrow> DeploymentState option \<Rightarrow> InstalledRelease \<Rightarrow> ('w, unit) dep" where
  "verifyRecordedReleaseForApply L state desired =
     (case state of None \<Rightarrow> returnD ()
      | Some s \<Rightarrow> (case ds_Active s of None \<Rightarrow> returnD ()
        | Some active \<Rightarrow> if ds_Status s = StatusUninstalled then returnD ()
          else bindD (attemptD (ext (lc_verifyPreviewRelease L active))) (\<lambda>r. case r of
              Inl e \<Rightarrow> if active = desired \<and> errorsIs e ErrInstalledReleaseFilesMissing
                then verifyRetainedRollbackReleaseForApply L state desired
                else failD (Wrapped ''verify recorded active release before apply'' e)
            | Inr _ \<Rightarrow> verifyRetainedRollbackReleaseForApply L state desired)))"

definition managerMatchesJournal :: "ManagerAvailability \<Rightarrow> DeploymentJournal \<Rightarrow> bool" where
  "managerMatchesJournal availability journal \<longleftrightarrow> ma_Manager availability = dj_Manager journal \<and>
     ma_ServiceDefinition availability = dj_ServiceDefinition journal"

definition checkRecorded :: "'w lifecycle \<Rightarrow> DeploymentState option \<Rightarrow> InstalledRelease \<Rightarrow> ('w, unit) dep" where
  "checkRecorded L state desired = bindD (validateRecordedActiveServiceBinding L state)
     (\<lambda>_. verifyRecordedReleaseForApply L state desired)"

definition validateIdempotentApply :: "'w lifecycle \<Rightarrow> DeploymentState \<Rightarrow> ApplyRequest \<Rightarrow> ('w, ApplyResult) dep" where
  "validateIdempotentApply L state request =
     bindD (optD ''idempotent deployment state has no active release'' (ds_Active state)) (\<lambda>active.
     bindD (stageRelease L active (req_ArtifactPath request) (req_LicensePath request) (req_NoticePath request)) (\<lambda>_.
     bindD (whenD (ds_Status state = StatusActive)
       (bindD (ext (mgr_IsActive L)) (\<lambda>running.
        bindD (guardD running ''recorded user service is not active; run deployment recovery'') (\<lambda>_.
        bindD (ext (lc_probeRunning L (StateDir (lc_layout L)))) (\<lambda>identity.
        guardD (ValidateReleaseIdentity identity active)
          ''reported build identity does not match the pinned release artifact''))))) (\<lambda>_.
     bindD (optD ''deployment locator'' (resultForState (lc_layout L) state
       (foregroundForRelease (lc_layout L) (ds_Manager state) (ds_Active state)) '''')) (\<lambda>result.
     bindD (attestLease L) (\<lambda>_.
     returnD result)))))"

text \<open>A retry in the first phase may name new input paths; they replace the recorded ones.\<close>

definition rebindInputs :: "'w lifecycle \<Rightarrow> ApplyRequest \<Rightarrow> ('w, unit) dep" where
  "rebindInputs L request = bindD getMem (\<lambda>journal.
     whenD (dj_Phase journal = PhasePlanned \<and>
         (dj_SourcePath journal \<noteq> req_ArtifactPath request \<or> dj_LicenseSourcePath journal \<noteq> req_LicensePath request \<or>
          dj_NoticeSourcePath journal \<noteq> req_NoticePath request))
       (let journal' = journal\<lparr>dj_SourcePath := req_ArtifactPath request,
              dj_LicenseSourcePath := req_LicensePath request, dj_NoticeSourcePath := req_NoticePath request\<rparr>
        in bindD (setMem journal') (\<lambda>_.
           bindD (attestLease L) (\<lambda>_.
           SaveJournal L journal'))))"

definition recoverApply :: "'w lifecycle \<Rightarrow> ApplyRequest \<Rightarrow> InstalledRelease \<Rightarrow> ManagerAvailability \<Rightarrow>
    DeploymentJournal \<Rightarrow> ('w, ApplyResult) dep" where
  "recoverApply L request desired availability journal =
     bindD (guardD (dj_Operation journal = OperationApply \<and> dj_Desired journal = Some desired)
       ''a different deployment transaction requires recovery before apply'') (\<lambda>_.
     bindD (guardD (managerMatchesJournal availability journal)
       ''service-manager outcome no longer matches the recoverable deployment transaction'') (\<lambda>_.
     bindD (checkRecorded L (dj_PriorState journal) desired) (\<lambda>_.
     bindD (attemptD (LoadState L)) (\<lambda>s.
     bindD (case s of Inr currentState \<Rightarrow> checkRecorded L (Some currentState) desired
       | Inl e \<Rightarrow> if errorsIs e ErrNoDeploymentState then returnD () else failD e) (\<lambda>_.
     bindD (setMem journal) (\<lambda>_.
     bindD (rebindInputs L request) (\<lambda>_.
     finishApply L)))))))"

definition applyJournal :: "ApplyRequest \<Rightarrow> InstalledRelease \<Rightarrow> DeploymentState option \<Rightarrow> ManagerAvailability \<Rightarrow>
    bytes \<Rightarrow> DeploymentJournal" where
  "applyJournal request desired prior availability transactionID =
     \<lparr>dj_StateVersion = DeploymentStateVersion, dj_TransactionID = transactionID,
      dj_Operation = OperationApply, dj_Phase = PhasePlanned, dj_Manager = ma_Manager availability,
      dj_ServiceDefinition = ma_ServiceDefinition availability, dj_SourcePath = req_ArtifactPath request,
      dj_LicenseSourcePath = req_LicensePath request, dj_NoticeSourcePath = req_NoticePath request,
      dj_Desired = Some desired, dj_PriorState = prior\<rparr>"

definition startApply :: "'w lifecycle \<Rightarrow> ApplyRequest \<Rightarrow> InstalledRelease \<Rightarrow> ManagerAvailability \<Rightarrow>
    DeploymentState option \<Rightarrow> ('w, ApplyResult) dep" where
  "startApply L request desired availability prior =
     bindD (guardD (case prior of None \<Rightarrow> True
         | Some p \<Rightarrow> \<not> (ds_Status p = StatusActive \<and> \<not> ma_Available availability))
       ''the active native user service manager is unavailable; refusing an implicit foreground transition'') (\<lambda>_.
     case prior of
       Some p \<Rightarrow> if ds_Active p = Some desired \<and> ds_Manager p = ma_Manager availability
         then validateIdempotentApply L p request
         else bindD (newTransactionID L) (\<lambda>transactionID.
           bindD (attestLease L) (\<lambda>_.
           bindD (beginTransaction L (applyJournal request desired prior availability transactionID)) (\<lambda>_.
           finishApply L)))
     | None \<Rightarrow> bindD (newTransactionID L) (\<lambda>transactionID.
           bindD (attestLease L) (\<lambda>_.
           bindD (beginTransaction L (applyJournal request desired prior availability transactionID)) (\<lambda>_.
           finishApply L))))"

definition applyTransaction :: "'w lifecycle \<Rightarrow> ApplyRequest \<Rightarrow> InstalledRelease \<Rightarrow> ManagerAvailability \<Rightarrow> ('w, ApplyResult) dep" where
  "applyTransaction L request desired availability =
     bindD (attemptD (LoadJournal L)) (\<lambda>j. case j of
       Inr journal \<Rightarrow> recoverApply L request desired availability journal
     | Inl journalErr \<Rightarrow>
         if \<not> errorsIs journalErr ErrNoDeploymentJournal then failD journalErr
         else bindD (attemptD (LoadState L)) (\<lambda>s. case s of
             Inr state \<Rightarrow> bindD (checkRecorded L (Some state) desired) (\<lambda>_.
               startApply L request desired availability (Some state))
           | Inl stateErr \<Rightarrow> if errorsIs stateErr ErrNoDeploymentState
               then startApply L request desired availability None else failD stateErr))"

section \<open>Status\<close>

record StatusResult =
  sr_Status :: bytes
  sr_State :: "DeploymentState option"
  sr_Journal :: "DeploymentJournal option"
  sr_Running :: bool
  sr_RecoveryRequired :: bool

definition statusResult :: "bytes \<Rightarrow> DeploymentState option \<Rightarrow> bool \<Rightarrow> StatusResult" where
  "statusResult s state running = \<lparr>sr_Status = s, sr_State = state, sr_Journal = None, sr_Running = running,
     sr_RecoveryRequired = False\<rparr>"

text \<open>A damaged installation and a wrong identity are reported together with their error; every other
  error comes with no report.\<close>

definition probeStatus :: "'w lifecycle \<Rightarrow> DeploymentState \<Rightarrow> InstalledRelease \<Rightarrow> ('w, StatusResult \<times> deploy_error option) dep" where
  "probeStatus L state active =
     bindD (attemptD (ext (lc_probeRunning L (StateDir (lc_layout L))))) (\<lambda>r. case r of
       Inl e \<Rightarrow> if errorsIs e ErrRuntimeUnavailable
         then returnD (statusResult (if ds_Status state = StatusForeground then ''foreground_stopped'' else ''starting'')
           (Some state) False, None)
         else failD e
     | Inr identity \<Rightarrow> if \<not> ValidateReleaseIdentity identity active
         then returnD (statusResult ''identity_mismatch'' (Some state) False,
           Some (Err ''reported build identity does not match the pinned release artifact''))
         else returnD (statusResult (if ds_Status state = StatusForeground then ''foreground_running'' else ''active'')
           (Some state) True, None))"

definition installedStatus :: "'w lifecycle \<Rightarrow> DeploymentState \<Rightarrow> ('w, StatusResult \<times> deploy_error option) dep" where
  "installedStatus L state =
     (if ds_Status state = StatusUninstalled then returnD (statusResult ''uninstalled'' (Some state) False, None)
      else bindD (optD ''deployment state has no active release'' (ds_Active state)) (\<lambda>active.
        bindD (attemptD (verifyDesired L active)) (\<lambda>v. case v of
          Inl e \<Rightarrow> returnD (statusResult ''damaged'' (Some state) False, Some e)
        | Inr _ \<Rightarrow>
            if ds_Status state = StatusActive
            then bindD (ext (mgr_IsActive L)) (\<lambda>running.
              if \<not> running then returnD (statusResult ''inactive'' (Some state) False, None) else probeStatus L state active)
            else probeStatus L state active)))"

definition LifecycleStatus :: "'w lifecycle \<Rightarrow> ('w, StatusResult \<times> deploy_error option) dep" where
  "LifecycleStatus L = bindD (attemptD (LoadJournal L)) (\<lambda>j. case j of
       Inr journal \<Rightarrow> bindD (attemptD (LoadState L)) (\<lambda>s.
         let result = \<lparr>sr_Status = ''recovery_required'', sr_State = None, sr_Journal = Some journal,
               sr_Running = False, sr_RecoveryRequired = True\<rparr>
         in case s of Inr state \<Rightarrow> returnD (result\<lparr>sr_State := Some state\<rparr>, None)
           | Inl e \<Rightarrow> if errorsIs e ErrNoDeploymentState then returnD (result, None) else failD e)
     | Inl journalErr \<Rightarrow>
         if \<not> errorsIs journalErr ErrNoDeploymentJournal then failD journalErr
         else bindD (attemptD (LoadState L)) (\<lambda>s. case s of
             Inl e \<Rightarrow> if errorsIs e ErrNoDeploymentState then returnD (statusResult ''uninstalled'' None False, None)
               else failD e
           | Inr state \<Rightarrow> installedStatus L state))"

end
