(* ===== verification/LifecycleLaws.thy ===== *)
theory LifecycleLaws
  imports Lifecycle
begin

text \<open>
  What the deployment transactions keep, whatever the injected functions and the operating system answer
  and wherever the machine stops.

  Computations are verified with triples over the metadata files, the journal variable and the log of
  calls. \<open>quiet\<close> computations leave the files and the variable alone; \<open>tx\<close> is the state of a host
  inside a transaction and \<open>consistent\<close> what the files promise between operations. \<open>logical\<close> is the
  deployment state that the files stand for.
\<close>

named_theorems quiet_intros \<open>computations that leave the metadata alone\<close>

section \<open>Triples over hosts\<close>

lemma triple_getMem:
  assumes "\<And>j. triple (\<lambda>h. P h \<and> mem h = j) (f j) Q E"
  shows "triple P (bindD getMem f) Q E"
  using assms by (auto simp: triple_def bindD_def getMem_def)

lemma triple_setMem:
  assumes "\<And>h. P h \<Longrightarrow> Q (h\<lparr>mem := j\<rparr>)"
  shows "triple P (setMem j) (\<lambda>_. Q) E"
  using assms by (simp add: triple_def setMem_def)

text \<open>An atomic change of a file may or may not have happened when it is not reported as done.\<close>

lemma triple_durable:
  assumes "\<And>h w. P h \<Longrightarrow> Q (change (h\<lparr>world := w\<rparr>))" and "\<And>h w. P h \<Longrightarrow> E (h\<lparr>world := w\<rparr>)"
    and "\<And>h w. P h \<Longrightarrow> E (change (h\<lparr>world := w\<rparr>))"
  shows "triple P (durable L change) (\<lambda>_. Q) E"
  using assms unfolding triple_def durable_def by (auto simp: Let_def split: prod.splits effect.splits)

section \<open>Quiet computations\<close>

text \<open>\<open>quiet C\<close> computations leave the files and the journal variable alone and log calls in \<open>C\<close> only.\<close>

definition serviceCall :: "call \<Rightarrow> bool" where
  "serviceCall c \<longleftrightarrow> c \<noteq> CallRemoveArtifacts"

definition noCall :: "call \<Rightarrow> bool" where
  "noCall c \<longleftrightarrow> False"

definition quiet_step :: "(call \<Rightarrow> bool) \<Rightarrow> 'w host \<Rightarrow> 'w host \<Rightarrow> bool" where
  "quiet_step C h h' \<longleftrightarrow> stateFile h' = stateFile h \<and> journalFile h' = journalFile h \<and> mem h' = mem h \<and>
     (\<exists>cs. calls h' = calls h @ map (\<lambda>c. (c, journalFile h)) cs \<and> list_all C cs)"

definition quiet :: "(call \<Rightarrow> bool) \<Rightarrow> ('w, 'a) dep \<Rightarrow> bool" where
  "quiet C m \<longleftrightarrow> (\<forall>h. quiet_step C h (fst (m h)))"

lemma quiet_step_refl [simp]: "quiet_step C h h"
  by (auto simp: quiet_step_def)

lemma quiet_step_trans: "quiet_step C a b \<Longrightarrow> quiet_step C b c \<Longrightarrow> quiet_step C a c"
proof -
  assume a: "quiet_step C a b" and b: "quiet_step C b c"
  obtain cs where "calls b = calls a @ map (\<lambda>c. (c, journalFile a)) cs" "list_all C cs"
    using a by (auto simp: quiet_step_def)
  moreover obtain ds where "calls c = calls b @ map (\<lambda>c. (c, journalFile b)) ds" "list_all C ds"
    using b by (auto simp: quiet_step_def)
  ultimately show "quiet_step C a c"
    using a b unfolding quiet_step_def by (intro conjI exI[of _ "cs @ ds"]) auto
qed

lemma quiet_silent: "quiet_step noCall h h' \<longleftrightarrow> stateFile h' = stateFile h \<and> journalFile h' = journalFile h \<and>
    mem h' = mem h \<and> calls h' = calls h"
  by (auto simp: quiet_step_def noCall_def list_all_iff)

lemma quietI: "(\<And>h h' r. m h = (h', r) \<Longrightarrow> quiet_step C h h') \<Longrightarrow> quiet C m"
  by (auto simp: quiet_def intro: surjective_pairing)

lemma quietD: "quiet C m \<Longrightarrow> m h = (h', r) \<Longrightarrow> quiet_step C h h'"
  by (metis fst_conv quiet_def)

lemma quiet_step_world [simp]: "quiet_step C h (h\<lparr>world := w\<rparr>)"
  by (auto simp: quiet_step_def)

lemma quiet_bind [quiet_intros]: "quiet C m \<Longrightarrow> (\<And>a. quiet C (f a)) \<Longrightarrow> quiet C (bindD m f)"
  by (rule quietI) (auto simp: bindD_def split: prod.splits reply.splits dest!: quietD intro: quiet_step_trans)

lemma quiet_basic [quiet_intros]:
  "quiet C (returnD a)" "quiet C (failD e)" "quiet C (guardD b msg)" "quiet C (optD msg x)" "quiet C getMem" "quiet C (memPhase P)"
  by (auto simp: quiet_def returnD_def failD_def guardD_def optD_def getMem_def memPhase_def split: option.splits)

lemma quiet_when [quiet_intros]: "quiet C m \<Longrightarrow> quiet C (whenD b m)"
  by (simp add: whenD_def quiet_basic)

lemma quiet_attempt [quiet_intros]: "quiet C m \<Longrightarrow> quiet C (attemptD m)"
  by (rule quietI) (auto simp: attemptD_def split: prod.splits reply.splits dest!: quietD)

lemma quiet_cases [quiet_intros]:
  "(\<And>a. r = Inl a \<Longrightarrow> quiet C (f a)) \<Longrightarrow> (\<And>b. r = Inr b \<Longrightarrow> quiet C (g b)) \<Longrightarrow> quiet C (case r of Inl a \<Rightarrow> f a | Inr b \<Rightarrow> g b)"
  "quiet C n \<Longrightarrow> (\<And>a. x = Some a \<Longrightarrow> quiet C (s a)) \<Longrightarrow> quiet C (case x of None \<Rightarrow> n | Some a \<Rightarrow> s a)"
  "(b \<Longrightarrow> quiet C u) \<Longrightarrow> (\<not> b \<Longrightarrow> quiet C v) \<Longrightarrow> quiet C (if b then u else v)"
  "(\<And>p q. y = (p, q) \<Longrightarrow> quiet C (k p q)) \<Longrightarrow> quiet C (case y of (p, q) \<Rightarrow> k p q)"
  by (auto split: sum.splits option.splits prod.splits)

lemma quiet_wrap [quiet_intros]: "quiet C m \<Longrightarrow> quiet C (wrapD msg m)"
  unfolding wrapD_def by (intro quiet_intros)

lemma quiet_ext [quiet_intros]: "quiet C (ext f)"
  by (auto simp: quiet_def ext_def split: prod.splits)

lemma quiet_logged [quiet_intros]: "C c \<Longrightarrow> quiet C (logged c f)"
  by (auto simp: quiet_def logged_def ext_def quiet_step_def split: prod.splits intro!: exI[of _ "[c]"])

lemma quiet_readFile [quiet_intros]: "quiet C (readFile L)"
  unfolding readFile_def by (intro quiet_intros)

lemma quiet_loads [quiet_intros]: "quiet C (LoadState L)" "quiet C (LoadJournal L)"
  by (auto simp: LoadState_def LoadJournal_def loaded_def intro!: quiet_bind quiet_readFile)
     (auto simp: quiet_def failD_def returnD_def split: stored.splits)

lemma quiet_verifyDesired [quiet_intros]: "quiet C (verifyDesired L d)"
  unfolding verifyDesired_def by (intro quiet_intros)

lemma quiet_attest [quiet_intros]: "quiet C (attestLease L)"
  unfolding attestLease_def by (intro quiet_intros)

lemma quiet_manager [quiet_intros]:
  assumes "quiet serviceCall attest"
  shows "quiet serviceCall (installDefinition L attest p)" "quiet serviceCall (activateManager L attest)" "quiet serviceCall (stopManager L attest)"
    "quiet serviceCall (renderFor L d)"
  unfolding installDefinition_def activateManager_def stopManager_def renderFor_def
  by (intro quiet_intros assms; simp add: serviceCall_def)+

lemma quiet_stopPrior [quiet_intros]: "quiet serviceCall attest \<Longrightarrow> quiet serviceCall (stopPrior L p attest)"
  unfolding stopPrior_def by (intro quiet_intros)

lemma quiet_activateDesired [quiet_intros]: "quiet serviceCall attest \<Longrightarrow> quiet serviceCall (activateDesired L d attest)"
  unfolding activateDesired_def by (intro quiet_intros)

lemma quiet_waitLoop [quiet_intros]: "quiet C (waitLoop n L d)"
proof (induction n)
  case (Suc n)
  show ?case unfolding waitLoop.simps Let_def by (intro quiet_intros Suc)
qed (simp add: quiet_basic)

lemma quiet_waitForRunning [quiet_intros]: "quiet C (waitForRunning L d)"
  unfolding waitForRunning_def by (intro quiet_intros)

lemma quiet_restoreService [quiet_intros]: "quiet serviceCall attest \<Longrightarrow> quiet serviceCall (restoreService L r attest)"
  unfolding restoreService_def by (intro quiet_intros)

lemma quiet_restoreActive [quiet_intros]: "quiet serviceCall attest \<Longrightarrow> quiet serviceCall (restoreActive L p attest)"
  unfolding restoreActive_def by (intro quiet_intros)

lemma quiet_restoreInterruptedStop [quiet_intros]: "quiet serviceCall (restoreInterruptedStop L r)"
  unfolding restoreInterruptedStop_def by (intro quiet_intros)

lemma quiet_installSwitched [quiet_intros]: "quiet serviceCall attest \<Longrightarrow> quiet serviceCall (installSwitched L j d attest)"
  unfolding installSwitched_def by (intro quiet_intros)

lemma quiet_stageRelease [quiet_intros]: "quiet C (stageRelease L d a b c)"
  unfolding stageRelease_def stageSupportFiles_def stageSupportFile_def by (intro quiet_intros)

lemma quiet_initializeInstance [quiet_intros]: "quiet C (initializeInstance L)"
  unfolding initializeInstance_def by (intro quiet_intros)

lemma quiet_checkRecorded [quiet_intros]: "quiet C (checkRecorded L s d)"
  unfolding checkRecorded_def validateRecordedActiveServiceBinding_def verifyRecordedReleaseForApply_def
    verifyRetainedRollbackReleaseForApply_def by (intro quiet_intros)

lemma quiet_newTransactionID [quiet_intros]: "quiet C (newTransactionID L)"
  unfolding newTransactionID_def by (intro quiet_intros)

lemma quiet_planRollback [quiet_intros]: "quiet C (planRollback L s)"
  unfolding planRollback_def by (intro quiet_intros)

lemma quiet_idempotent [quiet_intros]: "quiet C (validateIdempotentApply L s r)"
  unfolding validateIdempotentApply_def by (intro quiet_intros)

lemma quiet_Status: "quiet C (LifecycleStatus L)"
  unfolding LifecycleStatus_def installedStatus_def probeStatus_def Let_def by (intro quiet_intros)

text \<open>A quiet computation keeps what does not depend on the world and tolerates logged calls.\<close>

definition steady :: "(call \<Rightarrow> bool) \<Rightarrow> ('w host \<Rightarrow> bool) \<Rightarrow> bool" where
  "steady C P \<longleftrightarrow> (\<forall>h h'. quiet_step C h h' \<longrightarrow> P h \<longrightarrow> P h')"

lemma triple_quiet: "quiet C m \<Longrightarrow> steady C P \<Longrightarrow> triple P m (\<lambda>_. P) P"
  by (rule tripleI) (auto simp: steady_def split: reply.splits dest!: quietD)

lemma triple_seq_quiet:
  assumes "quiet C m" and "steady C P" and "\<And>h. P h \<Longrightarrow> E h" and "\<And>a. triple P (f a) Q E"
  shows "triple P (bindD m f) Q E"
  by (rule triple_seq[OF triple_quiet[OF assms(1,2)] assms(3,4)])

end
