(* ===== verification/DeployLaws.thy ===== *)
theory DeployLaws
  imports LifecycleLaws
begin

text \<open>
  Atomicity of the deployment transactions. \<open>consistent\<close> is what the two metadata files promise between
  operations: a journal on disk is valid and the state file holds the state before its transaction, or
  the state the transaction commits once the journal announces the commit. \<open>tx\<close> is its form inside an
  operation, where the journal variable may be ahead of the file. The rules for the steps of a
  transaction lead to one rule per operation.
\<close>

section \<open>The invariant of a transaction\<close>

definition prior_file :: "DeploymentJournal \<Rightarrow> DeploymentState stored" where
  "prior_file j = (case dj_PriorState j of None \<Rightarrow> Absent | Some s \<Rightarrow> Stored s)"

definition committed_file :: "Layout \<Rightarrow> DeploymentJournal \<Rightarrow> DeploymentState stored" where
  "committed_file l j = (case committed l j of None \<Rightarrow> Absent | Some s \<Rightarrow> Stored s)"

text \<open>Journals of one transaction differ in their phase and in the paths of their inputs only.\<close>

definition same_tx :: "DeploymentJournal \<Rightarrow> DeploymentJournal \<Rightarrow> bool" where
  "same_tx j k \<longleftrightarrow> dj_TransactionID j = dj_TransactionID k \<and> dj_Operation j = dj_Operation k \<and>
     dj_Manager j = dj_Manager k \<and> dj_ServiceDefinition j = dj_ServiceDefinition k \<and>
     dj_Desired j = dj_Desired k \<and> dj_PriorState j = dj_PriorState k"

definition journal_ok :: "Layout \<Rightarrow> DeploymentJournal \<Rightarrow> bool" where
  "journal_ok l j \<longleftrightarrow> validate_journal l j \<and> switches_back j"

text \<open>Every logged call was made under a valid journal; artifacts are removed only by an uninstallation
  that recorded that it is about to do so.\<close>

definition ahead :: "Layout \<Rightarrow> (call \<times> DeploymentJournal stored) list \<Rightarrow> (call \<times> DeploymentJournal stored) list \<Rightarrow> bool" where
  "ahead l before cs \<longleftrightarrow> (\<exists>ds. cs = before @ ds \<and> (\<forall>(c, f) \<in> set ds. \<exists>j. f = Stored j \<and> journal_ok l j \<and>
     (c = CallRemoveArtifacts \<longrightarrow> dj_Operation j = OperationUninstall \<and> dj_Phase j = PhaseRemovingArtifacts)))"

definition commitPhase :: "Phase \<Rightarrow> bool" where
  "commitPhase p \<longleftrightarrow> p = PhaseCommitting \<or> p = PhaseStateSaved"

definition tx_file :: "Layout \<Rightarrow> DeploymentJournal \<Rightarrow> Phase \<Rightarrow> Phase \<Rightarrow> DeploymentState stored \<Rightarrow> bool" where
  "tx_file l j pd pm f \<longleftrightarrow> f = prior_file j \<and> pd \<noteq> PhaseStateSaved \<or>
     f = committed_file l j \<and> commitPhase pd \<and> commitPhase pm \<and> (pd = PhaseStateSaved \<longrightarrow> pm = PhaseStateSaved)"

definition state_ok :: "Layout \<Rightarrow> DeploymentState stored \<Rightarrow> bool" where
  "state_ok l f = (case f of Absent \<Rightarrow> True | Damaged \<Rightarrow> False | Stored s \<Rightarrow> validate_state l s)"

definition tx :: "Layout \<Rightarrow> DeploymentJournal \<Rightarrow> (call \<times> DeploymentJournal stored) list \<Rightarrow> 'w host \<Rightarrow> bool" where
  "tx l j0 c0 h \<longleftrightarrow> (\<exists>jd. journalFile h = Stored jd \<and> journal_ok l jd \<and> same_tx jd j0 \<and> same_tx (mem h) j0 \<and>
       tx_file l j0 (dj_Phase jd) (dj_Phase (mem h)) (stateFile h)) \<and>
     state_ok l (stateFile h) \<and> ahead l c0 (calls h)"

text \<open>At the end of a step the journal variable is the journal on disk.\<close>

definition sync :: "Layout \<Rightarrow> DeploymentJournal \<Rightarrow> (call \<times> DeploymentJournal stored) list \<Rightarrow> (Phase \<Rightarrow> bool) \<Rightarrow> 'w host \<Rightarrow> bool" where
  "sync l j0 c0 X h \<longleftrightarrow> tx l j0 c0 h \<and> journalFile h = Stored (mem h) \<and> X (dj_Phase (mem h))"

text \<open>After a transaction the journal is gone.\<close>

definition after_tx :: "Layout \<Rightarrow> (call \<times> DeploymentJournal stored) list \<Rightarrow> DeploymentState stored \<Rightarrow> 'w host \<Rightarrow> bool" where
  "after_tx l c0 f h \<longleftrightarrow> journalFile h = Absent \<and> stateFile h = f \<and> state_ok l f \<and> ahead l c0 (calls h)"

lemma same_tx_refl [simp]: "same_tx j j"
  by (simp add: same_tx_def)

lemma same_tx_phase [simp]: "same_tx (j\<lparr>dj_Phase := p\<rparr>) k \<longleftrightarrow> same_tx j k"
  by (simp add: same_tx_def)

lemma same_tx_files:
  assumes "same_tx j k"
  shows "prior_file j = prior_file k" "committed_file l j = committed_file l k" "committed l j = committed l k"
    "switches_back j \<longleftrightarrow> switches_back k"
  using assms by (auto simp: same_tx_def prior_file_def committed_file_def committed_def committedApplyState_def
      committedRollbackState_def committedUninstallState_def switch_state_def switches_back_def
      split: option.splits Operation.splits)

lemma ahead_refl [simp]: "ahead l c c"
  by (auto simp: ahead_def)

lemma ahead_call:
  assumes "ahead l c0 cs" and "journal_ok l j"
    and "c = CallRemoveArtifacts \<Longrightarrow> dj_Operation j = OperationUninstall \<and> dj_Phase j = PhaseRemovingArtifacts"
  shows "ahead l c0 (cs @ [(c, Stored j)])"
proof -
  obtain ds where "cs = c0 @ ds" "\<forall>(c, f) \<in> set ds. \<exists>j. f = Stored j \<and> journal_ok l j \<and>
     (c = CallRemoveArtifacts \<longrightarrow> dj_Operation j = OperationUninstall \<and> dj_Phase j = PhaseRemovingArtifacts)"
    using assms(1) by (auto simp: ahead_def)
  then show ?thesis
    unfolding ahead_def using assms(2,3) by (intro exI[of _ "ds @ [(c, Stored j)]"]) auto
qed

lemma ahead_calls:
  "ahead l c0 cs \<Longrightarrow> journal_ok l j \<Longrightarrow> list_all serviceCall ds \<Longrightarrow> ahead l c0 (cs @ map (\<lambda>c. (c, Stored j)) ds)"
proof (induction ds rule: rev_induct)
  case (snoc d ds)
  then show ?case using ahead_call[of l c0 "cs @ map (\<lambda>c. (c, Stored j)) ds" j d] by (auto simp: serviceCall_def)
qed simp

lemma steady_tx [intro]: "steady serviceCall (tx l j0 c0)"
proof -
  have "tx l j0 c0 h'" if q: "quiet_step serviceCall h h'" and t: "tx l j0 c0 h" for h h' :: "'a host"
  proof -
    obtain jd where jd: "journalFile h = Stored jd" "journal_ok l jd" "ahead l c0 (calls h)"
      using t by (auto simp: tx_def)
    obtain cs where "calls h' = calls h @ map (\<lambda>c. (c, journalFile h)) cs" "list_all serviceCall cs"
      using q by (auto simp: quiet_step_def)
    then have "ahead l c0 (calls h')" using jd ahead_calls by metis
    then show ?thesis using q t by (auto simp: tx_def quiet_step_def)
  qed
  then show ?thesis by (auto simp: steady_def)
qed

lemma steady_sync [intro]: "steady serviceCall (sync l j0 c0 X)"
  using steady_tx[of l j0 c0] by (auto simp: steady_def sync_def quiet_step_def)

lemma sync_tx [simp]: "sync l j0 c0 X h \<Longrightarrow> tx l j0 c0 h"
  by (simp add: sync_def)

lemma sync_weaken: "sync l j0 c0 X h \<Longrightarrow> (\<And>p. X p \<Longrightarrow> Y p) \<Longrightarrow> sync l j0 c0 Y h"
  by (simp add: sync_def)

lemma tx_world [simp]: "tx l j0 c0 (h\<lparr>world := w\<rparr>) = tx l j0 c0 h"
  by (simp add: tx_def)

section \<open>Rules for the steps\<close>

lemma triple_quiet_sync: "quiet serviceCall m \<Longrightarrow> triple (sync l j0 c0 X) m (\<lambda>_. sync l j0 c0 X) (tx l j0 c0)"
  by (rule triple_conseq[OF triple_quiet[OF _ steady_sync]]) auto

lemma triple_quiet_tx: "quiet serviceCall m \<Longrightarrow> triple (tx l j0 c0) m (\<lambda>_. tx l j0 c0) (tx l j0 c0)"
  by (rule triple_quiet) auto

text \<open>Checkpoints: before the commit the state file still holds the prior state.\<close>

lemma triple_checkpoint:
  assumes l: "l = lc_layout L" and X: "\<And>q. X q \<Longrightarrow> \<not> commitPhase q" and p: "p \<noteq> PhaseStateSaved"
  shows "triple (sync l j0 c0 X) (checkpoint L p) (\<lambda>_. sync l j0 c0 (\<lambda>q. q = p)) (tx l j0 c0)"
proof (rule tripleI)
  fix h h' r assume s: "sync l j0 c0 X h" and c: "checkpoint L p h = (h', r)"
  have t: "journalFile h = Stored (mem h)" "journal_ok l (mem h)" "same_tx (mem h) j0" "stateFile h = prior_file j0"
    "ahead l c0 (calls h)" "state_ok l (stateFile h)"
    using s X by (auto simp: sync_def tx_def tx_file_def)
  have ok: "switches_back ((mem h)\<lparr>dj_Phase := p\<rparr>)"
    using t(2) same_tx_files(4)[of "(mem h)\<lparr>dj_Phase := p\<rparr>" "mem h"] by (simp add: journal_ok_def)
  show "case r of Done a \<Rightarrow> sync l j0 c0 (\<lambda>q. q = p) h' | _ \<Rightarrow> tx l j0 c0 h'"
    using c t ok p X s
    by (auto simp: checkpoint_def bindD_def getMem_def setMem_def SaveJournal_def durable_def failD_def returnD_def
        injectCrash_def Let_def sync_def tx_def tx_file_def journal_ok_def l
        split: prod.splits effect.splits if_splits)
qed

lemma triple_step_gen:
  assumes l: "l = lc_layout L" and a: "quiet serviceCall attest" and p: "p \<noteq> PhaseStateSaved"
    and X: "\<And>q. X q \<Longrightarrow> q \<noteq> PhaseStateSaved" and r: "reached PhaseCommitting p"
    and m: "triple (sync l j0 c0 (\<lambda>q. X q \<and> \<not> reached q p)) m (\<lambda>_. sync l j0 c0 (\<lambda>q. X q \<and> \<not> reached q p)) (tx l j0 c0)"
  shows "triple (sync l j0 c0 X)
     (phaseStep (memPhase (\<lambda>current. reached current p)) (thenCheckpoint L p attest m))
     (\<lambda>_. sync l j0 c0 (\<lambda>q. q \<noteq> PhaseStateSaved \<and> (q = p \<or> reached q p))) (tx l j0 c0)"
proof -
  have c: "triple (sync l j0 c0 (\<lambda>q. X q \<and> \<not> reached q p)) (thenCheckpoint L p attest m)
      (\<lambda>_. sync l j0 c0 (\<lambda>q. q = p)) (tx l j0 c0)"
    unfolding thenCheckpoint_def
    by (rule triple_bind[OF m], rule triple_bind[OF triple_quiet_sync[OF a]],
        rule triple_checkpoint[OF l _ p]) (use r X in \<open>auto simp: commitPhase_def\<close>)
  show ?thesis
  proof (rule tripleI)
    fix h h' x assume s: "sync l j0 c0 X h"
      and e: "phaseStep (memPhase (\<lambda>current. reached current p)) (thenCheckpoint L p attest m) h = (h', x)"
    show "case x of Done a \<Rightarrow> sync l j0 c0 (\<lambda>q. q \<noteq> PhaseStateSaved \<and> (q = p \<or> reached q p)) h' | _ \<Rightarrow> tx l j0 c0 h'"
    proof (cases "reached (dj_Phase (mem h)) p")
      case True
      then show ?thesis using e s X
        by (auto simp: phaseStep_def bindD_def memPhase_def whenD_def returnD_def sync_def)
    next
      case False
      then have "thenCheckpoint L p attest m h = (h', x)"
        using e by (simp add: phaseStep_def bindD_def memPhase_def whenD_def)
      from tripleD[OF c _ this] s False show ?thesis
        using p by (auto simp: sync_def split: reply.splits)
    qed
  qed
qed

lemma triple_step:
  assumes l: "l = lc_layout L" and m: "quiet serviceCall m" and a: "quiet serviceCall attest" and p: "p \<noteq> PhaseStateSaved"
    and r: "reached PhaseCommitting p"
  shows "triple (sync l j0 c0 (\<lambda>q. q \<noteq> PhaseStateSaved))
     (phaseStep (memPhase (\<lambda>current. reached current p)) (thenCheckpoint L p attest m))
     (\<lambda>_. sync l j0 c0 (\<lambda>q. q \<noteq> PhaseStateSaved \<and> (q = p \<or> reached q p))) (tx l j0 c0)"
  by (rule triple_step_gen[where reached = reached, OF l a p _ r triple_quiet_sync[OF m]])

lemma triple_switchStep:
  assumes "l = lc_layout L" and "quiet serviceCall m" and "quiet serviceCall attest" and "p \<noteq> PhaseStateSaved"
    and "reached PhaseCommitting p"
  shows "triple (sync l j0 c0 (\<lambda>q. q \<noteq> PhaseStateSaved)) (switchStep L reached attest p m)
     (\<lambda>_. sync l j0 c0 (\<lambda>q. q \<noteq> PhaseStateSaved)) (tx l j0 c0)"
  unfolding switchStep_def
  by (rule triple_conseq[OF triple_step[where reached = reached, OF assms]]) (auto simp: sync_def)

section \<open>Committing a switch\<close>

text \<open>A phase order in which the steps of a switch come before its commit.\<close>

locale switch_order =
  fixes reached :: "Phase \<Rightarrow> Phase \<Rightarrow> bool"
  assumes before: "p \<in> {PhasePriorServiceStopped, PhaseDefinitionInstalled, PhaseActivated, PhaseHealthVerified,
        PhaseCommitting} \<Longrightarrow> reached PhaseCommitting p"
    and commit: "reached q PhaseCommitting \<Longrightarrow> commitPhase q"
begin

lemma switchService_triple:
  assumes l: "l = lc_layout L" and a: "quiet serviceCall attest"
  shows "triple (sync l j0 c0 (\<lambda>q. q \<noteq> PhaseStateSaved)) (switchService L reached attest j d)
     (\<lambda>_. sync l j0 c0 (\<lambda>q. q = PhaseCommitting)) (tx l j0 c0)"
proof -
  note step = triple_switchStep[where reached = reached and attest = attest, OF l _ a]
  have last: "triple (sync l j0 c0 (\<lambda>q. q \<noteq> PhaseStateSaved)) (switchStep L reached attest PhaseCommitting (returnD ()))
     (\<lambda>_. sync l j0 c0 (\<lambda>q. q = PhaseCommitting)) (tx l j0 c0)"
    unfolding switchStep_def
    by (rule triple_conseq[OF triple_step[where reached = reached, OF l quiet_basic(1) a]])
       (use before commit in \<open>auto simp: commitPhase_def intro: sync_weaken\<close>)
  show ?thesis
    unfolding switchService_def
    by (rule triple_bind[OF step], (intro quiet_intros a)[1], simp, (rule before, simp)[1],
        rule triple_bind[OF step], (intro quiet_intros a)[1], simp, (rule before, simp)[1],
        rule triple_bind[OF triple_when], rule triple_bind[OF step], (intro quiet_intros a)[1], simp, (rule before, simp)[1],
        rule step, (intro quiet_intros)[1], simp, (rule before, simp)[1], assumption, rule last)
qed

end

lemma switch_orders:
  assumes "p \<in> {PhasePriorServiceStopped, PhaseDefinitionInstalled, PhaseActivated, PhaseHealthVerified, PhaseCommitting}"
  shows "rollbackPhaseReached PhaseCommitting p" "applyPhaseReached PhaseCommitting p"
  using assms by (auto simp: phase_reached_simps)

lemma committing_reached:
  "rollbackPhaseReached q PhaseCommitting \<Longrightarrow> commitPhase q" "applyPhaseReached q PhaseCommitting \<Longrightarrow> commitPhase q"
  "uninstallPhaseReached q PhaseCommitting \<Longrightarrow> commitPhase q"
  by (cases q; simp add: phase_reached_simps commitPhase_def)+

interpretation apply_order: switch_order applyPhaseReached
  by unfold_locales (erule switch_orders(2), erule committing_reached(2))

interpretation rollback_order: switch_order rollbackPhaseReached
  by unfold_locales (erule switch_orders(1), erule committing_reached(1))

text \<open>\<open>saved\<close>: the commit is announced and the state file holds the committed state.\<close>

definition saved :: "Layout \<Rightarrow> DeploymentJournal \<Rightarrow> (call \<times> DeploymentJournal stored) list \<Rightarrow> 'w host \<Rightarrow> bool" where
  "saved l j0 c0 h \<longleftrightarrow> sync l j0 c0 (\<lambda>q. q = PhaseCommitting) h \<and> stateFile h = committed_file l j0"

text \<open>What holds when a run does not return a result.\<close>

definition interrupted :: "Layout \<Rightarrow> DeploymentJournal \<Rightarrow> (call \<times> DeploymentJournal stored) list \<Rightarrow> 'w host \<Rightarrow> bool" where
  "interrupted l j0 c0 h \<longleftrightarrow> tx l j0 c0 h \<or> after_tx l c0 (committed_file l j0) h \<and> dj_Phase (mem h) = PhaseStateSaved"

definition settledTx :: "Layout \<Rightarrow> DeploymentJournal \<Rightarrow> (call \<times> DeploymentJournal stored) list \<Rightarrow> 'w host \<Rightarrow> bool" where
  "settledTx l j0 c0 h \<longleftrightarrow> sync l j0 c0 (\<lambda>q. q = PhaseStateSaved) h \<or>
     after_tx l c0 (committed_file l j0) h \<and> dj_Phase (mem h) = PhaseStateSaved"

lemma settled_interrupted: "settledTx l j0 c0 h \<Longrightarrow> interrupted l j0 c0 h"
  by (auto simp: settledTx_def interrupted_def)

lemma sync_settled [intro]: "sync l j0 c0 (\<lambda>q. q = PhaseStateSaved) h \<Longrightarrow> settledTx l j0 c0 h"
  by (simp add: settledTx_def)

lemma tx_interrupted [intro]: "tx l j0 c0 h \<Longrightarrow> interrupted l j0 c0 h"
  by (simp add: interrupted_def)

lemma steady_saved [intro]: "steady serviceCall (saved l j0 c0)"
  using steady_sync[of l j0 c0 "\<lambda>q. q = PhaseCommitting"] unfolding steady_def saved_def quiet_step_def by auto

lemma saved_tx: "saved l j0 c0 h \<Longrightarrow> tx l j0 c0 h"
  by (auto simp: saved_def)

lemma triple_SaveState_commit:
  assumes "l = lc_layout L" and "committed l j0 = Some s"
  shows "triple (sync l j0 c0 (\<lambda>q. q = PhaseCommitting)) (SaveState L s) (\<lambda>_. saved l j0 c0) (tx l j0 c0)"
proof -
  have f: "committed_file l j0 = Stored s" using assms(2) by (simp add: committed_file_def)
  show ?thesis unfolding SaveState_def assms(1)[symmetric]
    by (intro triple_if triple_fail triple_durable)
       (auto simp: saved_def sync_def tx_def tx_file_def commitPhase_def state_ok_def f)
qed

lemma triple_checkpoint_saved:
  assumes l: "l = lc_layout L"
  shows "triple (saved l j0 c0) (checkpoint L PhaseStateSaved) (\<lambda>_. sync l j0 c0 (\<lambda>q. q = PhaseStateSaved)) (tx l j0 c0)"
proof (rule tripleI)
  fix h h' r assume s: "saved l j0 c0 h" and c: "checkpoint L PhaseStateSaved h = (h', r)"
  have t: "journalFile h = Stored (mem h)" "journal_ok l (mem h)" "same_tx (mem h) j0" "stateFile h = committed_file l j0"
    "ahead l c0 (calls h)" "state_ok l (stateFile h)" "dj_Phase (mem h) = PhaseCommitting"
    using s by (auto simp: saved_def sync_def tx_def)
  have ok: "switches_back ((mem h)\<lparr>dj_Phase := PhaseStateSaved\<rparr>)"
    using t(2) same_tx_files(4)[of "(mem h)\<lparr>dj_Phase := PhaseStateSaved\<rparr>" "mem h"] by (simp add: journal_ok_def)
  show "case r of Done a \<Rightarrow> sync l j0 c0 (\<lambda>q. q = PhaseStateSaved) h' | _ \<Rightarrow> tx l j0 c0 h'"
    using c t ok
    by (auto simp: checkpoint_def bindD_def getMem_def setMem_def SaveJournal_def durable_def failD_def returnD_def
        injectCrash_def Let_def sync_def tx_def tx_file_def journal_ok_def l commitPhase_def
        split: prod.splits effect.splits if_splits)
qed

lemma triple_RemoveJournal_saved:
  "triple (sync l j0 c0 (\<lambda>q. q = PhaseStateSaved)) (RemoveJournal L) (\<lambda>_. after_tx l c0 (committed_file l j0)) (settledTx l j0 c0)"
  unfolding RemoveJournal_def
  by (rule triple_durable) (auto simp: settledTx_def after_tx_def sync_def tx_def tx_file_def)

lemma sync_interrupted [intro]: "sync l j0 c0 X h \<Longrightarrow> interrupted l j0 c0 h"
  by (rule tx_interrupted) simp

lemma saved_interrupted [intro]: "saved l j0 c0 h \<Longrightarrow> interrupted l j0 c0 h"
  by (rule tx_interrupted) (rule saved_tx)

lemma resultForState_state: "resultForState l s f t = Some r \<Longrightarrow> ar_State r = s"
  by (auto simp: resultForState_def split: option.splits)

definition concluded :: "Layout \<Rightarrow> DeploymentJournal \<Rightarrow> (call \<times> DeploymentJournal stored) list \<Rightarrow> DeploymentState \<Rightarrow> 'w host \<Rightarrow> bool" where
  "concluded l j0 c0 s h \<longleftrightarrow> after_tx l c0 (committed_file l j0) h \<and> committed l j0 = Some s"

text \<open>The receipt of a saved state, then the removal of the journal.\<close>

lemma triple_receipt:
  assumes a: "quiet serviceCall attest" and s: "committed l j0 = Some s"
  shows "triple (sync l j0 c0 (\<lambda>q. q = PhaseStateSaved))
    (bindD (optD msg (resultForState k s f t)) (\<lambda>result. bindD attest (\<lambda>_. bindD (RemoveJournal L) (\<lambda>_. returnD result))))
    (\<lambda>r. concluded l j0 c0 (ar_State r)) (settledTx l j0 c0)"
proof (rule triple_opt)
  fix r assume r: "resultForState k s f t = Some r"
  show "triple (sync l j0 c0 (\<lambda>q. q = PhaseStateSaved)) (bindD attest (\<lambda>_. bindD (RemoveJournal L) (\<lambda>_. returnD r)))
      (\<lambda>r. concluded l j0 c0 (ar_State r)) (settledTx l j0 c0)"
    by (rule triple_seq_quiet[OF a steady_sync], blast, rule triple_bind[OF triple_RemoveJournal_saved],
        rule triple_return) (use s resultForState_state[OF r] in \<open>simp add: concluded_def\<close>)
qed auto

lemma triple_commitSwitch:
  assumes l: "l = lc_layout L" and a: "quiet serviceCall attest" and w: "want = committed l j0"
  shows "triple (sync l j0 c0 (\<lambda>q. q = PhaseCommitting)) (commitSwitch L attest j want)
     (\<lambda>r. concluded l j0 c0 (ar_State r)) (interrupted l j0 c0)"
  unfolding commitSwitch_def
  apply (rule triple_opt)
   apply (rule triple_seq_quiet[OF a steady_sync], blast)
   apply (rule triple_seq[OF triple_SaveState_commit[OF l]], use w in simp, blast)
   apply (rule triple_bind[where R = "\<lambda>_. sync l j0 c0 (\<lambda>q. q = PhaseStateSaved)"])
    apply (rule triple_seq_quiet[OF a steady_saved], blast)
    apply (rule triple_conseq[OF triple_checkpoint_saved[OF l]], assumption, assumption, blast)
   apply (rule triple_conseq[OF triple_receipt[OF a]], use w in simp, assumption, assumption, erule settled_interrupted)
  apply blast
  done

lemma triple_validateCommitted:
  assumes "steady serviceCall P" and "\<And>h. P h \<Longrightarrow> E h" and "\<And>s. want = Some s \<Longrightarrow> triple P (f s) Q E"
  shows "triple P (bindD (validateCommitted L want) f) Q E"
proof -
  have q: "quiet serviceCall (validateCommitted L want)" unfolding validateCommitted_def by (intro quiet_intros)
  show ?thesis
  proof (rule tripleI)
    fix h h' r assume h: "P h" and e: "bindD (validateCommitted L want) f h = (h', r)"
    obtain h1 r1 where v: "validateCommitted L want h = (h1, r1)" by fastforce
    have p: "P h1" using assms(1) quietD[OF q v] h by (auto simp: steady_def)
    have w: "want = Some s" if "r1 = Done s" for s
      using v that by (cases want) (auto simp: validateCommitted_def bindD_def optD_def guardD_def failD_def
          returnD_def split: prod.splits reply.splits if_splits)
    show "case r of Done a \<Rightarrow> Q a h' | _ \<Rightarrow> E h'"
      using e v p w assms(2) tripleD[OF assms(3)] by (cases r1) (auto simp: bindD_def)
  qed
qed

lemma triple_concludeSwitch:
  assumes a: "quiet serviceCall attest" and w: "want = committed l j0"
  shows "triple (sync l j0 c0 (\<lambda>q. q = PhaseStateSaved)) (concludeSwitch L attest j want)
     (\<lambda>r. concluded l j0 c0 (ar_State r)) (settledTx l j0 c0)"
  unfolding concludeSwitch_def
  by (rule triple_validateCommitted[OF steady_sync]) (use w in \<open>auto intro: triple_receipt[OF a]\<close>)

section \<open>The runs\<close>

lemma sync_journal:
  assumes "\<And>j. same_tx j j0 \<Longrightarrow> journal_ok l j \<Longrightarrow> triple (\<lambda>h. sync l j0 c0 X h \<and> mem h = j) (f j) Q E"
  shows "triple (sync l j0 c0 X) (bindD getMem f) Q E"
proof (rule triple_getMem)
  fix j
  show "triple (\<lambda>h. sync l j0 c0 X h \<and> mem h = j) (f j) Q E"
  proof (cases "same_tx j j0 \<and> journal_ok l j")
    case True
    then show ?thesis using assms by blast
  next
    case False
    then show ?thesis by (auto simp: triple_def sync_def tx_def)
  qed
qed

lemma triple_runRollback:
  assumes l: "l = lc_layout L" and op: "dj_Operation j0 = OperationRollback"
  shows "triple (sync l j0 c0 (\<lambda>_. True)) (runRollback L) (\<lambda>r. concluded l j0 c0 (ar_State r)) (interrupted l j0 c0)"
  unfolding runRollback_def
proof (rule sync_journal, rule triple_if)
  fix j assume j: "same_tx j j0" "journal_ok l j"
  then have w: "committedRollbackState (lc_layout L) j = committed l j0"
    using op same_tx_files(3)[OF j(1), of l] l by (simp add: committed_def same_tx_def)
  show "triple (\<lambda>h. sync l j0 c0 (\<lambda>_. True) h \<and> mem h = j)
      (concludeSwitch L (returnD ()) j (committedRollbackState (lc_layout L) j))
      (\<lambda>r. concluded l j0 c0 (ar_State r)) (interrupted l j0 c0)" if "dj_Phase j = PhaseStateSaved"
    by (rule triple_conseq[OF triple_concludeSwitch[OF quiet_basic(1) w]])
       (use that in \<open>auto simp: sync_def intro: settled_interrupted\<close>)
  show "triple (\<lambda>h. sync l j0 c0 (\<lambda>_. True) h \<and> mem h = j)
      (bindD (optD ''nil dereference'' (dj_Desired j)) (\<lambda>desired. bindD (verifyDesired L desired)
        (\<lambda>_. bindD (switchService L rollbackPhaseReached (returnD ()) j desired)
        (\<lambda>_. commitSwitch L (returnD ()) j (committedRollbackState (lc_layout L) j)))))
      (\<lambda>r. concluded l j0 c0 (ar_State r)) (interrupted l j0 c0)" if "dj_Phase j \<noteq> PhaseStateSaved"
    apply (rule triple_pre[of "sync l j0 c0 (\<lambda>q. q \<noteq> PhaseStateSaved)"])
     apply (rule triple_opt)
      apply (rule triple_seq_quiet[OF quiet_verifyDesired steady_sync], blast)
      apply (rule triple_seq[OF rollback_order.switchService_triple[OF l quiet_basic(1)]], blast)
      apply (rule triple_commitSwitch[OF l quiet_basic(1) w])
    using that by (auto simp: sync_def)
qed

lemma triple_stageApply:
  assumes l: "l = lc_layout L"
  shows "triple (\<lambda>h. sync l j0 c0 (\<lambda>q. q \<noteq> PhaseStateSaved) h \<and> mem h = j)
      (if \<not> applyPhaseReached (dj_Phase j) PhaseArtifactStaged
        then thenCheckpoint L PhaseArtifactStaged (attestLease L) (stageRelease L d a b c) else verifyDesired L d)
      (\<lambda>_. sync l j0 c0 (\<lambda>q. q \<noteq> PhaseStateSaved)) (tx l j0 c0)"
proof (rule triple_if)
  assume "\<not> applyPhaseReached (dj_Phase j) PhaseArtifactStaged"
  then have n: "\<not> commitPhase (dj_Phase j)"
    by (cases "dj_Phase j") (auto simp: phase_reached_simps commitPhase_def)
  show "triple (\<lambda>h. sync l j0 c0 (\<lambda>q. q \<noteq> PhaseStateSaved) h \<and> mem h = j)
      (thenCheckpoint L PhaseArtifactStaged (attestLease L) (stageRelease L d a b c))
      (\<lambda>_. sync l j0 c0 (\<lambda>q. q \<noteq> PhaseStateSaved)) (tx l j0 c0)"
    unfolding thenCheckpoint_def
    apply (rule triple_pre[of "sync l j0 c0 (\<lambda>q. \<not> commitPhase q)"])
     apply (rule triple_seq_quiet[OF quiet_stageRelease steady_sync], simp)
     apply (rule triple_seq_quiet[OF quiet_attest steady_sync], simp)
     apply (rule triple_conseq[OF triple_checkpoint[where X = "\<lambda>q. \<not> commitPhase q", OF l]])
    using n by (auto simp: sync_def)
next
  show "triple (\<lambda>h. sync l j0 c0 (\<lambda>q. q \<noteq> PhaseStateSaved) h \<and> mem h = j) (verifyDesired L d)
      (\<lambda>_. sync l j0 c0 (\<lambda>q. q \<noteq> PhaseStateSaved)) (tx l j0 c0)"
    by (rule triple_pre[OF triple_quiet_sync[OF quiet_verifyDesired]]) auto
qed

lemma triple_runApply:
  assumes l: "l = lc_layout L" and op: "dj_Operation j0 = OperationApply"
  shows "triple (sync l j0 c0 (\<lambda>_. True)) (runApply L) (\<lambda>r. concluded l j0 c0 (ar_State r)) (interrupted l j0 c0)"
  unfolding runApply_def
proof (rule sync_journal, rule triple_if)
  let ?attest = "attestLease L"
  fix j assume j: "same_tx j j0" "journal_ok l j"
  then have w: "committedApplyState (lc_layout L) j = committed l j0"
    using op same_tx_files(3)[OF j(1), of l] l by (simp add: committed_def same_tx_def)
  show "triple (\<lambda>h. sync l j0 c0 (\<lambda>_. True) h \<and> mem h = j)
      (concludeSwitch L ?attest j (committedApplyState (lc_layout L) j))
      (\<lambda>r. concluded l j0 c0 (ar_State r)) (interrupted l j0 c0)" if "dj_Phase j = PhaseStateSaved"
    by (rule triple_conseq[OF triple_concludeSwitch[OF quiet_attest w]])
       (use that in \<open>auto simp: sync_def intro: settled_interrupted\<close>)
  note stage = triple_stageApply[OF l]
  show "triple (\<lambda>h. sync l j0 c0 (\<lambda>_. True) h \<and> mem h = j)
      (bindD (optD ''nil dereference'' (dj_Desired j)) (\<lambda>desired.
       bindD (if \<not> applyPhaseReached (dj_Phase j) PhaseArtifactStaged
         then thenCheckpoint L PhaseArtifactStaged ?attest
           (stageRelease L desired (dj_SourcePath j) (dj_LicenseSourcePath j) (dj_NoticeSourcePath j))
         else verifyDesired L desired) (\<lambda>_.
       bindD (switchStep L applyPhaseReached ?attest PhaseInstanceReady (initializeInstance L)) (\<lambda>_.
       bindD (switchService L applyPhaseReached ?attest j desired) (\<lambda>_.
       commitSwitch L ?attest j (committedApplyState (lc_layout L) j))))))
      (\<lambda>r. concluded l j0 c0 (ar_State r)) (interrupted l j0 c0)" if "dj_Phase j \<noteq> PhaseStateSaved"
    apply (rule triple_pre[of "\<lambda>h. sync l j0 c0 (\<lambda>q. q \<noteq> PhaseStateSaved) h \<and> mem h = j"])
     apply (rule triple_opt)
      apply (rule triple_seq[OF stage], blast)
      apply (rule triple_seq[OF triple_switchStep[OF l quiet_initializeInstance quiet_attest]])
         apply (simp, simp add: phase_reached_simps, blast)
      apply (rule triple_seq[OF apply_order.switchService_triple[OF l quiet_attest]], blast)
      apply (rule triple_commitSwitch[OF l quiet_attest w])
    using that by (auto simp: sync_def)
qed

text \<open>Artifacts are removed under a journal that says so.\<close>

lemma triple_removeArtifacts:
  assumes "dj_Operation j0 = OperationUninstall" and X: "\<And>q. X q \<Longrightarrow> q = PhaseRemovingArtifacts"
  shows "triple (sync l j0 c0 X) (logged CallRemoveArtifacts f) (\<lambda>_. sync l j0 c0 X) (tx l j0 c0)"
proof (rule tripleI)
  fix h h' r assume s: "sync l j0 c0 X h" and e: "logged CallRemoveArtifacts f h = (h', r)"
  have t: "journalFile h = Stored (mem h)" "journal_ok l (mem h)" "same_tx (mem h) j0" "dj_Phase (mem h) = PhaseRemovingArtifacts"
    "ahead l c0 (calls h)"
    using s X by (auto simp: sync_def tx_def)
  have "ahead l c0 (calls h @ [(CallRemoveArtifacts, Stored (mem h))])"
    using t assms(1) by (intro ahead_call) (auto simp: same_tx_def)
  moreover have "sync l j0 c0 X h' \<longleftrightarrow> sync l j0 c0 X (h\<lparr>calls := calls h @ [(CallRemoveArtifacts, Stored (mem h))]\<rparr>)"
    using e t(1) by (auto simp: logged_def ext_def sync_def tx_def split: prod.splits)
  ultimately have "sync l j0 c0 X h'" using s by (auto simp: sync_def tx_def)
  then show "case r of Done a \<Rightarrow> sync l j0 c0 X h' | _ \<Rightarrow> tx l j0 c0 h'" by (auto split: reply.splits)
qed

lemma uninstall_orders:
  "uninstallPhaseReached PhaseCommitting PhasePriorServiceStopped" "uninstallPhaseReached PhaseCommitting PhaseDefinitionRemoved"
  "uninstallPhaseReached PhaseCommitting PhaseRemovingArtifacts" "uninstallPhaseReached PhaseCommitting PhaseArtifactsRemoved"
  "uninstallPhaseReached PhaseCommitting PhaseCommitting"
  by (simp_all add: phase_reached_simps)

lemma removing_reached:
  "q = PhaseRemovingArtifacts \<or> uninstallPhaseReached q PhaseRemovingArtifacts \<Longrightarrow>
   \<not> uninstallPhaseReached q PhaseArtifactsRemoved \<Longrightarrow> q = PhaseRemovingArtifacts"
  by (cases q) (simp_all add: phase_reached_simps)

lemma triple_runUninstall:
  assumes l: "l = lc_layout L" and op: "dj_Operation j0 = OperationUninstall"
  shows "triple (sync l j0 c0 (\<lambda>_. True)) (runUninstall L) (\<lambda>r. concluded l j0 c0 (ur_State r)) (interrupted l j0 c0)"
  unfolding runUninstall_def Let_def
proof (rule sync_journal, rule triple_if)
  fix j assume j: "same_tx j j0" "journal_ok l j"
  then have w: "committedUninstallState (lc_layout L) j = committed l j0"
    using op same_tx_files(3)[OF j(1), of l] l by (simp add: committed_def same_tx_def)
  have remove: "triple (sync l j0 c0 (\<lambda>q. q = PhaseStateSaved))
      (bindD (RemoveJournal L) (\<lambda>_. returnD (uninstalledResult s t))) (\<lambda>r. concluded l j0 c0 (ur_State r))
      (settledTx l j0 c0)" if "committed l j0 = Some s" for s t
    by (rule triple_bind[OF triple_RemoveJournal_saved], rule triple_return)
       (simp add: concluded_def uninstalledResult_def that)
  show "triple (\<lambda>h. sync l j0 c0 (\<lambda>_. True) h \<and> mem h = j)
      (bindD (validateCommitted L (committedUninstallState (lc_layout L) j)) (\<lambda>state.
          bindD (RemoveJournal L) (\<lambda>_. returnD (uninstalledResult state (dj_TransactionID j)))))
      (\<lambda>r. concluded l j0 c0 (ur_State r)) (interrupted l j0 c0)" if "dj_Phase j = PhaseStateSaved"
    apply (rule triple_conseq[where P = "sync l j0 c0 (\<lambda>q. q = PhaseStateSaved)" and E = "settledTx l j0 c0"])
       apply (rule triple_validateCommitted[OF steady_sync], blast, rule remove, use w in simp)
    using that by (auto simp: sync_def intro: settled_interrupted)
  note step = triple_step[where reached = uninstallPhaseReached, OF l _ quiet_basic(1)]
  note gen = triple_step_gen[where reached = uninstallPhaseReached, OF l quiet_basic(1)]
  let ?st = "\<lambda>p m. phaseStep (memPhase (\<lambda>current. uninstallPhaseReached current p)) (thenCheckpoint L p (returnD ()) m)"
  show "triple (\<lambda>h. sync l j0 c0 (\<lambda>_. True) h \<and> mem h = j)
      (bindD (?st PhasePriorServiceStopped (stopPrior L (dj_PriorState j) (returnD ()))) (\<lambda>_.
       bindD (?st PhaseDefinitionRemoved (whenD (dj_Manager j \<noteq> ManagerForeground \<and> dj_Manager j \<noteq> ManagerNone)
          (logged CallRemove (mgr_Remove L)))) (\<lambda>_.
       bindD (?st PhaseRemovingArtifacts (returnD ())) (\<lambda>_.
       bindD (?st PhaseArtifactsRemoved (logged CallRemoveArtifacts (lc_removeArtifacts L))) (\<lambda>_.
       bindD (?st PhaseCommitting (returnD ())) (\<lambda>_.
       bindD (optD ''nil dereference'' (committedUninstallState (lc_layout L) j)) (\<lambda>state.
       bindD (SaveState L state) (\<lambda>_.
       bindD (checkpoint L PhaseStateSaved) (\<lambda>_.
       bindD (RemoveJournal L) (\<lambda>_.
       returnD (uninstalledResult state (dj_TransactionID j))))))))))))
      (\<lambda>r. concluded l j0 c0 (ur_State r)) (interrupted l j0 c0)" if "dj_Phase j \<noteq> PhaseStateSaved"
    apply (rule triple_pre[of "sync l j0 c0 (\<lambda>q. q \<noteq> PhaseStateSaved)"])
     apply (rule triple_seq[OF step], (intro quiet_intros)[1], simp, rule uninstall_orders, blast)
     apply (rule triple_pre[of "sync l j0 c0 (\<lambda>q. q \<noteq> PhaseStateSaved)"])
      apply (rule triple_seq[OF step], (intro quiet_intros, simp add: serviceCall_def)[1], simp, rule uninstall_orders, blast)
      apply (rule triple_pre[of "sync l j0 c0 (\<lambda>q. q \<noteq> PhaseStateSaved)"])
       apply (rule triple_seq[OF step[OF quiet_basic(1)]], simp, rule uninstall_orders, blast)
       apply (rule triple_seq[OF gen[OF _ _ _ triple_removeArtifacts[OF op]]])
            apply (simp, blast, rule uninstall_orders, (use removing_reached in blast)[1], blast)
       apply (rule triple_pre[of "sync l j0 c0 (\<lambda>q. q \<noteq> PhaseStateSaved)"])
        apply (rule triple_seq[OF step[OF quiet_basic(1)]], simp, rule uninstall_orders, blast)
        apply (rule triple_pre[of "sync l j0 c0 (\<lambda>q. q = PhaseCommitting)"])
         apply (rule triple_opt)
          apply (rule triple_seq[OF triple_SaveState_commit[OF l]], use w in simp, blast)
          apply (rule triple_seq[OF triple_checkpoint_saved[OF l]], blast)
          apply (rule triple_conseq[OF remove], use w in simp, assumption, assumption, erule settled_interrupted)
         apply blast
    using that committing_reached(3) by (auto simp: sync_def commitPhase_def)
qed

text \<open>A run that starts with its state saved.\<close>

lemma run_saved:
  assumes "\<And>j. same_tx j j0 \<Longrightarrow> triple (sync l j0 c0 (\<lambda>q. q = PhaseStateSaved)) (m j) Q E"
  shows "triple (sync l j0 c0 (\<lambda>q. q = PhaseStateSaved))
    (bindD getMem (\<lambda>j. if dj_Phase j = PhaseStateSaved then m j else n j)) Q E"
proof (rule sync_journal)
  fix j assume "same_tx j j0"
  note m = assms[OF this]
  show "triple (\<lambda>h. sync l j0 c0 (\<lambda>q. q = PhaseStateSaved) h \<and> mem h = j) (if dj_Phase j = PhaseStateSaved then m j else n j) Q E"
    by (rule triple_if, rule triple_pre[OF m]) (auto simp: triple_def sync_def)
qed

lemma triple_run_saved:
  assumes l: "l = lc_layout L"
  shows "dj_Operation j0 = OperationRollback \<Longrightarrow>
      triple (sync l j0 c0 (\<lambda>q. q = PhaseStateSaved)) (runRollback L) (\<lambda>r. concluded l j0 c0 (ar_State r)) (settledTx l j0 c0)"
    "dj_Operation j0 = OperationApply \<Longrightarrow>
      triple (sync l j0 c0 (\<lambda>q. q = PhaseStateSaved)) (runApply L) (\<lambda>r. concluded l j0 c0 (ar_State r)) (settledTx l j0 c0)"
    "dj_Operation j0 = OperationUninstall \<Longrightarrow>
      triple (sync l j0 c0 (\<lambda>q. q = PhaseStateSaved)) (runUninstall L) (\<lambda>r. concluded l j0 c0 (ur_State r)) (settledTx l j0 c0)"
proof -
  have w: "dj_Operation j0 = OperationRollback \<longrightarrow> committedRollbackState (lc_layout L) j = committed l j0"
    "dj_Operation j0 = OperationApply \<longrightarrow> committedApplyState (lc_layout L) j = committed l j0"
    "dj_Operation j0 = OperationUninstall \<longrightarrow> committedUninstallState (lc_layout L) j = committed l j0" if "same_tx j j0" for j
    using same_tx_files(3)[OF that, of l] that l by (auto simp: same_tx_def committed_def)
  show "triple (sync l j0 c0 (\<lambda>q. q = PhaseStateSaved)) (runRollback L) (\<lambda>r. concluded l j0 c0 (ar_State r)) (settledTx l j0 c0)"
    if "dj_Operation j0 = OperationRollback"
    unfolding runRollback_def
    by (rule run_saved, rule triple_concludeSwitch[OF quiet_basic(1)]) (use w that in simp)
  show "triple (sync l j0 c0 (\<lambda>q. q = PhaseStateSaved)) (runApply L) (\<lambda>r. concluded l j0 c0 (ar_State r)) (settledTx l j0 c0)"
    if "dj_Operation j0 = OperationApply"
    unfolding runApply_def
    by (rule run_saved, rule triple_concludeSwitch[OF quiet_attest]) (use w that in simp)
  show "triple (sync l j0 c0 (\<lambda>q. q = PhaseStateSaved)) (runUninstall L) (\<lambda>r. concluded l j0 c0 (ur_State r)) (settledTx l j0 c0)"
    if "dj_Operation j0 = OperationUninstall"
    unfolding runUninstall_def Let_def
    apply (rule run_saved, rule triple_validateCommitted[OF steady_sync], blast)
    apply (rule triple_bind[OF triple_RemoveJournal_saved], rule triple_return)
    using w that by (auto simp: concluded_def uninstalledResult_def)
qed

end
