(* ===== verification/OperationLaws.thy ===== *)
theory OperationLaws
  imports DeployLaws
begin

text \<open>
  The operations on a deployment as a whole. After a failed run the prior state is put back or the
  transaction stays recoverable (\<open>triple_finishRun\<close> and the three rules for the recoveries); every
  operation leads from consistent files to consistent files, keeps the logical state or replaces it by
  the state of the next generation, and changes the service only under a journal (\<open>proceeds\<close>).
\<close>

section \<open>Recovery after a failure\<close>

definition recoverable :: "Layout \<Rightarrow> DeploymentJournal \<Rightarrow> (call \<times> DeploymentJournal stored) list \<Rightarrow> 'w host \<Rightarrow> bool" where
  "recoverable l j0 c0 h \<longleftrightarrow> tx l j0 c0 h \<and> dj_Phase (mem h) \<noteq> PhaseStateSaved"

definition restored :: "Layout \<Rightarrow> DeploymentJournal \<Rightarrow> (call \<times> DeploymentJournal stored) list \<Rightarrow> 'w host \<Rightarrow> bool" where
  "restored l j0 c0 h \<longleftrightarrow> recoverable l j0 c0 h \<and> stateFile h = prior_file j0"

definition undone :: "Layout \<Rightarrow> DeploymentJournal \<Rightarrow> (call \<times> DeploymentJournal stored) list \<Rightarrow> 'w host \<Rightarrow> bool" where
  "undone l j0 c0 h \<longleftrightarrow> tx l j0 c0 h \<or> after_tx l c0 (prior_file j0) h"

definition ended :: "Layout \<Rightarrow> DeploymentJournal \<Rightarrow> (call \<times> DeploymentJournal stored) list \<Rightarrow> 'w host \<Rightarrow> bool" where
  "ended l j0 c0 h \<longleftrightarrow> tx l j0 c0 h \<or> after_tx l c0 (prior_file j0) h \<or> after_tx l c0 (committed_file l j0) h"

lemma steady_recoverable [intro]: "steady serviceCall (recoverable l j0 c0)"
  using steady_tx[of l j0 c0] unfolding steady_def recoverable_def quiet_step_def by auto

lemma steady_restored [intro]: "steady serviceCall (restored l j0 c0)"
  using steady_recoverable[of l j0 c0] unfolding steady_def restored_def quiet_step_def by auto

lemma undone_intros [intro]: "recoverable l j0 c0 h \<Longrightarrow> undone l j0 c0 h" "restored l j0 c0 h \<Longrightarrow> undone l j0 c0 h"
  "tx l j0 c0 h \<Longrightarrow> undone l j0 c0 h"
  by (auto simp: undone_def recoverable_def restored_def)

lemma triple_SaveState_prior:
  assumes "l = lc_layout L" and "dj_PriorState j0 = Some prior"
  shows "triple (recoverable l j0 c0) (SaveState L prior) (\<lambda>_. restored l j0 c0) (undone l j0 c0)"
proof -
  have f: "prior_file j0 = Stored prior" using assms(2) by (simp add: prior_file_def)
  show ?thesis unfolding SaveState_def assms(1)[symmetric]
    by (intro triple_if triple_fail triple_durable)
       (auto simp: restored_def recoverable_def undone_def tx_def tx_file_def state_ok_def f)
qed

lemma triple_RemoveState_prior:
  assumes "dj_PriorState j0 = None"
  shows "triple (recoverable l j0 c0) (RemoveState L) (\<lambda>_. restored l j0 c0) (undone l j0 c0)"
proof -
  have f: "prior_file j0 = Absent" using assms by (simp add: prior_file_def)
  show ?thesis unfolding RemoveState_def
    by (rule triple_durable) (auto simp: restored_def recoverable_def undone_def tx_def tx_file_def state_ok_def f)
qed

lemma triple_RemoveJournal_restored:
  "triple (restored l j0 c0) (RemoveJournal L) (\<lambda>_. after_tx l c0 (prior_file j0)) (undone l j0 c0)"
  unfolding RemoveJournal_def
  by (rule triple_durable) (auto simp: restored_def recoverable_def undone_def after_tx_def tx_def)

lemma recoverable_journal:
  assumes "\<And>j. same_tx j j0 \<Longrightarrow> dj_Phase j \<noteq> PhaseStateSaved \<Longrightarrow> triple (\<lambda>h. recoverable l j0 c0 h \<and> mem h = j) (f j) Q E"
  shows "triple (recoverable l j0 c0) (bindD getMem f) Q E"
proof (rule triple_getMem)
  fix j
  show "triple (\<lambda>h. recoverable l j0 c0 h \<and> mem h = j) (f j) Q E"
  proof (cases "same_tx j j0 \<and> dj_Phase j \<noteq> PhaseStateSaved")
    case True
    then show ?thesis using assms by blast
  next
    case False
    then show ?thesis by (auto simp: triple_def recoverable_def tx_def)
  qed
qed

lemma triple_restoreUninstall:
  assumes l: "l = lc_layout L"
  shows "triple (recoverable l j0 c0) (restorePriorAfterFailedUninstall L) (\<lambda>_. after_tx l c0 (prior_file j0)) (undone l j0 c0)"
  unfolding restorePriorAfterFailedUninstall_def
proof (rule recoverable_journal)
  fix j assume j: "same_tx j j0"
  show "triple (\<lambda>h. recoverable l j0 c0 h \<and> mem h = j) (bindD (optD ''uninstall recovery has no prior state'' (dj_PriorState j))
      (\<lambda>prior. bindD (restoreActive L prior (returnD ())) (\<lambda>_. bindD (SaveState L prior) (\<lambda>_. RemoveJournal L))))
      (\<lambda>_. after_tx l c0 (prior_file j0)) (undone l j0 c0)"
    apply (rule triple_pre[of "recoverable l j0 c0"])
     apply (rule triple_opt)
      apply (rule triple_seq_quiet[OF quiet_restoreActive[OF quiet_basic(1)] steady_recoverable], blast)
      apply (rule triple_bind[OF triple_SaveState_prior[OF l]], use j in \<open>simp add: same_tx_def\<close>)
      apply (rule triple_RemoveJournal_restored)
    by auto
qed

lemma triple_restoreSwitch:
  assumes l: "l = lc_layout L"
  shows "triple (recoverable l j0 c0) (restorePriorAfterFailedSwitch L) (\<lambda>_. after_tx l c0 (prior_file j0)) (undone l j0 c0)"
  unfolding restorePriorAfterFailedSwitch_def
proof (rule recoverable_journal)
  fix j assume j: "same_tx j j0"
  have q: "quiet serviceCall (whenD b (wrapD m (logged CallRemove f)))" for b m f
    by (intro quiet_intros) (simp add: serviceCall_def)
  show "triple (\<lambda>h. recoverable l j0 c0 h \<and> mem h = j) (bindD (whenD (dj_Manager j \<noteq> ManagerForeground)
       (wrapD ''remove failed switched service'' (logged CallRemove (mgr_Remove L)))) (\<lambda>_.
     bindD (optD ''switch recovery has no prior state'' (dj_PriorState j)) (\<lambda>prior.
     bindD (restoreActive L prior (returnD ())) (\<lambda>_. bindD (SaveState L prior) (\<lambda>_. RemoveJournal L)))))
      (\<lambda>_. after_tx l c0 (prior_file j0)) (undone l j0 c0)"
    apply (rule triple_pre[of "recoverable l j0 c0"])
     apply (rule triple_seq_quiet[OF q steady_recoverable], blast)
     apply (rule triple_opt)
      apply (rule triple_seq_quiet[OF quiet_restoreActive[OF quiet_basic(1)] steady_recoverable], blast)
      apply (rule triple_bind[OF triple_SaveState_prior[OF l]], use j in \<open>simp add: same_tx_def\<close>)
      apply (rule triple_RemoveJournal_restored)
    by auto
qed

text \<open>Before the prior service was stopped the state file cannot have changed yet.\<close>

lemma early_phase: "\<not> applyPhaseReached p PhasePriorServiceStopped \<Longrightarrow> \<not> commitPhase p"
  by (cases p) (simp_all add: phase_reached_simps commitPhase_def)

lemma triple_restoreApply:
  assumes l: "l = lc_layout L"
  shows "triple (recoverable l j0 c0) (restorePriorAfterFailedApply L) (\<lambda>_. after_tx l c0 (prior_file j0)) (undone l j0 c0)"
  unfolding restorePriorAfterFailedApply_def
proof (rule recoverable_journal, rule triple_if)
  fix j assume j: "same_tx j j0"
  have remove: "triple (restored l j0 c0) (attestedRemoveJournal L) (\<lambda>_. after_tx l c0 (prior_file j0)) (undone l j0 c0)"
    unfolding attestedRemoveJournal_def
    by (rule triple_seq_quiet[OF quiet_attest steady_restored], blast, rule triple_RemoveJournal_restored)
  show "triple (\<lambda>h. recoverable l j0 c0 h \<and> mem h = j) (bindD (case dj_PriorState j of None \<Rightarrow> returnD ()
         | Some state \<Rightarrow> (case ds_Active state of None \<Rightarrow> returnD ()
           | Some prior \<Rightarrow> whenD (applyPhaseReached (dj_Phase j) PhaseInstanceReady \<and> ds_Status state = StatusActive)
               (restoreInterruptedStop L prior))) (\<lambda>_. attestedRemoveJournal L))
      (\<lambda>_. after_tx l c0 (prior_file j0)) (undone l j0 c0)"
    if "\<not> applyPhaseReached (dj_Phase j) PhasePriorServiceStopped"
    apply (rule triple_pre[of "restored l j0 c0"])
     apply (rule triple_seq_quiet[of serviceCall, OF _ steady_restored], (intro quiet_intros)[1], blast, rule remove)
    using early_phase[OF that] by (auto simp: restored_def recoverable_def tx_def tx_file_def)
  have q: "quiet serviceCall (whenD b (wrapD m (bindD (attestLease L) (\<lambda>_. logged CallRemove f))))" for b m f
    by (intro quiet_intros) (simp add: serviceCall_def)
  have prior: "dj_PriorState j = dj_PriorState j0" using j by (simp add: same_tx_def)
  show "triple (\<lambda>h. recoverable l j0 c0 h \<and> mem h = j) (bindD (whenD (dj_Manager j \<noteq> ManagerForeground)
         (wrapD ''rollback failed deployment service'' (bindD (attestLease L) (\<lambda>_. logged CallRemove (mgr_Remove L))))) (\<lambda>_.
       case dj_PriorState j of
         None \<Rightarrow> bindD (bindD (attestLease L) (\<lambda>_. RemoveState L)) (\<lambda>_. attestedRemoveJournal L)
       | Some prior \<Rightarrow> bindD (restoreActive L prior (attestLease L)) (\<lambda>_.
           bindD (bindD (attestLease L) (\<lambda>_. SaveState L prior)) (\<lambda>_. attestedRemoveJournal L))))
      (\<lambda>_. after_tx l c0 (prior_file j0)) (undone l j0 c0)"
  proof (rule triple_pre[of "recoverable l j0 c0"], rule triple_seq_quiet[OF q steady_recoverable], blast, cases "dj_PriorState j")
    case None
    show "triple (recoverable l j0 c0) (case dj_PriorState j of
         None \<Rightarrow> bindD (bindD (attestLease L) (\<lambda>_. RemoveState L)) (\<lambda>_. attestedRemoveJournal L)
       | Some prior \<Rightarrow> bindD (restoreActive L prior (attestLease L)) (\<lambda>_.
           bindD (bindD (attestLease L) (\<lambda>_. SaveState L prior)) (\<lambda>_. attestedRemoveJournal L)))
      (\<lambda>_. after_tx l c0 (prior_file j0)) (undone l j0 c0)"
      unfolding None option.case
      by (rule triple_bind[OF triple_seq_quiet[OF quiet_attest steady_recoverable]], blast,
          rule triple_RemoveState_prior, use None prior in simp, rule remove)
  next
    case (Some p)
    show "triple (recoverable l j0 c0) (case dj_PriorState j of
         None \<Rightarrow> bindD (bindD (attestLease L) (\<lambda>_. RemoveState L)) (\<lambda>_. attestedRemoveJournal L)
       | Some prior \<Rightarrow> bindD (restoreActive L prior (attestLease L)) (\<lambda>_.
           bindD (bindD (attestLease L) (\<lambda>_. SaveState L prior)) (\<lambda>_. attestedRemoveJournal L)))
      (\<lambda>_. after_tx l c0 (prior_file j0)) (undone l j0 c0)"
      unfolding Some option.case
      by (rule triple_seq_quiet[OF quiet_restoreActive[OF quiet_attest] steady_recoverable], blast,
          rule triple_bind[OF triple_seq_quiet[OF quiet_attest steady_recoverable]], blast,
          rule triple_SaveState_prior[OF l], use Some prior in simp, rule remove)
  qed auto
qed

section \<open>The end of a run\<close>

lemma interrupted_ended: "interrupted l j0 c0 h \<Longrightarrow> ended l j0 c0 h"
  by (auto simp: interrupted_def ended_def)

lemma undone_ended: "undone l j0 c0 h \<Longrightarrow> ended l j0 c0 h"
  by (auto simp: undone_def ended_def)

lemma triple_finishRun:
  assumes run: "triple P run (\<lambda>r. concluded l j0 c0 (st r)) (interrupted l j0 c0)"
    and final: "\<And>e. final e PhaseStateSaved"
    and restore: "triple (recoverable l j0 c0) restore (\<lambda>_. after_tx l c0 (prior_file j0)) (undone l j0 c0)"
  shows "triple P (finishRun final restore run) (\<lambda>r. concluded l j0 c0 (st r)) (ended l j0 c0)"
  unfolding finishRun_def
proof (rule triple_bind)
  let ?R = "\<lambda>x h. case x of Inr r \<Rightarrow> concluded l j0 c0 (st r) h | Inl (e :: deploy_error) \<Rightarrow> interrupted l j0 c0 h"
  show "triple P (attemptD run) ?R (ended l j0 c0)"
    by (rule triple_attempt[where F = "interrupted l j0 c0"]) (use run interrupted_ended in auto)
  have undo: "triple (recoverable l j0 c0) (bindD (attemptD restore) (\<lambda>s. case s of Inl e' \<Rightarrow> failD (Joined e e') | Inr _ \<Rightarrow> failD e))
      (\<lambda>r. concluded l j0 c0 (st r)) (ended l j0 c0)" for e
  proof (rule triple_bind)
    show "triple (recoverable l j0 c0) (attemptD restore) (\<lambda>_. ended l j0 c0) (ended l j0 c0)"
      by (rule triple_attempt[where F = "undone l j0 c0"])
         (use restore undone_ended in \<open>auto simp: ended_def intro: triple_conseq\<close>)
  qed (auto split: sum.splits intro!: triple_fail)
  show "triple (?R x) (case x of Inr result \<Rightarrow> returnD result
     | Inl e \<Rightarrow> bindD getMem (\<lambda>journal. if final e (dj_Phase journal) then failD e
         else bindD (attemptD restore) (\<lambda>s. case s of Inl e' \<Rightarrow> failD (Joined e e') | Inr _ \<Rightarrow> failD e)))
      (\<lambda>r. concluded l j0 c0 (st r)) (ended l j0 c0)" for x
  proof (cases x)
    case (Inl e)
    have "triple (\<lambda>h. interrupted l j0 c0 h \<and> mem h = j) (if final e (dj_Phase j) then failD e
         else bindD (attemptD restore) (\<lambda>s. case s of Inl e' \<Rightarrow> failD (Joined e e') | Inr _ \<Rightarrow> failD e))
        (\<lambda>r. concluded l j0 c0 (st r)) (ended l j0 c0)" for j
      by (rule triple_if, rule triple_fail, use interrupted_ended in blast, rule triple_pre[OF undo])
         (use final in \<open>auto simp: interrupted_def recoverable_def\<close>)
    then show ?thesis unfolding Inl sum.case by (rule triple_getMem)
  qed (auto intro: triple_return)
qed

text \<open>A run that finds its state saved only drops the journal.\<close>

lemma triple_finishRun_saved:
  assumes run: "triple P run (\<lambda>r. concluded l j0 c0 (st r)) (settledTx l j0 c0)"
    and final: "\<And>e. final e PhaseStateSaved"
  shows "triple P (finishRun final restore run) (\<lambda>r. concluded l j0 c0 (st r)) (settledTx l j0 c0)"
  unfolding finishRun_def
proof (rule triple_bind)
  let ?R = "\<lambda>x h. case x of Inr r \<Rightarrow> concluded l j0 c0 (st r) h | Inl (e :: deploy_error) \<Rightarrow> settledTx l j0 c0 h"
  show "triple P (attemptD run) ?R (settledTx l j0 c0)"
    by (rule triple_attempt[where F = "settledTx l j0 c0"]) (use run in auto)
  show "triple (?R x) (case x of Inr result \<Rightarrow> returnD result
     | Inl e \<Rightarrow> bindD getMem (\<lambda>journal. if final e (dj_Phase journal) then failD e
         else bindD (attemptD restore) (\<lambda>s. case s of Inl e' \<Rightarrow> failD (Joined e e') | Inr _ \<Rightarrow> failD e)))
      (\<lambda>r. concluded l j0 c0 (st r)) (settledTx l j0 c0)" for x
  proof (cases x)
    case (Inl e)
    have "triple (\<lambda>h. settledTx l j0 c0 h \<and> mem h = j) (if final e (dj_Phase j) then failD e
         else bindD (attemptD restore) (\<lambda>s. case s of Inl e' \<Rightarrow> failD (Joined e e') | Inr _ \<Rightarrow> failD e))
        (\<lambda>r. concluded l j0 c0 (st r)) (settledTx l j0 c0)" for j
      using final by (auto simp: triple_def failD_def settledTx_def sync_def)
    then show ?thesis unfolding Inl sum.case by (rule triple_getMem)
  qed (auto intro: triple_return)
qed

section \<open>What the files promise between operations\<close>

definition consistent :: "Layout \<Rightarrow> 'w host \<Rightarrow> bool" where
  "consistent l h \<longleftrightarrow> state_ok l (stateFile h) \<and>
     (case journalFile h of Absent \<Rightarrow> True | Damaged \<Rightarrow> False
      | Stored j \<Rightarrow> journal_ok l j \<and> tx_file l j (dj_Phase j) (dj_Phase j) (stateFile h))"

text \<open>The deployment state the files stand for: a transaction counts once its journal says that the
  state is saved.\<close>

definition logical :: "Layout \<Rightarrow> 'w host \<Rightarrow> DeploymentState stored" where
  "logical l h = (case journalFile h of
     Stored j \<Rightarrow> if dj_Phase j = PhaseStateSaved then committed_file l j else prior_file j | _ \<Rightarrow> stateFile h)"

definition next_state :: "Layout \<Rightarrow> DeploymentState stored \<Rightarrow> DeploymentState stored \<Rightarrow> bool" where
  "next_state l f f' = (case f' of Stored s \<Rightarrow> validate_state l s \<and>
     ds_Generation s = (case f of Stored p \<Rightarrow> ds_Generation p + 1 | _ \<Rightarrow> 1) | _ \<Rightarrow> False)"

definition proceeds :: "Layout \<Rightarrow> 'w host \<Rightarrow> 'w host \<Rightarrow> bool" where
  "proceeds l h h' \<longleftrightarrow> consistent l h' \<and> ahead l (calls h) (calls h') \<and>
     (logical l h' = logical l h \<or> next_state l (logical l h) (logical l h'))"

definition completes :: "Layout \<Rightarrow> 'w host \<Rightarrow> DeploymentState \<Rightarrow> 'w host \<Rightarrow> bool" where
  "completes l h s h' \<longleftrightarrow> proceeds l h h' \<and> journalFile h' = Absent \<and> stateFile h' = Stored s"

definition like :: "'w host \<Rightarrow> 'w host \<Rightarrow> bool" where
  "like h0 h \<longleftrightarrow> stateFile h = stateFile h0 \<and> journalFile h = journalFile h0 \<and> calls h = calls h0"

lemma files_only:
  assumes "stateFile h' = stateFile h" and "journalFile h' = journalFile h"
  shows "consistent l h' = consistent l h" "logical l h' = logical l h"
  unfolding consistent_def logical_def assms by (rule refl)+

lemma steady_silent [intro]: "steady noCall (like h0)" "steady noCall (proceeds l h0)" "steady noCall (completes l h0 s)"
proof -
  have o: "proceeds l h0 h'" if "quiet_step noCall h h'" "proceeds l h0 h" for h h'
    using that files_only[of h' h l] by (simp add: quiet_silent proceeds_def)
  then show "steady noCall (proceeds l h0)" by (auto simp: steady_def)
  show "steady noCall (completes l h0 s)" using o by (auto simp: steady_def completes_def quiet_silent)
  show "steady noCall (like h0)" by (auto simp: steady_def quiet_silent like_def)
qed

lemma next_committed:
  assumes "journal_ok l j" and "state_ok l (committed_file l j)"
  shows "next_state l (prior_file j) (committed_file l j)"
proof -
  obtain s where s: "committed l j = Some s" using committed_exists assms(1) by (auto simp: journal_ok_def)
  then show ?thesis using assms(2) committed_generation[OF s]
    by (auto simp: next_state_def committed_file_def state_ok_def prior_file_def split: option.splits)
qed

lemma tx_outcome:
  assumes t: "tx l j0 (calls h) h'" and lg: "logical l h = prior_file j0"
  shows "proceeds l h h'"
proof -
  obtain jd where jd: "journalFile h' = Stored jd" "journal_ok l jd" "same_tx jd j0"
      "tx_file l j0 (dj_Phase jd) (dj_Phase (mem h')) (stateFile h')" "state_ok l (stateFile h')" "ahead l (calls h) (calls h')"
    using t by (auto simp: tx_def)
  note eq = same_tx_files[OF jd(3)]
  have "next_state l (prior_file j0) (committed_file l j0)" if "dj_Phase jd = PhaseStateSaved"
  proof -
    have "state_ok l (committed_file l jd)" using jd(4,5) that eq by (auto simp: tx_file_def)
    then show ?thesis using next_committed[OF jd(2)] eq by simp
  qed
  then show ?thesis using jd lg eq by (auto simp: proceeds_def consistent_def logical_def tx_file_def)
qed

lemma after_outcome:
  assumes "after_tx l (calls h) f h'" and "f = logical l h \<or> next_state l (logical l h) f"
  shows "proceeds l h h'"
  using assms by (auto simp: after_tx_def proceeds_def consistent_def logical_def)

lemma ended_outcome:
  assumes "ended l j0 (calls h) h'" and "journal_ok l j0" and "logical l h = prior_file j0"
  shows "proceeds l h h'"
  using assms tx_outcome[of l j0 h h'] after_outcome[of l h _ h'] next_committed[OF assms(2)]
  by (auto simp: ended_def after_tx_def)

lemma concluded_completes:
  assumes "concluded l j0 (calls h) s h'" and "journal_ok l j0"
    and "logical l h = prior_file j0 \<or> logical l h = committed_file l j0"
  shows "completes l h s h'"
proof -
  have a: "after_tx l (calls h) (committed_file l j0) h'" and c: "committed l j0 = Some s"
    using assms(1) by (auto simp: concluded_def)
  have "next_state l (prior_file j0) (committed_file l j0)"
    using a next_committed[OF assms(2)] by (simp add: after_tx_def)
  then have "proceeds l h h'" using after_outcome[OF a] assms(3) by auto
  then show ?thesis using a c by (auto simp: completes_def after_tx_def committed_file_def)
qed

lemma settled_outcome:
  assumes "settledTx l j0 (calls h) h'" and "logical l h = committed_file l j0"
  shows "proceeds l h h'"
proof (cases "sync l j0 (calls h) (\<lambda>q. q = PhaseStateSaved) h'")
  case True
  then have j: "journalFile h' = Stored (mem h')" "journal_ok l (mem h')" "same_tx (mem h') j0" "dj_Phase (mem h') = PhaseStateSaved"
    "tx_file l j0 PhaseStateSaved PhaseStateSaved (stateFile h')" "state_ok l (stateFile h')" "ahead l (calls h) (calls h')"
    by (auto simp: sync_def tx_def)
  then show ?thesis using assms(2) same_tx_files[OF j(3)]
    by (auto simp: proceeds_def consistent_def logical_def tx_file_def)
next
  case False
  then show ?thesis using assms after_outcome[of l h _ h'] by (auto simp: settledTx_def)
qed

section \<open>The operations\<close>

lemma outcome_refl: "consistent l h0 \<Longrightarrow> like h0 h \<Longrightarrow> proceeds l h0 h"
  using files_only[of h h0 l] by (simp add: proceeds_def like_def)

lemma completes_outcome: "completes l h0 s h \<Longrightarrow> proceeds l h0 h"
  by (simp add: completes_def)

text \<open>Resuming the transaction whose journal is on disk.\<close>

lemma like_sync:
  assumes "consistent l h0" and "journalFile h0 = Stored j" and "like h0 h" and "mem h = j"
  shows "sync l j (calls h0) (\<lambda>q. q = dj_Phase j) h"
  using assms by (auto simp: consistent_def sync_def tx_def like_def)

text \<open>Starting a transaction.\<close>

lemma triple_begin:
  assumes l: "l = lc_layout L" and c: "consistent l h0" "journalFile h0 = Absent"
    and j: "prior_file j = stateFile h0" "switches_back j" "dj_Phase j = PhasePlanned"
  shows "triple (like h0) (beginTransaction L j) (\<lambda>_ h. journal_ok l j \<and> sync l j (calls h0) (\<lambda>_. True) h)
    (\<lambda>h. journal_ok l j \<and> ended l j (calls h0) h \<or> like h0 h)"
proof (rule tripleI)
  fix h h' r assume h: "like h0 h" and b: "beginTransaction L j h = (h', r)"
  have "state_ok l (stateFile h0)" using c by (simp add: consistent_def)
  then show "case r of Done a \<Rightarrow> journal_ok l j \<and> sync l j (calls h0) (\<lambda>_. True) h' | _ \<Rightarrow> journal_ok l j \<and> ended l j (calls h0) h' \<or> like h0 h'"
    using b h j c(2)
    by (auto simp: beginTransaction_def bindD_def setMem_def SaveJournal_def durable_def failD_def returnD_def
        injectCrash_def Let_def sync_def tx_def tx_file_def journal_ok_def like_def ended_def l
        split: prod.splits effect.splits if_splits)
qed

text \<open>
  What an operation on a deployment promises of its run and of its recovery. From the journal of its
  own transaction the run commits or leaves the transaction on disk; once the state is saved it only
  settles; the recovery puts the prior state back. This is all that resuming and starting need.
\<close>

locale deployment_operation =
  fixes L :: "'w lifecycle" and op :: Operation and final :: "deploy_error \<Rightarrow> Phase \<Rightarrow> bool"
    and restore :: "('w, unit) dep" and run :: "('w, 'a) dep" and st :: "'a \<Rightarrow> DeploymentState"
  assumes final_saved: "final e PhaseStateSaved"
    and run_tx: "dj_Operation j = op \<Longrightarrow> triple (sync (lc_layout L) j c0 (\<lambda>_. True)) run
      (\<lambda>r. concluded (lc_layout L) j c0 (st r)) (interrupted (lc_layout L) j c0)"
    and run_settled: "dj_Operation j = op \<Longrightarrow> triple (sync (lc_layout L) j c0 (\<lambda>q. q = PhaseStateSaved)) run
      (\<lambda>r. concluded (lc_layout L) j c0 (st r)) (settledTx (lc_layout L) j c0)"
    and restore_tx: "triple (recoverable (lc_layout L) j c0) restore (\<lambda>_. after_tx (lc_layout L) c0 (prior_file j))
      (undone (lc_layout L) j c0)"
begin

lemma resume:
  assumes c: "consistent (lc_layout L) h0" and j: "journalFile h0 = Stored j" and op: "dj_Operation j = op"
  shows "triple (sync (lc_layout L) j (calls h0) (\<lambda>q. q = dj_Phase j)) (finishRun final restore run)
    (\<lambda>r. completes (lc_layout L) h0 (st r)) (proceeds (lc_layout L) h0)"
proof -
  have ok: "journal_ok (lc_layout L) j" using c j by (auto simp: consistent_def)
  show ?thesis
  proof (cases "dj_Phase j = PhaseStateSaved")
    case True
    then have lg: "logical (lc_layout L) h0 = committed_file (lc_layout L) j" using j by (simp add: logical_def)
    show ?thesis
      by (rule triple_conseq[OF triple_finishRun_saved[where final = final, OF run_settled[OF op] final_saved]])
         (use True concluded_completes[OF _ ok] settled_outcome lg in auto)
  next
    case False
    then have lg: "logical (lc_layout L) h0 = prior_file j" using j by (simp add: logical_def)
    show ?thesis
      by (rule triple_conseq[OF triple_finishRun[where final = final, OF run_tx[OF op] final_saved restore_tx]])
         (use lg concluded_completes[OF _ ok] ended_outcome[OF _ ok] in \<open>auto intro: sync_weaken\<close>)
  qed
qed

lemma start:
  assumes c: "consistent (lc_layout L) h0" "journalFile h0 = Absent"
    and j: "prior_file j = stateFile h0" "switches_back j" "dj_Phase j = PhasePlanned" "dj_Operation j = op"
  shows "triple (like h0) (bindD (beginTransaction L j) (\<lambda>_. finishRun final restore run))
    (\<lambda>r. completes (lc_layout L) h0 (st r)) (proceeds (lc_layout L) h0)"
proof (rule triple_seq[OF triple_begin[OF refl c j(1-3)]])
  let ?l = "lc_layout L"
  have lg: "logical ?l h0 = prior_file j" using c(2) j(1) by (simp add: logical_def)
  show "proceeds ?l h0 h" if "journal_ok ?l j \<and> ended ?l j (calls h0) h \<or> like h0 h" for h
    using that ended_outcome[of ?l j h0 h] lg outcome_refl[OF c(1)] by blast
  show "triple (\<lambda>h. journal_ok ?l j \<and> sync ?l j (calls h0) (\<lambda>_. True) h) (finishRun final restore run)
      (\<lambda>r. completes ?l h0 (st r)) (proceeds ?l h0)"
  proof (cases "journal_ok ?l j")
    case True
    show ?thesis
      by (rule triple_conseq[OF triple_finishRun[where final = final, OF run_tx[OF j(4)] final_saved restore_tx]])
         (use lg concluded_completes[OF _ True] ended_outcome[OF _ True] in auto)
  next
    case False
    then show ?thesis by (simp add: triple_def)
  qed
qed

end

lemma finals: "uninstallFinal e PhaseStateSaved" "switchFinal e PhaseStateSaved" "applyFinal e PhaseStateSaved"
  by (simp_all add: uninstallFinal_def switchFinal_def applyFinal_def phase_reached_simps)

interpretation uninstall_op: deployment_operation L OperationUninstall uninstallFinal "restorePriorAfterFailedUninstall L"
  "runUninstall L" ur_State for L :: "'w lifecycle"
  by unfold_locales (rule finals triple_runUninstall[OF refl] triple_run_saved[OF refl] triple_restoreUninstall[OF refl]; assumption)+

interpretation rollback_op: deployment_operation L OperationRollback switchFinal "restorePriorAfterFailedSwitch L"
  "runRollback L" ar_State for L :: "'w lifecycle"
  by unfold_locales (rule finals triple_runRollback[OF refl] triple_run_saved[OF refl] triple_restoreSwitch[OF refl]; assumption)+

text \<open>Reading the files.\<close>

lemma readFile_cases: "readFile L h = (h', r) \<Longrightarrow> quiet_step noCall h h' \<and> (\<forall>e. r = Fail e \<longrightarrow> e = Err ''load deployment metadata'')"
  using quietD[OF quiet_readFile[of noCall L], of h h' r]
  by (auto simp: readFile_def bindD_def attemptD_def failD_def returnD_def split: prod.splits reply.splits)

lemma load_cases:
  assumes "bindD (readFile L) (\<lambda>_ h. loaded valid missing (f h) h) h = (h', r)"
    and f: "\<And>h h'. quiet_step noCall h h' \<Longrightarrow> f h' = f h" and m: "\<And>msg. missing \<noteq> Err msg"
  shows "quiet_step noCall h h' \<and> (case r of Done v \<Rightarrow> f h = Stored v \<and> valid v
     | Fail e \<Rightarrow> errorsIs e missing \<longrightarrow> f h = Absent | Crashed \<Rightarrow> True)"
proof -
  obtain h1 r1 where r1: "readFile L h = (h1, r1)" by fastforce
  note q = readFile_cases[OF r1]
  show ?thesis
    using assms(1) r1 q f[of h h1] m not_sym[OF m]
    by (cases r1) (auto simp: bindD_def loaded_def failD_def returnD_def split: stored.splits if_splits)
qed

lemma LoadJournal_cases:
  assumes "LoadJournal L h = (h', r)"
  shows "quiet_step noCall h h' \<and> (case r of Done j \<Rightarrow> journalFile h = Stored j \<and> validate_journal (lc_layout L) j
     | Fail e \<Rightarrow> errorsIs e ErrNoDeploymentJournal \<longrightarrow> journalFile h = Absent | Crashed \<Rightarrow> True)"
  by (rule load_cases[OF assms[unfolded LoadJournal_def]]) (auto simp: quiet_silent)

lemma LoadState_cases:
  assumes "LoadState L h = (h', r)"
  shows "quiet_step noCall h h' \<and> (case r of Done s \<Rightarrow> stateFile h = Stored s \<and> validate_state (lc_layout L) s
     | Fail e \<Rightarrow> errorsIs e ErrNoDeploymentState \<longrightarrow> stateFile h = Absent | Crashed \<Rightarrow> True)"
  by (rule load_cases[OF assms[unfolded LoadState_def]]) (auto simp: quiet_silent)

lemma triple_LoadJournal:
  assumes P: "steady noCall P" "\<And>h. P h \<Longrightarrow> E h"
    and found: "\<And>j. triple (\<lambda>h. P h \<and> journalFile h = Stored j) (f (Inr j)) Q E"
    and none: "\<And>e. errorsIs e ErrNoDeploymentJournal \<Longrightarrow> triple (\<lambda>h. P h \<and> journalFile h = Absent) (f (Inl e)) Q E"
    and err: "\<And>e. \<not> errorsIs e ErrNoDeploymentJournal \<Longrightarrow> triple P (f (Inl e)) Q E"
  shows "triple P (bindD (attemptD (LoadJournal L)) f) Q E"
proof (rule tripleI)
  fix h h' r assume h: "P h" and e: "bindD (attemptD (LoadJournal L)) f h = (h', r)"
  obtain h1 r1 where r1: "LoadJournal L h = (h1, r1)" by fastforce
  note c = LoadJournal_cases[OF r1]
  have p: "P h1" "journalFile h1 = journalFile h" using P(1) c h by (auto simp: steady_def quiet_silent)
  show "case r of Done a \<Rightarrow> Q a h' | _ \<Rightarrow> E h'"
  proof (cases r1)
    case (Done j)
    then show ?thesis using e r1 c p tripleD[OF found, of h1 j h' r] by (simp add: bindD_def attemptD_def)
  next
    case (Fail x)
    then show ?thesis using e r1 c p tripleD[OF none, of x h1 h' r] tripleD[OF err, of x h1 h' r]
      by (cases "errorsIs x ErrNoDeploymentJournal") (simp_all add: bindD_def attemptD_def)
  next
    case Crashed
    then show ?thesis using e r1 p P(2) by (auto simp: bindD_def attemptD_def)
  qed
qed

lemma triple_LoadState_attempt:
  assumes P: "steady noCall P" "\<And>h. P h \<Longrightarrow> E h"
    and found: "\<And>s. triple (\<lambda>h. P h \<and> stateFile h = Stored s) (f (Inr s)) Q E"
    and none: "\<And>e. errorsIs e ErrNoDeploymentState \<Longrightarrow> triple (\<lambda>h. P h \<and> stateFile h = Absent) (f (Inl e)) Q E"
    and err: "\<And>e. \<not> errorsIs e ErrNoDeploymentState \<Longrightarrow> triple P (f (Inl e)) Q E"
  shows "triple P (bindD (attemptD (LoadState L)) f) Q E"
proof (rule tripleI)
  fix h h' r assume h: "P h" and e: "bindD (attemptD (LoadState L)) f h = (h', r)"
  obtain h1 r1 where r1: "LoadState L h = (h1, r1)" by fastforce
  note c = LoadState_cases[OF r1]
  have p: "P h1" "stateFile h1 = stateFile h" using P(1) c h by (auto simp: steady_def quiet_silent)
  show "case r of Done a \<Rightarrow> Q a h' | _ \<Rightarrow> E h'"
  proof (cases r1)
    case (Done s)
    then show ?thesis using e r1 c p tripleD[OF found, of h1 s h' r] by (simp add: bindD_def attemptD_def)
  next
    case (Fail x)
    then show ?thesis using e r1 c p tripleD[OF none, of x h1 h' r] tripleD[OF err, of x h1 h' r]
      by (cases "errorsIs x ErrNoDeploymentState") (simp_all add: bindD_def attemptD_def)
  next
    case Crashed
    then show ?thesis using e r1 p P(2) by (auto simp: bindD_def attemptD_def)
  qed
qed

lemma triple_LoadState:
  assumes P: "steady noCall P" "\<And>h. P h \<Longrightarrow> E h"
    and found: "\<And>s. triple (\<lambda>h. P h \<and> stateFile h = Stored s) (f s) Q E"
  shows "triple P (bindD (LoadState L) f) Q E"
proof (rule tripleI)
  fix h h' r assume h: "P h" and e: "bindD (LoadState L) f h = (h', r)"
  obtain h1 r1 where r1: "LoadState L h = (h1, r1)" by fastforce
  note c = LoadState_cases[OF r1]
  have p: "P h1" "stateFile h1 = stateFile h" using P(1) c h by (auto simp: steady_def quiet_silent)
  show "case r of Done a \<Rightarrow> Q a h' | _ \<Rightarrow> E h'"
    using e r1 c p P(2) tripleD[OF found, of h1 _ h' r] by (cases r1) (auto simp: bindD_def)
qed

text \<open>Holding the locks.\<close>

lemma triple_closing:
  assumes m: "triple P m Q E" and s: "\<And>a. steady noCall (Q a)" "steady noCall E" and q: "\<And>a h. Q a h \<Longrightarrow> E h"
  shows "triple P (closing msg close m) Q E"
  unfolding closing_def
proof (rule triple_bind)
  let ?R = "\<lambda>x h. case x of Inr a \<Rightarrow> Q a h | Inl (e :: deploy_error) \<Rightarrow> E h"
  show "triple P (attemptD m) ?R E" by (rule triple_attempt[where F = E]) (use m in auto)
  fix x
  have st: "steady noCall (?R x)" using s by (cases x) auto
  show "triple (?R x) (bindD (attemptD (ext close)) (\<lambda>c. case (x, c) of (Inr a, Inr _) \<Rightarrow> returnD a
     | (Inl e, Inr _) \<Rightarrow> failD e | (Inr a, Inl e') \<Rightarrow> failD (Wrapped msg e')
     | (Inl e, Inl e') \<Rightarrow> failD (Joined e (Wrapped msg e')))) Q E"
    by (rule triple_seq_quiet[OF quiet_attempt[OF quiet_ext] st])
       (use q in \<open>auto split: sum.splits intro!: triple_return triple_fail\<close>)
qed

lemma triple_underLocks:
  assumes c: "consistent l h0" and m: "triple (like h0) m (\<lambda>r. completes l h0 (st r)) (proceeds l h0)"
  shows "triple (like h0) (underLocks L m) (\<lambda>r. completes l h0 (st r)) (proceeds l h0)"
  unfolding underLocks_def
  by (rule triple_seq_quiet[OF quiet_ext steady_silent(1)], rule outcome_refl[OF c], assumption,
      (rule triple_closing)+, rule triple_seq_quiet[OF quiet_ext steady_silent(1)], rule outcome_refl[OF c], assumption, rule m)
     (auto intro: completes_outcome)

lemma triple_fact: "(\<And>h. P h \<Longrightarrow> A) \<Longrightarrow> (A \<Longrightarrow> triple P m Q E) \<Longrightarrow> triple P m Q E"
  by (auto simp: triple_def)

lemma triple_like_fail: "consistent l h0 \<Longrightarrow> triple (like h0) (failD e) Q (proceeds l h0)"
  by (rule triple_fail) (rule outcome_refl)

lemma triple_like_quiet:
  assumes "consistent l h0" and "quiet noCall m" and "\<And>a. triple (like h0) (f a) Q (proceeds l h0)"
  shows "triple (like h0) (bindD m f) Q (proceeds l h0)"
  by (rule triple_seq_quiet[OF assms(2) steady_silent(1) outcome_refl[OF assms(1)] assms(3)])

text \<open>The branch on the journal with which every operation starts, and the branch on the state.\<close>

lemma triple_on_journal:
  assumes c: "consistent l h0"
    and found: "\<And>j. journalFile h0 = Stored j \<Longrightarrow> triple (like h0) (found j) Q (proceeds l h0)"
    and start: "journalFile h0 = Absent \<Longrightarrow> triple (like h0) start Q (proceeds l h0)"
  shows "triple (like h0) (bindD (attemptD (LoadJournal L)) (\<lambda>j. case j of Inr journal \<Rightarrow> found journal
     | Inl e \<Rightarrow> if \<not> errorsIs e ErrNoDeploymentJournal then failD e else start)) Q (proceeds l h0)"
proof (rule triple_LoadJournal[OF steady_silent(1) outcome_refl[OF c]])
  show "triple (\<lambda>h. like h0 h \<and> journalFile h = Stored j) (case Inr j of Inr journal \<Rightarrow> found journal
     | Inl e \<Rightarrow> if \<not> errorsIs e ErrNoDeploymentJournal then failD e else start) Q (proceeds l h0)" for j
    by (rule triple_fact[of _ "journalFile h0 = Stored j"])
       (use triple_pre[OF found, of j "\<lambda>h. like h0 h \<and> journalFile h = Stored j"] in \<open>auto simp: like_def\<close>)
  show "triple (\<lambda>h. like h0 h \<and> journalFile h = Absent) (case Inl e of Inr journal \<Rightarrow> found journal
     | Inl e \<Rightarrow> if \<not> errorsIs e ErrNoDeploymentJournal then failD e else start) Q (proceeds l h0)"
    if "errorsIs e ErrNoDeploymentJournal" for e
    by (rule triple_fact[of _ "journalFile h0 = Absent"])
       (use that triple_pre[OF start, of "\<lambda>h. like h0 h \<and> journalFile h = Absent"] in \<open>auto simp: like_def\<close>)
qed (auto intro: triple_like_fail[OF c])

lemma triple_on_state:
  assumes c: "consistent l h0"
    and found: "\<And>s. stateFile h0 = Stored s \<Longrightarrow> triple (like h0) (found s) Q (proceeds l h0)"
    and none: "stateFile h0 = Absent \<Longrightarrow> triple (like h0) none Q (proceeds l h0)"
  shows "triple (like h0) (bindD (attemptD (LoadState L)) (\<lambda>s. case s of Inr state \<Rightarrow> found state
     | Inl e \<Rightarrow> if errorsIs e ErrNoDeploymentState then none else failD e)) Q (proceeds l h0)"
proof (rule triple_LoadState_attempt[OF steady_silent(1) outcome_refl[OF c]])
  show "triple (\<lambda>h. like h0 h \<and> stateFile h = Stored s) (case Inr s of Inr state \<Rightarrow> found state
     | Inl e \<Rightarrow> if errorsIs e ErrNoDeploymentState then none else failD e) Q (proceeds l h0)" for s
    by (rule triple_fact[of _ "stateFile h0 = Stored s"])
       (use triple_pre[OF found, of s "\<lambda>h. like h0 h \<and> stateFile h = Stored s"] in \<open>auto simp: like_def\<close>)
  show "triple (\<lambda>h. like h0 h \<and> stateFile h = Absent) (case Inl e of Inr state \<Rightarrow> found state
     | Inl e \<Rightarrow> if errorsIs e ErrNoDeploymentState then none else failD e) Q (proceeds l h0)"
    if "errorsIs e ErrNoDeploymentState" for e
    by (rule triple_fact[of _ "stateFile h0 = Absent"])
       (use that triple_pre[OF none, of "\<lambda>h. like h0 h \<and> stateFile h = Absent"] in \<open>auto simp: like_def\<close>)
qed (auto intro: triple_like_fail[OF c])

lemma triple_reopen:
  assumes c: "consistent l h0" and j: "journalFile h0 = Stored j"
    and m: "triple (sync l j (calls h0) (\<lambda>q. q = dj_Phase j)) m Q E"
  shows "triple (like h0) (bindD (setMem j) (\<lambda>_. m)) Q E"
  by (rule triple_bind[OF triple_setMem m], rule like_sync[OF c j]) (auto simp: like_def)

section \<open>Uninstalling\<close>

lemma initialUninstalled_valid: "validate_state l (initialUninstalled l)"
  by (simp add: initialUninstalled_def validate_state_def validate_opt_def DeploymentStateVersion_def)

lemma triple_initialUninstalled:
  assumes c: "consistent l h0" and a: "stateFile h0 = Absent" "journalFile h0 = Absent" and l: "l = lc_layout L"
  shows "triple (like h0) (bindD (SaveState L (initialUninstalled (lc_layout L))) (\<lambda>_.
      returnD (uninstalledResult (initialUninstalled (lc_layout L)) ''''))) (\<lambda>r. completes l h0 (ur_State r)) (proceeds l h0)"
proof -
  have new: "proceeds l h0 h" if "stateFile h = Stored (initialUninstalled l)" "journalFile h = Absent" "calls h = calls h0"
    for h :: "'a host"
    using that a initialUninstalled_valid[of l]
    by (auto simp: proceeds_def consistent_def state_ok_def logical_def next_state_def initialUninstalled_def)
  have old: "proceeds l h0 h" if "stateFile h = Absent" "journalFile h = Absent" "calls h = calls h0" for h
    using that a outcome_refl[OF c, of h] by (simp add: like_def)
  show ?thesis
    unfolding SaveState_def l[symmetric]
    by (rule triple_bind[where R = "\<lambda>_. completes l h0 (initialUninstalled l)"], intro triple_if triple_fail triple_durable)
       (use new old in \<open>auto simp: like_def completes_def uninstalledResult_def a initialUninstalled_valid intro: triple_return\<close>)
qed

lemma triple_Uninstall:
  assumes l: "l = lc_layout L" and c: "consistent l h0"
  shows "triple (like h0) (Uninstall L) (\<lambda>r. completes l h0 (ur_State r)) (proceeds l h0)"
  unfolding Uninstall_def
proof (rule triple_underLocks[OF c], rule triple_on_journal[OF c])
  fix j assume j: "journalFile h0 = Stored j"
  show "triple (like h0) (if dj_Operation j \<noteq> OperationUninstall
         then failD (Err ''a different deployment transaction requires recovery before uninstall'')
         else bindD (setMem j) (\<lambda>_. finishRun uninstallFinal (restorePriorAfterFailedUninstall L) (runUninstall L)))
       (\<lambda>r. completes l h0 (ur_State r)) (proceeds l h0)"
    by (rule triple_if, rule triple_like_fail[OF c], rule triple_reopen[OF c j])
       (use uninstall_op.resume c j l in blast)
next
  assume n: "journalFile h0 = Absent"
  show "triple (like h0) (bindD (attemptD (LoadState L)) (\<lambda>s. case s of
             Inl stateErr \<Rightarrow> if errorsIs stateErr ErrNoDeploymentState
               then bindD (SaveState L (initialUninstalled (lc_layout L))) (\<lambda>_.
                 returnD (uninstalledResult (initialUninstalled (lc_layout L)) ''''))
               else failD stateErr
           | Inr state \<Rightarrow> if ds_Status state = StatusUninstalled then returnD (uninstalledResult state '''')
               else bindD (newTransactionID L) (\<lambda>transactionID.
                 bindD (beginTransaction L (uninstallJournal state transactionID)) (\<lambda>_.
                 finishRun uninstallFinal (restorePriorAfterFailedUninstall L) (runUninstall L)))))
       (\<lambda>r. completes l h0 (ur_State r)) (proceeds l h0)"
  proof (rule triple_on_state[OF c], rule triple_if)
    fix s assume s: "stateFile h0 = Stored s"
    show "triple (like h0) (returnD (uninstalledResult s '''')) (\<lambda>r. completes l h0 (ur_State r)) (proceeds l h0)"
      by (rule triple_return) (use s n outcome_refl[OF c] in \<open>auto simp: completes_def uninstalledResult_def like_def\<close>)
    show "triple (like h0) (bindD (newTransactionID L) (\<lambda>transactionID.
                 bindD (beginTransaction L (uninstallJournal s transactionID)) (\<lambda>_.
                 finishRun uninstallFinal (restorePriorAfterFailedUninstall L) (runUninstall L))))
       (\<lambda>r. completes l h0 (ur_State r)) (proceeds l h0)"
      by (rule triple_like_quiet[OF c quiet_newTransactionID],
          unfold l, rule uninstall_op.start)
         (use c n l in \<open>auto simp: uninstallJournal_def prior_file_def switches_back_def s\<close>)
  qed (rule triple_initialUninstalled[OF c _ n l])
qed

section \<open>Rolling back\<close>

lemma planRollback_cases:
  assumes "planRollback L s h = (h', Done j)"
  shows "\<exists>p av t. ds_Previous s = Some p \<and> j = rollbackJournal s p av t"
  using assms by (auto simp: planRollback_def bindD_def guardD_def returnD_def failD_def
      split: option.splits prod.splits reply.splits if_splits)

lemma triple_Rollback:
  assumes l: "l = lc_layout L" and c: "consistent l h0"
  shows "triple (like h0) (RollbackRelease L) (\<lambda>r. completes l h0 (ar_State r)) (proceeds l h0)"
  unfolding RollbackRelease_def
proof (rule triple_underLocks[OF c], rule triple_on_journal[OF c])
  fix j assume j: "journalFile h0 = Stored j"
  show "triple (like h0) (if dj_Operation j \<noteq> OperationRollback
         then failD (Err ''a different deployment transaction requires recovery before rollback'')
         else bindD (setMem j) (\<lambda>_. finishRun switchFinal (restorePriorAfterFailedSwitch L) (runRollback L)))
       (\<lambda>r. completes l h0 (ar_State r)) (proceeds l h0)"
    by (rule triple_if, rule triple_like_fail[OF c], rule triple_reopen[OF c j])
       (use rollback_op.resume c j l in blast)
next
  assume n: "journalFile h0 = Absent"
  show "triple (like h0) (bindD (LoadState L) (\<lambda>state. bindD (planRollback L state) (\<lambda>journal.
           bindD (beginTransaction L journal) (\<lambda>_.
           finishRun switchFinal (restorePriorAfterFailedSwitch L) (runRollback L)))))
       (\<lambda>r. completes l h0 (ar_State r)) (proceeds l h0)"
  proof (rule triple_LoadState[OF steady_silent(1) outcome_refl[OF c]], assumption)
    fix s
    show "triple (\<lambda>h. like h0 h \<and> stateFile h = Stored s) (bindD (planRollback L s) (\<lambda>journal.
           bindD (beginTransaction L journal) (\<lambda>_. finishRun switchFinal (restorePriorAfterFailedSwitch L) (runRollback L))))
       (\<lambda>r. completes l h0 (ar_State r)) (proceeds l h0)"
    proof (rule triple_fact[of _ "stateFile h0 = Stored s"], (auto simp: like_def)[1], rule tripleI)
      fix h h' r assume s: "stateFile h0 = Stored s" and h: "like h0 h \<and> stateFile h = Stored s"
        and e: "bindD (planRollback L s) (\<lambda>journal.
           bindD (beginTransaction L journal) (\<lambda>_. finishRun switchFinal (restorePriorAfterFailedSwitch L) (runRollback L))) h = (h', r)"
      obtain h1 r1 where p: "planRollback L s h = (h1, r1)" by fastforce
      have h1: "like h0 h1" using quietD[OF quiet_planRollback[of noCall] p] h by (auto simp: quiet_silent like_def)
      show "case r of Done a \<Rightarrow> completes l h0 (ar_State a) h' | _ \<Rightarrow> proceeds l h0 h'"
      proof (cases r1)
        case (Done j)
        then obtain q av t where j: "ds_Previous s = Some q" "j = rollbackJournal s q av t" using planRollback_cases p by blast
        have t: "triple (like h0) (bindD (beginTransaction L j) (\<lambda>_. finishRun switchFinal (restorePriorAfterFailedSwitch L) (runRollback L)))
            (\<lambda>r. completes l h0 (ar_State r)) (proceeds l h0)"
          by (unfold l, rule rollback_op.start) (use c n l j s in \<open>auto simp: rollbackJournal_def prior_file_def switches_back_def\<close>)
        then show ?thesis using tripleD[OF t h1] e p Done by (simp add: bindD_def)
      qed (use e p outcome_refl[OF c h1] in \<open>auto simp: bindD_def\<close>)
    qed
  qed
qed

end
