(* ===== verification/ApplyLaws.thy ===== *)
theory ApplyLaws
  imports OperationLaws
begin

text \<open>
  The transaction of \<^verbatim>\<open>Apply\<close>, the reachable hosts and the status report. A host is reachable when it is
  the result of a sequence of operations, each with its own environment, each ended by a result, an
  error or a crash (\<open>deployed\<close>); every reachable host is consistent and its logical state has moved
  through consecutive generations only.
\<close>

section \<open>Apply\<close>

lemma steady_noCall_ends [intro]: "steady noCall (interrupted l j0 c0)" "steady noCall (settledTx l j0 c0)"
proof -
  have "steady noCall (tx l j0 c0)" "steady noCall (sync l j0 c0 X)" for X
    by (auto simp: steady_def quiet_silent tx_def sync_def)
  then show "steady noCall (interrupted l j0 c0)" "steady noCall (settledTx l j0 c0)"
    unfolding steady_def interrupted_def settledTx_def after_tx_def quiet_silent by metis+
qed

lemma triple_reattest:
  assumes "triple P m Q E" and "steady noCall E"
  shows "triple P (reattest L m) Q E"
  unfolding reattest_def
proof (rule triple_bind)
  let ?R = "\<lambda>x h. case x of Inr a \<Rightarrow> Q a h | Inl (e :: deploy_error) \<Rightarrow> E h"
  show "triple P (attemptD m) ?R E" by (rule triple_attempt[where F = E]) (use assms(1) in auto)
  show "triple (?R x) (case x of Inr a \<Rightarrow> returnD a | Inl e \<Rightarrow> bindD (attestLease L) (\<lambda>_. failD e)) Q E" for x
    by (cases x) (auto intro: triple_return triple_fail triple_seq_quiet[OF quiet_attest assms(2)])
qed

interpretation apply_op: deployment_operation L OperationApply applyFinal "restorePriorAfterFailedApply L"
  "reattest L (runApply L)" ar_State for L :: "'w lifecycle"
  by unfold_locales (rule finals triple_restoreApply[OF refl]
    triple_reattest[OF triple_runApply[OF refl] steady_noCall_ends(1)] triple_reattest[OF triple_run_saved(2)[OF refl] steady_noCall_ends(2)]; assumption)+

lemma triple_finishApply_resume:
  assumes "l = lc_layout L" and "consistent l h0" and "journalFile h0 = Stored j" and "dj_Operation j = OperationApply"
  shows "triple (sync l j (calls h0) (\<lambda>q. q = dj_Phase j)) (finishApply L) (\<lambda>r. completes l h0 (ar_State r)) (proceeds l h0)"
  unfolding finishApply_def assms(1) by (rule apply_op.resume) (use assms in simp_all)

text \<open>New input paths keep the transaction.\<close>

lemma triple_rebindInputs:
  assumes l: "l = lc_layout L"
  shows "triple (sync l j c0 (\<lambda>q. q = p)) (rebindInputs L request) (\<lambda>_. sync l j c0 (\<lambda>q. q = p)) (tx l j c0)"
  unfolding rebindInputs_def Let_def
proof (rule sync_journal, rule triple_when)
  fix k assume k: "same_tx k j" "journal_ok l k"
  let ?k = "k\<lparr>dj_SourcePath := req_ArtifactPath request, dj_LicenseSourcePath := req_LicensePath request,
      dj_NoticeSourcePath := req_NoticePath request\<rparr>"
  define R where "R = (\<lambda>h :: 'a host. tx l j c0 h \<and> mem h = ?k \<and> dj_Phase ?k = p \<and> stateFile h = prior_file j)"
  have same: "same_tx ?k j" and sb: "switches_back ?k"
    using k same_tx_files(4)[of ?k k] by (simp_all add: same_tx_def journal_ok_def)
  have st: "steady serviceCall R"
    using steady_tx[of l j c0] unfolding steady_def R_def quiet_step_def by auto
  show "triple (\<lambda>h. sync l j c0 (\<lambda>q. q = p) h \<and> mem h = k) (bindD (setMem ?k) (\<lambda>_. bindD (attestLease L) (\<lambda>_. SaveJournal L ?k)))
      (\<lambda>_. sync l j c0 (\<lambda>q. q = p)) (tx l j c0)"
    if ph: "dj_Phase k = PhasePlanned \<and> (dj_SourcePath k \<noteq> req_ArtifactPath request \<or>
       dj_LicenseSourcePath k \<noteq> req_LicensePath request \<or> dj_NoticeSourcePath k \<noteq> req_NoticePath request)"
  proof (rule triple_bind[OF triple_setMem[where Q = R]])
    show "R (h\<lparr>mem := ?k\<rparr>)" if "sync l j c0 (\<lambda>q. q = p) h \<and> mem h = k" for h
      using that ph same by (auto simp: R_def sync_def tx_def tx_file_def commitPhase_def)
    show "triple R (bindD (attestLease L) (\<lambda>_. SaveJournal L ?k)) (\<lambda>_. sync l j c0 (\<lambda>q. q = p)) (tx l j c0)"
    proof (rule triple_seq_quiet[OF quiet_attest st])
      show "triple R (SaveJournal L ?k) (\<lambda>_. sync l j c0 (\<lambda>q. q = p)) (tx l j c0)"
        unfolding SaveJournal_def l[symmetric]
        by (intro triple_if triple_fail triple_durable)
           (use same sb ph in \<open>auto simp: R_def sync_def tx_def tx_file_def journal_ok_def\<close>)
    qed (simp add: R_def)
  qed
qed auto

lemma quiet_on_state: "quiet noCall (case s of Inr currentState \<Rightarrow> checkRecorded L (Some currentState) desired
   | Inl e \<Rightarrow> if errorsIs e ErrNoDeploymentState then returnD () else failD e)"
  by (intro quiet_intros)

lemma triple_recoverApply:
  assumes l: "l = lc_layout L" and c: "consistent l h0" and j: "journalFile h0 = Stored j"
  shows "triple (like h0) (recoverApply L request desired availability j) (\<lambda>r. completes l h0 (ar_State r)) (proceeds l h0)"
proof (cases "dj_Operation j = OperationApply")
  case True
  have ok: "journal_ok l j" using c j by (simp add: consistent_def)
  have tail: "triple (sync l j (calls h0) (\<lambda>q. q = dj_Phase j)) (bindD (rebindInputs L request) (\<lambda>_. finishApply L))
      (\<lambda>r. completes l h0 (ar_State r)) (proceeds l h0)"
  proof (cases "dj_Phase j = PhaseStateSaved")
    case True
    have "triple (sync l j (calls h0) (\<lambda>q. q = dj_Phase j)) (rebindInputs L request) (\<lambda>_. sync l j (calls h0) (\<lambda>q. q = dj_Phase j))
        (settledTx l j (calls h0))"
      unfolding rebindInputs_def
      by (rule triple_getMem) (use True in \<open>auto simp: triple_def whenD_def returnD_def sync_def\<close>)
    then show ?thesis
    proof (rule triple_seq)
      have "logical l h0 = committed_file l j" using True j by (simp add: logical_def)
      then show "settledTx l j (calls h0) h \<Longrightarrow> proceeds l h0 h" for h by (metis settled_outcome)
    qed (rule triple_finishApply_resume[OF l c j \<open>dj_Operation j = OperationApply\<close>])
  next
    case False
    then have lg: "logical l h0 = prior_file j" using j by (simp add: logical_def)
    show ?thesis
      by (rule triple_seq[OF triple_rebindInputs[OF l]], erule tx_outcome[OF _ lg],
          rule triple_finishApply_resume[OF l c j \<open>dj_Operation j = OperationApply\<close>])
  qed
  show ?thesis
    unfolding recoverApply_def
    apply (rule triple_like_quiet[OF c quiet_basic(3)])+
    apply (rule triple_like_quiet[OF c quiet_checkRecorded])
    apply (rule triple_like_quiet[OF c quiet_attempt[OF quiet_loads(1)]])
    apply (rule triple_like_quiet[OF c quiet_on_state])
    by (rule triple_reopen[OF c j tail])
next
  case False
  then show ?thesis using outcome_refl[OF c]
    by (auto simp: recoverApply_def triple_def bindD_def guardD_def failD_def)
qed

lemma triple_startApply:
  assumes l: "l = lc_layout L" and c: "consistent l h0" and n: "journalFile h0 = Absent"
    and prior: "stateFile h0 = (case prior of None \<Rightarrow> Absent | Some s \<Rightarrow> Stored s)"
  shows "triple (like h0) (startApply L request desired availability prior) (\<lambda>r. completes l h0 (ar_State r)) (proceeds l h0)"
proof -
  let ?start = "bindD (newTransactionID L) (\<lambda>transactionID. bindD (attestLease L) (\<lambda>_.
      bindD (beginTransaction L (applyJournal request desired prior availability transactionID)) (\<lambda>_. finishApply L)))"
  have start: "triple (like h0) ?start (\<lambda>r. completes l h0 (ar_State r)) (proceeds l h0)"
    unfolding finishApply_def
    by (rule triple_like_quiet[OF c quiet_newTransactionID], rule triple_like_quiet[OF c quiet_attest],
        unfold l, rule apply_op.start)
       (use c n l prior in \<open>auto simp: applyJournal_def prior_file_def switches_back_def split: option.splits\<close>)
  have idem: "triple (like h0) (validateIdempotentApply L s request) (\<lambda>r. completes l h0 (ar_State r)) (proceeds l h0)"
    if s: "prior = Some s" for s
  proof (rule tripleI)
    fix h h' r assume h: "like h0 h" and e: "validateIdempotentApply L s request h = (h', r)"
    have h': "like h0 h'" using quietD[OF quiet_idempotent[of noCall] e] h by (auto simp: quiet_silent like_def)
    have "ar_State a = s" if "r = Done a" for a
      using e that by (auto simp: validateIdempotentApply_def bindD_def optD_def failD_def returnD_def
          split: option.splits prod.splits reply.splits dest!: resultForState_state)
    then show "case r of Done a \<Rightarrow> completes l h0 (ar_State a) h' | _ \<Rightarrow> proceeds l h0 h'"
      using h' outcome_refl[OF c h'] n prior s by (auto simp: completes_def like_def split: reply.splits)
  qed
  show ?thesis
    unfolding startApply_def
    by (rule triple_like_quiet[OF c quiet_basic(3)], cases prior) (use start idem in \<open>auto intro: triple_if\<close>)
qed

lemma triple_apply:
  assumes l: "l = lc_layout L" and c: "consistent l h0"
  shows "triple (like h0) (applyTransaction L request desired availability) (\<lambda>r. completes l h0 (ar_State r)) (proceeds l h0)"
  unfolding applyTransaction_def
proof (rule triple_on_journal[OF c])
  assume n: "journalFile h0 = Absent"
  show "triple (like h0) (bindD (attemptD (LoadState L)) (\<lambda>s. case s of
             Inr state \<Rightarrow> bindD (checkRecorded L (Some state) desired) (\<lambda>_. startApply L request desired availability (Some state))
           | Inl stateErr \<Rightarrow> if errorsIs stateErr ErrNoDeploymentState
               then startApply L request desired availability None else failD stateErr))
      (\<lambda>r. completes l h0 (ar_State r)) (proceeds l h0)"
    by (rule triple_on_state[OF c])
       (auto intro!: triple_like_quiet[OF c quiet_checkRecorded] triple_startApply[OF l c n])
qed (rule triple_recoverApply[OF l c])

section \<open>Reachable hosts\<close>

text \<open>One operation by one process. The next process starts with an arbitrary journal variable and sees
  whatever the world has become.\<close>

inductive operates :: "Layout \<Rightarrow> 'w host \<Rightarrow> 'w host \<Rightarrow> bool" for l where
  applies: "lc_layout L = l \<Longrightarrow> fst (applyTransaction L request desired availability h) = h' \<Longrightarrow> operates l h h'"
| rollback: "lc_layout L = l \<Longrightarrow> fst (RollbackRelease L h) = h' \<Longrightarrow> operates l h h'"
| uninstall: "lc_layout L = l \<Longrightarrow> fst (Uninstall L h) = h' \<Longrightarrow> operates l h h'"
| status: "lc_layout L = l \<Longrightarrow> fst (LifecycleStatus L h) = h' \<Longrightarrow> operates l h h'"
| environment: "operates l h (h\<lparr>mem := j, world := w\<rparr>)"

inductive deployed :: "Layout \<Rightarrow> 'w host \<Rightarrow> 'w host \<Rightarrow> bool" for l where
  none: "deployed l h h"
| step: "deployed l h h' \<Longrightarrow> operates l h' h'' \<Longrightarrow> deployed l h h''"

lemma triple_outcome:
  assumes "triple (like h) m (\<lambda>r. completes l h (st r)) (proceeds l h)"
  shows "proceeds l h (fst (m h))"
proof -
  obtain h' r where "m h = (h', r)" by fastforce
  moreover from tripleD[OF assms _ this] have "proceeds l h h'"
    by (cases r) (auto simp: like_def intro: completes_outcome)
  ultimately show ?thesis by simp
qed

lemma like_refl [simp]: "like h h"
  by (simp add: like_def)

lemma operates_outcome:
  assumes "operates l h h'" and c: "consistent l h"
  shows "proceeds l h h'"
  using assms(1)
proof cases
  case (applies L request desired availability)
  then show ?thesis using triple_outcome[OF triple_apply[OF refl]] c by blast
next
  case (rollback L)
  then show ?thesis using triple_outcome[OF triple_Rollback[OF refl]] c by blast
next
  case (uninstall L)
  then show ?thesis using triple_outcome[OF triple_Uninstall[OF refl]] c by blast
next
  case (status L)
  then have "like h h'" using quiet_Status[of noCall L] by (auto simp: quiet_def quiet_silent like_def)
  then show ?thesis by (rule outcome_refl[OF c])
next
  case (environment j w)
  then show ?thesis by (intro outcome_refl[OF c]) (simp add: like_def)
qed

lemma ahead_trans:
  assumes "ahead l a b" and "ahead l b c"
  shows "ahead l a c"
proof -
  let ?P = "\<lambda>(c, f). \<exists>j. f = Stored j \<and> journal_ok l j \<and>
     (c = CallRemoveArtifacts \<longrightarrow> dj_Operation j = OperationUninstall \<and> dj_Phase j = PhaseRemovingArtifacts)"
  obtain ds where "b = a @ ds" "\<forall>x\<in>set ds. ?P x" using assms(1) by (auto simp: ahead_def)
  moreover obtain es where "c = b @ es" "\<forall>x\<in>set es. ?P x" using assms(2) by (auto simp: ahead_def)
  ultimately show ?thesis unfolding ahead_def by (intro exI[of _ "ds @ es"]) auto
qed

lemma deployed_consistent:
  assumes "deployed l h h'" and "consistent l h"
  shows "consistent l h' \<and> ahead l (calls h) (calls h')"
  using assms
proof (induction rule: deployed.induct)
  case (step h h' h'')
  then show ?case using operates_outcome[OF step.hyps(2)] ahead_trans by (auto simp: proceeds_def)
qed simp

section \<open>The status report\<close>

lemma probeStatus_running:
  assumes "probeStatus L s a h = (h', Done (r, e))"
  shows "\<not> sr_RecoveryRequired r \<and> sr_State r = Some s \<and>
    (sr_Running r \<longrightarrow> e = None \<and> (\<exists>w w' i. lc_probeRunning L (StateDir (lc_layout L)) w = (w', Done i) \<and> ValidateReleaseIdentity i a))"
  using assms by (auto simp: probeStatus_def bindD_def attemptD_def ext_def returnD_def failD_def statusResult_def
      split: prod.splits reply.splits if_splits) blast+

lemma installedStatus_running:
  assumes "installedStatus L s h = (h', Done (r, e))"
  shows "\<not> sr_RecoveryRequired r \<and> sr_State r = Some s \<and> (sr_Running r \<longrightarrow> e = None \<and> (\<exists>a w w' i. ds_Active s = Some a \<and>
     lc_probeRunning L (StateDir (lc_layout L)) w = (w', Done i) \<and> ValidateReleaseIdentity i a))"
  using assms
  by (auto simp: installedStatus_def bindD_def attemptD_def optD_def ext_def returnD_def failD_def statusResult_def
      split: option.splits prod.splits reply.splits if_splits dest!: probeStatus_running)

lemma Status_truthful:
  assumes "LifecycleStatus L h = (h', Done (r, e))"
  shows "sr_RecoveryRequired r = (journalFile h \<noteq> Absent) \<and>
    sr_State r = (case stateFile h of Stored s \<Rightarrow> Some s | _ \<Rightarrow> None) \<and>
    (sr_Running r \<longrightarrow> e = None \<and> (\<exists>s a w w' i. stateFile h = Stored s \<and> ds_Active s = Some a \<and>
       lc_probeRunning L (StateDir (lc_layout L)) w = (w', Done i) \<and> ValidateReleaseIdentity i a))"
proof -
  obtain h1 j where j: "LoadJournal L h = (h1, j)" by fastforce
  obtain h2 s where s: "LoadState L h1 = (h2, s)" by fastforce
  note J = LoadJournal_cases[OF j] and S = LoadState_cases[OF s]
  have f: "stateFile h1 = stateFile h" using J by (simp add: quiet_silent)
  have S': "case s of Done v \<Rightarrow> stateFile h = Stored v | Fail x \<Rightarrow> errorsIs x ErrNoDeploymentState \<longrightarrow> stateFile h = Absent
     | Crashed \<Rightarrow> True"
    using S unfolding f by (simp split: reply.splits)
  show ?thesis
    using assms j s J S'
    by (auto simp: LifecycleStatus_def bindD_def attemptD_def returnD_def failD_def statusResult_def Let_def
        split: reply.splits if_splits dest!: installedStatus_running)
qed

end
