(* ===== verification/RecoveryLaws.thy ===== *)
theory RecoveryLaws
  imports ApplyLaws
begin

text \<open>
  Progress. When the environment answers every call, the probes attest the desired release and no crash is
  injected (\<open>obliging\<close>), an operation that finds a journal of its own kind on disk finishes the
  transaction from whatever phase the journal records.

  \<open>yields m A\<close> says that a computation that ignores the files returns a value in \<open>A\<close> from every host;
  \<open>safe P m\<close> that a computation returns a value from every host in \<open>P\<close>. The rules for \<open>safe\<close> take the
  assertions between the steps from the triples already proved.
\<close>

section \<open>Computations on a host that return\<close>

lemma yields_ext [yields_intros]: "answers f A \<Longrightarrow> yields (ext f) A"
proof (rule yieldsI)
  fix h :: "'a host" assume "answers f A"
  then obtain w' a where "f (world h) = (w', Done a)" "A a" by (rule answersE)
  then show "\<exists>h' a. ext f h = (h', Done a) \<and> A a" by (simp add: ext_def)
qed

lemma yields_logged [yields_intros]: "answers f A \<Longrightarrow> yields (logged c f) A"
proof (rule yieldsI)
  fix h :: "'a host" assume "answers f A"
  then have "yields (ext f) A" by (rule yields_ext)
  then show "\<exists>h' a. logged c f h = (h', Done a) \<and> A a" unfolding yields_def logged_def by blast
qed

lemma safe_quiet:
  assumes "quiet C m" and "steady C P" and "yields m A" and "\<And>a. A a \<Longrightarrow> safe P (f a)"
  shows "safe P (bindD m f)"
  unfolding safe_def
proof (intro allI impI)
  fix h assume h: "P h"
  obtain h1 a where m: "m h = (h1, Done a)" "A a" using assms(3) by (rule yieldsE)
  have "P h1" using quietD[OF assms(1) m(1)] assms(2) h by (auto simp: steady_def)
  then show "\<exists>h' b. bindD m f h = (h', Done b)" using assms(4)[OF m(2)] m by (simp add: bindD_def safe_def)
qed

section \<open>Obliging environments\<close>

definition obliging :: "'w lifecycle \<Rightarrow> bool" where
  "obliging L \<longleftrightarrow> responds (os_read L) \<and> (\<forall>w. snd (os_write L w) = Succeeded) \<and>
     responds (os_acquireLocks L) \<and> responds (os_closeLock L) \<and> responds (os_closeBootstrapLock L) \<and>
     responds (os_PrepareLayout L) \<and> responds (lc_AttestLockPath L) \<and> responds (lc_Initialize L) \<and>
     responds (mgr_Stop L) \<and> responds (mgr_Activate L) \<and> responds (mgr_Remove L) \<and> responds (lc_removeArtifacts L) \<and>
     answers (mgr_IsActive L) (\<lambda>b. b) \<and> (\<forall>p. answers (mgr_InstallDefinition L p) (\<lambda>q. q = mgr_DefinitionPath L)) \<and>
     (\<forall>a b c. lc_renderService L a b c \<noteq> None) \<and> lc_failAfterPhase L = PhaseOther ''''"

text \<open>The host has the release and runs it.\<close>

definition attests :: "'w lifecycle \<Rightarrow> InstalledRelease \<Rightarrow> bool" where
  "attests L d \<longleftrightarrow> (\<forall>p n s. responds (lc_verifyArtifact L p n s) \<and> responds (lc_verifyReleaseFile L p n s)) \<and>
     answers (lc_Inspect L (ir_BinaryPath d)) (\<lambda>i. ValidateReleaseIdentity i d) \<and>
     answers (lc_probeRunning L (StateDir (lc_layout L))) (\<lambda>i. ValidateReleaseIdentity i d)"

text \<open>The prior service is under this manager, or there is none to stop.\<close>

definition stoppable :: "'w lifecycle \<Rightarrow> DeploymentState option \<Rightarrow> bool" where
  "stoppable L prior = (case prior of None \<Rightarrow> True
     | Some p \<Rightarrow> ds_Status p = StatusUninstalled \<or> ds_Status p = StatusActive \<and> ds_Manager p = mgr_Kind L)"

lemma obligingD:
  assumes "obliging L"
  shows "responds (os_read L)" "snd (os_write L w) = Succeeded" "responds (os_acquireLocks L)" "responds (os_closeLock L)"
    "responds (os_closeBootstrapLock L)" "responds (os_PrepareLayout L)" "responds (lc_AttestLockPath L)" "responds (lc_Initialize L)"
    "responds (mgr_Stop L)" "responds (mgr_Activate L)" "responds (mgr_Remove L)" "responds (lc_removeArtifacts L)"
    "answers (mgr_IsActive L) (\<lambda>b. b)" "answers (mgr_InstallDefinition L p) (\<lambda>q. q = mgr_DefinitionPath L)"
    "\<exists>s. lc_renderService L a b c = Some s" "lc_failAfterPhase L = PhaseOther ''''"
  using assms by (auto simp: obliging_def)

lemma yields_attest [yields_intros]: "obliging L \<Longrightarrow> yields (attestLease L) (\<lambda>_. True)"
  unfolding attestLease_def
  by (rule yields_bind[OF yields_attempt[OF yields_ext[OF obligingD(7)]]]) (auto intro: yields_return)

lemma yields_initialize: "obliging L \<Longrightarrow> yields (initializeInstance L) (\<lambda>_. True)"
  unfolding initializeInstance_def
  by (rule yields_bind[OF yields_attempt[OF yields_ext[OF obligingD(8)]]]) (auto intro: yields_return)

lemma yields_verifyDesired:
  assumes "attests L d" and "validate_release (lc_layout L) d"
  shows "yields (verifyDesired L d) (\<lambda>_. True)"
proof -
  have f: "\<exists>p. SupportFilePath (lc_layout L) d n = Some p" if "n = ''LICENSE'' \<or> n = ''NOTICE''" for n
    using assms(2) that by (auto simp: SupportFilePath_def VersionDir_def validate_release_def)
  obtain p q where pq: "SupportFilePath (lc_layout L) d ''LICENSE'' = Some p" "SupportFilePath (lc_layout L) d ''NOTICE'' = Some q"
    using f[of "''LICENSE''"] f[of "''NOTICE''"] by blast
  have a: "responds (lc_verifyArtifact L x y z)" "responds (lc_verifyReleaseFile L x y z)"
    "answers (lc_Inspect L (ir_BinaryPath d)) (\<lambda>i. ValidateReleaseIdentity i d)" for x y z
    using assms(1) by (auto simp: attests_def)
  show ?thesis
    unfolding verifyDesired_def pq
    by (rule yields_bind[OF yields_ext[OF a(1)]], rule yields_bind[OF yields_opt[OF refl]],
        rule yields_bind[OF yields_ext[OF a(2)]], rule yields_bind[OF yields_opt[OF refl]],
        rule yields_bind[OF yields_ext[OF a(2)]], rule yields_bind[OF yields_ext[OF a(3)]], rule yields_guard) blast
qed

lemma yields_stopPrior:
  assumes "obliging L" and "stoppable L prior" and "yields attest (\<lambda>_. True)"
  shows "yields (stopPrior L prior attest) (\<lambda>_. True)"
proof -
  have stop: "yields (bindD attest (\<lambda>_. logged CallStop (mgr_Stop L))) (\<lambda>_. True)"
    by (rule yields_bind[OF assms(3) yields_logged[OF obligingD(9)[OF assms(1)]]])
  show ?thesis
  proof (cases prior)
    case (Some p)
    then show ?thesis using assms(2)
      by (cases "ds_Active p") (auto simp: stopPrior_def stoppable_def stopManager_def intro!: yields_return yields_bind[OF yields_guard stop])
  qed (simp add: stopPrior_def yields_return)
qed

lemma yields_activateDesired:
  assumes "obliging L" and "attests L d" and "yields attest (\<lambda>_. True)"
  shows "yields (activateDesired L d attest) (\<lambda>_. True)"
proof -
  have p: "answers (lc_probeRunning L (StateDir (lc_layout L))) (\<lambda>i. ValidateReleaseIdentity i d)"
    using assms(2) by (simp add: attests_def)
  show ?thesis
    unfolding activateDesired_def activateManager_def stopManager_def
    by (rule yields_bind[OF yields_ext[OF obligingD(13)[OF assms(1)]]])
       (auto intro!: yields_bind[OF yields_attempt[OF yields_ext[OF p]]] yields_return)
qed

lemma yields_waitForRunning:
  assumes "obliging L" and "attests L d"
  shows "yields (waitForRunning L d) (\<lambda>_. True)"
proof -
  have p: "answers (lc_probeRunning L (StateDir (lc_layout L))) (\<lambda>i. ValidateReleaseIdentity i d)"
    using assms(2) by (simp add: attests_def)
  have "yields (waitLoop (Suc n) L d) (\<lambda>_. True)" for n
    unfolding waitLoop.simps Let_def
    by (rule yields_bind[OF yields_ext[OF obligingD(13)[OF assms(1)]]])
       (auto intro!: yields_bind[OF yields_attempt[OF yields_ext[OF p]]] yields_guard)
  then show ?thesis using healthRounds_def by (metis Suc_pred waitForRunning_def zero_less_numeral)
qed

lemma yields_installSwitched:
  assumes "obliging L" and "yields attest (\<lambda>_. True)"
    and "dj_Manager j \<noteq> ManagerForeground \<Longrightarrow> dj_ServiceDefinition j = mgr_DefinitionPath L"
  shows "yields (installSwitched L j d attest) (\<lambda>_. True)"
proof -
  obtain s where s: "lc_renderService L (ir_OS d) (ir_BinaryPath d) (StateDir (lc_layout L)) = Some s"
    using obligingD(15)[OF assms(1)] by blast
  show ?thesis
    unfolding installSwitched_def renderFor_def installDefinition_def s
    by (rule yields_when, rule yields_bind[OF yields_opt[OF refl]],
        rule yields_bind[OF yields_bind[OF assms(2) yields_logged[OF obligingD(14)[OF assms(1)]]]], rule yields_guard)
       (use assms(3) in simp)
qed

section \<open>Metadata\<close>

lemma durable_done: "obliging L \<Longrightarrow> \<exists>w. durable L change h = (change (h\<lparr>world := w\<rparr>), Done ())"
  using obligingD(2)[of L "world h"] by (cases "os_write L (world h)") (auto simp: durable_def Let_def)

lemma safe_durable: "obliging L \<Longrightarrow> safe P (durable L change)"
  unfolding safe_def using durable_done by blast

lemma validate_journal_phase:
  assumes "validate_journal l j" and "allowed_phase (dj_Operation j) p"
  shows "validate_journal l (j\<lparr>dj_Phase := p\<rparr>)"
proof -
  have "validate_journal_manager l (j\<lparr>dj_Phase := p\<rparr>) = validate_journal_manager l j"
    by (cases "dj_Desired j"; cases "dj_Manager j"; cases "dj_PriorState j") (simp_all add: validate_journal_manager_def)
  then show ?thesis using assms by (simp add: validate_journal_def validate_journal_inputs_def)
qed

lemma safe_checkpoint:
  assumes o: "obliging L" and l: "l = lc_layout L" and p: "allowed_phase (dj_Operation j0) p" "p \<noteq> PhaseOther ''''"
  shows "safe (sync l j0 c0 X) (checkpoint L p)"
  unfolding safe_def
proof (intro allI impI)
  fix h :: "'a host" assume "sync l j0 c0 X h"
  then have "journal_ok l (mem h)" "same_tx (mem h) j0" by (auto simp: sync_def tx_def)
  then have v: "validate_journal (lc_layout L) ((mem h)\<lparr>dj_Phase := p\<rparr>)"
    using p l validate_journal_phase by (auto simp: journal_ok_def same_tx_def)
  let ?j = "(mem h)\<lparr>dj_Phase := p\<rparr>"
  obtain w where "durable L (\<lambda>h. h\<lparr>journalFile := Stored ?j\<rparr>) (h\<lparr>mem := ?j\<rparr>) = (h\<lparr>mem := ?j, world := w, journalFile := Stored ?j\<rparr>, Done ())"
    using durable_done[OF o, of "\<lambda>h. h\<lparr>journalFile := Stored ?j\<rparr>" "h\<lparr>mem := ?j\<rparr>"] by auto
  then show "\<exists>h' a. checkpoint L p h = (h', Done a)"
    using v obligingD(16)[OF o] p
    by (simp add: checkpoint_def bindD_def getMem_def setMem_def SaveJournal_def injectCrash_def returnD_def)
qed

lemma safe_step:
  fixes L :: "'w lifecycle" and X :: "Phase \<Rightarrow> bool" and m :: "('w, unit) dep"
  assumes o: "obliging L" and l: "l = lc_layout L" and p: "allowed_phase (dj_Operation j0) p" "p \<noteq> PhaseOther ''''"
    and m: "quiet C m" "steady C (sync l j0 c0 X :: 'w host \<Rightarrow> bool)" "yields m (\<lambda>_. True)" and a: "quiet serviceCall attest" "yields attest (\<lambda>_. True)"
  shows "safe (sync l j0 c0 X) (phaseStep (memPhase Y) (thenCheckpoint L p attest m))"
proof -
  have "safe (sync l j0 c0 X) (thenCheckpoint L p attest m)"
    unfolding thenCheckpoint_def
    by (rule safe_quiet[OF m(1,2,3)], rule safe_quiet[OF a(1) steady_sync a(2)], rule safe_checkpoint[OF o l p])
  then show ?thesis by (auto simp: safe_def phaseStep_def bindD_def memPhase_def whenD_def returnD_def)
qed

lemma safe_LoadState:
  assumes o: "obliging L"
  shows "safe (\<lambda>h. \<exists>s. stateFile h = Stored s \<and> validate_state (lc_layout L) s) (LoadState L)"
proof -
  have "\<exists>w. readFile L h = (h\<lparr>world := w\<rparr>, Done ())" for h
  proof -
    obtain w' where "os_read L (world h) = (w', Done ())" using obligingD(1)[OF o] by (rule answersE) simp
    then show ?thesis by (auto simp: readFile_def bindD_def attemptD_def ext_def returnD_def)
  qed
  note read = this
  show ?thesis unfolding safe_def
  proof (intro allI impI)
    fix h :: "'a host" assume "\<exists>s. stateFile h = Stored s \<and> validate_state (lc_layout L) s"
    then show "\<exists>h' a. LoadState L h = (h', Done a)"
      using read[of h] by (auto simp: LoadState_def bindD_def loaded_def returnD_def)
  qed
qed

section \<open>The runs return\<close>

lemma safe_SaveState: "obliging L \<Longrightarrow> validate_state (lc_layout L) s \<Longrightarrow> safe P (SaveState L s)"
  by (simp add: SaveState_def safe_durable)

lemma safe_RemoveJournal: "obliging L \<Longrightarrow> safe P (RemoveJournal L)"
  by (simp add: RemoveJournal_def safe_durable)

lemma switch_phases:
  assumes "op = OperationApply \<or> op = OperationRollback"
    and "p \<in> {PhasePriorServiceStopped, PhaseDefinitionInstalled, PhaseActivated, PhaseHealthVerified, PhaseCommitting, PhaseStateSaved}"
  shows "allowed_phase op p" "p \<noteq> PhaseOther ''''"
  using assms by (auto simp: phase_rank_simps)

lemma safe_switchStep:
  fixes L :: "'w lifecycle"
  assumes "obliging L" and "l = lc_layout L" and "allowed_phase (dj_Operation j0) p" "p \<noteq> PhaseOther ''''"
    and "quiet serviceCall m" "yields m (\<lambda>_. True)" and "quiet serviceCall attest" "yields attest (\<lambda>_. True)"
  shows "safe (sync l j0 c0 X) (switchStep L reached attest p m)"
  unfolding switchStep_def by (rule safe_step[OF assms(1-5) steady_sync assms(6-8)])

context switch_order
begin

lemma switchService_safe:
  fixes L :: "'w lifecycle"
  assumes o: "obliging L" and l: "l = lc_layout L" and op: "dj_Operation j0 = OperationApply \<or> dj_Operation j0 = OperationRollback"
    and a: "quiet serviceCall attest" "yields attest (\<lambda>_. True)" and d: "attests L d" and s: "stoppable L (dj_PriorState j)"
    and i: "dj_Manager j \<noteq> ManagerForeground \<Longrightarrow> dj_ServiceDefinition j = mgr_DefinitionPath L"
  shows "safe (sync l j0 c0 (\<lambda>q. q \<noteq> PhaseStateSaved)) (switchService L reached attest j d)"
proof -
  note T = triple_switchStep[where reached = reached and attest = attest, OF l _ a(1)]
  note S = safe_switchStep[OF o l switch_phases[OF op] _ _ a]
  have y: "yields (stopPrior L (dj_PriorState j) attest) (\<lambda>_. True)" "yields (installSwitched L j d attest) (\<lambda>_. True)"
    "yields (activateDesired L d attest) (\<lambda>_. True)" "yields (waitForRunning L d) (\<lambda>_. True)"
    by (rule yields_stopPrior[OF o s a(2)], rule yields_installSwitched[OF o a(2) i], assumption,
        rule yields_activateDesired[OF o d a(2)], rule yields_waitForRunning[OF o d])
  have q: "quiet serviceCall (stopPrior L (dj_PriorState j) attest)" "quiet serviceCall (installSwitched L j d attest)"
    "quiet serviceCall (activateDesired L d attest)" "quiet serviceCall (waitForRunning L d)"
    by (intro quiet_intros a(1))+
  have w: "safe (sync l j0 c0 (\<lambda>q. q \<noteq> PhaseStateSaved)) (bindD (switchStep L reached attest PhaseActivated (activateDesired L d attest))
      (\<lambda>_. switchStep L reached attest PhaseHealthVerified (waitForRunning L d)))"
    by (rule safe_bind[OF T S]) (use q y before in \<open>auto intro: S\<close>)
  have tw: "triple (sync l j0 c0 (\<lambda>q. q \<noteq> PhaseStateSaved)) (bindD (switchStep L reached attest PhaseActivated (activateDesired L d attest))
      (\<lambda>_. switchStep L reached attest PhaseHealthVerified (waitForRunning L d))) (\<lambda>_. sync l j0 c0 (\<lambda>q. q \<noteq> PhaseStateSaved)) (tx l j0 c0)"
    by (rule triple_bind[OF T T]) (use q before in auto)
  show ?thesis
    unfolding switchService_def
    apply (rule safe_bind[OF T S], rule q, simp, simp add: before, simp, simp, rule q, rule y)
    apply (rule safe_bind[OF T S], rule q, simp, simp add: before, simp, simp, rule q, rule y)
    apply (rule safe_bind[OF triple_when[OF tw]], assumption)
    using w apply (simp add: whenD_def safe_return)
    apply (rule S, simp, simp, rule quiet_basic, rule yields_return, simp)
    done
qed

end

lemma safe_commitSwitch:
  assumes o: "obliging L" and l: "l = lc_layout L" and op: "dj_Operation j0 = OperationApply \<or> dj_Operation j0 = OperationRollback"
    and a: "quiet serviceCall attest" "yields attest (\<lambda>_. True)" and sh: "layout_shape l"
    and s: "committed l j0 = Some s" "validate_state l s" and w: "want = Some s"
  shows "safe (sync l j0 c0 (\<lambda>q. q = PhaseCommitting)) (commitSwitch L attest j want)"
proof -
  obtain d where "ds_Active s = Some d"
    using s(1) op by (auto simp: committed_def committedApplyState_def committedRollbackState_def switch_state_def split: option.splits)
  from locator_exists[OF sh s(2) this] obtain r where
    r: "resultForState (lc_layout L) s (foregroundFor (lc_layout L) j) (dj_TransactionID j) = Some r" using l by blast
  have cp: "triple (saved l j0 c0) (bindD attest (\<lambda>_. checkpoint L PhaseStateSaved)) (\<lambda>_. sync l j0 c0 (\<lambda>q. q = PhaseStateSaved)) (tx l j0 c0)"
    by (rule triple_seq_quiet[OF a(1) steady_saved saved_tx], assumption, rule triple_checkpoint_saved[OF l])
  have ck: "safe (saved l j0 c0) (checkpoint L PhaseStateSaved)"
    by (rule safe_pre[OF safe_checkpoint[OF o l]]) (use switch_phases[OF op] in \<open>auto simp: saved_def\<close>)
  show ?thesis
    unfolding commitSwitch_def w r
    apply (rule safe_opt, rule safe_quiet[OF a(1) steady_sync a(2)])
     apply (rule safe_bind[OF triple_SaveState_commit[OF l]], use s in simp)
      apply (rule safe_SaveState[OF o], use s l in simp)
     apply (rule safe_bind[OF cp safe_quiet[OF a(1) steady_saved a(2) ck]])
     apply (rule safe_opt, rule safe_quiet[OF a(1) steady_sync a(2)])
      apply (rule safe_bind[OF triple_RemoveJournal_saved safe_RemoveJournal[OF o] safe_return])
    using r by auto
qed

lemma safe_validateCommitted:
  assumes o: "obliging L" and l: "l = lc_layout L" and w: "want = committed l j0" and s: "committed l j0 = Some s" "validate_state l s"
    and f: "safe (sync l j0 c0 (\<lambda>q. q = PhaseStateSaved)) (f s)"
  shows "safe (sync l j0 c0 (\<lambda>q. q = PhaseStateSaved)) (bindD (validateCommitted L want) f)"
  unfolding safe_def
proof (intro allI impI)
  fix h :: "'a host" assume h: "sync l j0 c0 (\<lambda>q. q = PhaseStateSaved) h"
  then have st: "stateFile h = Stored s" using s(1) by (auto simp: sync_def tx_def tx_file_def committed_file_def)
  then obtain h1 s' where ls: "LoadState L h = (h1, Done s')"
    using safe_LoadState[OF o] s(2) l unfolding safe_def by blast
  have "s' = s" "quiet_step serviceCall h h1"
    using LoadState_cases[OF ls] st quietD[OF quiet_loads(1) ls] by auto
  moreover from this have "sync l j0 c0 (\<lambda>q. q = PhaseStateSaved) h1" using steady_sync[of l j0 c0] h unfolding steady_def by blast
  ultimately show "\<exists>h' a. bindD (validateCommitted L want) f h = (h', Done a)"
    using f ls w s by (simp add: validateCommitted_def bindD_def optD_def guardD_def returnD_def safe_def)
qed

lemma safe_concludeSwitch:
  assumes o: "obliging L" and l: "l = lc_layout L" and op: "dj_Operation j0 = OperationApply \<or> dj_Operation j0 = OperationRollback"
    and a: "quiet serviceCall attest" "yields attest (\<lambda>_. True)" and sh: "layout_shape l"
    and s: "committed l j0 = Some s" "validate_state l s" and w: "want = committed l j0"
  shows "safe (sync l j0 c0 (\<lambda>q. q = PhaseStateSaved)) (concludeSwitch L attest j want)"
proof -
  obtain d where "ds_Active s = Some d"
    using s(1) op by (auto simp: committed_def committedApplyState_def committedRollbackState_def switch_state_def split: option.splits)
  from locator_exists[OF sh s(2) this] obtain r where
    r: "resultForState (lc_layout L) s (foregroundFor (lc_layout L) j) (dj_TransactionID j) = Some r" using l by blast
  show ?thesis
    unfolding concludeSwitch_def
    apply (rule safe_validateCommitted[OF o l w s])
    apply (rule safe_opt, rule safe_quiet[OF a(1) steady_sync a(2)])
     apply (rule safe_bind[OF triple_RemoveJournal_saved safe_RemoveJournal[OF o] safe_return])
    using r by auto
qed

text \<open>\<open>equipped\<close>: the transaction of a journal can be carried through in this environment.\<close>

definition equipped :: "'w lifecycle \<Rightarrow> DeploymentJournal \<Rightarrow> bool" where
  "equipped L j \<longleftrightarrow> obliging L \<and> layout_shape (lc_layout L) \<and> stoppable L (dj_PriorState j) \<and>
     (case dj_PriorState j of None \<Rightarrow> True | Some p \<Rightarrow> ds_Generation p \<noteq> - 1) \<and>
     (case dj_Desired j of None \<Rightarrow> True | Some d \<Rightarrow> attests L d) \<and>
     (dj_Manager j \<noteq> ManagerForeground \<and> dj_Manager j \<noteq> ManagerNone \<longrightarrow> dj_ServiceDefinition j = mgr_DefinitionPath L)"

lemma ready_same: "same_tx j k \<Longrightarrow> equipped L j = equipped L k"
  by (simp add: equipped_def same_tx_def)

lemma ready_committed:
  assumes "equipped L j" and "journal_ok (lc_layout L) j"
  obtains s where "committed (lc_layout L) j = Some s" "validate_state (lc_layout L) s"
proof -
  obtain s where s: "committed (lc_layout L) j = Some s" using committed_exists assms(2) by (auto simp: journal_ok_def)
  have "g + 1 \<noteq> 0" if "g \<noteq> - 1" for g :: uint64 using that by (simp flip: eq_neg_iff_add_eq_0)
  then have "ds_Generation s \<noteq> 0" using committed_generation[OF s] assms(1)
    by (simp add: equipped_def split: option.splits)
  then show thesis using that[OF s] committed_valid[OF _ _ s] assms(2) by (simp add: journal_ok_def)
qed

lemma safe_journal:
  assumes "\<And>j. same_tx j j0 \<Longrightarrow> journal_ok l j \<Longrightarrow> safe (\<lambda>h. sync l j0 c0 X h \<and> mem h = j) (f j)"
  shows "safe (sync l j0 c0 X) (bindD getMem f)"
  unfolding safe_def
proof (intro allI impI)
  fix h :: "'a host" assume h: "sync l j0 c0 X h"
  then have "same_tx (mem h) j0" "journal_ok l (mem h)" by (auto simp: sync_def tx_def)
  from assms[OF this] h show "\<exists>h' a. bindD getMem f h = (h', Done a)" by (simp add: safe_def bindD_def getMem_def)
qed

lemma safe_if: "(b \<Longrightarrow> safe P m) \<Longrightarrow> (\<not> b \<Longrightarrow> safe P n) \<Longrightarrow> safe P (if b then m else n)"
  by simp

lemma ready_switch:
  assumes r: "equipped L j0" and j: "same_tx j j0" "journal_ok l j" and l: "l = lc_layout L"
    and op: "dj_Operation j0 = OperationApply \<or> dj_Operation j0 = OperationRollback"
  obtains d s where "dj_Desired j = Some d" "attests L d" "validate_release l d" "stoppable L (dj_PriorState j)"
    "dj_Manager j \<noteq> ManagerForeground \<Longrightarrow> dj_ServiceDefinition j = mgr_DefinitionPath L"
    "obliging L" "layout_shape l" "committed l j0 = Some s" "validate_state l s"
proof -
  have rj: "equipped L j" using r by (simp only: ready_same[OF j(1)])
  obtain d where d: "dj_Desired j = Some d" using j op by (auto simp: same_tx_def journal_ok_def validate_journal_def)
  have m: "dj_Manager j \<noteq> ManagerNone" using j(2) d by (auto simp: journal_ok_def validate_journal_def validate_journal_manager_def)
  obtain s where s: "committed l j = Some s" "validate_state l s" using ready_committed[OF rj] j(2) l by blast
  have "validate_release l d" using j(2) d by (auto simp: journal_ok_def validate_journal_def validate_opt_def)
  then show thesis
    using that[of d s] rj d m s same_tx_files(3)[OF j(1), of l] l by (simp add: equipped_def)
qed

context switch_order
begin

lemma switch_safe:
  fixes L :: "'w lifecycle"
  assumes o: "obliging L" and l: "l = lc_layout L" and op: "dj_Operation j0 = OperationApply \<or> dj_Operation j0 = OperationRollback"
    and a: "quiet serviceCall attest" "yields attest (\<lambda>_. True)" and sh: "layout_shape l"
    and s: "committed l j0 = Some s" "validate_state l s" and w: "want = Some s"
    and d: "attests L d" "stoppable L (dj_PriorState j)"
      "dj_Manager j \<noteq> ManagerForeground \<Longrightarrow> dj_ServiceDefinition j = mgr_DefinitionPath L"
  shows "safe (sync l j0 c0 (\<lambda>q. q \<noteq> PhaseStateSaved))
    (bindD (switchService L reached attest j d) (\<lambda>_. commitSwitch L attest j want))"
  by (rule safe_bind[OF switchService_triple[OF l a(1)] switchService_safe[OF o l op a d] safe_commitSwitch[OF o l op a sh s w]])

end

lemma safe_runRollback:
  assumes l: "l = lc_layout L" and op: "dj_Operation j0 = OperationRollback" and r: "equipped L j0"
  shows "safe (sync l j0 c0 (\<lambda>_. True)) (runRollback L)"
  unfolding runRollback_def
proof (rule safe_journal, rule safe_if)
  fix j assume j: "same_tx j j0" "journal_ok l j"
  obtain d s where d: "dj_Desired j = Some d" "attests L d" "validate_release l d" "stoppable L (dj_PriorState j)"
    "dj_Manager j \<noteq> ManagerForeground \<Longrightarrow> dj_ServiceDefinition j = mgr_DefinitionPath L"
    "obliging L" "layout_shape l" "committed l j0 = Some s" "validate_state l s"
    using ready_switch[OF r j l] op by blast
  have w: "committedRollbackState (lc_layout L) j = committed l j0"
    using op same_tx_files(3)[OF j(1), of l] j(1) l by (simp add: committed_def same_tx_def)
  have op': "dj_Operation j0 = OperationApply \<or> dj_Operation j0 = OperationRollback" using op by simp
  note y = yields_return[where A = "\<lambda>_. True", OF TrueI]
  show "safe (\<lambda>h. sync l j0 c0 (\<lambda>_. True) h \<and> mem h = j) (concludeSwitch L (returnD ()) j (committedRollbackState (lc_layout L) j))"
    if "dj_Phase j = PhaseStateSaved"
    by (rule safe_pre[OF safe_concludeSwitch[OF d(6) l op' quiet_basic(1) y d(7-9) w]]) (use that in \<open>auto simp: sync_def\<close>)
  show "safe (\<lambda>h. sync l j0 c0 (\<lambda>_. True) h \<and> mem h = j) (bindD (optD ''nil dereference'' (dj_Desired j)) (\<lambda>desired.
      bindD (verifyDesired L desired) (\<lambda>_. bindD (switchService L rollbackPhaseReached (returnD ()) j desired)
      (\<lambda>_. commitSwitch L (returnD ()) j (committedRollbackState (lc_layout L) j)))))" if "dj_Phase j \<noteq> PhaseStateSaved"
    apply (rule safe_pre[of "sync l j0 c0 (\<lambda>q. q \<noteq> PhaseStateSaved)"])
     apply (rule safe_opt)
      apply (rule safe_quiet[OF quiet_verifyDesired steady_sync yields_verifyDesired], use d in simp, use d l in simp)
      apply (rule rollback_order.switch_safe[OF d(6) l op' quiet_basic(1) y d(7-9)])
           apply (use w d in simp_all)
    using that by (auto simp: sync_def)
qed

text \<open>Staging puts the release where its paths say.\<close>

definition stages :: "'w lifecycle \<Rightarrow> InstalledRelease \<Rightarrow> bool" where
  "stages L d \<longleftrightarrow> answers (os_PrepareVersionDirectory L (ir_Release d)) (\<lambda>dir. VersionDir (lc_layout L) (ir_Release d) = Some dir) \<and>
     (\<forall>source dir name n digest. answers (lc_stageArtifact L source dir name n digest) (\<lambda>p. p = Join [dir, name])) \<and>
     (\<forall>source dir name n digest. answers (lc_stageReleaseFile L source dir name n digest) (\<lambda>p. p = Join [dir, name]))"

lemma proper_trailing: "proper n \<Longrightarrow> rev (dropWhile (\<lambda>c. c = CHR ''/'') (rev (m @ n))) = m @ n"
  by (cases n rule: rev_cases) (auto simp: proper_def)

lemma Base_binary:
  assumes "layout_shape l" and "validate_release l d"
  shows "\<exists>dir. VersionDir l (ir_Release d) = Some dir \<and> Join [dir, Base (ir_BinaryPath d)] = ir_BinaryPath d"
proof -
  let ?t = "\<lparr>target_OS = ir_OS d, target_Architecture = ir_Architecture d\<rparr>"
  let ?n = "''sshserver-'' @ ir_OS d @ ''-'' @ ir_Architecture d"
  obtain vs where vs: "list_all proper vs" "VersionsDir l = abs_path vs" "Valid (ir_Release d)" "isSupportedTarget ?t"
    "ir_BinaryPath d = abs_path (vs @ [ir_Release d, ''sshserver-'' @ target_OS ?t @ ''-'' @ target_Architecture ?t])"
    "VersionDir l (ir_Release d) = Some (abs_path (vs @ [ir_Release d]))"
    using BinaryPath_components[OF assms(1) validate_release_path[OF assms(2)]] by blast
  have pn: "proper ?n" using supported_name[OF vs(4)] by simp
  have pv: "list_all proper (vs @ [ir_Release d])" using vs Valid_proper by simp
  have p: "ir_BinaryPath d = abs_path ((vs @ [ir_Release d]) @ [?n])" using vs(5) by simp
  have join: "Join [abs_path (vs @ [ir_Release d]), ?n] = ir_BinaryPath d"
    using Join_abs_path[OF pv, of "[?n]"] pn p by simp
  have all: "\<forall>x\<in>set ((vs @ [ir_Release d]) @ [?n]). CHR ''/'' \<notin> set x" using pv pn by (auto simp: list_all_iff proper_def)
  have split: "split_on (CHR ''/'') (ir_BinaryPath d) = [] # (vs @ [ir_Release d]) @ [?n]"
    using split_on_abs_path[of "(vs @ [ir_Release d]) @ [?n]"] pv pn p by simp
  have "ir_BinaryPath d = abs_path (vs @ [ir_Release d]) @ ''/'' @ ?n"
    using join_with_append[of "vs @ [ir_Release d]" "[?n]" "''/''"] p by (simp add: abs_path_def)
  then have "rev (dropWhile (\<lambda>c. c = CHR ''/'') (rev (ir_BinaryPath d))) = ir_BinaryPath d"
    using proper_trailing[OF pn, of "abs_path (vs @ [ir_Release d]) @ ''/''"] by (simp only: append_assoc)
  moreover have "ir_BinaryPath d \<noteq> ''''" using p by (simp add: abs_path_def)
  ultimately have "Base (ir_BinaryPath d) = ?n" using split by (simp add: Base_def Let_def)
  then show ?thesis using vs(6) join by simp
qed

lemma yields_stageSupportFile:
  assumes o: "obliging L" and g: "stages L d" and v: "VersionDir (lc_layout L) (ir_Release d) = Some dir"
    and n: "name = ''LICENSE'' \<or> name = ''NOTICE''"
  shows "yields (stageSupportFile L dir d source name count digest) (\<lambda>_. True)"
proof -
  have st: "answers (lc_stageReleaseFile L source dir name count digest) (\<lambda>p. p = Join [dir, name])"
    using g by (simp add: stages_def)
  have f: "SupportFilePath (lc_layout L) d name = Some (Join [dir, name])"
    using v n by (auto simp: SupportFilePath_def)
  show ?thesis
    unfolding stageSupportFile_def f
    by (rule yields_bind[OF yields_attest[OF o]], rule yields_bind[OF yields_ext[OF st]],
        rule yields_bind[OF yields_opt[OF refl]], rule yields_guard) simp
qed

lemma yields_stageRelease:
  assumes o: "obliging L" and g: "stages L d" and d: "attests L d" and v: "validate_release (lc_layout L) d"
    and sh: "layout_shape (lc_layout L)"
  shows "yields (stageRelease L d a b c) (\<lambda>_. True)"
proof -
  obtain dir where dir: "VersionDir (lc_layout L) (ir_Release d) = Some dir" "Join [dir, Base (ir_BinaryPath d)] = ir_BinaryPath d"
    using Base_binary[OF sh v] by blast
  have p: "answers (os_PrepareVersionDirectory L (ir_Release d)) (\<lambda>x. x = dir)" using g dir by (auto simp: stages_def answers_def)
  have st: "answers (lc_stageArtifact L a dir (Base (ir_BinaryPath d)) (ir_BinaryBytes d) (ir_BinarySHA256 d))
      (\<lambda>p. p = Join [dir, Base (ir_BinaryPath d)])" using g unfolding stages_def by blast
  note st = st[unfolded dir(2)]
  note f = yields_stageSupportFile[OF o g dir(1)]
  show ?thesis
    unfolding stageRelease_def stageSupportFiles_def
    by (rule yields_bind[OF yields_attest[OF o]], rule yields_bind[OF yields_ext[OF p]], hypsubst,
        rule yields_bind[OF yields_attest[OF o]], rule yields_bind[OF yields_ext[OF st]],
        rule yields_bind[OF yields_guard], assumption, rule yields_bind[OF yields_bind[OF f f]])
       (auto intro: yields_verifyDesired[OF d v])
qed

lemma safe_runApply:
  assumes l: "l = lc_layout L" and op: "dj_Operation j0 = OperationApply" and r: "equipped L j0"
    and g: "dj_Desired j0 = Some d" "stages L d"
  shows "safe (sync l j0 c0 (\<lambda>_. True)) (runApply L)"
  unfolding runApply_def
proof (rule safe_journal, rule safe_if)
  fix j assume j: "same_tx j j0" "journal_ok l j"
  obtain d' s where d: "dj_Desired j = Some d'" "attests L d'" "validate_release l d'" "stoppable L (dj_PriorState j)"
    "dj_Manager j \<noteq> ManagerForeground \<Longrightarrow> dj_ServiceDefinition j = mgr_DefinitionPath L"
    "obliging L" "layout_shape l" "committed l j0 = Some s" "validate_state l s"
    using ready_switch[OF r j l] op by blast
  have dd: "d' = d" using d(1) g(1) j(1) by (simp add: same_tx_def)
  have w: "committedApplyState (lc_layout L) j = committed l j0"
    using op same_tx_files(3)[OF j(1), of l] j(1) l by (simp add: committed_def same_tx_def)
  have op': "dj_Operation j0 = OperationApply \<or> dj_Operation j0 = OperationRollback" using op by simp
  have al: "allowed_phase (dj_Operation j0) PhaseArtifactStaged" "allowed_phase (dj_Operation j0) PhaseInstanceReady"
    using op by (simp_all add: phase_rank_simps)
  note y = yields_attest[OF d(6)]
  show "safe (\<lambda>h. sync l j0 c0 (\<lambda>_. True) h \<and> mem h = j) (concludeSwitch L (attestLease L) j (committedApplyState (lc_layout L) j))"
    if "dj_Phase j = PhaseStateSaved"
    by (rule safe_pre[OF safe_concludeSwitch[OF d(6) l op' quiet_attest y d(7-9) w]]) (use that in \<open>auto simp: sync_def\<close>)
  let ?stage = "\<lambda>desired. if \<not> applyPhaseReached (dj_Phase j) PhaseArtifactStaged
        then thenCheckpoint L PhaseArtifactStaged (attestLease L)
          (stageRelease L desired (dj_SourcePath j) (dj_LicenseSourcePath j) (dj_NoticeSourcePath j))
        else verifyDesired L desired"
  let ?S = "\<lambda>h. sync l j0 c0 (\<lambda>q. q \<noteq> PhaseStateSaved) h \<and> mem h = j"
  have yd: "yields (verifyDesired L d) (\<lambda>_. True)" "yields (stageRelease L d a b c) (\<lambda>_. True)" for a b c
    using yields_verifyDesired yields_stageRelease d g dd l by blast+
  have "safe (sync l j0 c0 X) (thenCheckpoint L PhaseArtifactStaged (attestLease L)
        (stageRelease L d (dj_SourcePath j) (dj_LicenseSourcePath j) (dj_NoticeSourcePath j)))" for X
    unfolding thenCheckpoint_def
    by (rule safe_quiet[OF quiet_stageRelease steady_sync yd(2)], rule safe_quiet[OF quiet_attest steady_sync y],
        rule safe_checkpoint[OF d(6) l al(1)]) simp
  then have st: "safe ?S (?stage d)"
    using yields_safe[OF yd(1)] by (auto simp: safe_def)
  have tst: "triple ?S (?stage d) (\<lambda>_. sync l j0 c0 (\<lambda>q. q \<noteq> PhaseStateSaved)) (tx l j0 c0)"
    by (rule triple_stageApply[OF l])
  show "safe (\<lambda>h. sync l j0 c0 (\<lambda>_. True) h \<and> mem h = j) (bindD (optD ''nil dereference'' (dj_Desired j)) (\<lambda>desired.
       bindD (?stage desired) (\<lambda>_.
       bindD (switchStep L applyPhaseReached (attestLease L) PhaseInstanceReady (initializeInstance L)) (\<lambda>_.
       bindD (switchService L applyPhaseReached (attestLease L) j desired) (\<lambda>_.
       commitSwitch L (attestLease L) j (committedApplyState (lc_layout L) j))))))" if "dj_Phase j \<noteq> PhaseStateSaved"
    apply (rule safe_pre[of ?S])
     apply (rule safe_opt)
      apply (rule safe_bind[of ?S])
        apply (use tst d dd in simp, use st d dd in simp)
      apply (rule safe_bind[OF triple_switchStep[OF l quiet_initializeInstance quiet_attest]
            safe_switchStep[OF d(6) l al(2) _ quiet_initializeInstance yields_initialize[OF d(6)] quiet_attest y]])
          apply (simp, simp add: phase_reached_simps, simp)
      apply (rule apply_order.switch_safe[OF d(6) l op' quiet_attest y d(7-9)])
           apply (use w d in simp_all)
    using that by (auto simp: sync_def)
qed

section \<open>Uninstalling\<close>

lemma uninstall_phases:
  assumes "p \<in> {PhasePriorServiceStopped, PhaseDefinitionRemoved, PhaseRemovingArtifacts, PhaseArtifactsRemoved, PhaseCommitting, PhaseStateSaved}"
  shows "allowed_phase OperationUninstall p" "p \<noteq> PhaseOther ''''"
  using assms by (auto simp: phase_rank_simps)

lemma safe_removeArtifacts:
  assumes o: "obliging L" and l: "l = lc_layout L" and op: "dj_Operation j0 = OperationUninstall"
    and X: "\<And>q. X q \<Longrightarrow> q = PhaseRemovingArtifacts"
  shows "safe (sync l j0 c0 X) (thenCheckpoint L PhaseArtifactsRemoved (returnD ()) (logged CallRemoveArtifacts (lc_removeArtifacts L)))"
  unfolding thenCheckpoint_def
  by (rule safe_bind[OF triple_removeArtifacts[OF op X]], assumption, rule yields_safe[OF yields_logged[OF obligingD(12)[OF o]]],
      rule safe_quiet[OF quiet_basic(1) steady_sync yields_return[where A = "\<lambda>_. True", OF TrueI]],
      rule safe_checkpoint[OF o l]) (use op uninstall_phases[of PhaseArtifactsRemoved] in simp_all)

lemma safe_phaseStep:
  assumes "safe (sync l j0 c0 (\<lambda>q. X q \<and> \<not> Y q)) m"
  shows "safe (sync l j0 c0 X) (phaseStep (memPhase Y) m)"
  using assms by (auto simp: safe_def phaseStep_def bindD_def memPhase_def whenD_def returnD_def sync_def)

lemma safe_removeJournal:
  "obliging L \<Longrightarrow> safe (sync l j0 c0 (\<lambda>q. q = PhaseStateSaved)) (bindD (RemoveJournal L) (\<lambda>_. returnD r))"
  by (rule safe_bind[OF triple_RemoveJournal_saved safe_RemoveJournal safe_return])

lemma safe_runUninstall:
  assumes l: "l = lc_layout L" and op: "dj_Operation j0 = OperationUninstall" and r: "equipped L j0" and ok: "journal_ok l j0"
  shows "safe (sync l j0 c0 (\<lambda>_. True)) (runUninstall L)"
  unfolding runUninstall_def Let_def
proof (rule safe_journal, rule safe_if)
  fix j assume j: "same_tx j j0" "journal_ok l j"
  have w: "committedUninstallState (lc_layout L) j = committed l j0"
    using op same_tx_files(3)[OF j(1), of l] j(1) l by (simp add: committed_def same_tx_def)
  obtain s where s: "committed l j0 = Some s" "validate_state l s" using ready_committed[OF r] ok l by blast
  have o: "obliging L" and st: "stoppable L (dj_PriorState j)" using r j(1) by (simp_all add: equipped_def same_tx_def)
  have al: "allowed_phase (dj_Operation j0) p \<and> p \<noteq> PhaseOther ''''"
    if "p \<in> {PhasePriorServiceStopped, PhaseDefinitionRemoved, PhaseRemovingArtifacts, PhaseArtifactsRemoved, PhaseCommitting, PhaseStateSaved}" for p
    using uninstall_phases[OF that] op by simp
  note y = yields_return[where A = "\<lambda>_. True", OF TrueI]
  show "safe (\<lambda>h. sync l j0 c0 (\<lambda>_. True) h \<and> mem h = j)
      (bindD (validateCommitted L (committedUninstallState (lc_layout L) j)) (\<lambda>state.
          bindD (RemoveJournal L) (\<lambda>_. returnD (uninstalledResult state (dj_TransactionID j)))))"
    if "dj_Phase j = PhaseStateSaved"
    by (rule safe_pre[OF safe_validateCommitted[OF o l w s safe_removeJournal[OF o]]]) (use that in \<open>auto simp: sync_def\<close>)
  note step = triple_step[where reached = uninstallPhaseReached, OF l _ quiet_basic(1)]
  note gen = triple_step_gen[where reached = uninstallPhaseReached, OF l quiet_basic(1)]
  let ?st = "\<lambda>p m. phaseStep (memPhase (\<lambda>current. uninstallPhaseReached current p)) (thenCheckpoint L p (returnD ()) m)"
  let ?N = "sync l j0 c0 (\<lambda>q. q \<noteq> PhaseStateSaved)"
  have S: "safe (sync l j0 c0 X) (?st p m)" if "quiet serviceCall m" "yields m (\<lambda>_. True)"
    "p \<in> {PhasePriorServiceStopped, PhaseDefinitionRemoved, PhaseRemovingArtifacts, PhaseArtifactsRemoved, PhaseCommitting, PhaseStateSaved}" for p m X
    by (rule safe_step[OF o l _ _ that(1) steady_sync that(2) quiet_basic(1) y]) (use al[OF that(3)] in auto)
  have q: "quiet serviceCall (stopPrior L (dj_PriorState j) (returnD ()))"
    "quiet serviceCall (whenD b (logged CallRemove (mgr_Remove L)))" for b
    by (intro quiet_intros, intro quiet_intros, simp add: serviceCall_def)
  have ck: "safe (saved l j0 c0) (checkpoint L PhaseStateSaved)"
    by (rule safe_pre[OF safe_checkpoint[OF o l]]) (use al[of PhaseStateSaved] in \<open>auto simp: saved_def\<close>)
  have tail: "safe (sync l j0 c0 (\<lambda>q. q = PhaseCommitting)) (bindD (optD ''nil dereference'' (committedUninstallState (lc_layout L) j)) (\<lambda>state.
       bindD (SaveState L state) (\<lambda>_. bindD (checkpoint L PhaseStateSaved) (\<lambda>_.
       bindD (RemoveJournal L) (\<lambda>_. returnD (uninstalledResult state (dj_TransactionID j)))))))"
    apply (rule safe_opt)
     apply (rule safe_bind[OF triple_SaveState_commit[OF l]], use w s in simp)
      apply (rule safe_SaveState[OF o], use w s l in simp)
     apply (rule safe_bind[OF triple_checkpoint_saved[OF l] _ safe_removeJournal[OF o]])
     apply (rule ck)
    using w s by simp
  show "safe (\<lambda>h. sync l j0 c0 (\<lambda>_. True) h \<and> mem h = j)
      (bindD (?st PhasePriorServiceStopped (stopPrior L (dj_PriorState j) (returnD ()))) (\<lambda>_.
       bindD (?st PhaseDefinitionRemoved (whenD (dj_Manager j \<noteq> ManagerForeground \<and> dj_Manager j \<noteq> ManagerNone)
          (logged CallRemove (mgr_Remove L)))) (\<lambda>_.
       bindD (?st PhaseRemovingArtifacts (returnD ())) (\<lambda>_.
       bindD (?st PhaseArtifactsRemoved (logged CallRemoveArtifacts (lc_removeArtifacts L))) (\<lambda>_.
       bindD (?st PhaseCommitting (returnD ())) (\<lambda>_.
       bindD (optD ''nil dereference'' (committedUninstallState (lc_layout L) j)) (\<lambda>state.
       bindD (SaveState L state) (\<lambda>_.
       bindD (checkpoint L PhaseStateSaved) (\<lambda>_.
       bindD (RemoveJournal L) (\<lambda>_.
       returnD (uninstalledResult state (dj_TransactionID j))))))))))))" if "dj_Phase j \<noteq> PhaseStateSaved"
    apply (rule safe_pre[of ?N])
     apply (rule safe_bind[OF step[OF q(1)] S[OF q(1) yields_stopPrior[OF o st y]]], simp, rule uninstall_orders, simp)
     apply (rule safe_pre[of ?N])
      apply (rule safe_bind[OF step[OF q(2)] S[OF q(2) yields_when[OF yields_logged[OF obligingD(11)[OF o]]]]], simp, rule uninstall_orders, simp)
      apply (rule safe_pre[of ?N])
       apply (rule safe_bind[OF step[OF quiet_basic(1)] S[OF quiet_basic(1) y]], simp, rule uninstall_orders, simp)
       apply (rule safe_bind[OF gen[OF _ _ _ triple_removeArtifacts[OF op]] safe_phaseStep[OF safe_removeArtifacts[OF o l op]]])
            apply (simp, blast, rule uninstall_orders, (use removing_reached in blast)[1], (use removing_reached in blast)[1])
       apply (rule safe_pre[of ?N])
        apply (rule safe_bind[OF step[OF quiet_basic(1)] S[OF quiet_basic(1) y]], simp, rule uninstall_orders, simp)
        apply (rule safe_pre[OF tail])
    using that committing_reached(3) by (auto simp: sync_def commitPhase_def)
qed

section \<open>Whole operations\<close>

lemma finishRun_done: "run h = (h', Done a) \<Longrightarrow> finishRun final restore run h = (h', Done a)"
  by (simp add: finishRun_def bindD_def attemptD_def returnD_def)

lemma safe_finishRun: "safe P run \<Longrightarrow> safe P (finishRun final restore run)"
  by (fastforce simp: safe_def intro: finishRun_done)

lemma safe_reattest: "safe P run \<Longrightarrow> safe P (reattest L run)"
  by (fastforce simp: safe_def reattest_def bindD_def attemptD_def returnD_def)

lemma safe_closing:
  assumes m: "safe P m" and c: "responds close"
  shows "safe P (closing msg close m)"
  unfolding safe_def
proof (intro allI impI)
  fix h assume "P h"
  then obtain h1 a where m1: "m h = (h1, Done a)" using m by (auto simp: safe_def)
  obtain w u where "close (world h1) = (w, Done u)" using c by (rule answersE)
  then show "\<exists>h' a. closing msg close m h = (h', Done a)"
    using m1 by (simp add: closing_def bindD_def attemptD_def ext_def returnD_def)
qed

lemma safe_underLocks:
  assumes o: "obliging L" and P: "steady noCall P" and m: "safe P m"
  shows "safe P (underLocks L m)"
  unfolding underLocks_def
  by (rule safe_quiet[OF quiet_ext P yields_ext[OF obligingD(3)[OF o]]],
      rule safe_closing[OF safe_closing[OF safe_quiet[OF quiet_ext P yields_ext[OF obligingD(6)[OF o]] m] obligingD(4)[OF o]] obligingD(5)[OF o]])

lemma LoadJournal_found:
  assumes "obliging L" and "journalFile h = Stored j" and "validate_journal (lc_layout L) j"
  shows "\<exists>w. LoadJournal L h = (h\<lparr>world := w\<rparr>, Done j)"
proof -
  obtain w where "os_read L (world h) = (w, Done ())" using obligingD(1)[OF assms(1)] by (rule answersE) simp
  then show ?thesis using assms(2,3)
    by (auto simp: LoadJournal_def readFile_def bindD_def attemptD_def ext_def loaded_def returnD_def)
qed

lemma safe_found:
  assumes o: "obliging L" and c: "consistent (lc_layout L) h0" and j: "journalFile h0 = Stored j"
    and m: "safe (like h0) (f (Inr j))"
  shows "safe (like h0) (bindD (attemptD (LoadJournal L)) f)"
  unfolding safe_def
proof (intro allI impI)
  fix h assume h: "like h0 h"
  have v: "validate_journal (lc_layout L) j" using c j by (simp add: consistent_def journal_ok_def)
  obtain w where "LoadJournal L h = (h\<lparr>world := w\<rparr>, Done j)"
    using LoadJournal_found[OF o _ v, of h] h j by (auto simp: like_def)
  moreover have "like h0 (h\<lparr>world := w\<rparr>)" using h by (simp add: like_def)
  ultimately show "\<exists>h' a. bindD (attemptD (LoadJournal L)) f h = (h', Done a)"
    using m by (auto simp: safe_def bindD_def attemptD_def)
qed

lemma safe_reopen:
  assumes c: "consistent l h0" and j: "journalFile h0 = Stored j" and m: "safe (sync l j (calls h0) (\<lambda>_. True)) m"
  shows "safe (like h0) (bindD (setMem j) (\<lambda>_. m))"
  unfolding safe_def
proof (intro allI impI)
  fix h assume "like h0 h"
  then have "like h0 (h\<lparr>mem := j\<rparr>)" by (simp add: like_def)
  then have "sync l j (calls h0) (\<lambda>_. True) (h\<lparr>mem := j\<rparr>)" using like_sync[OF c j] by (force intro: sync_weaken)
  then show "\<exists>h' a. bindD (setMem j) (\<lambda>_. m) h = (h', Done a)" using m by (simp add: safe_def bindD_def setMem_def)
qed

text \<open>What a resumed transaction leaves is the state that its journal promised.\<close>

lemma steady_concluded [intro]: "steady noCall (concluded l j c0 s)" "steady noCall (\<lambda>_. True)"
  by (auto simp: steady_def concluded_def after_tx_def quiet_silent)

context deployment_operation
begin

lemma resume_commits:
  assumes c: "consistent (lc_layout L) h0" and j: "journalFile h0 = Stored j" and op: "dj_Operation j = op"
  shows "triple (sync (lc_layout L) j (calls h0) (\<lambda>q. q = dj_Phase j)) (finishRun final restore run)
    (\<lambda>r. concluded (lc_layout L) j (calls h0) (st r)) (\<lambda>_. True)"
  by (rule triple_conseq[OF triple_finishRun[where final = final, OF run_tx[OF op] final_saved restore_tx]])
     (auto intro: sync_weaken)

lemma recovery_commits:
  assumes c: "consistent (lc_layout L) h0" and j: "journalFile h0 = Stored j" and op: "dj_Operation j = op"
  shows "triple (like h0) (underLocks L (bindD (attemptD (LoadJournal L)) (\<lambda>x. case x of
       Inr journal \<Rightarrow> if dj_Operation journal \<noteq> op then failD e else bindD (setMem journal) (\<lambda>_. finishRun final restore run)
     | Inl journalErr \<Rightarrow> if \<not> errorsIs journalErr ErrNoDeploymentJournal then failD journalErr else m)))
    (\<lambda>r. concluded (lc_layout L) j (calls h0) (st r)) (\<lambda>_. True)"
  unfolding underLocks_def
proof (rule triple_seq_quiet[OF quiet_ext steady_silent(1) TrueI], (rule triple_closing)+,
    rule triple_seq_quiet[OF quiet_ext steady_silent(1) TrueI], rule triple_LoadJournal[OF steady_silent(1) TrueI])
  fix k
  show "triple (\<lambda>h. like h0 h \<and> journalFile h = Stored k) (case Inr k of
       Inr journal \<Rightarrow> if dj_Operation journal \<noteq> op then failD e else bindD (setMem journal) (\<lambda>_. finishRun final restore run)
     | Inl journalErr \<Rightarrow> if \<not> errorsIs journalErr ErrNoDeploymentJournal then failD journalErr else m)
    (\<lambda>r. concluded (lc_layout L) j (calls h0) (st r)) (\<lambda>_. True)"
    using triple_pre[OF triple_reopen[OF c j resume_commits[OF c j op]], of "\<lambda>h. like h0 h \<and> journalFile h = Stored k"] j op
    by (cases "k = j") (auto simp: like_def triple_def)
qed (use j in \<open>auto simp: like_def triple_def failD_def\<close>)

end

lemma safe_Rollback:
  assumes c: "consistent (lc_layout L) h" and j: "journalFile h = Stored j" and op: "dj_Operation j = OperationRollback" and r: "equipped L j"
  shows "safe (like h) (RollbackRelease L)"
proof -
  have o: "obliging L" using r by (simp add: equipped_def)
  show ?thesis unfolding RollbackRelease_def
    by (rule safe_underLocks[OF o steady_silent(1)], rule safe_found[OF o c j])
       (use op safe_reopen[OF c j safe_finishRun[OF safe_runRollback[OF refl op r]]] in simp)
qed

lemma safe_Uninstall:
  assumes c: "consistent (lc_layout L) h" and j: "journalFile h = Stored j" and op: "dj_Operation j = OperationUninstall" and r: "equipped L j"
  shows "safe (like h) (Uninstall L)"
proof -
  have o: "obliging L" using r by (simp add: equipped_def)
  have ok: "journal_ok (lc_layout L) j" using c j by (simp add: consistent_def)
  show ?thesis unfolding Uninstall_def
    by (rule safe_underLocks[OF o steady_silent(1)], rule safe_found[OF o c j])
       (use op safe_reopen[OF c j safe_finishRun[OF safe_runUninstall[OF refl op r ok]]] in simp)
qed

section \<open>Retrying an interrupted apply\<close>

definition recordedHere :: "'w lifecycle \<Rightarrow> DeploymentState stored \<Rightarrow> bool" where
  "recordedHere L f = (case f of Stored s \<Rightarrow> ds_Status s \<noteq> StatusActive \<or>
     ds_Manager s = mgr_Kind L \<and> ds_ServiceDefinition s = mgr_DefinitionPath L | _ \<Rightarrow> True)"

text \<open>The same request again, with the environment that can carry its transaction through.\<close>

definition retryable :: "'w lifecycle \<Rightarrow> ApplyRequest \<Rightarrow> InstalledRelease \<Rightarrow> ManagerAvailability \<Rightarrow> DeploymentJournal \<Rightarrow> bool" where
  "retryable L request d availability j \<longleftrightarrow> equipped L j \<and> dj_Desired j = Some d \<and> stages L d \<and>
     (\<forall>r. responds (lc_verifyPreviewRelease L r)) \<and> managerMatchesJournal availability j \<and>
     req_ArtifactPath request = dj_SourcePath j \<and> req_LicensePath request = dj_LicenseSourcePath j \<and>
     req_NoticePath request = dj_NoticeSourcePath j \<and>
     recordedHere L (prior_file j) \<and> recordedHere L (committed_file (lc_layout L) j)"

lemma yields_retained:
  assumes p: "\<And>r. responds (lc_verifyPreviewRelease L r)"
  shows "yields (verifyRetainedRollbackReleaseForApply L state desired) (\<lambda>_. True)"
proof -
  have w: "yields (wrapD msg (ext (lc_verifyPreviewRelease L r))) (\<lambda>_. True)" for msg r
  proof (rule yieldsI)
    fix h :: "'a host"
    obtain w' a where "lc_verifyPreviewRelease L r (world h) = (w', Done a)" using p by (rule answersE)
    then show "\<exists>h' a. wrapD msg (ext (lc_verifyPreviewRelease L r)) h = (h', Done a) \<and> True" by (simp add: wrapD_def ext_def bindD_def attemptD_def returnD_def)
  qed
  show ?thesis
    unfolding verifyRetainedRollbackReleaseForApply_def
    by (auto split: option.splits intro!: yields_return w)
qed

lemma yields_checkRecorded:
  assumes "\<And>r. responds (lc_verifyPreviewRelease L r)"
    and "recordedHere L (case state of None \<Rightarrow> Absent | Some s \<Rightarrow> Stored s)"
  shows "yields (checkRecorded L state desired) (\<lambda>_. True)"
  unfolding checkRecorded_def validateRecordedActiveServiceBinding_def verifyRecordedReleaseForApply_def
  by (rule yields_bind[OF yields_guard])
     (use assms(2) in \<open>auto simp: recordedHere_def split: option.splits
       intro!: yields_return yields_bind[OF yields_attempt[OF yields_ext[OF assms(1)]]] yields_retained[OF assms(1)]\<close>)

lemma attempt_LoadState:
  assumes "obliging L" and "state_ok (lc_layout L) (stateFile h)"
  shows "\<exists>w. attemptD (LoadState L) h = (h\<lparr>world := w\<rparr>, Done (case stateFile h of Stored s \<Rightarrow> Inr s | _ \<Rightarrow> Inl ErrNoDeploymentState))"
proof -
  obtain w where "os_read L (world h) = (w, Done ())" using obligingD(1)[OF assms(1)] by (rule answersE) simp
  then show ?thesis using assms(2)
    by (intro exI[of _ w]) (auto simp: LoadState_def readFile_def bindD_def attemptD_def ext_def loaded_def returnD_def failD_def
        state_ok_def split: stored.splits)
qed

lemma safe_rebindInputs:
  assumes "req_ArtifactPath request = dj_SourcePath j" "req_LicensePath request = dj_LicenseSourcePath j"
    "req_NoticePath request = dj_NoticeSourcePath j" and m: "safe (\<lambda>h. P h \<and> mem h = j) m"
  shows "safe (\<lambda>h. P h \<and> mem h = j) (bindD (rebindInputs L request) (\<lambda>_. m))"
  using m by (auto simp: safe_def rebindInputs_def bindD_def getMem_def whenD_def returnD_def assms(1-3) Let_def)

lemma safe_recoverApply:
  assumes c: "consistent (lc_layout L) h0" and j: "journalFile h0 = Stored j" and op: "dj_Operation j = OperationApply"
    and r: "retryable L request d availability j"
  shows "safe (like h0) (recoverApply L request d availability j)"
proof -
  let ?l = "lc_layout L"
  have R: "equipped L j" "dj_Desired j = Some d" "stages L d" "managerMatchesJournal availability j"
    "recordedHere L (prior_file j)" "recordedHere L (committed_file ?l j)" and p: "\<And>x. responds (lc_verifyPreviewRelease L x)"
    using r by (auto simp: retryable_def)
  have o: "obliging L" using R(1) by (simp add: equipped_def)
  have f: "state_ok ?l (stateFile h0)" "stateFile h0 = prior_file j \<or> stateFile h0 = committed_file ?l j"
    using c j by (auto simp: consistent_def tx_file_def)
  let ?cur = "case stateFile h0 of Stored s \<Rightarrow> Inr s | _ \<Rightarrow> Inl ErrNoDeploymentState"
  have run: "safe (sync ?l j (calls h0) (\<lambda>_. True)) (finishApply L)"
    unfolding finishApply_def by (rule safe_finishRun[OF safe_reattest[OF safe_runApply[OF refl op R(1-3)]]])
  have tail: "safe (like h0) (bindD (setMem j) (\<lambda>_. bindD (rebindInputs L request) (\<lambda>_. finishApply L)))"
    unfolding safe_def
  proof (intro allI impI)
    fix h assume "like h0 h"
    then have "like h0 (h\<lparr>mem := j\<rparr>)" by (simp add: like_def)
    then have "sync ?l j (calls h0) (\<lambda>_. True) (h\<lparr>mem := j\<rparr>)" using like_sync[OF c j] by (force intro: sync_weaken)
    moreover have "safe (\<lambda>h. sync ?l j (calls h0) (\<lambda>_. True) h \<and> mem h = j) (bindD (rebindInputs L request) (\<lambda>_. finishApply L))"
      by (rule safe_rebindInputs[OF _ _ _ safe_pre[OF run]]) (use r in \<open>auto simp: retryable_def\<close>)
    ultimately show "\<exists>h' a. bindD (setMem j) (\<lambda>_. bindD (rebindInputs L request) (\<lambda>_. finishApply L)) h = (h', Done a)"
      by (simp add: safe_def bindD_def setMem_def)
  qed
  have cur: "yields (case ?cur of Inr currentState \<Rightarrow> checkRecorded L (Some currentState) d
       | Inl e \<Rightarrow> if errorsIs e ErrNoDeploymentState then returnD () else failD e) (\<lambda>_. True)"
    using f R(5,6) by (cases "stateFile h0") (auto intro!: yields_checkRecorded[OF p] yields_return)
  have pr: "recordedHere L (case dj_PriorState j of None \<Rightarrow> Absent | Some s \<Rightarrow> Stored s)"
    using R(5) by (simp add: prior_file_def)
  show ?thesis
    unfolding recoverApply_def
  proof (rule safe_quiet[OF quiet_basic(3) steady_silent(1) yields_guard], use op R(2) in simp,
      rule safe_quiet[OF quiet_basic(3) steady_silent(1) yields_guard], rule R(4),
      rule safe_quiet[OF quiet_checkRecorded steady_silent(1) yields_checkRecorded[OF p pr]])
    show "safe (like h0) (bindD (attemptD (LoadState L)) (\<lambda>s. bindD (case s of Inr currentState \<Rightarrow> checkRecorded L (Some currentState) d
       | Inl e \<Rightarrow> if errorsIs e ErrNoDeploymentState then returnD () else failD e) (\<lambda>_. bindD (setMem j) (\<lambda>_.
         bindD (rebindInputs L request) (\<lambda>_. finishApply L)))))"
      unfolding safe_def
    proof (intro allI impI)
      fix h assume h: "like h0 h"
      then have eq: "stateFile h = stateFile h0" by (simp add: like_def)
      have "state_ok ?l (stateFile h)" using f eq by simp
      from attempt_LoadState[OF o this]
      obtain w where w: "attemptD (LoadState L) h = (h\<lparr>world := w\<rparr>, Done ?cur)" unfolding eq by blast
      have "like h0 (h\<lparr>world := w\<rparr>)" using h by (simp add: like_def)
      then show "\<exists>h' a. bindD (attemptD (LoadState L)) (\<lambda>s. bindD (case s of Inr currentState \<Rightarrow> checkRecorded L (Some currentState) d
       | Inl e \<Rightarrow> if errorsIs e ErrNoDeploymentState then returnD () else failD e) (\<lambda>_. bindD (setMem j) (\<lambda>_.
         bindD (rebindInputs L request) (\<lambda>_. finishApply L)))) h = (h', Done a)"
        using safe_quiet[OF quiet_on_state steady_silent(1) cur tail] unfolding safe_def bindD_def[of "attemptD (LoadState L)"] w by simp
    qed
  qed
qed

lemma safe_applyTransaction:
  assumes c: "consistent (lc_layout L) h" and j: "journalFile h = Stored j" and op: "dj_Operation j = OperationApply"
    and r: "retryable L request d availability j"
  shows "safe (like h) (applyTransaction L request d availability)"
  unfolding applyTransaction_def
  by (rule safe_found[OF _ c j]) (use safe_recoverApply[OF assms] r in \<open>auto simp: retryable_def equipped_def\<close>)

text \<open>The recovery of each operation commits the transaction of the journal on disk.\<close>

lemma recoverApply_commits:
  assumes c: "consistent (lc_layout L) h0" and j: "journalFile h0 = Stored j" and op: "dj_Operation j = OperationApply"
  shows "triple (like h0) (recoverApply L request d availability j)
    (\<lambda>r. concluded (lc_layout L) j (calls h0) (ar_State r)) (\<lambda>_. True)"
proof -
  have tail: "triple (sync (lc_layout L) j (calls h0) (\<lambda>q. q = dj_Phase j)) (bindD (rebindInputs L request) (\<lambda>_. finishApply L))
      (\<lambda>r. concluded (lc_layout L) j (calls h0) (ar_State r)) (\<lambda>_. True)"
    unfolding finishApply_def
    by (rule triple_seq[OF triple_rebindInputs[OF refl] TrueI apply_op.resume_commits[OF c j op]])
  note quiet = triple_seq_quiet[OF _ steady_silent(1) TrueI]
  show ?thesis
    unfolding recoverApply_def
    by (rule quiet[OF quiet_basic(3)], rule quiet[OF quiet_basic(3)], rule quiet[OF quiet_checkRecorded],
        rule quiet[OF quiet_attempt[OF quiet_loads(1)]], rule quiet[OF quiet_on_state], rule triple_reopen[OF c j tail])
qed

lemma apply_commits:
  assumes c: "consistent (lc_layout L) h" and j: "journalFile h = Stored j" and op: "dj_Operation j = OperationApply"
  shows "triple (like h) (applyTransaction L request d availability)
    (\<lambda>r. concluded (lc_layout L) j (calls h) (ar_State r)) (\<lambda>_. True)"
  unfolding applyTransaction_def
proof (rule triple_LoadJournal[OF steady_silent(1) TrueI])
  fix k
  let ?f = "\<lambda>x. case x of Inr journal \<Rightarrow> recoverApply L request d availability journal
     | Inl journalErr \<Rightarrow> if \<not> errorsIs journalErr ErrNoDeploymentJournal then failD journalErr
         else bindD (attemptD (LoadState L)) (\<lambda>s. case s of
             Inr state \<Rightarrow> bindD (checkRecorded L (Some state) d) (\<lambda>_. startApply L request d availability (Some state))
           | Inl stateErr \<Rightarrow> if errorsIs stateErr ErrNoDeploymentState then startApply L request d availability None else failD stateErr)"
  show "triple (\<lambda>h'. like h h' \<and> journalFile h' = Stored k) (?f (Inr k)) (\<lambda>r. concluded (lc_layout L) j (calls h) (ar_State r)) (\<lambda>_. True)"
    using triple_pre[OF recoverApply_commits[OF c j op], of "\<lambda>h'. like h h' \<and> journalFile h' = Stored k"] j
    by (cases "k = j") (auto simp: like_def triple_def)
qed (use j in \<open>auto simp: like_def triple_def failD_def\<close>)

lemma recovers:
  assumes s: "safe (like h) m" and t: "triple (like h) m (\<lambda>r. concluded l j (calls h) (st r)) (\<lambda>_. True)"
  shows "\<exists>h' r. m h = (h', Done r) \<and> committed l j = Some (st r) \<and> stateFile h' = Stored (st r) \<and> journalFile h' = Absent"
proof -
  obtain h' r where m: "m h = (h', Done r)" using s like_refl unfolding safe_def by blast
  have "concluded l j (calls h) (st r) h'" using tripleD[OF t _ m] by simp
  then show ?thesis using m by (auto simp: concluded_def after_tx_def committed_file_def)
qed

lemma Rollback_recovers:
  assumes c: "consistent (lc_layout L) h" and j: "journalFile h = Stored j" and op: "dj_Operation j = OperationRollback" and r: "equipped L j"
  shows "\<exists>h' r. RollbackRelease L h = (h', Done r) \<and> committed (lc_layout L) j = Some (ar_State r) \<and>
    stateFile h' = Stored (ar_State r) \<and> journalFile h' = Absent"
  by (rule recovers[OF safe_Rollback[OF assms]]) (use rollback_op.recovery_commits[OF c j op] in \<open>simp add: RollbackRelease_def\<close>)

lemma Uninstall_recovers:
  assumes c: "consistent (lc_layout L) h" and j: "journalFile h = Stored j" and op: "dj_Operation j = OperationUninstall" and r: "equipped L j"
  shows "\<exists>h' r. Uninstall L h = (h', Done r) \<and> committed (lc_layout L) j = Some (ur_State r) \<and>
    stateFile h' = Stored (ur_State r) \<and> journalFile h' = Absent"
  by (rule recovers[OF safe_Uninstall[OF assms]]) (use uninstall_op.recovery_commits[OF c j op] in \<open>simp add: Uninstall_def\<close>)

lemma Apply_recovers:
  assumes c: "consistent (lc_layout L) h" and j: "journalFile h = Stored j" and op: "dj_Operation j = OperationApply"
    and r: "retryable L request d availability j"
  shows "\<exists>h' r. applyTransaction L request d availability h = (h', Done r) \<and> committed (lc_layout L) j = Some (ar_State r) \<and>
    stateFile h' = Stored (ar_State r) \<and> journalFile h' = Absent"
  by (rule recovers[OF safe_applyTransaction[OF assms] apply_commits[OF c j op]])

end
