(* ===== verification/DeployExample.thy ===== *)
theory DeployExample
  imports RecoveryLaws
begin

text \<open>
  A concrete deployment: a layout under a home directory, two releases, an active state with a release
  to go back to, the journal of a rollback that was interrupted after the service was activated, and an
  environment (over the unit world) in which every call succeeds. The properties are applied to it.
\<close>

definition ex_layout :: Layout where
  "ex_layout = \<lparr>HomeDir = ''/home/u'', InstallRoot = ''/home/u/app'', StateDir = ''/home/u/state'',
     VersionsDir = ''/home/u/app/versions'', StatePath = ''/home/u/app/deployment.json'',
     JournalPath = ''/home/u/app/deployment-journal.json'', LockPath = ''/home/u/app/.deployment.lock''\<rparr>"

definition ex_definition :: bytes where
  "ex_definition = ''/home/u/.config/systemd/user/sshserver.service''"

definition ex_release :: "bytes \<Rightarrow> bytes \<Rightarrow> char \<Rightarrow> InstalledRelease" where
  "ex_release release path c = \<lparr>ir_Release = release, ir_SourceRevision = replicate 40 c, ir_BuildToolchain = ''go1.24.1'',
     ir_BuildIdentity = replicate 64 c, ir_ManifestSHA256 = replicate 64 c, ir_ProtocolVersion = ''1'',
     ir_StorageSchema = ''1'', ir_OS = ''linux'', ir_Architecture = ''amd64'', ir_BinaryPath = path,
     ir_BinaryBytes = 1000, ir_BinarySHA256 = replicate 64 c, ir_LicenseBytes = 10, ir_LicenseSHA256 = replicate 64 c,
     ir_NoticeBytes = 10, ir_NoticeSHA256 = replicate 64 c\<rparr>"

definition ex_old :: InstalledRelease where
  "ex_old = ex_release ''1.0.0'' ''/home/u/app/versions/1.0.0/sshserver-linux-amd64'' (CHR ''a'')"

definition ex_new :: InstalledRelease where
  "ex_new = ex_release ''1.1.0'' ''/home/u/app/versions/1.1.0/sshserver-linux-amd64'' (CHR ''b'')"

definition ex_state :: DeploymentState where
  "ex_state = \<lparr>ds_StateVersion = 1, ds_Generation = 7, ds_Status = StatusActive, ds_Manager = ManagerSystemd,
     ds_StateDir = ''/home/u/state'', ds_ServiceDefinition = ex_definition, ds_Active = Some ex_new, ds_Previous = Some ex_old\<rparr>"

definition ex_journal :: DeploymentJournal where
  "ex_journal = (rollbackJournal ex_state ex_old \<lparr>ma_Manager = ManagerSystemd, ma_Available = True,
     ma_ServiceDefinition = ex_definition, ma_Foreground = None\<rparr> (replicate 32 (CHR ''c'')))\<lparr>dj_Phase := PhaseActivated\<rparr>"

definition ex_host :: "unit host" where
  "ex_host = \<lparr>stateFile = Stored ex_state, journalFile = Stored ex_journal, mem = ex_journal, world = (), calls = []\<rparr>"

definition ex_build :: "InstalledRelease \<Rightarrow> build_identity" where
  "ex_build r = \<lparr>bi_release = ir_Release r, bi_source_revision = ir_SourceRevision r,
     bi_build_toolchain = ir_BuildToolchain r, bi_build_identity = ir_BuildIdentity r,
     bi_protocol_version = ''1'', bi_storage_schema = ''1''\<rparr>"

definition ex_lifecycle :: "unit lifecycle" where
  "ex_lifecycle = \<lparr>lc_layout = ex_layout, mgr_Kind = ManagerSystemd, mgr_DefinitionPath = ex_definition,
     mgr_Detect = (\<lambda>_ _ w. (w, Done \<lparr>ma_Manager = ManagerSystemd, ma_Available = True,
       ma_ServiceDefinition = ex_definition, ma_Foreground = None\<rparr>)),
     mgr_InstallDefinition = (\<lambda>_ w. (w, Done ex_definition)), mgr_Activate = (\<lambda>w. (w, Done ())),
     mgr_Stop = (\<lambda>w. (w, Done ())), mgr_Remove = (\<lambda>w. (w, Done ())), mgr_IsActive = (\<lambda>w. (w, Done True)),
     lc_Inspect = (\<lambda>_ w. (w, Done (ex_build ex_old))),
     lc_stageArtifact = (\<lambda>_ dir name _ _ w. (w, Done (Join [dir, name]))), lc_verifyArtifact = (\<lambda>_ _ _ w. (w, Done ())),
     lc_stageReleaseFile = (\<lambda>_ dir name _ _ w. (w, Done (Join [dir, name]))), lc_verifyReleaseFile = (\<lambda>_ _ _ w. (w, Done ())),
     lc_verifyPreviewRelease = (\<lambda>_ w. (w, Done ())), lc_Initialize = (\<lambda>w. (w, Done ())),
     lc_AttestLockPath = (\<lambda>w. (w, Done ())), lc_renderService = (\<lambda>_ _ _. Some ''[Service]''),
     lc_probeRunning = (\<lambda>_ w. (w, Done (ex_build ex_old))), lc_removeArtifacts = (\<lambda>w. (w, Done ())),
     lc_failAfterPhase = PhaseOther '''', os_acquireLocks = (\<lambda>w. (w, Done ())), os_closeLock = (\<lambda>w. (w, Done ())),
     os_closeBootstrapLock = (\<lambda>w. (w, Done ())), os_PrepareLayout = (\<lambda>w. (w, Done ())),
     os_PrepareVersionDirectory = (\<lambda>_ w. (w, Done ''/home/u/app/versions/1.0.0'')),
     os_random = (\<lambda>w. (w, Done (replicate 16 (CHR ''c'')))), os_read = (\<lambda>w. (w, Done ())),
     os_write = (\<lambda>w. (w, Succeeded)), os_deadline = (\<lambda>w. (w, Done False))\<rparr>"

lemma ex_layout_shape: "layout_shape ex_layout"
  unfolding layout_shape_def by code_simp

lemma ex_releases_valid: "validate_release ex_layout ex_old" "validate_release ex_layout ex_new"
  by code_simp+

lemma ex_definition_ok: "canonicalAbsolutePath ex_definition" "requireStrictDescendant (HomeDir ex_layout) ex_definition"
  by code_simp+

lemma ex_distinct: "ir_ManifestSHA256 ex_new \<noteq> ir_ManifestSHA256 ex_old"
  by code_simp

lemma ex_state_valid: "validate_state ex_layout ex_state"
proof -
  have "ex_definition \<noteq> ''''" by (simp add: ex_definition_def)
  moreover have "ds_StateDir ex_state = StateDir ex_layout" by (simp add: ex_state_def ex_layout_def)
  ultimately show ?thesis
    using ex_releases_valid ex_definition_ok ex_distinct
    by (simp add: validate_state_def validate_opt_def ex_state_def DeploymentStateVersion_def) (simp add: ex_new_def ex_release_def)
qed

lemma ex_journal_ok: "journal_ok ex_layout ex_journal"
  using ex_releases_valid ex_definition_ok ex_state_valid
  by (simp add: journal_ok_def validate_journal_def ex_journal_def rollbackJournal_def switches_back_def ex_state_def
      DeploymentStateVersion_def validate_opt_def allowed_phase_def rollbackOrder_def validate_journal_inputs_def
      validate_journal_manager_def transactionIDPattern_def list_all_iff)
    (simp add: ex_old_def ex_release_def lower_hex_def)

lemma ex_consistent: "consistent ex_layout ex_host"
  using ex_journal_ok ex_state_valid
  by (simp add: consistent_def ex_host_def state_ok_def tx_file_def prior_file_def ex_journal_def rollbackJournal_def)

lemma ex_identity_valid: "ValidateReleaseIdentity (ex_build ex_old) ex_old"
  by code_simp

lemma ex_ready: "equipped ex_lifecycle ex_journal"
proof -
  have "obliging ex_lifecycle" by (auto simp: obliging_def answers_def ex_lifecycle_def)
  moreover have "attests ex_lifecycle ex_old"
    using ex_identity_valid by (simp add: attests_def answers_def ex_lifecycle_def)
  ultimately show ?thesis
    using ex_layout_shape
    by (simp add: equipped_def ex_journal_def rollbackJournal_def stoppable_def ex_state_def) (simp add: ex_lifecycle_def)
qed

lemma ex_lifecycle_layout: "lc_layout ex_lifecycle = ex_layout"
  by (simp add: ex_lifecycle_def)

text \<open>The host before the first deployment, and the deployment there.\<close>

definition empty_host :: "unit host" where
  "empty_host = \<lparr>stateFile = Absent, journalFile = Absent, mem = ex_journal, world = (), calls = []\<rparr>"

lemma empty_consistent: "consistent l empty_host"
  by (simp add: consistent_def empty_host_def state_ok_def)

lemma ex_deployed: "deployed ex_layout ex_host (fst (RollbackRelease ex_lifecycle ex_host))"
  by (rule deployed.step[OF deployed.none operates.rollback[OF ex_lifecycle_layout refl]])

text \<open>The report on the interrupted rollback.\<close>

lemma ex_status: "\<exists>h' r e. LifecycleStatus ex_lifecycle ex_host = (h', Done (r, e))"
proof -
  have o: "obliging ex_lifecycle" using ex_ready by (simp add: equipped_def)
  have v: "validate_journal (lc_layout ex_lifecycle) ex_journal" "state_ok (lc_layout ex_lifecycle) (stateFile ex_host)"
    using ex_journal_ok ex_state_valid by (auto simp: journal_ok_def ex_lifecycle_layout state_ok_def ex_host_def)
  obtain w where w: "LoadJournal ex_lifecycle ex_host = (ex_host\<lparr>world := w\<rparr>, Done ex_journal)"
    using LoadJournal_found[OF o _ v(1), of ex_host] by (auto simp: ex_host_def)
  have "state_ok (lc_layout ex_lifecycle) (stateFile (ex_host\<lparr>world := w\<rparr>))" using v(2) by simp
  from attempt_LoadState[OF o this] obtain w' where
    "attemptD (LoadState ex_lifecycle) (ex_host\<lparr>world := w\<rparr>) = (ex_host\<lparr>world := w'\<rparr>, Done (Inr ex_state))"
    by (auto simp: ex_host_def)
  then show ?thesis using w
    by (simp add: LifecycleStatus_def bindD_def[of "attemptD (LoadJournal ex_lifecycle)"] attemptD_def[of "LoadJournal ex_lifecycle"])
      (simp add: bindD_def Let_def returnD_def)
qed

end
