(* ===== verification/Indent.thy ===== *)
theory Indent
  imports JsonLaws
begin

text \<open>
  \<^verbatim>\<open>json.MarshalIndent\<close> with two spaces, as the configuration, the deployment metadata and the release
  manifest are written, and the decoder they are read with: unknown members are refused and nothing may
  follow the value. \<open>decodeDocument_marshalIndent\<close> is the round trip for every typed value without nil
  slices whose strings are valid UTF-8.
\<close>

section \<open>Indented documents\<close>

definition line_break :: "nat \<Rightarrow> bytes" where
  "line_break depth = CHR 0x0A # replicate (2 * depth) (CHR '' '')"

fun indented :: "nat \<Rightarrow> gval \<Rightarrow> bytes" where
  "indented depth (GPtr (Some v)) = indented depth v"
| "indented depth (GSlice (Some vs)) = (if vs = [] then ''[]''
     else CHR ''['' # comma_sep (map (\<lambda>v. line_break (depth + 1) @ indented (depth + 1) v) vs) @ line_break depth @ [CHR '']''])"
| "indented depth (GStruct fs) = (if fs = [] then ''{}''
     else CHR ''{'' # comma_sep (map (\<lambda>(n, v). line_break (depth + 1) @ quote_string n @ '': '' @ indented (depth + 1) v) fs)
       @ line_break depth @ [CHR ''}''])"
| "indented depth v = marshal v"

definition marshalIndent :: "gval \<Rightarrow> bytes" where
  "marshalIndent v = indented 0 v @ [CHR 0x0A]"

text \<open>A payload is decoded into a fresh variable.\<close>

definition decodeDocument :: "jtype \<Rightarrow> bytes \<Rightarrow> gval option" where
  "decodeDocument t payload = (case parse_json payload of None \<Rightarrow> None | Some j \<Rightarrow> unmarshal True t (zero_value t) j)"

section \<open>Laws\<close>

lemma comma_sep_Cons: "comma_sep (x # xs) = x @ concat (map ((#) (CHR '','')) xs)"
  by (induction xs arbitrary: x) auto

lemma skip_ws_line_break [simp]: "skip_ws (line_break k @ s) = skip_ws s" "skip_ws (CHR '' '' # s) = skip_ws s"
proof -
  have "dropWhile is_ws (replicate n (CHR '' '') @ s) = dropWhile is_ws s" for n
    by (induction n) (auto simp: is_ws_def)
  then show "skip_ws (line_break k @ s) = skip_ws s" by (simp add: skip_ws_def line_break_def is_ws_def)
  show "skip_ws (CHR '' '' # s) = skip_ws s" by (simp add: skip_ws_def is_ws_def)
qed

lemma parse_value_ws: "parse_value n (line_break k @ s) = parse_value n s" "parse_value n (CHR '' '' # s) = parse_value n s"
  by (cases n; simp)+

lemma ends_value_line_break [simp]: "ends_value (line_break k @ r)"
  by (simp add: line_break_def)

lemma indented_head:
  obtains c cs where "indented k v = c # cs" "\<not> is_ws c" "c \<noteq> CHR '']''" "c \<noteq> CHR ''}''"
proof (induction k v rule: indented.induct, goal_cases)
  case (2 depth vs)
  then show ?case by (cases "vs = []") auto
next
  case (3 depth fs)
  then show ?case by (cases "fs = []") auto
next
  case (4 depth s)
  then show ?case using marshal_head[of "GString s"] by (metis indented.simps(4))
next
  case (5 depth b)
  then show ?case using marshal_head[of "GBool b"] by (metis indented.simps(5))
next
  case (6 depth i)
  then show ?case using marshal_head[of "GInt i"] by (metis indented.simps(6))
qed (auto split: if_splits)

definition indent_rt :: "nat \<Rightarrow> gval \<Rightarrow> bool" where
  "indent_rt k v \<longleftrightarrow> (\<forall>n r. 2 * length (indented k v) + 1 \<le> n \<longrightarrow> ends_value r \<longrightarrow>
     parse_value n (indented k v @ r) = Some (json_of v, r))"

lemma indent_rtD:
  "indent_rt k v \<Longrightarrow> 2 * length (indented k v) + 1 \<le> n \<Longrightarrow> ends_value r \<Longrightarrow> parse_value n (indented k v @ r) = Some (json_of v, r)"
  by (simp add: indent_rt_def)

lemma indent_rt_plain: "indented k v = marshal v \<Longrightarrow> text_ok v \<Longrightarrow> indent_rt k v"
  using value_rt_marshal[of v] by (simp add: indent_rt_def value_rt_def)

lemma ends_value_separators: "ends_value (concat (map ((#) (CHR '','')) xs) @ line_break k @ r)"
  by (cases xs) auto

lemma parse_elements_indented:
  assumes "\<And>w. w \<in> set (v # vs) \<Longrightarrow> indent_rt k w"
    "2 * length (comma_sep (map (\<lambda>w. line_break k @ indented k w) (v # vs))) + 2 \<le> n"
  shows "parse_elements n (indented k v @ concat (map ((#) (CHR '','')) (map (\<lambda>w. line_break k @ indented k w) vs)) @
    line_break d @ CHR '']'' # r) = Some (map json_of (v # vs), r)"
  using assms
proof (induction vs arbitrary: v n)
  case Nil
  obtain m where n: "n = Suc m" using Nil.prems(2) by (cases n) auto
  have "parse_value m (indented k v @ line_break d @ CHR '']'' # r) = Some (json_of v, line_break d @ CHR '']'' # r)"
    using Nil.prems n by (auto simp: indent_rt_def)
  then show ?case by (simp add: n)
next
  case (Cons w ws)
  obtain m where n: "n = Suc m" using Cons.prems(2) by (cases n) auto
  let ?rest = "concat (map ((#) (CHR '','')) (map (\<lambda>w. line_break k @ indented k w) ws)) @ line_break d @ CHR '']'' # r"
  have v: "parse_value m (indented k v @ CHR '','' # line_break k @ indented k w @ ?rest) =
      Some (json_of v, CHR '','' # line_break k @ indented k w @ ?rest)"
    using Cons.prems n by (auto simp: indent_rt_def comma_sep_Cons)
  have w: "skip_ws (indented k w @ ?rest) = indented k w @ ?rest" using indented_head[of k w] by (metis append_Cons skip_ws_id)
  have "parse_elements m (indented k w @ ?rest) = Some (map json_of (w # ws), r)"
    using Cons.prems n by (intro Cons.IH) (auto simp: comma_sep_Cons)
  then show ?case using v w by (simp add: n)
qed

abbreviation member_text :: "nat \<Rightarrow> bytes \<times> gval \<Rightarrow> bytes" where
  "member_text k \<equiv> \<lambda>(m, w). line_break k @ quote_string m @ '': '' @ indented k w"

lemma parse_members_step:
  assumes "utf8_Valid l" "parse_value m s = Some (j, t)"
  shows "skip_ws t = CHR '','' # u \<Longrightarrow> parse_members (Suc m) (quote_string l @ '': '' @ s) =
      map_option (apfst ((#) (l, j))) (parse_members m (skip_ws u))"
    "skip_ws t = CHR ''}'' # u \<Longrightarrow> parse_members (Suc m) (quote_string l @ '': '' @ s) = Some ([(l, j)], u)"
  using assms by (simp_all add: quote_string_def parse_escape_string parse_value_ws)

lemma parse_members_indented:
  assumes "\<And>m w. (m, w) \<in> set ((l, v) # fs) \<Longrightarrow> indent_rt k w \<and> utf8_Valid m"
    "2 * length (comma_sep (map (member_text k) ((l, v) # fs))) + 1 \<le> n"
  shows "parse_members n (quote_string l @ '': '' @ indented k v @ concat (map ((#) (CHR '','')) (map (member_text k) fs)) @
    line_break d @ CHR ''}'' # r) = Some (map (\<lambda>(m, w). (m, json_of w)) ((l, v) # fs), r)"
  using assms
proof (induction fs arbitrary: l v n)
  case Nil
  obtain m where n: "n = Suc m" using Nil.prems(2) by (cases n) auto
  have "parse_value m (indented k v @ line_break d @ CHR ''}'' # r) = Some (json_of v, line_break d @ CHR ''}'' # r)"
    using Nil.prems n by (auto simp: indent_rt_def)
  from parse_members_step(2)[OF _ this] show ?case using Nil.prems(1) by (simp add: n del: parse_members.simps)
next
  case (Cons f fs)
  obtain l' w where f: "f = (l', w)" by (cases f)
  obtain m where n: "n = Suc m" using Cons.prems(2) by (cases n) auto
  let ?rest = "concat (map ((#) (CHR '','')) (map (member_text k) fs)) @ line_break d @ CHR ''}'' # r"
  have v: "parse_value m (indented k v @ CHR '','' # line_break k @ quote_string l' @ '': '' @ indented k w @ ?rest) =
      Some (json_of v, CHR '','' # line_break k @ quote_string l' @ '': '' @ indented k w @ ?rest)"
    by (rule indent_rtD) (use Cons.prems n f in \<open>auto simp: comma_sep_Cons\<close>)
  have w: "skip_ws (quote_string l' @ s) = quote_string l' @ s" for s by (simp add: quote_string_def)
  have "parse_members m (quote_string l' @ '': '' @ indented k w @ ?rest) = Some (map (\<lambda>(m, w). (m, json_of w)) ((l', w) # fs), r)"
    using Cons.prems n f by (intro Cons.IH) (auto simp: comma_sep_Cons)
  moreover have "parse_members (Suc m) (quote_string l @ '': '' @ indented k v @ CHR '','' # line_break k @ quote_string l' @ '': '' @
      indented k w @ ?rest) = map_option (apfst ((#) (l, json_of v)))
        (parse_members m (skip_ws (line_break k @ quote_string l' @ '': '' @ indented k w @ ?rest)))"
    by (rule parse_members_step(1)[OF _ v]) (use Cons.prems(1) in auto)
  ultimately show ?case using w by (simp add: n f del: parse_members.simps)
qed

lemma indent_rt_text: "text_ok v \<Longrightarrow> indent_rt k v"
proof (induction k v rule: indented.induct)
  case (1 depth v)
  then show ?case by (simp add: indent_rt_def)
next
  case (2 depth vs)
  show ?case unfolding indent_rt_def
  proof (intro allI impI)
    fix n r assume n: "2 * length (indented depth (GSlice (Some vs))) + 1 \<le> n"
    then obtain m where m: "n = Suc m" by (cases n) auto
    show "parse_value n (indented depth (GSlice (Some vs)) @ r) = Some (json_of (GSlice (Some vs)), r)"
    proof (cases vs)
      case (Cons w ws)
      obtain c cs where c: "indented (depth + 1) w = c # cs" "\<not> is_ws c" "c \<noteq> CHR '']''" by (rule indented_head)
      have "parse_elements m (indented (depth + 1) w @ concat (map ((#) (CHR '','')) (map (\<lambda>w. line_break (depth + 1) @ indented (depth + 1) w) ws)) @
        line_break depth @ CHR '']'' # r) = Some (map json_of (w # ws), r)"
        using 2 n m Cons by (intro parse_elements_indented) (auto simp: list_all_iff)
      then show ?thesis using c by (simp add: m Cons comma_sep_Cons)
    qed (simp add: m)
  qed
next
  case (3 depth fs)
  have fs: "indent_rt (depth + 1) w \<and> utf8_Valid m" if "(m, w) \<in> set fs" for m w
    using 3 that by (force simp: list_all_iff)
  show ?case unfolding indent_rt_def
  proof (intro allI impI)
    fix n r assume n: "2 * length (indented depth (GStruct fs)) + 1 \<le> n"
    then obtain m where m: "n = Suc m" by (cases n) auto
    show "parse_value n (indented depth (GStruct fs) @ r) = Some (json_of (GStruct fs), r)"
    proof (cases fs)
      case (Cons f gs)
      obtain l w where f: "f = (l, w)" by (cases f)
      have "parse_members m (quote_string l @ '': '' @ indented (depth + 1) w @ concat (map ((#) (CHR '','')) (map (member_text (depth + 1)) gs)) @
        line_break depth @ CHR ''}'' # r) = Some (map (\<lambda>(m, w). (m, json_of w)) ((l, w) # gs), r)"
        using fs n m Cons f by (intro parse_members_indented) auto
      then show ?thesis by (simp add: m f Cons comma_sep_Cons quote_string_def)
    qed (simp add: m)
  qed
qed (rule indent_rt_plain; simp)+

theorem parse_json_marshalIndent:
  assumes "text_ok v"
  shows "parse_json (marshalIndent v) = Some (json_of v)"
  using indent_rt_text[OF assms, of 0]
  by (simp add: indent_rt_def parse_json_def marshalIndent_def skip_ws_def is_ws_def del: parse_value.simps)

theorem decodeDocument_marshalIndent:
  assumes "has_type t v" "type_ok t" "text_ok v"
  shows "decodeDocument t (marshalIndent v) = Some v"
  using unmarshal_json_of[OF assms(1,2)] by (simp add: decodeDocument_def parse_json_marshalIndent[OF assms(3)])

theorem decodeDocument_marshal:
  assumes "has_type t v" "type_ok t" "text_ok v"
  shows "decodeDocument t (marshal v @ [CHR 0x0A]) = Some v"
proof -
  have "parse_value (2 * length (marshal v @ [CHR 0x0A]) + 2) (marshal v @ [CHR 0x0A]) = Some (json_of v, [CHR 0x0A])"
    by (rule value_rtD[OF value_rt_marshal[OF assms(3)]]) auto
  then have "parse_json (marshal v @ [CHR 0x0A]) = Some (json_of v)"
    by (simp add: parse_json_def skip_ws_def is_ws_def del: parse_value.simps)
  then show ?thesis using unmarshal_json_of[OF assms(1,2)] by (simp add: decodeDocument_def)
qed

end
