(* ===== verification/Manifest.thy ===== *)
theory Manifest
  imports Deployment Messages Indent
begin

text \<open>
  The release manifest (\<^verbatim>\<open>deployment/manifest.go\<close>, \<^verbatim>\<open>InstalledFromManifest\<close> of \<^verbatim>\<open>deployment/state.go\<close>): its
  validation, the canonical bytes, the parser that admits a payload only under its pinned digest, and the
  installed release that a manifest promises for a target.

  Of \<^verbatim>\<open>net/url\<close> and \<^verbatim>\<open>strings\<close> the code uses the parser, the printer and the case mapping as they are; they are
  the record \<open>url_library\<close>, of which nothing is assumed. A \<open>url_ref\<close> holds the fields and the methods of a
  parsed URL that the code reads. The manifest is read and written as an indented document (\<open>Indent\<close>).
\<close>

section \<open>URLs\<close>

record url_ref =
  u_Scheme :: bytes
  u_Host :: bytes
  u_User :: bool
  u_RawQuery :: bytes
  u_Fragment :: bytes
  u_Opaque :: bytes
  u_Path :: bytes
  u_RawPath :: bytes
  u_EscapedPath :: bytes
  u_Hostname :: bytes
  u_Port :: bytes

record url_library =
  url_Parse :: "bytes \<Rightarrow> url_ref option"
  url_String :: "bytes \<Rightarrow> bytes \<Rightarrow> bytes \<Rightarrow> bytes"
  strings_ToLower :: "bytes \<Rightarrow> bytes"

definition urlSegmentPattern :: "bytes \<Rightarrow> bool" where
  "urlSegmentPattern s = (case s of [] \<Rightarrow> False
     | c # cs \<Rightarrow> (lower_alnum c \<or> byte_in 65 90 c) \<and>
         list_all (\<lambda>d. lower_alnum d \<or> byte_in 65 90 d \<or> d = CHR ''.'' \<or> d = CHR ''_'' \<or> d = CHR ''-'') cs)"

definition splitCanonicalURLPath :: "bytes \<Rightarrow> bytes list" where
  "splitCanonicalURLPath value = (if value = '''' then []
     else split_on (CHR ''/'') (if take 1 value = ''/'' then drop 1 value else value))"

definition safe_segments :: "bytes list \<Rightarrow> bool" where
  "safe_segments segments = list_all (\<lambda>s. urlSegmentPattern s \<and> s \<noteq> ''.'' \<and> s \<noteq> ''..'') segments"

definition parseDownloadOrigin :: "url_library \<Rightarrow> bytes \<Rightarrow> url_ref option" where
  "parseDownloadOrigin U value = (case url_Parse U value of None \<Rightarrow> None | Some origin \<Rightarrow>
     if length value > 512 \<or> u_Scheme origin \<noteq> ''https'' \<or> u_Host origin = '''' \<or> u_User origin \<or>
        u_RawPath origin \<noteq> '''' \<or> u_RawQuery origin \<noteq> '''' \<or> u_Fragment origin \<noteq> '''' \<or> u_Opaque origin \<noteq> '''' \<or>
        u_EscapedPath origin \<noteq> u_Path origin \<or> length (u_Path origin) > 256 then None
     else if u_Hostname origin = '''' \<or> u_Port origin \<noteq> '''' \<or> CHR ''@'' \<in> set (u_Host origin) then None
     else if strings_ToLower U (u_Host origin) \<noteq> u_Host origin then None
     else if u_Path origin \<noteq> '''' \<and> (u_Path origin = ''/'' \<or> last (u_Path origin) = CHR ''/'' \<or>
        Clean (u_Path origin) \<noteq> u_Path origin) then None
     else if \<not> safe_segments (splitCanonicalURLPath (u_Path origin)) then None
     else Some origin)"

definition parseReleaseURL :: "url_library \<Rightarrow> bytes \<Rightarrow> url_ref \<Rightarrow> bytes \<Rightarrow> url_ref option" where
  "parseReleaseURL U value origin release = (case url_Parse U value of None \<Rightarrow> None | Some parsed \<Rightarrow>
     if u_Scheme parsed \<noteq> u_Scheme origin \<or> u_Host parsed \<noteq> u_Host origin \<or> u_User parsed \<or>
        u_RawQuery parsed \<noteq> '''' \<or> u_Fragment parsed \<noteq> '''' \<or> u_Opaque parsed \<noteq> '''' \<or> u_Path parsed = '''' \<or>
        u_RawPath parsed \<noteq> '''' \<or> Clean (u_Path parsed) \<noteq> u_Path parsed \<or>
        u_EscapedPath parsed \<noteq> u_Path parsed then None
     else let originSegments = splitCanonicalURLPath (u_Path origin);
              segments = splitCanonicalURLPath (u_Path parsed)
       in if length segments \<noteq> length originSegments + 3 \<or>
             take (length originSegments) segments \<noteq> originSegments \<or>
             segments ! length originSegments \<noteq> ''releases'' \<or>
             segments ! (length originSegments + 1) \<noteq> release then None
          else if \<not> safe_segments segments then None
          else Some parsed)"

section \<open>Manifests\<close>

record ReleaseArtifact =
  ra_OS :: bytes
  ra_Architecture :: bytes
  ra_BuildIdentity :: bytes
  ra_URL :: bytes
  ra_Bytes :: int
  ra_SHA256 :: bytes

record ReleaseFile =
  rf_Name :: bytes
  rf_URL :: bytes
  rf_Bytes :: int
  rf_SHA256 :: bytes

record ReleaseManifest =
  rm_ManifestVersion :: int
  rm_Release :: bytes
  rm_SourceRevision :: bytes
  rm_BuildToolchain :: bytes
  rm_ProtocolVersion :: bytes
  rm_StorageSchema :: bytes
  rm_DownloadOrigin :: bytes
  rm_Artifacts :: "ReleaseArtifact list"
  rm_ReleaseFiles :: "ReleaseFile list"

definition ManifestVersion :: int where
  "ManifestVersion = 1"

definition maxManifestBytes :: nat where
  "maxManifestBytes = 64 * 1024"

definition artifact_ok :: "url_library \<Rightarrow> url_ref \<Rightarrow> ReleaseManifest \<Rightarrow> target \<Rightarrow> ReleaseArtifact \<Rightarrow> bool" where
  "artifact_ok U origin m t a \<longleftrightarrow>
     ra_OS a = target_OS t \<and> ra_Architecture a = target_Architecture t \<and>
     \<not> (ra_Bytes a \<le> 0 \<or> ra_Bytes a > maxArtifactBytes) \<and> hexDigestPattern (ra_BuildIdentity a) \<and>
     DeriveBuildIdentity (rm_Release m) (rm_SourceRevision m) (rm_BuildToolchain m) t = Some (ra_BuildIdentity a) \<and>
     hexDigestPattern (ra_SHA256 a) \<and>
     (case parseReleaseURL U (ra_URL a) origin (rm_Release m) of None \<Rightarrow> False
      | Some url \<Rightarrow> Base (u_Path url) = ''sshserver-'' @ ra_OS a @ ''-'' @ ra_Architecture a)"

definition release_file_ok :: "url_library \<Rightarrow> url_ref \<Rightarrow> ReleaseManifest \<Rightarrow> ReleaseFile \<Rightarrow> bool" where
  "release_file_ok U origin m f \<longleftrightarrow>
     \<not> (rf_Bytes f \<le> 0 \<or> rf_Bytes f > maxReleaseFileBytes) \<and> hexDigestPattern (rf_SHA256 f) \<and>
     (case parseReleaseURL U (rf_URL f) origin (rm_Release m) of None \<Rightarrow> False
      | Some url \<Rightarrow> Base (u_Path url) = rf_Name f)"

definition validate_manifest :: "url_library \<Rightarrow> ReleaseManifest \<Rightarrow> bool" where
  "validate_manifest U m \<longleftrightarrow>
     rm_ManifestVersion m = ManifestVersion \<and> Valid (rm_Release m) \<and> sourceRevisionPattern (rm_SourceRevision m) \<and>
     toolchainPattern (rm_BuildToolchain m) \<and> rm_ProtocolVersion m = ''1'' \<and> rm_StorageSchema m = ''1'' \<and>
     (case parseDownloadOrigin U (rm_DownloadOrigin m) of None \<Rightarrow> False
      | Some origin \<Rightarrow>
          length (rm_Artifacts m) = length supportedTargets \<and>
          list_all (\<lambda>(t, a). artifact_ok U origin m t a) (zip supportedTargets (rm_Artifacts m)) \<and>
          map rf_Name (rm_ReleaseFiles m) = [''LICENSE'', ''NOTICE''] \<and>
          list_all (release_file_ok U origin m) (rm_ReleaseFiles m))"

section \<open>Canonical bytes\<close>

definition T_ReleaseArtifact :: jtype where
  "T_ReleaseArtifact = TStruct [(''os'', TString), (''architecture'', TString), (''build_identity'', TString),
     (''url'', TString), (''bytes'', TInt), (''sha256'', TString)]"

definition T_ReleaseFile :: jtype where
  "T_ReleaseFile = TStruct [(''name'', TString), (''url'', TString), (''bytes'', TInt), (''sha256'', TString)]"

definition T_ReleaseManifest :: jtype where
  "T_ReleaseManifest = TStruct [(''manifest_version'', TInt), (''release'', TString), (''source_revision'', TString),
     (''build_toolchain'', TString), (''protocol_version'', TString), (''storage_schema'', TString),
     (''download_origin'', TString), (''artifacts'', TSlice T_ReleaseArtifact), (''release_files'', TSlice T_ReleaseFile)]"

definition to_ReleaseArtifact :: "ReleaseArtifact \<Rightarrow> gval" where
  "to_ReleaseArtifact a = GStruct [(''os'', GString (ra_OS a)), (''architecture'', GString (ra_Architecture a)),
     (''build_identity'', GString (ra_BuildIdentity a)), (''url'', GString (ra_URL a)), (''bytes'', GInt (ra_Bytes a)),
     (''sha256'', GString (ra_SHA256 a))]"

definition to_ReleaseFile :: "ReleaseFile \<Rightarrow> gval" where
  "to_ReleaseFile f = GStruct [(''name'', GString (rf_Name f)), (''url'', GString (rf_URL f)),
     (''bytes'', GInt (rf_Bytes f)), (''sha256'', GString (rf_SHA256 f))]"

definition to_ReleaseManifest :: "ReleaseManifest \<Rightarrow> gval" where
  "to_ReleaseManifest m = GStruct [(''manifest_version'', GInt (rm_ManifestVersion m)), (''release'', GString (rm_Release m)),
     (''source_revision'', GString (rm_SourceRevision m)), (''build_toolchain'', GString (rm_BuildToolchain m)),
     (''protocol_version'', GString (rm_ProtocolVersion m)), (''storage_schema'', GString (rm_StorageSchema m)),
     (''download_origin'', GString (rm_DownloadOrigin m)),
     (''artifacts'', GSlice (Some (map to_ReleaseArtifact (rm_Artifacts m)))),
     (''release_files'', GSlice (Some (map to_ReleaseFile (rm_ReleaseFiles m))))]"

definition of_ReleaseArtifact :: "gval \<Rightarrow> ReleaseArtifact" where
  "of_ReleaseArtifact v = \<lparr>ra_OS = g_string (g_field ''os'' v), ra_Architecture = g_string (g_field ''architecture'' v),
     ra_BuildIdentity = g_string (g_field ''build_identity'' v), ra_URL = g_string (g_field ''url'' v),
     ra_Bytes = g_int (g_field ''bytes'' v), ra_SHA256 = g_string (g_field ''sha256'' v)\<rparr>"

definition of_ReleaseFile :: "gval \<Rightarrow> ReleaseFile" where
  "of_ReleaseFile v = \<lparr>rf_Name = g_string (g_field ''name'' v), rf_URL = g_string (g_field ''url'' v),
     rf_Bytes = g_int (g_field ''bytes'' v), rf_SHA256 = g_string (g_field ''sha256'' v)\<rparr>"

definition of_ReleaseManifest :: "gval \<Rightarrow> ReleaseManifest" where
  "of_ReleaseManifest v = \<lparr>rm_ManifestVersion = g_int (g_field ''manifest_version'' v),
     rm_Release = g_string (g_field ''release'' v), rm_SourceRevision = g_string (g_field ''source_revision'' v),
     rm_BuildToolchain = g_string (g_field ''build_toolchain'' v), rm_ProtocolVersion = g_string (g_field ''protocol_version'' v),
     rm_StorageSchema = g_string (g_field ''storage_schema'' v), rm_DownloadOrigin = g_string (g_field ''download_origin'' v),
     rm_Artifacts = g_slice of_ReleaseArtifact (g_field ''artifacts'' v),
     rm_ReleaseFiles = g_slice of_ReleaseFile (g_field ''release_files'' v)\<rparr>"

definition manifestCanonicalBytes :: "url_library \<Rightarrow> ReleaseManifest \<Rightarrow> bytes option" where
  "manifestCanonicalBytes U m = (if \<not> validate_manifest U m then None else Some (marshalIndent (to_ReleaseManifest m)))"

text \<open>Comparing digests as bytes is comparing them in hexadecimal.\<close>

definition ParsePinnedManifest :: "url_library \<Rightarrow> bytes \<Rightarrow> bytes \<Rightarrow> ReleaseManifest option" where
  "ParsePinnedManifest U payload expectedSHA256 =
     (if payload = [] \<or> length payload > maxManifestBytes then None
      else if \<not> hexDigestPattern expectedSHA256 then None
      else if SHA256Hex payload \<noteq> expectedSHA256 then None
      else case decodeDocument T_ReleaseManifest payload of None \<Rightarrow> None
        | Some v \<Rightarrow> (case manifestCanonicalBytes U (of_ReleaseManifest v) of None \<Rightarrow> None
          | Some canonical \<Rightarrow> if payload \<noteq> canonical then None else Some (of_ReleaseManifest v)))"

section \<open>The release of a target\<close>

definition manifestArtifact :: "url_library \<Rightarrow> ReleaseManifest \<Rightarrow> target \<Rightarrow> ReleaseArtifact option" where
  "manifestArtifact U m t = (if \<not> validate_manifest U m then None
     else find (\<lambda>a. ra_OS a = target_OS t \<and> ra_Architecture a = target_Architecture t) (rm_Artifacts m))"

definition InstalledFromManifest :: "url_library \<Rightarrow> Layout \<Rightarrow> ReleaseManifest \<Rightarrow> bytes \<Rightarrow> target \<Rightarrow> InstalledRelease option" where
  "InstalledFromManifest U layout m manifestSHA256 t =
     (if \<not> validate_manifest U m \<or> \<not> hexDigestPattern manifestSHA256 then None
      else case manifestArtifact U m t of None \<Rightarrow> None
        | Some artifact \<Rightarrow> (case BinaryPath layout (rm_Release m) t of None \<Rightarrow> None
          | Some binaryPath \<Rightarrow> (case rm_ReleaseFiles m of
              license # notice # _ \<Rightarrow>
                let release = \<lparr>ir_Release = rm_Release m, ir_SourceRevision = rm_SourceRevision m,
                  ir_BuildToolchain = rm_BuildToolchain m, ir_BuildIdentity = ra_BuildIdentity artifact,
                  ir_ManifestSHA256 = manifestSHA256, ir_ProtocolVersion = rm_ProtocolVersion m,
                  ir_StorageSchema = rm_StorageSchema m, ir_OS = target_OS t, ir_Architecture = target_Architecture t,
                  ir_BinaryPath = binaryPath, ir_BinaryBytes = ra_Bytes artifact, ir_BinarySHA256 = ra_SHA256 artifact,
                  ir_LicenseBytes = rf_Bytes license, ir_LicenseSHA256 = rf_SHA256 license,
                  ir_NoticeBytes = rf_Bytes notice, ir_NoticeSHA256 = rf_SHA256 notice\<rparr>
                in if validate_release layout release then Some release else None
            | _ \<Rightarrow> None)))"

section \<open>Laws\<close>

lemma validate_manifestD:
  assumes "validate_manifest U m"
  obtains origin license notice where "parseDownloadOrigin U (rm_DownloadOrigin m) = Some origin"
    "list_all2 (artifact_ok U origin m) supportedTargets (rm_Artifacts m)"
    "rm_ReleaseFiles m = [license, notice]" "rf_Name license = ''LICENSE''" "rf_Name notice = ''NOTICE''"
    "release_file_ok U origin m license" "release_file_ok U origin m notice"
proof -
  obtain origin where o: "parseDownloadOrigin U (rm_DownloadOrigin m) = Some origin"
    "length (rm_Artifacts m) = length supportedTargets"
    "list_all (\<lambda>(t, a). artifact_ok U origin m t a) (zip supportedTargets (rm_Artifacts m))"
    "map rf_Name (rm_ReleaseFiles m) = [''LICENSE'', ''NOTICE'']" "list_all (release_file_ok U origin m) (rm_ReleaseFiles m)"
    using assms by (auto simp: validate_manifest_def split: option.splits)
  moreover obtain license notice where f: "rm_ReleaseFiles m = [license, notice]" "rf_Name license = ''LICENSE''" "rf_Name notice = ''NOTICE''"
    using o(4) by (auto simp: map_eq_Cons_conv)
  moreover have "list_all2 (artifact_ok U origin m) supportedTargets (rm_Artifacts m)"
    using o(2,3) by (simp add: list_all2_iff list_all_iff)
  ultimately show thesis using that o f by simp
qed

lemma manifestArtifact_ok:
  assumes v: "validate_manifest U m" and t: "isSupportedTarget t"
  shows "\<exists>a origin. manifestArtifact U m t = Some a \<and> artifact_ok U origin m t a"
proof -
  obtain origin where l: "list_all2 (artifact_ok U origin m) supportedTargets (rm_Artifacts m)"
    using v by (rule validate_manifestD)
  obtain i where i: "i < length supportedTargets" "supportedTargets ! i = t"
    using t by (auto simp: isSupportedTarget_def list_ex_iff in_set_conv_nth)
  have ok: "artifact_ok U origin m t (rm_Artifacts m ! i)" "i < length (rm_Artifacts m)"
    using l i by (auto simp: list_all2_conv_all_nth)
  have "\<exists>a. find (\<lambda>a. ra_OS a = target_OS t \<and> ra_Architecture a = target_Architecture t) (rm_Artifacts m) = Some a"
    using ok by (cases "find (\<lambda>a. ra_OS a = target_OS t \<and> ra_Architecture a = target_Architecture t) (rm_Artifacts m)")
      (auto simp: find_None_iff artifact_ok_def)
  then obtain a where a: "find (\<lambda>a. ra_OS a = target_OS t \<and> ra_Architecture a = target_Architecture t) (rm_Artifacts m) = Some a" by blast
  then obtain k where k: "k < length (rm_Artifacts m)" "rm_Artifacts m ! k = a" "ra_OS a = target_OS t" "ra_Architecture a = target_Architecture t"
    by (auto simp: find_Some_iff)
  have "artifact_ok U origin m (supportedTargets ! k) a" using l k by (auto simp: list_all2_conv_all_nth)
  moreover from this have "supportedTargets ! k = t" using k(3,4) by (auto simp: artifact_ok_def intro!: target.equality)
  ultimately show ?thesis using a v by (auto simp: manifestArtifact_def)
qed

lemma BinaryPath_exists: "Valid r \<Longrightarrow> isSupportedTarget t \<Longrightarrow> \<exists>p. BinaryPath l r t = Some p"
  by (simp add: BinaryPath_def VersionDir_def)

text \<open>A valid manifest promises a valid release for every supported target.\<close>

lemma InstalledFromManifest_valid:
  assumes v: "validate_manifest U m" and t: "isSupportedTarget t" and d: "hexDigestPattern digest" and l: "layout_shape l"
  shows "\<exists>r. InstalledFromManifest U l m digest t = Some r \<and> validate_release l r \<and> ir_Release r = rm_Release m \<and>
    ir_ManifestSHA256 r = digest \<and> ir_OS r = target_OS t \<and> ir_Architecture r = target_Architecture t"
proof -
  obtain origin license notice where f: "rm_ReleaseFiles m = [license, notice]"
    "release_file_ok U origin m license" "release_file_ok U origin m notice"
    using v by (rule validate_manifestD)
  obtain a origin' where a: "manifestArtifact U m t = Some a" "artifact_ok U origin' m t a" using manifestArtifact_ok[OF v t] by blast
  have m: "Valid (rm_Release m)" "sourceRevisionPattern (rm_SourceRevision m)" "toolchainPattern (rm_BuildToolchain m)"
    "rm_ProtocolVersion m = ''1''" "rm_StorageSchema m = ''1''"
    using v by (auto simp: validate_manifest_def)
  obtain p where p: "BinaryPath l (rm_Release m) t = Some p" using BinaryPath_exists[OF m(1) t] by blast
  have c: "canonicalAbsolutePath p" by (rule BinaryPath_canonical[OF l p])
  have eta: "\<lparr>target_OS = target_OS t, target_Architecture = target_Architecture t\<rparr> = t" by simp
  show ?thesis
    using v d a p c m f
    by (simp add: InstalledFromManifest_def Let_def) (simp add: validate_release_def artifact_ok_def release_file_ok_def canonicalAbsolutePath_def eta)
qed

lemma ParsePinnedManifest_pinned:
  assumes "ParsePinnedManifest U payload digest = Some m"
  shows "SHA256Hex payload = digest \<and> validate_manifest U m \<and> payload = marshalIndent (to_ReleaseManifest m)"
  using assms by (auto simp: ParsePinnedManifest_def manifestCanonicalBytes_def split: if_splits option.splits)

end
