(* ===== verification/Config.thy ===== *)
theory Config
  imports Paths Effects Indent Messages
begin

text \<open>
  The non-secret configuration of an instance (\<^verbatim>\<open>config/config.go\<close>): the paths of a state directory, the
  loopback listeners and their canonical form, the settings and the install marker with their JSON
  documents, and what loading a file of the directory answers.

  Of \<^verbatim>\<open>net\<close> and \<^verbatim>\<open>strconv\<close> the theory defines what the code calls: \<open>SplitHostPort\<close>, \<open>ParseIP\<close> (an address is its
  sixteen bytes as eight groups, an IPv4 address is the mapped one), \<open>IsLoopback\<close>, \<open>JoinHostPort\<close>, \<open>Atoi\<close>.
  \<open>IP_String\<close> is only called on a loopback address, which is an IPv4 address or \<^verbatim>\<open>::1\<close>.

  A protected file is \<open>Absent\<close>, \<open>Stored\<close> with its bytes, or \<open>Damaged\<close>: not a regular file that only its owner
  may use, or not readable.
\<close>

section \<open>The state directory\<close>

record config_paths =
  cp_StateDir :: bytes
  cp_Config :: bytes
  cp_Database :: bytes
  cp_InstanceSecret :: bytes
  cp_InstallMarker :: bytes
  cp_AdminSocket :: bytes

definition ForStateDir :: "bytes \<Rightarrow> config_paths" where
  "ForStateDir stateDir = \<lparr>cp_StateDir = stateDir, cp_Config = Join [stateDir, ''config.json''],
     cp_Database = Join [stateDir, ''server.db''], cp_InstanceSecret = Join [stateDir, ''instance-secret''],
     cp_InstallMarker = Join [stateDir, ''install-state.json''], cp_AdminSocket = Join [stateDir, ''.enrollment.sock'']\<rparr>"

section \<open>Listeners\<close>

definition last_index :: "char \<Rightarrow> bytes \<Rightarrow> nat option" where
  "last_index c s = (if c \<in> set s then Some (length s - 1 - length (takeWhile (\<lambda>d. d \<noteq> c) (rev s))) else None)"

definition index_of :: "char \<Rightarrow> bytes \<Rightarrow> nat option" where
  "index_of c s = (if c \<in> set s then Some (length (takeWhile (\<lambda>d. d \<noteq> c) s)) else None)"

definition SplitHostPort :: "bytes \<Rightarrow> (bytes \<times> bytes) option" where
  "SplitHostPort hostport = (case last_index (CHR '':'') hostport of None \<Rightarrow> None
     | Some i \<Rightarrow>
        if take 1 hostport = ''['' then
          (case index_of (CHR '']'') hostport of None \<Rightarrow> None
           | Some e \<Rightarrow> if e + 1 \<noteq> i then None
               else if CHR ''['' \<in> set (drop 1 hostport) \<or> CHR '']'' \<in> set (drop (e + 1) hostport) then None
               else Some (drop 1 (take e hostport), drop (i + 1) hostport))
        else if CHR '':'' \<in> set (take i hostport) then None
        else if CHR ''['' \<in> set hostport \<or> CHR '']'' \<in> set hostport then None
        else Some (take i hostport, drop (i + 1) hostport))"

definition JoinHostPort :: "bytes \<Rightarrow> bytes \<Rightarrow> bytes" where
  "JoinHostPort host port = (if CHR '':'' \<in> set host then ''['' @ host @ '']:'' @ port else host @ '':'' @ port)"

definition ipv4_field :: "bytes \<Rightarrow> nat option" where
  "ipv4_field s = (if s = '''' \<or> \<not> list_all is_digit s \<or> (length s > 1 \<and> hd s = CHR ''0'') \<or> dec_acc 0 s > 255 then None
     else Some (dec_acc 0 s))"

definition parse_ipv4 :: "bytes \<Rightarrow> (nat \<times> nat \<times> nat \<times> nat) option" where
  "parse_ipv4 s = (case map ipv4_field (split_on (CHR ''.'') s) of
     [Some a, Some b, Some c, Some d] \<Rightarrow> Some (a, b, c, d) | _ \<Rightarrow> None)"

text \<open>The groups of an IPv6 address before and after the ellipsis. At most eight groups are read.\<close>

definition hex_prefix :: "bytes \<Rightarrow> bytes" where
  "hex_prefix s = takeWhile (\<lambda>c. hex_val c \<noteq> None) s"

definition hex_value :: "bytes \<Rightarrow> nat" where
  "hex_value s = foldl (\<lambda>acc c. acc * 16 + (case hex_val c of Some d \<Rightarrow> d | None \<Rightarrow> 0)) 0 s"

fun ipv6_loop :: "nat \<Rightarrow> nat list \<Rightarrow> nat option \<Rightarrow> bytes \<Rightarrow> (nat list \<times> nat option) option" where
  "ipv6_loop 0 groups ellipsis s = (if s = '''' then Some (groups, ellipsis) else None)"
| "ipv6_loop (Suc n) groups ellipsis s =
     (let digits = hex_prefix s; rest = drop (length digits) s
      in if digits = '''' \<or> length digits > 4 then None
         else if take 1 rest = ''.'' then
           (if (ellipsis = None \<and> length groups \<noteq> 6) \<or> length groups + 2 > 8 then None
            else case parse_ipv4 s of
              Some (a, b, c, d) \<Rightarrow> Some (groups @ [a * 256 + b, c * 256 + d], ellipsis)
            | _ \<Rightarrow> None)
         else let groups = groups @ [hex_value digits]
           in if rest = '''' then Some (groups, ellipsis)
              else if take 1 rest \<noteq> '':'' \<or> length rest = 1 then None
              else if take 2 rest = ''::'' then
                (if ellipsis \<noteq> None then None
                 else if drop 2 rest = '''' then Some (groups, Some (length groups))
                 else ipv6_loop n groups (Some (length groups)) (drop 2 rest))
              else ipv6_loop n groups ellipsis (drop 1 rest))"

definition parse_ipv6 :: "bytes \<Rightarrow> nat list option" where
  "parse_ipv6 s = (if CHR ''%'' \<in> set s then None
     else if s = ''::'' then Some (replicate 8 0)
     else case (if take 2 s = ''::'' then ipv6_loop 8 [] (Some 0) (drop 2 s) else ipv6_loop 8 [] None s) of
       None \<Rightarrow> None
     | Some (groups, ellipsis) \<Rightarrow>
         (case ellipsis of
            None \<Rightarrow> if length groups = 8 then Some groups else None
          | Some k \<Rightarrow> if length groups = 8 then None
              else Some (take k groups @ replicate (8 - length groups) 0 @ drop k groups)))"

text \<open>The first of the characters dot, colon and percent decides which parser runs.\<close>

definition ParseIP :: "bytes \<Rightarrow> nat list option" where
  "ParseIP s = (case dropWhile (\<lambda>c. c \<noteq> CHR ''.'' \<and> c \<noteq> CHR '':'' \<and> c \<noteq> CHR ''%'') s of
       [] \<Rightarrow> None
     | c # _ \<Rightarrow> if c = CHR ''.'' then map_option (\<lambda>(a, b, c, d). [0, 0, 0, 0, 0, 65535, a * 256 + b, c * 256 + d]) (parse_ipv4 s)
         else if c = CHR '':'' then parse_ipv6 s else None)"

definition is_ipv4 :: "nat list \<Rightarrow> bool" where
  "is_ipv4 ip \<longleftrightarrow> take 6 ip = [0, 0, 0, 0, 0, 65535]"

definition IsLoopback :: "nat list \<Rightarrow> bool" where
  "IsLoopback ip \<longleftrightarrow> (if is_ipv4 ip then ip ! 6 div 256 = 127 else ip = [0, 0, 0, 0, 0, 0, 0, 1])"

definition IP_String :: "nat list \<Rightarrow> bytes" where
  "IP_String ip = (if is_ipv4 ip
     then join_with ''.'' (map FormatUint [ip ! 6 div 256, ip ! 6 mod 256, ip ! 7 div 256, ip ! 7 mod 256])
     else ''::1'')"

definition Atoi :: "bytes \<Rightarrow> int option" where
  "Atoi s = (let neg = take 1 s = ''-''; digits = (if neg \<or> take 1 s = ''+'' then drop 1 s else s);
       v = (if neg then - int (dec_acc 0 digits) else int (dec_acc 0 digits))
     in if digits = '''' \<or> \<not> list_all is_digit digits \<or> v < - (2 ^ 63) \<or> 2 ^ 63 \<le> v then None else Some v)"

definition ValidateListener :: "bytes \<Rightarrow> bool" where
  "ValidateListener address = (case SplitHostPort address of None \<Rightarrow> False
     | Some (host, portText) \<Rightarrow>
         (case ParseIP host of None \<Rightarrow> False
          | Some ip \<Rightarrow> if \<not> IsLoopback ip then False
              else case Atoi portText of None \<Rightarrow> False
                | Some port \<Rightarrow> 1 \<le> port \<and> port \<le> 65535 \<and> JoinHostPort (IP_String ip) (FormatInt port) = address))"

definition DefaultPort :: int where
  "DefaultPort = 37421"

definition DefaultListeners :: "bytes list" where
  "DefaultListeners = [JoinHostPort ''127.0.0.1'' (FormatInt DefaultPort), JoinHostPort ''::1'' (FormatInt DefaultPort)]"

definition SameListeners :: "bytes list \<Rightarrow> bytes list \<Rightarrow> bool" where
  "SameListeners left right \<longleftrightarrow> length left = length right \<and> sort left = sort right"

section \<open>Settings and marker\<close>

record Settings =
  st_ConfigVersion :: int
  st_InstanceID :: bytes
  st_VaultID :: bytes
  st_Listeners :: "bytes list"

record InstallMarker =
  im_Generation :: bytes
  im_Phase :: bytes
  im_State :: bytes

definition ConfigVersion :: int where
  "ConfigVersion = 1"

definition listener_port :: "bytes \<Rightarrow> bytes" where
  "listener_port address = (case SplitHostPort address of Some (_, port) \<Rightarrow> port | None \<Rightarrow> '''')"

definition validate_settings :: "Settings \<Rightarrow> bool" where
  "validate_settings s \<longleftrightarrow> st_ConfigVersion s = ConfigVersion \<and> Parse (st_InstanceID s) \<noteq> None \<and> Parse (st_VaultID s) \<noteq> None \<and>
     st_InstanceID s \<noteq> st_VaultID s \<and> length (st_Listeners s) \<noteq> 0 \<and> length (st_Listeners s) \<le> 2 \<and>
     list_all ValidateListener (st_Listeners s) \<and>
     list_all (\<lambda>address. listener_port address = listener_port (hd (st_Listeners s))) (st_Listeners s) \<and>
     distinct (st_Listeners s)"

text \<open>The identifiers come from the random bytes of two calls of \<open>New\<close>.\<close>

definition newSettings :: "bytes \<Rightarrow> bytes \<Rightarrow> bytes list \<Rightarrow> Settings option" where
  "newSettings random1 random2 listeners =
     (let s = \<lparr>st_ConfigVersion = ConfigVersion, st_InstanceID = New random1, st_VaultID = New random2,
          st_Listeners = sort listeners\<rparr>
      in if validate_settings s then Some s else None)"

definition validate_marker :: "InstallMarker \<Rightarrow> bool" where
  "validate_marker m \<longleftrightarrow> im_Generation m = ''1'' \<and> (im_Phase m = ''initializing'' \<or> im_Phase m = ''ready'') \<and>
     (im_State m = ''resume'' \<or> im_State m = ''complete'') \<and> (im_Phase m = ''ready'') = (im_State m = ''complete'')"

definition T_Settings :: jtype where
  "T_Settings = TStruct [(''config_version'', TInt), (''instance_id'', TString), (''vault_id'', TString),
     (''listeners'', TSlice TString)]"

definition to_Settings :: "Settings \<Rightarrow> gval" where
  "to_Settings s = GStruct [(''config_version'', GInt (st_ConfigVersion s)), (''instance_id'', GString (st_InstanceID s)),
     (''vault_id'', GString (st_VaultID s)), (''listeners'', GSlice (Some (map GString (st_Listeners s))))]"

definition of_Settings :: "gval \<Rightarrow> Settings" where
  "of_Settings v = \<lparr>st_ConfigVersion = g_int (g_field ''config_version'' v), st_InstanceID = g_string (g_field ''instance_id'' v),
     st_VaultID = g_string (g_field ''vault_id'' v), st_Listeners = g_slice g_string (g_field ''listeners'' v)\<rparr>"

definition T_InstallMarker :: jtype where
  "T_InstallMarker = TStruct [(''generation'', TString), (''phase'', TString), (''state'', TString)]"

definition to_InstallMarker :: "InstallMarker \<Rightarrow> gval" where
  "to_InstallMarker m = GStruct [(''generation'', GString (im_Generation m)), (''phase'', GString (im_Phase m)),
     (''state'', GString (im_State m))]"

definition of_InstallMarker :: "gval \<Rightarrow> InstallMarker" where
  "of_InstallMarker v = \<lparr>im_Generation = g_string (g_field ''generation'' v), im_Phase = g_string (g_field ''phase'' v),
     im_State = g_string (g_field ''state'' v)\<rparr>"

section \<open>Reading the files\<close>

definition maxConfigBytes :: nat where
  "maxConfigBytes = 1024 * 1024"

definition readProtectedFile :: "nat \<Rightarrow> bytes stored \<Rightarrow> deploy_error + bytes" where
  "readProtectedFile limit f = (case f of Absent \<Rightarrow> Inl ErrNotExist
     | Damaged \<Rightarrow> Inl (Err ''protected file'')
     | Stored payload \<Rightarrow> if length payload > limit then Inl (Err ''protected file exceeds its size boundary'') else Inr payload)"

definition readStrictJSON :: "jtype \<Rightarrow> bytes stored \<Rightarrow> deploy_error + gval" where
  "readStrictJSON t f = bindR (readProtectedFile maxConfigBytes f) (\<lambda>payload.
     case decodeDocument t payload of None \<Rightarrow> Inl (Err ''decode JSON'') | Some v \<Rightarrow> Inr v)"

definition loadSettings :: "bytes stored \<Rightarrow> deploy_error + Settings" where
  "loadSettings f = (case readStrictJSON T_Settings f of
       Inl e \<Rightarrow> if errorsIs e ErrNotExist then Inl ErrUninitialized else Inl (Wrapped ''load config'' e)
     | Inr v \<Rightarrow> if validate_settings (of_Settings v) then Inr (of_Settings v) else Inl (Err ''validate config''))"

definition loadMarker :: "bytes stored \<Rightarrow> deploy_error + InstallMarker" where
  "loadMarker f = bindR (readStrictJSON T_InstallMarker f) (\<lambda>v.
     if validate_marker (of_InstallMarker v) then Inr (of_InstallMarker v) else Inl (Err ''invalid install marker''))"

definition readSecret :: "bytes stored \<Rightarrow> deploy_error + bytes" where
  "readSecret f = bindR (readProtectedFile 33 f) (\<lambda>value.
     if length value \<noteq> 32 then Inl (Err ''instance-secret file must contain exactly 32 bytes'') else Inr value)"

end
