(* ===== verification/Instance.thy ===== *)
theory Instance
  imports Config Opening
begin

text \<open>
  Initialization and opening of an instance (\<^verbatim>\<open>instance/instance.go\<close>). An \<open>instance_dir\<close> is the state
  directory: the install marker, the settings, the secret and the database file, beside the rest of the
  machine (\<open>dir_world\<close>) that the operating-system calls of an \<open>instance_os\<close> act on. Replacing a protected file
  is atomic but may be reported as failed, or be the last thing that happens, before or after it took
  effect; opening the database may stop the machine before or after its transaction.

  \<open>LeaseInitialize\<close> is \<^verbatim>\<open>InitializationLease.Initialize\<close>, \<open>InitializeInstance\<close> the function \<^verbatim>\<open>Initialize\<close>, \<open>OpenInstance\<close>
  and \<open>OpenForServe\<close> the functions of these names. \<^verbatim>\<open>rand.Read\<close> fills its buffer, so an answer of another
  length is cut or padded.
\<close>

section \<open>The state directory and its environment\<close>

record 'w instance_dir =
  idir_marker :: "bytes stored"
  idir_config :: "bytes stored"
  idir_secret :: "bytes stored"
  idir_database :: "disk stored"
  dir_world :: 'w

text \<open>How opening the database goes: the answers to \<^verbatim>\<open>Open\<close>, whether a failed preparation left an empty file
  behind, and whether the machine stops (before or after the transaction).\<close>

record open_answer =
  oa_io :: open_io
  oa_created :: bool
  oa_stops :: "bool option"

record 'w instance_os =
  in_EnsureStateDirectory :: "('w, unit) action"
  in_ValidateStateDirectory :: "('w, unit) action"
  in_acquireLease :: "('w, unit) action"
  in_closeLease :: "('w, unit) action"
  in_AttestLockPath :: "('w, unit) action"
  in_acquireServerLock :: "('w, unit) action"
  in_attestServerLock :: "('w, unit) action"
  in_closeServerLock :: "('w, unit) action"
  in_read :: "('w, unit) action"
  in_stat :: "('w, unit) action"
  in_random :: "nat \<Rightarrow> ('w, bytes) action"
  in_write :: "'w \<Rightarrow> 'w \<times> effect"
  in_open :: "'w \<Rightarrow> 'w \<times> open_answer"
  in_close :: "('w, unit) action"

type_synonym ('w, 'a) ins = "('w instance_dir, 'a) action"

definition extI :: "('w, 'a) action \<Rightarrow> ('w, 'a) ins" where
  "extI f m = (case f (dir_world m) of (w, r) \<Rightarrow> (m\<lparr>dir_world := w\<rparr>, r))"

definition readI :: "'w instance_os \<Rightarrow> ('w instance_dir \<Rightarrow> deploy_error + 'a) \<Rightarrow> ('w, 'a) ins" where
  "readI I f = bindD (attemptD (extI (in_read I))) (\<lambda>r. case r of
       Inl _ \<Rightarrow> failD (Err ''read protected file'')
     | Inr _ \<Rightarrow> (\<lambda>m. (m, case f m of Inl e \<Rightarrow> Fail e | Inr a \<Rightarrow> Done a)))"

definition existsI :: "'w instance_os \<Rightarrow> ('w instance_dir \<Rightarrow> bool) \<Rightarrow> ('w, bool) ins" where
  "existsI I present = bindD (attemptD (extI (in_stat I))) (\<lambda>r m. (m, Done (case r of Inl _ \<Rightarrow> False | Inr _ \<Rightarrow> present m)))"

text \<open>\<^verbatim>\<open>WriteFileAtomic\<close> refuses a path that holds something other than a protected file.\<close>

definition writeI :: "'w instance_os \<Rightarrow> ('w instance_dir \<Rightarrow> bytes stored) \<Rightarrow> ('w instance_dir \<Rightarrow> 'w instance_dir) \<Rightarrow> ('w, unit) ins" where
  "writeI I existing change m = (if existing m = Damaged then (m, Fail (Err ''validate existing protected file''))
     else case in_write I (dir_world m) of (w, eff) \<Rightarrow> let m' = m\<lparr>dir_world := w\<rparr> in
       (case eff of Succeeded \<Rightarrow> (change m', Done ())
        | FailedBefore e \<Rightarrow> (m', Fail e) | FailedAfter e \<Rightarrow> (change m', Fail e)
        | CrashedBefore \<Rightarrow> (m', Crashed) | CrashedAfter \<Rightarrow> (change m', Crashed)))"

definition joinedWith :: "deploy_error \<Rightarrow> deploy_error + unit \<Rightarrow> deploy_error" where
  "joinedWith e c = (case c of Inl e' \<Rightarrow> Joined e e' | Inr _ \<Rightarrow> e)"

definition LoadMarker :: "'w instance_os \<Rightarrow> ('w, InstallMarker) ins" where
  "LoadMarker I = readI I (\<lambda>m. loadMarker (idir_marker m))"

definition SaveMarker :: "'w instance_os \<Rightarrow> InstallMarker \<Rightarrow> ('w, unit) ins" where
  "SaveMarker I marker = writeI I idir_marker (\<lambda>m. m\<lparr>idir_marker := Stored (marshalIndent (to_InstallMarker marker))\<rparr>)"

definition LoadSettings :: "'w instance_os \<Rightarrow> ('w, Settings) ins" where
  "LoadSettings I = readI I (\<lambda>m. loadSettings (idir_config m))"

definition SaveSettings :: "'w instance_os \<Rightarrow> Settings \<Rightarrow> ('w, unit) ins" where
  "SaveSettings I s = (if \<not> validate_settings s then failD (Err ''invalid settings'')
     else writeI I idir_config (\<lambda>m. m\<lparr>idir_config := Stored (marshalIndent (to_Settings s))\<rparr>))"

definition ReadSecret :: "'w instance_os \<Rightarrow> ('w, bytes) ins" where
  "ReadSecret I = readI I (\<lambda>m. readSecret (idir_secret m))"

definition WriteSecret :: "'w instance_os \<Rightarrow> bytes \<Rightarrow> ('w, unit) ins" where
  "WriteSecret I value = (if length value \<noteq> 32 then failD (Err ''instance secret must contain exactly 32 bytes'')
     else writeI I idir_secret (\<lambda>m. m\<lparr>idir_secret := Stored value\<rparr>))"

definition fill :: "nat \<Rightarrow> bytes \<Rightarrow> bytes" where
  "fill n b = take n (b @ replicate n (CHR 0x00))"

definition randomRead :: "'w instance_os \<Rightarrow> nat \<Rightarrow> ('w, bytes) ins" where
  "randomRead I n = bindD (extI (in_random I n)) (\<lambda>b. returnD (fill n b))"

definition NewSettings :: "'w instance_os \<Rightarrow> bytes list \<Rightarrow> ('w, Settings) ins" where
  "NewSettings I listeners = bindD (randomRead I 16) (\<lambda>random1.
     bindD (randomRead I 16) (\<lambda>random2.
     optD ''invalid settings'' (newSettings random1 random2 listeners)))"

section \<open>The database file\<close>

definition blank_db :: db where
  "blank_db = \<lparr>t_devices = [], t_device_origins = [], t_runtime_state = zeroRuntime, t_device_sync_state = [],
     t_enrollment_grants = [], t_enrollments = [], t_vault_envelope = None, t_revision_objects = [],
     t_record_revisions = [], t_revision_acceptance_origins = [], t_collection_records = [], t_record_heads = [],
     t_record_vector_index = [], t_collection_candidates = [], t_collection_markers = [], t_change_origins = [],
     t_changes = [], t_operation_receipts = [], t_operation_receipt_retention = [], t_token_rotations = [],
     t_self_revocation_receipts = [], t_snapshots = [], t_snapshot_pages = [], t_snapshot_revision_refs = []\<rparr>"

definition blank_disk :: disk where
  "blank_disk = \<lparr>dk_version = 0, dk_tables = [], dk_auxiliary = 0, dk_metadata = None, dk_db = blank_db\<rparr>"

definition settingsIdentity :: "Settings \<Rightarrow> Identity" where
  "settingsIdentity s = \<lparr>id_InstanceID = st_InstanceID s, id_VaultID = st_VaultID s\<rparr>"

text \<open>The file is created empty before it is opened.\<close>

definition openDatabase :: "open_answer \<Rightarrow> Identity \<Rightarrow> disk stored \<Rightarrow> (open_error + Store) \<times> disk stored" where
  "openDatabase a identity f =
     (if f = Damaged \<or> \<not> validateIdentityInput identity \<or> \<not> oi_path (oa_io a) then (Inl ErrOther, f)
      else if \<not> oi_prepare (oa_io a) then (Inl ErrOther, if f = Absent \<and> oa_created a then Stored blank_disk else f)
      else case Open (oa_io a) identity (case f of Stored d \<Rightarrow> d | _ \<Rightarrow> blank_disk) of (r, d') \<Rightarrow> (r, Stored d'))"

definition openStore :: "'w instance_os \<Rightarrow> Identity \<Rightarrow> ('w, Store) ins" where
  "openStore I identity m = (case in_open I (dir_world m) of (w, a) \<Rightarrow>
     case openDatabase a identity (idir_database m) of (r, f) \<Rightarrow>
       (case oa_stops a of
          None \<Rightarrow> (m\<lparr>dir_world := w, idir_database := f\<rparr>,
            case r of Inl _ \<Rightarrow> Fail (Err ''open database'') | Inr store \<Rightarrow> Done store)
        | Some True \<Rightarrow> (m\<lparr>dir_world := w, idir_database := f\<rparr>, Crashed)
        | Some False \<Rightarrow> (m\<lparr>dir_world := w, idir_database :=
            if idir_database m = Absent \<and> oa_created a then Stored blank_disk else idir_database m\<rparr>, Crashed)))"

section \<open>Opening and initializing\<close>

definition OpenInstance :: "'w instance_os \<Rightarrow> ('w, Settings \<times> Store) ins" where
  "OpenInstance I = bindD (extI (in_EnsureStateDirectory I)) (\<lambda>_.
     bindD (attemptD (LoadMarker I)) (\<lambda>r. case r of
       Inl e \<Rightarrow> if errorsIs e ErrNotExist then failD ErrUninitialized else failD (Wrapped ''load install marker'' e)
     | Inr marker \<Rightarrow>
         bindD (guardD (im_Phase marker = ''ready'' \<and> im_State marker = ''complete'')
           ''installation is incomplete; rerun init'') (\<lambda>_.
         bindD (LoadSettings I) (\<lambda>settings.
         bindD (wrapD ''validate instance secret'' (ReadSecret I)) (\<lambda>_.
         bindD (openStore I (settingsIdentity settings)) (\<lambda>store.
         returnD (settings, store)))))))"

definition LoadCompletedSettings :: "'w instance_os \<Rightarrow> ('w, Settings) ins" where
  "LoadCompletedSettings I = bindD (extI (in_ValidateStateDirectory I)) (\<lambda>_.
     bindD (attemptD (LoadMarker I)) (\<lambda>r. case r of
       Inl e \<Rightarrow> if errorsIs e ErrNotExist then failD ErrUninitialized else failD (Wrapped ''load install marker'' e)
     | Inr marker \<Rightarrow>
         bindD (guardD (im_Phase marker = ''ready'' \<and> im_State marker = ''complete'')
           ''installation is incomplete; rerun init'') (\<lambda>_.
         LoadSettings I)))"

text \<open>The instance that is served holds the server lock for as long as it runs.\<close>

definition OpenForServe :: "'w instance_os \<Rightarrow> ('w, Settings \<times> Store) ins" where
  "OpenForServe I = bindD (extI (in_EnsureStateDirectory I)) (\<lambda>_.
     bindD (extI (in_acquireServerLock I)) (\<lambda>_.
     bindD (attemptD (OpenInstance I)) (\<lambda>opened. case opened of
       Inl e \<Rightarrow> bindD (attemptD (wrapD ''release server lock'' (extI (in_closeServerLock I)))) (\<lambda>c. failD (joinedWith e c))
     | Inr x \<Rightarrow> bindD (attemptD (extI (in_attestServerLock I))) (\<lambda>attested. case attested of
           Inr _ \<Rightarrow> returnD x
         | Inl e \<Rightarrow> bindD (attemptD (extI (in_close I))) (\<lambda>c1.
             bindD (attemptD (extI (in_closeServerLock I))) (\<lambda>c2.
             failD (joinedWith (joinedWith (Wrapped ''attest server lock after opening instance'' e) c1) c2)))))))"

definition markerInitializing :: InstallMarker where
  "markerInitializing = \<lparr>im_Generation = ''1'', im_Phase = ''initializing'', im_State = ''resume''\<rparr>"

definition markerReady :: InstallMarker where
  "markerReady = \<lparr>im_Generation = ''1'', im_Phase = ''ready'', im_State = ''complete''\<rparr>"

definition attestI :: "'w instance_os \<Rightarrow> ('w, unit) ins" where
  "attestI I = wrapD ''attest initialization lease'' (extI (in_AttestLockPath I))"

definition validateCompleted :: "'w instance_os \<Rightarrow> bytes list option \<Rightarrow> ('w, Settings) ins" where
  "validateCompleted I requested = bindD (attestI I) (\<lambda>_.
     bindD (wrapD ''validate completed installation'' (OpenInstance I)) (\<lambda>(settings, _).
     if (case requested of None \<Rightarrow> False | Some listeners \<Rightarrow> \<not> SameListeners listeners (st_Listeners settings))
     then bindD (attemptD (wrapD ''close validated installation'' (extI (in_close I)))) (\<lambda>c.
       failD (joinedWith (Err ''refusing to change listeners during idempotent initialization'') c))
     else bindD (wrapD ''close validated installation'' (extI (in_close I))) (\<lambda>_.
       bindD (attestI I) (\<lambda>_.
       returnD settings))))"

text \<open>The settings are written once; an instance that has them keeps them.\<close>

definition createSettings :: "'w instance_os \<Rightarrow> bytes list option \<Rightarrow> ('w, Settings) ins" where
  "createSettings I requested = bindD (existsI I (\<lambda>m. idir_secret m \<noteq> Absent)) (\<lambda>secret.
     bindD (if secret then returnD True else existsI I (\<lambda>m. idir_database m \<noteq> Absent)) (\<lambda>partial.
     bindD (guardD (\<not> partial) ''partial installation has secret or database but no recoverable config'') (\<lambda>_.
     bindD (NewSettings I (case requested of None \<Rightarrow> DefaultListeners | Some listeners \<Rightarrow> listeners)) (\<lambda>settings.
     bindD (attestI I) (\<lambda>_.
     bindD (wrapD ''write config'' (SaveSettings I settings)) (\<lambda>_.
     returnD settings))))))"

definition resumeSettings :: "'w instance_os \<Rightarrow> bytes list option \<Rightarrow> ('w, Settings) ins" where
  "resumeSettings I requested = bindD (attemptD (LoadSettings I)) (\<lambda>r. case r of
       Inr settings \<Rightarrow>
         bindD (guardD (case requested of None \<Rightarrow> True | Some listeners \<Rightarrow> SameListeners listeners (st_Listeners settings))
           ''refusing to replace existing listener configuration'') (\<lambda>_.
         returnD settings)
     | Inl e \<Rightarrow> if \<not> errorsIs e ErrUninitialized then failD e else createSettings I requested)"

definition resumeSecret :: "'w instance_os \<Rightarrow> ('w, unit) ins" where
  "resumeSecret I = bindD (attemptD (ReadSecret I)) (\<lambda>r. case r of
       Inr _ \<Rightarrow> returnD ()
     | Inl e \<Rightarrow>
         if \<not> errorsIs e ErrNotExist then failD (Wrapped ''read instance secret'' e)
         else bindD (wrapD ''generate instance secret'' (randomRead I 32)) (\<lambda>secret.
           bindD (attestI I) (\<lambda>_.
           wrapD ''write instance secret'' (WriteSecret I secret))))"

definition initializeWithLease :: "'w instance_os \<Rightarrow> bytes list option \<Rightarrow> ('w, Settings) ins" where
  "initializeWithLease I requested = bindD (attemptD (LoadMarker I)) (\<lambda>r.
     if (case r of Inl e \<Rightarrow> \<not> errorsIs e ErrNotExist | Inr _ \<Rightarrow> False)
     then failD (Wrapped ''load install marker'' (case r of Inl e \<Rightarrow> e | Inr _ \<Rightarrow> Err ''''))
     else if (case r of Inl _ \<Rightarrow> False | Inr marker \<Rightarrow> im_Phase marker = ''ready'') then validateCompleted I requested
     else bindD (attestI I) (\<lambda>_.
       bindD (wrapD ''record installation start'' (SaveMarker I markerInitializing)) (\<lambda>_.
       bindD (resumeSettings I requested) (\<lambda>settings.
       bindD (resumeSecret I) (\<lambda>_.
       bindD (attestI I) (\<lambda>_.
       bindD (openStore I (settingsIdentity settings)) (\<lambda>_.
       bindD (wrapD ''close initialized database'' (extI (in_close I))) (\<lambda>_.
       bindD (attestI I) (\<lambda>_.
       bindD (wrapD ''record installation completion'' (SaveMarker I markerReady)) (\<lambda>_.
       bindD (attestI I) (\<lambda>_.
       returnD settings)))))))))))"

definition LeaseInitialize :: "'w instance_os \<Rightarrow> bytes list option \<Rightarrow> ('w, Settings) ins" where
  "LeaseInitialize I requested = bindD (attestI I) (\<lambda>_. initializeWithLease I requested)"

definition InitializeInstance :: "'w instance_os \<Rightarrow> bytes list option \<Rightarrow> ('w, Settings) ins" where
  "InitializeInstance I requested = bindD (extI (in_EnsureStateDirectory I)) (\<lambda>_.
     bindD (extI (in_acquireLease I)) (\<lambda>_.
     bindD (attemptD (LeaseInitialize I requested)) (\<lambda>r.
     bindD (attemptD (wrapD ''release initialization lock'' (extI (in_closeLease I)))) (\<lambda>c. case r of
         Inl e \<Rightarrow> failD (joinedWith e c)
       | Inr settings \<Rightarrow> (case c of Inl e \<Rightarrow> failD e | Inr _ \<Rightarrow> returnD settings)))))"

end
