(* ===== verification/ConfigLaws.thy ===== *)
theory ConfigLaws
  imports Config WireLaws
begin

text \<open>
  Accepted listeners are loopback addresses in one spelling (\<open>listener_form\<close>), and the documents that the
  settings and the marker are saved as are read back as they were (\<open>loadSettings_saved\<close>,
  \<open>loadMarker_saved\<close>).
\<close>

section \<open>Listeners\<close>

lemma ipv4_field_le: "ipv4_field s = Some n \<Longrightarrow> n \<le> 255"
  by (auto simp: ipv4_field_def split: if_splits)

lemma parse_ipv4_fields: "parse_ipv4 s = Some (a, b, c, d) \<Longrightarrow> a \<le> 255 \<and> b \<le> 255 \<and> c \<le> 255 \<and> d \<le> 255"
  by (auto simp: parse_ipv4_def split: list.splits option.splits dest!: ipv4_field_le)

lemma hex_val_less: "hex_val c = Some d \<Longrightarrow> d < 16"
  by (auto simp: hex_val_def Let_def split: if_splits)

lemma hex_value_snoc: "hex_value (s @ [c]) = hex_value s * 16 + (case hex_val c of Some d \<Rightarrow> d | None \<Rightarrow> 0)"
  by (simp add: hex_value_def)

lemma hex_value_less: "hex_value s < 16 ^ length s"
proof (induction s rule: rev_induct)
  case (snoc c s)
  have "(case hex_val c of Some d \<Rightarrow> d | None \<Rightarrow> 0) < 16" using hex_val_less[of c] by (auto split: option.splits)
  with snoc show ?case by (simp add: hex_value_snoc)
qed (simp add: hex_value_def)

lemma ipv6_loop_groups:
  "ipv6_loop n groups ellipsis s = Some (gs, e) \<Longrightarrow> list_all (\<lambda>g. g < 65536) groups \<Longrightarrow> length groups + n = 8 \<Longrightarrow>
     list_all (\<lambda>g. g < 65536) gs \<and> length gs \<le> 8"
proof (induction n groups ellipsis s rule: ipv6_loop.induct)
  case (2 n groups ellipsis s)
  have "hex_value (hex_prefix s) < 65536" if "length (hex_prefix s) \<le> 4"
    using hex_value_less[of "hex_prefix s"] power_increasing[OF that, of "16::nat"] by simp
  then have ok: "list_all (\<lambda>g. g < 65536) (groups @ [hex_value (hex_prefix s)])" if "length (hex_prefix s) \<le> 4"
    using 2(4) that by simp
  show ?case
  proof (cases "take 1 (drop (length (hex_prefix s)) s) = ''.''")
    case True
    then show ?thesis using 2(3,4) by (auto simp: Let_def split: if_splits option.splits dest!: parse_ipv4_fields)
  next
    case False
    note IH = 2(1)[OF refl refl _ False refl] 2(2)[OF refl refl _ False refl]
    from False 2(3) have len: "length (hex_prefix s) \<le> 4" by (auto simp: Let_def split: if_splits)
    show ?thesis using False 2(3,5) ok[OF len] IH by (simp add: Let_def split: if_splits) auto
  qed
qed (auto split: if_splits)

lemma parse_ipv6_groups:
  assumes "parse_ipv6 s = Some ip"
  shows "length ip = 8 \<and> list_all (\<lambda>g. g < 65536) ip"
proof (cases "s = ''::''")
  case False
  then obtain gs e e' t where l: "ipv6_loop 8 [] e' t = Some (gs, e)"
      and ip: "ip = (case e of None \<Rightarrow> gs | Some k \<Rightarrow> take k gs @ replicate (8 - length gs) 0 @ drop k gs)" "e = None \<longrightarrow> length gs = 8"
    using assms by (auto simp: parse_ipv6_def split: if_splits option.splits prod.splits)
  have "list_all (\<lambda>g. g < 65536) gs" "length gs \<le> 8" using ipv6_loop_groups[OF l] by simp_all
  then show ?thesis using ip by (cases e) (auto simp: list_all_iff dest: in_set_takeD in_set_dropD)
qed (use assms in \<open>auto simp: parse_ipv6_def list_all_iff\<close>)

lemma ParseIP_groups: "ParseIP host = Some ip \<Longrightarrow> length ip = 8 \<and> list_all (\<lambda>g. g < 65536) ip"
  using parse_ipv6_groups[of host ip] by (auto simp: ParseIP_def split: list.splits if_splits dest!: parse_ipv4_fields)

lemma digit_chars: "digit_char 0 = CHR ''0''" "digit_char (Suc 0) = CHR ''1''" "digit_char 2 = CHR ''2''" "digit_char 3 = CHR ''3''"
  "digit_char 4 = CHR ''4''" "digit_char 5 = CHR ''5''" "digit_char 6 = CHR ''6''" "digit_char 7 = CHR ''7''"
  "digit_char 8 = CHR ''8''" "digit_char 9 = CHR ''9''"
  by (simp_all add: digit_char_def flip: of_char_inj)

lemma DefaultPort_text: "FormatInt DefaultPort = ''37421''" "FormatUint 127 = ''127''"
  by (simp_all add: FormatInt_def DefaultPort_def FormatUint.simps digit_chars)

theorem listener_form:
  assumes "ValidateListener address"
  obtains (ipv4) b c d port where "address = join_with ''.'' [''127'', FormatUint b, FormatUint c, FormatUint d] @ '':'' @ FormatUint port"
      "b < 256" "c < 256" "d < 256" "1 \<le> port" "port \<le> 65535"
    | (ipv6) port where "address = ''[::1]:'' @ FormatUint port" "1 \<le> port" "port \<le> 65535"
proof -
  obtain host portText ip port where h: "ParseIP host = Some ip" "IsLoopback ip" "1 \<le> port" "port \<le> 65535"
      and a: "address = JoinHostPort (IP_String ip) (FormatInt port)"
    using assms that by (simp add: ValidateListener_def split: option.splits if_splits prod.splits) blast
  have p: "FormatInt port = FormatUint (nat port)" "1 \<le> nat port" "nat port \<le> 65535" using h by (auto simp: FormatInt_def)
  show ?thesis
  proof (cases "is_ipv4 ip")
    case True
    have digits: "CHR '':'' \<notin> set (FormatUint n)" for n using FormatUint_digits[of n] by (auto simp: list_all_iff is_digit_def)
    have g: "ip ! 6 div 256 = 127" "ip ! 7 div 256 < 256"
      using h(2) True ParseIP_groups[OF h(1)] by (auto simp: IsLoopback_def list_all_length div_less_iff_less_mult)
    have "IP_String ip = join_with ''.'' [''127'', FormatUint (ip ! 6 mod 256), FormatUint (ip ! 7 div 256), FormatUint (ip ! 7 mod 256)]"
      using True g by (simp add: IP_String_def DefaultPort_text)
    then show ?thesis using ipv4[of "ip ! 6 mod 256" "ip ! 7 div 256" "ip ! 7 mod 256" "nat port"] a p g digits
      by (simp add: JoinHostPort_def)
  next
    case False
    then show ?thesis using ipv6[of "nat port"] a p by (simp add: IP_String_def JoinHostPort_def)
  qed
qed

lemma listener_plain:
  assumes "ValidateListener address"
  shows "list_all html_safe address \<and> length address \<le> 30"
proof -
  have d: "list_all html_safe (FormatUint n)" for n using FormatUint_digits[of n] by (auto simp: list_all_iff html_safe_digit)
  have l: "n < 256 \<Longrightarrow> length (FormatUint n) \<le> 3" "n \<le> 65535 \<Longrightarrow> length (FormatUint n) \<le> 5" for n
    using length_FormatUint[of n 2] length_FormatUint[of n 4] by simp_all
  have s: "list_all html_safe ''127.:[]''" by (simp add: html_safe_def byte_in_def)
  from assms show ?thesis
  proof (cases rule: listener_form)
    case (ipv4 b c e port)
    have "length (FormatUint b) \<le> 3" "length (FormatUint c) \<le> 3" "length (FormatUint e) \<le> 3" "length (FormatUint port) \<le> 5"
      using ipv4 l by auto
    then show ?thesis using ipv4(1) d s by simp
  next
    case (ipv6 port)
    have "length (FormatUint port) \<le> 5" using ipv6 l by auto
    then show ?thesis using ipv6(1) d s by (simp add: html_safe_def byte_in_def)
  qed
qed

section \<open>Documents\<close>

lemma DefaultListeners_eq: "DefaultListeners = [''127.0.0.1:37421'', ''[::1]:37421'']"
  by (simp add: DefaultListeners_def JoinHostPort_def DefaultPort_text)

lemma split_default: "SplitHostPort ''127.0.0.1:37421'' = Some (''127.0.0.1'', ''37421'')" "SplitHostPort ''[::1]:37421'' = Some (''::1'', ''37421'')"
  by code_simp+

lemma parse_default: "ParseIP ''127.0.0.1'' = Some [0, 0, 0, 0, 0, 65535, 127 * 256, 1]" "Atoi ''37421'' = Some 37421"
  by (simp_all add: ParseIP_def parse_ipv4_def ipv4_field_def is_digit_def digit_val_def Atoi_def Let_def)

lemma parse_default6: "ParseIP ''::1'' = Some [0, 0, 0, 0, 0, 0, 0, 1]"
  by (simp add: ParseIP_def parse_ipv6_def eval_nat_numeral hex_prefix_def hex_value_def hex_val_def Let_def)

lemma default_listeners: "list_all ValidateListener DefaultListeners"
  using DefaultPort_text(1)
  by (simp add: DefaultListeners_eq ValidateListener_def split_default parse_default parse_default6 IsLoopback_def is_ipv4_def IP_String_def
    JoinHostPort_def DefaultPort_def DefaultPort_text(2) FormatUint.simps[of 0] FormatUint.simps[of "Suc 0"] digit_chars)

lemma newSettings_default:
  assumes "length r1 = 16" "length r2 = 16" "New r1 \<noteq> New r2"
  shows "\<exists>s. newSettings r1 r2 DefaultListeners = Some s"
proof -
  have "Parse (New r1) \<noteq> None" "Parse (New r2) \<noteq> None" using validateUUID_New assms by (auto simp: validateUUID_def)
  moreover have "sort DefaultListeners = DefaultListeners" by (simp add: DefaultListeners_eq less_eq_char_def)
  moreover have "list_all (\<lambda>a. listener_port a = listener_port (hd DefaultListeners)) DefaultListeners"
    by (simp add: DefaultListeners_eq listener_port_def split_default)
  moreover have "length DefaultListeners = 2" "distinct DefaultListeners" by (simp_all add: DefaultListeners_eq)
  ultimately show ?thesis using assms(3) default_listeners
    by (auto simp: newSettings_def Let_def validate_settings_def)
qed

lemma utf8_plain: "list_all html_safe s \<Longrightarrow> utf8_Valid s"
  by (intro utf8_Valid_ascii) (auto simp: list_all_iff html_safe_ascii)

lemma length_indented_strings:
  assumes "\<And>v. v \<in> set vs \<Longrightarrow> list_all html_safe v \<and> length v \<le> k"
  shows "length (indented d (GSlice (Some (map GString vs)))) \<le> length vs * (k + 2 * d + 6) + 2 * d + 10"
proof -
  let ?xs = "map (\<lambda>v. line_break (d + 1) @ indented (d + 1) v) (map GString vs)"
  have "length x \<le> k + 2 * d + 5" if "x \<in> set ?xs" for x using that assms by (auto simp: line_break_def plain_quote)
  then have "length (comma_sep ?xs) \<le> length ?xs * ((k + 2 * d + 5) + 1) - 1" by (rule length_comma_sep_bound)
  then show ?thesis by (cases "vs = []") (auto simp: line_break_def ac_simps)
qed

lemma loadSettings_saved:
  assumes "validate_settings s"
  shows "loadSettings (Stored (marshalIndent (to_Settings s))) = Inr s"
proof -
  have v: "st_ConfigVersion s = 1" "validateUUID (st_InstanceID s)" "validateUUID (st_VaultID s)" "length (st_Listeners s) \<le> 2"
      "\<And>a. a \<in> set (st_Listeners s) \<Longrightarrow> ValidateListener a"
    using assms by (auto simp: validate_settings_def ConfigVersion_def validateUUID_def list_all_iff)
  note plain = plain_uuid[OF v(2)] plain_uuid[OF v(3)] listener_plain[OF v(5)]
  have t: "has_type T_Settings (to_Settings s)" by (simp add: T_Settings_def to_Settings_def v(1) list_all_iff)
  have ok: "type_ok T_Settings" by code_simp
  have names: "utf8_Valid ''config_version''" "utf8_Valid ''instance_id''" "utf8_Valid ''vault_id''" "utf8_Valid ''listeners''"
    by (rule utf8_Valid_ascii, simp add: byte_in_def)+
  have x: "text_ok (to_Settings s)"
    using plain names by (simp add: to_Settings_def utf8_plain list_all_iff)
  have l: "length (indented 1 (GSlice (Some (map GString (st_Listeners s))))) \<le> 100"
    using length_indented_strings[of "st_Listeners s" 30 1] listener_plain[OF v(5)] v(4) by (fastforce intro: order_trans)
  have q: "length (quote_string ''config_version'') = 16" "length (quote_string ''instance_id'') = 13" "length (quote_string ''vault_id'') = 10"
      "length (quote_string ''listeners'') = 11" "length (marshal (GInt 1)) = 1"
    by (simp_all add: plain_quote html_safe_def byte_in_def FormatInt_def FormatUint.simps)
  have "length (marshalIndent (to_Settings s)) \<le> maxConfigBytes"
    using l q plain validateUUID_length[OF v(2)] validateUUID_length[OF v(3)]
    by (simp add: marshalIndent_def to_Settings_def v(1) line_break_def plain_quote maxConfigBytes_def del: indented.simps(2))
  moreover have "of_Settings (to_Settings s) = s"
    by (simp add: of_Settings_def to_Settings_def get_field_def comp_def)
  ultimately show ?thesis using assms decodeDocument_marshalIndent[OF t ok x]
    by (simp add: loadSettings_def readStrictJSON_def readProtectedFile_def)
qed

lemma loadMarker_saved:
  assumes "validate_marker m"
  shows "loadMarker (Stored (marshalIndent (to_InstallMarker m))) = Inr m"
proof -
  have m: "im_Generation m = ''1'' \<and> (im_Phase m = ''initializing'' \<and> im_State m = ''resume'' \<or> im_Phase m = ''ready'' \<and> im_State m = ''complete'')"
    using assms by (auto simp: validate_marker_def)
  have plain: "list_all html_safe (im_Generation m)" "list_all html_safe (im_Phase m)" "list_all html_safe (im_State m)"
      "length (im_Generation m) \<le> 20" "length (im_Phase m) \<le> 20" "length (im_State m) \<le> 20"
    using m by (auto simp: html_safe_def byte_in_def)
  have names: "list_all html_safe ''generation''" "list_all html_safe ''phase''" "list_all html_safe ''state''"
    by (simp_all add: html_safe_def byte_in_def)
  have t: "has_type T_InstallMarker (to_InstallMarker m)" by (simp add: T_InstallMarker_def to_InstallMarker_def)
  have ok: "type_ok T_InstallMarker" by code_simp
  have x: "text_ok (to_InstallMarker m)" using plain names by (simp add: to_InstallMarker_def utf8_plain)
  have "length (marshalIndent (to_InstallMarker m)) \<le> maxConfigBytes"
    using plain plain_quote[OF names(1)] plain_quote[OF names(2)] plain_quote[OF names(3)]
    by (simp add: marshalIndent_def to_InstallMarker_def line_break_def plain_quote maxConfigBytes_def)
  moreover have "of_InstallMarker (to_InstallMarker m) = m"
    by (simp add: of_InstallMarker_def to_InstallMarker_def get_field_def)
  ultimately show ?thesis using assms decodeDocument_marshalIndent[OF t ok x]
    by (simp add: loadMarker_def readStrictJSON_def readProtectedFile_def)
qed

end
