(* ===== verification/InstanceLaws.thy ===== *)
theory InstanceLaws
  imports Instance ConfigLaws OpeningLaws
begin

text \<open>
  Initialization is crash-safe. \<open>inst_ok\<close> is what the files of a state directory promise between
  operations, whatever the environment answered and wherever the machine stopped: the settings are
  written before the secret and the database, the database belongs to the identity of the settings, and a
  marker that says ready stands beside settings, secret and an initialized database. \<open>keeps\<close> says what no
  operation takes back: settings, secret and the identity of the database.
\<close>

section \<open>The invariant\<close>

definition marker_file :: "InstallMarker \<Rightarrow> bytes stored" where
  "marker_file marker = Stored (marshalIndent (to_InstallMarker marker))"

definition config_file :: "Settings \<Rightarrow> bytes stored" where
  "config_file s = Stored (marshalIndent (to_Settings s))"

definition secret_ok :: "bytes stored \<Rightarrow> bool" where
  "secret_ok f \<longleftrightarrow> f = Absent \<or> (\<exists>x. f = Stored x \<and> length x = 32)"

definition owned_by :: "Identity \<Rightarrow> disk \<Rightarrow> bool" where
  "owned_by identity d \<longleftrightarrow> dk_metadata d = Some (identityRow identity)"

definition database_ok :: "(Identity \<Rightarrow> disk \<Rightarrow> bool) \<Rightarrow> Identity \<Rightarrow> disk stored \<Rightarrow> bool" where
  "database_ok claim identity f \<longleftrightarrow> f = Absent \<or> (\<exists>d. f = Stored d \<and> (emptyFile d \<or> claim identity d))"

definition configured :: "(Identity \<Rightarrow> disk \<Rightarrow> bool) \<Rightarrow> Settings \<Rightarrow> 'w instance_dir \<Rightarrow> bool" where
  "configured claim s m \<longleftrightarrow> validate_settings s \<and> idir_config m = config_file s \<and> secret_ok (idir_secret m) \<and>
     database_ok claim (settingsIdentity s) (idir_database m)"

definition completed :: "(Identity \<Rightarrow> disk \<Rightarrow> bool) \<Rightarrow> Settings \<Rightarrow> 'w instance_dir \<Rightarrow> bool" where
  "completed claim s m \<longleftrightarrow> idir_secret m \<noteq> Absent \<and> (\<exists>d. idir_database m = Stored d \<and> claim (settingsIdentity s) d)"

definition inst_ok :: "(Identity \<Rightarrow> disk \<Rightarrow> bool) \<Rightarrow> 'w instance_dir \<Rightarrow> bool" where
  "inst_ok claim m \<longleftrightarrow> idir_marker m \<in> {Absent, marker_file markerInitializing, marker_file markerReady} \<and>
     (idir_config m = Absent \<and> idir_secret m = Absent \<and> idir_database m = Absent \<and> idir_marker m \<noteq> marker_file markerReady \<or>
      (\<exists>s. configured claim s m \<and> (idir_marker m = marker_file markerReady \<longrightarrow> completed claim s m)))"

definition keeps :: "(Identity \<Rightarrow> disk \<Rightarrow> bool) \<Rightarrow> 'w instance_dir \<Rightarrow> 'w instance_dir \<Rightarrow> bool" where
  "keeps claim m m' \<longleftrightarrow> (idir_config m \<noteq> Absent \<longrightarrow> idir_config m' = idir_config m) \<and>
     (idir_secret m \<noteq> Absent \<longrightarrow> idir_secret m' = idir_secret m) \<and>
     (\<forall>s d. validate_settings s \<longrightarrow> idir_config m = config_file s \<longrightarrow> idir_database m = Stored d \<longrightarrow> claim (settingsIdentity s) d \<longrightarrow>
       (\<exists>d'. idir_database m' = Stored d' \<and> claim (settingsIdentity s) d'))"

lemma keeps_refl: "keeps claim m m"
  by (simp add: keeps_def)

lemma keeps_trans: "keeps claim a b \<Longrightarrow> keeps claim b c \<Longrightarrow> keeps claim a c"
  unfolding keeps_def by (metis config_file_def stored.distinct(3))

lemma markers: "validate_marker markerInitializing" "validate_marker markerReady" "marker_file markerInitializing \<noteq> marker_file markerReady"
proof -
  show v: "validate_marker markerInitializing" "validate_marker markerReady"
    by (simp_all add: validate_marker_def markerInitializing_def markerReady_def)
  have "loadMarker (marker_file markerInitializing) \<noteq> loadMarker (marker_file markerReady)"
    using loadMarker_saved[OF v(1)] loadMarker_saved[OF v(2)] by (simp add: marker_file_def markerInitializing_def markerReady_def)
  then show "marker_file markerInitializing \<noteq> marker_file markerReady" by auto
qed

lemma loadSettings_config: "validate_settings s \<Longrightarrow> loadSettings (config_file s) = Inr s"
  by (simp add: config_file_def loadSettings_saved)

lemma config_file_inject: "validate_settings s \<Longrightarrow> validate_settings t \<Longrightarrow> config_file s = config_file t \<Longrightarrow> s = t"
  by (metis loadSettings_config sum.inject(2))

section \<open>Steps that leave the files alone\<close>

definition worldly :: "('w instance_dir \<Rightarrow> bool) \<Rightarrow> bool" where
  "worldly P \<longleftrightarrow> (\<forall>m w. P m \<longrightarrow> P (m\<lparr>dir_world := w\<rparr>))"

lemma worldly_inst: "worldly (inst_ok claim)" "worldly (keeps claim m0)" "worldly (configured claim s)" "worldly (completed claim s)"
    "worldly (\<lambda>m. F (idir_marker m) (idir_config m) (idir_secret m) (idir_database m))"
  by (simp_all add: worldly_def inst_ok_def keeps_def configured_def completed_def)

lemma worldly_conj: "worldly P \<Longrightarrow> worldly Q \<Longrightarrow> worldly (\<lambda>m. P m \<and> Q m)"
  by (simp add: worldly_def)

lemma triple_extI: "worldly P \<Longrightarrow> triple P (extI f) (\<lambda>_. P) P"
  by (auto simp: triple_def extI_def worldly_def split: prod.splits reply.splits)

lemma triple_attestI: "worldly P \<Longrightarrow> triple P (attestI I) (\<lambda>_. P) P"
  unfolding attestI_def by (intro triple_wrap triple_extI)

lemma triple_readI:
  assumes "worldly P"
  shows "triple P (readI I f) (\<lambda>a m. P m \<and> f m = Inr a) P"
    "triple P (attemptD (readI I f)) (\<lambda>r m. P m \<and> (case r of Inr a \<Rightarrow> f m = Inr a | Inl e \<Rightarrow> f m = Inl e \<or> e = Err ''read protected file'')) P"
  using assms by (auto simp: triple_def readI_def extI_def bindD_def attemptD_def failD_def worldly_def split: prod.splits reply.splits sum.splits)

lemma triple_writeI:
  assumes "worldly P" "worldly E" "\<And>m. P m \<Longrightarrow> E m" "\<And>m. P m \<Longrightarrow> Q (change m)" "\<And>m. P m \<Longrightarrow> E (change m)"
  shows "triple P (writeI I existing change) (\<lambda>_. Q) E"
  using assms by (auto simp: triple_def writeI_def worldly_def Let_def split: prod.splits reply.splits effect.splits)

lemma triple_randomRead: "worldly P \<Longrightarrow> triple P (randomRead I n) (\<lambda>b m. P m \<and> length b = n) P"
  unfolding randomRead_def
  by (rule triple_bind[OF triple_extI]) (auto simp: fill_def intro!: triple_return)

section \<open>The database\<close>

text \<open>What opening makes of a file of the directory: \<open>claim\<close> is what the directory promises of a database that
  is not empty.\<close>

locale database_claim =
  fixes claim :: "Identity \<Rightarrow> disk \<Rightarrow> bool"
  assumes claim_after: "Open io identity d = (r, d') \<Longrightarrow> emptyFile d \<or> claim identity d \<Longrightarrow> d' = d \<or> claim identity d'"
    and claim_opened: "Open io identity d = (Inr store, d') \<Longrightarrow> emptyFile d \<or> claim identity d \<Longrightarrow> claim identity d'"

lemma Open_outcome:
  assumes "Open io identity d = (r, d')"
  shows "d' = d \<and> (\<exists>e. r = Inl e) \<or> (\<exists>kind. schemaTransaction identity kind d = Inr d')"
  using assms initialize_outcome[of io identity d] by (auto simp: Open_def split: if_splits)

lemma blank_empty: "emptyFile blank_disk"
  by (simp add: emptyFile_def blank_disk_def)

section \<open>What the steps of an initialization know\<close>

text \<open>\<open>since m0 m\<close>: the directory \<open>m\<close> is consistent and kept what \<open>m0\<close> had.\<close>

definition since :: "(Identity \<Rightarrow> disk \<Rightarrow> bool) \<Rightarrow> 'w instance_dir \<Rightarrow> 'w instance_dir \<Rightarrow> bool" where
  "since claim m0 m \<longleftrightarrow> inst_ok claim m \<and> keeps claim m0 m"

definition since_configured :: "(Identity \<Rightarrow> disk \<Rightarrow> bool) \<Rightarrow> 'w instance_dir \<Rightarrow> Settings \<Rightarrow> 'w instance_dir \<Rightarrow> bool" where
  "since_configured claim m0 s m \<longleftrightarrow> since claim m0 m \<and> configured claim s m"

definition since_fresh :: "(Identity \<Rightarrow> disk \<Rightarrow> bool) \<Rightarrow> 'w instance_dir \<Rightarrow> 'w instance_dir \<Rightarrow> bool" where
  "since_fresh claim m0 m \<longleftrightarrow> since claim m0 m \<and> idir_config m = Absent"

text \<open>Settings are present, and so is the secret.\<close>

definition since_secured :: "(Identity \<Rightarrow> disk \<Rightarrow> bool) \<Rightarrow> 'w instance_dir \<Rightarrow> Settings \<Rightarrow> 'w instance_dir \<Rightarrow> bool" where
  "since_secured claim m0 s m \<longleftrightarrow> since_configured claim m0 s m \<and> idir_secret m \<noteq> Absent"

definition since_opened :: "(Identity \<Rightarrow> disk \<Rightarrow> bool) \<Rightarrow> 'w instance_dir \<Rightarrow> Settings \<times> Store \<Rightarrow> 'w instance_dir \<Rightarrow> bool" where
  "since_opened claim m0 x m \<longleftrightarrow> since_secured claim m0 (fst x) m \<and> (\<exists>d. idir_database m = Stored d \<and> claim (settingsIdentity (fst x)) d \<and>
     snd x = \<lparr>st_db = dk_db d, st_identity = settingsIdentity (fst x), st_ephemeral = newEphemeralState\<rparr>)"

definition marked :: "InstallMarker \<Rightarrow> 'w instance_dir \<Rightarrow> bool" where
  "marked k m \<longleftrightarrow> idir_marker m = marker_file k"

text \<open>What a finished initialization leaves: the marker says ready beside settings, secret and database.\<close>

definition since_done :: "(Identity \<Rightarrow> disk \<Rightarrow> bool) \<Rightarrow> 'w instance_dir \<Rightarrow> Settings \<Rightarrow> 'w instance_dir \<Rightarrow> bool" where
  "since_done claim m0 s m \<longleftrightarrow> since_secured claim m0 s m \<and> completed claim s m \<and> marked markerReady m"

section \<open>Steps that do not depend on the database\<close>

lemma uninitialized_absent: "loadSettings f = Inl e \<Longrightarrow> errorsIs e ErrUninitialized \<Longrightarrow> f = Absent"
  by (auto simp: loadSettings_def readStrictJSON_def readProtectedFile_def bindR_def split: stored.splits if_splits option.splits sum.splits)

lemma triple_existsI: "worldly P \<Longrightarrow> triple P (existsI I f) (\<lambda>_. P) P"
  by (auto simp: triple_def existsI_def extI_def bindD_def attemptD_def worldly_def split: prod.splits reply.splits)

lemma triple_optD: "triple P (optD msg x) (\<lambda>a m. P m \<and> x = Some a) P"
  by (cases x) (auto simp: triple_def optD_def returnD_def failD_def)

lemma newSettings_valid: "newSettings r1 r2 ls = Some s \<Longrightarrow> validate_settings s"
  by (auto simp: newSettings_def Let_def split: if_splits)

lemma triple_NewSettings: "worldly P \<Longrightarrow> triple P (NewSettings I ls) (\<lambda>s m. P m \<and> validate_settings s) P"
  unfolding NewSettings_def
  by (rule triple_bind[OF triple_conseq[OF triple_randomRead]], assumption, assumption, erule conjunct1, assumption)
    (rule triple_bind[OF triple_conseq[OF triple_randomRead]], assumption, assumption, erule conjunct1, assumption,
     rule triple_conseq[OF triple_optD], auto dest: newSettings_valid)

lemma secret_absent: "readSecret f = Inl e \<Longrightarrow> errorsIs e ErrNotExist \<Longrightarrow> f = Absent"
  by (auto simp: readSecret_def readProtectedFile_def bindR_def split: stored.splits if_splits)

lemma secret_present: "readSecret f = Inr x \<Longrightarrow> f \<noteq> Absent"
  by (auto simp: readSecret_def readProtectedFile_def)

text \<open>Opening does not touch the marker, so a marker that says ready still stands.\<close>

lemma triple_conj: "triple P m Q E \<Longrightarrow> triple P' m Q' E' \<Longrightarrow> triple (\<lambda>h. P h \<and> P' h) m (\<lambda>a h. Q a h \<and> Q' a h) (\<lambda>h. E h \<and> E' h)"
  unfolding triple_def by (fastforce split: prod.splits reply.splits)

lemma worldly_marked: "worldly (marked k)"
  by (simp add: worldly_def marked_def)

lemma marked_readI: "triple (marked k) (readI I f) (\<lambda>_. marked k) (marked k)"
  by (rule triple_conseq[OF triple_readI(1)[OF worldly_marked]]) auto

lemma marked_OpenInstance: "triple (marked k) (OpenInstance I) (\<lambda>_. marked k) (marked k)"
proof -
  have o: "triple (marked k) (openStore I identity) (\<lambda>_. marked k) (marked k)" for identity
    by (auto simp: triple_def openStore_def marked_def split: prod.splits reply.splits option.splits bool.splits sum.splits)
  have rest: "triple (marked k) (bindD (guardD b msg) (\<lambda>_. bindD (LoadSettings I) (\<lambda>settings.
      bindD (wrapD msg' (ReadSecret I)) (\<lambda>_. bindD (openStore I (settingsIdentity settings)) (\<lambda>store. returnD (settings, store))))))
      (\<lambda>_. marked k) (marked k)" for b msg msg'
    unfolding LoadSettings_def ReadSecret_def
    by (rule triple_seq[OF triple_guard], assumption, rule triple_bind[OF triple_pre[OF marked_readI]], erule conjunct1,
        rule triple_bind[OF triple_wrap[OF marked_readI]], rule triple_bind[OF o], rule triple_return)
  show ?thesis unfolding OpenInstance_def LoadMarker_def
  proof (rule triple_bind[OF triple_extI[OF worldly_marked]], rule triple_bind[OF triple_readI(2)[OF worldly_marked]], goal_cases)
    case (1 _ r)
    then show ?case by (cases r) (auto intro!: triple_fail triple_pre[OF rest])
  qed
qed

lemma marked_validateCompleted: "triple (marked k) (validateCompleted I requested) (\<lambda>_. marked k) (marked k)"
proof -
  have close: "triple (marked k) (wrapD msg (extI f)) (\<lambda>_. marked k) (marked k)" for msg and f :: "('a, unit) action"
    by (rule triple_wrap[OF triple_extI[OF worldly_marked]])
  show ?thesis unfolding validateCompleted_def
  proof (rule triple_bind[OF triple_attestI[OF worldly_marked]], rule triple_bind[OF triple_wrap[OF marked_OpenInstance]], goal_cases)
    case (1 _ x)
    obtain s store where x: "x = (s, store)" by (cases x)
    show ?case unfolding x prod.case
      by (rule triple_if, rule triple_bind[OF triple_attempt_error[OF close]], rule triple_fail, simp split: sum.splits)
        (rule triple_bind[OF close], rule triple_bind[OF triple_attestI[OF worldly_marked]], rule triple_return)
  qed
qed

section \<open>Triples of the operations\<close>

context database_claim
begin

lemma openDatabase_result:
  assumes "openDatabase a identity f = (r, f')" "database_ok claim identity f"
  shows "database_ok claim identity f'"
    and "f = Stored d \<Longrightarrow> claim identity d \<Longrightarrow> \<exists>d'. f' = Stored d' \<and> claim identity d'"
    and "r = Inr store \<Longrightarrow> \<exists>d. f' = Stored d \<and> claim identity d \<and> store = \<lparr>st_db = dk_db d, st_identity = identity, st_ephemeral = newEphemeralState\<rparr>"
proof -
  have cases: "f' = f \<and> (\<exists>e. r = Inl e) \<or> f = Absent \<and> f' = Stored blank_disk \<and> (\<exists>e. r = Inl e) \<or>
      (\<exists>d' io. Open io identity (case f of Stored d \<Rightarrow> d | _ \<Rightarrow> blank_disk) = (r, d') \<and> f' = Stored d')"
    using assms(1) unfolding openDatabase_def by (auto split: if_splits prod.splits)
  show "database_ok claim identity f'"
    using cases assms(2) blank_empty claim_after by (fastforce simp: database_ok_def split: stored.splits)
  show "\<exists>d'. f' = Stored d' \<and> claim identity d'" if "f = Stored d" "claim identity d"
    using cases that claim_after by fastforce
  show "\<exists>d. f' = Stored d \<and> claim identity d \<and> store = \<lparr>st_db = dk_db d, st_identity = identity, st_ephemeral = newEphemeralState\<rparr>"
    if "r = Inr store"
    using cases that assms(2) blank_empty claim_opened Open_opened(1) by (fastforce simp: database_ok_def split: stored.splits)
qed

lemma worldly_since: "worldly (since claim m0)" "worldly (since_configured claim m0 s)"
  unfolding since_def since_configured_def by (intro worldly_conj worldly_inst)+

lemma since_settings:
  assumes "since claim m0 m" "loadSettings (idir_config m) = Inr s"
  shows "configured claim s m"
proof -
  have "idir_config m \<noteq> Absent" using assms(2) by (auto simp: loadSettings_def readStrictJSON_def readProtectedFile_def)
  then obtain t where t: "configured claim t m" using assms(1) by (auto simp: since_def inst_ok_def)
  then have "t = s" using assms(2) loadSettings_config[of t] by (simp add: configured_def)
  with t show ?thesis by simp
qed

lemma since_database:
  assumes "since_configured claim m0 s m" "database_ok claim (settingsIdentity s) f"
    "\<And>d. idir_database m = Stored d \<Longrightarrow> claim (settingsIdentity s) d \<Longrightarrow> \<exists>d'. f = Stored d' \<and> claim (settingsIdentity s) d'"
  shows "since_configured claim m0 s (m\<lparr>dir_world := w, idir_database := f\<rparr>)"
proof -
  have m: "inst_ok claim m" "keeps claim m0 m" and c: "configured claim s m" using assms(1) by (auto simp: since_configured_def since_def)
  have t: "t = s" if "configured claim t m" for t using that c config_file_inject[of t s] by (simp add: configured_def)
  have kept: "t = s" if "validate_settings t" "idir_config m0 = config_file t" for t
    using that m(2) c config_file_inject[of t s] by (auto simp: keeps_def configured_def config_file_def)
  have ready: "completed claim s m" if "idir_marker m = marker_file markerReady" using m(1) t that by (auto simp: inst_ok_def)
  let ?m = "m\<lparr>dir_world := w, idir_database := f\<rparr>"
  have "configured claim s ?m" using c assms(2) by (simp add: configured_def)
  moreover have "idir_marker ?m = marker_file markerReady \<longrightarrow> completed claim s ?m" using ready assms(3) by (auto simp: completed_def)
  ultimately have "inst_ok claim ?m" using m(1) by (auto simp: inst_ok_def)
  moreover have "keeps claim m0 ?m" using m(2) kept assms(3) unfolding keeps_def by simp blast
  ultimately show ?thesis using \<open>configured claim s ?m\<close> by (simp add: since_configured_def since_def)
qed

lemma since_marker:
  assumes "since claim m0 m" "marker = markerInitializing \<or> marker = markerReady \<and> (\<exists>s. configured claim s m \<and> completed claim s m)"
  shows "since claim m0 (m\<lparr>idir_marker := marker_file marker\<rparr>)"
proof -
  have t: "t = s" if "configured claim t m" "configured claim s m" for s t using that config_file_inject[of t s] by (auto simp: configured_def)
  show ?thesis using assms markers(3) t
    unfolding since_def inst_ok_def keeps_def by (auto simp: configured_def completed_def marker_file_def)
qed

lemma triple_SaveMarker:
  assumes "marker = markerInitializing \<or> marker = markerReady \<and> (\<exists>s. \<forall>m. P m \<longrightarrow> configured claim s m \<and> completed claim s m)" "\<And>m. P m \<Longrightarrow> since claim m0 m" "worldly P"
  shows "triple P (SaveMarker I marker) (\<lambda>_. since claim m0) (since claim m0)"
  unfolding SaveMarker_def
proof (rule triple_writeI[OF assms(3) worldly_since(1) assms(2)])
  fix m assume "P m"
  then have "since claim m0 (m\<lparr>idir_marker := marker_file marker\<rparr>)" using assms(1,2) since_marker by blast
  then show "since claim m0 (m\<lparr>idir_marker := Stored (marshalIndent (to_InstallMarker marker))\<rparr>)" by (simp add: marker_file_def)
  then show "since claim m0 (m\<lparr>idir_marker := Stored (marshalIndent (to_InstallMarker marker))\<rparr>)" .
qed

lemma worldly_fresh: "worldly (since_fresh claim m0)"
  unfolding since_fresh_def by (intro worldly_conj worldly_since worldly_inst(5)[where F = "\<lambda>_ c _ _. c = Absent"])

lemma since_fresh_config:
  assumes "since_fresh claim m0 m" "validate_settings s"
  shows "since_configured claim m0 s (m\<lparr>idir_config := config_file s\<rparr>)"
proof -
  have m: "inst_ok claim m" "keeps claim m0 m" "idir_config m = Absent" using assms(1) by (auto simp: since_fresh_def since_def)
  have f: "idir_secret m = Absent" "idir_database m = Absent" "idir_marker m \<noteq> marker_file markerReady"
    using m(1,3) by (auto simp: inst_ok_def configured_def config_file_def)
  have c: "configured claim s (m\<lparr>idir_config := config_file s\<rparr>)" using assms(2) f by (simp add: configured_def secret_ok_def database_ok_def)
  have "inst_ok claim (m\<lparr>idir_config := config_file s\<rparr>)" using m(1) f(3) c by (auto simp: inst_ok_def)
  moreover have "keeps claim m0 (m\<lparr>idir_config := config_file s\<rparr>)" using m(2,3) by (auto simp: keeps_def config_file_def)
  ultimately show ?thesis using c by (simp add: since_configured_def since_def)
qed

lemma triple_SaveSettings:
  "triple (\<lambda>m. since_fresh claim m0 m \<and> validate_settings s) (SaveSettings I s) (\<lambda>_. since_configured claim m0 s) (since claim m0)"
proof (cases "validate_settings s")
  case True
  have "triple (since_fresh claim m0) (writeI I idir_config (\<lambda>m. m\<lparr>idir_config := config_file s\<rparr>)) (\<lambda>_. since_configured claim m0 s) (since claim m0)"
    by (rule triple_writeI[OF worldly_fresh worldly_since(1)])
      (use since_fresh_config[OF _ True] in \<open>auto simp: since_fresh_def since_configured_def\<close>)
  then show ?thesis using True by (simp add: SaveSettings_def config_file_def)
qed (simp add: triple_def)

lemma triple_createSettings: "triple (since_fresh claim m0) (createSettings I requested) (\<lambda>s. since_configured claim m0 s) (since claim m0)"
proof -
  have fe: "since_fresh claim m0 m \<Longrightarrow> since claim m0 m" "since_fresh claim m0 m \<and> F \<Longrightarrow> since claim m0 m" for m F by (simp_all add: since_fresh_def)
  have w: "worldly (\<lambda>m. since_fresh claim m0 m \<and> F)" for F using worldly_fresh by (auto simp: worldly_def)
  have save: "triple (\<lambda>m. since_fresh claim m0 m \<and> validate_settings s)
      (bindD (attestI I) (\<lambda>_. bindD (wrapD ''write config'' (SaveSettings I s)) (\<lambda>_. returnD s))) (\<lambda>s. since_configured claim m0 s) (since claim m0)" for s
    by (rule triple_seq[OF triple_attestI[OF w] fe(2)], assumption)
      (rule triple_bind[OF triple_wrap[OF triple_SaveSettings]], rule triple_return)
  show ?thesis unfolding createSettings_def
    by (rule triple_seq[OF triple_existsI[OF worldly_fresh] fe(1)], assumption)
      (rule triple_seq[OF triple_if fe(1)], rule triple_return, assumption, rule triple_existsI[OF worldly_fresh], assumption,
       rule triple_seq[OF triple_guard fe(1)], assumption,
       rule triple_seq[OF triple_pre[OF triple_NewSettings[OF worldly_fresh]] fe(1)], erule conjunct1, assumption, rule save)
qed

lemma triple_resumeSettings: "triple (since claim m0) (resumeSettings I requested) (\<lambda>s. since_configured claim m0 s) (since claim m0)"
  unfolding resumeSettings_def LoadSettings_def
proof (rule triple_bind[OF triple_readI(2)[OF worldly_since(1)]], goal_cases)
  case (1 r)
  show ?case
  proof (cases r)
    case (Inl e)
    have "triple (\<lambda>m. since claim m0 m \<and> (loadSettings (idir_config m) = Inl e \<or> e = Err ''read protected file''))
        (if \<not> errorsIs e ErrUninitialized then failD e else createSettings I requested) (\<lambda>s. since_configured claim m0 s) (since claim m0)"
      using uninitialized_absent
      by (intro triple_if triple_fail triple_pre[OF triple_createSettings]) (auto simp: since_fresh_def)
    then show ?thesis by (simp add: Inl)
  next
    case (Inr s)
    have "triple (\<lambda>m. since claim m0 m \<and> loadSettings (idir_config m) = Inr s) (bindD (guardD b msg) (\<lambda>_. returnD s))
        (\<lambda>s. since_configured claim m0 s) (since claim m0)" for b msg
      by (rule triple_seq[OF triple_guard]) (auto intro!: triple_return simp: since_configured_def since_settings)
    then show ?thesis by (simp add: Inr)
  qed
qed

lemma since_secret:
  assumes "since_configured claim m0 s m" "idir_secret m = Absent" "length x = 32"
  shows "since_configured claim m0 s (m\<lparr>idir_secret := Stored x\<rparr>)"
  using assms unfolding since_configured_def since_def inst_ok_def keeps_def
  by (auto simp: configured_def completed_def secret_ok_def)

lemma worldly_secured: "worldly (since_secured claim m0 s)" "worldly (\<lambda>m. since_configured claim m0 s m \<and> idir_secret m = Absent)"
  unfolding since_secured_def
  by (intro worldly_conj worldly_since worldly_inst(5)[where F = "\<lambda>_ _ x _. x \<noteq> Absent"],
      intro worldly_conj worldly_since worldly_inst(5)[where F = "\<lambda>_ _ x _. x = Absent"])

lemma triple_resumeSecret: "triple (since_configured claim m0 s) (resumeSecret I) (\<lambda>_. since_secured claim m0 s) (since claim m0)"
  unfolding resumeSecret_def ReadSecret_def
proof (rule triple_seq[OF triple_readI(2)[OF worldly_since(2)]], goal_cases)
  case (1 m)
  then show ?case by (simp add: since_configured_def)
next
  case (2 r)
  let ?P = "\<lambda>m. since_configured claim m0 s m \<and> idir_secret m = Absent"
  have since: "?P m \<and> F \<Longrightarrow> since claim m0 m" "?P m \<Longrightarrow> since claim m0 m" for m F by (simp_all add: since_configured_def)
  have w: "worldly (\<lambda>m. ?P m \<and> F)" for F using worldly_secured(2)[of m0 s] by (auto simp: worldly_def)
  have new: "since_secured claim m0 s (m\<lparr>idir_secret := Stored x\<rparr>)" "since claim m0 (m\<lparr>idir_secret := Stored x\<rparr>)" if "?P m" "length x = 32" for m x
    using since_secret[of m0 s m x] that by (simp_all add: since_secured_def since_configured_def)
  have stored: "triple (\<lambda>m. ?P m \<and> length x = 32) (WriteSecret I x) (\<lambda>_. since_secured claim m0 s) (since claim m0)" for x
    unfolding WriteSecret_def
    by (rule triple_if, simp add: triple_def)
      (rule triple_writeI[OF w worldly_since(1)],
       use new since in auto)+
  have create: "triple ?P (bindD (wrapD ''generate instance secret'' (randomRead I 32)) (\<lambda>secret.
      bindD (attestI I) (\<lambda>_. wrapD ''write instance secret'' (WriteSecret I secret)))) (\<lambda>_. since_secured claim m0 s) (since claim m0)"
    by (rule triple_seq[OF triple_wrap[OF triple_randomRead[OF worldly_secured(2)]] since(2)], assumption)
      (rule triple_seq[OF triple_attestI[OF w] since(1)], assumption, rule triple_wrap[OF stored])
  show ?case
  proof (cases r)
    case (Inl e)
    have "triple (\<lambda>m. since_configured claim m0 s m \<and> (readSecret (idir_secret m) = Inl e \<or> e = Err ''read protected file''))
        (if \<not> errorsIs e ErrNotExist then failD (Wrapped ''read instance secret'' e) else
          bindD (wrapD ''generate instance secret'' (randomRead I 32)) (\<lambda>secret.
            bindD (attestI I) (\<lambda>_. wrapD ''write instance secret'' (WriteSecret I secret)))) (\<lambda>_. since_secured claim m0 s) (since claim m0)"
      using secret_absent
      by (intro triple_if triple_fail triple_pre[OF create]) (auto simp: since_configured_def)
    then show ?thesis by (simp add: Inl)
  next
    case (Inr x)
    then show ?thesis using secret_present by (auto intro!: triple_return simp: since_secured_def)
  qed
qed

lemma triple_openStore:
  "triple (since_secured claim m0 s) (openStore I (settingsIdentity s))
     (\<lambda>store m. since_secured claim m0 s m \<and> (\<exists>d. idir_database m = Stored d \<and> claim (settingsIdentity s) d \<and>
        store = \<lparr>st_db = dk_db d, st_identity = settingsIdentity s, st_ephemeral = newEphemeralState\<rparr>)) (since claim m0)"
proof (rule tripleI)
  fix m m' r assume sec: "since_secured claim m0 s m" and o: "openStore I (settingsIdentity s) m = (m', r)"
  then have m: "since_configured claim m0 s m" "openStore I (settingsIdentity s) m = (m', r)" by (simp_all add: since_secured_def)
  obtain w a where w: "in_open I (dir_world m) = (w, a)" by fastforce
  obtain q f where f: "openDatabase a (settingsIdentity s) (idir_database m) = (q, f)" by fastforce
  have ok: "database_ok claim (settingsIdentity s) (idir_database m)" using m(1) by (simp add: since_configured_def configured_def)
  have after: "since_configured claim m0 s (m\<lparr>dir_world := w, idir_database := f\<rparr>)"
    using since_database[OF m(1)] openDatabase_result(1,2)[OF f ok] by blast
  let ?g = "if idir_database m = Absent \<and> oa_created a then Stored blank_disk else idir_database m"
  have before: "since_configured claim m0 s (m\<lparr>dir_world := w, idir_database := ?g\<rparr>)"
    by (rule since_database[OF m(1)]) (use ok blank_empty in \<open>auto simp: database_ok_def\<close>)
  show "case r of Done store \<Rightarrow> since_secured claim m0 s m' \<and> (\<exists>d. idir_database m' = Stored d \<and> claim (settingsIdentity s) d \<and>
      store = \<lparr>st_db = dk_db d, st_identity = settingsIdentity s, st_ephemeral = newEphemeralState\<rparr>) | _ \<Rightarrow> since claim m0 m'"
    using m(2) sec after before openDatabase_result(3)[OF f ok]
    by (auto simp: openStore_def w f since_configured_def since_secured_def split: option.splits bool.splits sum.splits)
qed

lemma since_weaken:
  "since_configured claim m0 s m \<Longrightarrow> since claim m0 m" "since_secured claim m0 s m \<Longrightarrow> since claim m0 m" "since_opened claim m0 x m \<Longrightarrow> since claim m0 m"
  by (simp_all add: since_configured_def since_secured_def since_opened_def)

lemma worldly_opened: "worldly (since_opened claim m0 x)"
  using worldly_secured(1) by (auto simp: worldly_def since_opened_def)

lemma triple_OpenInstance: "triple (since claim m0) (OpenInstance I) (\<lambda>x. since_opened claim m0 x) (since claim m0)"
proof -
  have secret: "triple (since_configured claim m0 s) (wrapD msg (ReadSecret I)) (\<lambda>_. since_secured claim m0 s) (since claim m0)" for s msg
    unfolding ReadSecret_def
    by (rule triple_wrap, rule triple_conseq[OF triple_readI(1)[OF worldly_since(2)]])
      (auto simp: since_secured_def since_weaken dest: secret_present)
  have settings: "triple (since claim m0) (LoadSettings I) (\<lambda>s. since_configured claim m0 s) (since claim m0)"
    unfolding LoadSettings_def
    by (rule triple_conseq[OF triple_readI(1)[OF worldly_since(1)]]) (auto simp: since_configured_def since_settings)
  have opened: "triple (since_secured claim m0 s) (bindD (openStore I (settingsIdentity s)) (\<lambda>store. returnD (s, store))) (\<lambda>x. since_opened claim m0 x) (since claim m0)" for s
    by (rule triple_bind[OF triple_openStore], rule triple_return) (simp add: since_opened_def)
  have rest: "triple (since claim m0) (bindD (guardD b msg) (\<lambda>_. bindD (LoadSettings I) (\<lambda>settings.
      bindD (wrapD msg' (ReadSecret I)) (\<lambda>_. bindD (openStore I (settingsIdentity settings)) (\<lambda>store. returnD (settings, store))))))
      (\<lambda>x. since_opened claim m0 x) (since claim m0)" for b msg msg'
    by (rule triple_seq[OF triple_guard], assumption, rule triple_bind[OF triple_pre[OF settings]], erule conjunct1,
        rule triple_bind[OF secret opened])
  show ?thesis unfolding OpenInstance_def LoadMarker_def
  proof (rule triple_bind[OF triple_extI[OF worldly_since(1)]], rule triple_bind[OF triple_readI(2)[OF worldly_since(1)]], goal_cases)
    case (1 _ r)
    then show ?case by (cases r) (auto intro!: triple_fail triple_pre[OF rest])
  qed
qed

lemma triple_validateCompleted:
  "triple (since claim m0) (validateCompleted I requested) (\<lambda>s. since_secured claim m0 s) (since claim m0)"
proof -
  have close: "triple (since_opened claim m0 x) (wrapD msg (extI f)) (\<lambda>_. since_opened claim m0 x) (since claim m0)" for x msg and f :: "('a, unit) action"
    by (rule triple_wrap, rule triple_conseq[OF triple_extI[OF worldly_opened]]) (auto simp: since_weaken)
  have refuse: "triple (since_opened claim m0 x) (bindD (attemptD (wrapD msg (extI (in_close I)))) (\<lambda>c. failD (joinedWith e c))) Q (since claim m0)" for x msg e and Q :: "Settings \<Rightarrow> 'a instance_dir \<Rightarrow> bool"
    by (rule triple_bind[OF triple_attempt_error[OF close]], rule triple_fail) (auto split: sum.splits simp: since_weaken)
  have accept: "triple (since_opened claim m0 x) (bindD (wrapD msg (extI (in_close I))) (\<lambda>_. bindD (attestI I) (\<lambda>_. returnD (fst x))))
      (\<lambda>s. since_secured claim m0 s) (since claim m0)" for x msg
    by (rule triple_bind[OF close], rule triple_seq[OF triple_attestI[OF worldly_opened]], simp add: since_weaken, rule triple_return)
      (simp add: since_opened_def)
  show ?thesis unfolding validateCompleted_def
  proof (rule triple_bind[OF triple_attestI[OF worldly_since(1)]], rule triple_bind[OF triple_wrap[OF triple_OpenInstance]], goal_cases)
    case (1 _ x)
    obtain s store where x: "x = (s, store)" by (cases x)
    show ?case unfolding x prod.case using refuse[of "(s, store)"] accept[of "(s, store)"] by (intro triple_if) auto
  qed
qed

lemma since_ready_done: "since_secured claim m0 s m \<Longrightarrow> marked markerReady m \<Longrightarrow> since_done claim m0 s m"
proof -
  assume m: "since_secured claim m0 s m" "marked markerReady m"
  then obtain t where "configured claim t m" "completed claim t m" "configured claim s m"
    by (auto simp: since_done_def since_secured_def since_configured_def since_def inst_ok_def marked_def configured_def config_file_def)
  moreover from this have "t = s" using config_file_inject[of t s] by (simp add: configured_def)
  ultimately show ?thesis using m by (simp add: since_done_def)
qed

lemma worldly_done: "worldly (since_done claim m0 s)" "worldly (\<lambda>m. since_secured claim m0 s m \<and> completed claim s m)"
  unfolding since_done_def by (intro worldly_conj worldly_secured worldly_inst worldly_marked)+

lemma triple_markReady:
  "triple (\<lambda>m. since_secured claim m0 s m \<and> completed claim s m) (SaveMarker I markerReady) (\<lambda>_. since_done claim m0 s) (since claim m0)"
  unfolding SaveMarker_def
proof (rule triple_writeI[OF worldly_done(2) worldly_since(1)])
  fix m assume m: "since_secured claim m0 s m \<and> completed claim s m"
  then have "since claim m0 (m\<lparr>idir_marker := marker_file markerReady\<rparr>)"
    by (intro since_marker) (auto simp: since_secured_def since_configured_def)
  with m show "since claim m0 (m\<lparr>idir_marker := Stored (marshalIndent (to_InstallMarker markerReady))\<rparr>)"
    "since_done claim m0 s (m\<lparr>idir_marker := Stored (marshalIndent (to_InstallMarker markerReady))\<rparr>)"
    by (simp_all add: since_done_def since_secured_def since_configured_def configured_def completed_def marked_def marker_file_def)
qed (auto intro: since_weaken)

lemma ready_marked: "since claim m0 m \<Longrightarrow> loadMarker (idir_marker m) = Inr marker \<Longrightarrow> im_Phase marker = ''ready'' \<Longrightarrow> marked markerReady m"
  using loadMarker_saved[OF markers(1)] loadMarker_saved[OF markers(2)]
  by (auto simp: since_def inst_ok_def marked_def marker_file_def loadMarker_def readStrictJSON_def readProtectedFile_def markerInitializing_def)

lemma triple_initializeWithLease:
  "triple (since claim m0) (initializeWithLease I requested) (\<lambda>s. since_done claim m0 s) (since claim m0)"
proof -
  have initial: "triple (since claim m0) (wrapD msg (SaveMarker I markerInitializing)) (\<lambda>_. since claim m0) (since claim m0)" for msg
    by (rule triple_wrap, rule triple_SaveMarker) (auto simp: worldly_since)
  have opened: "triple (since_secured claim m0 s) (openStore I (settingsIdentity s)) (\<lambda>_ m. since_secured claim m0 s m \<and> completed claim s m) (since claim m0)" for s
    by (rule triple_conseq[OF triple_openStore]) (auto simp: completed_def since_secured_def)
  have finish: "triple (since_secured claim m0 s) (bindD (attestI I) (\<lambda>_. bindD (openStore I (settingsIdentity s)) (\<lambda>_.
      bindD (wrapD msg (extI (in_close I))) (\<lambda>_. bindD (attestI I) (\<lambda>_. bindD (wrapD msg' (SaveMarker I markerReady)) (\<lambda>_.
      bindD (attestI I) (\<lambda>_. returnD s))))))) (\<lambda>s. since_done claim m0 s) (since claim m0)" for s msg msg'
    by (rule triple_seq[OF triple_attestI[OF worldly_secured(1)]], erule since_weaken, rule triple_bind[OF opened],
        rule triple_seq[OF triple_wrap[OF triple_extI[OF worldly_done(2)]]], auto intro: since_weaken,
        rule triple_seq[OF triple_attestI[OF worldly_done(2)]], auto intro: since_weaken,
        rule triple_bind[OF triple_wrap[OF triple_markReady]], rule triple_seq[OF triple_attestI[OF worldly_done(1)]],
        auto simp: since_done_def intro: since_weaken, rule triple_return)
  have start: "triple (since claim m0) (bindD (attestI I) (\<lambda>_. bindD (wrapD msg (SaveMarker I markerInitializing)) (\<lambda>_.
      bindD (resumeSettings I requested) (\<lambda>settings. bindD (resumeSecret I) (\<lambda>_. bindD (attestI I) (\<lambda>_.
      bindD (openStore I (settingsIdentity settings)) (\<lambda>_. bindD (wrapD msg' (extI (in_close I))) (\<lambda>_. bindD (attestI I) (\<lambda>_.
      bindD (wrapD msg'' (SaveMarker I markerReady)) (\<lambda>_. bindD (attestI I) (\<lambda>_. returnD settings)))))))))))
      (\<lambda>s. since_done claim m0 s) (since claim m0)" for msg msg' msg''
    by (rule triple_bind[OF triple_attestI[OF worldly_since(1)]], rule triple_bind[OF initial], rule triple_bind[OF triple_resumeSettings],
        rule triple_bind[OF triple_resumeSecret finish])
  have complete: "triple (\<lambda>m. since claim m0 m \<and> marked markerReady m) (validateCompleted I requested) (\<lambda>s. since_done claim m0 s) (since claim m0)"
    by (rule triple_conseq[OF triple_conj[OF triple_validateCompleted marked_validateCompleted]]) (auto simp: since_ready_done)
  show ?thesis unfolding initializeWithLease_def LoadMarker_def
  proof (rule triple_bind[OF triple_readI(2)[OF worldly_since(1)]], goal_cases)
    case (1 r)
    show ?case
      by (rule triple_if, rule triple_fail, erule conjunct1, rule triple_if, rule triple_pre[OF complete])
        (use ready_marked in \<open>auto split: sum.splits intro: triple_pre[OF start]\<close>)
  qed
qed

lemma triple_LeaseInitialize: "triple (since claim m0) (LeaseInitialize I requested) (\<lambda>s. since_done claim m0 s) (since claim m0)"
  unfolding LeaseInitialize_def by (rule triple_bind[OF triple_attestI[OF worldly_since(1)] triple_initializeWithLease])

lemma since_done_since: "since_done claim m0 s m \<Longrightarrow> since claim m0 m"
  by (auto simp: since_done_def intro: since_weaken)

lemma triple_InitializeInstance: "triple (since claim m0) (InitializeInstance I requested) (\<lambda>s. since_done claim m0 s) (since claim m0)"
  unfolding InitializeInstance_def
proof (rule triple_bind[OF triple_extI[OF worldly_since(1)]], rule triple_bind[OF triple_extI[OF worldly_since(1)]],
    rule triple_bind[OF triple_attempt_error[OF triple_LeaseInitialize]], goal_cases)
  case (1 _ _ r)
  have close: "worldly P \<Longrightarrow> triple P (attemptD (wrapD msg (extI f))) (\<lambda>_. P) P" for P :: "'a instance_dir \<Rightarrow> bool" and msg and f :: "('a, unit) action"
    by (rule triple_conseq[OF triple_attempt_error[OF triple_wrap[OF triple_extI]]]) (auto split: sum.splits)
  show ?case
  proof (cases r)
    case (Inl e)
    show ?thesis unfolding Inl sum.case by (rule triple_bind[OF close[OF worldly_since(1)]], rule triple_fail)
  next
    case (Inr s)
    show ?thesis unfolding Inr sum.case
    proof (rule triple_seq[OF close[OF worldly_done(1)] since_done_since], assumption, goal_cases)
      case (1 c)
      then show ?case by (cases c) (auto intro!: triple_fail triple_return since_done_since)
    qed
  qed
qed

lemma triple_OpenForServe: "triple (since claim m0) (OpenForServe I) (\<lambda>x. since_opened claim m0 x) (since claim m0)"
  unfolding OpenForServe_def
proof (rule triple_bind[OF triple_extI[OF worldly_since(1)]], rule triple_bind[OF triple_extI[OF worldly_since(1)]],
    rule triple_bind[OF triple_attempt_error[OF triple_OpenInstance]], goal_cases)
  case (1 _ _ r)
  have quiet: "worldly P \<Longrightarrow> triple P (attemptD (extI f)) (\<lambda>_. P) P" "worldly P \<Longrightarrow> triple P (attemptD (wrapD msg (extI f))) (\<lambda>_. P) P"
    for P :: "'a instance_dir \<Rightarrow> bool" and msg and f :: "('a, unit) action"
    by (rule triple_conseq[OF triple_attempt_error[OF triple_extI]], auto split: sum.splits)
      (rule triple_conseq[OF triple_attempt_error[OF triple_wrap[OF triple_extI]]], auto split: sum.splits)
  show ?case
  proof (cases r)
    case (Inl e)
    show ?thesis unfolding Inl sum.case by (rule triple_bind[OF quiet(2)[OF worldly_since(1)]], rule triple_fail)
  next
    case (Inr x)
    show ?thesis unfolding Inr sum.case
    proof (rule triple_seq[OF quiet(1)[OF worldly_opened] since_weaken(3)], assumption, goal_cases)
      case (1 c)
      show ?case
      proof (cases c)
        case (Inl e)
        show ?thesis unfolding Inl sum.case
          by (rule triple_seq[OF quiet(1)[OF worldly_opened] since_weaken(3)], assumption,
              rule triple_seq[OF quiet(1)[OF worldly_opened] since_weaken(3)], assumption, rule triple_fail, erule since_weaken)
      qed (auto intro!: triple_return)
    qed
  qed
qed

end

section \<open>What the database file promises\<close>

text \<open>Whoever serves the store: the file stays the database of its identity. Between initializations: it is a
  complete and valid store.\<close>

definition full_for :: "Identity \<Rightarrow> disk \<Rightarrow> bool" where
  "full_for identity d \<longleftrightarrow> inspectSchemaState d = Inr (schemaFull, SchemaVersion) \<and> validateIdentity identity d = Inr () \<and>
     validatePersistentState identity (dk_db d)"

lemma full_for_owned: "full_for identity d \<Longrightarrow> owned_by identity d"
  by (simp add: full_for_def owned_by_def validateIdentity_metadata)

interpretation owned: database_claim owned_by
proof
  have t: "schemaTransaction identity kind d = Inr d' \<Longrightarrow> owned_by identity d'" for identity kind d d'
    using schemaTransaction_spec(2) validateIdentity_metadata by (fastforce simp: owned_by_def)
  show "Open io identity d = (r, d') \<Longrightarrow> d' = d \<or> owned_by identity d'" for io identity d r d'
    using Open_outcome[of io identity d r d'] t by blast
  show "Open io identity d = (Inr store, d') \<Longrightarrow> owned_by identity d'" for io identity d store d'
    using Open_outcome[of io identity d "Inr store" d'] t by blast
qed

lemma insertInitialRows_layout:
  "insertInitialRows identity c l d = Inr d' \<Longrightarrow> dk_tables d' = dk_tables d \<and> dk_auxiliary d' = dk_auxiliary d \<and> dk_version d' = dk_version d"
  by (auto simp: insertInitialRows_def insertMetadata_def insertRuntime_def onRows_eq bindR_eq_Inr split: if_splits)

lemma schemaTransaction_full:
  assumes "schemaTransaction identity kind d = Inr d'" "emptyFile d \<or> full_for identity d"
  shows "full_for identity d'"
proof -
  have "inspectSchemaState d' = Inr (schemaFull, SchemaVersion)"
  proof (cases "emptyFile d")
    case True
    then have "inspectSchemaState d = Inr (schemaEmpty, 0)"
      by (simp add: inspectSchemaState_def readSchemaTables_def SchemaVersion_def emptyFile_def)
    with assms(1) True obtain l c where "insertInitialRows identity l c (createSchemaV1 d) = Inr d'"
      by (auto simp: schemaTransaction_def migrate_def emptyFile_def bindR_eq_Inr split: if_splits)
    from insertInitialRows_layout[OF this] True show ?thesis
      by (intro fullSchema_inspected) (auto simp: createSchemaV1_def emptyFile_def)
  next
    case False
    then have full: "inspectSchemaState d = Inr (schemaFull, SchemaVersion)" using assms(2) by (simp add: full_for_def)
    then have "dk_version d = SchemaVersion" using inspectSchemaState_version by fastforce
    then have "d' = d" using assms(1) full
      by (auto simp: schemaTransaction_def migrate_def insertInitialRows_def SchemaVersion_def bindR_eq_Inr split: if_splits)
    then show ?thesis using full by simp
  qed
  then show ?thesis using schemaTransaction_spec(1,2)[OF assms(1)] by (simp add: full_for_def)
qed

interpretation complete: database_claim full_for
  by unfold_locales (use Open_outcome schemaTransaction_full in blast)+

section \<open>Runs of an instance\<close>

text \<open>The life of a state directory: initializations, on their own or under the lease of a deployment, and
  servers that open the store, answer requests and end at any point. Every step may have another
  environment.\<close>

inductive instance_step :: "'w instance_dir \<Rightarrow> 'w instance_dir \<Rightarrow> bool" where
  initialize: "InitializeInstance I requested m = (m', r) \<Longrightarrow> instance_step m m'"
| lease: "LeaseInitialize I requested m = (m', r) \<Longrightarrow> instance_step m m'"
| opens: "OpenForServe I m = (m', r) \<Longrightarrow> instance_step m m'"
| serves: "OpenForServe I m = (m', Done (s, store)) \<Longrightarrow> store_reachable store store' \<Longrightarrow> idir_database m' = Stored d \<Longrightarrow>
    instance_step m (m'\<lparr>idir_database := Stored (d\<lparr>dk_db := st_db store'\<rparr>)\<rparr>)"

lemma since_start: "inst_ok owned_by m \<Longrightarrow> since owned_by m m"
  by (simp add: since_def keeps_refl)

lemma instance_step_since:
  assumes "instance_step m m'" "inst_ok owned_by m"
  shows "since owned_by m m'"
  using assms(1)
proof cases
  case (initialize I requested r)
  then show ?thesis using tripleD[OF owned.triple_InitializeInstance since_start[OF assms(2)]] by (fastforce split: reply.splits intro: owned.since_done_since)
next
  case (lease I requested r)
  then show ?thesis using tripleD[OF owned.triple_LeaseInitialize since_start[OF assms(2)]] by (fastforce split: reply.splits intro: owned.since_done_since)
next
  case (opens I r)
  then show ?thesis using tripleD[OF owned.triple_OpenForServe since_start[OF assms(2)]] by (fastforce split: reply.splits intro: owned.since_weaken)
next
  case (serves I m1 s store store' d)
  have o: "since_opened owned_by m (s, store) m1" using tripleD[OF owned.triple_OpenForServe since_start[OF assms(2)] serves(2)] by simp
  then have c: "since_configured owned_by m s m1" and d: "owned_by (settingsIdentity s) d" using serves(4) by (auto simp: since_opened_def since_secured_def)
  have "since_configured owned_by m s (m1\<lparr>dir_world := dir_world m1, idir_database := Stored (d\<lparr>dk_db := st_db store'\<rparr>)\<rparr>)"
    using c d by (intro owned.since_database) (auto simp: database_ok_def owned_by_def)
  then show ?thesis using serves(1) by (auto intro: owned.since_weaken)
qed

lemma instance_reachable_since:
  assumes "instance_step\<^sup>*\<^sup>* m m'" "inst_ok owned_by m"
  shows "inst_ok owned_by m' \<and> keeps owned_by m m'"
  using assms
proof (induction rule: rtranclp_induct)
  case (step b c)
  then show ?case using instance_step_since[of b c] keeps_trans by (auto simp: since_def)
qed (simp add: keeps_refl)

end
