(* ===== verification/InitializeLaws.thy ===== *)
theory InitializeLaws
  imports InstanceLaws
begin

text \<open>
  Initialization completes: after any number of interrupted initializations of an empty directory, one
  that meets no failure returns the settings, leaves a directory whose marker says ready, and repeating it
  changes nothing; a server then opens the store.
\<close>

section \<open>An environment without failures\<close>

text \<open>Every call is answered, writes succeed, the database opens, and two draws of sixteen bytes do not give
  the same identifier.\<close>

definition obligingI :: "'w instance_os \<Rightarrow> bool" where
  "obligingI I \<longleftrightarrow> responds (in_EnsureStateDirectory I) \<and> responds (in_acquireLease I) \<and> responds (in_closeLease I) \<and>
     responds (in_AttestLockPath I) \<and> responds (in_acquireServerLock I) \<and> responds (in_attestServerLock I) \<and>
     responds (in_read I) \<and> responds (in_stat I) \<and> responds (in_random I 16) \<and> responds (in_random I 32) \<and> responds (in_close I) \<and>
     (\<forall>w. snd (in_write I w) = Succeeded) \<and>
     (\<forall>w. smooth (oa_io (snd (in_open I w))) \<and> oa_stops (snd (in_open I w)) = None) \<and>
     (\<forall>w w1 r1 w2 r2. in_random I 16 w = (w1, Done r1) \<longrightarrow> in_random I 16 w1 = (w2, Done r2) \<longrightarrow> New (fill 16 r1) \<noteq> New (fill 16 r2))"

lemma length_fill: "length (fill n b) = n"
  by (simp add: fill_def)

lemma runs_extI: "responds f \<Longrightarrow> worldly P \<Longrightarrow> runs P (extI f) (\<lambda>_. P)"
proof (rule runsI)
  fix m assume f: "responds f" "worldly P" "P m"
  obtain w a where "f (dir_world m) = (w, Done a)" using f(1) by (rule answersE)
  then show "\<exists>m' a. extI f m = (m', Done a) \<and> P m'" using f(2,3) by (simp add: extI_def worldly_def)
qed

lemma runs_read:
  assumes "responds (in_read I)" "worldly P"
  shows "runs P (attemptD (readI I f)) (\<lambda>r m. P m \<and> f m = r)"
    "(\<And>m. P m \<Longrightarrow> \<exists>a. f m = Inr a) \<Longrightarrow> runs P (readI I f) (\<lambda>a m. P m \<and> f m = Inr a)"
proof -
  have "\<exists>w. readI I f m = (m\<lparr>dir_world := w\<rparr>, case f (m\<lparr>dir_world := w\<rparr>) of Inl e \<Rightarrow> Fail e | Inr a \<Rightarrow> Done a)" for m
    using assms(1) by (auto simp: readI_def bindD_def attemptD_def extI_def elim!: answersE[where w = "dir_world m"])
  moreover have "P (m\<lparr>dir_world := w\<rparr>)" if "P m" for m w using assms(2) that by (simp add: worldly_def)
  ultimately have r: "\<exists>m'. P m' \<and> readI I f m = (m', case f m' of Inl e \<Rightarrow> Fail e | Inr a \<Rightarrow> Done a)" if "P m" for m
    using that by blast
  show "runs P (attemptD (readI I f)) (\<lambda>r m. P m \<and> f m = r)"
    by (rule runsI) (use r in \<open>fastforce simp: attemptD_def split: sum.splits\<close>)
  show "runs P (readI I f) (\<lambda>a m. P m \<and> f m = Inr a)" if f: "\<And>m. P m \<Longrightarrow> \<exists>a. f m = Inr a"
    by (rule runsI) (use r f in fastforce)
qed

lemma runs_existsI: "responds (in_stat I) \<Longrightarrow> worldly P \<Longrightarrow> runs P (existsI I p) (\<lambda>b m. P m \<and> b = p m)"
proof (rule runsI)
  fix m assume f: "responds (in_stat I)" "worldly P" "P m"
  obtain w a where "in_stat I (dir_world m) = (w, Done a)" using f(1) by (rule answersE)
  then show "\<exists>m' b. existsI I p m = (m', Done b) \<and> P m' \<and> b = p m'"
    using f(2,3) by (simp add: existsI_def bindD_def attemptD_def extI_def worldly_def)
qed

lemma runs_randomRead: "responds (in_random I n) \<Longrightarrow> worldly P \<Longrightarrow> runs P (randomRead I n) (\<lambda>b m. P m \<and> length b = n)"
  unfolding randomRead_def
  by (rule runs_bind[OF runs_extI], assumption, assumption) (auto intro!: runs_return simp: length_fill)

lemma runs_writeI:
  assumes "\<And>w. snd (in_write I w) = Succeeded" "worldly P" "\<And>m. P m \<Longrightarrow> existing m \<noteq> Damaged" "\<And>m. P m \<Longrightarrow> Q (change m)"
  shows "runs P (writeI I existing change) (\<lambda>_. Q)"
proof (rule runsI)
  fix m assume m: "P m"
  obtain w where w: "in_write I (dir_world m) = (w, Succeeded)" using assms(1)[of "dir_world m"] by (cases "in_write I (dir_world m)") auto
  have "Q (change (m\<lparr>dir_world := w\<rparr>))" using assms(2,4) m by (simp add: worldly_def)
  then show "\<exists>m' a. writeI I existing change m = (m', Done a) \<and> Q m'" using assms(3)[OF m] w by (simp add: writeI_def)
qed

lemma runs_attempt_bind: "runs P m R \<Longrightarrow> (\<And>a. runs (R a) (f (Inr a)) Q) \<Longrightarrow> runs P (bindD (attemptD m) f) Q"
  by (rule runs_bind[OF runs_attempt]) (auto simp: runs_def)

lemma runs_triple: "runs P m R \<Longrightarrow> triple P m Q E \<Longrightarrow> runs P m (\<lambda>a h. Q a h \<and> R a h)"
  by (rule runsI) (fastforce simp: runs_def dest: tripleD)

lemma obliging_NewSettings:
  assumes "obligingI I" "worldly P"
  shows "runs P (NewSettings I DefaultListeners) (\<lambda>s m. P m \<and> validate_settings s)"
proof (rule runsI)
  fix m assume m: "P m"
  have r: "responds (in_random I 16)" using assms(1) by (simp add: obligingI_def)
  obtain w1 r1 where 1: "in_random I 16 (dir_world m) = (w1, Done r1)" using r by (rule answersE)
  obtain w2 r2 where 2: "in_random I 16 w1 = (w2, Done r2)" using r by (rule answersE)
  have "New (fill 16 r1) \<noteq> New (fill 16 r2)" using assms(1) 1 2 by (simp add: obligingI_def)
  then obtain s where s: "newSettings (fill 16 r1) (fill 16 r2) DefaultListeners = Some s" using newSettings_default length_fill by metis
  have "NewSettings I DefaultListeners m = (m\<lparr>dir_world := w2\<rparr>, Done s)"
    by (simp add: NewSettings_def randomRead_def extI_def bindD_def returnD_def optD_def 1 2 s)
  then show "\<exists>m' a. NewSettings I DefaultListeners m = (m', Done a) \<and> P m' \<and> validate_settings a"
    using m assms(2) newSettings_valid[OF s] by (auto simp: worldly_def)
qed

section \<open>A fresh or interrupted directory\<close>

lemma obliging_calls:
  assumes "obligingI I"
  shows "responds (in_EnsureStateDirectory I)" "responds (in_acquireLease I)" "responds (in_closeLease I)" "responds (in_AttestLockPath I)"
    "responds (in_acquireServerLock I)" "responds (in_attestServerLock I)" "responds (in_read I)" "responds (in_stat I)"
    "responds (in_random I 32)" "responds (in_close I)" "snd (in_write I w) = Succeeded"
  using assms by (simp_all add: obligingI_def)

lemma runs_attestI: "obligingI I \<Longrightarrow> worldly P \<Longrightarrow> runs P (attestI I) (\<lambda>_. P)"
  unfolding attestI_def by (intro runs_wrap runs_extI obliging_calls)

lemma runs_createSettings:
  assumes "obligingI I"
  shows "runs (since_fresh full_for m0) (createSettings I None) (\<lambda>s. since_configured full_for m0 s)"
proof -
  note obliging = obliging_calls[OF assms]
  have absent: "idir_secret m = Absent \<and> idir_database m = Absent" if "since_fresh full_for m0 m" for m
    using that by (auto simp: since_fresh_def since_def inst_ok_def configured_def config_file_def)
  have w: "worldly (\<lambda>m. since_fresh full_for m0 m \<and> F)" for F using complete.worldly_fresh by (auto simp: worldly_def)
  have saved: "runs (\<lambda>m. since_fresh full_for m0 m \<and> validate_settings s) (SaveSettings I s) (\<lambda>_. since_configured full_for m0 s)" for s
    unfolding SaveSettings_def
    by (rule runs_fact) (simp add: config_file_def[symmetric],
      rule runs_writeI[OF obliging(11) complete.worldly_fresh], simp add: since_fresh_def, erule complete.since_fresh_config)
  have secret: "runs (since_fresh full_for m0) (existsI I (\<lambda>m. idir_secret m \<noteq> Absent)) (\<lambda>b m. since_fresh full_for m0 m \<and> \<not> b)"
    by (rule runs_conseq[OF runs_existsI[OF obliging(8) complete.worldly_fresh]]) (auto dest: absent)
  have database: "runs (\<lambda>m. since_fresh full_for m0 m \<and> \<not> b) (if b then returnD True else existsI I (\<lambda>m. idir_database m \<noteq> Absent))
      (\<lambda>b m. since_fresh full_for m0 m \<and> \<not> b)" for b
    by (rule runs_fact, simp, rule runs_conseq[OF runs_existsI[OF obliging(8) complete.worldly_fresh]]) (auto dest: absent)
  show ?thesis unfolding createSettings_def option.case
    by (rule runs_bind[OF secret], rule runs_bind[OF database], rule runs_bind[OF runs_guard], erule conjunct2,
        rule runs_bind[OF obliging_NewSettings[OF assms w]], rule runs_bind[OF runs_attestI[OF assms]])
      (auto intro!: runs_bind runs_wrap runs_return runs_conseq[OF saved] worldly_conj w)
qed

lemma since_loads:
  assumes "since full_for m0 m"
  shows "loadSettings (idir_config m) = Inl ErrUninitialized \<and> since_fresh full_for m0 m \<or>
    (\<exists>s. loadSettings (idir_config m) = Inr s \<and> since_configured full_for m0 s m)"
proof (cases "idir_config m = Absent")
  case True
  then show ?thesis using assms
    by (simp add: loadSettings_def readStrictJSON_def readProtectedFile_def since_fresh_def bindR_def)
next
  case False
  then obtain s where "configured full_for s m" using assms by (auto simp: since_def inst_ok_def)
  then show ?thesis using assms loadSettings_config[of s] by (auto simp: since_configured_def configured_def)
qed

lemma runs_resumeSettings:
  assumes "obligingI I"
  shows "runs (since full_for m0) (resumeSettings I None) (\<lambda>s. since_configured full_for m0 s)"
  unfolding resumeSettings_def LoadSettings_def
proof (rule runs_bind[OF runs_read(1)[OF obliging_calls(7)[OF assms] complete.worldly_since(1)]], goal_cases)
  case (1 r)
  show ?case
  proof (cases r)
    case (Inl e)
    show ?thesis
    proof (cases "e = ErrUninitialized")
      case True
      then show ?thesis unfolding Inl
        by (simp, intro runs_conseq[OF runs_createSettings[OF assms]]) (auto dest!: since_loads)
    next
      case False
      then show ?thesis unfolding Inl by (auto simp: runs_def dest!: since_loads)
    qed
  next
    case (Inr s)
    then show ?thesis
      by (auto simp: runs_def bindD_def guardD_def returnD_def since_configured_def complete.since_settings)
  qed
qed

lemma readSecret_cases: "secret_ok f \<Longrightarrow> f = Absent \<and> readSecret f = Inl ErrNotExist \<or> f \<noteq> Absent \<and> (\<exists>x. readSecret f = Inr x)"
  by (auto simp: secret_ok_def readSecret_def readProtectedFile_def bindR_def)

lemma runs_resumeSecret:
  assumes "obligingI I"
  shows "runs (since_configured full_for m0 s) (resumeSecret I) (\<lambda>_. since_secured full_for m0 s)"
  unfolding resumeSecret_def ReadSecret_def
proof (rule runs_bind[OF runs_read(1)[OF obliging_calls(7)[OF assms] complete.worldly_since(2)]], goal_cases)
  case (1 r)
  let ?P = "\<lambda>m. since_configured full_for m0 s m \<and> idir_secret m = Absent"
  have ok: "since_configured full_for m0 s m \<Longrightarrow> secret_ok (idir_secret m)" for m by (simp add: since_configured_def configured_def)
  have w: "worldly (\<lambda>m. ?P m \<and> F)" for F using complete.worldly_secured(2)[of m0 s] by (auto simp: worldly_def)
  have stored: "runs (\<lambda>m. ?P m \<and> length x = 32) (WriteSecret I x) (\<lambda>_. since_secured full_for m0 s)" for x
    unfolding WriteSecret_def
    by (rule runs_fact, simp, rule runs_writeI[OF obliging_calls(11)[OF assms] complete.worldly_secured(2)])
      (auto simp: since_secured_def complete.since_secret)
  have create: "runs ?P (bindD (wrapD ''generate instance secret'' (randomRead I 32)) (\<lambda>secret.
      bindD (attestI I) (\<lambda>_. wrapD ''write instance secret'' (WriteSecret I secret)))) (\<lambda>_. since_secured full_for m0 s)"
    by (rule runs_bind[OF runs_wrap[OF runs_randomRead[OF obliging_calls(9)[OF assms] complete.worldly_secured(2)]]],
        rule runs_bind[OF runs_attestI[OF assms w] runs_wrap[OF stored]])
  show ?case
  proof (cases r)
    case (Inl e)
    show ?thesis
    proof (cases "e = ErrNotExist")
      case True
      then show ?thesis unfolding Inl by (simp, intro runs_conseq[OF create]) (auto dest!: ok readSecret_cases)
    next
      case False
      then show ?thesis unfolding Inl by (auto simp: runs_def dest!: ok readSecret_cases)
    qed
  next
    case (Inr x)
    then show ?thesis using secret_present by (auto intro!: runs_return simp: since_secured_def)
  qed
qed

section \<open>Opening the database\<close>

lemma settings_identity: "validate_settings s \<Longrightarrow> validateIdentityInput (settingsIdentity s)"
  by (simp add: validate_settings_def validateIdentityInput_def settingsIdentity_def)

lemma openDatabase_opens:
  assumes "database_ok full_for identity f" "validateIdentityInput identity" "smooth (oa_io a)"
  shows "\<exists>store d. openDatabase a identity f = (Inr store, Stored d) \<and> (\<forall>e. f = Stored e \<longrightarrow> full_for identity e \<longrightarrow>
    d = e \<and> store = \<lparr>st_db = dk_db e, st_identity = identity, st_ephemeral = newEphemeralState\<rparr>)"
proof -
  have io: "oi_path (oa_io a)" "oi_prepare (oa_io a)" using assms(3) by (simp_all add: smooth_def)
  have full: "Open (oa_io a) identity e = (Inr \<lparr>st_db = dk_db e, st_identity = identity, st_ephemeral = newEphemeralState\<rparr>, e)" if "full_for identity e" for e
    using that inspectSchemaState_version[of e] by (intro Open_full assms(2,3)) (auto simp: full_for_def)
  have no: "\<not> (emptyFile e \<and> full_for identity e)" for e using inspectSchemaState_version[of e] by (auto simp: full_for_def)
  have "f = Absent \<or> (\<exists>e. f = Stored e \<and> (emptyFile e \<or> full_for identity e))" using assms(1) by (simp add: database_ok_def)
  then show ?thesis
    using Open_empty[OF blank_empty assms(2,3)] Open_empty[OF _ assms(2,3)] full no io assms(2) by (auto simp: openDatabase_def)
qed

lemma runs_openStore:
  assumes "obligingI I"
  shows "runs (since_secured full_for m0 s) (openStore I (settingsIdentity s)) (\<lambda>_ m. since_secured full_for m0 s m \<and> completed full_for s m)"
proof -
  have "runs (since_secured full_for m0 s) (openStore I (settingsIdentity s)) (\<lambda>_ _. True)"
  proof (rule runsI)
    fix m assume m: "since_secured full_for m0 s m"
    obtain w a where w: "in_open I (dir_world m) = (w, a)" by fastforce
    then have a: "smooth (oa_io a)" "oa_stops a = None" using assms unfolding obligingI_def by (metis snd_conv)+
    have "database_ok full_for (settingsIdentity s) (idir_database m)" "validateIdentityInput (settingsIdentity s)"
      using m settings_identity[of s] by (auto simp: since_secured_def since_configured_def configured_def)
    from openDatabase_opens[OF this a(1)] show "\<exists>m' store. openStore I (settingsIdentity s) m = (m', Done store) \<and> True"
      by (auto simp: openStore_def w a(2))
  qed
  from runs_triple[OF this complete.triple_openStore] show ?thesis
    by (rule runs_conseq) (auto simp: completed_def since_secured_def)
qed

section \<open>A completed directory\<close>

definition installed :: "Settings \<Rightarrow> 'w instance_dir \<Rightarrow> bool" where
  "installed s m \<longleftrightarrow> configured full_for s m \<and> completed full_for s m \<and> marked markerReady m"

definition same_files :: "'w instance_dir \<Rightarrow> 'w instance_dir \<Rightarrow> bool" where
  "same_files m1 m \<longleftrightarrow> idir_marker m = idir_marker m1 \<and> idir_config m = idir_config m1 \<and> idir_secret m = idir_secret m1 \<and>
     idir_database m = idir_database m1"

lemma worldly_same: "worldly (same_files m1)"
  by (simp add: worldly_def same_files_def)

lemma same_files_refl: "same_files m m"
  by (simp add: same_files_def)

lemma installed_loads:
  assumes "installed s m1" "same_files m1 m"
  shows "loadMarker (idir_marker m) = Inr markerReady" "loadSettings (idir_config m) = Inr s" "\<exists>x. readSecret (idir_secret m) = Inr x"
    "\<exists>d. idir_database m = Stored d \<and> full_for (settingsIdentity s) d" "validateIdentityInput (settingsIdentity s)"
proof -
  have f: "idir_marker m = idir_marker m1" "idir_config m = idir_config m1" "idir_secret m = idir_secret m1" "idir_database m = idir_database m1"
    using assms(2) by (simp_all add: same_files_def)
  show "loadMarker (idir_marker m) = Inr markerReady" "loadSettings (idir_config m) = Inr s" "\<exists>x. readSecret (idir_secret m) = Inr x"
    "\<exists>d. idir_database m = Stored d \<and> full_for (settingsIdentity s) d" "validateIdentityInput (settingsIdentity s)"
    using assms(1) loadMarker_saved[OF markers(2)] loadSettings_config[of s] readSecret_cases[of "idir_secret m1"] settings_identity[of s] unfolding f
    by (auto simp: installed_def marked_def marker_file_def configured_def completed_def)
qed

lemma runs_same_read:
  assumes "responds (in_read I)" "\<And>m. same_files m1 m \<Longrightarrow> f m = Inr a"
  shows "runs (same_files m1) (readI I f) (\<lambda>b m. same_files m1 m \<and> b = a)"
  by (rule runs_conseq[OF runs_read(2)[OF assms(1) worldly_same]]) (use assms(2) in auto)

lemma runs_same_openStore:
  assumes "obligingI I" "installed s m1"
  shows "runs (same_files m1) (openStore I (settingsIdentity s)) (\<lambda>store m. same_files m1 m \<and>
    (\<exists>d. idir_database m1 = Stored d \<and> store = \<lparr>st_db = dk_db d, st_identity = settingsIdentity s, st_ephemeral = newEphemeralState\<rparr>))"
proof (rule runsI)
  fix m assume m: "same_files m1 m"
  obtain w a where w: "in_open I (dir_world m) = (w, a)" by fastforce
  then have a: "smooth (oa_io a)" "oa_stops a = None" using assms unfolding obligingI_def by (metis snd_conv)+
  obtain d where d: "idir_database m = Stored d" "full_for (settingsIdentity s) d" using installed_loads(4)[OF assms(2) m] by blast
  then have "openDatabase a (settingsIdentity s) (Stored d) = (Inr \<lparr>st_db = dk_db d, st_identity = settingsIdentity s, st_ephemeral = newEphemeralState\<rparr>, Stored d)"
    using openDatabase_opens[of "settingsIdentity s" "Stored d" a] installed_loads(5)[OF assms(2) m] a(1) by (auto simp: database_ok_def)
  moreover have "idir_database m1 = Stored d" using m d(1) by (simp add: same_files_def)
  ultimately show "\<exists>m' store. openStore I (settingsIdentity s) m = (m', Done store) \<and> same_files m1 m' \<and>
      (\<exists>d. idir_database m1 = Stored d \<and> store = \<lparr>st_db = dk_db d, st_identity = settingsIdentity s, st_ephemeral = newEphemeralState\<rparr>)"
    using m by (simp add: openStore_def w a(2) d(1) same_files_def)
qed

lemma runs_same_OpenInstance:
  assumes "obligingI I" "installed s m1"
  shows "runs (same_files m1) (OpenInstance I) (\<lambda>x m. same_files m1 m \<and> fst x = s \<and>
    (\<exists>d. idir_database m1 = Stored d \<and> snd x = \<lparr>st_db = dk_db d, st_identity = settingsIdentity s, st_ephemeral = newEphemeralState\<rparr>))"
proof -
  note obliging = obliging_calls[OF assms(1)]
  have marker: "runs (same_files m1) (attemptD (LoadMarker I)) (\<lambda>r m. same_files m1 m \<and> r = Inr markerReady)"
    unfolding LoadMarker_def by (rule runs_conseq[OF runs_read(1)[OF obliging(7) worldly_same]]) (auto simp: installed_loads[OF assms(2)])
  have settings: "runs (same_files m1) (LoadSettings I) (\<lambda>b m. same_files m1 m \<and> b = s)"
    unfolding LoadSettings_def by (rule runs_same_read[OF obliging(7)]) (simp add: installed_loads[OF assms(2)])
  have secret: "runs (same_files m1) (wrapD msg (ReadSecret I)) (\<lambda>_. same_files m1)" for msg
    unfolding ReadSecret_def
    by (rule runs_wrap, rule runs_conseq[OF runs_read(2)[OF obliging(7) worldly_same]]) (auto simp: installed_loads[OF assms(2)])
  show ?thesis unfolding OpenInstance_def
    apply (rule runs_bind[OF runs_extI[OF obliging(1) worldly_same]], rule runs_bind[OF marker], rule runs_fact, simp)
    apply (rule runs_bind[OF runs_guard], simp add: markerReady_def, rule runs_bind[OF settings], rule runs_fact, simp)
    apply (rule runs_bind[OF secret], rule runs_bind[OF runs_same_openStore[OF assms]], rule runs_return, simp)
    done
qed

lemma runs_same_validateCompleted:
  assumes "obligingI I" "installed s m1"
  shows "runs (same_files m1) (validateCompleted I None) (\<lambda>b m. same_files m1 m \<and> b = s)"
  unfolding validateCompleted_def
proof (rule runs_bind[OF runs_attestI[OF assms(1) worldly_same]], rule runs_bind[OF runs_wrap[OF runs_same_OpenInstance[OF assms]]], goal_cases)
  case (1 _ x)
  obtain t store where x: "x = (t, store)" by (cases x)
  have close: "runs (same_files m1) (wrapD msg (extI (in_close I))) (\<lambda>_. same_files m1)" for msg
    by (rule runs_wrap[OF runs_extI[OF obliging_calls(10)[OF assms(1)] worldly_same]])
  have "runs (same_files m1) (bindD (wrapD ''close validated installation'' (extI (in_close I))) (\<lambda>_. bindD (attestI I) (\<lambda>_. returnD s)))
      (\<lambda>b m. same_files m1 m \<and> b = s)"
    by (rule runs_bind[OF close], rule runs_bind[OF runs_attestI[OF assms(1) worldly_same]], rule runs_return) simp
  then show ?case unfolding x by (auto simp: runs_def)
qed

section \<open>The whole initialization\<close>

lemma since_marker_cases:
  assumes "since full_for m0 m"
  shows "idir_marker m = Absent \<and> loadMarker (idir_marker m) = Inl ErrNotExist \<or>
    loadMarker (idir_marker m) = Inr markerInitializing \<or> loadMarker (idir_marker m) = Inr markerReady \<and> (\<exists>s. installed s m)"
  using assms loadMarker_saved[OF markers(1)] loadMarker_saved[OF markers(2)]
  by (auto simp: since_def inst_ok_def marker_file_def loadMarker_def readStrictJSON_def readProtectedFile_def bindR_def installed_def marked_def)

lemma since_not_damaged: "since full_for m0 m \<Longrightarrow> idir_marker m \<noteq> Damaged"
  by (auto simp: since_def inst_ok_def marker_file_def)

lemma runs_initializeWithLease:
  assumes "obligingI I"
  shows "runs (since full_for m0) (initializeWithLease I None) (\<lambda>s. since_done full_for m0 s)"
proof -
  have marker: "runs (since full_for m0) (wrapD msg (SaveMarker I markerInitializing)) (\<lambda>_. since full_for m0)" for msg
    unfolding SaveMarker_def marker_file_def[symmetric]
    by (rule runs_wrap, rule runs_writeI[OF obliging_calls(11)[OF assms] complete.worldly_since(1) since_not_damaged], assumption)
      (simp add: complete.since_marker)
  have ready: "runs (\<lambda>m. since_secured full_for m0 s m \<and> completed full_for s m) (wrapD msg (SaveMarker I markerReady)) (\<lambda>_. since_done full_for m0 s)" for s msg
  proof -
    have "runs (\<lambda>m. since_secured full_for m0 s m \<and> completed full_for s m) (SaveMarker I markerReady) (\<lambda>_ _. True)"
      unfolding SaveMarker_def
      by (rule runs_writeI[OF obliging_calls(11)[OF assms] complete.worldly_done(2)]) (auto dest: complete.since_weaken since_not_damaged)
    from runs_wrap[OF runs_triple[OF this complete.triple_markReady]] show ?thesis by (rule runs_conseq) auto
  qed
  have finish: "runs (since_secured full_for m0 s) (bindD (attestI I) (\<lambda>_. bindD (openStore I (settingsIdentity s)) (\<lambda>_.
      bindD (wrapD msg (extI (in_close I))) (\<lambda>_. bindD (attestI I) (\<lambda>_. bindD (wrapD msg' (SaveMarker I markerReady)) (\<lambda>_.
      bindD (attestI I) (\<lambda>_. returnD s))))))) (\<lambda>s. since_done full_for m0 s)" for s msg msg'
    by (rule runs_bind[OF runs_attestI[OF assms complete.worldly_secured(1)]], rule runs_bind[OF runs_openStore[OF assms]],
        rule runs_bind[OF runs_wrap[OF runs_extI[OF obliging_calls(10)[OF assms] complete.worldly_done(2)]]],
        rule runs_bind[OF runs_attestI[OF assms complete.worldly_done(2)]], rule runs_bind[OF ready],
        rule runs_bind[OF runs_attestI[OF assms complete.worldly_done(1)]], rule runs_return)
  have start: "runs (since full_for m0) (bindD (attestI I) (\<lambda>_. bindD (wrapD msg (SaveMarker I markerInitializing)) (\<lambda>_.
      bindD (resumeSettings I None) (\<lambda>settings. bindD (resumeSecret I) (\<lambda>_. bindD (attestI I) (\<lambda>_.
      bindD (openStore I (settingsIdentity settings)) (\<lambda>_. bindD (wrapD msg' (extI (in_close I))) (\<lambda>_. bindD (attestI I) (\<lambda>_.
      bindD (wrapD msg'' (SaveMarker I markerReady)) (\<lambda>_. bindD (attestI I) (\<lambda>_. returnD settings)))))))))))
      (\<lambda>s. since_done full_for m0 s)" for msg msg' msg''
    by (rule runs_bind[OF runs_attestI[OF assms complete.worldly_since(1)]], rule runs_bind[OF marker],
        rule runs_bind[OF runs_resumeSettings[OF assms]], rule runs_bind[OF runs_resumeSecret[OF assms] finish])
  have completed: "runs (\<lambda>m. since full_for m0 m \<and> loadMarker (idir_marker m) = Inr markerReady) (validateCompleted I None) (\<lambda>_ _. True)"
  proof (rule runsI)
    fix m assume "since full_for m0 m \<and> loadMarker (idir_marker m) = Inr markerReady"
    then obtain s where "installed s m" using since_marker_cases[of m0 m] by (auto simp: markerInitializing_def markerReady_def)
    from runs_same_validateCompleted[OF assms this] same_files_refl
    show "\<exists>m' a. validateCompleted I None m = (m', Done a) \<and> True" by (rule runsE) blast
  qed
  have phase: "im_Phase markerInitializing = ''initializing''" by (simp add: markerInitializing_def)
  have "runs (since full_for m0) (initializeWithLease I None) (\<lambda>_ _. True)"
    unfolding initializeWithLease_def LoadMarker_def
  proof (rule runs_bind[OF runs_read(1)[OF obliging_calls(7)[OF assms] complete.worldly_since(1)]], goal_cases)
    case (1 r)
    consider "r = Inl ErrNotExist" | "r = Inr markerInitializing" | "r = Inr markerReady"
      | "r \<notin> {Inl ErrNotExist, Inr markerInitializing, Inr markerReady}" by blast
    then show ?case
    proof cases
      case 3
      then show ?thesis using completed by (simp add: markerReady_def)
    next
      case 4
      then show ?thesis by (auto simp: runs_def dest!: since_marker_cases)
    qed (simp_all add: phase, (rule runs_conseq[OF start], simp_all)+)
  qed
  from runs_triple[OF this complete.triple_initializeWithLease] show ?thesis by (rule runs_conseq) auto
qed

lemma runs_Initialize:
  assumes "obligingI I" "worldly P" "runs P (LeaseInitialize I None) Q" "\<And>s. worldly (Q s)"
  shows "runs P (InitializeInstance I None) Q"
  unfolding InitializeInstance_def
  by (rule runs_bind[OF runs_extI[OF obliging_calls(1)[OF assms(1)] assms(2)]], rule runs_bind[OF runs_extI[OF obliging_calls(2)[OF assms(1)] assms(2)]],
      rule runs_attempt_bind[OF assms(3)], rule runs_attempt_bind[OF runs_wrap[OF runs_extI[OF obliging_calls(3)[OF assms(1)] assms(4)]]])
    (simp add: runs_return)

lemma runs_InitializeInstance:
  assumes "obligingI I"
  shows "runs (since full_for m0) (InitializeInstance I None) (\<lambda>s. since_done full_for m0 s)"
  by (rule runs_Initialize[OF assms complete.worldly_since(1) _ complete.worldly_done(1)], unfold LeaseInitialize_def,
      rule runs_bind[OF runs_attestI[OF assms complete.worldly_since(1)] runs_initializeWithLease[OF assms]])

lemma runs_same_InitializeInstance:
  assumes "obligingI I" "installed s m1"
  shows "runs (same_files m1) (InitializeInstance I None) (\<lambda>b m. same_files m1 m \<and> b = s)"
proof (rule runs_Initialize[OF assms(1) worldly_same], unfold LeaseInitialize_def initializeWithLease_def LoadMarker_def,
    rule runs_bind[OF runs_attestI[OF assms(1) worldly_same]], rule runs_bind[OF runs_read(1)[OF obliging_calls(7)[OF assms(1)] worldly_same]], goal_cases)
  case (1 _ r)
  then show ?case using runs_same_validateCompleted[OF assms] installed_loads(1)[OF assms(2)]
    by (cases "r = Inr markerReady") (auto simp: markerReady_def runs_def)
qed (auto simp: worldly_def same_files_def)

lemma runs_same_OpenForServe:
  assumes "obligingI I" "installed s m1"
  shows "runs (same_files m1) (OpenForServe I) (\<lambda>x m. same_files m1 m \<and> fst x = s \<and>
    (\<exists>d. idir_database m1 = Stored d \<and> snd x = \<lparr>st_db = dk_db d, st_identity = settingsIdentity s, st_ephemeral = newEphemeralState\<rparr>))"
proof -
  note obliging = obliging_calls[OF assms(1)]
  let ?Q = "\<lambda>x m. same_files m1 m \<and> fst x = s \<and>
    (\<exists>d. idir_database m1 = Stored d \<and> snd x = \<lparr>st_db = dk_db d, st_identity = settingsIdentity s, st_ephemeral = newEphemeralState\<rparr>)"
  have w: "worldly (?Q x)" for x :: "Settings \<times> Store" by (simp add: worldly_def same_files_def)
  show ?thesis unfolding OpenForServe_def
    by (rule runs_bind[OF runs_extI[OF obliging(1) worldly_same]], rule runs_bind[OF runs_extI[OF obliging(5) worldly_same]],
        rule runs_attempt_bind[OF runs_same_OpenInstance[OF assms]], unfold sum.case, rule runs_attempt_bind[OF runs_extI[OF obliging(6) w]])
      (auto simp: runs_return)
qed

section \<open>Interrupted initializations\<close>

inductive init_step :: "'w instance_dir \<Rightarrow> 'w instance_dir \<Rightarrow> bool" where
  "InitializeInstance I requested m = (m', r) \<Longrightarrow> init_step m m'"
| "LeaseInitialize I requested m = (m', r) \<Longrightarrow> init_step m m'"

definition vacant :: "'w instance_dir \<Rightarrow> bool" where
  "vacant m \<longleftrightarrow> idir_marker m = Absent \<and> idir_config m = Absent \<and> idir_secret m = Absent \<and> idir_database m = Absent"

lemma vacant_ok: "vacant m \<Longrightarrow> inst_ok claim m"
  by (simp add: vacant_def inst_ok_def marker_file_def)

lemma init_step_since:
  assumes "init_step m m'" "inst_ok full_for m"
  shows "since full_for m m'"
proof -
  have start: "since full_for m m" using assms(2) by (simp add: since_def keeps_refl)
  from assms(1) show ?thesis
  proof cases
    case (1 I requested r)
    then show ?thesis using tripleD[OF complete.triple_InitializeInstance start 1] by (cases r) (auto intro: complete.since_done_since)
  next
    case (2 I requested r)
    then show ?thesis using tripleD[OF complete.triple_LeaseInitialize start 2] by (cases r) (auto intro: complete.since_done_since)
  qed
qed

lemma init_reachable_since:
  assumes "init_step\<^sup>*\<^sup>* m m'" "inst_ok full_for m"
  shows "since full_for m m'"
  using assms
proof (induction rule: rtranclp_induct)
  case (step b c)
  then show ?case using init_step_since[of b c] keeps_trans by (auto simp: since_def)
qed (simp add: since_def keeps_refl)

theorem initialization_outcome:
  assumes "vacant m0" "init_step\<^sup>*\<^sup>* m0 m" "obligingI I"
  shows "\<exists>m' s. InitializeInstance I None m = (m', Done s) \<and> installed s m' \<and> keeps full_for m m' \<and>
    (\<exists>m''. InitializeInstance I None m' = (m'', Done s) \<and> same_files m' m'') \<and>
    (\<exists>m'' store. OpenForServe I m' = (m'', Done (s, store)) \<and> same_files m' m'' \<and> st_identity store = settingsIdentity s)"
proof -
  have "inst_ok full_for m" using init_reachable_since[OF assms(2) vacant_ok[OF assms(1)]] by (simp add: since_def)
  then have "since full_for m m" by (simp add: since_def keeps_refl)
  from runs_InitializeInstance[OF assms(3)] this obtain m' s where m': "InitializeInstance I None m = (m', Done s)" "since_done full_for m s m'"
    by (rule runsE)
  then have i: "installed s m'" "keeps full_for m m'"
    by (simp_all add: installed_def since_done_def since_secured_def since_configured_def since_def)
  obtain m2 where 2: "InitializeInstance I None m' = (m2, Done s)" "same_files m' m2"
    using runsE[OF runs_same_InitializeInstance[OF assms(3) i(1)] same_files_refl] by metis
  obtain m3 x where 3: "OpenForServe I m' = (m3, Done x)" "same_files m' m3" "fst x = s" "st_identity (snd x) = settingsIdentity s"
    by (rule runsE[OF runs_same_OpenForServe[OF assms(3) i(1)] same_files_refl]) auto
  have "OpenForServe I m' = (m3, Done (s, snd x))" using 3(1,3) by (cases x) simp
  then show ?thesis using m'(1) i 2 3(2,4) by blast
qed

end
