(* ===== verification/InstanceExample.thy ===== *)
theory InstanceExample
  imports InitializeLaws
begin

text \<open>
  A concrete environment whose random source alternates between zeros and ones, one that stops right after
  its first write, and an empty state directory.
\<close>

definition quiet_call :: "('w, unit) action" where
  "quiet_call w = (w, Done ())"

definition calm_os :: "bool instance_os" where
  "calm_os = \<lparr>in_EnsureStateDirectory = quiet_call, in_ValidateStateDirectory = quiet_call, in_acquireLease = quiet_call,
     in_closeLease = quiet_call, in_AttestLockPath = quiet_call, in_acquireServerLock = quiet_call, in_attestServerLock = quiet_call,
     in_closeServerLock = quiet_call, in_read = quiet_call, in_stat = quiet_call,
     in_random = (\<lambda>n w. (\<not> w, Done (replicate n (if w then CHR 0x01 else CHR 0x00)))),
     in_write = (\<lambda>w. (w, Succeeded)),
     in_open = (\<lambda>w. (w, \<lparr>oa_io = \<lparr>oi_path = True, oi_prepare = True, oi_ping = True, oi_wal = True, oi_begin = True, oi_commit = True,
       oi_restrict = True\<rparr>, oa_created = True, oa_stops = None\<rparr>)),
     in_close = quiet_call\<rparr>"

definition stopping_os :: "bool instance_os" where
  "stopping_os = calm_os\<lparr>in_write := (\<lambda>w. (w, CrashedAfter))\<rparr>"

definition vacant_dir :: "bool instance_dir" where
  "vacant_dir = \<lparr>idir_marker = Absent, idir_config = Absent, idir_secret = Absent, idir_database = Absent, dir_world = False\<rparr>"

definition stopped_dir :: "bool instance_dir" where
  "stopped_dir = vacant_dir\<lparr>idir_marker := marker_file markerInitializing\<rparr>"

lemma vacant_dir_vacant: "vacant vacant_dir"
  by (simp add: vacant_def vacant_dir_def)

lemma quiet_responds: "responds quiet_call"
  by (simp add: answers_def quiet_call_def)

lemma calm_draws: "New (fill 16 (replicate 16 (CHR 0x00))) \<noteq> New (fill 16 (replicate 16 (CHR 0x01)))"
  by code_simp

lemma calm_obliging: "obligingI calm_os"
proof -
  have r: "responds (\<lambda>w. (f w, Done (g w)))" for f :: "bool \<Rightarrow> bool" and g :: "bool \<Rightarrow> bytes" by (simp add: answers_def)
  have "New (fill 16 r1) \<noteq> New (fill 16 r2)" if "in_random calm_os 16 w = (w1, Done r1)" "in_random calm_os 16 w1 = (w2, Done r2)" for w w1 w2 r1 r2
    using that calm_draws calm_draws[symmetric] unfolding calm_os_def by (cases w) (auto simp del: replicate.simps)
  then show ?thesis unfolding obligingI_def
    using quiet_responds r by (auto simp: calm_os_def smooth_def)
qed

lemma stopped_run: "InitializeInstance stopping_os None vacant_dir = (stopped_dir, Crashed)"
  by (simp add: InitializeInstance_def LeaseInitialize_def initializeWithLease_def LoadMarker_def SaveMarker_def attestI_def readI_def writeI_def
      extI_def bindD_def attemptD_def wrapD_def returnD_def stopping_os_def calm_os_def quiet_call_def vacant_dir_def stopped_dir_def
      loadMarker_def readStrictJSON_def readProtectedFile_def bindR_def marker_file_def)

lemma stopped_reached: "init_step\<^sup>*\<^sup>* vacant_dir stopped_dir"
  using stopped_run by (auto intro: init_step.intros)

lemma calm_installs: "\<exists>m' s. instance_step\<^sup>*\<^sup>* vacant_dir m' \<and> installed s m'"
proof -
  have "instance_step vacant_dir stopped_dir" using stopped_run by (rule instance_step.initialize)
  moreover obtain m' s where "InitializeInstance calm_os None stopped_dir = (m', Done s)" "installed s m'"
    using initialization_outcome[OF vacant_dir_vacant stopped_reached calm_obliging] by blast
  ultimately show ?thesis by (meson instance_step.initialize rtranclp.rtrancl_into_rtrancl rtranclp.rtrancl_refl)
qed

end
