(* ===== verification/Spec2Isabelle.thy ===== *)
theory Spec2Isabelle
  imports OpenExample DeployExample Manifest InstanceExample
begin

text \<open>
  A verification development for the sync server of this repository: the Go packages under
  \<^verbatim>\<open>src/runtime/internal\<close> that keep an encrypted vault on a host and synchronise it between devices.

  \<^bold>\<open>The program.\<close> A client speaks HTTP to a loopback listener. \<^verbatim>\<open>httpapi.Handler\<close> checks the framing, the
  protocol version and the request identifier and hands a call to \<^verbatim>\<open>store.HandleAPI\<close>, which authenticates
  the device, answers a repeated request from its receipt, and otherwise runs one SQLite transaction:
  enrollment, the vault envelope, a sync batch, device management, or a snapshot read. Sync accepts
  revisions under version vectors, keeps the undominated ones as heads of their record, gives every
  change a cursor, and collects superseded revisions that all devices have acknowledged; a snapshot read
  leases a consistent cut of the heads. \<^verbatim>\<open>store.Open\<close> creates, migrates and validates the database before
  it is served. \<^verbatim>\<open>instance\<close> initializes a state directory (marker, settings, secret, database) in an order
  that can be resumed after an interruption. \<^verbatim>\<open>deployment.Lifecycle\<close> installs a pinned release of the server for a user, switches between
  releases and uninstalls them; each of these is a transaction whose phases are recorded in a journal
  file, so that an interrupted one is completed or undone by running it again.

  \<^bold>\<open>Modelling.\<close> Bytes and strings are \<open>bytes\<close>, \<^verbatim>\<open>uint64\<close> is a \<open>64 word\<close> that wraps, other Go integers are
  \<open>int\<close> with their bounds written out, structs are records, errors are the left of a sum. A table is the
  list of its rows, a column value a \<open>cell\<close> with SQLite's storage classes and order, and each statement a
  function on the database record that checks the constraints of its table. A transaction is a function
  that yields an error or a new database; \<open>runTx\<close> and \<open>finishTx\<close> begin, commit and roll back, and the
  answers of the driver and of the random source are arguments (\<open>io\<close>, \<open>open_io\<close>, \<open>existing_io\<close>, \<open>http_io\<close>),
  so that every theorem holds for all of them. The in-memory state (boot, deadlines, rate limits) is the
  record \<open>ephemeralState\<close>. A deployment operation acts on a \<open>host\<close>: its state and journal files, the log of
  the calls that change the service, and a \<open>world\<close> that the injected functions of the \<open>lifecycle\<close> record
  act on; a call answers, fails, or does not return because the machine stops (\<open>reply\<close>), and a write of a
  metadata file can fail or stop the machine before or after it took effect (\<open>effect\<close>). An instance is an
  \<open>instance_dir\<close>, its four files beside a world, under the answers of an \<open>instance_os\<close>. The text of an error
  is abbreviated; the sentinel errors that the code tests for are constructors.

  \<^bold>\<open>Theories, in the order of their imports.\<close>
  \<^item> \<open>Prelude\<close>: types, the error monad and its loops. \<open>Bytes\<close>, \<open>Uuid\<close>, \<open>Sha256\<close>, \<open>Auth\<close>, \<open>Timestamp\<close>,
    \<open>Api\<close>: the codecs of \<^verbatim>\<open>store/store.go\<close> and \<^verbatim>\<open>store/models.go\<close>, \<^verbatim>\<open>uuidv4/uuid.go\<close>, \<^verbatim>\<open>auth/token.go\<close>,
    \<^verbatim>\<open>api/api.go\<close>.
  \<^item> \<open>Json\<close>, \<open>JsonLaws\<close>, \<open>Messages\<close>, \<open>WireLaws\<close>: \<^verbatim>\<open>encoding/json\<close> as far as the store uses it, the strict
    decoder of \<^verbatim>\<open>store/models.go\<close> and the wire structs with their reflected types. The locale
    \<open>message_codec\<close> states what a message codec promises and is interpreted for each struct.
  \<^item> \<open>Models\<close>, \<open>ModelLaws\<close>: the validators of \<^verbatim>\<open>store/models.go\<close> and version vectors as a causal order
    (locale \<open>causal_order\<close>).
  \<^item> \<open>Sql\<close>, \<open>Schema\<close>: SQLite values, queries, bounded scans (\<^verbatim>\<open>store/bounds.go\<close>) and the tables of
    \<^verbatim>\<open>store/schema.go\<close> with their constraints.
  \<^item> \<open>Dataplane\<close>, \<open>Receipts\<close>, \<open>ChangeOrigins\<close>, \<open>Envelope\<close>, \<open>Enrollment\<close>, \<open>Devices\<close>, \<open>Leases\<close>, \<open>Collection\<close>,
    \<open>Sync\<close>, \<open>Snapshot\<close>, \<open>Server\<close>: the handlers of the files of the same names under \<^verbatim>\<open>store\<close> (\<open>Leases\<close> is
    part of \<^verbatim>\<open>snapshot.go\<close> and \<^verbatim>\<open>collection.go\<close>, \<open>Server\<close> the dispatch of \<^verbatim>\<open>dataplane.go\<close>). \<open>store_step\<close> and
    \<open>store_reachable\<close> are the transition system of a served store.
  \<^item> \<open>Validation\<close>, \<open>SnapshotValidation\<close>: the startup validation of \<^verbatim>\<open>store/validation.go\<close>. \<open>Opening\<close>: schema
    inspection and migrations of \<^verbatim>\<open>store/schema.go\<close> and \<^verbatim>\<open>Open\<close>, \<^verbatim>\<open>ValidateExisting\<close>, \<^verbatim>\<open>Ready\<close>,
    \<^verbatim>\<open>CreateDevice\<close> of \<^verbatim>\<open>store/store.go\<close>. \<open>Http\<close>: \<^verbatim>\<open>httpapi/handler.go\<close>.
  \<^item> \<open>Effects\<close>: replies, errors and the sequencing of operations on a machine, with the rules of partial and
    total correctness that the laws below use. \<open>Indent\<close>: indented JSON documents. \<open>Config\<close>: listeners, settings,
    marker and secret of \<^verbatim>\<open>config/config.go\<close>. \<open>Instance\<close>: \<^verbatim>\<open>instance/instance.go\<close>.
  \<^item> \<open>Paths\<close>: \<^verbatim>\<open>path/filepath\<close> and the installation layout of \<^verbatim>\<open>deployment/paths_unix.go\<close>. \<open>Release\<close>:
    \<^verbatim>\<open>releaseid\<close>, \<^verbatim>\<open>buildinfo\<close> and the build identity of \<^verbatim>\<open>deployment/manifest.go\<close>. \<open>Manifest\<close>: the pinned
    release manifest. \<open>Deployment\<close>: the state and journal records of \<^verbatim>\<open>deployment/state.go\<close> with their
    validation, the phase orders and the committed states. \<open>Lifecycle\<close>: \<^verbatim>\<open>Status\<close>, \<^verbatim>\<open>Rollback\<close>, \<^verbatim>\<open>Uninstall\<close> and
    the transaction of \<^verbatim>\<open>Apply\<close> of \<^verbatim>\<open>deployment/lifecycle.go\<close>.

  \<^bold>\<open>What is proved.\<close> \<open>StoreLaws\<close> organises a proof about the whole data plane in locales: a relation between
  databases that is a preorder and holds for the statements of a group of tables (\<open>tx_relation\<close>,
  \<open>db_relation\<close>, \<open>lease_tables\<close>, \<open>volatile_tables\<close>, \<open>collection_relation\<close>, \<open>statement_relation\<close>) holds for every
  run of the store (\<open>store_relation\<close>). Its interpretations give the growth of the permanent history
  (\<open>db_grows\<close>), the change log (\<open>CursorLaws\<close>, \<open>AtomicLaws\<close>), the device registry (\<open>DeviceLaws\<close>), the leased
  content (\<open>CollectionLaws\<close>) and the frontiers (\<open>AntichainLaws\<close>). \<open>FrontierLaws\<close> and \<open>SyncLaws\<close> show that
  acceptance refines the abstract frontier step; \<open>CredentialLaws\<close>, \<open>ReceiptLaws\<close>, \<open>EnvelopeLaws\<close> and
  \<open>SnapshotLaws\<close> hold the laws of their components. \<open>ValidationLaws\<close> and \<open>HistoryLaws\<close> show that a database
  that passes startup validation satisfies the invariants the steps keep; \<open>OpeningLaws\<close> carries this
  to \<open>Open\<close>, so that the invariants hold of every store that is ever served. \<open>HttpLaws\<close> proves the transport
  against the contract of the data plane (locale \<open>data_plane_contract\<close>) and interprets it on \<open>HandleAPI\<close>.
  \<open>ConfigLaws\<close> shows that accepted listeners are loopback addresses and that saved settings and markers are
  loaded again. \<open>InstanceLaws\<close> proves the consistency of a state directory for a claim about its database
  (locale \<open>database_claim\<close>, interpreted for ownership and for complete validity) through every initialization
  and opening; \<open>InitializeLaws\<close> that an initialization completes after interruptions.
  \<open>LifecycleLaws\<close> and \<open>DeployLaws\<close> set up triples over interrupted runs and the consistency of state file and
  journal; \<open>OperationLaws\<close> and \<open>ApplyLaws\<close> show that each operation keeps it (locale \<open>deployment_operation\<close>,
  interpreted for apply, rollback and uninstall) and \<open>RecoveryLaws\<close> that an interrupted operation can be
  completed (locale \<open>switch_order\<close> for the two operations that switch releases).
  \<open>Example\<close>, \<open>PutExample\<close>, \<open>ValidExample\<close>, \<open>OpenExample\<close>, \<open>InstanceExample\<close> and \<open>DeployExample\<close> hold concrete stores,
  files, requests, directories and hosts on which the hypotheses of the properties are discharged. This theory states the properties.

  \<^bold>\<open>Fuel and bounds.\<close> The JSON parser runs on fuel of twice the length of its input and one, which
  \<open>JsonLaws\<close> shows to be enough for everything the printer writes; trimming white space runs on the
  length of the text, of which each round removes at least one byte. The health check of a started service
  makes at most \<open>healthRounds\<close> = 300 rounds, the number of 50 ms polls in its deadline of 15 s. Every other
  recursion is structural or has a termination proof.

  \<^bold>\<open>Hypotheses.\<close> Of SQLite only the uniqueness of primary keys in a file it opens is assumed
  (\<open>keys_unique\<close>), beside the semantics of the statements written in the model. SHA-256 is executable and no
  theorem assumes that it has no collisions. \<open>smooth\<close> and \<open>existing_smooth\<close> describe an operating system
  and a driver that report no fault, and \<open>obligingI\<close> one that also gives two different random identifiers;
  they are assumed only where a success is claimed.

  \<^bold>\<open>Not modelled.\<close> The operating-system side of \<^verbatim>\<open>store.go\<close> and \<^verbatim>\<open>config\<close> (file protection, the private copy
  of a closed database and its digest) is an answer of the environment. The listener and its limits
  (\<^verbatim>\<open>server\<close>), the service managers, release bundles and the command line are
  file-system, process and socket code around the store and are left out, as are
  \<^verbatim>\<open>net/http\<close>'s parsing of a request and the vendored SQLite. Of the deployment, the copying and removing of
  files, the locks, the commands of the service manager and the text of the metadata files are answers of
  the environment, and the preview that \<^verbatim>\<open>Apply\<close> confirms before its transaction is left out.
\<close>

section \<open>The store as a whole\<close>

text \<open>
  C1: The permanent history survives every operation. From any store, every sequence of boots, uptime
  checkpoints, issued grants and API requests (failed ones included) only appends to the change origins,
  the acceptance origins, the vector index, the enrollments, the rotation and the self-revocation
  receipts; a device keeps its identity and its revocation; a revision keeps its metadata, and once its
  content is collected it stays collected.
\<close>

theorem history_permanent:
  assumes "store_reachable store store'"
  shows "db_grows (st_db store) (st_db store')"
  using assms by (rule grows.rel_reachable)

theorem history_permanent_witness:
  "db_grows (st_db ex_store) (st_db (snd (HandleAPI ex_io (ex_call ''POST'' ''/v1/sync'' []) ex_store)))"
  by (rule history_permanent[OF ex_reachable])

text \<open>
  C2: The change log has no gaps. In every store reachable from one whose log is complete, the recorded
  change origins carry the cursors \<open>1, \<dots>, c\<close>, each exactly once, where \<open>c\<close> is the server cursor: a
  failed or rolled-back request never leaves a hole and no cursor is ever given out twice.
\<close>

theorem change_log_complete:
  assumes "store_reachable store store'" "log_complete (st_db store)"
  shows "log_complete (st_db store')"
  using assms by (rule log_complete_reachable)

theorem change_log_complete_witness:
  "log_complete (st_db (snd (HandleAPI ex_io (ex_call ''POST'' ''/v1/enrollments'' []) ex_store)))"
  by (rule change_log_complete[OF ex_reachable]) (simp add: ex_store_def ex_log_complete)

text \<open>
  C3: Every request is all or nothing. When \<^verbatim>\<open>HandleAPI\<close> answers with an error, whichever statement,
  check or commit failed, the database is the one before the request; and no request changes the
  identity of the instance.
\<close>

theorem request_atomic:
  "st_identity (snd (HandleAPI io call store)) = st_identity store
     \<and> (case fst (HandleAPI io call store) of Inl _ \<Rightarrow> st_db (snd (HandleAPI io call store)) = st_db store | Inr _ \<Rightarrow> True)"
  using atomic_HandleAPI unfolding atomic_def .

section \<open>Opening a store\<close>

text \<open>
  C4: An opened store is safe for as long as it runs. When \<^verbatim>\<open>Open\<close> succeeds (on a file whose primary keys
  SQLite keeps unique), then after every sequence of boots, checkpoints, grants and requests the device
  registry has no duplicates and at most 64 rows, the change log has no gap, every leased revision has its
  content and the heads of every record are stored revisions none of which dominates another.
\<close>

theorem opened_store_safe:
  assumes "Open io identity d = (Inr store, d')" "keys_unique (dk_db d)" "store_reachable store store'"
  shows "registry_ok (st_db store') \<and> log_complete (st_db store') \<and> leases_backed (st_db store') \<and> frontiers_ok (st_db store')"
  using store_ok_reachable[OF assms(3) opened_ok(1)[OF assms(1,2)]] unfolding store_ok_def .

theorem opened_store_safe_witness:
  "let s = st_db (snd (HandleAPI ex_io (ex_call ''POST'' ''/v1/sync'' []) served_store))
   in registry_ok s \<and> log_complete s \<and> leases_backed s \<and> frontiers_ok s"
  unfolding Let_def by (rule opened_store_safe[OF ok_opens ok_disk_keys store_reachable.step[OF store_reachable.start store_step.request]])

text \<open>
  C5: Read-only validation predicts the opening. Whatever the file holds (nothing, one of the three earlier
  layouts, the full layout, or anything else), \<^verbatim>\<open>ValidateExisting\<close> accepts it exactly when \<^verbatim>\<open>Open\<close>
  succeeds on it, provided the operating system and the driver answer both without faults.
\<close>

theorem validation_predicts_open:
  assumes "existing_smooth xio" "smooth io"
  shows "validateExisting xio identity d = Inr () \<longleftrightarrow> (\<exists>store d'. Open io identity d = (Inr store, d'))"
  using assms by (rule validateExisting_iff_Open)

theorem validation_predicts_open_witness:
  "(validateExisting smooth_xio ex_identity ok_disk = Inr () \<longleftrightarrow> (\<exists>store d'. Open smooth_io ex_identity ok_disk = (Inr store, d')))
   \<and> validateExisting smooth_xio ex_identity ok_disk = Inr ()"
  using validation_predicts_open[OF smooth_ios(2,1), of ex_identity ok_disk] ok_opens by blast

text \<open>
  C6: A failed opening changes nothing: whichever inspection, migration, check or commit fails, the file
  keeps its version, tables and rows; only a failure to restrict the permissions of the files afterwards
  is reported on a file that has already been initialised, completely and validly.
\<close>

theorem failed_open_atomic:
  "case Open io identity d of
     (Inr _, _) \<Rightarrow> True
   | (Inl _, d') \<Rightarrow> if oi_restrict io then d' = d else d' = d \<or> validatePersistentState identity (dk_db d')"
proof (cases "Open io identity d")
  case (Pair r d')
  show ?thesis
  proof (cases r)
    case (Inl e)
    then show ?thesis using Open_failed[of io identity d e d'] Open_failed_late[of io identity d e d'] schemaTransaction_spec(1)[of identity _ d d'] Pair by auto
  qed (simp add: Pair)
qed

text \<open>
  C7: An empty file becomes a working instance: opening it creates the full schema, the identity row and
  an empty store, and leaves a file that opens again unchanged.
\<close>

theorem empty_file_opens:
  assumes "emptyFile d" "validateIdentityInput identity" "smooth io"
  shows "\<exists>store d'. Open io identity d = (Inr store, d') \<and> t_devices (st_db store) = [] \<and> dk_metadata d' = Some (identityRow identity)
    \<and> Open io identity d' = (Inr store, d')"
  using assms by (rule Open_empty_again)

theorem empty_file_opens_witness:
  "\<exists>store d'. Open smooth_io ex_identity empty_disk = (Inr store, d') \<and> t_devices (st_db store) = []
    \<and> dk_metadata d' = Some (identityRow ex_identity) \<and> Open smooth_io ex_identity d' = (Inr store, d')"
  by (rule empty_file_opens[OF empty_disk_empty ex_identity_input smooth_ios(1)])

text \<open>
  C8: Validated history is complete: the revisions of every registered device carry exactly the counters
  from 1 to its stored maximum, nobody else has authored a revision, and the cursor floor is the largest
  cursor of a collected revision.
\<close>

theorem validated_history_complete:
  assumes "validatePersistentHistorySequence devices s" "distinct (map fst devices)"
  shows "(\<forall>(i, row) \<in> set devices. authored i (t_record_revisions s) = {0<..vd_maxCounter row})
    \<and> (\<forall>r\<in>set (t_record_revisions s). \<exists>i\<in>fst ` set devices. rv_author_device_id r = CText i)
    \<and> rt_cursor_floor (t_runtime_state s) = uint64_cell (Max (insert 0 (collectedCursors (t_record_revisions s))))"
  using history_complete[OF assms] by auto

theorem validated_history_complete_witness:
  "authored ex_device (t_record_revisions ok_db) = {0<..1}
    \<and> rt_cursor_floor (t_runtime_state ok_db) = uint64_cell (Max (insert 0 (collectedCursors (t_record_revisions ok_db))))"
  using validated_history_complete[OF ok_history] by (simp add: ok_devices_def)

text \<open>
  Migration never makes a revision look older: the migration that introduces acceptance origins sets
  the acceptance age of every revision and of every collection candidate to the accumulated uptime of the
  instance, records exactly that as the origin of each revision, and changes nothing else of them.
\<close>

theorem migration_rebases_ages:
  "case migrateRevisionAcceptanceOriginsV1 d of
     Inl _ \<Rightarrow> True
   | Inr d' \<Rightarrow> \<exists>current. rt_accumulated_uptime_ms (t_runtime_state (dk_db d)) = uint64_cell current
       \<and> t_record_revisions (dk_db d') = map (\<lambda>r. r\<lparr>rv_accepted_uptime_ms := uint64_cell current\<rparr>) (t_record_revisions (dk_db d))
       \<and> t_collection_candidates (dk_db d') = map (\<lambda>q. q\<lparr>cc_accepted_uptime_ms := uint64_cell current\<rparr>) (t_collection_candidates (dk_db d))
       \<and> t_revision_acceptance_origins (dk_db d') =
           map (\<lambda>r. \<lparr>ao_revision_id = rv_revision_id r, ao_accepted_uptime_ms = uint64_cell current\<rparr>) (t_record_revisions (dk_db d))"
proof (cases "migrateRevisionAcceptanceOriginsV1 d")
  case (Inr d')
  then obtain current where c: "scan_uint64 (rt_accumulated_uptime_ms (t_runtime_state (dk_db d))) = Some current"
    "rebaseAcceptance (uint64_cell current) (dk_db d) = Some (dk_db d')"
    by (auto simp: migrateRevisionAcceptanceOriginsV1_def onRows_eq split: option.splits)
  show ?thesis unfolding Inr sum.case
    using c(1) rebase_spec[OF c(2)] by (intro exI[of _ current]) (simp add: scan_uint64_eq)
qed simp

text \<open>
  A baseline device can use its token and no other: after \<^verbatim>\<open>CreateDevice\<close> succeeds, \<^verbatim>\<open>VerifyDeviceToken\<close>
  accepts a presented token of the device exactly when its hash is the hash of the token given at creation.
\<close>

theorem baseline_device_verifies:
  "case CreateDevice io i token scopes t store of
     (False, store') \<Rightarrow> store' = store
   | (True, store') \<Rightarrow> VerifyDeviceToken i token' store' =
       map_option (\<lambda>h. DeviceTokenHash (id_InstanceID (st_identity store)) (id_VaultID (st_identity store)) i token = Some h)
         (DeviceTokenHash (id_InstanceID (st_identity store)) (id_VaultID (st_identity store)) i token')"
proof (cases "CreateDevice io i token scopes t store")
  case (Pair ok store')
  show ?thesis
  proof (cases ok)
    case True
    then show ?thesis using Pair created_verifies[of io i token scopes t store store' token'] by simp
  next
    case False
    then show ?thesis using Pair by (auto simp: CreateDevice_def split: if_splits option.splits)
  qed
qed

section \<open>Credentials\<close>

text \<open>
  C9: Revocation is final. Once a device is revoked, no sequence of operations makes any Authorization
  header authenticate as that device again, for any scope.
\<close>

theorem revocation_final:
  assumes "revoked_device i (st_db store)" "registry_ok (st_db store)" "store_reachable store store'"
  shows "auth_device (authenticate identity authorization scope (st_db store')) \<noteq> Some i"
  using assms by (rule revoked_never_authenticates)

theorem revocation_final_witness:
  "auth_device (authenticate ex_identity ex_auth ''sync:write'' (st_db (snd (HandleAPI ex_io (ex_call ''POST'' ''/v1/enrollments'' []) ex_store))))
     \<noteq> Some ex_retired"
  by (rule revocation_final[OF _ _ ex_reachable]) (simp_all add: ex_store_def ex_revoked ex_registry_ok)

text \<open>
  C10: Authentication is sound: a call is attributed to a device only when the presented bearer token
  hashes, under this instance, vault and device, to the hash stored for an unrevoked row of that device,
  and the required scope is one of the fixed scopes.
\<close>

theorem authentication_sound:
  "case authenticate identity authorization scope s of
     Inl _ \<Rightarrow> True
   | Inr a \<Rightarrow> \<exists>token d. parseAuthorization authorization ''Bearer'' = Some token \<and> d \<in> set (t_devices s)
       \<and> holds_token identity token (da_DeviceID a) d \<and> d_token_hash d = CBlob (da_Hash a) \<and> d_revoked_at_ms d = None
       \<and> da_Scopes a = FixedScopes \<and> (scope = [] \<or> scope \<in> set FixedScopes)"
  using authenticate_match by (auto split: sum.split)

text \<open>
  A committed revocation takes effect: after the transaction of \<^verbatim>\<open>POST /v1/devices/{id}/revoke\<close>
  commits, the target device is revoked in the store.
\<close>

theorem revocation_effective:
  "case revokeTx i e call target r s of Inr (Commit _ _, t) \<Rightarrow> revoked_device target t | _ \<Rightarrow> True"
  using revokeTx_revokes by (auto split: sum.split outcome.split)

text \<open>
  C11: Rotation replaces the credential: after a token rotation only a token with the new hash
  authenticates as the device; the previous token is dead.
\<close>

theorem rotation_replaces_token:
  "case rotateTx r ph nh fp now s of Inl _ \<Rightarrow> True | Inr (_, t) \<Rightarrow> accepted_hashes i (trq_DeviceID r) t \<subseteq> {nh}"
  using rotateTx_accepted by (fastforce split: sum.split)


text \<open>
  A grant is honoured only inside its window: a lookup that finds a grant finds a row of the current
  boot with exactly the presented hash, and the in-memory deadline of that grant lies in the future.
\<close>

theorem grant_valid:
  "case lookupGrant e presented now s of
     Inl _ \<Rightarrow> True
   | Inr consumed \<Rightarrow> booted e
       \<and> (\<exists>g\<in>set (t_enrollment_grants s). eg_boot_id g = CBlob (bootID e) \<and> eg_grant_hash g = CBlob presented
            \<and> scan_opt_uuid (eg_consumed_enrollment_id g) = Some consumed)
       \<and> (\<exists>deadline. (presented, deadline) \<in> set (grantDeadlines e) \<and> now < deadline)"
  using lookupGrant_sound by (auto split: sum.split)

text \<open>
  C13: Enrollment is rate limited: of the attempts presented at non-decreasing times to a server that
  starts with an empty window, at most five admitted ones fall into any minute.
\<close>

theorem enrollment_rate_limited:
  assumes "sorted ts"
  shows "in_window t (admitted [] ts) \<le> 5"
proof (cases ts)
  case Nil
  then show ?thesis by (simp add: in_window_def)
next
  case (Cons first rest)
  then show ?thesis
    using admitted_window[of first ts "[]" "[]" t] assms by (simp add: in_window_def)
qed

theorem enrollment_rate_limited_witness:
  "in_window 9 (admitted [] [1, 2, 3, 4, 5, 6, 7, 8, 9]) \<le> 5 \<and> admitted [] [1, 2, 3, 4, 5, 6, 7, 8, 9] = [1, 2, 3, 4, 5]"
  using enrollment_rate_limited[of "[1, 2, 3, 4, 5, 6, 7, 8, 9]" 9] by (simp add: admitAttempt_def Minute_def Second_def Millisecond_def)

section \<open>Idempotency and the envelope\<close>

text \<open>
  C14: A stored receipt answers the retry: after \<^verbatim>\<open>storeReceiptAtUptime\<close> (its pruning included) a lookup
  with the same device, operation and request identifier refuses a different request fingerprint and
  returns the stored response for the same one; a body that could not be read back is an internal error.
\<close>

theorem receipt_answers_retry:
  "case storeReceiptAtUptime deviceID operation requestID fp resp now up s of
     Inl _ \<Rightarrow> True
   | Inr (_, t) \<Rightarrow> lookupReceipt identity deviceID operation requestID fp' t =
       (if 0 < length (rs_Body resp) \<and> length (rs_Body resp) \<le> maxBodyBytes
          \<and> validateStoredOperationResponse operation 200 (rs_Body resp) identity
        then if fp' = fp then Inr (Some \<lparr>rs_Status = 200, rs_Body = rs_Body resp, rs_Headers = []\<rparr>)
             else Inl (NewError ''request_id_reused'' False)
        else Inl internal_error)"
proof (cases "storeReceiptAtUptime deviceID operation requestID fp resp now up s")
  case (Inr r)
  obtain u t where r: "storeReceiptAtUptime deviceID operation requestID fp resp now up s = Inr (u, t)" using Inr by (cases r) auto
  show ?thesis unfolding r using lookup_unreadable[OF r] lookup_stored[OF r refl]
    by (cases "rs_Body resp = [] \<or> maxBodyBytes < length (rs_Body resp)") auto
qed simp

text \<open>
  C15: Pruning never drops a receipt a client may still retry: the removed receipts (at most 256 per
  call) all belong to the pruned device and class, are older than the minimum age of accumulated uptime,
  and have at least the protected number of newer receipts in their class.
\<close>

theorem pruning_safe:
  "case pruneOperationReceipts deviceID operation up n age s of
     Inl _ \<Rightarrow> True
   | Inr (_, t) \<Rightarrow> \<exists>ns. t = dropReceipts deviceID (receiptClass operation) ns s \<and> length ns \<le> 256
       \<and> set ns \<subseteq> prunable deviceID (receiptClass operation) up n age s"
  using pruneOperationReceipts_safe by (fastforce split: sum.split)

text \<open>
  The accumulated uptime is a saturating clock: a checkpoint adds the milliseconds elapsed since the
  last checkpoint of this process, never a negative amount, and stops at the largest 64-bit value instead
  of wrapping around; the new in-memory checkpoint accounts for exactly what was added.
\<close>

theorem uptime_saturates:
  "case checkpointUptimeTx e now s of
     Inl _ \<Rightarrow> True
   | Inr ((up, cp), t) \<Rightarrow> \<exists>old. rt_accumulated_uptime_ms (t_runtime_state s) = uint64_cell old
       \<and> rt_accumulated_uptime_ms (t_runtime_state t) = uint64_cell up
       \<and> uint up = min (2 ^ 64 - 1) (uint old + max 0 (elapsedMilliseconds e now))
       \<and> cp = uptimeCheckpoint e + max 0 (elapsedMilliseconds e now) * Millisecond"
proof (cases "checkpointUptimeTx e now s")
  case (Inr r)
  obtain up cp t where r: "checkpointUptimeTx e now s = Inr ((up, cp), t)" using Inr by (metis surj_pair)
  obtain old where "rt_accumulated_uptime_ms (t_runtime_state s) = uint64_cell old"
    using checkpointUptimeTx_scans[OF r] by blast
  then show ?thesis unfolding r using checkpointUptimeTx_value[OF r] by auto
qed simp

text \<open>
  C16: The envelope is replaced by compare-and-swap: a committed PUT named the stored generation, the new
  generation and the new cursor are the successors of the stored ones without wrap-around, and exactly
  the validated envelope is stored under them.
\<close>

theorem envelope_compare_and_swap:
  "case putEnvelopeTx i e call expected req s of
     Inr (Commit resp cp, t) \<Rightarrow> \<exists>c secret n. readRuntimeState s = Inr (c, expected, secret, n) \<and> expected \<noteq> - 1 \<and> c \<noteq> - 1
       \<and> validateEnvelope (peq_Envelope req) i = Some (expected + 1, secret)
       \<and> t_vault_envelope t = Some \<lparr>vb_generation = uint64_cell (expected + 1), vb_envelope_json = CBlob (marshal (to_vaultEnvelope (peq_Envelope req)))\<rparr>
       \<and> rt_envelope_generation (t_runtime_state t) = uint64_cell (expected + 1)
       \<and> rt_server_cursor (t_runtime_state t) = uint64_cell (c + 1)
   | _ \<Rightarrow> True"
  by (auto split: sum.split outcome.split elim!: putEnvelopeTx_commit simp: response200_def)

text \<open>
  C17: A retried PUT is idempotent: sending the same request again to the store it left behind gives the
  same response and changes nothing, even when the server restarted its transaction layer in between.
\<close>

theorem put_retry_idempotent:
  assumes "handlePutEnvelope io call store = (Inr resp, store')" "identity_ok (st_identity store)" "io_begin io'"
  shows "handlePutEnvelope io' call store' = (Inr resp, store')"
  using assms by (rule put_again)

theorem put_retry_idempotent_witness:
  "\<exists>resp store'. handlePutEnvelope ex_io ex_put ex_vault = (Inr resp, store') \<and> handlePutEnvelope ex_io ex_put store' = (Inr resp, store')"
proof -
  obtain resp store' where "handlePutEnvelope ex_io ex_put ex_vault = (Inr resp, store')" using ex_put_succeeds by blast
  moreover from this have "handlePutEnvelope ex_io ex_put store' = (Inr resp, store')"
    by (rule put_retry_idempotent) (simp_all add: ex_vault_simps ex_identity_ok ex_io_def)
  ultimately show ?thesis by blast
qed

text \<open>
  C18: What was put is what is read: once a PUT has committed, an authenticated GET on the resulting store
  answers with exactly the committed response.
\<close>

theorem get_returns_put:
  assumes "putEnvelopeTx (st_identity store) e call expected req s = Inr (Commit resp cp, st_db store)"
    and "identity_ok (st_identity store)" "rq_Body get = []" "io_begin io"
    and "auth_device (authenticate (st_identity store) (rq_Authorization get) ''envelope:read'' (st_db store)) \<noteq> None"
  shows "handleGetEnvelope io get store = (Inr resp, store)"
proof -
  obtain a where "authenticate (st_identity store) (rq_Authorization get) ''envelope:read'' (st_db store) = Inr a"
    using assms(5) by (auto simp: auth_device_def split: sum.splits)
  from get_after_put[OF assms(1,2) this assms(3) refl refl assms(4)] show ?thesis .
qed

theorem get_returns_put_witness:
  "\<exists>resp store. st_identity store = ex_identity \<and> rs_Status resp = 200 \<and> handleGetEnvelope ex_io ex_get store = (Inr resp, store)"
proof -
  obtain resp cp t where put: "putEnvelopeTx ex_identity (st_ephemeral ex_vault) ex_put 0 ex_put_request (st_db ex_vault) = Inr (Commit resp cp, t)"
    using ex_put_commits by blast
  let ?store = "ex_vault\<lparr>st_db := t\<rparr>"
  have t: "t_devices t = t_devices (st_db ex_vault)" "rs_Status resp = 200" 
    by (rule putEnvelopeTx_commit[OF put]; simp add: response200_def)+
  have "handleGetEnvelope ex_io ex_get ?store = (Inr resp, ?store)"
  proof (rule get_returns_put)
    show "putEnvelopeTx (st_identity ?store) (st_ephemeral ex_vault) ex_put 0 ex_put_request (st_db ex_vault) = Inr (Commit resp cp, st_db ?store)"
      using put by (simp add: ex_vault_simps)
    show "auth_device (authenticate (st_identity ?store) (rq_Authorization ex_get) ''envelope:read'' (st_db ?store)) \<noteq> None"
      using ex_get_authenticated[OF t(1)] by (simp add: ex_vault_simps)
  qed (simp_all add: ex_vault_simps ex_identity_ok ex_io_def ex_get_def ex_call_def)
  then show ?thesis using t(2) by (intro exI[of _ resp] exI[of _ ?store]) (simp add: ex_vault_simps)
qed

section \<open>Revisions, frontiers and collection\<close>

text \<open>
  C19: The frontiers stay frontiers: in every reachable store the heads of each record are stored
  revisions, and the version vector of none of them dominates that of another.
\<close>

theorem frontiers_invariant:
  assumes "store_reachable store store'" "frontiers_ok (st_db store)"
  shows "frontiers_ok (st_db store')"
  using assms frontiers.rel_reachable unfolding keeps_frontiers_def by blast

theorem frontiers_invariant_witness:
  "frontiers_ok (st_db (snd (HandleAPI ex_io (ex_call ''POST'' ''/v1/sync'' []) ex_store)))"
  by (rule frontiers_invariant[OF ex_reachable]) (simp add: ex_store_def ex_frontiers_ok)

text \<open>
  C20: Accepting a batch implements the abstract frontier: for every record, the heads afterwards are the
  heads before, stepped once per new revision of that record in order, where a step drops what the new
  revision dominates and adds the revision unless it is dominated itself.
\<close>

theorem acceptance_refines_frontier:
  assumes "list_all valid_item items" "heads_stored s"
  shows "case acceptRevisions up now items c s of
     Inl _ \<Rightarrow> True
   | Inr (_, t) \<Rightarrow> frontier recordID t = frontier_run recordID items (frontier recordID s)"
  using acceptRevisions_frontier[OF _ assms] by (auto split: sum.split)

theorem acceptance_refines_frontier_witness:
  "case acceptRevisions 9 0 [ex_item] 0 ex_db of
     Inl _ \<Rightarrow> True
   | Inr (_, t) \<Rightarrow> frontier ex_record t = frontier_run ex_record [ex_item] (frontier ex_record ex_db)"
  by (rule acceptance_refines_frontier) (use ex_frontiers_ok ex_valid_item in \<open>simp_all add: frontiers_ok_def\<close>)

text \<open>
  C21: Collection is safe: when one record is collected, the only revision rows it changes are those of
  collectable revisions, that is candidates older than the minimum retention of accumulated uptime, at a
  barrier every active device has acknowledged, and covered by a head of the record or by its stored
  authenticated marker.
\<close>

theorem collection_safe:
  "case collectRecord acks up now st recordID s of
     Inl _ \<Rightarrow> True | Inr (_, t) \<Rightarrow> only_changes {k. collectable acks up recordID s k} s t"
  using collectRecord_safe by (fastforce split: sum.split)

section \<open>Synchronisation\<close>

text \<open>
  A device numbers its revisions without gaps: in an accepted batch the new revisions carry, in
  order, the counters following the stored maximum of the author, and the counter to be stored is the last.
\<close>

theorem author_counters_consecutive:
  "case validateMutations deviceID c revisions s of
     Inl _ \<Rightarrow> True
   | Inr (items, n, d) \<Rightarrow> map (unat \<circ> pn_authorCounter) (filter pn_isNew items) = [Suc (unat c)..<Suc (unat c + n)] \<and> unat d = unat c + n"
  using validateMutations_counters by (fastforce split: sum.split)

text \<open>
  C22: A page of changes skips nothing: the cursors returned after \<open>a\<close> are, in increasing order and at
  most \<^verbatim>\<open>maxChanges\<close> of them, exactly the recorded ones up to the returned next cursor, and \<^verbatim>\<open>has_more\<close>
  says whether a later one exists.
\<close>

theorem change_page_complete:
  assumes "distinct (map cg_cursor (t_changes s))"
  shows "case loadChanges a s of
     Inl _ \<Rightarrow> True
   | Inr (changes, nxt, hm) \<Rightarrow> \<exists>cs. map ch_Cursor changes = map encodeUint64Text cs \<and> sorted_wrt (<) cs \<and> length cs \<le> maxChanges
     \<and> uint64_cell ` set cs = {k \<in> cg_cursor ` set (t_changes s). uint64_cell a < k \<and> k \<le> uint64_cell nxt}
     \<and> hm = (\<exists>k\<in>cg_cursor ` set (t_changes s). uint64_cell nxt < k)"
proof (cases "loadChanges a s")
  case (Inr r)
  obtain changes nxt hm where r: "r = (changes, nxt, hm)" by (cases r)
  show ?thesis using loadChanges_page[OF Inr[unfolded r] assms] unfolding Inr r by simp
qed simp

theorem change_page_complete_witness:
  "case loadChanges 0 ex_db of
     Inl _ \<Rightarrow> True
   | Inr (changes, nxt, hm) \<Rightarrow> \<exists>cs. map ch_Cursor changes = map encodeUint64Text cs \<and> sorted_wrt (<) cs \<and> length cs \<le> maxChanges
     \<and> uint64_cell ` set cs = {k \<in> cg_cursor ` set (t_changes ex_db). uint64_cell 0 < k \<and> k \<le> uint64_cell nxt}
     \<and> hm = (\<exists>k\<in>cg_cursor ` set (t_changes ex_db). uint64_cell nxt < k)"
  by (rule change_page_complete) (simp add: ex_db_def)

text \<open>
  C23: Shrinking a sync response keeps it truthful: the loop ends, the body fits the limit, it carries a
  prefix of the changes, and the returned cursor is that of the last change kept with \<^verbatim>\<open>has_more\<close> set
  whenever any was dropped.
\<close>

theorem shrinking_truthful:
  "case shrinkResponse sc eg changes next hm of
     Inl _ \<Rightarrow> True
   | Inr (body, returned) \<Rightarrow> length body \<le> maxBodyBytes \<and> (\<exists>n\<le>length changes.
       body = syncBody sc eg (take n changes) returned (hm \<or> n < length changes)
       \<and> (if n = length changes then returned = next else 0 < n \<and> ch_Cursor (changes ! (n - 1)) = encodeUint64Text returned))"
proof (cases "shrinkResponse sc eg changes next hm")
  case (Inr r)
  obtain body returned where r: "r = (body, returned)" by (cases r)
  show ?thesis using shrinkResponse_spec[OF Inr[unfolded r]] unfolding Inr r sum.case prod.case .
qed simp

section \<open>Snapshots\<close>


text \<open>
  C25: The metadata budget of a snapshot is accounted exactly: after the base row, the pages and the
  references, the account holds the length of all their length-prefixed records, and it reports overflow
  exactly when that length exceeds the largest signed 64-bit value.
\<close>

theorem snapshot_accounting_exact:
  "counts (fold (accountSnapshotReference i) refs
     (fold (\<lambda>(index, page). accountSnapshotPage i index (pg_token page) (pg_body page)) (enumerate 0 pages)
       (accountSnapshotBase i owner q createBody emptyAccount))) (lease_size i owner q createBody pages refs)"
  by (rule counts_lease)

section \<open>The transport\<close>

text \<open>
  C37: The transport protects the store: a served request either leaves the database as it was, or it was
  admitted (HTTP/1.1, no query, origin, upgrade or streaming, protocol 1, one valid request identifier, one
  credential, an empty body for GET and a JSON body of at most 4 MiB for POST and PUT), the data plane
  accepted exactly the call it makes, and the answer carries that result.
\<close>

theorem transport_protects_store:
  "st_db (snd (ServeHTTP io settings ready (Some (HandleAPI sio)) request store)) = st_db store
   \<or> (\<exists>call result. admits request call \<and> rq_Now call = hi_now io \<and> fst (HandleAPI sio call store) = Inr result
        \<and> fst (ServeHTTP io settings ready (Some (HandleAPI sio)) request store) =
            writeJSONBytes (hi_hijack io) (rs_Status result) (rq_RequestID call) (rs_Body result) (Some (rs_Headers result)))"
  using served.changed_only_accepted by blast

text \<open>
  C38: An admitted request is served: it reaches the data plane as the one call it makes, and the answer
  and the next store are those of the data plane.
\<close>

theorem admitted_request_served:
  assumes "admits request call" "rq_Now call = hi_now io"
  shows "ServeHTTP io settings ready (Some (HandleAPI sio)) request store =
    (case HandleAPI sio call store of
       (Inl e, store') \<Rightarrow> (writeError (hi_hijack io) (Status e) (Code e) (Retryable e) (rq_RequestID call), store')
     | (Inr result, store') \<Rightarrow>
         (writeJSONBytes (hi_hijack io) (rs_Status result) (rq_RequestID call) (rs_Body result) (Some (rs_Headers result)), store'))"
  unfolding ServeHTTP_admitted[OF assms] by (simp add: answer_def split: prod.split sum.split)

theorem admitted_request_served_witness:
  "ServeHTTP ex_http_io ex_identity (\<lambda>_. True) (Some (HandleAPI ex_io)) ex_http ex_store =
    (case HandleAPI ex_io ex_http_call ex_store of
       (Inl e, store') \<Rightarrow> (writeError True (Status e) (Code e) (Retryable e) ex_record, store')
     | (Inr result, store') \<Rightarrow> (writeJSONBytes True (rs_Status result) ex_record (rs_Body result) (Some (rs_Headers result)), store'))"
  using admitted_request_served[OF ex_admits, of ex_identity "\<lambda>_. True" ex_io ex_store] unfolding ex_http_simps .

text \<open>
  Every answer, errors included, carries the identifier of its request when the request named one
  valid identifier, a generated one otherwise, and the exact length of its body.
\<close>

theorem answers_carry_request_id:
  "carries (RequestIDOrFallback (hi_random io) (Values (hq_Header request) ''JAT-Request-ID'')) (fst (ServeHTTP io settings ready plane request s))"
  by (rule ServeHTTP_carries)

section \<open>Codecs\<close>

text \<open>
  C39: \<^verbatim>\<open>uuidv4.Parse\<close> accepts exactly the canonical text that \<^verbatim>\<open>Format\<close> gives to a 16-byte value
  with the version-4 and variant bits, and returns that value.
\<close>

theorem uuid_parse_iff_format:
  "Parse s = Some b \<longleftrightarrow> length b = 16 \<and> v4_bits b \<and> s = Format b"
  by (rule Parse_eq_Some)

text \<open>
  C40: Decoding undoes encoding on the wire: a value of a message type whose strings are valid UTF-8 is
  read back unchanged by \<^verbatim>\<open>decodeStrict\<close> from the body \<^verbatim>\<open>marshalJSON\<close> writes.
\<close>

theorem strict_decode_of_marshal:
  assumes "has_type t v" "text_ok v" "type_ok t" "type_depth t \<le> 32"
  shows "decodeStrict t (marshal v) = Some v"
  using assms by (rule decodeStrict_marshal)

theorem strict_decode_of_marshal_witness:
  "decodeStrict (TSlice TBool) (marshal (GSlice (Some [GBool True]))) = Some (GSlice (Some [GBool True]))"
  by (rule strict_decode_of_marshal) simp_all

text \<open>
  A valid version vector always fits its column: whatever its at most 64 entries are, its JSON text
  is no longer than \<^verbatim>\<open>maxVectorBytes\<close> and is read back unchanged.
\<close>

theorem vector_body_fits:
  "case validateVector es of
     None \<Rightarrow> True
   | Some v \<Rightarrow> length (marshal (GSlice (Some (map to_vectorEntry es)))) \<le> maxVectorBytes
       \<and> json_Unmarshal (TSlice T_vectorEntry) (marshal (GSlice (Some (map to_vectorEntry es)))) = Some (GSlice (Some (map to_vectorEntry es)))"
  using valid_vector_wire by (auto split: option.split)

text \<open>
  Counters are stored so that the order of the blobs is the order of the numbers: the 8-byte
  encoding is inverted by its decoder, which accepts nothing else, and it is strictly monotone for the
  bytewise comparison of the database.
\<close>

theorem counter_blobs_ordered:
  "(DecodeUint64 b = Some v \<longleftrightarrow> b = EncodeUint64 v) \<and> (EncodeUint64 v < EncodeUint64 w \<longleftrightarrow> v < w)"
  by (simp add: DecodeUint64_eq_Some EncodeUint64_less_iff)

text \<open>
  Dominance of version vectors is the strict pointwise order: no component of the dominated vector
  exceeds the other's, where an absent device counts as zero, and some component is smaller.
\<close>

theorem dominance_pointwise:
  assumes "distinct (map fst l)" "distinct (map fst r)"
  shows "vectorDominates l r \<longleftrightarrow> (\<forall>d. vget r d \<le> vget l d) \<and> (\<exists>d. vget r d < vget l d)"
  using assms by (rule vectorDominates_iff)

theorem dominance_pointwise_witness:
  "vectorDominates [(ex_device, 2), (ex_retired, 1)] [(ex_device, 2)] \<longleftrightarrow>
     (\<forall>d. vget [(ex_device, 2)] d \<le> vget [(ex_device, 2), (ex_retired, 1)] d)
     \<and> (\<exists>d. vget [(ex_device, 2)] d < vget [(ex_device, 2), (ex_retired, 1)] d)"
  by (rule dominance_pointwise) (simp_all add: ex_device_def ex_retired_def)

text \<open>
  Credentials are domain separated: the inputs hashed for device tokens, enrollment grants and
  request fingerprints are never equal, whatever the identities, secrets and bodies.
\<close>

theorem credential_domains_disjoint:
  assumes "length label < 2 ^ 32" "label \<noteq> ''JAT device token hash v1''" "label \<noteq> ''JAT enrollment grant hash v1''"
  shows "deviceTokenPreimage i v d t \<noteq> enrollmentGrantPreimage i' v' g
    \<and> requestBodyPreimage label i2 v2 d2 body \<noteq> deviceTokenPreimage i v d t
    \<and> requestBodyPreimage label i2 v2 d2 body \<noteq> enrollmentGrantPreimage i' v' g"
  by (intro conjI preimages_disjoint[OF assms])

theorem credential_domains_disjoint_witness:
  "deviceTokenPreimage [] [] [] [] \<noteq> enrollmentGrantPreimage [] [] []
    \<and> requestBodyPreimage ''JAT sync request fingerprint v1'' [] [] [] [] \<noteq> deviceTokenPreimage [] [] [] []
    \<and> requestBodyPreimage ''JAT sync request fingerprint v1'' [] [] [] [] \<noteq> enrollmentGrantPreimage [] [] []"
  by (rule credential_domains_disjoint) simp_all

section \<open>Instances\<close>

text \<open>
  C26: The data of an instance is never lost or mixed up. From a consistent state directory, every sequence
  of initializations, of servers that open the store, serve any requests and end at any point, and of
  interruptions (each write may fail or stop the machine before or after it took effect) leads to a
  consistent one: settings come before secret and database, the database belongs to the identity in the
  settings, a marker that says ready stands beside all three; and settings, secret and the identity of the
  database are never replaced.
\<close>

theorem instance_data_kept:
  assumes "inst_ok owned_by m" "instance_step\<^sup>*\<^sup>* m m'"
  shows "inst_ok owned_by m' \<and> keeps owned_by m m'"
  using instance_reachable_since[OF assms(2,1)] .

theorem instance_data_kept_witness:
  "\<exists>m' s. instance_step\<^sup>*\<^sup>* vacant_dir m' \<and> installed s m' \<and> inst_ok owned_by m' \<and> keeps owned_by vacant_dir m'"
  using calm_installs instance_data_kept[OF vacant_ok[OF vacant_dir_vacant]] by blast

text \<open>
  C27: Initialization completes and is idempotent. After any number of initializations of an empty directory
  that were interrupted anywhere, one that meets no failure returns the settings and leaves them, a secret
  of 32 bytes and a valid database of their identity beside a marker that says ready, without replacing
  what earlier attempts had written; repeating it returns the same settings and changes no file, and a
  server then opens the store of that identity.
\<close>

theorem initialization_completes:
  assumes "vacant m0" "init_step\<^sup>*\<^sup>* m0 m" "obligingI I"
  shows "\<exists>m' s. InitializeInstance I None m = (m', Done s) \<and> installed s m' \<and> keeps full_for m m' \<and>
    (\<exists>m''. InitializeInstance I None m' = (m'', Done s) \<and> same_files m' m'') \<and>
    (\<exists>m'' store. OpenForServe I m' = (m'', Done (s, store)) \<and> same_files m' m'' \<and> st_identity store = settingsIdentity s)"
  using assms by (rule initialization_outcome)

theorem initialization_completes_witness:
  "InitializeInstance stopping_os None vacant_dir = (stopped_dir, Crashed) \<and>
   (\<exists>m' s. InitializeInstance calm_os None stopped_dir = (m', Done s) \<and> installed s m' \<and> keeps full_for stopped_dir m')"
  using stopped_run initialization_completes[OF vacant_dir_vacant stopped_reached calm_obliging] by blast

section \<open>Deployment\<close>

text \<open>
  C28: The metadata of a deployment survives every failure. After any sequence of applies, rollbacks,
  uninstallations and status reports, each with an arbitrary environment and each ended by a result, an
  error or a crash at any point, the state file is absent or valid, the journal is absent or valid, and
  the state file holds the prior state of the journal or, once the commit was announced, the state the
  journal commits; once the journal says that the state is saved it holds that state.
\<close>

theorem deployment_consistent:
  assumes "deployed l h h'" "consistent l h"
  shows "consistent l h'"
  using deployed_consistent[OF assms] by simp

theorem deployment_consistent_witness:
  "consistent ex_layout (fst (RollbackRelease ex_lifecycle ex_host))"
  by (rule deployment_consistent[OF ex_deployed ex_consistent])







text \<open>
  C32: A result means a committed state. When a rollback, an uninstallation or an apply returns a result
  on consistent metadata, the state it reports is the one in the state file and no journal is left.
\<close>

theorem operation_commits:
  assumes "consistent (lc_layout L) h"
  shows "(case RollbackRelease L h of (h', Done r) \<Rightarrow> stateFile h' = Stored (ar_State r) \<and> journalFile h' = Absent | _ \<Rightarrow> True) \<and>
    (case Uninstall L h of (h', Done r) \<Rightarrow> stateFile h' = Stored (ur_State r) \<and> journalFile h' = Absent | _ \<Rightarrow> True) \<and>
    (case applyTransaction L request desired availability h of
       (h', Done r) \<Rightarrow> stateFile h' = Stored (ar_State r) \<and> journalFile h' = Absent | _ \<Rightarrow> True)"
  using tripleD[OF triple_Rollback[OF refl assms] like_refl] tripleD[OF triple_Uninstall[OF refl assms] like_refl]
    tripleD[OF triple_apply[OF refl assms] like_refl]
  by (fastforce simp: completes_def split: prod.splits reply.splits)

theorem operation_commits_witness:
  "case RollbackRelease ex_lifecycle ex_host of (h', Done r) \<Rightarrow> stateFile h' = Stored (ar_State r) \<and> journalFile h' = Absent
     | _ \<Rightarrow> True"
  using operation_commits[of ex_lifecycle ex_host] ex_consistent by (simp add: ex_lifecycle_layout)







text \<open>
  C36: The compiled-in attestation is unambiguous. A text parses to an identity exactly when it is the
  encoding of that identity, so no two identities share an attestation and nothing else is accepted.
\<close>

theorem attestation_roundtrip:
  "ParseIdentity s = Some i \<longleftrightarrow> EncodeIdentity i = Some s"
  by (rule ParseIdentity_eq_Some)

end
